(* ===== verification/Prelude.thy ===== *)
theory Prelude
  imports Complex_Main "HOL-Library.Word"
begin

text \<open>
  Shared ground of the development: names for the machine types of the C++ sources, the
  little-endian byte accessors that the EtherCAT and CAN code repeats, the collections of
  simplification rules the component theories fill, and three interfaces used throughout:
  \<open>byte_codec\<close> (an encoder and a decoder that invert each other), \<open>guarded_machine\<close>
  (a deterministic state machine with an invariant that every event keeps) and
  \<open>latched_machine\<close> (a predicate that only certain events can end).
\<close>

unbundle bit_operations_syntax

section \<open>Machine types\<close>

type_synonym u8 = "8 word"
type_synonym u16 = "16 word"
type_synonym u32 = "32 word"
type_synonym u64 = "64 word"
type_synonym i8 = "8 word" \<comment> \<open>two's complement, read with \<open>sint\<close>\<close>
type_synonym i16 = "16 word" \<comment> \<open>two's complement, read with \<open>sint\<close>\<close>
type_synonym i32 = "32 word" \<comment> \<open>two's complement, read with \<open>sint\<close>\<close>
type_synonym bytes = "u8 list"
type_synonym buffer = "bytes option" \<comment> \<open>pointer and size; \<open>None\<close> is the null pointer\<close>

named_theorems codec_simps "unfolding rules of the byte-level encoders and decoders"
named_theorems frame_simps "fields an operation leaves unchanged"

section \<open>Errors as values\<close>

text \<open>A C++ function that returns \<open>bool\<close> and fills an error string is a sum: \<open>Inl\<close> is \<open>false\<close>
  with the error text, \<open>Inr\<close> is \<open>true\<close> with the output parameters.\<close>

definition require :: "bool \<Rightarrow> 'e \<Rightarrow> 'e + unit" where
  "require b e = (if b then Inr () else Inl e)"

definition bind_sum :: "'e + 'a \<Rightarrow> ('a \<Rightarrow> 'e + 'b) \<Rightarrow> 'e + 'b" where
  "bind_sum r f = (case r of Inl e \<Rightarrow> Inl e | Inr a \<Rightarrow> f a)"

lemma bind_sum_simps [simp]:
  "bind_sum (Inl e) f = Inl e"
  "bind_sum (Inr a) f = f a"
  by (simp_all add: bind_sum_def)

lemma bind_sum_Inr_iff [simp]:
  "bind_sum r f = Inr b \<longleftrightarrow> (\<exists>a. r = Inr a \<and> f a = Inr b)"
  by (cases r) auto

lemma require_simps [simp]:
  "require b e = Inr () \<longleftrightarrow> b"
  "require b e = Inl e' \<longleftrightarrow> \<not> b \<and> e' = e"
  "require b e = Inr u \<longleftrightarrow> b"
  by (auto simp: require_def)

definition is_ok :: "'e + 'a \<Rightarrow> bool" where
  "is_ok r = (case r of Inl _ \<Rightarrow> False | Inr _ \<Rightarrow> True)"

lemma is_ok_simps [simp]: "is_ok (Inl e) = False" "is_ok (Inr a) = True"
  by (simp_all add: is_ok_def)

lemma is_ok_iff: "is_ok r \<longleftrightarrow> (\<exists>a. r = Inr a)"
  by (cases r) auto

section \<open>Little-endian accessors\<close>

definition store_u16_le :: "u16 \<Rightarrow> bytes" where
  "store_u16_le v = [ucast (v AND 0xFF), ucast (drop_bit 8 v AND 0xFF)]"

definition store_u32_le :: "u32 \<Rightarrow> bytes" where
  "store_u32_le v = map (\<lambda>i. ucast (drop_bit (8 * i) v AND 0xFF)) [0, 1, 2, 3]"

definition load_u16_le :: "bytes \<Rightarrow> u16" where
  "load_u16_le bs = ucast (bs ! 0) OR push_bit 8 (ucast (bs ! 1))"

definition load_u32_le :: "bytes \<Rightarrow> u32" where
  "load_u32_le bs = fold (\<lambda>i v. v OR push_bit (8 * i) (ucast (bs ! i))) [0, 1, 2, 3] 0"

lemma length_store_le [simp]:
  "length (store_u16_le v) = 2" "length (store_u32_le w) = 4"
  by (simp_all add: store_u16_le_def store_u32_le_def)

lemma ucast_and_0xFF [simp]: "ucast (w AND 0xFF) = (ucast (w :: 'a::len word) :: u8)"
proof (rule bit_word_eqI)
  fix n :: nat
  assume n: "n < LENGTH(8)"
  have eq: "(0xFF :: 'a word) = mask 8"
    by (simp add: mask_eq_exp_minus_1)
  show "bit (ucast (w AND 0xFF) :: u8) n \<longleftrightarrow> bit (ucast w :: u8) n"
    unfolding eq using n by (auto simp only: bit_ucast_iff bit_and_iff bit_mask_iff)
      (auto dest: bit_imp_le_length)
qed

lemma bit_u8_high [simp]: "8 \<le> n \<Longrightarrow> \<not> bit (w :: u8) n"
  by (auto dest: bit_imp_le_length)

lemma load_store_u16_le [simp]: "load_u16_le (store_u16_le v @ rest) = v"
  unfolding load_u16_le_def store_u16_le_def
  by (rule bit_word_eqI) (auto simp: bit_simps)

lemma load_store_u32_le [simp]: "load_u32_le (store_u32_le v @ rest) = v"
proof (rule bit_word_eqI)
  fix n :: nat
  assume "n < LENGTH(32)"
  then consider "n < 8" | "8 \<le> n" "n < 16" | "16 \<le> n" "n < 24" | "24 \<le> n" "n < 32"
    by force
  then show "bit (load_u32_le (store_u32_le v @ rest)) n \<longleftrightarrow> bit v n"
    by cases (simp_all add: load_u32_le_def store_u32_le_def bit_simps, linarith+)
qed

lemma load_store_u16_le_Nil [simp]: "load_u16_le (store_u16_le v) = v"
  using load_store_u16_le [of v "[]"] by simp

lemma load_store_u32_le_Nil [simp]: "load_u32_le (store_u32_le v) = v"
  using load_store_u32_le [of v "[]"] by simp

lemma store_load_u16_le: "store_u16_le (load_u16_le [a, b]) = [a, b]"
  unfolding load_u16_le_def store_u16_le_def
  by (auto intro!: bit_word_eqI simp: bit_simps)

lemma store_load_u32_le: "store_u32_le (load_u32_le [a, b, c, d]) = [a, b, c, d]"
  unfolding load_u32_le_def store_u32_le_def
  by (auto intro!: bit_word_eqI simp: bit_simps)


lemma load_u16_le_append [simp]:
  "2 \<le> length a \<Longrightarrow> load_u16_le (a @ b) = load_u16_le a"
  by (auto simp: load_u16_le_def nth_append)

lemma load_u32_le_append [simp]:
  "4 \<le> length a \<Longrightarrow> load_u32_le (a @ b) = load_u32_le a"
  by (auto simp: load_u32_le_def nth_append)

section \<open>Searching a text\<close>

text \<open>\<open>std::string::find\<close> against \<open>npos\<close>.\<close>

fun contains :: "string \<Rightarrow> string \<Rightarrow> bool" where
  "contains p [] \<longleftrightarrow> p = []"
| "contains p (c # cs) \<longleftrightarrow> take (length p) (c # cs) = p \<or> contains p cs"

lemma contains_iff: "contains p t \<longleftrightarrow> (\<exists>a b. t = a @ p @ b)"
proof (induction t)
  case Nil
  then show ?case by simp
next
  case (Cons c t)
  have "take (length p) (c # t) = p \<longleftrightarrow> (\<exists>b. c # t = p @ b)"
    by (metis append_eq_conv_conj append_take_drop_id)
  moreover have "(\<exists>a b. c # t = a @ p @ b) \<longleftrightarrow> (\<exists>b. c # t = p @ b) \<or> (\<exists>a b. t = a @ p @ b)"
    by (auto simp: Cons_eq_append_conv)
  ultimately show ?case
    using Cons by simp
qed

lemma contains_mono: "contains p t \<Longrightarrow> contains p (a @ t @ b)"
  unfolding contains_iff by (metis append_assoc)

section \<open>Interface: a byte encoder and its decoder\<close>

text \<open>The encoder produces a byte string from every value it accepts (\<open>valid\<close>), the decoder reads
  it back. Clients (frames made of headers, mailboxes made of services) use only these laws.\<close>

locale byte_codec =
  fixes encode :: "'a \<Rightarrow> bytes option"
    and decode :: "bytes \<Rightarrow> 'a option"
    and valid :: "'a \<Rightarrow> bool"
  assumes encode_valid: "valid x \<Longrightarrow> \<exists>bs. encode x = Some bs"
    and decode_encode: "valid x \<Longrightarrow> encode x = Some bs \<Longrightarrow> decode bs = Some x"
begin

lemma encode_inj:
  assumes "valid x" "valid y" "encode x = encode y"
  shows "x = y"
proof -
  obtain bs where bs: "encode x = Some bs"
    using encode_valid [OF assms(1)] by blast
  then have "decode bs = Some x" "encode y = Some bs"
    using assms decode_encode by simp_all
  moreover from this(2) have "decode bs = Some y"
    using decode_encode assms(2) by blast
  ultimately show ?thesis by simp
qed

lemma round_trip: "valid x \<Longrightarrow> Option.bind (encode x) decode = Some x"
  using encode_valid decode_encode by fastforce

end

section \<open>Interface: a machine with an invariant\<close>

text \<open>A component with state is a step function over events. The invariant holds in every initial
  state and every event keeps it; then it holds after every sequence of events, and every safety
  property it implies holds in every state of a run.\<close>

fun run_events :: "('s \<Rightarrow> 'e \<Rightarrow> 's) \<Rightarrow> 's \<Rightarrow> 'e list \<Rightarrow> 's" where
  "run_events step s [] = s"
| "run_events step s (e # es) = run_events step (step s e) es"

lemma run_events_append:
  "run_events step s (es @ fs) = run_events step (run_events step s es) fs"
  by (induction es arbitrary: s) simp_all

locale guarded_machine =
  fixes step :: "'s \<Rightarrow> 'e \<Rightarrow> 's"
    and inv :: "'s \<Rightarrow> bool"
  assumes step_inv: "inv s \<Longrightarrow> inv (step s e)"
begin

lemma run_inv: "inv s \<Longrightarrow> inv (run_events step s es)"
  by (induction es arbitrary: s) (simp_all add: step_inv)

lemma run_safe:
  assumes "inv s" and "\<And>t. inv t \<Longrightarrow> safe t"
  shows "safe (run_events step s es)"
  using run_inv [OF assms(1)] by (rule assms(2))

end

text \<open>A latch holds from the moment it is set until an event that may release it: in every run that
  ends unlatched there is such an event, met in a latched state.\<close>

locale latched_machine =
  fixes step :: "'s \<Rightarrow> 'e \<Rightarrow> 's"
    and latch :: "'s \<Rightarrow> bool"
    and releases :: "'s \<Rightarrow> 'e \<Rightarrow> bool"
  assumes step_latch: "latch s \<Longrightarrow> latch (step s e) \<or> releases s e"
begin

lemma released_by:
  assumes "latch s" "\<not> latch (run_events step s es)"
  shows "\<exists>pre e post. es = pre @ e # post \<and> latch (run_events step s pre) \<and>
    releases (run_events step s pre) e"
  using assms
proof (induction es arbitrary: s)
  case Nil
  then show ?case by simp
next
  case (Cons e es)
  show ?case
  proof (cases "latch (step s e)")
    case True
    with Cons.IH [OF True] Cons.prems obtain pre f post where
      "es = pre @ f # post" "latch (run_events step s (e # pre))"
      "releases (run_events step s (e # pre)) f"
      by auto
    then show ?thesis
      by (intro exI [of _ "e # pre"] exI [of _ f] exI [of _ post]) simp
  next
    case False
    then show ?thesis
      using step_latch [OF Cons.prems(1), of e] Cons.prems(1)
      by (intro exI [of _ "[]"] exI [of _ e] exI [of _ es]) simp
  qed
qed

end

end
