(* ===== verification/Cia402.thy ===== *)
theory Cia402
  imports Prelude
begin

text \<open>
  The CiA 402 drive state machine of the lift (\<open>lift/cia402.hpp\<close>, \<open>lift/cia402.cpp\<close>): the reading
  of the status word 6041h, and the controller that answers every status with a control word
  6040h. The lemmas show when motion is allowed, that a fault is answered by at most the configured
  number of reset pulses, spaced by the backoff, and the exact schedule of the pulses.
\<close>

datatype cia402_state =
    S_unknown
  | S_not_ready_to_switch_on
  | S_switch_on_disabled
  | S_ready_to_switch_on
  | S_switched_on
  | S_operation_enabled
  | S_quick_stop_active
  | S_fault_reaction_active
  | S_fault

definition parse_cia402_status :: "u16 \<Rightarrow> cia402_state" where
  "parse_cia402_status status_word =
     (let k = status_word AND 0x006F in
      if k = 0x0000 then S_not_ready_to_switch_on
      else if k = 0x0040 then S_switch_on_disabled
      else if k = 0x0021 then S_ready_to_switch_on
      else if k = 0x0023 then S_switched_on
      else if k = 0x0027 then S_operation_enabled
      else if k = 0x0007 then S_quick_stop_active
      else if k = 0x000F then S_fault_reaction_active
      else if k = 0x0028 then S_fault
      else if k = 0x0008 then S_fault
      else S_unknown)"

record cia402_inputs =
  ci_status_word :: u16
  ci_error_code :: u16
  ci_mode_display :: i8
  ci_expected_mode :: i8
  ci_link_operational :: bool
  ci_pdo_fresh :: bool
  ci_working_counter_ok :: bool
  ci_request_enable :: bool
  ci_request_quick_stop :: bool
  ci_request_fault_reset :: bool

record cia402_decision =
  cd_state :: cia402_state
  cd_control_word :: u16
  cd_mode_ok :: bool
  cd_health_ok :: bool
  cd_allow_motion :: bool
  cd_fault :: bool
  cd_recovery_exhausted :: bool

record cia402_controller =
  cc_max_fault_reset_attempts :: u32
  cc_fault_reset_backoff_cycles :: u32
  cc_fault_reset_attempts :: u32
  cc_fault_reset_backoff_remaining :: u32
  cc_recovery_exhausted :: bool

definition cia402_init :: "u32 \<Rightarrow> u32 \<Rightarrow> cia402_controller" where
  "cia402_init max_fault_reset_attempts fault_reset_backoff_cycles =
     \<lparr>cc_max_fault_reset_attempts = max_fault_reset_attempts,
      cc_fault_reset_backoff_cycles = fault_reset_backoff_cycles,
      cc_fault_reset_attempts = 0, cc_fault_reset_backoff_remaining = 0,
      cc_recovery_exhausted = False\<rparr>"

definition cia402_faulty :: "cia402_inputs \<Rightarrow> bool" where
  "cia402_faulty i \<longleftrightarrow>
     parse_cia402_status (ci_status_word i) = S_fault \<or> ci_error_code i \<noteq> 0"

definition cia402_healthy :: "cia402_inputs \<Rightarrow> bool" where
  "cia402_healthy i \<longleftrightarrow> ci_link_operational i \<and> ci_pdo_fresh i \<and> ci_working_counter_ok i \<and>
     ci_mode_display i = ci_expected_mode i \<and> \<not> cia402_faulty i"

text \<open>The decision before any branch: \<open>control_word\<close>, \<open>allow_motion\<close> and
  \<open>recovery_exhausted\<close> still have their defaults.\<close>

definition cia402_observe :: "cia402_inputs \<Rightarrow> cia402_decision" where
  "cia402_observe i =
     \<lparr>cd_state = parse_cia402_status (ci_status_word i), cd_control_word = 0,
      cd_mode_ok = (ci_mode_display i = ci_expected_mode i), cd_health_ok = cia402_healthy i,
      cd_allow_motion = False, cd_fault = cia402_faulty i, cd_recovery_exhausted = False\<rparr>"

definition quick_stop_word :: "cia402_state \<Rightarrow> u16" where
  "quick_stop_word st =
     (if st \<in> {S_switched_on, S_operation_enabled, S_quick_stop_active} then 0x000B else 0x0006)"

fun enable_word :: "cia402_state \<Rightarrow> u16" where
  "enable_word S_switch_on_disabled = 0x0006"
| "enable_word S_not_ready_to_switch_on = 0x0006"
| "enable_word S_ready_to_switch_on = 0x0007"
| "enable_word S_switched_on = 0x000F"
| "enable_word S_operation_enabled = 0x000F"
| "enable_word S_quick_stop_active = 0x000F"
| "enable_word S_fault_reaction_active = 0x0006"
| "enable_word S_fault = 0x0006"
| "enable_word S_unknown = 0x0006"

definition cia402_fault_step ::
    "cia402_controller \<Rightarrow> cia402_inputs \<Rightarrow> cia402_decision \<times> cia402_controller" where
  "cia402_fault_step c i =
     (let d = cia402_observe i;
          (w, c') =
            (if cc_fault_reset_backoff_remaining c > 0 then
               (0x0006, c\<lparr>cc_fault_reset_backoff_remaining :=
                            cc_fault_reset_backoff_remaining c - 1\<rparr>)
             else if ci_request_fault_reset i \<and>
                     cc_fault_reset_attempts c < cc_max_fault_reset_attempts c then
               (0x0080, c\<lparr>cc_fault_reset_attempts := cc_fault_reset_attempts c + 1,
                          cc_fault_reset_backoff_remaining := cc_fault_reset_backoff_cycles c\<rparr>)
             else (0x0006, c\<lparr>cc_recovery_exhausted := True\<rparr>))
      in (d\<lparr>cd_control_word := w, cd_recovery_exhausted := cc_recovery_exhausted c'\<rparr>, c'))"

definition cia402_step ::
    "cia402_controller \<Rightarrow> cia402_inputs \<Rightarrow> cia402_decision \<times> cia402_controller" where
  "cia402_step c i =
     (let d = cia402_observe i;
          c1 = (if \<not> cd_fault d \<and> cd_state d \<noteq> S_fault
                then c\<lparr>cc_fault_reset_attempts := 0, cc_fault_reset_backoff_remaining := 0,
                       cc_recovery_exhausted := False\<rparr>
                else c)
      in if cd_fault d then cia402_fault_step c1 i
         else if \<not> cd_health_ok d then (d\<lparr>cd_control_word := 0x0006\<rparr>, c1)
         else if ci_request_quick_stop i then
           (d\<lparr>cd_control_word := quick_stop_word (cd_state d)\<rparr>, c1)
         else if \<not> ci_request_enable i then (d\<lparr>cd_control_word := 0x0006\<rparr>, c1)
         else (d\<lparr>cd_control_word := enable_word (cd_state d),
                 cd_allow_motion := (cd_state d = S_operation_enabled)\<rparr>, c1))"

definition force_safe_stop :: "cia402_controller \<Rightarrow> cia402_controller" where
  "force_safe_stop c = c\<lparr>cc_recovery_exhausted := False\<rparr>"

definition cia402_reset :: "cia402_controller \<Rightarrow> cia402_controller" where
  "cia402_reset c = c\<lparr>cc_fault_reset_attempts := 0, cc_fault_reset_backoff_remaining := 0,
     cc_recovery_exhausted := False\<rparr>"

text \<open>The cycles of one control loop: one decision per input sample.\<close>

fun cia402_run :: "cia402_controller \<Rightarrow> cia402_inputs list \<Rightarrow> cia402_decision list" where
  "cia402_run c [] = []"
| "cia402_run c (i # is) = (let (d, c') = cia402_step c i in d # cia402_run c' is)"

text \<open>The events that touch the controller object.\<close>

datatype cia402_event = E_step cia402_inputs | E_force_safe_stop | E_reset

fun cia402_event_step :: "cia402_controller \<Rightarrow> cia402_event \<Rightarrow> cia402_controller" where
  "cia402_event_step c (E_step i) = snd (cia402_step c i)"
| "cia402_event_step c E_force_safe_stop = force_safe_stop c"
| "cia402_event_step c E_reset = cia402_reset c"

section \<open>Invariant\<close>

definition cia402_inv :: "cia402_controller \<Rightarrow> bool" where
  "cia402_inv c \<longleftrightarrow> cc_fault_reset_attempts c \<le> cc_max_fault_reset_attempts c \<and>
     cc_fault_reset_backoff_remaining c \<le> cc_fault_reset_backoff_cycles c"

lemmas cia402_defs = cia402_step_def cia402_fault_step_def cia402_observe_def Let_def

lemma step_not_faulty:
  assumes "\<not> cia402_faulty i"
  shows "snd (cia402_step c i) = cia402_reset c"
  using assms by (auto simp: cia402_defs cia402_reset_def cia402_faulty_def)

lemma step_faulty:
  assumes "cia402_faulty i"
  shows "cia402_step c i = cia402_fault_step c i"
  using assms by (simp add: cia402_defs)

lemma u32_inc_le: "(a :: u32) < b \<Longrightarrow> a + 1 \<le> b"
  by (simp add: inc_le)

lemma u32_dec_le: "(0 :: u32) < a \<Longrightarrow> a \<le> b \<Longrightarrow> a - 1 \<le> b"
  by unat_arith

lemma cia402_step_inv: "cia402_inv c \<Longrightarrow> cia402_inv (snd (cia402_step c i))"
proof (cases "cia402_faulty i")
  case True
  assume "cia402_inv c"
  with True show ?thesis
    unfolding step_faulty [OF True]
    by (auto simp: cia402_fault_step_def Let_def cia402_inv_def intro: u32_inc_le u32_dec_le)
next
  case False
  then show ?thesis by (simp add: step_not_faulty cia402_reset_def cia402_inv_def)
qed

interpretation cia402: guarded_machine cia402_event_step cia402_inv
proof
  fix c e
  assume "cia402_inv c"
  then show "cia402_inv (cia402_event_step c e)"
    by (cases e) (auto simp: cia402_step_inv, auto simp: cia402_inv_def force_safe_stop_def cia402_reset_def)
qed


section \<open>When motion is allowed\<close>

lemma allow_motion_iff:
  "cd_allow_motion (fst (cia402_step c i)) \<longleftrightarrow>
     cia402_healthy i \<and> ci_request_enable i \<and> \<not> ci_request_quick_stop i \<and>
     parse_cia402_status (ci_status_word i) = S_operation_enabled"
  by (auto simp: cia402_defs cia402_healthy_def)

lemma control_word_range:
  "cd_control_word (fst (cia402_step c i)) \<in> {0x0006, 0x0007, 0x000F, 0x000B, 0x0080}"
  by (cases "parse_cia402_status (ci_status_word i)")
    (auto simp: cia402_defs quick_stop_word_def)

lemma unhealthy_shutdown:
  assumes "\<not> cia402_faulty i" "\<not> cia402_healthy i \<or> \<not> ci_request_enable i \<and> \<not> ci_request_quick_stop i"
  shows "cd_control_word (fst (cia402_step c i)) = 0x0006"
  using assms by (auto simp: cia402_defs)

section \<open>The schedule of fault resets\<close>

text \<open>In a persisting fault the controller sends one reset pulse, waits the backoff, and repeats
  until the attempts are used up. On natural numbers: attempts and remaining backoff after \<open>k\<close>
  faulty cycles.\<close>

definition sched_attempts :: "nat \<Rightarrow> nat \<Rightarrow> nat \<Rightarrow> nat" where
  "sched_attempts M B k = min M ((k + B) div (B + 1))"

definition sched_backoff :: "nat \<Rightarrow> nat \<Rightarrow> nat \<Rightarrow> nat" where
  "sched_backoff M B k = (if M * (B + 1) \<le> k then 0 else (B + 1 - k mod (B + 1)) mod (B + 1))"

definition reset_due :: "nat \<Rightarrow> nat \<Rightarrow> nat \<Rightarrow> bool" where
  "reset_due M B k \<longleftrightarrow> (B + 1) dvd k \<and> k < M * (B + 1)"

lemma sched_split:
  fixes q m B M :: nat
  assumes "m \<le> B"
  shows "sched_attempts M B (q * (B + 1) + m) = min M (if m = 0 then q else q + 1)"
    and "sched_backoff M B (q * (B + 1) + m) = (if M \<le> q \<or> m = 0 then 0 else B + 1 - m)"
    and "reset_due M B (q * (B + 1) + m) \<longleftrightarrow> m = 0 \<and> q < M"
proof -
  have "(q * (B + 1) + m + B) div (B + 1) = q + (m + B) div (B + 1)"
    by (metis add.assoc div_mult_self3 add_is_0 one_neq_zero)
  moreover have "(m + B) div (B + 1) = (if m = 0 then 0 else 1)"
    using assms by (auto intro: div_nat_eqI)
  ultimately show "sched_attempts M B (q * (B + 1) + m) = min M (if m = 0 then q else q + 1)"
    by (simp add: sched_attempts_def)
  have le: "M * (B + 1) \<le> q * (B + 1) + m \<longleftrightarrow> M \<le> q"
  proof
    assume "M * (B + 1) \<le> q * (B + 1) + m"
    then have "M * (B + 1) < (q + 1) * (B + 1)" using assms by simp
    then show "M \<le> q"
      by (metis Suc_eq_plus1 less_Suc_eq_le mult_less_cancel2)
  next
    assume "M \<le> q"
    then have "M * (B + 1) \<le> q * (B + 1)" by (rule mult_le_mono1)
    then show "M * (B + 1) \<le> q * (B + 1) + m" by simp
  qed
  have md: "(q * (B + 1) + m) mod (B + 1) = m"
    using assms by (metis Suc_eq_plus1 le_imp_less_Suc mod_less mod_mult_self3)
  show "sched_backoff M B (q * (B + 1) + m) = (if M \<le> q \<or> m = 0 then 0 else B + 1 - m)"
    using assms unfolding sched_backoff_def le md by simp
  show "reset_due M B (q * (B + 1) + m) \<longleftrightarrow> m = 0 \<and> q < M"
    using le assms md unfolding reset_due_def by (simp add: dvd_eq_mod_eq_0 not_le [symmetric])
qed

lemma sched_decompose:
  fixes k B :: nat
  obtains q m where "k = q * (B + 1) + m" "m \<le> B"
  using div_mult_mod_eq [of k "B + 1"] mod_less_divisor [of "B + 1" k]
  by (metis Suc_eq_plus1 less_Suc_eq_le zero_less_Suc)

lemma sched_step:
  "if sched_backoff M B k > 0 then
     \<not> reset_due M B k \<and> sched_attempts M B (Suc k) = sched_attempts M B k \<and>
     sched_backoff M B (Suc k) = sched_backoff M B k - 1
   else if sched_attempts M B k < M then
     reset_due M B k \<and> sched_attempts M B (Suc k) = Suc (sched_attempts M B k) \<and>
     sched_backoff M B (Suc k) = B
   else
     \<not> reset_due M B k \<and> sched_attempts M B (Suc k) = sched_attempts M B k \<and>
     sched_backoff M B (Suc k) = 0"
proof -
  obtain q m where k: "k = q * (B + 1) + m" "m \<le> B"
    by (rule sched_decompose)
  consider "m < B" "Suc k = q * (B + 1) + Suc m" | "m = B" "Suc k = (q + 1) * (B + 1) + 0"
    using k by fastforce
  then show ?thesis
  proof cases
    case 1
    then have "Suc m \<le> B" by simp
    note facts = sched_split [OF this, of M q] sched_split [OF k(2), of M q]
    show ?thesis
      using 1 unfolding 1(2) unfolding k(1) facts by (auto simp: min_def)
  next
    case 2
    note facts = sched_split [of 0 B M "q + 1", simplified] sched_split [OF k(2), of M q]
    show ?thesis
      using 2 facts unfolding 2(2) unfolding k(1) by (auto simp: min_def)
  qed
qed

text \<open>The controller follows the schedule on its machine integers.\<close>

definition on_schedule :: "nat \<Rightarrow> cia402_controller \<Rightarrow> bool" where
  "on_schedule k c \<longleftrightarrow>
     (let M = unat (cc_max_fault_reset_attempts c); B = unat (cc_fault_reset_backoff_cycles c) in
      unat (cc_fault_reset_attempts c) = sched_attempts M B k \<and>
      unat (cc_fault_reset_backoff_remaining c) = sched_backoff M B k)"

lemma on_schedule_init: "on_schedule 0 (cia402_init M B)"
  by (simp add: on_schedule_def cia402_init_def sched_attempts_def sched_backoff_def)

lemma unat_inc_below: "(a :: u32) < b \<Longrightarrow> unat (a + 1) = Suc (unat a)"
  by unat_arith

lemma unat_dec_pos: "(0 :: u32) < a \<Longrightarrow> unat (a - 1) = unat a - 1"
  by unat_arith

lemma fault_step_on_schedule:
  fixes c i
  defines "M \<equiv> unat (cc_max_fault_reset_attempts c)" and "B \<equiv> unat (cc_fault_reset_backoff_cycles c)"
  assumes "on_schedule k c" "cia402_faulty i" "ci_request_fault_reset i"
  shows "cd_control_word (fst (cia402_step c i)) = (if reset_due M B k then 0x0080 else 0x0006)"
    and "on_schedule (Suc k) (snd (cia402_step c i))"
    and "cc_max_fault_reset_attempts (snd (cia402_step c i)) = cc_max_fault_reset_attempts c"
    and "cc_fault_reset_backoff_cycles (snd (cia402_step c i)) = cc_fault_reset_backoff_cycles c"
proof -
  have pos: "cc_fault_reset_backoff_remaining c > 0 \<longleftrightarrow> sched_backoff M B k > 0"
    and lt: "cc_fault_reset_attempts c < cc_max_fault_reset_attempts c \<longleftrightarrow> sched_attempts M B k < M"
    using assms(3) by (auto simp: on_schedule_def Let_def M_def B_def word_less_nat_alt)
  have inc: "unat (cc_fault_reset_attempts c + 1) = Suc (unat (cc_fault_reset_attempts c))"
    if "sched_attempts M B k < M"
    using unat_inc_below lt that by blast
  note step = step_faulty [OF assms(4)] cia402_fault_step_def Let_def
  show "cd_control_word (fst (cia402_step c i)) = (if reset_due M B k then 0x0080 else 0x0006)"
    using sched_step [of M B k] assms(5) by (auto simp: step pos lt)
  show "on_schedule (Suc k) (snd (cia402_step c i))"
    using sched_step [of M B k] assms(3,5)
    by (auto simp: step pos lt on_schedule_def inc unat_dec_pos
        simp flip: M_def B_def split: if_splits)
  show "cc_max_fault_reset_attempts (snd (cia402_step c i)) = cc_max_fault_reset_attempts c"
    and "cc_fault_reset_backoff_cycles (snd (cia402_step c i)) = cc_fault_reset_backoff_cycles c"
    by (auto simp: step)
qed

lemma run_on_schedule:
  assumes "on_schedule k c"
    and "list_all (\<lambda>i. cia402_faulty i \<and> ci_request_fault_reset i) is"
    and "j < length is"
  shows "cd_control_word (cia402_run c is ! j) =
    (if reset_due (unat (cc_max_fault_reset_attempts c)) (unat (cc_fault_reset_backoff_cycles c)) (k + j)
     then 0x0080 else 0x0006)"
  using assms
proof (induction "is" arbitrary: c k j)
  case Nil
  then show ?case by simp
next
  case (Cons i "is")
  note step = fault_step_on_schedule [OF Cons.prems(1), of i]
  show ?case
  proof (cases j)
    case 0
    then show ?thesis using Cons.prems step(1) by (auto simp: case_prod_beta Let_def)
  next
    case (Suc j')
    then show ?thesis
      using Cons.prems Cons.IH [OF step(2), of j'] step(3,4) by (simp add: case_prod_beta Let_def)
  qed
qed

lemma length_cia402_run [simp]: "length (cia402_run c is) = length is"
  by (induction "is" arbitrary: c) (auto simp: case_prod_beta Let_def)

section \<open>Properties\<close>


text \<open>In a persisting fault with resets requested, the pulses 0080h come in exactly the cycles that
  are multiples of the backoff plus one, as many as configured, and in every other cycle the
  controller commands shutdown; no arithmetic on the 32-bit counters wraps.\<close>

theorem fault_reset_schedule:
  assumes "list_all (\<lambda>i. cia402_faulty i \<and> ci_request_fault_reset i) is" "j < length is"
  shows "cd_control_word (cia402_run (cia402_init M B) is ! j) =
    (if (unat B + 1) dvd j \<and> j < unat M * (unat B + 1) then 0x0080 else 0x0006)"
  using run_on_schedule [OF on_schedule_init assms, of M B]
  by (simp add: reset_due_def cia402_init_def)

definition faulty_sample :: cia402_inputs where
  "faulty_sample = \<lparr>ci_status_word = 0x0008, ci_error_code = 0x7305, ci_mode_display = 9,
     ci_expected_mode = 9, ci_link_operational = True, ci_pdo_fresh = True,
     ci_working_counter_ok = True, ci_request_enable = True, ci_request_quick_stop = False,
     ci_request_fault_reset = True\<rparr>"

theorem fault_reset_schedule_witness:
  "cd_control_word (cia402_run (cia402_init 2 3) (replicate 9 faulty_sample) ! 4) = 0x0080 \<and>
   cd_control_word (cia402_run (cia402_init 2 3) (replicate 9 faulty_sample) ! 8) = 0x0006"
proof -
  have "list_all (\<lambda>i. cia402_faulty i \<and> ci_request_fault_reset i) (replicate 9 faulty_sample)"
    by (simp add: list_all_iff faulty_sample_def cia402_faulty_def)
  from fault_reset_schedule [OF this, of 4 2 3] fault_reset_schedule [OF this, of 8 2 3]
  show ?thesis
    by simp
qed

lemma event_step_limits:
  "cc_max_fault_reset_attempts (cia402_event_step c e) = cc_max_fault_reset_attempts c"
  "cc_fault_reset_backoff_cycles (cia402_event_step c e) = cc_fault_reset_backoff_cycles c"
  by (cases e; auto simp: cia402_defs force_safe_stop_def cia402_reset_def)+

lemma run_limits:
  "cc_max_fault_reset_attempts (run_events cia402_event_step c es) = cc_max_fault_reset_attempts c"
  "cc_fault_reset_backoff_cycles (run_events cia402_event_step c es) =
    cc_fault_reset_backoff_cycles c"
  by (induction es arbitrary: c) (simp_all add: event_step_limits)

text \<open>Over any sequence of cycles, safe stops and resets the controller never counts more
  reset attempts than configured and never waits longer than the configured backoff.\<close>

theorem reset_attempts_bounded:
  "let c = run_events cia402_event_step (cia402_init M B) es in
   cc_fault_reset_attempts c \<le> M \<and> cc_fault_reset_backoff_remaining c \<le> B"
proof -
  have "cia402_inv (cia402_init M B)"
    by (simp add: cia402_inv_def cia402_init_def)
  from cia402.run_inv [OF this, of es] show ?thesis
    by (simp add: cia402_inv_def run_limits Let_def) (simp add: cia402_init_def)
qed

end
