(* ===== verification/Doubles.thy ===== *)
theory Doubles
  imports Prelude
begin

text \<open>
  The \<open>double\<close> values of the sources. A value is a finite number, an infinity or a NaN. The
  comparisons, \<open>std::isfinite\<close>, \<open>std::min\<close>, \<open>std::max\<close>, \<open>std::clamp\<close> and the propagation of
  NaN and infinities follow IEEE 754 and the C++ library exactly, so every guard of the sources
  that tests for a non-finite value has its effect here. Two things of the binary64 format are
  left out: finite arithmetic is exact (no rounding, no overflow to infinity), and there is
  one zero. \<open>std::llround\<close> of a NaN, an infinity or a value outside \<open>int64_t\<close> has no specified
  result; it is \<open>None\<close>.
\<close>

datatype double = Fin real | PInf | NInf | NaN

section \<open>Arithmetic and order\<close>

instantiation double :: "{zero, one, plus, minus, uminus, times, inverse, abs, ord}"
begin

definition zero_double :: double where "0 = Fin 0"

definition one_double :: double where "1 = Fin 1"

fun plus_double :: "double \<Rightarrow> double \<Rightarrow> double" where
  "Fin a + Fin b = Fin (a + b)"
| "NaN + y = NaN"
| "x + NaN = NaN"
| "PInf + NInf = NaN"
| "NInf + PInf = NaN"
| "PInf + y = PInf"
| "x + PInf = PInf"
| "NInf + y = NInf"
| "x + NInf = NInf"

fun uminus_double :: "double \<Rightarrow> double" where
  "- Fin a = Fin (- a)"
| "- PInf = NInf"
| "- NInf = PInf"
| "- NaN = NaN"

definition minus_double :: "double \<Rightarrow> double \<Rightarrow> double" where
  "(x :: double) - y = x + (- y)"

definition inf_of_sign :: "real \<Rightarrow> double" where
  "inf_of_sign r = (if 0 < r then PInf else if r < 0 then NInf else NaN)"

fun sign_of :: "double \<Rightarrow> real" where
  "sign_of (Fin a) = sgn a"
| "sign_of PInf = 1"
| "sign_of NInf = -1"
| "sign_of NaN = 0"

definition times_double :: "double \<Rightarrow> double \<Rightarrow> double" where
  "(x :: double) * y = (case (x, y) of (Fin a, Fin b) \<Rightarrow> Fin (a * b)
     | _ \<Rightarrow> inf_of_sign (sign_of x * sign_of y))"

definition divide_double :: "double \<Rightarrow> double \<Rightarrow> double" where
  "(x :: double) div y = (case (x, y) of
       (Fin a, Fin b) \<Rightarrow> if b = 0 then inf_of_sign (sgn a) else Fin (a / b)
     | (Fin a, NaN) \<Rightarrow> NaN
     | (Fin a, _) \<Rightarrow> Fin 0
     | (_, Fin b) \<Rightarrow> inf_of_sign (sign_of x * (if b < 0 then -1 else 1))
     | _ \<Rightarrow> NaN)"

definition inverse_double :: "double \<Rightarrow> double" where
  "inverse_double x = 1 div x"

definition abs_double :: "double \<Rightarrow> double" where
  "\<bar>x :: double\<bar> = (case x of Fin a \<Rightarrow> Fin \<bar>a\<bar> | NInf \<Rightarrow> PInf | _ \<Rightarrow> x)"

fun less_double :: "double \<Rightarrow> double \<Rightarrow> bool" where
  "Fin a < Fin b \<longleftrightarrow> a < b"
| "NaN < y \<longleftrightarrow> False"
| "x < NaN \<longleftrightarrow> False"
| "PInf < y \<longleftrightarrow> False"
| "x < PInf \<longleftrightarrow> True"
| "x < NInf \<longleftrightarrow> False"
| "NInf < y \<longleftrightarrow> True"

definition less_eq_double :: "double \<Rightarrow> double \<Rightarrow> bool" where
  "(x :: double) \<le> y \<longleftrightarrow> x < y \<or> (x = y \<and> x \<noteq> NaN)"

instance ..

end

lemma double_simps [simp]:
  "Fin a - Fin b = Fin (a - b)"
  "Fin a * Fin b = Fin (a * b)"
  "Fin a / Fin b = (if b = 0 then inf_of_sign (sgn a) else Fin (a / b))"
  "\<bar>Fin a\<bar> = Fin \<bar>a\<bar>"
  "Fin a \<le> Fin b \<longleftrightarrow> a \<le> b"
  "\<not> NaN < x" "\<not> x < NaN" "\<not> NaN \<le> x" "\<not> x \<le> NaN"
  "\<bar>NaN\<bar> = NaN" "\<bar>PInf\<bar> = PInf" "\<bar>NInf\<bar> = PInf"
  by (cases x; auto simp: minus_double_def times_double_def divide_double_def abs_double_def
        less_eq_double_def)+

lemmas double_consts [simp] = zero_double_def one_double_def

text \<open>\<open>==\<close> on doubles: a NaN equals nothing.\<close>

definition deq :: "double \<Rightarrow> double \<Rightarrow> bool" where
  "deq x y \<longleftrightarrow> x = y \<and> x \<noteq> NaN"

section \<open>The library functions the sources use\<close>

fun isfinite :: "double \<Rightarrow> bool" where
  "isfinite (Fin a) = True"
| "isfinite _ = False"

text \<open>\<open>std::min(a, b)\<close> is \<open>b < a ? b : a\<close>, \<open>std::max(a, b)\<close> is \<open>a < b ? b : a\<close>, and
  \<open>std::clamp(v, lo, hi)\<close> is \<open>v < lo ? lo : hi < v ? hi : v\<close>.\<close>

definition dmin :: "double \<Rightarrow> double \<Rightarrow> double" where
  "dmin a b = (if b < a then b else a)"

definition dmax :: "double \<Rightarrow> double \<Rightarrow> double" where
  "dmax a b = (if a < b then b else a)"

definition dclamp :: "double \<Rightarrow> double \<Rightarrow> double \<Rightarrow> double" where
  "dclamp v lo hi = (if v < lo then lo else if hi < v then hi else v)"

definition dsqrt :: "double \<Rightarrow> double" where
  "dsqrt x = (case x of Fin a \<Rightarrow> if a < 0 then NaN else Fin (sqrt a) | PInf \<Rightarrow> PInf | _ \<Rightarrow> NaN)"

definition round_half_away :: "real \<Rightarrow> int" where
  "round_half_away a = (if 0 \<le> a then \<lfloor>a + 1 / 2\<rfloor> else \<lceil>a - 1 / 2\<rceil>)"

definition llround :: "double \<Rightarrow> int option" where
  "llround x = (case x of
     Fin a \<Rightarrow> let n = round_half_away a in if - (2 ^ 63) \<le> n \<and> n < 2 ^ 63 then Some n else None
   | _ \<Rightarrow> None)"

text \<open>The real number a finite double stands for.\<close>

fun val :: "double \<Rightarrow> real" where
  "val (Fin a) = a"
| "val _ = 0"

lemma isfinite_iff: "isfinite x \<longleftrightarrow> x = Fin (val x)"
  by (cases x) auto

lemma isfiniteE [elim]: "isfinite x \<Longrightarrow> (\<And>a. x = Fin a \<Longrightarrow> P) \<Longrightarrow> P"
  by (cases x) auto

lemma dclamp_between:
  assumes "isfinite lo" "isfinite hi" "lo \<le> hi" "v \<noteq> NaN"
  shows "isfinite (dclamp v lo hi)" "lo \<le> dclamp v lo hi" "dclamp v lo hi \<le> hi"
  using assms by (cases v; auto simp: dclamp_def elim!: isfiniteE)+

lemma dclamp_NaN [simp]: "dclamp NaN lo hi = NaN"
  by (simp add: dclamp_def)

lemma dclamp_id: "lo \<le> v \<Longrightarrow> v \<le> hi \<Longrightarrow> dclamp v lo hi = v"
  by (cases v; cases lo; cases hi) (auto simp: dclamp_def less_eq_double_def)

lemma dclamp_Fin [simp]:
  "a \<le> b \<Longrightarrow> dclamp (Fin x) (Fin a) (Fin b) = Fin (max a (min b x))"
  by (auto simp: dclamp_def)

lemma dmin_Fin [simp]: "dmin (Fin a) (Fin b) = Fin (min a b)"
  by (auto simp: dmin_def)

lemma dmax_Fin [simp]: "dmax (Fin a) (Fin b) = Fin (max a b)"
  by (auto simp: dmax_def)

lemma dsqrt_Fin [simp]: "0 \<le> a \<Longrightarrow> dsqrt (Fin a) = Fin (sqrt a)"
  by (simp add: dsqrt_def)

lemma round_half_away_error: "\<bar>of_int (round_half_away a) - a\<bar> \<le> 1 / 2"
proof (cases "0 \<le> a")
  case True
  then have "round_half_away a = \<lfloor>a + 1 / 2\<rfloor>" by (simp add: round_half_away_def)
  then show ?thesis unfolding abs_le_iff by linarith
next
  case False
  then have "round_half_away a = \<lceil>a - 1 / 2\<rceil>" by (simp add: round_half_away_def)
  then show ?thesis unfolding abs_le_iff by linarith
qed

lemma round_half_away_int [simp]: "round_half_away (of_int n) = n"
  unfolding round_half_away_def by (simp; linarith)

lemma round_half_away_mono: "a \<le> b \<Longrightarrow> round_half_away a \<le> round_half_away b"
  unfolding round_half_away_def by (auto; linarith)

end
