(* ===== verification/EthercatBackend.thy ===== *)
theory EthercatBackend
  imports Doubles
begin

text \<open>
  The boundary between the lift hardware and an EtherCAT master (\<open>lift/ethercat_backend.hpp\<close>,
  \<open>lift/ethercat_backend.cpp\<close>): the process-data objects with their little-endian wire layout,
  the mock backend with its object dictionary and drive simulation, and the unavailable backend.
  The lemmas show that the layouts are inverted exactly by their decoders, that an accepted SDO
  write is read back, and how the simulated drive answers a control word.
\<close>

section \<open>Process data objects\<close>

record lift_rx_pdo =
  rx_control_word :: u16
  rx_target_velocity_units_per_s :: i32
  rx_torque_feedforward :: i16

record lift_tx_pdo =
  tx_status_word :: u16
  tx_error_code :: u16
  tx_mode_display :: i8
  tx_actual_position_units :: i32
  tx_actual_velocity_units_per_s :: i32
  tx_digital_inputs :: u32

definition lift_rx_pdo_default :: lift_rx_pdo where
  "lift_rx_pdo_default = \<lparr>rx_control_word = 0, rx_target_velocity_units_per_s = 0,
     rx_torque_feedforward = 0\<rparr>"

definition lift_tx_pdo_default :: lift_tx_pdo where
  "lift_tx_pdo_default = \<lparr>tx_status_word = 0, tx_error_code = 0, tx_mode_display = 0,
     tx_actual_position_units = 0, tx_actual_velocity_units_per_s = 0, tx_digital_inputs = 0\<rparr>"

text \<open>The wires are \<open>std::array\<close>s of 8 and 17 bytes.\<close>

definition encode_lift_rx_pdo_le :: "lift_rx_pdo \<Rightarrow> bytes" where
  "encode_lift_rx_pdo_le pdo =
     store_u16_le (rx_control_word pdo) @
     store_u32_le (rx_target_velocity_units_per_s pdo) @
     store_u16_le (rx_torque_feedforward pdo)"

definition decode_lift_rx_pdo_le :: "bytes \<Rightarrow> lift_rx_pdo" where
  "decode_lift_rx_pdo_le wire =
     \<lparr>rx_control_word = load_u16_le wire,
      rx_target_velocity_units_per_s = load_u32_le (drop 2 wire),
      rx_torque_feedforward = load_u16_le (drop 6 wire)\<rparr>"

definition encode_lift_tx_pdo_le :: "lift_tx_pdo \<Rightarrow> bytes" where
  "encode_lift_tx_pdo_le pdo =
     store_u16_le (tx_status_word pdo) @
     store_u16_le (tx_error_code pdo) @
     [tx_mode_display pdo] @
     store_u32_le (tx_actual_position_units pdo) @
     store_u32_le (tx_actual_velocity_units_per_s pdo) @
     store_u32_le (tx_digital_inputs pdo)"

definition decode_lift_tx_pdo_le :: "bytes \<Rightarrow> lift_tx_pdo" where
  "decode_lift_tx_pdo_le wire =
     \<lparr>tx_status_word = load_u16_le wire,
      tx_error_code = load_u16_le (drop 2 wire),
      tx_mode_display = wire ! 4,
      tx_actual_position_units = load_u32_le (drop 5 wire),
      tx_actual_velocity_units_per_s = load_u32_le (drop 9 wire),
      tx_digital_inputs = load_u32_le (drop 13 wire)\<rparr>"

section \<open>Configuration and link state\<close>

datatype ethercat_link_state =
  L_offline | L_init | L_pre_operational | L_safe_operational | L_operational

record ethercat_master_config =
  mc_interface_name :: string
  mc_master_index :: u32
  mc_cycle_period :: int \<comment> \<open>nanoseconds\<close>
  mc_expected_working_counter :: u32

record ethercat_slave_config =
  sc_alias :: u16
  sc_position :: u16
  sc_vendor_id :: u32
  sc_product_code :: u32
  sc_rx_pdo_logical_address :: u32
  sc_tx_pdo_logical_address :: u32
  sc_rx_pdo_bytes :: u16
  sc_tx_pdo_bytes :: u16
  sc_dc_assign_activate :: u16
  sc_dc_sync0_shift_ns :: i32

definition master_config_default :: ethercat_master_config where
  "master_config_default = \<lparr>mc_interface_name = '''', mc_master_index = 0,
     mc_cycle_period = 10000000, mc_expected_working_counter = 1\<rparr>"

definition slave_config_default :: ethercat_slave_config where
  "slave_config_default = \<lparr>sc_alias = 0, sc_position = 0, sc_vendor_id = 0, sc_product_code = 0,
     sc_rx_pdo_logical_address = 0, sc_tx_pdo_logical_address = 0, sc_rx_pdo_bytes = 8,
     sc_tx_pdo_bytes = 17, sc_dc_assign_activate = 0, sc_dc_sync0_shift_ns = 0\<rparr>"

section \<open>The mock backend\<close>

record mock_backend =
  mb_master :: ethercat_master_config
  mb_slave :: ethercat_slave_config
  mb_link_state :: ethercat_link_state
  mb_last_output :: lift_rx_pdo
  mb_input :: lift_tx_pdo
  mb_initialized :: bool
  mb_configured :: bool
  mb_pdo_fresh :: bool
  mb_working_counter :: u32
  mb_startup_position_sequence :: "i32 list"
  mb_startup_position_index :: nat
  mb_encoder_counts_per_rev :: u32
  mb_gear_ratio_numerator :: u32
  mb_gear_ratio_denominator :: u32
  mb_feed_units_numerator :: u32
  mb_p00_08_command_units_per_rev :: u32
  mb_homing_method :: i8
  mb_homing_speed_high_units_s :: u32
  mb_homing_speed_low_units_s :: u32
  mb_homing_acceleration_units_s2 :: u32
  mb_homing_offset_units :: i32
  mb_absolute_encoder_setting :: u16
  mb_brake_p04_37_ms :: u32
  mb_brake_p04_38_ms :: u32
  mb_brake_p04_39_rpm :: u32
  mb_brake_p06_14_ms :: u32
  mb_brake_p05_06_mode :: u32
  mb_brake_p05_10_mode :: u32
  mb_quick_stop_velocity_units_per_s :: i32
  mb_mode :: i8
  mb_error_message :: string

definition mock_new :: mock_backend where
  "mock_new = \<lparr>mb_master = master_config_default, mb_slave = slave_config_default,
     mb_link_state = L_offline, mb_last_output = lift_rx_pdo_default,
     mb_input = lift_tx_pdo_default\<lparr>tx_mode_display := 9, tx_status_word := 0x0040\<rparr>,
     mb_initialized = False, mb_configured = False, mb_pdo_fresh = False,
     mb_working_counter = 0, mb_startup_position_sequence = [], mb_startup_position_index = 0,
     mb_encoder_counts_per_rev = 131072, mb_gear_ratio_numerator = 1,
     mb_gear_ratio_denominator = 1, mb_feed_units_numerator = 10000,
     mb_p00_08_command_units_per_rev = 0, mb_homing_method = 19,
     mb_homing_speed_high_units_s = 10000, mb_homing_speed_low_units_s = 5000,
     mb_homing_acceleration_units_s2 = 500000, mb_homing_offset_units = 0,
     mb_absolute_encoder_setting = 0, mb_brake_p04_37_ms = 150, mb_brake_p04_38_ms = 0,
     mb_brake_p04_39_rpm = 30, mb_brake_p06_14_ms = 500, mb_brake_p05_06_mode = 3,
     mb_brake_p05_10_mode = 4, mb_quick_stop_velocity_units_per_s = 0, mb_mode = 9,
     mb_error_message = ''''\<rparr>"

definition mock_initialize ::
    "ethercat_master_config \<Rightarrow> mock_backend \<Rightarrow> bool \<times> mock_backend" where
  "mock_initialize master m =
     (let m1 = m\<lparr>mb_master := master\<rparr> in
      if mc_cycle_period master \<le> 0 then
        (False, m1\<lparr>mb_error_message := ''mock EtherCAT cycle period must be positive''\<rparr>)
      else (True, m1\<lparr>mb_initialized := True, mb_configured := False, mb_pdo_fresh := False,
                     mb_working_counter := 0, mb_link_state := L_pre_operational,
                     mb_error_message := ''''\<rparr>))"

definition mock_configure_slave ::
    "ethercat_slave_config \<Rightarrow> mock_backend \<Rightarrow> bool \<times> mock_backend" where
  "mock_configure_slave slave m =
     (if \<not> mb_initialized m then
        (False, m\<lparr>mb_error_message := ''mock backend is not initialized''\<rparr>)
      else (True, m\<lparr>mb_slave := slave, mb_configured := True,
                    mb_link_state := L_pre_operational, mb_working_counter := 1,
                    mb_error_message := ''''\<rparr>))"

text \<open>The object dictionary: \<open>append_le\<close> writes an object at its own width.\<close>

definition mock_object :: "u16 \<Rightarrow> u8 \<Rightarrow> mock_backend \<Rightarrow> bytes option" where
  "mock_object index subindex m =
     (if index = 0x608F \<and> subindex = 1 then Some (store_u32_le (mb_encoder_counts_per_rev m))
      else if index = 0x6091 \<and> subindex = 1 then Some (store_u32_le (mb_gear_ratio_numerator m))
      else if index = 0x6091 \<and> subindex = 2 then Some (store_u32_le (mb_gear_ratio_denominator m))
      else if index = 0x6092 \<and> subindex = 1 then Some (store_u32_le (mb_feed_units_numerator m))
      else if index = 0x2008 \<and> subindex = 0 then
        Some (store_u32_le (mb_p00_08_command_units_per_rev m))
      else if index = 0x6061 \<and> subindex = 0 then Some [mb_mode m]
      else if index = 0x6098 \<and> subindex = 0 then Some [mb_homing_method m]
      else if index = 0x6099 \<and> subindex = 1 then Some (store_u32_le (mb_homing_speed_high_units_s m))
      else if index = 0x6099 \<and> subindex = 2 then Some (store_u32_le (mb_homing_speed_low_units_s m))
      else if index = 0x609A \<and> subindex = 0 then
        Some (store_u32_le (mb_homing_acceleration_units_s2 m))
      else if index = 0x607C \<and> subindex = 0 then Some (store_u32_le (mb_homing_offset_units m))
      else if index = 0x2015 \<and> subindex = 0 then Some (store_u16_le (mb_absolute_encoder_setting m))
      else if index = 0x2437 \<and> subindex = 0 then Some (store_u32_le (mb_brake_p04_37_ms m))
      else if index = 0x2438 \<and> subindex = 0 then Some (store_u32_le (mb_brake_p04_38_ms m))
      else if index = 0x2439 \<and> subindex = 0 then Some (store_u32_le (mb_brake_p04_39_rpm m))
      else if index = 0x2614 \<and> subindex = 0 then Some (store_u32_le (mb_brake_p06_14_ms m))
      else if index = 0x2506 \<and> subindex = 0 then Some (store_u32_le (mb_brake_p05_06_mode m))
      else if index = 0x2510 \<and> subindex = 0 then Some (store_u32_le (mb_brake_p05_10_mode m))
      else None)"

definition mock_read_sdo :: "u16 \<Rightarrow> u8 \<Rightarrow> mock_backend \<Rightarrow> bytes option \<times> mock_backend" where
  "mock_read_sdo index subindex m =
     (if \<not> mb_configured m then
        (None, m\<lparr>mb_error_message := ''mock slave is not configured''\<rparr>)
      else case mock_object index subindex m of
        Some value \<Rightarrow> (Some value, m)
      | None \<Rightarrow> (None, m\<lparr>mb_error_message := ''mock SDO object is unavailable''\<rparr>))"

definition read_le_u32 :: "bytes \<Rightarrow> u32 option" where
  "read_le_u32 bs = (if length bs \<noteq> 4 then None else Some (load_u32_le bs))"

definition mapping_index :: "u16 \<Rightarrow> bool" where
  "mapping_index index \<longleftrightarrow> index \<in> {0x1C12, 0x1C13, 0x1600, 0x1601, 0x1602, 0x1603, 0x1A00, 0x1A01}"

definition mapping_width :: "u16 \<Rightarrow> u8 \<Rightarrow> nat" where
  "mapping_width index subindex =
     (let assignment = index = 0x1C12 \<or> index = 0x1C13 in
      if assignment \<and> subindex = 0 then 1
      else if assignment then 2 else if subindex = 0 then 1 else 4)"

definition mock_fail :: "mock_backend \<Rightarrow> string \<Rightarrow> bool \<times> mock_backend" where
  "mock_fail m msg = (False, m\<lparr>mb_error_message := msg\<rparr>)"

definition mock_write_ratio ::
    "u16 \<Rightarrow> u8 \<Rightarrow> bytes \<Rightarrow> mock_backend \<Rightarrow> bool \<times> mock_backend" where
  "mock_write_ratio index subindex value m =
     (case read_le_u32 value of
        None \<Rightarrow> mock_fail m ''mock SDO value must be a non-zero uint32''
      | Some parsed \<Rightarrow>
          if parsed = 0 then mock_fail m ''mock SDO value must be a non-zero uint32''
          else if index = 0x608F \<and> subindex = 1 then (True, m\<lparr>mb_encoder_counts_per_rev := parsed\<rparr>)
          else if index = 0x6091 \<and> subindex = 1 then (True, m\<lparr>mb_gear_ratio_numerator := parsed\<rparr>)
          else if index = 0x6091 \<and> subindex = 2 then (True, m\<lparr>mb_gear_ratio_denominator := parsed\<rparr>)
          else if index = 0x6092 \<and> subindex = 1 then (True, m\<lparr>mb_feed_units_numerator := parsed\<rparr>)
          else mock_fail m ''mock SDO object is unavailable'')"

definition mock_write_sdo ::
    "u16 \<Rightarrow> u8 \<Rightarrow> bytes \<Rightarrow> mock_backend \<Rightarrow> bool \<times> mock_backend" where
  "mock_write_sdo index subindex value m =
     (if \<not> mb_configured m then mock_fail m ''mock slave is not configured''
      else if index = 0x6060 \<and> subindex = 0 then
        (if length value \<noteq> 1 \<or> (value ! 0 \<noteq> 6 \<and> value ! 0 \<noteq> 9)
         then mock_fail m ''mock only accepts HM mode 6 or CSV mode 9''
         else (True, m\<lparr>mb_mode := value ! 0\<rparr>))
      else if index = 0x6098 \<and> subindex = 0 \<and> length value = 1 then
        (let method = sint (value ! 0) in
         if method < -6 \<or> method > 37 \<or> method = 0 \<or> method = 36
         then mock_fail m ''mock homing method is outside the LD3M manual range''
         else (True, m\<lparr>mb_homing_method := value ! 0\<rparr>))
      else if index = 0x6099 \<and> (subindex = 1 \<or> subindex = 2) then
        (case read_le_u32 value of
           None \<Rightarrow> mock_fail m ''mock homing speed must be positive''
         | Some parsed \<Rightarrow>
             if parsed = 0 then mock_fail m ''mock homing speed must be positive''
             else (True, if subindex = 1 then m\<lparr>mb_homing_speed_high_units_s := parsed\<rparr>
                         else m\<lparr>mb_homing_speed_low_units_s := parsed\<rparr>))
      else if index = 0x609A \<and> subindex = 0 then
        (case read_le_u32 value of
           None \<Rightarrow> mock_fail m ''mock homing acceleration must be positive''
         | Some parsed \<Rightarrow>
             if parsed = 0 then mock_fail m ''mock homing acceleration must be positive''
             else (True, m\<lparr>mb_homing_acceleration_units_s2 := parsed\<rparr>))
      else if index = 0x607C \<and> subindex = 0 then
        (if length value \<noteq> 4 then mock_fail m ''mock homing offset must be int32''
         else case read_le_u32 value of
             None \<Rightarrow> (False, m)
           | Some raw \<Rightarrow> (True, m\<lparr>mb_homing_offset_units := raw\<rparr>))
      else if index = 0x2015 \<and> subindex = 0 then
        (if length value \<noteq> 2 \<or> value ! 0 \<noteq> 9 \<or> value ! 1 \<noteq> 0
         then mock_fail m ''mock only accepts P00.15=9 for drive zero''
         else (True, m\<lparr>mb_absolute_encoder_setting := 9\<rparr>))
      else if index = 0x2008 \<and> subindex = 0 then
        (case read_le_u32 value of
           None \<Rightarrow> mock_fail m ''mock 2008h value is outside the manual range''
         | Some parsed \<Rightarrow>
             if parsed > 8388608 then mock_fail m ''mock 2008h value is outside the manual range''
             else (True, m\<lparr>mb_p00_08_command_units_per_rev := parsed\<rparr>))
      else if mapping_index index then
        (if length value \<noteq> mapping_width index subindex
         then mock_fail m ''mock PDO mapping SDO width is invalid'' else (True, m))
      else mock_write_ratio index subindex value m)"

definition mock_idle_word :: "mock_backend \<Rightarrow> u16" where
  "mock_idle_word m = (if mb_error_message m = '''' then 0x0040 else 0x0008)"

definition mock_start :: "mock_backend \<Rightarrow> bool \<times> mock_backend" where
  "mock_start m =
     (if \<not> mb_configured m then mock_fail m ''mock slave is not configured''
      else (True, m\<lparr>mb_link_state := L_operational, mb_pdo_fresh := True, mb_working_counter := 1,
                    mb_startup_position_index := 0,
                    mb_input := (mb_input m)\<lparr>tx_status_word := mock_idle_word m\<rparr>\<rparr>))"

definition mock_stop :: "mock_backend \<Rightarrow> bool \<times> mock_backend" where
  "mock_stop m =
     (True, m\<lparr>mb_link_state := (if mb_initialized m then L_safe_operational else L_offline),
              mb_pdo_fresh := False, mb_last_output := lift_rx_pdo_default,
              mb_input := (mb_input m)\<lparr>tx_actual_velocity_units_per_s := 0,
                                       tx_status_word := mock_idle_word m\<rparr>\<rparr>)"

definition mock_read_pdo :: "mock_backend \<Rightarrow> bool \<times> lift_tx_pdo \<times> mock_backend" where
  "mock_read_pdo m =
     (let i = mb_startup_position_index m;
          m1 = (if i < length (mb_startup_position_sequence m)
                then m\<lparr>mb_input := (mb_input m)\<lparr>tx_actual_position_units :=
                                       mb_startup_position_sequence m ! i\<rparr>,
                       mb_startup_position_index := Suc i\<rparr>
                else m)
      in (mb_link_state m1 = L_operational, mb_input m1, m1))"

definition clamp_i32 :: "int \<Rightarrow> int" where
  "clamp_i32 n = (if n < - (2 ^ 31) then - (2 ^ 31) else if 2 ^ 31 - 1 < n then 2 ^ 31 - 1 else n)"

text \<open>The drive's answer to a control word; the position then integrates the velocity over the
  cycle. (The product of an \<open>int32_t\<close> velocity and a cycle shorter than a century is within
  \<open>int64_t\<close>, so \<open>llround\<close> is defined.)\<close>

definition mock_drive_answer :: "lift_rx_pdo \<Rightarrow> mock_backend \<Rightarrow> lift_tx_pdo" where
  "mock_drive_answer output m =
     (let i = mb_input m; command = rx_control_word output AND 0x008F in
      if tx_error_code i \<noteq> 0 then
        i\<lparr>tx_status_word := 0x0008, tx_actual_velocity_units_per_s := 0\<rparr>
      else if command = 0x0006 then
        i\<lparr>tx_status_word := 0x0021, tx_actual_velocity_units_per_s := 0\<rparr>
      else if command = 0x0007 then
        i\<lparr>tx_status_word := 0x0023, tx_actual_velocity_units_per_s := 0\<rparr>
      else if command = 0x000B then
        i\<lparr>tx_status_word := 0x0007,
          tx_actual_velocity_units_per_s := mb_quick_stop_velocity_units_per_s m\<rparr>
      else if mb_mode m = 6 \<and> (rx_control_word output AND 0x0010) \<noteq> 0 \<and> command = 0x000F then
        i\<lparr>tx_status_word := 0x1427, tx_actual_velocity_units_per_s := 0,
          tx_actual_position_units := mb_homing_offset_units m\<rparr>
      else if command = 0x000F then
        i\<lparr>tx_status_word := 0x0027,
          tx_actual_velocity_units_per_s := rx_target_velocity_units_per_s output\<rparr>
      else i\<lparr>tx_status_word := 0x0040, tx_actual_velocity_units_per_s := 0\<rparr>)"

definition mock_integrate :: "int \<Rightarrow> lift_tx_pdo \<Rightarrow> lift_tx_pdo" where
  "mock_integrate cycle_ns i =
     (if tx_actual_velocity_units_per_s i \<noteq> 0 then
        (let cycle_s = of_int cycle_ns / 10 ^ 9;
             delta = round_half_away (of_int (sint (tx_actual_velocity_units_per_s i)) * cycle_s);
             nxt = sint (tx_actual_position_units i) + delta
         in i\<lparr>tx_actual_position_units := word_of_int (clamp_i32 nxt)\<rparr>)
      else i)"

definition mock_write_pdo :: "lift_rx_pdo \<Rightarrow> mock_backend \<Rightarrow> bool \<times> mock_backend" where
  "mock_write_pdo output m =
     (let m1 = m\<lparr>mb_last_output := output\<rparr> in
      if mb_link_state m1 \<noteq> L_operational \<or> \<not> mb_pdo_fresh m1 then
        (mb_link_state m1 = L_operational, m1)
      else
        (let m2 = (if rx_control_word output = 0x0080 \<and> tx_error_code (mb_input m1) \<noteq> 0
                   then m1\<lparr>mb_input := (mb_input m1)\<lparr>tx_error_code := 0, tx_status_word := 0x0040\<rparr>\<rparr>
                   else m1);
             i = mock_integrate (mc_cycle_period (mb_master m2)) (mock_drive_answer output m2)
         in (True, m2\<lparr>mb_input := i\<lparr>tx_mode_display := mb_mode m2\<rparr>\<rparr>)))"

definition mock_exchange_pdo ::
    "lift_rx_pdo \<Rightarrow> mock_backend \<Rightarrow> bool \<times> lift_tx_pdo \<times> mock_backend" where
  "mock_exchange_pdo output m =
     (let (ok, m') = mock_write_pdo output m in (ok, mb_input m', m'))"

definition mock_set_online :: "bool \<Rightarrow> mock_backend \<Rightarrow> mock_backend" where
  "mock_set_online online m =
     (if online then
        m\<lparr>mb_link_state := (if mb_configured m then L_operational else L_pre_operational),
          mb_pdo_fresh := mb_configured m,
          mb_working_counter := (if mb_configured m then 1 else 0)\<rparr>
      else m\<lparr>mb_link_state := L_offline, mb_pdo_fresh := False, mb_working_counter := 0,
             mb_input := (mb_input m)\<lparr>tx_actual_velocity_units_per_s := 0\<rparr>\<rparr>)"

definition mock_set_pdo_fresh :: "bool \<Rightarrow> mock_backend \<Rightarrow> mock_backend" where
  "mock_set_pdo_fresh fresh m = m\<lparr>mb_pdo_fresh := fresh\<rparr>"

definition mock_set_working_counter :: "u32 \<Rightarrow> mock_backend \<Rightarrow> mock_backend" where
  "mock_set_working_counter wc m = m\<lparr>mb_working_counter := wc\<rparr>"

definition mock_inject_fault :: "u16 \<Rightarrow> mock_backend \<Rightarrow> mock_backend" where
  "mock_inject_fault code m = m\<lparr>mb_input := (mb_input m)\<lparr>tx_error_code := code,
     tx_status_word := 0x0008, tx_actual_velocity_units_per_s := 0\<rparr>\<rparr>"

definition mock_set_mode :: "i8 \<Rightarrow> mock_backend \<Rightarrow> mock_backend" where
  "mock_set_mode mode m = m\<lparr>mb_mode := mode, mb_input := (mb_input m)\<lparr>tx_mode_display := mode\<rparr>\<rparr>"

definition mock_set_actual_position_units :: "i32 \<Rightarrow> mock_backend \<Rightarrow> mock_backend" where
  "mock_set_actual_position_units p m =
     m\<lparr>mb_input := (mb_input m)\<lparr>tx_actual_position_units := p\<rparr>\<rparr>"

definition mock_set_startup_position_sequence :: "i32 list \<Rightarrow> mock_backend \<Rightarrow> mock_backend" where
  "mock_set_startup_position_sequence ps m =
     m\<lparr>mb_startup_position_sequence := ps, mb_startup_position_index := 0\<rparr>"

definition mock_set_digital_inputs :: "u32 \<Rightarrow> mock_backend \<Rightarrow> mock_backend" where
  "mock_set_digital_inputs d m = m\<lparr>mb_input := (mb_input m)\<lparr>tx_digital_inputs := d\<rparr>\<rparr>"

definition mock_set_quick_stop_velocity_units :: "i32 \<Rightarrow> mock_backend \<Rightarrow> mock_backend" where
  "mock_set_quick_stop_velocity_units v m = m\<lparr>mb_quick_stop_velocity_units_per_s := v\<rparr>"

definition mock_set_brake_p06_14_ms :: "u32 \<Rightarrow> mock_backend \<Rightarrow> mock_backend" where
  "mock_set_brake_p06_14_ms t m = m\<lparr>mb_brake_p06_14_ms := t\<rparr>"

section \<open>Round trips of the process data\<close>

lemma length_encode_pdo [simp]:
  "length (encode_lift_rx_pdo_le p) = 8" "length (encode_lift_tx_pdo_le q) = 17"
  by (simp_all add: encode_lift_rx_pdo_le_def encode_lift_tx_pdo_le_def)

lemma decode_encode_rx [simp]: "decode_lift_rx_pdo_le (encode_lift_rx_pdo_le p) = p"
  by (simp add: encode_lift_rx_pdo_le_def decode_lift_rx_pdo_le_def)

lemma decode_encode_tx [simp]: "decode_lift_tx_pdo_le (encode_lift_tx_pdo_le p) = p"
  by (simp add: encode_lift_tx_pdo_le_def decode_lift_tx_pdo_le_def nth_append)

interpretation rx_pdo: byte_codec "\<lambda>p. Some (encode_lift_rx_pdo_le p)"
    "\<lambda>bs. if length bs = 8 then Some (decode_lift_rx_pdo_le bs) else None" "\<lambda>_. True"
  by unfold_locales auto

interpretation tx_pdo: byte_codec "\<lambda>p. Some (encode_lift_tx_pdo_le p)"
    "\<lambda>bs. if length bs = 17 then Some (decode_lift_tx_pdo_le bs) else None" "\<lambda>_. True"
  by unfold_locales auto

section \<open>SDO read-back\<close>

definition readback_object :: "u16 \<Rightarrow> u8 \<Rightarrow> bool" where
  "readback_object index subindex \<longleftrightarrow> (index, subindex) \<in>
     {(0x608F, 1), (0x6091, 1), (0x6091, 2), (0x6092, 1), (0x2008, 0), (0x6098, 0),
      (0x6099, 1), (0x6099, 2), (0x609A, 0), (0x607C, 0), (0x2015, 0)}"

lemma list_of_length:
  "length (xs :: 'a list) = 1 \<Longrightarrow> [xs ! 0] = xs"
  "length xs = 2 \<Longrightarrow> [xs ! 0, xs ! 1] = xs"
  "length xs = 4 \<Longrightarrow> [xs ! 0, xs ! 1, xs ! 2, xs ! 3] = xs"
  by (auto intro!: nth_equalityI simp: less_Suc_eq numeral_eq_Suc)

lemma read_le_u32_store: "read_le_u32 bs = Some v \<Longrightarrow> store_u32_le v = bs"
proof -
  assume "read_le_u32 bs = Some v"
  then have "length bs = 4" "v = load_u32_le bs"
    by (auto simp: read_le_u32_def split: if_splits)
  then show ?thesis
    using store_load_u32_le [of "bs ! 0" "bs ! 1" "bs ! 2" "bs ! 3"] list_of_length(3) [of bs] by simp
qed

lemma store_u16_9: "length bs = 2 \<Longrightarrow> bs ! 0 = 9 \<Longrightarrow> bs ! 1 = 0 \<Longrightarrow> store_u16_le 9 = bs"
  using list_of_length(2) [of bs] by (simp add: store_u16_le_def)

lemma mock_write_read_sdo:
  assumes "mock_write_sdo index subindex value m = (True, m')" "readback_object index subindex"
  shows "mock_read_sdo index subindex m' = (Some value, m')"
  using assms(2) unfolding readback_object_def
  by (elim insertE emptyE; use assms(1) in \<open>auto simp: mock_write_sdo_def mock_write_ratio_def
      mock_read_sdo_def mock_object_def mapping_index_def mock_fail_def Let_def
      read_le_u32_store list_of_length store_u16_9 split: option.splits if_splits\<close>)

lemma mock_write_mapping:
  assumes "mb_configured m" "mapping_index index"
  shows "mock_write_sdo index subindex value m =
    (if length value \<noteq> mapping_width index subindex
     then mock_fail m ''mock PDO mapping SDO width is invalid'' else (True, m))"
  using assms(2) unfolding mapping_index_def
  by (elim insertE emptyE) (simp_all add: mock_write_sdo_def mapping_index_def assms(1))

section \<open>The simulated drive\<close>

lemma mock_write_pdo_operational:
  assumes "mb_link_state m = L_operational" "mb_pdo_fresh m" "tx_error_code (mb_input m) = 0"
  shows "fst (mock_write_pdo out m)"
    and "tx_error_code (mb_input (snd (mock_write_pdo out m))) = 0"
    and "mb_link_state (snd (mock_write_pdo out m)) = L_operational"
    and "mb_pdo_fresh (snd (mock_write_pdo out m))"
    and "mb_mode (snd (mock_write_pdo out m)) = mb_mode m"
    and "tx_mode_display (mb_input (snd (mock_write_pdo out m))) = mb_mode m"
    and "tx_status_word (mb_input (snd (mock_write_pdo out m))) =
      tx_status_word (mock_drive_answer out m)"
  using assms
  by (simp_all add: mock_write_pdo_def mock_integrate_def mock_drive_answer_def Let_def)

lemma mock_fault_cleared:
  assumes "mb_link_state m = L_operational" "mb_pdo_fresh m" "rx_control_word out = 0x0080"
  shows "tx_error_code (mb_input (snd (mock_write_pdo out m))) = 0"
  using assms by (simp add: mock_write_pdo_def mock_integrate_def mock_drive_answer_def Let_def)

section \<open>Choice of a backend\<close>

text \<open>The placeholder \<open>UnavailableLiftEthercatBackend\<close> refuses every operation and reports the link as
  offline; it has no state.\<close>

record backend_report =
  br_link_state :: ethercat_link_state
  br_pdo_fresh :: bool
  br_working_counter :: u32
  br_error_message :: string

definition unavailable_report :: backend_report where
  "unavailable_report = \<lparr>br_link_state = L_offline, br_pdo_fresh = False, br_working_counter = 0,
     br_error_message =
       ''EtherCAT SDK adapter unavailable; implement LiftEthercatBackend for the target master''\<rparr>"

definition unavailable_write_sdo :: "u16 \<Rightarrow> u8 \<Rightarrow> bytes \<Rightarrow> unit \<Rightarrow> bool \<times> unit" where
  "unavailable_write_sdo _ _ _ b = (False, b)"

datatype backend_kind = B_mock | B_etherlab | B_sdk_adapter

definition make_lift_ethercat_backend :: "string \<Rightarrow> backend_kind" where
  "make_lift_ethercat_backend name =
     (if name = ''mock'' \<or> name = ''MockLiftEthercatBackend'' then B_mock
      else if name = ''etherlab'' \<or> name = ''igh'' \<or> name = ''EtherLabLiftEthercatBackend''
      then B_etherlab else B_sdk_adapter)"

section \<open>Properties\<close>

text \<open>The process data images are lossless: both PDOs decode to the value they were encoded from, in
  exactly 8 and 17 bytes, so two different commands never share a wire image.\<close>

theorem pdo_images_lossless:
  "decode_lift_rx_pdo_le (encode_lift_rx_pdo_le p) = p \<and> length (encode_lift_rx_pdo_le p) = 8 \<and>
   decode_lift_tx_pdo_le (encode_lift_tx_pdo_le t) = t \<and> length (encode_lift_tx_pdo_le t) = 17"
  by simp

text \<open>A parameter the simulated drive accepts over SDO is read back byte for byte, for every
  object of its dictionary that can be written.\<close>

theorem sdo_write_read_back:
  assumes "mock_write_sdo index subindex data m = (True, m')" "readback_object index subindex"
  shows "mock_read_sdo index subindex m' = (Some data, m')"
  by (rule mock_write_read_sdo [OF assms])

theorem sdo_write_read_back_witness:
  "\<exists>m'. mock_write_sdo 0x6092 1 [0x10, 0x27, 0, 0] (mock_new\<lparr>mb_configured := True\<rparr>) = (True, m') \<and>
     mock_read_sdo 0x6092 1 m' = (Some [0x10, 0x27, 0, 0], m')"
proof -
  let ?m = "mock_new\<lparr>mb_configured := True\<rparr>"
  obtain m' where w: "mock_write_sdo 0x6092 1 [0x10, 0x27, 0, 0] ?m = (True, m')"
    by (simp add: mock_write_sdo_def mock_write_ratio_def mapping_index_def read_le_u32_def Let_def
        load_u32_le_def mock_fail_def)
  have "readback_object 0x6092 1"
    by (simp add: readback_object_def)
  from sdo_write_read_back [OF w this] w show ?thesis
    by blast
qed

end
