(* ===== verification/PdoMapping.thy ===== *)
theory PdoMapping
  imports EthercatBackend
begin

text \<open>
  The PDO mapping of the lift drive (\<open>lift/pdo_mapping.hpp\<close>, \<open>lift/pdo_mapping.cpp\<close>): the two
  mapping tables, their validation, the plan of SDO writes and its execution through a backend.
  The interface \<open>pdo_backend\<close> is what the execution relies on; the mock backend is an
  interpretation. The lemmas show that the plan leaves the drive with exactly the two tables
  mapped and assigned, and that no mapping entry is ever written while it is in use.
\<close>

record pdo_mapping_entry =
  me_index :: u16
  me_subindex :: u8
  me_bit_length :: u8

definition mk_entry :: "u16 \<Rightarrow> u8 \<Rightarrow> u8 \<Rightarrow> pdo_mapping_entry" where
  "mk_entry i s b = \<lparr>me_index = i, me_subindex = s, me_bit_length = b\<rparr>"

definition pdo_mapping_value :: "pdo_mapping_entry \<Rightarrow> u32" where
  "pdo_mapping_value e =
     (push_bit 16 (ucast (me_index e)) OR push_bit 8 (ucast (me_subindex e))) OR
     ucast (me_bit_length e)"

definition kLiftRxPdoMapping :: "pdo_mapping_entry list" where
  "kLiftRxPdoMapping = [mk_entry 0x6040 0 16, mk_entry 0x60FF 0 32, mk_entry 0x60B2 0 16]"

definition kLiftTxPdoMapping :: "pdo_mapping_entry list" where
  "kLiftTxPdoMapping =
     [mk_entry 0x6041 0 16, mk_entry 0x603F 0 16, mk_entry 0x6061 0 8,
      mk_entry 0x6064 0 32, mk_entry 0x606C 0 32, mk_entry 0x60FD 0 32]"

record pdo_sdo_write =
  sw_index :: u16
  sw_subindex :: u8
  sw_width_bytes :: u8
  sw_value :: u32

definition mk_write :: "u16 \<Rightarrow> u8 \<Rightarrow> u8 \<Rightarrow> u32 \<Rightarrow> pdo_sdo_write" where
  "mk_write i s w v = \<lparr>sw_index = i, sw_subindex = s, sw_width_bytes = w, sw_value = v\<rparr>"

text \<open>A plan is the used prefix of the fixed array of \<open>kMaxWrites\<close> writes.\<close>

definition kMaxWrites :: nat where "kMaxWrites = 32"

abbreviation (input) size_max :: nat where "size_max \<equiv> 2 ^ 64 - 1"

text \<open>The loop over the entries accumulates the bit length.\<close>

fun sum_bits :: "pdo_mapping_entry list \<Rightarrow> nat \<Rightarrow> string + nat" where
  "sum_bits [] acc = Inr acc"
| "sum_bits (e # es) acc =
     (if me_index e = 0 \<or> me_bit_length e = 0 \<or> me_bit_length e mod 8 \<noteq> 0 then
        Inl ''PDO mapping entries must use non-zero byte-aligned objects''
      else if acc > size_max - unat (me_bit_length e) then
        Inl ''PDO mapping bit length overflow''
      else sum_bits es (acc + unat (me_bit_length e)))"

definition validate_pdo_mapping ::
    "pdo_mapping_entry list option \<Rightarrow> nat \<Rightarrow> string + unit" where
  "validate_pdo_mapping entries expected_bytes =
     (case entries of
        None \<Rightarrow> Inl ''PDO mapping must contain at least one entry''
      | Some es \<Rightarrow>
          if es = [] \<or> expected_bytes = 0 then Inl ''PDO mapping must contain at least one entry''
          else bind_sum (sum_bits es 0) (\<lambda>total_bits.
            if total_bits \<noteq> (expected_bytes * 8) mod 2 ^ 64 then
              Inl ''PDO mapping length does not match the configured process-data size''
            else Inr ()))"

definition plan_append :: "pdo_sdo_write list \<Rightarrow> pdo_sdo_write \<Rightarrow> string + pdo_sdo_write list" where
  "plan_append plan w =
     (if kMaxWrites \<le> length plan
      then Inl ''lift PDO mapping plan exceeds its fixed write capacity''
      else Inr (plan @ [w]))"

fun plan_append_all :: "pdo_sdo_write list \<Rightarrow> pdo_sdo_write list \<Rightarrow> string + pdo_sdo_write list" where
  "plan_append_all plan [] = Inr plan"
| "plan_append_all plan (w # ws) = bind_sum (plan_append plan w) (\<lambda>p. plan_append_all p ws)"

definition entry_writes :: "u16 \<Rightarrow> pdo_mapping_entry list \<Rightarrow> pdo_sdo_write list" where
  "entry_writes index es =
     map (\<lambda>i. mk_write index (of_nat (i + 1)) 4 (pdo_mapping_value (es ! i))) [0..<length es]"

definition build_lift_csv_pdo_mapping_plan :: "string + pdo_sdo_write list" where
  "build_lift_csv_pdo_mapping_plan =
     bind_sum (validate_pdo_mapping (Some kLiftRxPdoMapping) 8) (\<lambda>_.
     bind_sum (validate_pdo_mapping (Some kLiftTxPdoMapping) 17) (\<lambda>_.
     bind_sum (plan_append_all []
       [mk_write 0x1C12 0 1 0, mk_write 0x1C13 0 1 0, mk_write 0x1600 0 1 0, mk_write 0x1601 0 1 0,
        mk_write 0x1602 0 1 0, mk_write 0x1603 0 1 0, mk_write 0x1A00 0 1 0, mk_write 0x1A01 0 1 0])
       (\<lambda>p1.
     bind_sum (plan_append_all p1 (entry_writes 0x1601 kLiftRxPdoMapping)) (\<lambda>p2.
     bind_sum (plan_append p2 (mk_write 0x1601 0 1 (of_nat (length kLiftRxPdoMapping)))) (\<lambda>p3.
     bind_sum (plan_append_all p3 (entry_writes 0x1A00 kLiftTxPdoMapping)) (\<lambda>p4.
     plan_append_all p4
       [mk_write 0x1A00 0 1 (of_nat (length kLiftTxPdoMapping)),
        mk_write 0x1C12 1 2 0x1601, mk_write 0x1C13 1 2 0x1A00,
        mk_write 0x1C12 0 1 1, mk_write 0x1C13 0 1 1]))))))"

definition encode_pdo_sdo_value :: "pdo_sdo_write \<Rightarrow> bytes option" where
  "encode_pdo_sdo_value w =
     (let n = unat (sw_width_bytes w) in
      if sw_width_bytes w \<noteq> 1 \<and> sw_width_bytes w \<noteq> 2 \<and> sw_width_bytes w \<noteq> 4 then None
      else if sw_width_bytes w < 4 \<and> drop_bit (n * 8) (sw_value w) \<noteq> 0 then None
      else Some (map (\<lambda>i. ucast (drop_bit (8 * i) (sw_value w) AND 0xFF)) [0..<n]))"

definition hex_digit :: "nat \<Rightarrow> char" where
  "hex_digit n = ''0123456789ABCDEF'' ! n"

definition mapping_error :: "pdo_sdo_write \<Rightarrow> string \<Rightarrow> string" where
  "mapping_error w backend_error =
     ''failed to write PDO mapping SDO 0x'' @
     map (\<lambda>sh. hex_digit (unat (drop_bit sh (sw_index w) AND 0x0F))) [12, 8, 4, 0] @ '':'' @
     [hex_digit (unat (drop_bit 4 (sw_subindex w) AND 0x0F)),
      hex_digit (unat (sw_subindex w AND 0x0F))] @ '': '' @ backend_error"

fun apply_plan ::
    "(u16 \<Rightarrow> u8 \<Rightarrow> bytes \<Rightarrow> 'b \<Rightarrow> bool \<times> 'b) \<Rightarrow> ('b \<Rightarrow> string) \<Rightarrow> pdo_sdo_write list \<Rightarrow> 'b \<Rightarrow>
     (string + unit) \<times> 'b" where
  "apply_plan write_sdo error_message [] b = (Inr (), b)"
| "apply_plan write_sdo error_message (w # ws) b =
     (case encode_pdo_sdo_value w of
        None \<Rightarrow> (Inl (mapping_error w (error_message b)), b)
      | Some value \<Rightarrow>
          (let (ok, b') = write_sdo (sw_index w) (sw_subindex w) value b in
           if ok then apply_plan write_sdo error_message ws b'
           else (Inl (mapping_error w (error_message b')), b')))"

definition configure_lift_csv_pdos ::
    "(u16 \<Rightarrow> u8 \<Rightarrow> bytes \<Rightarrow> 'b \<Rightarrow> bool \<times> 'b) \<Rightarrow> ('b \<Rightarrow> string) \<Rightarrow> 'b \<Rightarrow> (string + unit) \<times> 'b" where
  "configure_lift_csv_pdos write_sdo error_message b =
     (case build_lift_csv_pdo_mapping_plan of
        Inl e \<Rightarrow> (Inl e, b)
      | Inr plan \<Rightarrow> apply_plan write_sdo error_message plan b)"

section \<open>The plan\<close>

definition lift_plan :: "pdo_sdo_write list" where
  "lift_plan =
     [mk_write 0x1C12 0 1 0, mk_write 0x1C13 0 1 0, mk_write 0x1600 0 1 0, mk_write 0x1601 0 1 0,
      mk_write 0x1602 0 1 0, mk_write 0x1603 0 1 0, mk_write 0x1A00 0 1 0, mk_write 0x1A01 0 1 0,
      mk_write 0x1601 1 4 0x60400010, mk_write 0x1601 2 4 0x60FF0020, mk_write 0x1601 3 4 0x60B20010,
      mk_write 0x1601 0 1 3,
      mk_write 0x1A00 1 4 0x60410010, mk_write 0x1A00 2 4 0x603F0010, mk_write 0x1A00 3 4 0x60610008,
      mk_write 0x1A00 4 4 0x60640020, mk_write 0x1A00 5 4 0x606C0020, mk_write 0x1A00 6 4 0x60FD0020,
      mk_write 0x1A00 0 1 6, mk_write 0x1C12 1 2 0x1601, mk_write 0x1C13 1 2 0x1A00,
      mk_write 0x1C12 0 1 1, mk_write 0x1C13 0 1 1]"

lemma plan_append_all_ok:
  "length plan + length ws \<le> kMaxWrites \<Longrightarrow> plan_append_all plan ws = Inr (plan @ ws)"
  by (induction ws arbitrary: plan) (auto simp: plan_append_def)

lemma validate_tables:
  "validate_pdo_mapping (Some kLiftRxPdoMapping) 8 = Inr ()"
  "validate_pdo_mapping (Some kLiftTxPdoMapping) 17 = Inr ()"
  by (simp_all add: validate_pdo_mapping_def kLiftRxPdoMapping_def kLiftTxPdoMapping_def mk_entry_def)

lemma upt_small: "[0..<3] = [0, 1, 2]" "[0..<6] = [0, 1, 2, 3, 4, 5]"
  by (simp_all add: upt_rec)

lemma table_writes:
  "entry_writes 0x1601 kLiftRxPdoMapping =
     [mk_write 0x1601 1 4 0x60400010, mk_write 0x1601 2 4 0x60FF0020, mk_write 0x1601 3 4 0x60B20010]"
  "entry_writes 0x1A00 kLiftTxPdoMapping =
     [mk_write 0x1A00 1 4 0x60410010, mk_write 0x1A00 2 4 0x603F0010, mk_write 0x1A00 3 4 0x60610008,
      mk_write 0x1A00 4 4 0x60640020, mk_write 0x1A00 5 4 0x606C0020, mk_write 0x1A00 6 4 0x60FD0020]"
  by (simp_all add: entry_writes_def kLiftRxPdoMapping_def kLiftTxPdoMapping_def mk_entry_def
      upt_small pdo_mapping_value_def)

lemma length_tables [simp]: "length kLiftRxPdoMapping = 3" "length kLiftTxPdoMapping = 6"
  by (simp_all add: kLiftRxPdoMapping_def kLiftTxPdoMapping_def)

lemma build_plan: "build_lift_csv_pdo_mapping_plan = Inr lift_plan"
  unfolding build_lift_csv_pdo_mapping_plan_def validate_tables table_writes bind_sum_simps
    length_tables lift_plan_def
  by (simp add: plan_append_all_ok plan_append_def kMaxWrites_def del: bind_sum_Inr_iff)

section \<open>What the plan does to a drive\<close>

text \<open>An object dictionary that records the SDO writes. By section 8.4.4 of the drive manual, cited in
  the source, a mapping entry may be written only while its mapping count is zero and both sync
  manager assignments are empty, an assignment entry only while its assignment is empty, and an
  assignment may be enabled only when the mapping it names has entries.\<close>

type_synonym object_dict = "u16 \<Rightarrow> u8 \<Rightarrow> u32 option"

definition od_write :: "object_dict \<Rightarrow> pdo_sdo_write \<Rightarrow> object_dict" where
  "od_write od w = od(sw_index w := (od (sw_index w))(sw_subindex w := Some (sw_value w)))"

definition is_assignment :: "u16 \<Rightarrow> bool" where
  "is_assignment i \<longleftrightarrow> i = 0x1C12 \<or> i = 0x1C13"

definition legal_write :: "object_dict \<Rightarrow> pdo_sdo_write \<Rightarrow> bool" where
  "legal_write od w \<longleftrightarrow>
     (if is_assignment (sw_index w) then
        (sw_subindex w \<noteq> 0 \<longrightarrow> od (sw_index w) 0 = Some 0) \<and>
        (sw_subindex w = 0 \<and> sw_value w \<noteq> 0 \<longrightarrow>
           (\<exists>m n. od (sw_index w) 1 = Some m \<and> od (ucast m) 0 = Some n \<and> n \<noteq> 0))
      else od 0x1C12 0 = Some 0 \<and> od 0x1C13 0 = Some 0 \<and>
           (sw_subindex w \<noteq> 0 \<longrightarrow> od (sw_index w) 0 = Some 0))"

fun legal_plan :: "object_dict \<Rightarrow> pdo_sdo_write list \<Rightarrow> bool" where
  "legal_plan od [] \<longleftrightarrow> True"
| "legal_plan od (w # ws) \<longleftrightarrow> legal_write od w \<and> legal_plan (od_write od w) ws"

definition od_run :: "object_dict \<Rightarrow> pdo_sdo_write list \<Rightarrow> object_dict" where
  "od_run od ws = foldl od_write od ws"

lemma lift_plan_legal: "legal_plan od lift_plan"
  by (simp add: lift_plan_def mk_write_def legal_write_def is_assignment_def od_write_def)

lemma lift_plan_result:
  fixes od :: object_dict
  defines "od' \<equiv> od_run od lift_plan"
  shows "od' 0x1C12 0 = Some 1" "od' 0x1C12 1 = Some 0x1601"
    and "od' 0x1C13 0 = Some 1" "od' 0x1C13 1 = Some 0x1A00"
    and "od' 0x1601 0 = Some 3" "od' 0x1A00 0 = Some 6"
    and "map (\<lambda>i. od' 0x1601 (of_nat (i + 1))) [0..<3] = map (Some \<circ> pdo_mapping_value) kLiftRxPdoMapping"
    and "map (\<lambda>i. od' 0x1A00 (of_nat (i + 1))) [0..<6] = map (Some \<circ> pdo_mapping_value) kLiftTxPdoMapping"
  by (simp_all add: od'_def od_run_def lift_plan_def mk_write_def od_write_def upt_small
      kLiftRxPdoMapping_def kLiftTxPdoMapping_def mk_entry_def pdo_mapping_value_def)

section \<open>Interface: a backend that accepts mapping writes\<close>

text \<open>What \<open>configure_lift_csv_pdos\<close> needs of a backend: while the slave is configured, a mapping SDO of
  the right width is accepted and the slave stays configured; otherwise every write is refused.\<close>

locale pdo_backend =
  fixes write_sdo :: "u16 \<Rightarrow> u8 \<Rightarrow> bytes \<Rightarrow> 'b \<Rightarrow> bool \<times> 'b"
    and ready :: "'b \<Rightarrow> bool"
  assumes accepts: "ready b \<Longrightarrow> mapping_index index \<Longrightarrow> length v = mapping_width index subindex \<Longrightarrow>
      fst (write_sdo index subindex v b) \<and> ready (snd (write_sdo index subindex v b))"
    and refuses: "\<not> ready b \<Longrightarrow> \<not> fst (write_sdo index subindex v b)"
begin

lemma apply_plan_ready:
  assumes "ready b"
    and "\<forall>w \<in> set ws. mapping_index (sw_index w) \<and>
           (\<exists>v. encode_pdo_sdo_value w = Some v \<and>
                length v = mapping_width (sw_index w) (sw_subindex w))"
  shows "fst (apply_plan write_sdo err ws b) = Inr () \<and> ready (snd (apply_plan write_sdo err ws b))"
  using assms
proof (induction ws arbitrary: b)
  case Nil
  then show ?case by simp
next
  case (Cons w ws)
  then obtain v where v: "encode_pdo_sdo_value w = Some v"
    "length v = mapping_width (sw_index w) (sw_subindex w)" "mapping_index (sw_index w)"
    by auto
  then show ?case
    using Cons accepts [OF Cons.prems(1) v(3,2)] by (auto simp: case_prod_beta Let_def)
qed

lemma apply_plan_not_ready:
  assumes "\<not> ready b" "ws \<noteq> []"
  shows "\<exists>e. fst (apply_plan write_sdo err ws b) = Inl e"
  using assms refuses by (cases ws) (auto simp: case_prod_beta Let_def split: option.split)

end

interpretation mock_pdo: pdo_backend mock_write_sdo mb_configured
proof
  fix b :: mock_backend and index subindex and v :: bytes
  show "mb_configured b \<Longrightarrow> mapping_index index \<Longrightarrow> length v = mapping_width index subindex \<Longrightarrow>
      fst (mock_write_sdo index subindex v b) \<and> mb_configured (snd (mock_write_sdo index subindex v b))"
    by (simp add: mock_write_mapping)
  show "\<not> mb_configured b \<Longrightarrow> \<not> fst (mock_write_sdo index subindex v b)"
    by (simp add: mock_write_sdo_def mock_fail_def)
qed

interpretation unavailable_pdo: pdo_backend unavailable_write_sdo "\<lambda>_. False"
  by unfold_locales (auto simp: unavailable_write_sdo_def)

lemma encode_width:
  "encode_pdo_sdo_value w = Some v \<Longrightarrow> length v = unat (sw_width_bytes w)"
  by (auto simp: encode_pdo_sdo_value_def Let_def split: if_splits)

lemma lift_plan_writes:
  "\<forall>w \<in> set lift_plan. mapping_index (sw_index w) \<and>
     (\<exists>v. encode_pdo_sdo_value w = Some v \<and> length v = mapping_width (sw_index w) (sw_subindex w))"
  by (simp add: lift_plan_def mk_write_def mapping_index_def encode_pdo_sdo_value_def mapping_width_def)

section \<open>Properties\<close>

text \<open>C39: The mapping plan is built without error, respects the order the drive manual demands at every
  write, and leaves the drive with exactly the tables of the source: 1601h as the only RxPDO and 1A00h as
  the only TxPDO, entry by entry.\<close>

theorem pdo_plan_correct:
  "\<exists>plan. build_lift_csv_pdo_mapping_plan = Inr plan \<and> legal_plan od plan \<and>
     (let od' = od_run od plan in
      od' 0x1C12 0 = Some 1 \<and> od' 0x1C12 1 = Some 0x1601 \<and>
      od' 0x1C13 0 = Some 1 \<and> od' 0x1C13 1 = Some 0x1A00 \<and>
      od' 0x1601 0 = Some 3 \<and> od' 0x1A00 0 = Some 6 \<and>
      map (\<lambda>i. od' 0x1601 (of_nat (i + 1))) [0..<3] = map (Some \<circ> pdo_mapping_value) kLiftRxPdoMapping \<and>
      map (\<lambda>i. od' 0x1A00 (of_nat (i + 1))) [0..<6] = map (Some \<circ> pdo_mapping_value) kLiftTxPdoMapping)"
  by (rule exI [of _ lift_plan]) (simp only: build_plan lift_plan_legal lift_plan_result Let_def)

text \<open>Configuring the process data succeeds on the simulated drive exactly when its slave is
  configured, and never on the placeholder backend.\<close>

theorem pdo_configure_iff:
  "(fst (configure_lift_csv_pdos mock_write_sdo mb_error_message b) = Inr () \<longleftrightarrow> mb_configured b) \<and>
   fst (configure_lift_csv_pdos unavailable_write_sdo err u) \<noteq> Inr ()"
proof -
  have "lift_plan \<noteq> []"
    by (simp add: lift_plan_def)
  then show ?thesis
    using mock_pdo.apply_plan_ready [OF _ lift_plan_writes, of b mb_error_message]
      mock_pdo.apply_plan_not_ready [of b lift_plan mb_error_message]
      unavailable_pdo.apply_plan_not_ready [of lift_plan err u]
    by (cases "mb_configured b") (auto simp: configure_lift_csv_pdos_def build_plan)
qed

end
