(* ===== verification/EthercatFrame.thy ===== *)
theory EthercatFrame
  imports EthercatBackend
begin

text \<open>
  EtherCAT frames (\<open>lift/ethercat_frame.hpp\<close>, \<open>lift/ethercat_frame.cpp\<close>): the Ethernet header,
  the frame header, datagrams and frames of datagrams, and the two frames of the lift process
  data. Every encoder is inverted by its decoder; the header codecs are interpretations of
  \<open>byte_codec\<close>. An output parameter is the result of the function; where the C++ function returns
  \<open>false\<close> the result is \<open>None\<close> or \<open>Inl\<close>.
\<close>

datatype ethercat_command =
    EC_nop | EC_aprd | EC_apwr | EC_aprw | EC_fprd | EC_fpwr | EC_fprw | EC_brd | EC_bwr
  | EC_brw | EC_lrd | EC_lwr | EC_lrw | EC_armw | EC_frmw

fun command_byte :: "ethercat_command \<Rightarrow> u8" where
  "command_byte EC_nop = 0x00"
| "command_byte EC_aprd = 0x01"
| "command_byte EC_apwr = 0x02"
| "command_byte EC_aprw = 0x03"
| "command_byte EC_fprd = 0x04"
| "command_byte EC_fpwr = 0x05"
| "command_byte EC_fprw = 0x06"
| "command_byte EC_brd = 0x07"
| "command_byte EC_bwr = 0x08"
| "command_byte EC_brw = 0x09"
| "command_byte EC_lrd = 0x0A"
| "command_byte EC_lwr = 0x0B"
| "command_byte EC_lrw = 0x0C"
| "command_byte EC_armw = 0x0D"
| "command_byte EC_frmw = 0x0E"

definition valid_command :: "u8 \<Rightarrow> bool" where
  "valid_command b \<longleftrightarrow> b \<le> command_byte EC_frmw"

definition byte_command :: "u8 \<Rightarrow> ethercat_command" where
  "byte_command b =
     [EC_nop, EC_aprd, EC_apwr, EC_aprw, EC_fprd, EC_fpwr, EC_fprw, EC_brd, EC_bwr,
      EC_brw, EC_lrd, EC_lwr, EC_lrw, EC_armw, EC_frmw] ! unat b"

definition kEthercatEtherType :: u16 where "kEthercatEtherType = 0x88A4"
definition kEthercatFrameType :: u8 where "kEthercatFrameType = 0x1"
definition kEthernetHeaderSize :: nat where "kEthernetHeaderSize = 14"
definition kEthercatFrameHeaderSize :: nat where "kEthercatFrameHeaderSize = 2"
definition kEthercatDatagramHeaderSize :: nat where "kEthercatDatagramHeaderSize = 10"
definition kEthercatWorkingCounterSize :: nat where "kEthercatWorkingCounterSize = 2"
definition kEthercatLengthMask :: u16 where "kEthercatLengthMask = 0x07FF"
definition kEthercatDatagramMoreFlag :: u16 where "kEthercatDatagramMoreFlag = 0x8000"

lemmas frame_consts = kEthercatEtherType_def kEthercatFrameType_def kEthernetHeaderSize_def
  kEthercatFrameHeaderSize_def kEthercatDatagramHeaderSize_def kEthercatWorkingCounterSize_def
  kEthercatLengthMask_def kEthercatDatagramMoreFlag_def

record ethernet_header =
  eh_destination :: bytes \<comment> \<open>an array of six bytes\<close>
  eh_source :: bytes \<comment> \<open>an array of six bytes\<close>
  eh_ether_type :: u16

record frame_header =
  fh_payload_length :: u16
  fh_type :: u8

record datagram_header =
  dh_command :: ethercat_command
  dh_index :: u8
  dh_address :: u32
  dh_data_length :: u16
  dh_interrupt :: u16
  dh_more :: bool

record datagram =
  dg_header :: datagram_header
  dg_data :: bytes
  dg_working_counter :: u16

type_synonym ethercat_frame = "datagram list"

definition ethercat_physical_address :: "u16 \<Rightarrow> u16 \<Rightarrow> u32" where
  "ethercat_physical_address auto_increment offset = ucast auto_increment OR push_bit 16 (ucast offset)"

definition ethercat_logical_address :: "u32 \<Rightarrow> u32" where
  "ethercat_logical_address address = address"

section \<open>Headers\<close>

definition encode_ethercat_ethernet_header :: "ethernet_header \<Rightarrow> bytes option" where
  "encode_ethercat_ethernet_header h =
     (if eh_ether_type h \<noteq> kEthercatEtherType then None
      else Some (eh_destination h @ eh_source h @
        [ucast (drop_bit 8 (eh_ether_type h) AND 0xFF), ucast (eh_ether_type h AND 0xFF)]))"

definition decode_ethercat_ethernet_header :: "buffer \<Rightarrow> ethernet_header option" where
  "decode_ethercat_ethernet_header buf =
     (case buf of None \<Rightarrow> None
      | Some bs \<Rightarrow>
          if length bs < kEthernetHeaderSize then None
          else let h = \<lparr>eh_destination = take 6 bs, eh_source = take 6 (drop 6 bs),
                        eh_ether_type = push_bit 8 (ucast (bs ! 12)) OR ucast (bs ! 13)\<rparr>
               in if eh_ether_type h = kEthercatEtherType then Some h else None)"

definition encode_ethercat_frame_header :: "frame_header \<Rightarrow> bytes option" where
  "encode_ethercat_frame_header h =
     (if fh_payload_length h > kEthercatLengthMask \<or> fh_type h > 0x0F then None
      else Some (store_u16_le (fh_payload_length h OR push_bit 12 (ucast (fh_type h)))))"

definition decode_ethercat_frame_header :: "buffer \<Rightarrow> frame_header option" where
  "decode_ethercat_frame_header buf =
     (case buf of None \<Rightarrow> None
      | Some bs \<Rightarrow>
          if length bs < kEthercatFrameHeaderSize then None
          else let wire = load_u16_le bs;
                   h = \<lparr>fh_payload_length = wire AND kEthercatLengthMask,
                        fh_type = ucast (drop_bit 12 wire AND 0x0F)\<rparr>
               in if fh_type h = kEthercatFrameType then Some h else None)"

definition encode_ethercat_datagram_header :: "datagram_header \<Rightarrow> bytes option" where
  "encode_ethercat_datagram_header h =
     (if dh_data_length h > kEthercatLengthMask then None
      else Some ([command_byte (dh_command h), dh_index h] @ store_u32_le (dh_address h) @
        store_u16_le (if dh_more h then dh_data_length h OR kEthercatDatagramMoreFlag
                      else dh_data_length h) @
        store_u16_le (dh_interrupt h)))"

definition decode_ethercat_datagram_header :: "buffer \<Rightarrow> datagram_header option" where
  "decode_ethercat_datagram_header buf =
     (case buf of None \<Rightarrow> None
      | Some bs \<Rightarrow>
          if length bs < kEthercatDatagramHeaderSize \<or> \<not> valid_command (bs ! 0) then None
          else let len = load_u16_le (drop 6 bs) in
            Some \<lparr>dh_command = byte_command (bs ! 0), dh_index = bs ! 1,
                  dh_address = load_u32_le (drop 2 bs),
                  dh_data_length = len AND kEthercatLengthMask,
                  dh_interrupt = load_u16_le (drop 8 bs),
                  dh_more = ((len AND kEthercatDatagramMoreFlag) \<noteq> 0)\<rparr>)"

section \<open>Datagrams and frames\<close>

definition encode_ethercat_datagram :: "datagram \<Rightarrow> bytes option" where
  "encode_ethercat_datagram d =
     (if length (dg_data d) > unat kEthercatLengthMask \<or>
         length (dg_data d) \<noteq> unat (dh_data_length (dg_header d)) then None
      else case encode_ethercat_datagram_header (dg_header d) of
        None \<Rightarrow> None
      | Some header_bytes \<Rightarrow> Some (header_bytes @ dg_data d @ store_u16_le (dg_working_counter d)))"

definition datagram_size :: "datagram_header \<Rightarrow> nat" where
  "datagram_size h =
     kEthercatDatagramHeaderSize + unat (dh_data_length h) + kEthercatWorkingCounterSize"

definition decode_ethercat_datagram :: "buffer \<Rightarrow> datagram option" where
  "decode_ethercat_datagram buf =
     (case buf of None \<Rightarrow> None
      | Some bs \<Rightarrow>
          if length bs < kEthercatDatagramHeaderSize + kEthercatWorkingCounterSize then None
          else case decode_ethercat_datagram_header (Some bs) of
            None \<Rightarrow> None
          | Some h \<Rightarrow>
              if length bs \<noteq> datagram_size h then None
              else Some \<lparr>dg_header = h,
                dg_data = take (unat (dh_data_length h)) (drop kEthercatDatagramHeaderSize bs),
                dg_working_counter =
                  load_u16_le (drop (kEthercatDatagramHeaderSize + unat (dh_data_length h)) bs)\<rparr>)"

text \<open>The first loop of the frame encoder checks and sums the sizes (\<open>size_t\<close> has 64 bits).\<close>

fun frame_payload_size :: "ethercat_frame \<Rightarrow> nat \<Rightarrow> nat option" where
  "frame_payload_size [] acc = Some acc"
| "frame_payload_size (d # ds) acc =
     (if length (dg_data d) > unat kEthercatLengthMask \<or>
         length (dg_data d) \<noteq> unat (dh_data_length (dg_header d)) then None
      else if acc > 2 ^ 64 - 1 - kEthercatDatagramHeaderSize - length (dg_data d) -
                    kEthercatWorkingCounterSize then None
      else frame_payload_size ds
        (acc + (kEthercatDatagramHeaderSize + length (dg_data d) + kEthercatWorkingCounterSize)))"

definition set_more :: "bool \<Rightarrow> datagram \<Rightarrow> datagram" where
  "set_more b d = d\<lparr>dg_header := (dg_header d)\<lparr>dh_more := b\<rparr>\<rparr>"

text \<open>The second loop: every datagram but the last carries the \<open>more\<close> flag.\<close>

fun encode_datagrams :: "ethercat_frame \<Rightarrow> bytes option" where
  "encode_datagrams [] = Some []"
| "encode_datagrams (d # ds) =
     (case encode_ethercat_datagram (set_more (ds \<noteq> []) d) of
        None \<Rightarrow> None
      | Some bs \<Rightarrow> (case encode_datagrams ds of None \<Rightarrow> None | Some rest \<Rightarrow> Some (bs @ rest)))"

definition encode_ethercat_frame :: "ethercat_frame \<Rightarrow> bytes option" where
  "encode_ethercat_frame frame =
     (if frame = [] then None
      else case frame_payload_size frame 0 of
        None \<Rightarrow> None
      | Some payload_size \<Rightarrow>
          if payload_size > unat kEthercatLengthMask then None
          else case encode_ethercat_frame_header
              \<lparr>fh_payload_length = of_nat payload_size, fh_type = kEthercatFrameType\<rparr> of
            None \<Rightarrow> None
          | Some header_bytes \<Rightarrow>
              (case encode_datagrams frame of None \<Rightarrow> None | Some bs \<Rightarrow> Some (header_bytes @ bs)))"

function decode_datagrams :: "bytes \<Rightarrow> ethercat_frame option" where
  "decode_datagrams bs =
     (if bs = [] then Some []
      else case decode_ethercat_datagram_header (Some bs) of
        None \<Rightarrow> None
      | Some h \<Rightarrow>
          if datagram_size h > length bs then None
          else case decode_ethercat_datagram (Some (take (datagram_size h) bs)) of
            None \<Rightarrow> None
          | Some d \<Rightarrow>
              if dh_more (dg_header d) = (datagram_size h = length bs) then None
              else (case decode_datagrams (drop (datagram_size h) bs) of
                      None \<Rightarrow> None | Some ds \<Rightarrow> Some (d # ds)))"
  by pat_completeness auto
termination
  by (relation "measure length") (auto simp: datagram_size_def frame_consts)

declare decode_datagrams.simps [simp del]

definition decode_ethercat_frame :: "buffer \<Rightarrow> ethercat_frame option" where
  "decode_ethercat_frame buf =
     (case buf of None \<Rightarrow> None
      | Some bs \<Rightarrow>
          if length bs < kEthercatFrameHeaderSize then None
          else case decode_ethercat_frame_header (Some bs) of
            None \<Rightarrow> None
          | Some h \<Rightarrow>
              if length bs \<noteq> kEthercatFrameHeaderSize + unat (fh_payload_length h) then None
              else case decode_datagrams (drop kEthercatFrameHeaderSize bs) of
                None \<Rightarrow> None
              | Some ds \<Rightarrow> if ds = [] then None else Some ds)"

section \<open>The frames of the lift\<close>

definition encode_lift_rx_pdo_frame :: "lift_rx_pdo \<Rightarrow> u8 \<Rightarrow> u32 \<Rightarrow> u16 \<Rightarrow> bytes option" where
  "encode_lift_rx_pdo_frame pdo datagram_index logical_address working_counter =
     (let wire = encode_lift_rx_pdo_le pdo in
      encode_ethercat_frame
        [\<lparr>dg_header = \<lparr>dh_command = EC_lwr, dh_index = datagram_index,
            dh_address = ethercat_logical_address logical_address,
            dh_data_length = of_nat (length wire), dh_interrupt = 0, dh_more = False\<rparr>,
          dg_data = wire, dg_working_counter = working_counter\<rparr>])"

definition decode_lift_tx_pdo_frame :: "buffer \<Rightarrow> string + (lift_tx_pdo \<times> u16)" where
  "decode_lift_tx_pdo_frame buf =
     (case decode_ethercat_frame buf of
        None \<Rightarrow> Inl ''invalid EtherCAT frame''
      | Some frame \<Rightarrow>
          if length frame \<noteq> 1 \<or> dh_command (dg_header (frame ! 0)) \<noteq> EC_lrd then
            Inl ''expected one logical-read datagram for the lift TxPDO''
          else let d = frame ! 0 in
            if length (dg_data d) \<noteq> 17 then
              Inl ''lift TxPDO length does not match the configured 17-byte mapping''
            else Inr (decode_lift_tx_pdo_le (dg_data d), dg_working_counter d))"

section \<open>Header codecs\<close>

lemma byte_command_of [simp]: "byte_command (command_byte c) = c"
  by (cases c) (simp_all add: byte_command_def)

lemma valid_command_byte [simp]: "valid_command (command_byte c)"
  by (cases c) (simp_all add: valid_command_def)

lemma kEthercatLengthMask_mask: "kEthercatLengthMask = mask 11"
  by (simp add: kEthercatLengthMask_def mask_eq_exp_minus_1)

lemma length_mask_low:
  assumes "(len :: u16) \<le> kEthercatLengthMask"
  shows "len AND kEthercatLengthMask = len"
proof -
  have "unat len < 2 ^ 11"
    using assms by (simp add: kEthercatLengthMask_def word_le_nat_alt)
  then have "unat (take_bit 11 len) = unat len"
    by (simp add: unsigned_take_bit_eq take_bit_nat_eq_self)
  then show ?thesis
    by (simp add: take_bit_eq_mask kEthercatLengthMask_mask word_unat_eq_iff)
qed

lemma length_mask_bits:
  assumes "(len :: u16) \<le> kEthercatLengthMask" "bit len n"
  shows "n < 11"
proof -
  have "bit (len AND kEthercatLengthMask) n"
    using assms length_mask_low [OF assms(1)] by simp
  then show ?thesis
    by (simp add: bit_simps kEthercatLengthMask_mask)
qed

lemma bit_more_flag: "bit kEthercatDatagramMoreFlag n \<longleftrightarrow> n = 15"
proof -
  have "kEthercatDatagramMoreFlag = 2 ^ 15"
    by (simp add: kEthercatDatagramMoreFlag_def)
  then have "bit kEthercatDatagramMoreFlag n \<longleftrightarrow> possible_bit TYPE(u16) 15 \<and> n = 15"
    by (metis bit_exp_iff)
  then show ?thesis
    by simp
qed

lemma bit_frame_type: "bit (4096 :: u16) n \<longleftrightarrow> n = 12"
proof -
  have "(4096 :: u16) = 2 ^ 12"
    by simp
  then have "bit (4096 :: u16) n \<longleftrightarrow> possible_bit TYPE(u16) 12 \<and> n = 12"
    by (metis bit_exp_iff)
  then show ?thesis
    by simp
qed

lemma length_more_low:
  assumes "(len :: u16) \<le> kEthercatLengthMask"
  shows "(len OR kEthercatDatagramMoreFlag) AND kEthercatLengthMask = len"
    and "(len OR kEthercatDatagramMoreFlag) AND kEthercatDatagramMoreFlag \<noteq> 0"
    and "len AND kEthercatDatagramMoreFlag = 0"
proof -
  show "(len OR kEthercatDatagramMoreFlag) AND kEthercatLengthMask = len"
    by (rule bit_word_eqI)
      (use length_mask_bits [OF assms] in
        \<open>auto simp: bit_simps kEthercatLengthMask_mask bit_more_flag\<close>)
  have "bit ((len OR kEthercatDatagramMoreFlag) AND kEthercatDatagramMoreFlag) 15"
    by (simp add: bit_simps bit_more_flag)
  then show "(len OR kEthercatDatagramMoreFlag) AND kEthercatDatagramMoreFlag \<noteq> 0"
    by (metis bit_0_eq bot_apply bot_bool_def)
  have "\<not> bit len 15"
    using length_mask_bits [OF assms, of 15] by auto
  then show "len AND kEthercatDatagramMoreFlag = 0"
    by (intro bit_word_eqI) (auto simp: bit_simps bit_more_flag)
qed

definition ethernet_header_ok :: "ethernet_header \<Rightarrow> bool" where
  "ethernet_header_ok h \<longleftrightarrow> length (eh_destination h) = 6 \<and> length (eh_source h) = 6 \<and>
     eh_ether_type h = kEthercatEtherType"

definition frame_header_ok :: "frame_header \<Rightarrow> bool" where
  "frame_header_ok h \<longleftrightarrow> fh_payload_length h \<le> kEthercatLengthMask \<and>
     fh_type h = kEthercatFrameType"

definition datagram_header_ok :: "datagram_header \<Rightarrow> bool" where
  "datagram_header_ok h \<longleftrightarrow> dh_data_length h \<le> kEthercatLengthMask"

lemma more_flag_nonzero [simp]: "kEthercatDatagramMoreFlag \<noteq> 0"
  by (simp add: kEthercatDatagramMoreFlag_def)

lemma decode_datagram_header_append:
  assumes "datagram_header_ok h" "encode_ethercat_datagram_header h = Some bs"
  shows "decode_ethercat_datagram_header (Some (bs @ rest)) = Some h" "length bs = 10"
  using assms
  by (auto simp: encode_ethercat_datagram_header_def decode_ethercat_datagram_header_def
      datagram_header_ok_def length_mask_low length_more_low kEthercatDatagramHeaderSize_def
      Let_def linorder_not_less [symmetric] split: if_splits)

interpretation ethernet_header: byte_codec encode_ethercat_ethernet_header
    "\<lambda>bs. decode_ethercat_ethernet_header (Some bs)" ethernet_header_ok
proof
  fix h :: ethernet_header and bs
  assume ok: "ethernet_header_ok h" and e: "encode_ethercat_ethernet_header h = Some bs"
  have bs: "bs = eh_destination h @ eh_source h @ [0x88, 0xA4]"
    using ok e by (auto simp: ethernet_header_ok_def encode_ethercat_ethernet_header_def
        kEthercatEtherType_def split: if_splits)
  show "decode_ethercat_ethernet_header (Some bs) = Some h"
    using ok by (simp add: bs decode_ethercat_ethernet_header_def ethernet_header_ok_def
        nth_append frame_consts)
qed (auto simp: ethernet_header_ok_def encode_ethercat_ethernet_header_def)

interpretation datagram_header: byte_codec encode_ethercat_datagram_header
    "\<lambda>bs. decode_ethercat_datagram_header (Some bs)" datagram_header_ok
proof
  show "datagram_header_ok h \<Longrightarrow> encode_ethercat_datagram_header h = Some bs \<Longrightarrow>
      decode_ethercat_datagram_header (Some bs) = Some h" for h bs
    using decode_datagram_header_append(1) [of h bs "[]"] by simp
qed (auto simp: datagram_header_ok_def encode_ethercat_datagram_header_def)

lemma frame_header_wire:
  assumes "(len :: u16) \<le> kEthercatLengthMask"
  shows "(len OR 4096) AND kEthercatLengthMask = len"
    and "(ucast (drop_bit 12 (len OR 4096) AND 0x0F) :: u8) = 1"
proof -
  have low: "\<And>n. bit len n \<Longrightarrow> n < 11"
    by (rule length_mask_bits [OF assms])
  show "(len OR 4096) AND kEthercatLengthMask = len"
    using low by (intro bit_word_eqI)
      (auto simp only: bit_or_iff bit_and_iff bit_mask_iff kEthercatLengthMask_mask bit_frame_type
        possible_bit_word)
  have "drop_bit 12 (len OR 4096) = 1"
    by (rule bit_word_eqI)
      (use low in \<open>auto simp only: bit_or_iff bit_drop_bit_eq comp_def bit_frame_type bit_1_iff
        possible_bit_word, force+\<close>)
  then show "(ucast (drop_bit 12 (len OR 4096) AND 0x0F) :: u8) = 1"
    by simp
qed

lemma decode_frame_header_append:
  assumes "frame_header_ok h" "encode_ethercat_frame_header h = Some bs"
  shows "decode_ethercat_frame_header (Some (bs @ rest)) = Some h" "length bs = 2"
proof -
  have len: "fh_payload_length h \<le> kEthercatLengthMask" "fh_type h = 1"
    using assms(1) by (simp_all add: frame_header_ok_def kEthercatFrameType_def)
  then have bs: "bs = store_u16_le (fh_payload_length h OR 4096)"
    using assms(2) by (simp add: encode_ethercat_frame_header_def linorder_not_less [symmetric])
  show "length bs = 2"
    by (simp add: bs)
  show "decode_ethercat_frame_header (Some (bs @ rest)) = Some h"
    using len frame_header_wire [OF len(1)]
    by (simp add: bs decode_ethercat_frame_header_def kEthercatFrameHeaderSize_def
        kEthercatFrameType_def)
qed

interpretation frame_header: byte_codec encode_ethercat_frame_header
    "\<lambda>bs. decode_ethercat_frame_header (Some bs)" frame_header_ok
proof
  show "frame_header_ok h \<Longrightarrow> encode_ethercat_frame_header h = Some bs \<Longrightarrow>
      decode_ethercat_frame_header (Some bs) = Some h" for h bs
    using decode_frame_header_append(1) [of h bs "[]"] by simp
qed (auto simp: frame_header_ok_def encode_ethercat_frame_header_def kEthercatFrameType_def)

section \<open>Datagram and frame round trips\<close>

definition datagram_ok :: "datagram \<Rightarrow> bool" where
  "datagram_ok d \<longleftrightarrow> length (dg_data d) \<le> unat kEthercatLengthMask \<and>
     length (dg_data d) = unat (dh_data_length (dg_header d))"

definition wire_size :: "ethercat_frame \<Rightarrow> nat" where
  "wire_size ds = sum_list (map (\<lambda>d. 12 + length (dg_data d)) ds)"

fun mark_more :: "ethercat_frame \<Rightarrow> ethercat_frame" where
  "mark_more [] = []"
| "mark_more (d # ds) = set_more (ds \<noteq> []) d # mark_more ds"

lemma wire_size_simps [simp]:
  "wire_size [] = 0" "wire_size (d # ds) = 12 + length (dg_data d) + wire_size ds"
  by (simp_all add: wire_size_def)

lemma set_more_simps [simp]:
  "dg_data (set_more b d) = dg_data d" "dh_more (dg_header (set_more b d)) = b"
  "dh_data_length (dg_header (set_more b d)) = dh_data_length (dg_header d)"
  "datagram_ok (set_more b d) = datagram_ok d"
  "set_more b (set_more c d) = set_more b d"
  by (simp_all add: set_more_def datagram_ok_def)

lemma wire_size_mark_more [simp]: "wire_size (mark_more ds) = wire_size ds"
  by (induction ds) simp_all

lemma mark_more_eq_Nil [simp]: "mark_more ds = [] \<longleftrightarrow> ds = []"
  by (cases ds) simp_all

lemma mark_more_idem [simp]: "mark_more (mark_more ds) = mark_more ds"
  by (induction ds) simp_all

lemma datagram_ok_header: "datagram_ok d \<Longrightarrow> datagram_header_ok (dg_header d)"
  by (simp add: datagram_ok_def datagram_header_ok_def word_le_nat_alt)

lemma encode_datagram_iff: "(\<exists>bs. encode_ethercat_datagram d = Some bs) \<longleftrightarrow> datagram_ok d"
proof
  assume "datagram_ok d"
  then obtain hb where "encode_ethercat_datagram_header (dg_header d) = Some hb"
    using datagram_header.encode_valid datagram_ok_header by blast
  with \<open>datagram_ok d\<close> show "\<exists>bs. encode_ethercat_datagram d = Some bs"
    by (simp add: encode_ethercat_datagram_def datagram_ok_def)
qed (auto simp: encode_ethercat_datagram_def datagram_ok_def split: if_splits)

lemma encode_datagram_SomeE:
  assumes "encode_ethercat_datagram d = Some bs"
  obtains hb where "datagram_ok d" "encode_ethercat_datagram_header (dg_header d) = Some hb"
    "length hb = 10" "bs = hb @ dg_data d @ store_u16_le (dg_working_counter d)"
    "length bs = 12 + length (dg_data d)" "datagram_size (dg_header d) = length bs"
proof -
  have ok: "datagram_ok d"
    using assms encode_datagram_iff by blast
  with assms obtain hb where hb: "encode_ethercat_datagram_header (dg_header d) = Some hb"
    "bs = hb @ dg_data d @ store_u16_le (dg_working_counter d)"
    by (auto simp: encode_ethercat_datagram_def datagram_ok_def split: option.splits if_splits)
  have "length hb = 10"
    using decode_datagram_header_append(2) [OF datagram_ok_header [OF ok] hb(1)] .
  with hb ok show ?thesis
    by (intro that) (simp_all add: datagram_size_def datagram_ok_def frame_consts)
qed

lemma decode_datagram_header_of_datagram:
  assumes "encode_ethercat_datagram d = Some bs"
  shows "decode_ethercat_datagram_header (Some (bs @ rest)) = Some (dg_header d)"
proof -
  obtain hb where hb: "datagram_ok d" "encode_ethercat_datagram_header (dg_header d) = Some hb"
    "bs = hb @ dg_data d @ store_u16_le (dg_working_counter d)"
    using assms by (elim encode_datagram_SomeE)
  show ?thesis
    using decode_datagram_header_append(1) [OF datagram_ok_header [OF hb(1)] hb(2)] hb(3) by simp
qed

lemma decode_encode_datagram:
  assumes "encode_ethercat_datagram d = Some bs"
  shows "decode_ethercat_datagram (Some bs) = Some d"
proof -
  obtain hb where hb: "datagram_ok d" "length hb = 10"
    "bs = hb @ dg_data d @ store_u16_le (dg_working_counter d)"
    "datagram_size (dg_header d) = length bs"
    using assms by (elim encode_datagram_SomeE)
  have "decode_ethercat_datagram_header (Some bs) = Some (dg_header d)"
    using decode_datagram_header_of_datagram [OF assms, of "[]"] by simp
  with hb show ?thesis
    by (simp add: decode_ethercat_datagram_def datagram_ok_def frame_consts)
qed

interpretation datagram: byte_codec encode_ethercat_datagram
    "\<lambda>bs. decode_ethercat_datagram (Some bs)" datagram_ok
  by unfold_locales (simp_all add: encode_datagram_iff decode_encode_datagram)

lemma frame_payload_size_Some:
  "frame_payload_size ds acc = Some n \<Longrightarrow> n = acc + wire_size ds \<and> list_all datagram_ok ds"
  by (induction ds acc rule: frame_payload_size.induct)
    (auto simp: datagram_ok_def frame_consts split: if_splits)

lemma frame_payload_size_ok:
  "list_all datagram_ok ds \<Longrightarrow> acc + wire_size ds \<le> 2 ^ 64 - 1 \<Longrightarrow>
    frame_payload_size ds acc = Some (acc + wire_size ds)"
  by (induction ds acc rule: frame_payload_size.induct)
    (auto simp: datagram_ok_def frame_consts)

lemma encode_datagrams_ok:
  "list_all datagram_ok ds \<Longrightarrow> \<exists>bs. encode_datagrams ds = Some bs"
proof (induction ds)
  case (Cons d ds)
  then obtain bs rest where "encode_ethercat_datagram (set_more (ds \<noteq> []) d) = Some bs"
    "encode_datagrams ds = Some rest"
    using encode_datagram_iff [of "set_more (ds \<noteq> []) d"] by auto
  then show ?case
    by simp
qed simp

lemma decode_encode_datagrams:
  "encode_datagrams ds = Some bs \<Longrightarrow>
    decode_datagrams bs = Some (mark_more ds) \<and> length bs = wire_size ds"
proof (induction ds arbitrary: bs)
  case Nil
  then show ?case
    by (simp add: decode_datagrams.simps)
next
  case (Cons d ds)
  let ?d = "set_more (ds \<noteq> []) d"
  from Cons.prems obtain b rest where b: "encode_ethercat_datagram ?d = Some b"
    "encode_datagrams ds = Some rest" "bs = b @ rest"
    by (auto split: option.splits)
  have IH: "decode_datagrams rest = Some (mark_more ds)" "length rest = wire_size ds"
    using Cons.IH [OF b(2)] by simp_all
  have sz: "datagram_size (dg_header ?d) = length b" "length b = 12 + length (dg_data d)"
    using b(1) by (auto elim: encode_datagram_SomeE)
  have more: "ds \<noteq> [] \<longleftrightarrow> rest \<noteq> []"
    using IH(2) by (cases ds) auto
  have "decode_ethercat_datagram_header (Some bs) = Some (dg_header ?d)"
    using decode_datagram_header_of_datagram [OF b(1)] b(3) by simp
  then show ?case
    using sz IH more decode_encode_datagram [OF b(1)]
    by (subst decode_datagrams.simps) (auto simp: b(3))
qed

lemma encode_frame_iff:
  "(\<exists>bs. encode_ethercat_frame ds = Some bs) \<longleftrightarrow>
     ds \<noteq> [] \<and> list_all datagram_ok ds \<and> wire_size ds \<le> 2047"
proof
  assume "\<exists>bs. encode_ethercat_frame ds = Some bs"
  then show "ds \<noteq> [] \<and> list_all datagram_ok ds \<and> wire_size ds \<le> 2047"
    by (auto simp: encode_ethercat_frame_def frame_consts
        dest!: frame_payload_size_Some split: if_splits option.splits)
next
  assume ok: "ds \<noteq> [] \<and> list_all datagram_ok ds \<and> wire_size ds \<le> 2047"
  then have "frame_payload_size ds 0 = Some (wire_size ds)"
    by (simp add: frame_payload_size_ok)
  moreover have "frame_header_ok \<lparr>fh_payload_length = of_nat (wire_size ds),
      fh_type = kEthercatFrameType\<rparr>"
    using ok by (simp add: frame_header_ok_def frame_consts word_le_nat_alt unat_of_nat)
  then obtain hb where "encode_ethercat_frame_header \<lparr>fh_payload_length = of_nat (wire_size ds),
      fh_type = kEthercatFrameType\<rparr> = Some hb"
    using frame_header.encode_valid by blast
  moreover obtain bs where "encode_datagrams ds = Some bs"
    using encode_datagrams_ok ok by blast
  ultimately show "\<exists>bs. encode_ethercat_frame ds = Some bs"
    using ok by (simp add: encode_ethercat_frame_def frame_consts)
qed

lemma decode_encode_frame:
  assumes "encode_ethercat_frame ds = Some bs"
  shows "decode_ethercat_frame (Some bs) = Some (mark_more ds)" "length bs = 2 + wire_size ds"
proof -
  let ?h = "\<lparr>fh_payload_length = of_nat (wire_size ds), fh_type = kEthercatFrameType\<rparr>"
  have ok: "ds \<noteq> []" "list_all datagram_ok ds" "wire_size ds \<le> 2047"
    using assms encode_frame_iff by blast+
  then have n: "frame_payload_size ds 0 = Some (wire_size ds)"
    by (simp add: frame_payload_size_ok)
  obtain hb body where hb: "encode_ethercat_frame_header ?h = Some hb"
    and body: "encode_datagrams ds = Some body" and bs: "bs = hb @ body"
    using assms ok n by (auto simp: encode_ethercat_frame_def split: option.splits if_splits)
  have hok: "frame_header_ok ?h"
    using ok by (simp add: frame_header_ok_def frame_consts word_le_nat_alt unat_of_nat)
  note dh = decode_frame_header_append [OF hok hb]
  note dd = decode_encode_datagrams [OF body]
  show "length bs = 2 + wire_size ds"
    using dh(2) dd bs by simp
  have "unat (of_nat (wire_size ds) :: u16) = wire_size ds"
    using ok by (simp add: unat_of_nat)
  then show "decode_ethercat_frame (Some bs) = Some (mark_more ds)"
    using dh dd ok by (simp add: bs decode_ethercat_frame_def kEthercatFrameHeaderSize_def)
qed

lemma decode_datagram_header_length:
  assumes "decode_ethercat_datagram_header (Some bs) = Some h"
  shows "unat (dh_data_length h) \<le> unat kEthercatLengthMask"
proof -
  have "dh_data_length h = load_u16_le (drop 6 bs) AND kEthercatLengthMask"
    using assms
    by (auto simp: decode_ethercat_datagram_header_def Let_def split: if_splits)
  then show ?thesis
    by (simp add: word_and_le1 flip: word_le_nat_alt)
qed

lemma decode_datagram_sound:
  assumes "decode_ethercat_datagram (Some bs) = Some d"
  shows "datagram_ok d" "length bs = 12 + length (dg_data d)"
proof -
  obtain h where h: "decode_ethercat_datagram_header (Some bs) = Some h"
    "length bs = datagram_size h" "dg_header d = h"
    "dg_data d = take (unat (dh_data_length h)) (drop 10 bs)"
    using assms by (auto simp: decode_ethercat_datagram_def kEthercatDatagramHeaderSize_def
        split: option.splits if_splits)
  then show "datagram_ok d" "length bs = 12 + length (dg_data d)"
    using decode_datagram_header_length [OF h(1)]
    by (simp_all add: datagram_ok_def datagram_size_def frame_consts)
qed

lemma decode_datagrams_sound:
  "decode_datagrams bs = Some ds \<Longrightarrow>
    wire_size ds = length bs \<and> mark_more ds = ds \<and> list_all datagram_ok ds"
proof (induction bs arbitrary: ds rule: decode_datagrams.induct)
  case (1 bs)
  show ?case
  proof (cases "bs = []")
    case True
    then show ?thesis
      using "1.prems" by (simp add: decode_datagrams.simps)
  next
    case False
    with "1.prems" obtain h d rest where h: "decode_ethercat_datagram_header (Some bs) = Some h"
      "datagram_size h \<le> length bs"
      "decode_ethercat_datagram (Some (take (datagram_size h) bs)) = Some d"
      "dh_more (dg_header d) \<longleftrightarrow> datagram_size h \<noteq> length bs"
      "decode_datagrams (drop (datagram_size h) bs) = Some rest" "ds = d # rest"
      by (subst (asm) decode_datagrams.simps) (auto split: option.splits if_splits)
    have IH: "wire_size rest = length bs - datagram_size h" "mark_more rest = rest"
      "list_all datagram_ok rest"
      using "1.IH" [OF False h(1) _ h(3) _ h(5)] h(2,4) by auto
    have rest: "rest \<noteq> [] \<longleftrightarrow> datagram_size h \<noteq> length bs"
      using IH(1) h(2) by (cases rest) auto
    have d: "datagram_ok d" "datagram_size h = 12 + length (dg_data d)"
      using decode_datagram_sound [OF h(3)] h(2) by simp_all
    have "set_more (rest \<noteq> []) d = d"
      using h(4) rest by (simp add: set_more_def)
    then show ?thesis
      using IH h(2,6) d by simp
  qed
qed

lemma decode_frame_sound:
  assumes "decode_ethercat_frame (Some bs) = Some ds"
  shows "ds \<noteq> []" "length bs = 2 + wire_size ds" "mark_more ds = ds" "list_all datagram_ok ds"
    "wire_size ds \<le> 2047"
proof -
  obtain h where h: "decode_ethercat_frame_header (Some bs) = Some h"
    "length bs = 2 + unat (fh_payload_length h)" "decode_datagrams (drop 2 bs) = Some ds" "ds \<noteq> []"
    using assms by (auto simp: decode_ethercat_frame_def kEthercatFrameHeaderSize_def
        split: option.splits if_splits)
  have "fh_payload_length h = load_u16_le bs AND kEthercatLengthMask"
    using h(1) by (auto simp: decode_ethercat_frame_header_def Let_def split: if_splits)
  then have "unat (fh_payload_length h) \<le> unat kEthercatLengthMask"
    by (simp add: word_and_le1 flip: word_le_nat_alt)
  with decode_datagrams_sound [OF h(3)] h show "ds \<noteq> []" "length bs = 2 + wire_size ds"
      "mark_more ds = ds" "list_all datagram_ok ds" "wire_size ds \<le> 2047"
    by (simp_all add: kEthercatLengthMask_def)
qed

section \<open>Properties\<close>

text \<open>C37: Every non-empty frame of consistent datagrams whose payload fits the 11-bit length field is
  encoded, nothing else is, and decoding the produced bytes gives the same datagrams back, with
  the \<open>more\<close> flags set on all but the last.\<close>

theorem frame_round_trip:
  "(encode_ethercat_frame ds \<noteq> None \<longleftrightarrow>
      ds \<noteq> [] \<and> list_all datagram_ok ds \<and> wire_size ds \<le> 2047) \<and>
   decode_ethercat_frame (encode_ethercat_frame ds) =
     (if encode_ethercat_frame ds = None then None else Some (mark_more ds))"
proof (cases "encode_ethercat_frame ds")
  case None
  then show ?thesis
    using encode_frame_iff [of ds] by (auto simp: decode_ethercat_frame_def)
next
  case (Some bs)
  then show ?thesis
    using encode_frame_iff [of ds] decode_encode_frame(1) [OF Some] by auto
qed

text \<open>The frame decoder consumes the whole buffer: what it accepts is a non-empty list of
  datagrams whose headers agree with their data, whose sizes add up exactly to the received
  length and which carry the \<open>more\<close> flag on all but the last; re-encoding it succeeds.\<close>

theorem frame_decode_exact:
  assumes "decode_ethercat_frame (Some bs) = Some ds"
  shows "length bs = 2 + wire_size ds \<and> mark_more ds = ds \<and>
    decode_ethercat_frame (encode_ethercat_frame ds) = Some ds"
proof -
  note sound = decode_frame_sound [OF assms]
  then obtain bs' where "encode_ethercat_frame ds = Some bs'"
    using encode_frame_iff by blast
  then show ?thesis
    using sound decode_encode_frame(1) by simp
qed

definition sample_frame :: ethercat_frame where
  "sample_frame =
     [\<lparr>dg_header = \<lparr>dh_command = EC_lrw, dh_index = 7, dh_address = 0x10000, dh_data_length = 2,
        dh_interrupt = 0, dh_more = False\<rparr>, dg_data = [0xAB, 0xCD], dg_working_counter = 3\<rparr>]"

theorem frame_decode_exact_witness:
  "\<exists>bs. decode_ethercat_frame (Some bs) = Some sample_frame \<and> length bs = 16"
proof -
  have e: "encode_ethercat_frame sample_frame = Some (the (encode_ethercat_frame sample_frame))"
    using encode_frame_iff [of sample_frame]
    by (auto simp: sample_frame_def datagram_ok_def kEthercatLengthMask_def)
  have m: "mark_more sample_frame = sample_frame"
    by (simp add: sample_frame_def set_more_def)
  have d: "decode_ethercat_frame (Some (the (encode_ethercat_frame sample_frame))) = Some sample_frame"
    using decode_encode_frame(1) [OF e] m by simp
  show ?thesis
    using frame_decode_exact [OF d] d by (auto simp: sample_frame_def)
qed

end
