(* ===== verification/EthercatCoe.thy ===== *)
theory EthercatCoe
  imports Prelude
begin

text \<open>
  CANopen over EtherCAT (\<open>lift/ethercat_coe.hpp\<close>, \<open>lift/ethercat_coe.cpp\<close>): the mailbox header and
  the expedited SDO services. The string parameter \<open>error\<close> of the decoders is read as well as
  written (an empty one is filled in one branch), so it is an argument here and the \<open>Inl\<close> result is its value when
  the function returns \<open>false\<close>.
\<close>

definition kEthercatMailboxTypeCoe :: u8 where "kEthercatMailboxTypeCoe = 0x03"
definition kCoeServiceSdoRequest :: u8 where "kCoeServiceSdoRequest = 0x02"
definition kCoeServiceSdoResponse :: u8 where "kCoeServiceSdoResponse = 0x03"

lemmas coe_consts = kEthercatMailboxTypeCoe_def kCoeServiceSdoRequest_def kCoeServiceSdoResponse_def

record ethercat_mailbox =
  mbx_address :: u16
  mbx_channel :: u8
  mbx_priority :: u8
  mbx_type :: u8
  mbx_payload :: bytes

definition mailbox_default :: ethercat_mailbox where
  "mailbox_default = \<lparr>mbx_address = 0, mbx_channel = 0, mbx_priority = 0,
     mbx_type = kEthercatMailboxTypeCoe, mbx_payload = []\<rparr>"

record coe_sdo_response =
  sr_index :: u16
  sr_subindex :: u8
  sr_upload :: bool
  sr_abort :: bool
  sr_abort_code :: u32
  sr_data :: bytes

section \<open>Mailbox\<close>

fun expedited_download_command :: "nat \<Rightarrow> u8" where
  "expedited_download_command n =
     (if n = 1 then 0x2F else if n = 2 then 0x2B else if n = 3 then 0x27 else if n = 4 then 0x23
      else 0)"

definition is_coe_mailbox :: "ethercat_mailbox \<Rightarrow> bool" where
  "is_coe_mailbox m \<longleftrightarrow> mbx_type m AND 0x0F = kEthercatMailboxTypeCoe"

definition decode_sdo_service :: "ethercat_mailbox \<Rightarrow> u8 \<Rightarrow> string + unit" where
  "decode_sdo_service m expected_service =
     (if \<not> is_coe_mailbox m \<or> length (mbx_payload m) < 2 then
        Inl ''mailbox is not a complete CoE payload''
      else if (ucast (drop_bit 12 (load_u16_le (mbx_payload m)) AND 0x0F) :: u8) \<noteq> expected_service
      then Inl ''unexpected CoE service type''
      else Inr ())"

definition encode_ethercat_mailbox :: "ethercat_mailbox \<Rightarrow> bytes option" where
  "encode_ethercat_mailbox m =
     (if length (mbx_payload m) > 0xFFFF \<or> mbx_channel m > 0x3F \<or> mbx_priority m > 0x03 \<or>
         mbx_type m AND 0xF0 \<noteq> 0 then None
      else Some (store_u16_le (of_nat (length (mbx_payload m))) @ store_u16_le (mbx_address m) @
        [mbx_channel m OR push_bit 6 (mbx_priority m), mbx_type m] @ mbx_payload m))"

definition decode_ethercat_mailbox :: "buffer \<Rightarrow> string + ethercat_mailbox" where
  "decode_ethercat_mailbox buf =
     (case buf of
        None \<Rightarrow> Inl ''EtherCAT mailbox is shorter than its six-byte header''
      | Some bs \<Rightarrow>
          if length bs < 6 then Inl ''EtherCAT mailbox is shorter than its six-byte header''
          else if length bs \<noteq> 6 + unat (load_u16_le bs) then
            Inl ''EtherCAT mailbox length field does not match the received bytes''
          else Inr \<lparr>mbx_address = load_u16_le (drop 2 bs), mbx_channel = (bs ! 4) AND 0x3F,
                    mbx_priority = drop_bit 6 (bs ! 4) AND 0x03, mbx_type = (bs ! 5) AND 0x0F,
                    mbx_payload = drop 6 bs\<rparr>)"

section \<open>SDO requests and responses\<close>

definition encode_coe_sdo_upload_request :: "u16 \<Rightarrow> u8 \<Rightarrow> bytes option" where
  "encode_coe_sdo_upload_request index subindex =
     encode_ethercat_mailbox (mailbox_default\<lparr>mbx_payload :=
       [0x00, push_bit 4 kCoeServiceSdoRequest, 0x40, ucast (index AND 0xFF),
        ucast (drop_bit 8 index AND 0xFF), subindex]\<rparr>)"

text \<open>\<open>std::vector::resize(n, 0)\<close>.\<close>

definition resize_zero :: "nat \<Rightarrow> bytes \<Rightarrow> bytes" where
  "resize_zero n bs = take n bs @ replicate (n - length bs) 0"

definition encode_coe_sdo_download_request :: "u16 \<Rightarrow> u8 \<Rightarrow> bytes \<Rightarrow> bytes option" where
  "encode_coe_sdo_download_request index subindex data =
     (let command = expedited_download_command (length data) in
      if command = 0 then None
      else encode_ethercat_mailbox (mailbox_default\<lparr>mbx_payload :=
        resize_zero 10 ([0x00, push_bit 4 kCoeServiceSdoRequest, command, ucast (index AND 0xFF),
          ucast (drop_bit 8 index AND 0xFF), subindex] @ data)\<rparr>))"

definition decode_coe_sdo_response :: "buffer \<Rightarrow> string \<Rightarrow> string + coe_sdo_response" where
  "decode_coe_sdo_response buf error =
     bind_sum (decode_ethercat_mailbox buf) (\<lambda>m.
     bind_sum (decode_sdo_service m kCoeServiceSdoResponse) (\<lambda>_.
     let p = mbx_payload m in
     if length p < 6 then Inl (if error = [] then ''CoE SDO response is too short'' else error)
     else
       let command = p ! 2;
           r = \<lparr>sr_index = load_u16_le (drop 3 p), sr_subindex = p ! 5, sr_upload = False,
                sr_abort = False, sr_abort_code = 0, sr_data = []\<rparr>
       in if command = 0x80 then
            (if length p < 10 then Inl ''SDO abort response is missing its abort code''
             else Inr (r\<lparr>sr_abort := True, sr_abort_code := load_u32_le (drop 6 p)\<rparr>))
          else if command AND 0xE0 \<noteq> 0x40 \<or> command AND 0x02 = 0 \<or> command AND 0x01 = 0 then
            Inl ''segmented or unsupported SDO upload response''
          else
            let unused = unat (drop_bit 2 command AND 0x03);
                data_size = 4 - unused
            in if length p \<noteq> 6 + 4 then
                 Inl ''expedited SDO upload response must contain four data bytes''
               else Inr (r\<lparr>sr_upload := True, sr_data := take data_size (drop 6 p)\<rparr>)))"

definition hex_digit :: "u32 \<Rightarrow> char" where
  "hex_digit v = ''0123456789ABCDEF'' ! unat v"

definition hex8 :: "u32 \<Rightarrow> string" where
  "hex8 code = map (\<lambda>shift. hex_digit (drop_bit shift code AND 0x0F)) [28, 24, 20, 16, 12, 8, 4, 0]"

definition decode_coe_sdo_download_ack ::
    "buffer \<Rightarrow> u16 \<Rightarrow> u8 \<Rightarrow> string \<Rightarrow> string + unit" where
  "decode_coe_sdo_download_ack buf expected_index expected_subindex error =
     bind_sum (decode_ethercat_mailbox buf) (\<lambda>m.
     bind_sum (decode_sdo_service m kCoeServiceSdoResponse) (\<lambda>_.
     let p = mbx_payload m in
     if length p < 6 then Inl error
     else if p ! 2 = 0x80 then
       Inl (if length p < 10 then ''SDO abort response is missing its abort code''
            else ''SDO download was aborted with code 0x'' @ hex8 (load_u32_le (drop 6 p)))
     else if p ! 2 \<noteq> 0x60 \<or> load_u16_le (drop 3 p) \<noteq> expected_index \<or> p ! 5 \<noteq> expected_subindex
     then Inl ''unexpected SDO download acknowledgement''
     else Inr ()))"

section \<open>The mailbox codec\<close>

definition mailbox_ok :: "ethercat_mailbox \<Rightarrow> bool" where
  "mailbox_ok m \<longleftrightarrow> length (mbx_payload m) \<le> 0xFFFF \<and> mbx_channel m \<le> 0x3F \<and>
     mbx_priority m \<le> 0x03 \<and> mbx_type m \<le> 0x0F"

definition ok_part :: "'e + 'a \<Rightarrow> 'a option" where
  "ok_part r = (case r of Inl _ \<Rightarrow> None | Inr a \<Rightarrow> Some a)"

lemma ok_part_simps [simp]: "ok_part (Inl e) = None" "ok_part (Inr a) = Some a"
  by (simp_all add: ok_part_def)

lemma u8_less_bits: "(c :: u8) < 2 ^ k \<Longrightarrow> bit c n \<Longrightarrow> n < k"
  by (metis bit_take_bit_iff less_mask_eq linorder_not_less nat_less_le take_bit_eq_mask)

lemma u8_masks: "(0x3F :: u8) = mask 6" "(0x0F :: u8) = mask 4" "(0x03 :: u8) = mask 2"
  "(0xF0 :: u8) = NOT (mask 4)"
  by (simp_all add: mask_eq_exp_minus_1)

lemma u8_le_bits:
  "(c :: u8) \<le> 0x3F \<Longrightarrow> bit c n \<Longrightarrow> n < 6"
  "(c :: u8) \<le> 0x0F \<Longrightarrow> bit c n \<Longrightarrow> n < 4"
  "(c :: u8) \<le> 0x03 \<Longrightarrow> bit c n \<Longrightarrow> n < 2"
  by (auto elim!: u8_less_bits [rotated] simp: word_le_nat_alt word_less_nat_alt)

lemma channel_priority:
  assumes "(c :: u8) \<le> 0x3F" "p \<le> 0x03"
  shows "(c OR push_bit 6 p) AND 0x3F = c" "drop_bit 6 (c OR push_bit 6 p) AND 0x03 = p"
proof -
  note c = u8_le_bits(1) [OF assms(1)] and p = u8_le_bits(3) [OF assms(2)]
  show "(c OR push_bit 6 p) AND 0x3F = c"
    unfolding u8_masks using c by (intro bit_word_eqI) (auto simp: bit_simps)
  show "drop_bit 6 (c OR push_bit 6 p) AND 0x03 = p"
  proof (rule bit_word_eqI)
    fix n :: nat
    assume "n < LENGTH(8)"
    show "bit (drop_bit 6 (c OR push_bit 6 p) AND 0x03) n = bit p n"
      unfolding u8_masks using c [of "6 + n"] p [of n] by (auto simp: bit_simps)
  qed
qed

lemma type_nibble: "(t :: u8) AND 0xF0 = 0 \<longleftrightarrow> t \<le> 0x0F" "(t :: u8) \<le> 0x0F \<Longrightarrow> t AND 0x0F = t"
proof -
  have low: "t AND 0x0F = t" if "t \<le> 0x0F"
    unfolding u8_masks using u8_le_bits(2) [OF that]
    by (intro bit_word_eqI) (auto simp: bit_simps)
  show "t \<le> 0x0F \<Longrightarrow> t AND 0x0F = t"
    by (rule low)
  have split: "t = (t AND 0x0F) OR (t AND 0xF0)"
    unfolding u8_masks by (intro bit_word_eqI) (auto simp: bit_simps)
  show "t AND 0xF0 = 0 \<longleftrightarrow> t \<le> 0x0F"
  proof
    assume "t AND 0xF0 = 0"
    then have "t = t AND 0x0F"
      using split by simp
    then show "t \<le> 0x0F"
      by (metis word_and_le1)
  next
    assume "t \<le> 0x0F"
    from u8_le_bits(2) [OF this] show "t AND 0xF0 = 0"
      unfolding u8_masks by (intro bit_word_eqI) (auto simp: bit_simps)
  qed
qed

lemma encode_mailbox_iff: "(\<exists>bs. encode_ethercat_mailbox m = Some bs) \<longleftrightarrow> mailbox_ok m"
  by (auto simp: encode_ethercat_mailbox_def mailbox_ok_def type_nibble not_less)

lemma decode_encode_mailbox:
  assumes "encode_ethercat_mailbox m = Some bs"
  shows "decode_ethercat_mailbox (Some bs) = Inr m" "length bs = 6 + length (mbx_payload m)"
proof -
  have ok: "mailbox_ok m"
    using assms encode_mailbox_iff by blast
  have bs: "bs = store_u16_le (of_nat (length (mbx_payload m))) @ store_u16_le (mbx_address m) @
      [mbx_channel m OR push_bit 6 (mbx_priority m), mbx_type m] @ mbx_payload m"
    using assms by (auto simp: encode_ethercat_mailbox_def split: if_splits)
  have "unat (of_nat (length (mbx_payload m)) :: u16) = length (mbx_payload m)"
    using ok by (simp add: mailbox_ok_def unat_of_nat)
  then show "decode_ethercat_mailbox (Some bs) = Inr m" "length bs = 6 + length (mbx_payload m)"
    using ok channel_priority [of "mbx_channel m" "mbx_priority m"]
    by (simp_all add: bs decode_ethercat_mailbox_def mailbox_ok_def nth_append type_nibble)
qed

interpretation mailbox: byte_codec encode_ethercat_mailbox
    "\<lambda>bs. ok_part (decode_ethercat_mailbox (Some bs))" mailbox_ok
  by unfold_locales (simp_all add: encode_mailbox_iff decode_encode_mailbox)

section \<open>Properties\<close>

text \<open>The fields of an expedited download request as a CoE server reads them: service, index,
  subindex and the data, whose size is in bits 2 and 3 of the command byte.\<close>

definition request_fields :: "ethercat_mailbox \<Rightarrow> u8 \<times> u16 \<times> u8 \<times> bytes" where
  "request_fields m =
     (let p = mbx_payload m in
      (ucast (drop_bit 12 (load_u16_le p)), load_u16_le (drop 3 p), p ! 5,
       take (4 - unat (drop_bit 2 (p ! 2) AND 3)) (drop 6 p)))"

lemma load_u16_pair: "load_u16_le (ucast (v AND 0xFF) # ucast (drop_bit 8 v AND 0xFF) # rest) = v"
  using load_store_u16_le [of v rest] by (simp add: store_u16_le_def)

lemma download_command_cases:
  "expedited_download_command n \<noteq> 0 \<longleftrightarrow> 1 \<le> n \<and> n \<le> 4"
  by auto

text \<open>An SDO download request is produced exactly for one to four data bytes; the mailbox it
  makes has sixteen bytes, passes the mailbox decoder, and its fields are the SDO request service,
  the requested index and subindex and exactly the given data.\<close>

theorem sdo_download_request:
  "case encode_coe_sdo_download_request i s data of
     None \<Rightarrow> length data = 0 \<or> 4 < length data
   | Some bs \<Rightarrow> 1 \<le> length data \<and> length data \<le> 4 \<and> length bs = 16 \<and>
       (\<exists>m. decode_ethercat_mailbox (Some bs) = Inr m \<and> is_coe_mailbox m \<and>
            request_fields m = (kCoeServiceSdoRequest, i, s, data))"
proof -
  let ?p = "resize_zero 10 ([0x00, push_bit 4 kCoeServiceSdoRequest,
      expedited_download_command (length data), ucast (i AND 0xFF), ucast (drop_bit 8 i AND 0xFF), s] @ data)"
  let ?m = "mailbox_default\<lparr>mbx_payload := ?p\<rparr>"
  have len: "length ?p = 10"
    by (simp add: resize_zero_def)
  have "mailbox_ok ?m"
    using len by (simp add: mailbox_ok_def mailbox_default_def coe_consts)
  then have ex: "\<exists>bs. encode_ethercat_mailbox ?m = Some bs"
    by (simp add: encode_mailbox_iff)
  have fields: "request_fields ?m = (kCoeServiceSdoRequest, i, s, data)"
    if "1 \<le> length data" "length data \<le> 4"
  proof -
    from that consider "length data = 1" | "length data = 2" | "length data = 3" | "length data = 4"
      by linarith
    then show ?thesis
      by cases (simp_all add: request_fields_def mailbox_default_def resize_zero_def coe_consts
          load_u16_pair load_u16_le_def [of "0 # _"] del: ucast_and_0xFF)
  qed
  have iff: "encode_coe_sdo_download_request i s data =
      (if 1 \<le> length data \<and> length data \<le> 4 then encode_ethercat_mailbox ?m else None)"
    using download_command_cases [of "length data"]
    by (auto simp: encode_coe_sdo_download_request_def Let_def
        simp del: expedited_download_command.simps)
  have coe: "is_coe_mailbox ?m"
    by (simp add: is_coe_mailbox_def mailbox_default_def coe_consts)
  show ?thesis
    using ex fields coe decode_encode_mailbox [of ?m] len
    by (auto simp: iff Suc_le_eq simp del: expedited_download_command.simps split: option.split)
qed



end
