(* ===== verification/LiftUnits.thy ===== *)
theory LiftUnits
  imports Doubles
begin

text \<open>
  Unit conversion of the lift axis (\<open>lift/lift_units.hpp\<close>, \<open>lift/lift_units.cpp\<close>): drive units,
  motor rpm and metres. \<open>derive_command_units_per_rev\<close> writes its output before the range check,
  so the derived value is given in both results.
\<close>

record lift_unit_config =
  uc_lead_mm_per_rev :: double
  uc_lift_sign :: double
  uc_command_units_per_rev :: u32
  uc_effective_command_units_per_rev :: double
  uc_encoder_counts_per_rev :: u32
  uc_encoder_counts_denominator :: u32
  uc_gear_ratio_numerator :: u32
  uc_gear_ratio_denominator :: u32
  uc_feed_units_numerator :: u32
  uc_feed_units_denominator :: u32
  uc_p00_08_command_units_per_rev :: u32

definition lift_unit_config_default :: lift_unit_config where
  "lift_unit_config_default = \<lparr>uc_lead_mm_per_rev = Fin (10 / 3), uc_lift_sign = Fin (- 1),
     uc_command_units_per_rev = 10000, uc_effective_command_units_per_rev = Fin 10000,
     uc_encoder_counts_per_rev = 131072, uc_encoder_counts_denominator = 1,
     uc_gear_ratio_numerator = 1, uc_gear_ratio_denominator = 1,
     uc_feed_units_numerator = 10000, uc_feed_units_denominator = 1,
     uc_p00_08_command_units_per_rev = 0\<rparr>"

definition of_u32 :: "u32 \<Rightarrow> double" where
  "of_u32 v = Fin (of_nat (unat v))"

definition of_i32 :: "i32 \<Rightarrow> double" where
  "of_i32 v = Fin (of_int (sint v))"

definition effective_command_units_per_rev :: "lift_unit_config \<Rightarrow> double" where
  "effective_command_units_per_rev config =
     (if isfinite (uc_effective_command_units_per_rev config) \<and>
         uc_effective_command_units_per_rev config > 0
      then uc_effective_command_units_per_rev config
      else of_u32 (uc_command_units_per_rev config))"

definition derive_command_units_per_rev ::
    "u32 \<Rightarrow> u32 \<Rightarrow> u32 \<Rightarrow> u32 \<Rightarrow> u32 \<Rightarrow> string + double" where
  "derive_command_units_per_rev encoder numerator denominator feed p00_08 =
     (if encoder = 0 \<or> numerator = 0 \<or> denominator = 0 \<or> feed = 0 then
        Inl ''608F/6091/6092 values must be non-zero''
      else
        let units = (if p00_08 \<noteq> 0 then of_u32 p00_08
                     else if feed \<noteq> encoder then of_u32 feed
                     else of_u32 encoder * of_u32 denominator / of_u32 numerator)
        in if \<not> isfinite units \<or> units < Fin 1 \<or> units > Fin 4294967295 then
             Inl ''effective command units/rev is outside uint32 range''
           else Inr units)"

text \<open>\<open>static_cast<uint32_t>(std::llround(x))\<close> wraps modulo \<open>2 ^ 32\<close>.\<close>

definition llround_u32 :: "double \<Rightarrow> u32 option" where
  "llround_u32 x = map_option of_int (llround x)"

definition validate_lift_units :: "lift_unit_config \<Rightarrow> string + unit" where
  "validate_lift_units c =
     (if \<not> isfinite (uc_lead_mm_per_rev c) \<or> uc_lead_mm_per_rev c \<le> 0 then
        Inl ''lead_mm_per_rev must be finite and positive''
      else if \<not> isfinite (uc_lift_sign c) \<or> \<bar>uc_lift_sign c\<bar> < Fin (1 / 2) then
        Inl ''lift_sign must be finite and non-zero (use -1 for this lift)''
      else if uc_command_units_per_rev c = 0 \<or> uc_encoder_counts_per_rev c = 0 \<or>
              uc_encoder_counts_denominator c = 0 then
        Inl ''command units and 608F encoder ratio must be non-zero''
      else if uc_gear_ratio_numerator c = 0 \<or> uc_gear_ratio_denominator c = 0 \<or>
              uc_feed_units_numerator c = 0 \<or> uc_feed_units_denominator c = 0 then
        Inl ''608F/6091/6092 ratios must be non-zero''
      else if uc_feed_units_denominator c \<noteq> 1 then
        Inl ''6092 has only subindex 01; feed_units_denominator must remain 1''
      else
        let sdo_units = of_u32 (uc_feed_units_numerator c) / of_u32 (uc_feed_units_denominator c)
        in bind_sum (derive_command_units_per_rev (uc_encoder_counts_per_rev c)
             (uc_gear_ratio_numerator c) (uc_gear_ratio_denominator c)
             (the (llround_u32 sdo_units)) (uc_p00_08_command_units_per_rev c)) (\<lambda>expected_units.
           if \<bar>effective_command_units_per_rev c - expected_units\<bar> >
                Fin (1 / 10 ^ 9) * dmax (Fin 1) expected_units
           then Inl ''command_units_per_rev does not match validated 608F/6091/6092/P00.08''
           else Inr ()))"

definition position_units_to_m :: "i32 \<Rightarrow> i32 \<Rightarrow> lift_unit_config \<Rightarrow> double" where
  "position_units_to_m actual zero_offset config =
     (let delta_units = of_i32 actual - of_i32 zero_offset in
      uc_lift_sign config * delta_units / effective_command_units_per_rev config *
        uc_lead_mm_per_rev config / Fin 1000)"

definition velocity_units_to_mps :: "i32 \<Rightarrow> lift_unit_config \<Rightarrow> double" where
  "velocity_units_to_mps v config =
     uc_lift_sign config * of_i32 v / effective_command_units_per_rev config *
       uc_lead_mm_per_rev config / Fin 1000"

text \<open>The result for a NaN is unspecified by \<open>std::llround\<close>: \<open>None\<close>.\<close>

definition wire_rpm_to_velocity_units :: "double \<Rightarrow> lift_unit_config \<Rightarrow> i32 option" where
  "wire_rpm_to_velocity_units wire_rpm config =
     (let units = wire_rpm / Fin 60 * effective_command_units_per_rev config in
      if units \<ge> Fin 2147483647 then Some 2147483647
      else if units \<le> Fin (- 2147483648) then Some (- 2147483648)
      else map_option of_int (llround units))"

definition velocity_units_to_wire_rpm :: "i32 \<Rightarrow> lift_unit_config \<Rightarrow> double" where
  "velocity_units_to_wire_rpm v config = of_i32 v * Fin 60 / effective_command_units_per_rev config"

definition rpm_to_mps :: "double \<Rightarrow> lift_unit_config \<Rightarrow> double" where
  "rpm_to_mps joint_rpm config =
     uc_lift_sign config * joint_rpm * uc_lead_mm_per_rev config / Fin 60000"

definition max_velocity_mps :: "double \<Rightarrow> lift_unit_config \<Rightarrow> double" where
  "max_velocity_mps max_rpm config = \<bar>rpm_to_mps \<bar>max_rpm\<bar> config\<bar>"

section \<open>Validated configurations\<close>

lemma of_u32_pos:
  assumes "v \<noteq> 0"
  shows "\<exists>u. of_u32 v = Fin u \<and> 0 < u"
proof -
  have "unat v \<noteq> 0"
    using assms by (simp add: unat_eq_zero)
  then have "0 < real (unat v)"
    by (simp only: of_nat_0_less_iff neq0_conv)
  then show ?thesis
    unfolding of_u32_def by blast
qed

lemma effective_units_pos:
  assumes "uc_command_units_per_rev c \<noteq> 0"
  obtains u where "effective_command_units_per_rev c = Fin u" "0 < u"
proof (cases "isfinite (uc_effective_command_units_per_rev c) \<and>
    uc_effective_command_units_per_rev c > 0")
  case True
  with that show ?thesis
    by (auto simp: effective_command_units_per_rev_def elim!: isfiniteE)
next
  case False
  with that of_u32_pos [OF assms] show ?thesis
    by (auto simp: effective_command_units_per_rev_def)
qed

lemma llround_u32_of_u32: "llround_u32 (of_u32 v / of_u32 1) = Some v"
proof -
  have "round_half_away (real (unat v)) = int (unat v)"
    using round_half_away_int [of "int (unat v)"] by simp
  moreover have "int (unat v) < 2 ^ 63" "- (2 ^ 63) \<le> int (unat v)"
    using uint_bounded [of v] order_trans [OF _ uint_ge_0 [of v], of "- (2 ^ 63)"] by simp_all
  ultimately show ?thesis
    by (simp add: llround_u32_def llround_def of_u32_def Let_def)
qed

lemma validate_lift_unitsE:
  assumes "validate_lift_units c = Inr ()"
  obtains l s u where "uc_lead_mm_per_rev c = Fin l" "0 < l" "uc_lift_sign c = Fin s" "1 / 2 \<le> \<bar>s\<bar>"
    "effective_command_units_per_rev c = Fin u" "0 < u"
proof -
  have "isfinite (uc_lead_mm_per_rev c)" "\<not> uc_lead_mm_per_rev c \<le> 0"
    "isfinite (uc_lift_sign c)" "\<not> \<bar>uc_lift_sign c\<bar> < Fin (1 / 2)"
    "uc_command_units_per_rev c \<noteq> 0"
    using assms by (auto simp: validate_lift_units_def split: if_splits)
  with that show ?thesis
    by (auto elim!: isfiniteE effective_units_pos)
qed


lemma sint_i32_bounds: "- 2147483648 \<le> sint (v :: i32)" "sint (v :: i32) \<le> 2147483647"
  using sint_greater_eq [of v] sint_less [of v] by simp_all

lemma sint_of_i32: "- 2147483648 \<le> n \<Longrightarrow> n \<le> 2147483647 \<Longrightarrow> sint (of_int n :: i32) = n"
  by (simp add: signed_of_int signed_take_bit_int_eq_self)

lemma i32_of_sint:
  "of_int (sint (v :: i32)) = v" "sint (v :: i32) = 2147483647 \<Longrightarrow> v = 2147483647"
  "sint (v :: i32) = - 2147483648 \<Longrightarrow> v = - 2147483648"
  by (simp_all add: signed_word_eqI)

declare of_int_sint [simp del]

section \<open>Properties\<close>

text \<open>Under a validated unit configuration the two conversions between drive velocity units and
  motor rpm lose nothing: every 32-bit velocity, converted to rpm and back, is itself.\<close>

theorem velocity_round_trip:
  assumes "validate_lift_units c = Inr ()"
  shows "wire_rpm_to_velocity_units (velocity_units_to_wire_rpm v c) c = Some v"
proof -
  obtain u where u: "effective_command_units_per_rev c = Fin u" "0 < u"
    using assms by (elim validate_lift_unitsE)
  have units: "velocity_units_to_wire_rpm v c / Fin 60 * effective_command_units_per_rev c =
      Fin (of_int (sint v))"
    using u by (simp add: velocity_units_to_wire_rpm_def of_i32_def)
  note b = sint_i32_bounds [of v]
  consider "sint v = 2147483647" | "sint v = - 2147483648"
    | "- 2147483648 < sint v" "sint v < 2147483647"
    using b by linarith
  then show ?thesis
    by cases (simp_all add: wire_rpm_to_velocity_units_def units llround_def Let_def
        i32_of_sint flip: of_int_le_iff)
qed

theorem velocity_round_trip_witness:
  "validate_lift_units lift_unit_config_default = Inr () \<and>
   wire_rpm_to_velocity_units
     (velocity_units_to_wire_rpm (- 12345) lift_unit_config_default) lift_unit_config_default =
     Some (- 12345)"
proof -
  have "llround_u32 (of_u32 10000 / of_u32 1) = Some 10000"
    by (rule llround_u32_of_u32)
  then have "validate_lift_units lift_unit_config_default = Inr ()"
    by (simp add: validate_lift_units_def lift_unit_config_default_def
        derive_command_units_per_rev_def effective_command_units_per_rev_def of_u32_def)
  then show ?thesis
    using velocity_round_trip by blast
qed

text \<open>Under a validated configuration a finite rpm command always gives a velocity word; it is
  the exact unit value rounded to the nearest integer, at most half a unit away, and saturates at the ends
  of the 32-bit range instead of wrapping.\<close>

theorem wire_rpm_saturates:
  assumes "validate_lift_units c = Inr ()"
  shows "\<exists>u v. effective_command_units_per_rev c = Fin u \<and> 0 < u \<and>
    wire_rpm_to_velocity_units (Fin r) c = Some v \<and>
    \<bar>of_int (sint v) - max (- 2147483648) (min 2147483647 (r / 60 * u))\<bar> \<le> 1 / 2"
proof -
  obtain u where u: "effective_command_units_per_rev c = Fin u" "0 < u"
    using assms by (elim validate_lift_unitsE)
  let ?x = "r / 60 * u"
  consider "?x \<ge> 2147483647" | "?x \<le> - 2147483648" | "- 2147483648 < ?x" "?x < 2147483647"
    by linarith
  then show ?thesis
  proof cases
    case 3
    have n: "- 2147483648 \<le> round_half_away ?x" "round_half_away ?x \<le> 2147483647"
      using round_half_away_mono [of "- 2147483648" ?x] round_half_away_mono [of ?x 2147483647]
        round_half_away_int [of "- 2147483648"] round_half_away_int [of 2147483647] 3
      by simp_all
    then have s: "sint (of_int (round_half_away ?x) :: i32) = round_half_away ?x"
      by (intro sint_of_i32) simp_all
    show ?thesis
      using 3 n u s round_half_away_error [of ?x]
      by (intro exI [of _ u] exI [of _ "of_int (round_half_away ?x)"])
        (simp add: wire_rpm_to_velocity_units_def llround_def Let_def)
  qed (use u in \<open>auto simp: wire_rpm_to_velocity_units_def Let_def\<close>)
qed

theorem wire_rpm_saturates_witness:
  "\<exists>v. wire_rpm_to_velocity_units (Fin (- 1000000000)) lift_unit_config_default = Some v \<and>
     sint v = - 2147483648"
proof -
  have "llround_u32 (of_u32 10000 / of_u32 1) = Some 10000"
    by (rule llround_u32_of_u32)
  then have ok: "validate_lift_units lift_unit_config_default = Inr ()"
    by (simp add: validate_lift_units_def lift_unit_config_default_def
        derive_command_units_per_rev_def effective_command_units_per_rev_def of_u32_def)
  have u: "effective_command_units_per_rev lift_unit_config_default = Fin 10000"
    by (simp add: effective_command_units_per_rev_def lift_unit_config_default_def)
  obtain v where v: "wire_rpm_to_velocity_units (Fin (- 1000000000)) lift_unit_config_default = Some v"
    "\<bar>real_of_int (sint v) - (- 2147483648)\<bar> \<le> 1 / 2"
    using wire_rpm_saturates [OF ok, of "- 1000000000"] u by auto
  then have "sint v = - 2147483648"
    by linarith
  with v show ?thesis
    by blast
qed

text \<open>The rpm-to-units conversion has no specified result for a NaN: neither saturation guard
  fires and the value reaches \<open>std::llround\<close>.\<close>

theorem wire_rpm_nan_unspecified:
  "wire_rpm_to_velocity_units NaN c = None"
  by (simp add: wire_rpm_to_velocity_units_def Let_def divide_double_def times_double_def
      llround_def inf_of_sign_def split: double.split)

end
