(* ===== verification/FeedbackContinuity.thy ===== *)
theory FeedbackContinuity
  imports Doubles
begin

text \<open>
  The guard against position jumps in the lift feedback (\<open>lift/feedback_continuity.hpp\<close>,
  \<open>lift/feedback_continuity.cpp\<close>). Time stamps are positive \<open>int64_t\<close> nanoseconds when they are
  subtracted, so the difference does not overflow and \<open>int\<close> models it; the epoch is a \<open>uint64_t\<close>.
\<close>

datatype continuity_state = FC_invalid | FC_baseline_established | FC_continuous | FC_jump_detected

record continuity_result =
  fr_state :: continuity_state
  fr_previous_position_m :: double
  fr_current_position_m :: double
  fr_delta_m :: double
  fr_threshold_m :: double
  fr_interval_ms :: double
  fr_epoch :: u64
  fr_source :: u32

record continuity_guard =
  fg_threshold_m :: double
  fg_max_interval_ns :: int
  fg_baseline_valid :: bool
  fg_previous_position_m :: double
  fg_previous_sample_time_ns :: int
  fg_epoch :: u64
  fg_source :: u32

definition guard_default :: continuity_guard where
  "guard_default = \<lparr>fg_threshold_m = Fin (2 / 10), fg_max_interval_ns = 100000000,
     fg_baseline_valid = False, fg_previous_position_m = 0, fg_previous_sample_time_ns = 0,
     fg_epoch = 0, fg_source = 0\<rparr>"

definition guard_configure :: "double \<Rightarrow> int \<Rightarrow> continuity_guard \<Rightarrow> continuity_guard" where
  "guard_configure threshold_m max_interval_ns g =
     (let g1 = (if isfinite threshold_m \<and> threshold_m > 0 then g\<lparr>fg_threshold_m := threshold_m\<rparr> else g)
      in if max_interval_ns > 0 then g1\<lparr>fg_max_interval_ns := max_interval_ns\<rparr> else g1)"

definition guard_init :: "double \<Rightarrow> int \<Rightarrow> continuity_guard" where
  "guard_init threshold_m max_interval_ns = guard_configure threshold_m max_interval_ns guard_default"

definition advance_epoch :: "u32 \<Rightarrow> continuity_guard \<Rightarrow> continuity_guard" where
  "advance_epoch source g = g\<lparr>fg_epoch := fg_epoch g + 1, fg_source := source,
     fg_baseline_valid := False, fg_previous_position_m := 0, fg_previous_sample_time_ns := 0\<rparr>"

definition guard_reset :: "u32 \<Rightarrow> continuity_guard \<Rightarrow> continuity_guard" where
  "guard_reset source g = advance_epoch source g"

definition invalidate :: "u32 \<Rightarrow> continuity_guard \<Rightarrow> continuity_guard" where
  "invalidate source g =
     (if fg_baseline_valid g \<or> source \<noteq> fg_source g then advance_epoch source g else g)"

definition observe ::
    "double \<Rightarrow> int \<Rightarrow> u32 \<Rightarrow> bool \<Rightarrow> continuity_guard \<Rightarrow> continuity_guard \<times> continuity_result" where
  "observe position_m sample_time_ns source fresh g =
     (let r = \<lparr>fr_state = FC_invalid, fr_previous_position_m = 0, fr_current_position_m = position_m,
               fr_delta_m = 0, fr_threshold_m = fg_threshold_m g, fr_interval_ms = 0,
               fr_epoch = 0, fr_source = 0\<rparr>
      in if \<not> fresh \<or> \<not> isfinite position_m \<or> sample_time_ns \<le> 0 then
           let g1 = invalidate source g in (g1, r\<lparr>fr_epoch := fg_epoch g1, fr_source := fg_source g1\<rparr>)
         else
           let g1 = (if source \<noteq> fg_source g then advance_epoch source g
                     else if fg_baseline_valid g \<and>
                       (sample_time_ns \<le> fg_previous_sample_time_ns g \<or>
                        sample_time_ns - fg_previous_sample_time_ns g > fg_max_interval_ns g)
                     then advance_epoch source g else g);
               r1 = r\<lparr>fr_epoch := fg_epoch g1, fr_source := fg_source g1\<rparr>;
               g2 = g1\<lparr>fg_previous_position_m := position_m, fg_previous_sample_time_ns := sample_time_ns\<rparr>
           in if \<not> fg_baseline_valid g1 then
                (g2\<lparr>fg_baseline_valid := True\<rparr>,
                 r1\<lparr>fr_previous_position_m := position_m, fr_state := FC_baseline_established\<rparr>)
              else
                let delta = \<bar>position_m - fg_previous_position_m g1\<bar> in
                (g2, r1\<lparr>fr_previous_position_m := fg_previous_position_m g1, fr_delta_m := delta,
                  fr_interval_ms :=
                    Fin (of_int (sample_time_ns - fg_previous_sample_time_ns g1)) * Fin (1 / 1000000),
                  fr_state := (if delta > fg_threshold_m g1 then FC_jump_detected
                               else FC_continuous)\<rparr>))"

section \<open>Invariant\<close>

datatype guard_event =
    Configure double int | Reset u32 | Invalidate u32 | Observe double int u32 bool

fun guard_step :: "continuity_guard \<Rightarrow> guard_event \<Rightarrow> continuity_guard" where
  "guard_step g (Configure t i) = guard_configure t i g"
| "guard_step g (Reset s) = guard_reset s g"
| "guard_step g (Invalidate s) = invalidate s g"
| "guard_step g (Observe p t s f) = fst (observe p t s f g)"

definition guard_inv :: "continuity_guard \<Rightarrow> bool" where
  "guard_inv g \<longleftrightarrow> isfinite (fg_threshold_m g) \<and> fg_threshold_m g > 0 \<and> fg_max_interval_ns g > 0 \<and>
     isfinite (fg_previous_position_m g) \<and>
     (if fg_baseline_valid g then fg_previous_sample_time_ns g > 0
      else fg_previous_position_m g = 0 \<and> fg_previous_sample_time_ns g = 0)"

lemma guard_inv_default: "guard_inv guard_default"
  by (simp add: guard_inv_def guard_default_def)

lemma guard_inv_advance: "guard_inv g \<Longrightarrow> guard_inv (advance_epoch s g)"
  by (simp add: guard_inv_def advance_epoch_def)

lemma guard_inv_observe:
  assumes "guard_inv g" shows "guard_inv (fst (observe p t s f g))"
  using assms guard_inv_advance [OF assms, of s]
  by (auto simp: observe_def Let_def invalidate_def guard_inv_def split: if_splits)

interpretation continuity: guarded_machine guard_step guard_inv
proof
  fix g e
  assume inv: "guard_inv g"
  show "guard_inv (guard_step g e)"
  proof (cases e)
    case (Configure t i)
    then show ?thesis
      using inv by (auto simp: guard_configure_def guard_inv_def Let_def)
  qed (use inv in \<open>simp_all add: guard_reset_def guard_inv_advance invalidate_def
      guard_inv_observe\<close>)
qed

lemma guard_inv_init: "guard_inv (guard_init t i)"
  using continuity.step_inv [OF guard_inv_default, of "Configure t i"] by (simp add: guard_init_def)

section \<open>Runs of observations\<close>

text \<open>A sample is a position with its time stamp and source; all samples here are fresh.\<close>

fun observe_run ::
    "continuity_guard \<Rightarrow> (double \<times> int \<times> u32) list \<Rightarrow> continuity_result list" where
  "observe_run g [] = []"
| "observe_run g ((p, t, s) # xs) =
     (let (g1, r) = observe p t s True g in r # observe_run g1 xs)"

lemma observe_continuousE:
  assumes "observe p t s f g = (g', r)" "fr_state r = FC_continuous"
  shows "f" "isfinite p" "fg_baseline_valid g" "s = fg_source g"
    "fg_previous_sample_time_ns g < t" "t - fg_previous_sample_time_ns g \<le> fg_max_interval_ns g"
    "\<not> \<bar>p - fg_previous_position_m g\<bar> > fg_threshold_m g"
    "g' = g\<lparr>fg_previous_position_m := p, fg_previous_sample_time_ns := t\<rparr>"
  using assms by (auto simp: observe_def Let_def advance_epoch_def split: if_splits)

lemma observe_run_drift:
  assumes "guard_inv g"
    and "\<forall>r \<in> set (observe_run g xs). fr_state r = FC_continuous"
    and "xs \<noteq> []"
  shows "\<bar>val (fst (last xs)) - val (fg_previous_position_m g)\<bar> \<le>
    real (length xs) * val (fg_threshold_m g)"
  using assms
proof (induction xs arbitrary: g)
  case Nil
  then show ?case by simp
next
  case (Cons x xs)
  obtain p t s where x: "x = (p, t, s)"
    by (cases x)
  obtain g' r where o: "observe p t s True g = (g', r)"
    by fastforce
  have c: "fr_state r = FC_continuous" "\<forall>r \<in> set (observe_run g' xs). fr_state r = FC_continuous"
    using Cons.prems(2) by (auto simp: x o)
  note obs = observe_continuousE [OF o c(1)]
  have inv': "guard_inv g'"
    using guard_inv_observe [OF Cons.prems(1), of p t s True] o by simp
  have step: "\<bar>val p - val (fg_previous_position_m g)\<bar> \<le> val (fg_threshold_m g)"
    using obs(2,7) Cons.prems(1) by (auto simp: guard_inv_def not_less elim!: isfiniteE)
  show ?case
  proof (cases "xs = []")
    case False
    have "\<bar>val (fst (last xs)) - val p\<bar> \<le> real (length xs) * val (fg_threshold_m g)"
      using Cons.IH [OF inv' c(2) False] obs(8) by simp
    then show ?thesis
      using step False by (simp add: x algebra_simps)
  qed (use step x in simp)
qed

section \<open>Properties\<close>

text \<open>From any reachable guard state a run of samples that the guard calls continuous moves at
  most the threshold per sample: after \<open>n\<close> samples the position is within \<open>n\<close> thresholds of the
  baseline.\<close>

theorem continuity_bounds_drift:
  assumes "\<forall>r \<in> set (observe_run (run_events guard_step (guard_init t i) es) xs).
      fr_state r = FC_continuous" and "xs \<noteq> []"
  shows "let g = run_events guard_step (guard_init t i) es in
    fg_baseline_valid g \<and>
    \<bar>val (fst (last xs)) - val (fg_previous_position_m g)\<bar> \<le>
      real (length xs) * val (fg_threshold_m g)"
proof -
  let ?g = "run_events guard_step (guard_init t i) es"
  have inv: "guard_inv ?g"
    by (rule continuity.run_inv [OF guard_inv_init])
  obtain p tm s ys where xs: "xs = (p, tm, s) # ys"
    using assms(2) by (cases xs) auto
  obtain g' r where o: "observe p tm s True ?g = (g', r)"
    by fastforce
  have "fr_state r = FC_continuous"
    using assms(1) by (simp add: xs o)
  then have "fg_baseline_valid ?g"
    by (rule observe_continuousE(3) [OF o])
  then show ?thesis
    using observe_run_drift [OF inv assms] by simp
qed

theorem continuity_bounds_drift_witness:
  "let g = run_events guard_step (guard_init (Fin (1 / 10)) 50) [Observe (Fin 1) 10 0 True] in
   \<bar>val (Fin (11 / 10)) - val (fg_previous_position_m g)\<bar> \<le> 2 * val (fg_threshold_m g)"
proof -
  have "\<forall>r \<in> set (observe_run (run_events guard_step (guard_init (Fin (1 / 10)) 50)
      [Observe (Fin 1) 10 0 True]) [(Fin (105 / 100), 20, 0), (Fin (11 / 10), 30, 0)]).
      fr_state r = FC_continuous"
    by (simp add: guard_init_def guard_configure_def guard_default_def observe_def)
  from continuity_bounds_drift [OF this] show ?thesis
    by (simp add: Let_def)
qed

text \<open>A sample is compared with an earlier one only within one epoch: when the source changes,
  the sample is stale, its time does not advance or the gap exceeds the maximum, the guard starts a new
  epoch and never reports a jump; otherwise, with a baseline, it reports a jump exactly when the position moved
  by more than the threshold.\<close>

theorem jump_iff:
  assumes "guard_inv g"
  shows "fr_state (snd (observe p t s fresh g)) = FC_jump_detected \<longleftrightarrow>
    fresh \<and> isfinite p \<and> fg_baseline_valid g \<and> s = fg_source g \<and>
    fg_previous_sample_time_ns g < t \<and> t \<le> fg_previous_sample_time_ns g + fg_max_interval_ns g \<and>
    \<bar>val p - val (fg_previous_position_m g)\<bar> > val (fg_threshold_m g)"
  using assms
  by (cases p) (auto simp: observe_def Let_def advance_epoch_def guard_inv_def split: if_splits
      elim!: isfiniteE)

theorem jump_iff_witness:
  "fr_state (snd (observe (Fin 2) 20 0 True
     (fst (observe (Fin 1) 10 0 True guard_default)))) = FC_jump_detected"
proof -
  have "guard_inv (fst (observe (Fin 1) 10 0 True guard_default))"
    by (rule guard_inv_observe [OF guard_inv_default])
  from jump_iff [OF this, of "Fin 2" 20 0 True] show ?thesis
    by (simp add: observe_def guard_default_def)
qed

end
