(* ===== verification/MotionProfile.thy ===== *)
theory MotionProfile
  imports Doubles
begin

text \<open>
  The motion profile of the lift (\<open>lift/lift_motion_profile.hpp\<close>, \<open>lift/lift_motion_profile.cpp\<close>).
  The trajectory generator Ruckig is third-party code: its object is a value of a type
  \<open>'o\<close>, and \<open>otg_reset\<close> and \<open>otg_update\<close> are parameters. \<open>otg_update\<close> gives the new object, the result code and
  the output; nothing is assumed of it, so the properties hold whatever the generator does.
  The limits start as NaN, as in the source.
\<close>

record motion_limits =
  ml_min_position_m :: double
  ml_max_position_m :: double
  ml_max_velocity_mps :: double
  ml_max_acceleration_mps2 :: double
  ml_max_jerk_mps3 :: double
  ml_default_velocity_scale :: double

record motion_sample =
  ms_position_m :: double
  ms_velocity_mps :: double
  ms_acceleration_mps2 :: double
  ms_jerk_mps3 :: double
  ms_finished :: bool
  ms_valid :: bool

datatype profile_mode = PM_hold | PM_position | PM_velocity | PM_soft_stop

datatype control_interface = CI_position | CI_velocity

record otg_input =
  oi_control_interface :: control_interface
  oi_current_position :: double
  oi_current_velocity :: double
  oi_current_acceleration :: double
  oi_target_position :: double
  oi_target_velocity :: double
  oi_target_acceleration :: double
  oi_max_velocity :: double
  oi_max_acceleration :: double
  oi_max_jerk :: double

record otg_output =
  oo_new_position :: double
  oo_new_velocity :: double
  oo_new_acceleration :: double
  oo_new_jerk :: double

definition otg_Working :: int where "otg_Working = 0"
definition otg_Finished :: int where "otg_Finished = 1"

type_synonym 'o otg_update = "'o \<Rightarrow> double \<Rightarrow> otg_input \<Rightarrow> 'o \<times> int \<times> otg_output"

record 'o motion_profile =
  mp_cycle_sec :: double
  mp_limits :: motion_limits
  mp_state :: motion_sample
  mp_mode :: profile_mode
  mp_otg :: 'o
  mp_input :: otg_input
  mp_configured :: bool

definition limits_unset :: motion_limits where
  "limits_unset = \<lparr>ml_min_position_m = NaN, ml_max_position_m = NaN, ml_max_velocity_mps = NaN,
     ml_max_acceleration_mps2 = NaN, ml_max_jerk_mps3 = NaN, ml_default_velocity_scale = NaN\<rparr>"

section \<open>Helpers of the class\<close>

definition normalized_scale :: "motion_limits \<Rightarrow> double \<Rightarrow> double" where
  "normalized_scale l requested =
     (if \<not> isfinite requested \<or> requested \<le> 0 then ml_default_velocity_scale l
      else dclamp requested (Fin (1 / 100)) 1)"

definition limit_aware_velocity :: "motion_limits \<Rightarrow> double \<Rightarrow> double \<Rightarrow> double" where
  "limit_aware_velocity l current_position requested =
     (if requested > 0 then
        let distance = dmax 0 (ml_max_position_m l - current_position);
            braking_limit = dsqrt (Fin 2 * ml_max_acceleration_mps2 l * distance)
        in dmin requested braking_limit
      else if requested < 0 then
        let distance = dmax 0 (current_position - ml_min_position_m l);
            braking_limit = dsqrt (Fin 2 * ml_max_acceleration_mps2 l * distance)
        in dmax requested (- braking_limit)
      else 0)"

definition apply_limits :: "double \<Rightarrow> 'o motion_profile \<Rightarrow> 'o motion_profile" where
  "apply_limits velocity_scale p =
     (let l = mp_limits p; scale = normalized_scale l velocity_scale in
      p\<lparr>mp_input := (mp_input p)\<lparr>oi_max_velocity := ml_max_velocity_mps l * scale,
          oi_max_acceleration := ml_max_acceleration_mps2 l, oi_max_jerk := ml_max_jerk_mps3 l\<rparr>\<rparr>)"

section \<open>Operations\<close>

definition profile_configure ::
    "motion_limits \<Rightarrow> 'o motion_profile \<Rightarrow> 'o motion_profile \<times> (string + unit)" where
  "profile_configure limits p =
     (if \<not> isfinite (ml_min_position_m limits) \<or> \<not> isfinite (ml_max_position_m limits) \<or>
         ml_min_position_m limits \<ge> ml_max_position_m limits then
        (p, Inl ''position limits must be finite and ordered'')
      else if \<not> isfinite (ml_max_velocity_mps limits) \<or> ml_max_velocity_mps limits \<le> 0 then
        (p, Inl ''max velocity must be finite and positive'')
      else if \<not> isfinite (ml_max_acceleration_mps2 limits) \<or> ml_max_acceleration_mps2 limits \<le> 0 \<or>
         \<not> isfinite (ml_max_jerk_mps3 limits) \<or> ml_max_jerk_mps3 limits \<le> 0 \<or>
         \<not> isfinite (ml_default_velocity_scale limits) \<or> ml_default_velocity_scale limits \<le> 0 \<or>
         ml_default_velocity_scale limits > 1 then
        (p, Inl ''acceleration, jerk and velocity scale must be positive; scale must not exceed 1'')
      else (apply_limits (ml_default_velocity_scale limits)
              (p\<lparr>mp_limits := limits, mp_configured := True\<rparr>), Inr ()))"

definition profile_reset ::
    "('o \<Rightarrow> 'o) \<Rightarrow> double \<Rightarrow> double \<Rightarrow> double \<Rightarrow> 'o motion_profile \<Rightarrow> 'o motion_profile" where
  "profile_reset otg_reset position_m velocity_mps acceleration_mps2 p =
     (let l = mp_limits p;
          position = dclamp position_m (ml_min_position_m l) (ml_max_position_m l);
          velocity = dclamp velocity_mps (- ml_max_velocity_mps l) (ml_max_velocity_mps l);
          acceleration = dclamp acceleration_mps2 (- ml_max_acceleration_mps2 l)
            (ml_max_acceleration_mps2 l);
          p1 = apply_limits (ml_default_velocity_scale l)
            (p\<lparr>mp_input := (mp_input p)\<lparr>oi_current_position := position,
                oi_current_velocity := velocity, oi_current_acceleration := acceleration,
                oi_target_position := position, oi_target_velocity := 0,
                oi_target_acceleration := 0, oi_control_interface := CI_position\<rparr>\<rparr>)
      in p1\<lparr>mp_otg := otg_reset (mp_otg p), mp_mode := PM_hold,
            mp_state := \<lparr>ms_position_m = position, ms_velocity_mps = velocity,
              ms_acceleration_mps2 = acceleration, ms_jerk_mps3 = 0, ms_finished = True,
              ms_valid = True\<rparr>\<rparr>)"

definition set_position_target ::
    "('o \<Rightarrow> 'o) \<Rightarrow> double \<Rightarrow> double \<Rightarrow> double \<Rightarrow> double \<Rightarrow> double \<Rightarrow> 'o motion_profile \<Rightarrow>
      'o motion_profile option" where
  "set_position_target otg_reset position_m target_velocity_mps target_acceleration_mps2
       velocity_scale acceleration_limit_mps2 p =
     (if \<not> mp_configured p \<or> \<not> isfinite position_m \<or> \<not> isfinite target_velocity_mps \<or>
         \<not> isfinite target_acceleration_mps2 \<or> \<not> isfinite acceleration_limit_mps2 then None
      else
        let l = mp_limits p;
            p1 = apply_limits (normalized_scale l velocity_scale)
              (p\<lparr>mp_input := (mp_input p)\<lparr>oi_control_interface := CI_position,
                  oi_target_position := dclamp position_m (ml_min_position_m l) (ml_max_position_m l),
                  oi_target_velocity := dclamp target_velocity_mps (- ml_max_velocity_mps l)
                    (ml_max_velocity_mps l),
                  oi_target_acceleration := dclamp target_acceleration_mps2
                    (- ml_max_acceleration_mps2 l) (ml_max_acceleration_mps2 l)\<rparr>\<rparr>);
            p2 = (if acceleration_limit_mps2 > 0 then
                    p1\<lparr>mp_input := (mp_input p1)\<lparr>oi_max_acceleration :=
                      dmin (oi_max_acceleration (mp_input p1)) acceleration_limit_mps2\<rparr>\<rparr>
                  else p1)
        in Some (p2\<lparr>mp_otg := otg_reset (mp_otg p), mp_mode := PM_position\<rparr>))"

definition set_velocity_target ::
    "('o \<Rightarrow> 'o) \<Rightarrow> double \<Rightarrow> double \<Rightarrow> 'o motion_profile \<Rightarrow> 'o motion_profile option" where
  "set_velocity_target otg_reset velocity_mps velocity_scale p =
     (if \<not> mp_configured p \<or> \<not> isfinite velocity_mps then None
      else
        let scale = normalized_scale (mp_limits p) velocity_scale;
            p1 = apply_limits scale
              (p\<lparr>mp_input := (mp_input p)\<lparr>oi_control_interface := CI_velocity\<rparr>\<rparr>);
            i = mp_input p1
        in Some (p1\<lparr>mp_input := i\<lparr>oi_target_velocity :=
              limit_aware_velocity (mp_limits p) (oi_current_position i)
                (dclamp velocity_mps (- oi_max_velocity i) (oi_max_velocity i)),
              oi_target_acceleration := 0\<rparr>,
            mp_otg := otg_reset (mp_otg p), mp_mode := PM_velocity\<rparr>))"

definition request_soft_stop :: "('o \<Rightarrow> 'o) \<Rightarrow> 'o motion_profile \<Rightarrow> 'o motion_profile" where
  "request_soft_stop otg_reset p =
     (apply_limits (ml_default_velocity_scale (mp_limits p))
        (p\<lparr>mp_input := (mp_input p)\<lparr>oi_control_interface := CI_velocity, oi_target_velocity := 0,
           oi_target_acceleration := 0\<rparr>\<rparr>))\<lparr>mp_otg := otg_reset (mp_otg p), mp_mode := PM_soft_stop\<rparr>"

definition profile_hold :: "('o \<Rightarrow> 'o) \<Rightarrow> double \<Rightarrow> 'o motion_profile \<Rightarrow> 'o motion_profile" where
  "profile_hold otg_reset position_m p = profile_reset otg_reset position_m 0 0 p"

text \<open>The part of \<open>update\<close> after a successful generator step: take over the output and stop at a
  position limit.\<close>

definition take_output ::
    "('o \<Rightarrow> 'o) \<Rightarrow> int \<Rightarrow> otg_output \<Rightarrow> 'o motion_profile \<Rightarrow> 'o motion_profile" where
  "take_output otg_reset result out p =
     (let l = mp_limits p;
          i = (mp_input p)\<lparr>oi_current_position := oo_new_position out,
                oi_current_velocity := oo_new_velocity out,
                oi_current_acceleration := oo_new_acceleration out\<rparr>;
          position = dclamp (oo_new_position out) (ml_min_position_m l) (ml_max_position_m l);
          s = \<lparr>ms_position_m = position, ms_velocity_mps = oo_new_velocity out,
               ms_acceleration_mps2 = oo_new_acceleration out, ms_jerk_mps3 = oo_new_jerk out,
               ms_finished = (result = otg_Finished),
               ms_valid = (isfinite position \<and> isfinite (oo_new_velocity out) \<and>
                 isfinite (oo_new_acceleration out) \<and> isfinite (oo_new_jerk out))\<rparr>;
          p1 = p\<lparr>mp_input := i, mp_state := s\<rparr>
      in if position \<le> ml_min_position_m l \<and> ms_velocity_mps s < 0 then
           profile_reset otg_reset (ml_min_position_m l) 0 0 p1
         else if position \<ge> ml_max_position_m l \<and> ms_velocity_mps s > 0 then
           profile_reset otg_reset (ml_max_position_m l) 0 0 p1
         else p1)"

definition profile_update ::
    "('o \<Rightarrow> 'o) \<Rightarrow> 'o otg_update \<Rightarrow> double \<Rightarrow> 'o motion_profile \<Rightarrow> 'o motion_profile \<times> motion_sample" where
  "profile_update otg_reset otg_update cycle_sec p =
     (if \<not> mp_configured p \<or> \<not> isfinite cycle_sec \<or> cycle_sec \<le> 0 then
        let p1 = p\<lparr>mp_state := (mp_state p)\<lparr>ms_valid := False\<rparr>\<rparr> in (p1, mp_state p1)
      else if mp_mode p = PM_hold then
        let p1 = p\<lparr>mp_state := (mp_state p)\<lparr>ms_finished := True\<rparr>\<rparr> in (p1, mp_state p1)
      else
        let cycle = dclamp cycle_sec (Fin (1 / 1000)) (Fin (1 / 10));
            i = (if mp_mode p = PM_velocity then
                   (mp_input p)\<lparr>oi_target_velocity := limit_aware_velocity (mp_limits p)
                     (oi_current_position (mp_input p)) (oi_target_velocity (mp_input p))\<rparr>
                 else mp_input p);
            (otg1, result, out) = otg_update (mp_otg p) cycle i;
            p1 = p\<lparr>mp_cycle_sec := cycle, mp_input := i, mp_otg := otg1\<rparr>
        in if result < otg_Working then
             let p2 = p1\<lparr>mp_state := (mp_state p)\<lparr>ms_valid := False\<rparr>\<rparr> in (p2, mp_state p2)
           else let p2 = take_output otg_reset result out p1 in (p2, mp_state p2))"

section \<open>Invariant\<close>

definition limits_ok :: "motion_limits \<Rightarrow> bool" where
  "limits_ok l \<longleftrightarrow> isfinite (ml_min_position_m l) \<and> isfinite (ml_max_position_m l) \<and>
     ml_min_position_m l < ml_max_position_m l \<and>
     isfinite (ml_max_velocity_mps l) \<and> 0 < ml_max_velocity_mps l \<and>
     isfinite (ml_max_acceleration_mps2 l) \<and> 0 < ml_max_acceleration_mps2 l \<and>
     isfinite (ml_default_velocity_scale l) \<and> 0 < ml_default_velocity_scale l \<and>
     ml_default_velocity_scale l \<le> 1"

definition within_limits :: "motion_limits \<Rightarrow> double \<Rightarrow> bool" where
  "within_limits l x \<longleftrightarrow> ml_min_position_m l \<le> x \<and> x \<le> ml_max_position_m l"

definition prof_inv :: "motion_limits \<Rightarrow> 'o motion_profile \<Rightarrow> bool" where
  "prof_inv l p \<longleftrightarrow> mp_configured p \<and> mp_limits p = l \<and> limits_ok l \<and>
     (ms_position_m (mp_state p) = NaN \<or> within_limits l (ms_position_m (mp_state p)))"

datatype profile_event =
    P_Reset double double double | P_Position double double double double double
  | P_Velocity double double | P_SoftStop | P_Hold double | P_Update double

fun profile_step :: "('o \<Rightarrow> 'o) \<Rightarrow> 'o otg_update \<Rightarrow> 'o motion_profile \<Rightarrow> profile_event \<Rightarrow> 'o motion_profile" where
  "profile_step rst upd p (P_Reset x v a) = profile_reset rst x v a p"
| "profile_step rst upd p (P_Position x v a s l) =
     (case set_position_target rst x v a s l p of None \<Rightarrow> p | Some q \<Rightarrow> q)"
| "profile_step rst upd p (P_Velocity v s) =
     (case set_velocity_target rst v s p of None \<Rightarrow> p | Some q \<Rightarrow> q)"
| "profile_step rst upd p P_SoftStop = request_soft_stop rst p"
| "profile_step rst upd p (P_Hold x) = profile_hold rst x p"
| "profile_step rst upd p (P_Update c) = fst (profile_update rst upd c p)"

lemma limits_okE:
  assumes "limits_ok l"
  obtains lo hi v a k where "ml_min_position_m l = Fin lo" "ml_max_position_m l = Fin hi" "lo < hi"
    "ml_max_velocity_mps l = Fin v" "0 < v" "ml_max_acceleration_mps2 l = Fin a" "0 < a"
    "ml_default_velocity_scale l = Fin k" "0 < k" "k \<le> 1"
  using assms by (auto simp: limits_ok_def elim!: isfiniteE)

lemma apply_limits_frame [frame_simps]:
  "mp_limits (apply_limits s p) = mp_limits p"
  "mp_configured (apply_limits s p) = mp_configured p"
  "mp_state (apply_limits s p) = mp_state p"
  by (simp_all add: apply_limits_def Let_def)

lemma profile_reset_frame [frame_simps]:
  "mp_limits (profile_reset rst x v a p) = mp_limits p"
  "mp_configured (profile_reset rst x v a p) = mp_configured p"
  "mp_mode (profile_reset rst x v a p) = PM_hold"
  "mp_state (profile_reset rst x v a p) = \<lparr>
     ms_position_m = dclamp x (ml_min_position_m (mp_limits p)) (ml_max_position_m (mp_limits p)),
     ms_velocity_mps = dclamp v (- ml_max_velocity_mps (mp_limits p)) (ml_max_velocity_mps (mp_limits p)),
     ms_acceleration_mps2 = dclamp a (- ml_max_acceleration_mps2 (mp_limits p))
       (ml_max_acceleration_mps2 (mp_limits p)),
     ms_jerk_mps3 = 0, ms_finished = True, ms_valid = True\<rparr>"
  by (simp_all add: profile_reset_def Let_def frame_simps)

lemma set_targets_frame [frame_simps]:
  "set_position_target rst x v a s l p = Some q \<Longrightarrow>
     mp_limits q = mp_limits p \<and> mp_configured q = mp_configured p \<and> mp_state q = mp_state p"
  "set_velocity_target rst v s p = Some q \<Longrightarrow>
     mp_limits q = mp_limits p \<and> mp_configured q = mp_configured p \<and> mp_state q = mp_state p"
  by (auto simp: set_position_target_def set_velocity_target_def Let_def frame_simps
      split: if_splits)

lemma within_dclamp:
  assumes "limits_ok l" "x \<noteq> NaN"
  shows "within_limits l (dclamp x (ml_min_position_m l) (ml_max_position_m l))"
  using assms dclamp_between [of "ml_min_position_m l" "ml_max_position_m l" x]
  by (auto simp: within_limits_def limits_ok_def less_eq_double_def)

lemma position_clamped:
  assumes "limits_ok l"
  shows "dclamp x (ml_min_position_m l) (ml_max_position_m l) = NaN \<or>
    within_limits l (dclamp x (ml_min_position_m l) (ml_max_position_m l))"
  using within_dclamp [OF assms] by (cases "x = NaN") simp_all

lemma reset_inv: "prof_inv l p \<Longrightarrow> prof_inv l (profile_reset rst x v a p)"
  using position_clamped [of l x] by (auto simp: prof_inv_def frame_simps)

lemma take_output_inv: "prof_inv l p \<Longrightarrow> prof_inv l (take_output rst r out p)"
  using position_clamped
  by (auto simp: take_output_def Let_def prof_inv_def frame_simps)

text \<open>A cycle either only changes flags of the sample, or hands a generator output to
  \<open>take_output\<close> in a profile with the same limits.\<close>

lemma profile_updateE:
  obtains (flags) f v q where "profile_update rst upd c p = (q, mp_state q)"
      "mp_limits q = mp_limits p" "mp_configured q = mp_configured p"
      "mp_state q = (mp_state p)\<lparr>ms_finished := f, ms_valid := v\<rparr>"
      "v \<longrightarrow> mp_mode p = PM_hold \<and> ms_valid (mp_state p)"
  | (step) q r out where
      "profile_update rst upd c p = (take_output rst r out q, mp_state (take_output rst r out q))"
      "mp_limits q = mp_limits p" "mp_configured q = mp_configured p" "mp_state q = mp_state p"
      "mp_mode p \<noteq> PM_hold"
proof -
  consider "\<not> mp_configured p \<or> \<not> isfinite c \<or> c \<le> 0"
    | "\<not> (\<not> mp_configured p \<or> \<not> isfinite c \<or> c \<le> 0)" "mp_mode p = PM_hold"
    | "\<not> (\<not> mp_configured p \<or> \<not> isfinite c \<or> c \<le> 0 \<or> mp_mode p = PM_hold)"
    by blast
  then show ?thesis
proof cases
  case 1
  let ?q = "p\<lparr>mp_state := (mp_state p)\<lparr>ms_valid := False\<rparr>\<rparr>"
  have "profile_update rst upd c p = (?q, mp_state ?q)"
    unfolding profile_update_def if_P [OF 1] Let_def ..
  then show ?thesis
    by (rule flags [where f = "ms_finished (mp_state p)" and v = False]) simp_all
next
  case 2
  let ?q = "p\<lparr>mp_state := (mp_state p)\<lparr>ms_finished := True\<rparr>\<rparr>"
  have "profile_update rst upd c p = (?q, mp_state ?q)"
    unfolding profile_update_def if_not_P [OF 2(1)] if_P [OF 2(2)] Let_def ..
  then show ?thesis
    by (rule flags [where f = True and v = "ms_valid (mp_state p)"]) (simp_all add: 2)
next
  case 3
  note False = 3
  let ?cy = "dclamp c (Fin (1 / 1000)) (Fin (1 / 10))"
  let ?i = "if mp_mode p = PM_velocity then
      (mp_input p)\<lparr>oi_target_velocity := limit_aware_velocity (mp_limits p)
         (oi_current_position (mp_input p)) (oi_target_velocity (mp_input p))\<rparr> else mp_input p"
  obtain otg1 r out where o: "upd (mp_otg p) ?cy ?i = (otg1, r, out)"
    using prod_cases3 by blast
  let ?p = "p\<lparr>mp_cycle_sec := ?cy, mp_input := ?i, mp_otg := otg1\<rparr>"
  have u: "profile_update rst upd c p =
      (if r < otg_Working then
         let q = ?p\<lparr>mp_state := (mp_state p)\<lparr>ms_valid := False\<rparr>\<rparr> in (q, mp_state q)
       else let q = take_output rst r out ?p in (q, mp_state q))"
    using False by (simp add: profile_update_def o Let_def)
  show ?thesis
  proof (cases "r < otg_Working")
    case True
    show ?thesis
      by (rule flags [where q = "?p\<lparr>mp_state := (mp_state p)\<lparr>ms_valid := False\<rparr>\<rparr>"
            and f = "ms_finished (mp_state p)" and v = False]) (simp_all add: u True)
  next
    case r: False
    show ?thesis
      by (rule step [of r out ?p]) (use False r in \<open>simp_all add: u Let_def\<close>)
  qed
qed
qed

lemma update_inv:
  assumes "prof_inv l p" shows "prof_inv l (fst (profile_update rst upd c p))"
proof (cases rule: profile_updateE [of rst upd c p])
  case (flags f v q)
  then show ?thesis
    using assms by (simp add: prof_inv_def)
next
  case (step q r out)
  then have "prof_inv l q"
    using assms by (simp add: prof_inv_def)
  then show ?thesis
    using take_output_inv step(1) by simp
qed

lemma soft_stop_frame [frame_simps]:
  "mp_limits (request_soft_stop rst p) = mp_limits p"
  "mp_configured (request_soft_stop rst p) = mp_configured p"
  "mp_state (request_soft_stop rst p) = mp_state p"
  by (simp_all add: request_soft_stop_def frame_simps)

interpretation profile: guarded_machine "profile_step rst upd" "prof_inv l" for rst upd l
proof
  fix p :: "'a motion_profile" and e
  assume inv: "prof_inv l p"
  show "prof_inv l (profile_step rst upd p e)"
  proof (cases e)
    case (P_Position x v a s l)
    then show ?thesis
      using inv by (auto simp: prof_inv_def dest: set_targets_frame(1) split: option.split)
  next
    case (P_Velocity v s)
    then show ?thesis
      using inv by (auto simp: prof_inv_def dest: set_targets_frame(2) split: option.split)
  next
    case P_SoftStop
    then show ?thesis
      using inv by (simp add: prof_inv_def frame_simps)
  qed (use inv in \<open>simp_all add: profile_hold_def update_inv reset_inv\<close>)
qed


section \<open>Properties\<close>

lemma configure_ok: "snd (profile_configure l p) = Inr () \<Longrightarrow>
    limits_ok l \<and> mp_limits (fst (profile_configure l p)) = l \<and>
    mp_configured (fst (profile_configure l p))"
  by (auto simp: profile_configure_def limits_ok_def frame_simps not_less less_eq_double_def
      elim!: isfiniteE split: if_splits)

lemma take_output_cases:
  assumes "limits_ok (mp_limits q)" "ms_valid (mp_state (take_output rst r out q))"
  defines "s \<equiv> mp_state (take_output rst r out q)" and "l \<equiv> mp_limits q"
  shows "ms_position_m s = ml_min_position_m l \<and> ms_velocity_mps s = 0 \<or>
    ms_position_m s = ml_max_position_m l \<and> ms_velocity_mps s = 0 \<or>
    within_limits l (ms_position_m s) \<and> isfinite (ms_velocity_mps s) \<and>
    \<not> (ms_position_m s \<le> ml_min_position_m l \<and> ms_velocity_mps s < 0) \<and>
    \<not> (ml_max_position_m l \<le> ms_position_m s \<and> ms_velocity_mps s > 0)"
proof -
  obtain lo hi v a k where l: "ml_min_position_m l = Fin lo" "ml_max_position_m l = Fin hi" "lo < hi"
    "ml_max_velocity_mps l = Fin v" "0 < v"
    using limits_okE assms(1) unfolding l_def by metis
  let ?pos = "dclamp (oo_new_position out) (Fin lo) (Fin hi)"
  have zero: "dclamp (Fin 0) (- Fin v) (Fin v) = Fin 0"
    using l by simp
  consider "?pos \<le> Fin lo \<and> oo_new_velocity out < 0"
    | "\<not> (?pos \<le> Fin lo \<and> oo_new_velocity out < 0)" "?pos \<ge> Fin hi \<and> oo_new_velocity out > 0"
    | "\<not> (?pos \<le> Fin lo \<and> oo_new_velocity out < 0)" "\<not> (?pos \<ge> Fin hi \<and> oo_new_velocity out > 0)"
    by blast
  then show ?thesis
  proof cases
    case 1
    then show ?thesis
      using l zero by (simp add: s_def take_output_def Let_def frame_simps flip: l_def)
  next
    case 2
    then have "s = mp_state (profile_reset rst (Fin hi) 0 0
        (q\<lparr>mp_input := mp_input q, mp_state := s\<rparr>))"
      using l by (simp add: s_def take_output_def Let_def frame_simps flip: l_def)
    then show ?thesis
      using l zero by (simp add: frame_simps flip: l_def)
  next
    case 3
    have s: "ms_position_m s = ?pos" "ms_velocity_mps s = oo_new_velocity out"
      "ms_valid s \<longrightarrow> isfinite ?pos \<and> isfinite (oo_new_velocity out)"
      unfolding s_def take_output_def Let_def l_def [symmetric]
      using 3 l by auto
    have "?pos \<noteq> NaN"
      using s(3) assms(2) by (auto simp: s_def)
    then have "oo_new_position out \<noteq> NaN"
      by auto
    then have "within_limits l ?pos"
      using within_dclamp [of l "oo_new_position out"] assms(1) l by (simp add: l_def)
    then show ?thesis
      using s 3 assms(2) l by (simp add: s_def)
  qed
qed



text \<open>A generator that jumps to the target of the position interface and reports the target
  velocity of the velocity interface, and a profile to run it on.\<close>

definition jump_otg :: "unit otg_update" where
  "jump_otg otg cycle i = ((), otg_Finished,
     \<lparr>oo_new_position = (case oi_control_interface i of CI_position \<Rightarrow> oi_target_position i
        | CI_velocity \<Rightarrow> oi_current_position i),
      oo_new_velocity = oi_target_velocity i, oo_new_acceleration = 0, oo_new_jerk = 0\<rparr>)"

definition sample_limits :: motion_limits where
  "sample_limits = \<lparr>ml_min_position_m = 0, ml_max_position_m = 1, ml_max_velocity_mps = 1,
     ml_max_acceleration_mps2 = 1, ml_max_jerk_mps3 = 1, ml_default_velocity_scale = 1\<rparr>"

definition fresh_profile :: "unit motion_profile" where
  "fresh_profile = \<lparr>mp_cycle_sec = Fin (1 / 100), mp_limits = limits_unset,
     mp_state = \<lparr>ms_position_m = 0, ms_velocity_mps = 0, ms_acceleration_mps2 = 0, ms_jerk_mps3 = 0,
       ms_finished = True, ms_valid = True\<rparr>, mp_mode = PM_hold, mp_otg = (),
     mp_input = \<lparr>oi_control_interface = CI_position, oi_current_position = 0, oi_current_velocity = 0,
       oi_current_acceleration = 0, oi_target_position = 0, oi_target_velocity = 0,
       oi_target_acceleration = 0, oi_max_velocity = 0, oi_max_acceleration = 0, oi_max_jerk = 0\<rparr>,
     mp_configured = False\<rparr>"

lemma sample_configured: "snd (profile_configure sample_limits fresh_profile) = Inr ()"
  by (simp add: profile_configure_def sample_limits_def)


lemma normalized_scale_range:
  assumes "limits_ok l" shows "\<exists>sc. normalized_scale l k = Fin sc \<and> 0 < sc \<and> sc \<le> 1"
proof -
  obtain s0 where d: "ml_default_velocity_scale l = Fin s0" "0 < s0" "s0 \<le> 1"
    using limits_okE [OF assms] by metis
  show ?thesis
  proof (cases "\<not> isfinite k \<or> k \<le> 0")
    case True
    then show ?thesis
      using d by (simp add: normalized_scale_def)
  next
    case False
    then obtain r where r: "k = Fin r" "0 < r"
      by (auto elim!: isfiniteE)
    then have "normalized_scale l k = Fin (max (1 / 100) (min 1 r))"
      by (simp add: normalized_scale_def)
    then show ?thesis
      by auto
  qed
qed

text \<open>A velocity target is cut to what the axis can brake before its limit: it is at most
  the scaled maximum velocity, and its square is at most twice the acceleration limit times the remaining
  distance; at or beyond a limit no target points further outwards.\<close>

theorem velocity_target_brakes:
  assumes "prof_inv l p" "set_velocity_target rst v k p = Some q"
    and "oi_current_position (mp_input p) = Fin x"
    and "ml_min_position_m l = Fin lo" "ml_max_position_m l = Fin hi"
    and "ml_max_velocity_mps l = Fin vmax" "ml_max_acceleration_mps2 l = Fin amax"
  shows "\<exists>t. oi_target_velocity (mp_input q) = Fin t \<and> \<bar>t\<bar> \<le> vmax \<and>
    t\<^sup>2 \<le> 2 * amax * (if 0 < t then max 0 (hi - x) else max 0 (x - lo)) \<and>
    oi_max_velocity (mp_input q) \<le> Fin vmax \<and> mp_mode q = PM_velocity"
proof -
  have ok: "limits_ok l"
    using assms(1) by (simp add: prof_inv_def)
  have l: "lo < hi" "0 < vmax" "0 < amax"
    using ok assms(4-7) by (auto elim!: limits_okE)
  obtain sc where sc: "normalized_scale l (normalized_scale l k) = Fin sc" "0 < sc" "sc \<le> 1"
    using normalized_scale_range [OF ok] by metis
  let ?m = "vmax * sc"
  have m: "0 < ?m" "?m \<le> vmax"
    using sc l mult_left_le [of sc vmax] by simp_all
  obtain w where w: "v = Fin w"
    using assms(2) by (auto simp: set_velocity_target_def split: if_splits elim!: isfiniteE)
  let ?r = "max (- ?m) (min ?m w)"
  have clamp: "dclamp (Fin w) (Fin (- ?m)) (Fin ?m) = Fin ?r"
    using m by (intro dclamp_Fin) simp
  have lims: "mp_limits p = l" "mp_configured p"
    using assms(1) by (simp_all add: prof_inv_def)
  have q: "oi_target_velocity (mp_input q) = limit_aware_velocity l (Fin x) (Fin ?r)"
    "oi_max_velocity (mp_input q) = Fin ?m" "mp_mode q = PM_velocity"
    using assms(2-7) sc clamp
    by (auto simp: set_velocity_target_def apply_limits_def lims w Let_def)
  have sq: "(min b (sqrt (2 * amax * d)))\<^sup>2 \<le> 2 * amax * d" if "0 \<le> d" "0 \<le> b" for b d
    using that l by (metis abs_of_nonneg mult_nonneg_nonneg less_imp_le min.bounded_iff
        min.cobounded2 power_mono real_sqrt_ge_0_iff real_sqrt_pow2 zero_le_numeral)
  have r: "\<bar>?r\<bar> \<le> ?m"
    using m by auto
  let ?up = "sqrt (2 * amax * max 0 (hi - x))" and ?dn = "sqrt (2 * amax * max 0 (x - lo))"
  have nn: "0 \<le> ?up" "0 \<le> ?dn"
    using l by simp_all
  consider (pos) "0 < ?r" | (neg) "?r < 0" | (zero) "?r = 0"
    by linarith
  then show ?thesis
  proof cases
    case pos
    define t where "t = min ?r ?up"
    have "limit_aware_velocity l (Fin x) (Fin ?r) = Fin t"
      using pos l assms(4-7) by (simp add: limit_aware_velocity_def t_def)
    moreover have "t\<^sup>2 \<le> 2 * amax * max 0 (hi - x)" "0 \<le> t"
      using sq [of "max 0 (hi - x)" ?r] pos nn by (simp_all add: t_def)
    moreover have "t\<^sup>2 \<le> 2 * amax * max 0 (x - lo)" if "\<not> 0 < t"
      using l that \<open>0 \<le> t\<close> by simp
    moreover have "t \<le> ?m"
      using r pos unfolding t_def by linarith
    ultimately show ?thesis
      using q m(2) by (intro exI [of _ t]) simp
  next
    case neg
    define t where "t = min (- ?r) ?dn"
    have "limit_aware_velocity l (Fin x) (Fin ?r) = Fin (- t)"
      using neg l assms(4-7) by (auto simp: limit_aware_velocity_def t_def)
    moreover have "t\<^sup>2 \<le> 2 * amax * max 0 (x - lo)"
      unfolding t_def using neg by (intro sq) linarith+
    moreover have "0 \<le> t"
      unfolding t_def using neg nn by linarith
    moreover have "t \<le> ?m"
      using r neg unfolding t_def by linarith
    ultimately show ?thesis
      using q m(2) by (intro exI [of _ "- t"]) simp
  next
    case zero
    have "limit_aware_velocity l (Fin x) (Fin ?r) = Fin 0"
      unfolding zero by (simp add: limit_aware_velocity_def)
    then show ?thesis
      using q l m by (intro exI [of _ 0]) simp
  qed
qed

theorem velocity_target_brakes_witness:
  "\<exists>q t. set_velocity_target id (Fin 3) 0
       (profile_reset id (Fin (7 / 8)) 0 0 (fst (profile_configure sample_limits fresh_profile))) = Some q \<and>
     oi_target_velocity (mp_input q) = Fin t \<and> \<bar>t\<bar> \<le> 1 \<and>
     t\<^sup>2 \<le> 2 * (if 0 < t then 1 / 8 else 7 / 8)"
proof -
  let ?p = "profile_reset id (Fin (7 / 8)) 0 0 (fst (profile_configure sample_limits fresh_profile))"
  have inv: "prof_inv sample_limits ?p"
    using configure_ok [OF sample_configured] within_dclamp [of sample_limits "Fin (7 / 8)"]
    by (simp add: prof_inv_def frame_simps)
  have cur: "oi_current_position (mp_input ?p) = Fin (7 / 8)"
    by (simp add: profile_reset_def apply_limits_def profile_configure_def sample_limits_def
        fresh_profile_def Let_def)
  obtain q where q: "set_velocity_target id (Fin 3) 0 ?p = Some q"
    using inv by (simp add: set_velocity_target_def prof_inv_def Let_def)
  obtain t where "oi_target_velocity (mp_input q) = Fin t" "\<bar>t\<bar> \<le> 1"
    "t\<^sup>2 \<le> 2 * 1 * (if 0 < t then max 0 (1 - 7 / 8) else max 0 (7 / 8 - 0))"
    using velocity_target_brakes [OF inv q cur, of 0 1 1 1] by (fastforce simp: sample_limits_def)
  then show ?thesis
    using q by (intro exI [of _ q] exI [of _ t] conjI) (auto split: if_splits)
qed

end
