(* ===== verification/ZeroOffset.thy ===== *)
theory ZeroOffset
  imports Prelude
begin

text \<open>
  The zero offset file (\<open>lift/zero_offset_store.hpp\<close>, \<open>lift/zero_offset_store.cpp\<close>): parsing,
  validation against the configured identity, and the atomic replacement of the file. The file
  system is a map from paths to contents; which calls of the standard library fail in a run,
  and with what error text, is a record of the environment. \<open>std::stoull\<close> and \<open>std::stoll\<close> with
  base 0 are modelled on fully consumed texts, the only ones the callers accept.
\<close>

record zero_offset_record =
  zr_schema :: u32
  zr_motor_id :: string
  zr_slave_alias :: u16
  zr_slave_position :: u16
  zr_zero_offset_units :: i32

datatype zero_offset_load_result = ZL_missing | ZL_loaded zero_offset_record | ZL_invalid string

definition NL :: char where "NL = CHR 0x0A"

section \<open>Text helpers\<close>

definition trim_char :: "char \<Rightarrow> bool" where
  "trim_char c \<longleftrightarrow> c \<in> {CHR '' '', CHR 0x09, CHR 0x0D, CHR 0x0A}"

definition trim :: "string \<Rightarrow> string" where
  "trim s = rev (dropWhile trim_char (rev (dropWhile trim_char s)))"

definition c_space :: "char \<Rightarrow> bool" where
  "c_space c \<longleftrightarrow> c \<in> {CHR '' '', CHR 0x09, CHR 0x0A, CHR 0x0B, CHR 0x0C, CHR 0x0D}"

definition digit_value :: "char \<Rightarrow> nat" where
  "digit_value c =
     (let n = of_char c :: nat in
      if 48 \<le> n \<and> n \<le> 57 then n - 48
      else if 97 \<le> n \<and> n \<le> 102 then n - 87
      else if 65 \<le> n \<and> n \<le> 70 then n - 55
      else 99)"

definition digits_value :: "nat \<Rightarrow> string \<Rightarrow> nat option" where
  "digits_value base s =
     (if s \<noteq> [] \<and> list_all (\<lambda>c. digit_value c < base) s
      then Some (fold (\<lambda>c acc. acc * base + digit_value c) s 0) else None)"

text \<open>The magnitude of a base-0 literal: \<open>0x\<close> is hexadecimal, a leading zero octal.\<close>

definition magnitude :: "string \<Rightarrow> nat option" where
  "magnitude s =
     (case s of
        c # d # rest \<Rightarrow>
          if c = CHR ''0'' \<and> (d = CHR ''x'' \<or> d = CHR ''X'') then digits_value 16 rest
          else if c = CHR ''0'' then digits_value 8 s else digits_value 10 s
      | _ \<Rightarrow> digits_value 10 s)"

definition split_sign :: "string \<Rightarrow> bool \<times> string" where
  "split_sign s =
     (case s of
        c # rest \<Rightarrow> if c = CHR ''-'' then (True, rest) else if c = CHR ''+'' then (False, rest)
                    else (False, s)
      | [] \<Rightarrow> (False, []))"

text \<open>\<open>strtoull\<close> negates modulo \<open>2 ^ 64\<close> after a minus sign.\<close>

definition parse_unsigned :: "string \<Rightarrow> u64 option" where
  "parse_unsigned text =
     (let (neg, body) = split_sign (dropWhile c_space text) in
      case magnitude body of
        None \<Rightarrow> None
      | Some m \<Rightarrow> if m < 2 ^ 64 then Some (if neg then - of_nat m else of_nat m) else None)"

definition parse_signed :: "string \<Rightarrow> int option" where
  "parse_signed text =
     (let (neg, body) = split_sign (dropWhile c_space text) in
      case magnitude body of
        None \<Rightarrow> None
      | Some m \<Rightarrow>
          let v = (if neg then - int m else int m) in
          if - (2 ^ 63) \<le> v \<and> v < 2 ^ 63 then Some v else None)"

text \<open>The lines \<open>std::getline\<close> delivers.\<close>

fun split_lines :: "string \<Rightarrow> string list" where
  "split_lines [] = []"
| "split_lines (c # cs) =
     (if c = NL then [] # split_lines cs
      else case split_lines cs of [] \<Rightarrow> [[c]] | l # ls \<Rightarrow> (c # l) # ls)"

section \<open>load\<close>

type_synonym fields = "string \<Rightarrow> string option"

fun read_fields :: "string list \<Rightarrow> fields \<Rightarrow> string + fields" where
  "read_fields [] values = Inr values"
| "read_fields (raw # lines) values =
     (let line = trim (takeWhile (\<lambda>c. c \<noteq> CHR ''#'') raw) in
      if line = [] then read_fields lines values
      else if CHR ''='' \<notin> set line then Inl (''zero offset file contains a line without '' @
        [CHR 0x27, CHR ''='', CHR 0x27])
      else
        let key = trim (takeWhile (\<lambda>c. c \<noteq> CHR ''='') line);
            v = trim (tl (dropWhile (\<lambda>c. c \<noteq> CHR ''='') line))
        in if key = [] \<or> v = [] \<or> values key \<noteq> None then
             Inl ''zero offset file contains an empty or duplicate field''
           else read_fields lines (values(key \<mapsto> v)))"

definition required_fields :: "string list" where
  "required_fields = [''schema'', ''motor_id'', ''slave_alias'', ''slave_position'',
     ''zero_offset_units'']"

datatype probe = Probe_error string | Probe_missing | Probe_unopenable | Probe_content string

definition numeric_fields :: "fields \<Rightarrow> (u64 \<times> u64 \<times> u64 \<times> int) option" where
  "numeric_fields values =
     (case (parse_unsigned (the (values ''schema'')), parse_unsigned (the (values ''slave_alias'')),
            parse_unsigned (the (values ''slave_position'')),
            parse_signed (the (values ''zero_offset_units''))) of
        (Some schema, Some alias, Some position, Some offset) \<Rightarrow>
          if schema \<noteq> 1 \<or> alias > 65535 \<or> position > 65535 \<or> offset < - 2147483648 \<or>
             offset > 2147483647 then None
          else Some (schema, alias, position, offset)
      | _ \<Rightarrow> None)"

definition zero_offset_load ::
    "probe \<Rightarrow> string \<Rightarrow> string \<Rightarrow> u16 \<Rightarrow> u16 \<Rightarrow> zero_offset_load_result" where
  "zero_offset_load file path expected_motor_id expected_alias expected_position =
     (case file of
        Probe_error msg \<Rightarrow> ZL_invalid (''cannot inspect zero offset file: '' @ msg)
      | Probe_missing \<Rightarrow> ZL_missing
      | Probe_unopenable \<Rightarrow> ZL_invalid (''cannot open zero offset file: '' @ path)
      | Probe_content text \<Rightarrow>
          (case read_fields (split_lines text) Map.empty of
             Inl e \<Rightarrow> ZL_invalid e
           | Inr values \<Rightarrow>
               (case find (\<lambda>k. values k = None) required_fields of
                  Some k \<Rightarrow> ZL_invalid (''zero offset file is missing field: '' @ k)
                | None \<Rightarrow>
                    (case numeric_fields values of
                       None \<Rightarrow> ZL_invalid ''zero offset file contains an invalid numeric field''
                     | Some (schema, alias, position, offset) \<Rightarrow>
                         if values ''motor_id'' \<noteq> Some expected_motor_id \<or>
                            alias \<noteq> ucast expected_alias \<or> position \<noteq> ucast expected_position then
                           ZL_invalid ''zero offset identity does not match configured motor/slave''
                         else ZL_loaded \<lparr>zr_schema = ucast schema,
                           zr_motor_id = the (values ''motor_id''), zr_slave_alias = ucast alias,
                           zr_slave_position = ucast position,
                           zr_zero_offset_units = of_int offset\<rparr>))))"

section \<open>save\_atomic\<close>

fun show_nat :: "nat \<Rightarrow> string" where
  "show_nat n = (if n < 10 then [char_of (48 + n)] else show_nat (n div 10) @ [char_of (48 + n mod 10)])"

declare show_nat.simps [simp del]

definition show_int :: "int \<Rightarrow> string" where
  "show_int i = (if i < 0 then CHR ''-'' # show_nat (nat (- i)) else show_nat (nat i))"

definition file_text :: "zero_offset_record \<Rightarrow> string" where
  "file_text r =
     ''schema=1'' @ [NL] @
     ''motor_id='' @ zr_motor_id r @ [NL] @
     ''slave_alias='' @ show_nat (unat (zr_slave_alias r)) @ [NL] @
     ''slave_position='' @ show_nat (unat (zr_slave_position r)) @ [NL] @
     ''zero_offset_units='' @ show_int (sint (zr_zero_offset_units r)) @ [NL]"

type_synonym files = "string \<Rightarrow> string option"

text \<open>What the environment does in one call of \<open>save_atomic\<close>.\<close>

record save_env =
  sv_has_parent :: bool \<comment> \<open>the path has a parent directory\<close>
  sv_mkdir_error :: "string option"
  sv_open_ok :: bool
  sv_write_error :: "string option" \<comment> \<open>what reached the temporary file when writing fails\<close>
  sv_rename_ok :: bool
  sv_remove_ok :: bool
  sv_remove_message :: string \<comment> \<open>text of the error code that \<open>remove\<close> leaves behind\<close>

definition save_atomic ::
    "save_env \<Rightarrow> files \<Rightarrow> string \<Rightarrow> zero_offset_record \<Rightarrow> files \<times> (string + unit)" where
  "save_atomic env fs path r =
     (if path = [] \<or> zr_schema r \<noteq> 1 \<or> zr_motor_id r = [] then
        (fs, Inl ''zero offset path, schema or motor_id is invalid'')
      else if sv_has_parent env \<and> sv_mkdir_error env \<noteq> None then
        (fs, Inl (''cannot create zero offset directory: '' @ the (sv_mkdir_error env)))
      else
        let temporary = path @ ''.tmp'' in
        if \<not> sv_open_ok env then (fs, Inl ''cannot open temporary zero offset file'')
        else case sv_write_error env of
          Some partial \<Rightarrow>
            (fs(temporary \<mapsto> partial), Inl ''cannot write temporary zero offset file'')
        | None \<Rightarrow>
            let fs1 = fs(temporary \<mapsto> file_text r) in
            if \<not> sv_rename_ok env then
              (if sv_remove_ok env then fs1(temporary := None) else fs1,
               Inl (''cannot atomically replace zero offset file: '' @ sv_remove_message env))
            else (fs1(path := fs1 temporary, temporary := None), Inr ()))"

section \<open>Printed numbers are read back\<close>

definition decimal :: "string \<Rightarrow> bool" where
  "decimal s \<longleftrightarrow> s \<noteq> [] \<and> list_all (\<lambda>c. digit_value c < 10) s"

lemma digit_char:
  assumes "k < 10"
  shows "digit_value (char_of (48 + k)) = k" "(of_char (char_of (48 + k) :: char) :: nat) = 48 + k"
  using assms by (simp_all add: digit_value_def)

lemma show_nat_value:
  "decimal (show_nat n)" "fold (\<lambda>c acc. acc * 10 + digit_value c) (show_nat n) 0 = n"
proof (induction n rule: show_nat.induct)
  case (1 n)
  { case 1 then show ?case
      using "1.IH"(1) digit_char(1) [of "n mod 10"] digit_char(1) [of n]
      by (subst show_nat.simps) (auto simp: decimal_def) }
  { case 2 then show ?case
      using "1.IH"(2) digit_char(1) [of "n mod 10"] digit_char(1) [of n]
      by (subst show_nat.simps) auto }
qed

lemma digits_value_show: "digits_value 10 (show_nat n) = Some n"
  using show_nat_value [of n] by (simp add: digits_value_def decimal_def)

lemma hd_show_nat: "hd (show_nat n) = CHR ''0'' \<longleftrightarrow> n = 0"
proof (induction n rule: show_nat.induct)
  case (1 n)
  have zero: "char_of (48 + n) = CHR ''0'' \<longleftrightarrow> n = 0" if "n < 10"
  proof
    assume "char_of (48 + n) = CHR ''0''"
    then have "(of_char (char_of (48 + n) :: char) :: nat) = of_char (CHR ''0'')"
      by simp
    then show "n = 0"
      using digit_char(2) [OF that] by simp
  next
    have "of_char (CHR ''0'') = (48 :: nat)"
      by simp
    moreover assume "n = 0"
    ultimately show "char_of (48 + n) = CHR ''0''"
      by (metis add_0_right char_of_char)
  qed
  have "show_nat (n div 10) \<noteq> []"
    using show_nat_value(1) [of "n div 10"] by (simp add: decimal_def)
  then show ?case
    using 1 zero by (subst show_nat.simps) auto
qed

lemma magnitude_show: "magnitude (show_nat n) = Some n"
proof (cases "n = 0")
  case True
  then show ?thesis
    using digits_value_show [of 0] by (simp add: magnitude_def show_nat.simps)
next
  case False
  then have "hd (show_nat n) \<noteq> CHR ''0''"
    by (simp add: hd_show_nat)
  then show ?thesis
    using digits_value_show [of n] by (auto simp: magnitude_def split: list.split)
qed

text \<open>Characters of a printed number: none of them is white space, a sign, \<open>#\<close>, \<open>=\<close> or a line end.\<close>

definition plain_char :: "char \<Rightarrow> bool" where
  "plain_char c \<longleftrightarrow> \<not> c_space c \<and> c \<noteq> CHR ''#'' \<and> c \<noteq> CHR ''+''"

lemma digit_plain: "digit_value c < 10 \<Longrightarrow> plain_char c \<and> c \<noteq> CHR ''-''"
  by (auto simp: plain_char_def c_space_def digit_value_def)

lemma show_nat_plain: "list_all (\<lambda>c. plain_char c \<and> c \<noteq> CHR ''-'') (show_nat n)"
  using show_nat_value(1) [of n] digit_plain by (auto simp: decimal_def list_all_iff)

lemma show_int_plain: "list_all plain_char (show_int i)" "show_int i \<noteq> []"
proof -
  have "list_all plain_char (show_nat n)" "show_nat n \<noteq> []" for n
    using show_nat_plain [of n] show_nat_value(1) [of n] by (auto simp: list_all_iff decimal_def)
  then show "list_all plain_char (show_int i)" "show_int i \<noteq> []"
    by (auto simp: show_int_def plain_char_def c_space_def)
qed

lemma dropWhile_plain: "list_all plain_char s \<Longrightarrow> dropWhile c_space s = s"
  by (cases s) (auto simp: plain_char_def)

lemma split_sign_show: "split_sign (show_nat n) = (False, show_nat n)"
  using show_nat_plain [of n] by (cases "show_nat n") (auto simp: split_sign_def plain_char_def)

lemma parse_unsigned_show: "n < 2 ^ 64 \<Longrightarrow> parse_unsigned (show_nat n) = Some (of_nat n)"
  using show_nat_plain [of n]
  by (simp add: parse_unsigned_def dropWhile_plain list_all_iff split_sign_show magnitude_show)

lemma parse_signed_show:
  assumes "- (2 ^ 63) \<le> i" "i < 2 ^ 63"
  shows "parse_signed (show_int i) = Some i"
proof -
  have "split_sign (show_int i) = (i < 0, show_nat (nat \<bar>i\<bar>))"
    by (auto simp: show_int_def split_sign_show) (simp add: split_sign_def)
  then show ?thesis
    using assms by (simp add: parse_signed_def dropWhile_plain show_int_plain magnitude_show Let_def)
qed

section \<open>Written lines are read back\<close>

lemma split_lines_cons: "NL \<notin> set a \<Longrightarrow> split_lines (a @ NL # rest) = a # split_lines rest"
  by (induction a) auto

definition clean :: "string \<Rightarrow> bool" where
  "clean s \<longleftrightarrow> s \<noteq> [] \<and> NL \<notin> set s \<and> CHR ''#'' \<notin> set s \<and> \<not> trim_char (hd s) \<and> \<not> trim_char (last s)"

lemma dropWhile_hd: "s \<noteq> [] \<Longrightarrow> \<not> P (hd s) \<Longrightarrow> dropWhile P s = s"
  by (cases s) auto

lemma trim_clean: "s \<noteq> [] \<Longrightarrow> \<not> trim_char (hd s) \<Longrightarrow> \<not> trim_char (last s) \<Longrightarrow> trim s = s"
  by (simp add: trim_def dropWhile_hd hd_rev)

lemma read_fields_line:
  assumes "clean key" "CHR ''='' \<notin> set key" "clean v" "values key = None"
  shows "read_fields ((key @ CHR ''='' # v) # lines) values = read_fields lines (values(key \<mapsto> v))"
proof -
  let ?line = "key @ CHR ''='' # v"
  have "takeWhile (\<lambda>c. c \<noteq> CHR ''#'') ?line = ?line"
    unfolding takeWhile_eq_all_conv using assms by (auto simp: clean_def)
  moreover have "trim ?line = ?line"
    using assms by (intro trim_clean) (auto simp: clean_def)
  ultimately have line: "trim (takeWhile (\<lambda>c. c \<noteq> CHR ''#'') ?line) = ?line"
    by (simp only:)
  have key: "takeWhile (\<lambda>c. c \<noteq> CHR ''='') ?line = key"
    and v: "dropWhile (\<lambda>c. c \<noteq> CHR ''='') ?line = CHR ''='' # v"
    using assms(2) by (induction key) auto
  have "trim key = key" "trim v = v" "key \<noteq> []" "v \<noteq> []"
    using assms trim_clean by (auto simp: clean_def)
  then show ?thesis
    using assms(4) unfolding read_fields.simps(2) line Let_def key v by simp
qed

lemma show_clean: "clean (show_nat n)" "clean (show_int i)"
proof -
  have "clean s" if "list_all plain_char s" "s \<noteq> []" for s
    using that by (auto simp: clean_def list_all_iff plain_char_def c_space_def trim_char_def NL_def
        dest: hd_in_set last_in_set)
  then show "clean (show_nat n)" "clean (show_int i)"
    using show_nat_plain [of n] show_nat_value(1) [of n] show_int_plain [of i]
    by (auto simp: list_all_iff decimal_def)
qed

section \<open>Properties\<close>

definition field_line :: "string \<Rightarrow> string \<Rightarrow> string" where
  "field_line k v = k @ CHR ''='' # v"

lemma file_text_lines:
  "file_text r = field_line ''schema'' ''1'' @ NL # field_line ''motor_id'' (zr_motor_id r) @ NL #
     field_line ''slave_alias'' (show_nat (unat (zr_slave_alias r))) @ NL #
     field_line ''slave_position'' (show_nat (unat (zr_slave_position r))) @ NL #
     field_line ''zero_offset_units'' (show_int (sint (zr_zero_offset_units r))) @ NL # []"
  by (simp add: file_text_def field_line_def)

lemma field_line_NL: "clean v \<Longrightarrow> NL \<notin> set k \<Longrightarrow> NL \<notin> set (field_line k v)"
  by (auto simp: field_line_def clean_def NL_def)

lemma required_clean:
  "k \<in> set required_fields \<Longrightarrow> clean k" "k \<in> set required_fields \<Longrightarrow> NL \<notin> set k"
  "k \<in> set required_fields \<Longrightarrow> CHR ''='' \<notin> set k"
  by (auto simp: required_fields_def clean_def NL_def trim_char_def)

lemma read_required_line:
  assumes "k \<in> set required_fields" "clean v" "values k = None"
  shows "read_fields (field_line k v # lines) values = read_fields lines (values(k \<mapsto> v))"
  unfolding field_line_def using assms required_clean by (intro read_fields_line) simp_all

lemma required_fields_mem:
  "''schema'' \<in> set required_fields" "''motor_id'' \<in> set required_fields"
  "''slave_alias'' \<in> set required_fields" "''slave_position'' \<in> set required_fields"
  "''zero_offset_units'' \<in> set required_fields"
  by (simp_all add: required_fields_def)

lemma clean_one: "clean ''1''"
  by (simp add: clean_def NL_def trim_char_def)

lemma split_file_text:
  assumes "clean (zr_motor_id r)"
  shows "split_lines (file_text r) = [field_line ''schema'' ''1'',
    field_line ''motor_id'' (zr_motor_id r),
    field_line ''slave_alias'' (show_nat (unat (zr_slave_alias r))),
    field_line ''slave_position'' (show_nat (unat (zr_slave_position r))),
    field_line ''zero_offset_units'' (show_int (sint (zr_zero_offset_units r)))]"
  unfolding file_text_lines
  by (subst split_lines_cons,
      simp only: field_line_NL required_fields_mem required_clean clean_one assms show_clean
        not_False_eq_True)+ simp

lemma read_file_text:
  assumes "clean (zr_motor_id r)"
  shows "read_fields (split_lines (file_text r)) Map.empty = Inr [
    ''schema'' \<mapsto> ''1'', ''motor_id'' \<mapsto> zr_motor_id r,
    ''slave_alias'' \<mapsto> show_nat (unat (zr_slave_alias r)),
    ''slave_position'' \<mapsto> show_nat (unat (zr_slave_position r)),
    ''zero_offset_units'' \<mapsto> show_int (sint (zr_zero_offset_units r))]"
  unfolding split_file_text [OF assms]
  by (simp add: read_required_line required_fields_mem clean_one assms show_clean
      del: read_fields.simps(2))

lemma numeric_file_text:
  "numeric_fields [
    ''schema'' \<mapsto> ''1'', ''motor_id'' \<mapsto> m,
    ''slave_alias'' \<mapsto> show_nat (unat (a :: u16)), ''slave_position'' \<mapsto> show_nat (unat (p :: u16)),
    ''zero_offset_units'' \<mapsto> show_int (sint (z :: i32))] = Some (1, ucast a, ucast p, sint z)"
proof -
  have s: "parse_unsigned ''1'' = Some 1"
    by (simp add: parse_unsigned_def c_space_def split_sign_def magnitude_def digits_value_def
        digit_value_def)
  have small: "unat (w :: u16) < 65536" for w
  proof -
    have "unat w < 2 ^ LENGTH(16)"
      by (rule unsigned_less)
    then show ?thesis
      by simp
  qed
  have u: "parse_unsigned (show_nat (unat (w :: u16))) = Some (ucast w)" for w
    using small [of w] by (subst parse_unsigned_show) simp_all
  have le: "(ucast (w :: u16) :: u64) \<le> 65535" for w
    using small [of w] by (simp add: word_le_nat_alt unsigned_ucast_eq take_bit_nat_eq_self)
  have z: "- 2147483648 \<le> sint z" "sint z \<le> 2147483647"
    using sint_greater_eq [of z] sint_less [of z] by simp_all
  then have "parse_signed (show_int (sint z)) = Some (sint z)"
    by (intro parse_signed_show) simp_all
  with s u z le show ?thesis
    by (simp add: numeric_fields_def not_less)
qed

lemma ucast_u16_u64 [simp]: "(ucast (ucast (w :: u16) :: u64) :: u16) = w"
  by (rule bit_word_eqI) (simp add: bit_simps)

lemma load_file_text:
  assumes "clean (zr_motor_id r)" "zr_schema r = 1"
  shows "zero_offset_load (Probe_content (file_text r)) path (zr_motor_id r) (zr_slave_alias r)
    (zr_slave_position r) = ZL_loaded r"
  using assms
  by (simp add: zero_offset_load_def read_file_text numeric_file_text required_fields_def)

text \<open>C36: Saving is all or nothing: after any failure the destination keeps its former content, after a
  success it holds the complete new record, and no file other than the destination and its
  temporary is touched.\<close>

theorem save_atomic_all_or_nothing:
  "case save_atomic env fs path r of
     (fs', Inl e) \<Rightarrow> fs' path = fs path \<and>
       fs' = fs(path @ ''.tmp'' := fs' (path @ ''.tmp''))
   | (fs', Inr _) \<Rightarrow> fs' = fs(path \<mapsto> file_text r, path @ ''.tmp'' := None)"
  by (auto simp: save_atomic_def Let_def fun_eq_iff split: option.split)

text \<open>A saved zero offset is loaded back unchanged: when \<open>save_atomic\<close> reports success, \<open>load\<close> with
  the identity of the record accepts the new file and yields the same record, for every motor id
  without line ends, comment signs and outer white space.\<close>

theorem zero_offset_round_trip:
  assumes "save_atomic env fs path r = (fs', Inr ())" "clean (zr_motor_id r)"
  shows "\<exists>text. fs' path = Some text \<and>
    zero_offset_load (Probe_content text) path (zr_motor_id r) (zr_slave_alias r)
      (zr_slave_position r) = ZL_loaded r"
proof -
  have "fs' path = Some (file_text r)" "zr_schema r = 1"
    using assms(1) by (auto simp: save_atomic_def Let_def split: if_splits option.splits)
  then show ?thesis
    using load_file_text [OF assms(2)] by blast
qed

theorem zero_offset_round_trip_witness:
  "\<exists>fs' text. save_atomic \<lparr>sv_has_parent = True, sv_mkdir_error = None, sv_open_ok = True,
       sv_write_error = None, sv_rename_ok = True, sv_remove_ok = True, sv_remove_message = []\<rparr>
     Map.empty ''/var/lift'' \<lparr>zr_schema = 1, zr_motor_id = ''LD3M'', zr_slave_alias = 7,
       zr_slave_position = 0, zr_zero_offset_units = - 4096\<rparr> = (fs', Inr ()) \<and>
     zero_offset_load (Probe_content text) ''/var/lift'' ''LD3M'' 7 0 =
       ZL_loaded \<lparr>zr_schema = 1, zr_motor_id = ''LD3M'', zr_slave_alias = 7,
         zr_slave_position = 0, zr_zero_offset_units = - 4096\<rparr>"
proof -
  let ?env = "\<lparr>sv_has_parent = True, sv_mkdir_error = None, sv_open_ok = True,
       sv_write_error = None, sv_rename_ok = True, sv_remove_ok = True, sv_remove_message = []\<rparr>"
  let ?r = "\<lparr>zr_schema = 1, zr_motor_id = ''LD3M'', zr_slave_alias = 7,
       zr_slave_position = 0, zr_zero_offset_units = - 4096\<rparr>"
  obtain fs' where s: "save_atomic ?env Map.empty ''/var/lift'' ?r = (fs', Inr ())"
    by (simp add: save_atomic_def Let_def)
  have "clean (zr_motor_id ?r)"
    by (simp add: clean_def NL_def trim_char_def)
  from zero_offset_round_trip [OF s this] s show ?thesis
    by auto
qed

text \<open>A loaded record always carries the configured identity, schema 1 and an offset
  within 32 bits, so an offset of another motor or slave is never applied.\<close>

theorem zero_offset_identity:
  assumes "zero_offset_load file path motor_id alias position = ZL_loaded r"
  shows "zr_schema r = 1 \<and> zr_motor_id r = motor_id \<and> zr_slave_alias r = alias \<and>
    zr_slave_position r = position"
  using assms
  by (auto simp: zero_offset_load_def numeric_fields_def
      split: probe.splits sum.splits option.splits if_splits prod.splits)

theorem zero_offset_identity_witness:
  "\<exists>r. zero_offset_load (Probe_content (file_text \<lparr>zr_schema = 1, zr_motor_id = ''M'',
      zr_slave_alias = 3, zr_slave_position = 2, zr_zero_offset_units = 5\<rparr>)) ''p'' ''M'' 3 2 =
      ZL_loaded r \<and> zr_motor_id r = ''M'' \<and> zr_slave_alias r = 3"
proof -
  let ?r = "\<lparr>zr_schema = 1, zr_motor_id = ''M'', zr_slave_alias = 3, zr_slave_position = 2,
       zr_zero_offset_units = 5\<rparr>"
  have "clean (zr_motor_id ?r)"
    by (simp add: clean_def NL_def trim_char_def)
  from load_file_text [OF this, of "''p''"]
  have l: "zero_offset_load (Probe_content (file_text ?r)) ''p'' ''M'' 3 2 = ZL_loaded ?r"
    by simp
  show ?thesis
    using zero_offset_identity [OF l] l by blast
qed

end
