(* ===== verification/WaistCan.thy ===== *)
theory WaistCan
  imports Doubles
begin

text \<open>
  The CAN protocol of the waist motor (\<open>protocol/waist_can.hpp\<close>, \<open>protocol/waist_can.cpp\<close>):
  identifiers, SDO payloads, the feedback frame and the command frames. A payload is a list of
  eight bytes; \<open>node_id\<close> is a 32-bit \<open>int\<close> of which the low seven bits are used.
\<close>

definition kSdoTxBaseId :: u32 where "kSdoTxBaseId = 0x600"
definition kSdoRxBaseId :: u32 where "kSdoRxBaseId = 0x580"
definition kFrameCommandBaseId :: u32 where "kFrameCommandBaseId = 0x100"
definition kFeedbackBaseId :: u32 where "kFeedbackBaseId = 0x300"
definition CAN_EFF_FLAG :: u32 where "CAN_EFF_FLAG = 0x80000000"
definition CAN_SFF_MASK :: u32 where "CAN_SFF_MASK = 0x7FF"

record waist_feedback =
  wf_position_raw :: i32
  wf_velocity_rpm :: i16
  wf_current_ma :: i16
  wf_error_code :: u16
  wf_temperature_tenth_c :: i16
  wf_mode :: u8
  wf_state :: u8

record can_frame =
  cf_can_id :: u32
  cf_can_dlc :: u8
  cf_data :: bytes

record frame_command =
  fc_can_id :: u32
  fc_data :: bytes
  fc_dlc :: u8

definition be_to_i16 :: "u8 \<Rightarrow> u8 \<Rightarrow> i16" where
  "be_to_i16 high low = push_bit 8 (ucast high) OR ucast low"

definition node_bits :: "i32 \<Rightarrow> u32" where
  "node_bits node_id = node_id AND 0x7F"

definition sdo_tx_id :: "i32 \<Rightarrow> u32" where
  "sdo_tx_id node_id = kSdoTxBaseId OR node_bits node_id"

definition sdo_rx_id :: "i32 \<Rightarrow> u32" where
  "sdo_rx_id node_id = kSdoRxBaseId OR node_bits node_id"

definition frame_command_id :: "i32 \<Rightarrow> u32" where
  "frame_command_id node_id = kFrameCommandBaseId OR node_bits node_id"

definition feedback_id :: "i32 \<Rightarrow> u32" where
  "feedback_id node_id = kFeedbackBaseId OR node_bits node_id"

definition sdo_head :: "u8 \<Rightarrow> u16 \<Rightarrow> u8 \<Rightarrow> bytes" where
  "sdo_head command index subindex = [command, ucast index, ucast (drop_bit 8 index), subindex]"

definition u16_to_le :: "u16 \<Rightarrow> bytes" where
  "u16_to_le v = [ucast v, ucast (drop_bit 8 v)]"

definition u32_to_le :: "u32 \<Rightarrow> bytes" where
  "u32_to_le v = [ucast v, ucast (drop_bit 8 v), ucast (drop_bit 16 v), ucast (drop_bit 24 v)]"

definition build_sdo_write_i8 :: "u16 \<Rightarrow> u8 \<Rightarrow> i8 \<Rightarrow> bytes" where
  "build_sdo_write_i8 index subindex v = sdo_head 0x2F index subindex @ [v, 0, 0, 0]"

definition build_sdo_write_u16 :: "u16 \<Rightarrow> u8 \<Rightarrow> u16 \<Rightarrow> bytes" where
  "build_sdo_write_u16 index subindex v = sdo_head 0x2B index subindex @ u16_to_le v @ [0, 0]"

definition build_sdo_write_u32 :: "u16 \<Rightarrow> u8 \<Rightarrow> u32 \<Rightarrow> bytes" where
  "build_sdo_write_u32 index subindex v = sdo_head 0x23 index subindex @ u32_to_le v"

definition build_sdo_write_i32 :: "u16 \<Rightarrow> u8 \<Rightarrow> i32 \<Rightarrow> bytes" where
  "build_sdo_write_i32 index subindex v = build_sdo_write_u32 index subindex v"

definition build_sdo_read :: "u16 \<Rightarrow> u8 \<Rightarrow> bytes" where
  "build_sdo_read index subindex = sdo_head 0x40 index subindex @ [0, 0, 0, 0]"

definition is_sdo_response :: "can_frame \<Rightarrow> i32 \<Rightarrow> u16 \<Rightarrow> u8 \<Rightarrow> int \<Rightarrow> bool" where
  "is_sdo_response frame node_id index subindex expected_command =
     (if cf_can_id frame AND CAN_EFF_FLAG \<noteq> 0 \<or>
         cf_can_id frame AND CAN_SFF_MASK \<noteq> sdo_rx_id node_id \<or> cf_can_dlc frame < 8 then False
      else
        let received_index = ucast (cf_data frame ! 1) OR push_bit 8 (ucast (cf_data frame ! 2)) in
        received_index = index \<and> cf_data frame ! 3 = subindex \<and>
        (expected_command < 0 \<or> cf_data frame ! 0 = of_int expected_command))"

definition sdo_i32_value :: "bytes \<Rightarrow> i32" where
  "sdo_i32_value response = ucast (response ! 4) OR push_bit 8 (ucast (response ! 5)) OR
     push_bit 16 (ucast (response ! 6)) OR push_bit 24 (ucast (response ! 7))"

definition sdo_u16_value :: "bytes \<Rightarrow> u16" where
  "sdo_u16_value response = ucast (response ! 4) OR push_bit 8 (ucast (response ! 5))"

definition is_operation_enabled :: "u16 \<Rightarrow> bool" where
  "is_operation_enabled statusword \<longleftrightarrow> statusword AND 0x006F = 0x0027"

definition is_status_error :: "u16 \<Rightarrow> bool" where
  "is_status_error statusword \<longleftrightarrow> statusword AND 0x006F = 0x0008"

definition error_bits :: "(u16 \<times> string) list" where
  "error_bits = [(0x0001, ''overvoltage''), (0x0002, ''undervoltage''), (0x0004, ''overtemperature''),
     (0x0008, ''stall''), (0x0010, ''overload''), (0x0020, ''overspeed/current-sampling''),
     (0x0040, ''positive-limit''), (0x0080, ''negative-limit''), (0x0100, ''encoder-read/timeout''),
     (0x0200, ''maximum-speed''), (0x0400, ''electrical-angle-init''), (0x1000, ''position-error''),
     (0x2000, ''encoder-fault'')]"

definition join_text :: "string \<Rightarrow> string \<Rightarrow> string" where
  "join_text result t = (if result = [] then t else result @ ''|'' @ t)"

definition hex4 :: "u16 \<Rightarrow> string" where
  "hex4 v = map (\<lambda>shift. ''0123456789ABCDEF'' ! unat (drop_bit shift v AND 0xF)) [12, 8, 4, 0]"

definition describe_error_code :: "u16 \<Rightarrow> string" where
  "describe_error_code error_code =
     (if error_code = 0 then ''no error''
      else
        let result = fold (\<lambda>(m, t) r. if error_code AND m \<noteq> 0 then join_text r t else r) error_bits [];
            unknown = error_code AND NOT 0x37FF
        in if unknown \<noteq> 0 then join_text result (''unknown-0x'' @ hex4 unknown) else result)"

definition parse_feedback :: "u32 \<Rightarrow> buffer \<Rightarrow> u8 \<Rightarrow> i32 \<Rightarrow> waist_feedback option" where
  "parse_feedback can_id buf dlc node_id =
     (if can_id AND CAN_EFF_FLAG \<noteq> 0 \<or> can_id AND CAN_SFF_MASK \<noteq> feedback_id node_id then None
      else case buf of
        None \<Rightarrow> None
      | Some data \<Rightarrow>
          if dlc < 12 then None
          else Some \<lparr>wf_position_raw = scast (be_to_i16 (data ! 0) (data ! 1)),
            wf_velocity_rpm = be_to_i16 (data ! 2) (data ! 3),
            wf_current_ma = be_to_i16 (data ! 4) (data ! 5),
            wf_error_code = push_bit 8 (ucast (data ! 6)) OR ucast (data ! 7),
            wf_temperature_tenth_c = be_to_i16 (data ! 8) (data ! 9),
            wf_mode = data ! 10, wf_state = data ! 11\<rparr>)"

definition clamp_i16 :: "i32 \<Rightarrow> u16" where
  "clamp_i16 v = of_int (max (- 32768) (min 32767 (sint v)))"

definition build_position_frame_command :: "i32 \<Rightarrow> i32 \<Rightarrow> i32 \<Rightarrow> i32 \<Rightarrow> frame_command" where
  "build_position_frame_command node_id target_raw acceleration velocity =
     (let target = clamp_i16 target_raw; accel = clamp_i16 acceleration; speed = clamp_i16 velocity in
      \<lparr>fc_can_id = frame_command_id node_id,
       fc_data = [0x80 OR 0x40 OR push_bit 1 0x01, ucast (drop_bit 8 target), ucast target,
         ucast (drop_bit 8 accel), ucast accel, ucast (drop_bit 8 speed), ucast speed, 0],
       fc_dlc = 7\<rparr>)"

definition build_clear_error_frame_command :: "i32 \<Rightarrow> bool \<Rightarrow> frame_command" where
  "build_clear_error_frame_command node_id clear_error =
     \<lparr>fc_can_id = frame_command_id node_id,
      fc_data = [if clear_error then 0x20 else 0, 0, 0, 0, 0, 0, 0, 0], fc_dlc = 7\<rparr>"

definition deg_to_raw :: "double \<Rightarrow> i32 option" where
  "deg_to_raw deg =
     (let bounded = dclamp deg (Fin (- 180)) (Fin 180) in
      map_option of_int (llround (bounded / Fin 180 * Fin 32768)))"

definition raw_to_rad :: "i32 \<Rightarrow> double" where
  "raw_to_rad raw = Fin (of_int (sint raw)) / Fin 32768 * Fin 3.14159265358979323846"

section \<open>Lemmas\<close>

lemma be_to_i16_split: "be_to_i16 (ucast (drop_bit 8 w)) (ucast w) = w"
  unfolding be_to_i16_def by (rule bit_word_eqI) (auto simp: bit_simps)

lemma be_bytes: "(ucast (drop_bit 8 (be_to_i16 h l)) :: u8) = h" "(ucast (be_to_i16 h l) :: u8) = l"
  unfolding be_to_i16_def by (auto intro!: bit_word_eqI simp: bit_simps)

lemma sdo_i32_value_write: "sdo_i32_value (build_sdo_write_i32 index subindex v) = v"
proof (rule bit_word_eqI)
  fix n :: nat
  assume "n < LENGTH(32)"
  then consider "n < 8" | "8 \<le> n" "n < 16" | "16 \<le> n" "n < 24" | "24 \<le> n" "n < 32"
    by force
  then show "bit (sdo_i32_value (build_sdo_write_i32 index subindex v)) n \<longleftrightarrow> bit v n"
    by cases (simp_all add: sdo_i32_value_def build_sdo_write_i32_def build_sdo_write_u32_def
        sdo_head_def u32_to_le_def bit_simps, linarith+)
qed

lemma sdo_u16_value_write: "sdo_u16_value (build_sdo_write_u16 index subindex v) = v"
  unfolding sdo_u16_value_def build_sdo_write_u16_def sdo_head_def u16_to_le_def
  by (rule bit_word_eqI) (auto simp: bit_simps)

lemma clamp_i16_sint: "sint (clamp_i16 v) = max (- 32768) (min 32767 (sint v))"
  unfolding clamp_i16_def by (simp add: signed_of_int signed_take_bit_int_eq_self)

section \<open>Properties\<close>

text \<open>The SDO write payloads carry their value: reading it back as a 16- or 32-bit value gives the
  written word, for every index and subindex.\<close>

theorem sdo_payload_round_trip:
  "sdo_i32_value (build_sdo_write_i32 index subindex v) = v \<and>
   sdo_u16_value (build_sdo_write_u16 index subindex w) = w \<and>
   length (build_sdo_write_i32 index subindex v) = 8 \<and>
   length (build_sdo_write_u16 index subindex w) = 8"
  using sdo_i32_value_write sdo_u16_value_write
  by (simp add: build_sdo_write_i32_def build_sdo_write_u32_def build_sdo_write_u16_def sdo_head_def
      u16_to_le_def u32_to_le_def)

text \<open>The position command frame holds the target, acceleration and velocity big-endian, each
  saturated to the 16-bit range and never wrapped, with the enable and brake-release bits set.\<close>

theorem position_frame_saturates:
  "let d = fc_data (build_position_frame_command node t a v) in
   d ! 0 = 0xC2 \<and>
   sint (be_to_i16 (d ! 1) (d ! 2)) = max (- 32768) (min 32767 (sint t)) \<and>
   sint (be_to_i16 (d ! 3) (d ! 4)) = max (- 32768) (min 32767 (sint a)) \<and>
   sint (be_to_i16 (d ! 5) (d ! 6)) = max (- 32768) (min 32767 (sint v))"
  by (simp add: build_position_frame_command_def Let_def be_to_i16_split clamp_i16_sint)

lemma deg_to_raw_value:
  assumes "deg \<noteq> NaN"
  obtains x n where "dclamp deg (Fin (- 180)) (Fin 180) = Fin x" "- 180 \<le> x" "x \<le> 180"
    "n = round_half_away (x / 180 * 32768)" "deg_to_raw deg = Some (of_int n)"
    "- 32768 \<le> n" "n \<le> 32768"
proof -
  obtain x where x: "dclamp deg (Fin (- 180)) (Fin 180) = Fin x" "- 180 \<le> x" "x \<le> 180"
    using dclamp_between [of "Fin (- 180)" "Fin 180" deg] assms by (auto elim!: isfiniteE)
  let ?n = "round_half_away (x / 180 * 32768)"
  have n: "- 32768 \<le> ?n" "?n \<le> 32768"
    using round_half_away_mono [of "- 32768" "x / 180 * 32768"] round_half_away_int [of "- 32768"]
      round_half_away_mono [of "x / 180 * 32768" 32768] round_half_away_int [of 32768] x
    by simp_all
  have "deg_to_raw deg = Some (of_int ?n)"
    using n by (simp add: deg_to_raw_def x llround_def Let_def)
  with x n that show ?thesis
    by blast
qed

text \<open>For every angle that is not NaN the conversion to raw counts is defined, stays within
  plus or minus 32768 counts and is the saturated angle rounded to the nearest count.\<close>

theorem deg_to_raw_bounds:
  assumes "deg \<noteq> NaN"
  shows "\<exists>raw x. deg_to_raw deg = Some raw \<and> dclamp deg (Fin (- 180)) (Fin 180) = Fin x \<and>
    \<bar>sint raw\<bar> \<le> 32768 \<and> \<bar>of_int (sint raw) - x / 180 * 32768\<bar> \<le> 1 / 2"
proof -
  obtain x n where x: "dclamp deg (Fin (- 180)) (Fin 180) = Fin x"
    "n = round_half_away (x / 180 * 32768)" "deg_to_raw deg = Some (of_int n)" "- 32768 \<le> n" "n \<le> 32768"
    using deg_to_raw_value [OF assms] by metis
  have s: "sint (of_int n :: i32) = n"
    using x(4,5) by (simp add: signed_of_int signed_take_bit_int_eq_self)
  have "\<bar>n\<bar> \<le> 32768" "\<bar>of_int n - x / 180 * 32768\<bar> \<le> 1 / 2"
    using x(4,5) round_half_away_error [of "x / 180 * 32768"] x(2) by auto
  then show ?thesis
    using x(1,3) s by (intro exI [of _ "of_int n"] exI [of _ x]) simp
qed

theorem deg_to_raw_bounds_witness:
  "\<exists>raw. deg_to_raw PInf = Some raw \<and> \<bar>sint raw\<bar> \<le> 32768"
  using deg_to_raw_bounds [of PInf] by auto

end
