(* ===== verification/UsbBridge.thy ===== *)
theory UsbBridge
  imports Prelude
begin

text \<open>
  The USB-to-CAN bridge (\<open>transport/usb_bridge_hub.hpp\<close>, \<open>transport/usb_bridge_hub.cpp\<close>): the framing of
  packets on the serial line, the resynchronising receiver, the dispatch of received packets and
  the bit-rate handshake. The serial port itself (open, poll, read, write) is not modelled: bytes
  arrive in chunks, and sending yields the bytes that are written. Listeners are identified by
  their handles; the order in which an \<open>unordered_map\<close> is traversed is left open, so a delivery is
  a value together with the set of handles that receive it.
\<close>

definition kSync0 :: u8 where "kSync0 = 0x55"
definition kSync1 :: u8 where "kSync1 = 0xAA"
definition kMsgCanTx :: u8 where "kMsgCanTx = 0x01"
definition kMsgCanSetBitrate :: u8 where "kMsgCanSetBitrate = 0x02"
definition kMsgCanRx :: u8 where "kMsgCanRx = 0x81"
definition kMsgCanSetBitrateAck :: u8 where "kMsgCanSetBitrateAck = 0x82"
definition kFlagFd :: u8 where "kFlagFd = 0x04"
definition kFlagBrs :: u8 where "kFlagBrs = 0x08"
definition kCanHeaderSize :: nat where "kCanHeaderSize = 7"

lemmas bridge_consts = kSync0_def kSync1_def kMsgCanTx_def kMsgCanSetBitrate_def kMsgCanRx_def
  kMsgCanSetBitrateAck_def kFlagFd_def kFlagBrs_def kCanHeaderSize_def

record can_value =
  cv_id :: u32
  cv_data_length :: u8
  cv_is_fd :: bool
  cv_bitrate_switch :: bool
  cv_data :: bytes \<comment> \<open>the first \<open>data_length\<close> bytes of the array of 64\<close>

record hub =
  hb_waist_channel :: u8
  hb_waist_bitrate :: u32
  hb_link_online :: bool
  hb_callbacks :: "u64 set"
  hb_next_handle :: u64
  hb_ack_received :: bool
  hb_ack_channel :: u8
  hb_ack_status :: u8
  hb_ack_bitrate :: u32
  hb_error :: string
  hb_rx_buffer :: bytes
  hb_delivered :: "(can_value \<times> u64 set) list" \<comment> \<open>calls of the listeners so far\<close>

section \<open>Packets\<close>

definition crc8_bit :: "u8 \<Rightarrow> u8" where
  "crc8_bit crc = (if crc AND 0x80 \<noteq> 0 then push_bit 1 crc XOR 0x07 else push_bit 1 crc)"

definition crc8_byte :: "u8 \<Rightarrow> u8 \<Rightarrow> u8" where
  "crc8_byte b crc = (crc8_bit ^^ 8) (crc XOR b)"

definition crc8 :: "bytes \<Rightarrow> u8" where
  "crc8 data = fold crc8_byte data 0"

definition encode_u32_le :: "u32 \<Rightarrow> bytes" where
  "encode_u32_le v = [ucast v, ucast (drop_bit 8 v), ucast (drop_bit 16 v), ucast (drop_bit 24 v)]"

definition decode_u32_le :: "bytes \<Rightarrow> u32" where
  "decode_u32_le bs = ucast (bs ! 0) OR push_bit 8 (ucast (bs ! 1)) OR
     push_bit 16 (ucast (bs ! 2)) OR push_bit 24 (ucast (bs ! 3))"

text \<open>The bytes of a packet; \<open>payload_size\<close> is a \<open>uint8_t\<close> in every call.\<close>

definition packet_bytes :: "u8 \<Rightarrow> bytes \<Rightarrow> bytes" where
  "packet_bytes type payload =
     (let body = [type, of_nat (length payload)] @ payload in [kSync0, kSync1] @ body @ [crc8 body])"

definition send_packet :: "hub \<Rightarrow> u8 \<Rightarrow> bytes \<Rightarrow> string + bytes" where
  "send_packet h type payload =
     (if \<not> hb_link_online h then Inl ''USB-FDCAN bridge is offline''
      else Inr (packet_bytes type payload))"

definition send_frame :: "hub \<Rightarrow> u8 \<Rightarrow> bytes \<Rightarrow> u32 \<Rightarrow> bool \<Rightarrow> bool \<Rightarrow> string + bytes" where
  "send_frame h channel data can_id fd bitrate_switch =
     (if length data > 64 \<or> (\<not> fd \<and> length data > 8) \<or> (bitrate_switch \<and> \<not> fd) then
        Inl ''invalid CAN/CAN-FD frame layout''
      else
        send_packet h kMsgCanTx
          ([channel, (if fd then kFlagFd else 0) OR (if bitrate_switch then kFlagBrs else 0)] @
           encode_u32_le can_id @ [of_nat (length data)] @ data))"

section \<open>Receiver\<close>

definition handle_packet :: "u8 \<Rightarrow> bytes \<Rightarrow> hub \<Rightarrow> hub" where
  "handle_packet type payload h =
     (if type = kMsgCanSetBitrateAck \<and> length payload = 6 then
        h\<lparr>hb_ack_channel := payload ! 0, hb_ack_status := payload ! 1,
          hb_ack_bitrate := decode_u32_le (drop 2 payload), hb_ack_received := True\<rparr>
      else if type \<noteq> kMsgCanRx \<or> length payload < kCanHeaderSize then h
      else
        let data_size = payload ! 6 in
        if data_size > 64 \<or> length payload \<noteq> kCanHeaderSize + unat data_size then h
        else
          let v = \<lparr>cv_id = decode_u32_le (drop 2 payload), cv_data_length = data_size,
                   cv_is_fd = (payload ! 1 AND kFlagFd \<noteq> 0),
                   cv_bitrate_switch = (payload ! 1 AND kFlagBrs \<noteq> 0),
                   cv_data = drop kCanHeaderSize payload\<rparr>
          in h\<lparr>hb_delivered := hb_delivered h @ [(v, hb_callbacks h)]\<rparr>)"

text \<open>The loop of \<open>process_bytes\<close> on the buffer; each complete packet with a matching checksum is
  handed to \<open>handle_packet\<close>.\<close>

function process_loop :: "hub \<Rightarrow> bytes \<Rightarrow> hub \<times> bytes" where
  "process_loop h buf =
     (if length buf < 5 then (h, buf)
      else if buf ! 0 \<noteq> kSync0 \<or> buf ! 1 \<noteq> kSync1 then process_loop h (tl buf)
      else
        let payload_size = unat (buf ! 3); frame_size = payload_size + 5 in
        if length buf < frame_size then (h, buf)
        else
          process_loop
            (if buf ! (frame_size - 1) = crc8 (take (payload_size + 2) (drop 2 buf))
             then handle_packet (buf ! 2) (take payload_size (drop 4 buf)) h else h)
            (drop frame_size buf))"
  by pat_completeness auto
termination
  by (relation "measure (\<lambda>(_, buf). length buf)") auto

declare process_loop.simps [simp del]

definition process_bytes :: "bytes \<Rightarrow> hub \<Rightarrow> hub" where
  "process_bytes data h =
     (let (h1, rest) = process_loop h (hb_rx_buffer h @ data) in h1\<lparr>hb_rx_buffer := rest\<rparr>)"

section \<open>Bit-rate handshake and listeners\<close>

text \<open>What happens while one attempt waits: the chunks the receiver thread processes, and whether
  the link is still up.\<close>

record wait_env =
  we_chunks :: "bytes list"
  we_link_online :: bool

definition bitrate_confirmed :: "hub \<Rightarrow> bool" where
  "bitrate_confirmed h \<longleftrightarrow>
     (let received = (hb_ack_received h \<or> \<not> hb_link_online h);
          status_success = (hb_ack_status h = 0 \<or> hb_ack_status h = 1)
      in received \<and> hb_ack_received h \<and> hb_ack_channel h = hb_waist_channel h \<and>
         hb_ack_bitrate h = hb_waist_bitrate h \<and> status_success)"

definition wait_for_ack :: "wait_env \<Rightarrow> hub \<Rightarrow> hub" where
  "wait_for_ack env h =
     (fold process_bytes (we_chunks env) h)\<lparr>hb_link_online := we_link_online env\<rparr>"

fun configure_attempts :: "wait_env list \<Rightarrow> hub \<Rightarrow> hub \<times> (string + unit)" where
  "configure_attempts [] h =
     (h, Inl ''USB-FDCAN bridge did not confirm waist channel bitrate'')"
| "configure_attempts (env # envs) h =
     (let h1 = h\<lparr>hb_ack_received := False\<rparr> in
      case send_packet h1 kMsgCanSetBitrate (hb_waist_channel h # encode_u32_le (hb_waist_bitrate h)) of
        Inl e \<Rightarrow> (h1, Inl e)
      | Inr _ \<Rightarrow>
          let h2 = wait_for_ack env h1 in
          if bitrate_confirmed h2 then (h2, Inr ()) else configure_attempts envs h2)"

definition configure_bitrate :: "wait_env \<times> wait_env \<times> wait_env \<Rightarrow> hub \<Rightarrow> hub \<times> (string + unit)" where
  "configure_bitrate envs h = (case envs of (a, b, c) \<Rightarrow> configure_attempts [a, b, c] h)"

definition add_frame_listener :: "hub \<Rightarrow> hub \<times> u64" where
  "add_frame_listener h =
     (h\<lparr>hb_next_handle := hb_next_handle h + 1,
        hb_callbacks := insert (hb_next_handle h) (hb_callbacks h)\<rparr>, hb_next_handle h)"

definition remove_frame_listener :: "u64 \<Rightarrow> hub \<Rightarrow> hub" where
  "remove_frame_listener handle h = h\<lparr>hb_callbacks := hb_callbacks h - {handle}\<rparr>"

text \<open>The ways the receive thread can end (poll or read failure).\<close>

definition link_lost :: "bool \<Rightarrow> string \<Rightarrow> hub \<Rightarrow> hub" where
  "link_lost stopping message h =
     (if stopping then h else h\<lparr>hb_error := message\<rparr>)\<lparr>hb_link_online := False\<rparr>"

section \<open>Chunks\<close>

definition take_packet :: "bytes \<Rightarrow> hub \<Rightarrow> hub" where
  "take_packet buf h =
     (let n = unat (buf ! 3) in
      if buf ! (n + 4) = crc8 (take (n + 2) (drop 2 buf))
      then handle_packet (buf ! 2) (take n (drop 4 buf)) h else h)"

lemma process_loop_full:
  assumes "buf ! 0 = kSync0" "buf ! 1 = kSync1" "unat (buf ! 3) + 5 \<le> length buf"
  shows "process_loop h buf = process_loop (take_packet buf h) (drop (unat (buf ! 3) + 5) buf)"
  using assms by (subst process_loop.simps) (simp add: Let_def take_packet_def add.commute)

lemma take_packet_append:
  assumes "unat (buf ! 3) + 5 \<le> length buf"
  shows "take_packet (buf @ xs) h = take_packet buf h"
proof -
  have "(buf @ xs) ! i = buf ! i" if "i \<le> unat (buf ! 3) + 4" for i
    using that assms by (simp add: nth_append)
  then have n: "(buf @ xs) ! 3 = buf ! 3" "(buf @ xs) ! 2 = buf ! 2"
    "(buf @ xs) ! (unat (buf ! 3) + 4) = buf ! (unat (buf ! 3) + 4)"
    by simp_all
  have t: "take (unat (buf ! 3) + 2) (drop 2 (buf @ xs)) = take (unat (buf ! 3) + 2) (drop 2 buf)"
    "take (unat (buf ! 3)) (drop 4 (buf @ xs)) = take (unat (buf ! 3)) (drop 4 buf)"
    using assms by simp_all
  show ?thesis
    unfolding take_packet_def Let_def n t ..
qed

lemma process_loop_append:
  "process_loop h (buf @ xs) =
     (let (h1, rest) = process_loop h buf in process_loop h1 (rest @ xs))"
proof (induction h buf rule: process_loop.induct)
  case (1 h buf)
  consider (short) "length buf < 5"
    | (sync) "\<not> length buf < 5" "buf ! 0 \<noteq> kSync0 \<or> buf ! 1 \<noteq> kSync1"
    | (wait) "\<not> length buf < 5" "buf ! 0 = kSync0" "buf ! 1 = kSync1" "length buf < unat (buf ! 3) + 5"
    | (full) "\<not> length buf < 5" "buf ! 0 = kSync0" "buf ! 1 = kSync1" "\<not> length buf < unat (buf ! 3) + 5"
    by blast
  then show ?case
  proof cases
    case sync
    then have "process_loop h (buf @ xs) = process_loop h (tl buf @ xs)"
      by (subst process_loop.simps) (auto simp: nth_append)
    moreover have "process_loop h buf = process_loop h (tl buf)"
      using sync by (subst process_loop.simps) auto
    ultimately show ?thesis
      using "1.IH"(1) [OF sync] by simp
  next
    case full
    have c: "\<not> (buf ! 0 \<noteq> kSync0 \<or> buf ! 1 \<noteq> kSync1)"
      using full by simp
    have len: "unat (buf ! 3) + 5 \<le> length buf"
      using full by simp
    note step = process_loop_full [OF full(2,3) len, of h]
    have "(buf @ xs) ! 0 = kSync0" "(buf @ xs) ! 1 = kSync1" "(buf @ xs) ! 3 = buf ! 3"
      using full(1-3) by (auto simp: nth_append)
    then have "process_loop h (buf @ xs) =
        process_loop (take_packet buf h) (drop (unat (buf ! 3) + 5) buf @ xs)"
      using process_loop_full [of "buf @ xs" h] len take_packet_append [OF len] by simp
    moreover have "process_loop (take_packet buf h) (drop (unat (buf ! 3) + 5) buf @ xs) =
        (let (h1, rest) = process_loop (take_packet buf h) (drop (unat (buf ! 3) + 5) buf)
         in process_loop h1 (rest @ xs))"
      using "1.IH"(2) [OF full(1) c refl refl full(4)]
      by (simp only: take_packet_def Let_def numeral_eq_Suc add_Suc_right diff_Suc_1)
        (simp only: pred_numeral_simps numeral_eq_Suc add_Suc_right diff_Suc_1)?
    ultimately show ?thesis
      unfolding step by (simp only:)
  qed (subst (2) process_loop.simps, simp)+
qed

lemma handle_packet_rx [frame_simps]: "hb_rx_buffer (handle_packet t p h) = hb_rx_buffer h"
  "hb_link_online (handle_packet t p h) = hb_link_online h"
  "hb_callbacks (handle_packet t p h) = hb_callbacks h"
  by (simp_all add: handle_packet_def Let_def)

lemma handle_packet_buffer: "handle_packet t p (h\<lparr>hb_rx_buffer := b\<rparr>) = (handle_packet t p h)\<lparr>hb_rx_buffer := b\<rparr>"
  by (simp add: handle_packet_def Let_def)

lemma process_loop_buffer:
  "process_loop (h\<lparr>hb_rx_buffer := b\<rparr>) buf =
     (let (h1, rest) = process_loop h buf in (h1\<lparr>hb_rx_buffer := b\<rparr>, rest))"
proof (induction h buf rule: process_loop.induct)
  case (1 h buf)
  then show ?case
    by (subst (1 2) process_loop.simps) (auto simp: Let_def handle_packet_buffer split: prod.split)
qed

lemma process_bytes_append: "process_bytes b (process_bytes a h) = process_bytes (a @ b) h"
proof -
  obtain h1 r1 where one: "process_loop h (hb_rx_buffer h @ a) = (h1, r1)"
    by fastforce
  obtain h2 r2 where two: "process_loop h1 (r1 @ b) = (h2, r2)"
    by fastforce
  have "process_loop h ((hb_rx_buffer h @ a) @ b) = (h2, r2)"
    using process_loop_append [of h "hb_rx_buffer h @ a" b] by (simp add: one two)
  then show ?thesis
    by (simp add: process_bytes_def one process_loop_buffer two)
qed

lemma length_packet_bytes [simp]: "length (packet_bytes t p) = length p + 5"
  by (simp add: packet_bytes_def Let_def)

lemma process_loop_packet:
  assumes "length p < 256"
  shows "process_loop h (packet_bytes t p @ rest) = process_loop (handle_packet t p h) rest"
proof -
  have "unat (of_nat (length p) :: u8) = length p"
    using assms by (simp add: unat_of_nat)
  moreover have "drop (length p + 5) (packet_bytes t p @ rest) = rest"
    by simp
  ultimately show ?thesis
    by (subst process_loop.simps)
      (simp add: Let_def, simp add: packet_bytes_def Let_def nth_append)
qed

lemma process_loop_noise:
  assumes "\<forall>b \<in> set noise. b \<noteq> kSync0" "5 \<le> length rest"
  shows "process_loop h (noise @ rest) = process_loop h rest"
  using assms(1)
proof (induction noise)
  case (Cons b bs)
  then show ?case
    using assms(2) by (subst process_loop.simps) simp
qed simp

lemma process_loop_stream:
  assumes "\<forall>(t, p) \<in> set ps. length p < 256"
  shows "process_loop h (concat (map (\<lambda>(t, p). packet_bytes t p) ps)) =
    (fold (\<lambda>(t, p). handle_packet t p) ps h, [])"
  using assms
proof (induction ps arbitrary: h)
  case Nil
  then show ?case
    by (simp add: process_loop.simps)
next
  case (Cons x ps)
  then show ?case
    by (cases x) (simp add: process_loop_packet)
qed

lemma fold_handle_buffer [simp]:
  "hb_rx_buffer (fold (\<lambda>(t, p). handle_packet t p) ps h) = hb_rx_buffer h"
  by (induction ps arbitrary: h) (auto simp: frame_simps)

section \<open>Properties\<close>

text \<open>C40: How the serial line cuts the byte stream into reads does not matter: processing the chunks
  one after the other leaves the hub, the deliveries and the receive buffer exactly as processing the
  concatenated bytes at once.\<close>

theorem receive_chunk_independent:
  "fold process_bytes chunks (process_bytes first h) = process_bytes (first @ concat chunks) h"
  by (induction chunks arbitrary: first) (simp_all add: process_bytes_append)

text \<open>A stream of packets sent with \<open>packet_bytes\<close>, after line noise without the first sync byte and in
  whatever chunks, is received as exactly these packets in order, each handled once, and nothing
  remains in the buffer.\<close>

theorem receive_packet_stream:
  assumes "hb_rx_buffer h = []" "\<forall>b \<in> set noise. b \<noteq> kSync0" "ps \<noteq> []"
    and "\<forall>(t, p) \<in> set ps. length p < 256"
    and "first @ concat chunks = noise @ concat (map (\<lambda>(t, p). packet_bytes t p) ps)"
  shows "fold process_bytes chunks (process_bytes first h) =
    fold (\<lambda>(t, p). handle_packet t p) ps h"
proof -
  let ?s = "concat (map (\<lambda>(t, p). packet_bytes t p) ps)"
  have "5 \<le> length ?s"
    using assms(3) by (cases ps) auto
  then have "process_loop h (noise @ ?s) = (fold (\<lambda>(t, p). handle_packet t p) ps h, [])"
    using assms(2,4) by (simp add: process_loop_noise process_loop_stream)
  moreover have "fold process_bytes chunks (process_bytes first h) = process_bytes (noise @ ?s) h"
    using assms(5) by (induction chunks arbitrary: first) (simp_all add: process_bytes_append)
  ultimately show ?thesis
    using fold_handle_buffer [of ps h] assms(1) by (simp add: process_bytes_def)
qed

definition hub_init :: hub where
  "hub_init = \<lparr>hb_waist_channel = 2, hb_waist_bitrate = 5000000, hb_link_online = True,
     hb_callbacks = {}, hb_next_handle = 1, hb_ack_received = False, hb_ack_channel = 0,
     hb_ack_status = 0xFF, hb_ack_bitrate = 0, hb_error = [], hb_rx_buffer = [], hb_delivered = []\<rparr>"

theorem receive_packet_stream_witness:
  "hb_ack_received (fold process_bytes [drop 3 (packet_bytes kMsgCanSetBitrateAck [2, 0, 0x40, 0x4B, 0x4C, 0])]
     (process_bytes ([1, 2] @ take 3 (packet_bytes kMsgCanSetBitrateAck [2, 0, 0x40, 0x4B, 0x4C, 0])) hub_init))"
proof -
  let ?p = "[2, 0, 0x40, 0x4B, 0x4C, 0] :: bytes"
  have "fold process_bytes [drop 3 (packet_bytes kMsgCanSetBitrateAck ?p)]
     (process_bytes ([1, 2] @ take 3 (packet_bytes kMsgCanSetBitrateAck ?p)) hub_init) =
     fold (\<lambda>(t, p). handle_packet t p) [(kMsgCanSetBitrateAck, ?p)] hub_init"
    by (rule receive_packet_stream [where noise = "[1, 2]"])
      (simp_all add: hub_init_def kSync0_def)
  then show ?thesis
    by (simp add: handle_packet_def)
qed

lemma decode_encode_u32_le: "decode_u32_le (encode_u32_le v @ rest) = v"
proof (rule bit_word_eqI)
  fix n :: nat
  assume "n < LENGTH(32)"
  then consider "n < 8" | "8 \<le> n" "n < 16" | "16 \<le> n" "n < 24" | "24 \<le> n" "n < 32"
    by force
  then show "bit (decode_u32_le (encode_u32_le v @ rest)) n \<longleftrightarrow> bit v n"
    by cases (simp_all add: decode_u32_le_def encode_u32_le_def bit_simps, linarith+)
qed

lemma length_encode_u32_le [simp]: "length (encode_u32_le v) = 4"
  by (simp add: encode_u32_le_def)

text \<open>A frame is accepted for sending exactly when its layout is a legal CAN or CAN-FD one and the link
  is up; a bridge that echoes the payload as a received frame makes every registered
  listener see the same identifier, data and flags.\<close>

theorem send_frame_echo:
  "case send_frame h channel data can_id fd brs of
     Inl _ \<Rightarrow> 64 < length data \<or> (\<not> fd \<and> 8 < length data) \<or> (brs \<and> \<not> fd) \<or> \<not> hb_link_online h
   | Inr bytes \<Rightarrow>
       length data \<le> (if fd then 64 else 8) \<and>
       (\<exists>payload. bytes = packet_bytes kMsgCanTx payload \<and> length payload = 7 + length data \<and>
          hb_delivered (handle_packet kMsgCanRx payload g) = hb_delivered g @
            [(\<lparr>cv_id = can_id, cv_data_length = of_nat (length data), cv_is_fd = fd,
               cv_bitrate_switch = brs, cv_data = data\<rparr>, hb_callbacks g)])"
proof (cases "length data > 64 \<or> (\<not> fd \<and> length data > 8) \<or> (brs \<and> \<not> fd) \<or> \<not> hb_link_online h")
  case True
  then show ?thesis
    by (auto simp: send_frame_def send_packet_def)
next
  case False
  let ?p = "[channel, (if fd then kFlagFd else 0) OR (if brs then kFlagBrs else 0)] @
           encode_u32_le can_id @ [of_nat (length data)] @ data"
  have len: "unat (of_nat (length data) :: u8) = length data"
    using False by (simp add: unat_of_nat)
  then have small: "\<not> 64 < (of_nat (length data) :: u8)"
    using False by (simp add: word_less_nat_alt)
  have "hb_delivered (handle_packet kMsgCanRx ?p g) = hb_delivered g @
            [(\<lparr>cv_id = can_id, cv_data_length = of_nat (length data), cv_is_fd = fd,
               cv_bitrate_switch = brs, cv_data = data\<rparr>, hb_callbacks g)]"
    using small len False
    by (auto simp: handle_packet_def Let_def bridge_consts nth_append decode_encode_u32_le)
  then show ?thesis
    using False by (auto simp: send_frame_def send_packet_def)
qed

theorem send_frame_echo_witness:
  "\<exists>payload. send_frame hub_init 2 [1, 2, 3] 0x601 False False = Inr (packet_bytes kMsgCanTx payload) \<and>
     length payload = 10"
proof -
  have "send_frame hub_init 2 [1, 2, 3] 0x601 False False =
      Inr (packet_bytes kMsgCanTx ([2, 0] @ encode_u32_le 0x601 @ [3] @ [1, 2, 3]))"
    by (simp add: send_frame_def send_packet_def hub_init_def)
  then show ?thesis
    using send_frame_echo [where h = hub_init and channel = 2 and data = "[1, 2, 3]" and can_id = "0x601" and
      fd = False and brs = False and g = hub_init] by auto
qed

text \<open>The bit-rate handshake succeeds only when an acknowledgement for the configured channel and
  bit rate with a success status was received in the attempt.\<close>

theorem configure_bitrate_confirmed:
  assumes "configure_bitrate envs h = (h', Inr ())"
  shows "hb_ack_received h' \<and> hb_ack_channel h' = hb_waist_channel h' \<and>
    hb_ack_bitrate h' = hb_waist_bitrate h' \<and> hb_ack_status h' \<in> {0, 1}"
proof -
  have "configure_attempts es g = (h', Inr ()) \<Longrightarrow> bitrate_confirmed h'" for es g
  proof (induction es arbitrary: g)
    case (Cons env es)
    then show ?case
      by (auto simp: Let_def split: sum.splits if_splits)
  qed simp
  then have "bitrate_confirmed h'"
    using assms unfolding configure_bitrate_def by (cases envs) (simp only: prod.case)
  then show ?thesis
    by (auto simp: bitrate_confirmed_def Let_def)
qed

theorem configure_bitrate_confirmed_witness:
  "\<exists>h'. configure_bitrate (\<lparr>we_chunks = [], we_link_online = True\<rparr>,
      \<lparr>we_chunks = [packet_bytes kMsgCanSetBitrateAck (2 # 1 # encode_u32_le 5000000)],
       we_link_online = True\<rparr>, \<lparr>we_chunks = [], we_link_online = True\<rparr>) hub_init = (h', Inr ()) \<and>
    hb_ack_status h' \<in> {0, 1}"
proof -
  let ?ack = "2 # 1 # encode_u32_le 5000000"
  let ?e = "\<lparr>we_chunks = [], we_link_online = True\<rparr>"
  let ?f = "\<lparr>we_chunks = [packet_bytes kMsgCanSetBitrateAck ?ack], we_link_online = True\<rparr>"
  have w: "wait_for_ack ?e hub_init = hub_init"
    by (simp add: wait_for_ack_def hub_init_def)
  have "process_bytes (packet_bytes kMsgCanSetBitrateAck ?ack) hub_init =
      handle_packet kMsgCanSetBitrateAck ?ack hub_init"
    using process_loop_packet [of ?ack hub_init kMsgCanSetBitrateAck "[]"]
    by (simp add: process_bytes_def hub_init_def process_loop.simps [of _ "[]"] handle_packet_def)
  then have c: "bitrate_confirmed (wait_for_ack ?f hub_init)"
    using decode_encode_u32_le [of 5000000 "[]"]
    by (simp add: bitrate_confirmed_def wait_for_ack_def handle_packet_def hub_init_def)
  have u: "hub_init\<lparr>hb_ack_received := False\<rparr> = hub_init" "\<not> bitrate_confirmed hub_init"
    by (simp_all add: hub_init_def bitrate_confirmed_def)
  then obtain h' where "configure_bitrate (?e, ?f, ?e) hub_init = (h', Inr ())"
    using w c by (simp add: configure_bitrate_def send_packet_def hub_init_def Let_def)
  with configure_bitrate_confirmed [OF this] show ?thesis
    by blast
qed

end
