(* ===== verification/LiftHardware.thy ===== *)
theory LiftHardware
  imports Cia402 EthercatBackend LiftUnits FeedbackContinuity ZeroOffset
begin

text \<open>
  The lift hardware interface (\<open>lift_hardware.hpp\<close>, \<open>lift/lift_hardware.cpp\<close>): the cyclic \<open>read\<close> and
  \<open>write\<close>, the velocity command law, the latches for faults and the emergency stop, and the
  services. The members of the class are grouped in records: the parameters (\<open>motion_params\<close>,
  \<open>drive_params\<close>), what the services request (\<open>requests\<close>), the latches (\<open>safety\<close>), the feedback
  (\<open>feedback\<close>) and the command side (\<open>motion\<close>). Each \<open>read\<close>, \<open>write\<close> and service callback is one
  atomic step; the calls of the backend and of the steady clock inside a step are its
  environment, with one time \<open>now\<close> (in nanoseconds, 0 the unset time) per step. The lift has one
  joint, so \<open>idx_joint_motor_\<close> is valid and the vectors of interface values are single values.
  Log output, the status message and the members that only feed it (\<open>jump_*\<close>, the atomic
  copies of the brake phase and of the last command) are left out.
\<close>

section \<open>State\<close>

record motion_params =
  pm_max_rpm :: int
  pm_position_limit_recovery_max_rpm :: int
  pm_stop_window_max_rpm :: int
  pm_overshoot_recovery_max_rpm :: int
  pm_stop_target_stable_ms :: int
  pm_reset_velocity_rpm :: int
  pm_kp_rpm_per_m :: double
  pm_kd_rpm_per_mps :: double
  pm_deadband_m :: double
  pm_slowdown_distance_m :: double
  pm_stop_window_m :: double
  pm_velocity_slew_rpm_per_s :: double
  pm_stop_slew_rpm_per_s :: double
  pm_brake_accel_rpm_per_s :: double
  pm_overshoot_guard_window_m :: double
  pm_stationary_velocity_threshold_mps :: double
  pm_command_epsilon_m :: double
  pm_command_epsilon_rpm :: double
  pm_position_min_m :: double
  pm_position_max_m :: double
  pm_reset_max_search_travel_m :: double
  pm_limit_switch_enabled :: bool
  pm_limit_switch_active_high :: bool
  pm_limit_switch_positive_bit :: int
  pm_limit_switch_negative_bit :: int
  pm_direct_stop_in_stop_window :: bool

record drive_params =
  dp_unit_config :: lift_unit_config
  dp_expected_working_counter :: u32
  dp_feedback_timeout_ms :: int
  dp_brake_release_wait_ms :: int
  dp_mode_mismatch_debounce_cycles :: u32
  dp_transport_recovery_required_cycles :: u32
  dp_reset_velocity_timeout_ms :: int
  dp_brake_p04_39_rpm :: int
  dp_brake_p06_14_ms :: int
  dp_feedback_filter_alpha :: double
  dp_max_feedback_velocity_mps :: double
  dp_feedback_velocity_tolerance_mps :: double
  dp_brake_control_enabled :: bool
  dp_auto_fault_reset :: bool
  dp_startup_motion_guard_enabled :: bool
  dp_reset_velocity_debug_enabled :: bool
  dp_has_velocity_command :: bool
  dp_has_acceleration_command :: bool
  dp_use_persistent_zero_offset :: bool
  dp_backend_name :: string
  dp_motor_id :: string
  dp_slave_alias :: u16
  dp_slave_position :: u16
  dp_zero_offset_file :: string

datatype brake_stop_phase = BP_disabled | BP_idle | BP_quick_stop

record requests =
  rq_brake_request_enable :: bool
  rq_service_disable_latched :: bool
  rq_brake_stop_requested :: bool
  rq_brake_stop_timeout :: bool
  rq_brake_unlocked :: bool
  rq_reset_velocity_request :: bool
  rq_reset_velocity_stop_pending :: bool
  rq_reset_velocity_start_time :: int
  rq_reset_search_start_position_m :: double
  rq_reset_hold_request :: bool
  rq_reset_hold_target_m :: double
  rq_zero_request_pending :: bool
  rq_zero_disable_observed :: bool
  rq_homing_active :: bool
  rq_homing_start_requested :: bool
  rq_homing_complete :: bool
  rq_homing_failed :: bool
  rq_drive_zero_pending :: bool
  rq_previous_power_command :: bool

record safety =
  sf_active :: bool
  sf_estop_latched :: bool
  sf_motion_blocked :: bool
  sf_latched_motion_reason_code :: nat
  sf_error_reason_code :: nat
  sf_transport_fault_active :: bool
  sf_transport_recovery_healthy_cycles :: u32
  sf_position_limit_violation :: bool
  sf_limit_recovery_active :: bool
  sf_mode_mismatch_cycles :: u32
  sf_feedback_continuity_reset_pending :: bool
  sf_first_write_sync_pending :: bool
  sf_startup_guard_until :: int
  sf_power_command_requested :: bool
  sf_power_enabled :: bool

record feedback =
  fb_rx_pdo :: lift_tx_pdo
  fb_position_units :: i32
  fb_position_m :: double
  fb_velocity_mps :: double
  fb_filtered_velocity_mps :: double
  fb_fresh :: bool
  fb_last_feedback_ns :: int
  fb_link_state :: ethercat_link_state
  fb_working_counter :: u32
  fb_error_code :: u16
  fb_mode_display :: i8
  fb_digital_inputs :: u32
  fb_hw_position :: double
  fb_hw_velocity :: double
  fb_zero_offset_units :: i32
  fb_zero_offset_units_atomic :: i32
  fb_zero_offset_apply_pending :: bool
  fb_zero_offset_loaded :: bool
  fb_zero_generation :: u64

record motion =
  mv_command :: double
  mv_velocity_command :: double
  mv_acceleration_command :: double
  mv_power_command :: double
  mv_last_target_wire_rpm :: double
  mv_last_target_position_m :: double
  mv_target_change_time :: int
  mv_tx_pdo :: lift_rx_pdo
  mv_brake_stop_phase :: brake_stop_phase
  mv_brake_stop_start_time :: int
  mv_brake_enable_time :: int
  mv_previous_operation_enabled :: bool
  mv_command_position_sent :: double
  mv_command_velocity_sent :: double
  mv_command_acceleration_sent :: double

record lift_hw =
  lh_mp :: motion_params
  lh_dp :: drive_params
  lh_rq :: requests
  lh_sf :: safety
  lh_fb :: feedback
  lh_mv :: motion
  lh_cia :: cia402_controller
  lh_guard :: continuity_guard

text \<open>What one cycle sees of the backend and the clock. \<open>ev_llround_unspecified\<close> is the value the
  platform returns where \<open>std::llround\<close> has no specified one.\<close>

record cycle_env =
  ev_now :: int
  ev_link_state :: ethercat_link_state
  ev_working_counter :: u32
  ev_pdo_fresh :: bool
  ev_read_sample :: "lift_tx_pdo option" \<comment> \<open>\<open>None\<close>: \<open>read_pdo\<close> fails\<close>
  ev_write_ok :: bool
  ev_period_s :: double
  ev_llround_unspecified :: i32

definition ms_to_ns :: "int \<Rightarrow> int" where
  "ms_to_ns ms = ms * 1000000"

definition of_int_d :: "int \<Rightarrow> double" where
  "of_int_d i = Fin (of_int i)"

section \<open>Latches and feedback continuity\<close>

definition latch_motion_fault :: "nat \<Rightarrow> lift_hw \<Rightarrow> lift_hw" where
  "latch_motion_fault reason_code h =
     h\<lparr>lh_sf := (lh_sf h)\<lparr>sf_motion_blocked := True, sf_latched_motion_reason_code := reason_code,
         sf_error_reason_code := reason_code\<rparr>,
       lh_rq := (lh_rq h)\<lparr>rq_brake_request_enable := False, rq_brake_stop_requested := True,
         rq_brake_unlocked := False, rq_reset_velocity_request := False,
         rq_reset_velocity_stop_pending := True,
         rq_reset_hold_target_m := fb_position_m (lh_fb h), rq_reset_hold_request := True\<rparr>\<rparr>"

definition feedback_is_fresh :: "int \<Rightarrow> lift_hw \<Rightarrow> bool" where
  "feedback_is_fresh now h \<longleftrightarrow>
     (let stamp = fb_last_feedback_ns (lh_fb h) in
      if \<not> fb_fresh (lh_fb h) \<or> stamp = 0 then False
      else now \<ge> stamp \<and> now - stamp \<le> ms_to_ns (dp_feedback_timeout_ms (lh_dp h)))"

definition feedback_source_code :: "lift_hw \<Rightarrow> u32" where
  "feedback_source_code h =
     (if dp_backend_name (lh_dp h) = ''mock'' then 1
      else if dp_backend_name (lh_dp h) = ''etherlab'' then 2
      else if dp_backend_name (lh_dp h) = ''real_sdk'' then 3 else 0)"

definition reset_feedback_continuity :: "lift_hw \<Rightarrow> lift_hw" where
  "reset_feedback_continuity h = h\<lparr>lh_guard := guard_reset (feedback_source_code h) (lh_guard h)\<rparr>"

definition invalidate_feedback_continuity :: "lift_hw \<Rightarrow> lift_hw" where
  "invalidate_feedback_continuity h =
     h\<lparr>lh_guard := invalidate (feedback_source_code h) (lh_guard h)\<rparr>"

definition observe_feedback_continuity :: "double \<Rightarrow> int \<Rightarrow> bool \<Rightarrow> lift_hw \<Rightarrow> lift_hw" where
  "observe_feedback_continuity position_m sample_time_ns fresh h =
     (let (g, r) = observe position_m sample_time_ns (feedback_source_code h) fresh (lh_guard h);
          h1 = h\<lparr>lh_guard := g\<rparr>
      in if fr_state r \<noteq> FC_jump_detected then h1 else latch_motion_fault 2 h1)"

definition update_transport_health :: "bool \<Rightarrow> lift_hw \<Rightarrow> lift_hw" where
  "update_transport_health healthy h =
     (let s = lh_sf h in
      if \<not> healthy then
        h\<lparr>lh_sf := s\<lparr>sf_transport_fault_active := True, sf_transport_recovery_healthy_cycles := 0,
            sf_error_reason_code := (if sf_motion_blocked s then sf_error_reason_code s else 1)\<rparr>\<rparr>
      else if \<not> sf_transport_fault_active s then h
      else
        let next = sf_transport_recovery_healthy_cycles s + 1 in
        if next < dp_transport_recovery_required_cycles (lh_dp h) then
          h\<lparr>lh_sf := s\<lparr>sf_transport_recovery_healthy_cycles := next\<rparr>\<rparr>
        else
          h\<lparr>lh_sf := s\<lparr>sf_transport_fault_active := False, sf_transport_recovery_healthy_cycles := 0,
              sf_error_reason_code :=
                (if \<not> sf_motion_blocked s \<and> \<not> sf_estop_latched s
                 then if sf_position_limit_violation s then 3 else 0
                 else sf_error_reason_code s)\<rparr>\<rparr>)"

definition handle_transport_fault :: "lift_hw \<Rightarrow> lift_hw" where
  "handle_transport_fault h =
     invalidate_feedback_continuity
       (h\<lparr>lh_mv := (lh_mv h)\<lparr>mv_tx_pdo := (mv_tx_pdo (lh_mv h))\<lparr>rx_target_velocity_units_per_s := 0,
              rx_control_word := 0x0006\<rparr>, mv_brake_stop_phase := BP_disabled\<rparr>,
          lh_rq := (lh_rq h)\<lparr>rq_brake_stop_requested := True, rq_brake_unlocked := False\<rparr>,
          lh_fb := (lh_fb h)\<lparr>fb_fresh := False, fb_filtered_velocity_mps := 0,
              fb_velocity_mps := 0\<rparr>,
          lh_sf := (lh_sf h)\<lparr>sf_transport_fault_active := True,
              sf_transport_recovery_healthy_cycles := 0,
              sf_error_reason_code :=
                (if sf_motion_blocked (lh_sf h) then sf_error_reason_code (lh_sf h) else 1)\<rparr>\<rparr>)"

definition update_state_interfaces :: "int \<Rightarrow> lift_hw \<Rightarrow> lift_hw" where
  "update_state_interfaces now h =
     (let fb = lh_fb h; rx = fb_rx_pdo fb in
      h\<lparr>lh_sf := (lh_sf h)\<lparr>sf_power_enabled :=
          feedback_is_fresh now h \<and> fb_link_state fb = L_operational \<and>
          fb_working_counter fb \<ge> dp_expected_working_counter (lh_dp h) \<and>
          tx_error_code rx = 0 \<and>
          tx_mode_display rx = (if rq_homing_active (lh_rq h) then 6 else 9) \<and>
          parse_cia402_status (tx_status_word rx) = S_operation_enabled\<rparr>\<rparr>)"

section \<open>read\<close>

definition take_sample :: "cycle_env \<Rightarrow> lift_tx_pdo \<Rightarrow> lift_hw \<Rightarrow> lift_hw" where
  "take_sample env sample h =
     h\<lparr>lh_fb := (lh_fb h)\<lparr>fb_rx_pdo := sample, fb_position_units := tx_actual_position_units sample,
         fb_link_state := ev_link_state env, fb_working_counter := ev_working_counter env\<rparr>\<rparr>"

definition sample_fresh :: "cycle_env \<Rightarrow> lift_hw \<Rightarrow> bool" where
  "sample_fresh env h \<longleftrightarrow> ev_pdo_fresh env \<and> ev_link_state env = L_operational \<and>
     ev_working_counter env \<ge> dp_expected_working_counter (lh_dp h)"

definition publish_sample :: "cycle_env \<Rightarrow> bool \<Rightarrow> lift_tx_pdo \<Rightarrow> lift_hw \<Rightarrow> lift_hw" where
  "publish_sample env fresh sample h =
     (let fb = lh_fb h; rq = lh_rq h in
      h\<lparr>lh_fb := fb\<lparr>fb_last_feedback_ns := (if fresh then ev_now env else fb_last_feedback_ns fb),
          fb_fresh := fresh, fb_error_code := tx_error_code sample,
          fb_mode_display := tx_mode_display sample, fb_digital_inputs := tx_digital_inputs sample\<rparr>,
        lh_rq := (if rq_homing_active rq then
            rq\<lparr>rq_homing_failed := (rq_homing_failed rq \<or> tx_error_code sample \<noteq> 0 \<or>
                 tx_status_word sample AND 0x2000 \<noteq> 0),
               rq_homing_complete := (rq_homing_complete rq \<or>
                 tx_status_word sample AND 0x1400 = 0x1400)\<rparr>
          else rq)\<rparr>)"

definition reset_search_window :: "double \<Rightarrow> lift_hw \<Rightarrow> bool" where
  "reset_search_window position h \<longleftrightarrow>
     (let mp = lh_mp h; start = rq_reset_search_start_position_m (lh_rq h) in
      rq_reset_velocity_request (lh_rq h) \<and>
      position \<ge> dmin start (pm_position_min_m mp) - pm_command_epsilon_m mp \<and>
      position \<le> start + pm_reset_max_search_travel_m mp + pm_command_epsilon_m mp)"

definition check_position_limits :: "double \<Rightarrow> lift_hw \<Rightarrow> lift_hw" where
  "check_position_limits position h =
     (let mp = lh_mp h; s = lh_sf h;
          outside = (\<not> reset_search_window position h \<and>
            (position < pm_position_min_m mp - pm_command_epsilon_m mp \<or>
             position > pm_position_max_m mp + pm_command_epsilon_m mp));
          was_outside = sf_position_limit_violation s;
          h1 = h\<lparr>lh_sf := s\<lparr>sf_position_limit_violation := outside,
                sf_limit_recovery_active := False\<rparr>\<rparr>
      in if outside \<and> \<not> sf_motion_blocked s then
           let h2 = h1\<lparr>lh_sf := (lh_sf h1)\<lparr>sf_error_reason_code := 3\<rparr>\<rparr> in
           if \<not> was_outside then
             h2\<lparr>lh_rq := (lh_rq h2)\<lparr>rq_brake_request_enable := False, rq_brake_stop_requested := True,
                   rq_brake_unlocked := False, rq_reset_velocity_request := False,
                   rq_reset_velocity_stop_pending := True, rq_reset_hold_request := False\<rparr>,
                lh_mv := (lh_mv h2)\<lparr>mv_last_target_wire_rpm := 0\<rparr>\<rparr>
           else h2
         else h1)"

definition take_position :: "double \<Rightarrow> double \<Rightarrow> lift_hw \<Rightarrow> lift_hw" where
  "take_position position velocity h =
     (let alpha = dp_feedback_filter_alpha (lh_dp h);
          filtered = alpha * velocity + (1 - alpha) * fb_filtered_velocity_mps (lh_fb h)
      in h\<lparr>lh_fb := (lh_fb h)\<lparr>fb_filtered_velocity_mps := filtered, fb_velocity_mps := filtered,
             fb_position_m := position\<rparr>\<rparr>)"

definition begin_epoch :: "lift_hw \<Rightarrow> lift_hw" where
  "begin_epoch h =
     (if sf_feedback_continuity_reset_pending (lh_sf h) then
        reset_feedback_continuity
          (h\<lparr>lh_sf := (lh_sf h)\<lparr>sf_feedback_continuity_reset_pending := False\<rparr>\<rparr>)
      else h)"

definition hw_read :: "cycle_env \<Rightarrow> lift_hw \<Rightarrow> lift_hw \<times> bool" where
  "hw_read env h =
     (if \<not> sf_active (lh_sf h) then (h, False)
      else case ev_read_sample env of
        None \<Rightarrow> (handle_transport_fault h, False)
      | Some sample \<Rightarrow>
          let h1 = take_sample env sample h;
              fresh = sample_fresh env h1;
              h2 = publish_sample env fresh sample (update_transport_health fresh h1);
              units = dp_unit_config (lh_dp h);
              position = position_units_to_m (tx_actual_position_units sample)
                (fb_zero_offset_units (lh_fb h2)) units;
              velocity = velocity_units_to_mps (tx_actual_velocity_units_per_s sample) units
          in if \<not> isfinite position \<or> \<not> isfinite velocity then (latch_motion_fault 6 h2, False)
             else
               let h3 = begin_epoch (take_position position velocity h2);
                   h4 = observe_feedback_continuity position (ev_now env)
                     (fresh \<and> \<not> sf_transport_fault_active (lh_sf h3)) h3;
                   h5 = check_position_limits position h4;
                   h6 = (if \<bar>velocity\<bar> > dp_max_feedback_velocity_mps (lh_dp h) +
                            dp_feedback_velocity_tolerance_mps (lh_dp h)
                         then latch_motion_fault 5 h5 else h5);
                   h7 = h6\<lparr>lh_fb := (lh_fb h6)\<lparr>fb_hw_position := position,
                           fb_hw_velocity := velocity\<rparr>\<rparr>
               in (update_state_interfaces (ev_now env) h7, True))"

section \<open>The velocity command law\<close>

definition lift_sign_of :: "lift_hw \<Rightarrow> double" where
  "lift_sign_of h =
     (let s = uc_lift_sign (dp_unit_config (lh_dp h)) in
      if \<bar>s\<bar> > Fin (1 / 10 ^ 9) then s else Fin (- 1))"

definition limit_asserted :: "motion_params \<Rightarrow> u32 \<Rightarrow> int \<Rightarrow> bool" where
  "limit_asserted mp digital_inputs b =
     (if b < 0 then False
      else if pm_limit_switch_active_high mp then bit digital_inputs (nat b)
      else \<not> bit digital_inputs (nat b))"

definition rpm_scale :: "lift_hw \<Rightarrow> double" where
  "rpm_scale h = \<bar>uc_lead_mm_per_rev (dp_unit_config (lh_dp h))\<bar> / Fin 60000"

definition max_rpm_d :: "motion_params \<Rightarrow> double" where
  "max_rpm_d mp = of_int_d (pm_max_rpm mp)"

definition pd_rpm :: "motion_params \<Rightarrow> double \<Rightarrow> double \<Rightarrow> double \<Rightarrow> double \<Rightarrow> double" where
  "pd_rpm mp scale err commanded_velocity feedback_velocity =
     (let feedforward_rpm = (if scale > Fin (1 / 10 ^ 9) then commanded_velocity / scale else 0);
          joint_rpm = feedforward_rpm + err * pm_kp_rpm_per_m mp +
            (commanded_velocity - feedback_velocity) * pm_kd_rpm_per_mps mp
      in dclamp joint_rpm (- max_rpm_d mp) (max_rpm_d mp))"

definition slowdown_limit :: "motion_params \<Rightarrow> double \<Rightarrow> double \<Rightarrow> double" where
  "slowdown_limit mp scale abs_error =
     (if pm_brake_accel_rpm_per_s mp > 0 \<and> scale > Fin (1 / 10 ^ 9) then
        let remaining = dmax 0 (abs_error - pm_deadband_m mp);
            acceleration_mps2 = pm_brake_accel_rpm_per_s mp * scale
        in dsqrt (dmax 0 (Fin 2 * acceleration_mps2 * remaining)) / scale
      else
        let ramp = (abs_error - pm_deadband_m mp) / (pm_slowdown_distance_m mp - pm_deadband_m mp)
        in max_rpm_d mp * dclamp ramp 0 1)"

definition approach_slowdown :: "motion_params \<Rightarrow> double \<Rightarrow> bool \<Rightarrow> double \<Rightarrow> double \<Rightarrow> double" where
  "approach_slowdown mp scale terminal abs_error joint_rpm =
     (if terminal \<and> pm_slowdown_distance_m mp > pm_deadband_m mp \<and>
         abs_error < pm_slowdown_distance_m mp
      then dclamp joint_rpm (- slowdown_limit mp scale abs_error) (slowdown_limit mp scale abs_error)
      else joint_rpm)"

definition overshoot_guard :: "motion_params \<Rightarrow> bool \<Rightarrow> double \<Rightarrow> double \<Rightarrow> double" where
  "overshoot_guard mp terminal err joint_rpm =
     (if terminal \<and> \<bar>err\<bar> \<le> pm_overshoot_guard_window_m mp then
        let recovery = of_int_d (min (pm_overshoot_recovery_max_rpm mp) (pm_max_rpm mp));
            j = dclamp joint_rpm (- recovery) recovery
        in if j * err \<le> 0 then 0 else j
      else joint_rpm)"

definition stop_window_rpm :: "motion_params \<Rightarrow> bool \<Rightarrow> double \<Rightarrow> double \<Rightarrow> double \<Rightarrow> double" where
  "stop_window_rpm mp terminal abs_error feedback_velocity joint_rpm =
     (if terminal \<and> abs_error \<le> pm_stop_window_m mp then
        if pm_direct_stop_in_stop_window mp then 0
        else
          let stop_limit = of_int_d (min (pm_stop_window_max_rpm mp) (pm_max_rpm mp));
              j = dclamp joint_rpm (- stop_limit) stop_limit
          in if \<bar>feedback_velocity\<bar> \<ge> pm_stationary_velocity_threshold_mps mp \<and>
                j * feedback_velocity < 0 then 0 else j
      else joint_rpm)"

definition limit_stop :: "motion_params \<Rightarrow> u32 \<Rightarrow> double \<Rightarrow> double \<Rightarrow> bool" where
  "limit_stop mp digital_inputs position joint_rpm \<longleftrightarrow>
     (let software_limit_stop =
            (position \<le> pm_position_min_m mp + pm_command_epsilon_m mp \<and> joint_rpm < 0) \<or>
            (position \<ge> pm_position_max_m mp - pm_command_epsilon_m mp \<and> joint_rpm > 0);
          positive_limit = (pm_limit_switch_enabled mp \<and>
            limit_asserted mp digital_inputs (pm_limit_switch_positive_bit mp));
          negative_limit = (pm_limit_switch_enabled mp \<and>
            limit_asserted mp digital_inputs (pm_limit_switch_negative_bit mp))
      in software_limit_stop \<or> (positive_limit \<and> joint_rpm > 0) \<or> (negative_limit \<and> joint_rpm < 0))"

definition dcopysign :: "double \<Rightarrow> double \<Rightarrow> double" where
  "dcopysign x sign = (if sign < 0 then - \<bar>x\<bar> else \<bar>x\<bar>)"

text \<open>The ramp of the command; \<open>motion_active\<close> holds wherever it is reached.\<close>

definition slew_rpm :: "motion_params \<Rightarrow> double \<Rightarrow> bool \<Rightarrow> double \<Rightarrow> double \<Rightarrow> double" where
  "slew_rpm mp dt stopped previous_joint_rpm joint_rpm =
     (if \<bar>joint_rpm\<bar> \<le> Fin (1 / 10 ^ 9) \<and> \<bar>previous_joint_rpm\<bar> > Fin (1 / 10 ^ 9) \<and>
         pm_stop_slew_rpm_per_s mp > 0 \<and> \<not> stopped then
        let max_delta = pm_stop_slew_rpm_per_s mp * dt in
        if \<bar>previous_joint_rpm\<bar> > max_delta
        then previous_joint_rpm - dcopysign max_delta previous_joint_rpm else joint_rpm
      else if pm_velocity_slew_rpm_per_s mp > 0 then
        let max_delta = pm_velocity_slew_rpm_per_s mp * dt in
        dclamp joint_rpm (previous_joint_rpm - max_delta) (previous_joint_rpm + max_delta)
      else joint_rpm)"

definition below_lower_limit :: "motion_params \<Rightarrow> double \<Rightarrow> bool" where
  "below_lower_limit mp position \<longleftrightarrow> position < pm_position_min_m mp - pm_command_epsilon_m mp"

definition above_upper_limit :: "motion_params \<Rightarrow> double \<Rightarrow> bool" where
  "above_upper_limit mp position \<longleftrightarrow> position > pm_position_max_m mp + pm_command_epsilon_m mp"

definition limit_recovery :: "motion_params \<Rightarrow> double \<Rightarrow> double \<Rightarrow> double \<Rightarrow> double" where
  "limit_recovery mp position commanded_velocity joint_rpm =
     (let below = below_lower_limit mp position; above = above_upper_limit mp position in
      if below \<or> above then
        let explicit_inward = (below \<and> commanded_velocity > Fin (1 / 10 ^ 9)) \<or>
              (above \<and> commanded_velocity < Fin (- (1 / 10 ^ 9)));
            computed_inward = (below \<and> joint_rpm > 0) \<or> (above \<and> joint_rpm < 0)
        in if \<not> explicit_inward \<or> \<not> computed_inward then 0
           else let r = of_int_d (pm_position_limit_recovery_max_rpm mp) in dclamp joint_rpm (- r) r
      else joint_rpm)"

definition shaped_rpm ::
    "lift_hw \<Rightarrow> double \<Rightarrow> bool \<Rightarrow> double \<Rightarrow> double \<Rightarrow> double \<Rightarrow> double" where
  "shaped_rpm h dt terminal target commanded_velocity feedback_velocity =
     (let mp = lh_mp h; position = fb_hw_position (lh_fb h); err = target - position;
          scale = rpm_scale h;
          j1 = pd_rpm mp scale err commanded_velocity feedback_velocity;
          j2 = approach_slowdown mp scale terminal \<bar>err\<bar> j1;
          j3 = overshoot_guard mp terminal err j2;
          j4 = stop_window_rpm mp terminal \<bar>err\<bar> feedback_velocity j3;
          stop = limit_stop mp (fb_digital_inputs (lh_fb h)) position j4;
          j5 = (if stop then 0 else j4);
          j6 = slew_rpm mp dt stop (mv_last_target_wire_rpm (lh_mv h) * lift_sign_of h) j5;
          j7 = dclamp j6 (- max_rpm_d mp) (max_rpm_d mp)
      in limit_recovery mp position commanded_velocity j7)"

definition set_limit_recovery :: "bool \<Rightarrow> lift_hw \<Rightarrow> lift_hw" where
  "set_limit_recovery b h = h\<lparr>lh_sf := (lh_sf h)\<lparr>sf_limit_recovery_active := b\<rparr>\<rparr>"

text \<open>The target of this cycle: the held position or the command, clamped to the software range; a
  clamped command is written back.\<close>

definition clamp_target :: "double \<Rightarrow> lift_hw \<Rightarrow> double \<times> lift_hw" where
  "clamp_target unclamped h =
     (let target = dclamp unclamped (pm_position_min_m (lh_mp h)) (pm_position_max_m (lh_mp h)) in
      (target, if \<bar>target - unclamped\<bar> > Fin (1 / 10 ^ 12)
               then h\<lparr>lh_mv := (lh_mv h)\<lparr>mv_command := target\<rparr>\<rparr> else h))"

definition note_target :: "int \<Rightarrow> double \<Rightarrow> lift_hw \<Rightarrow> lift_hw" where
  "note_target now target h =
     (if \<not> isfinite (mv_last_target_position_m (lh_mv h)) \<or>
         \<bar>target - mv_last_target_position_m (lh_mv h)\<bar> > pm_command_epsilon_m (lh_mp h)
      then h\<lparr>lh_mv := (lh_mv h)\<lparr>mv_last_target_position_m := target, mv_target_change_time := now\<rparr>\<rparr>
      else h)"

definition compute_motion_command :: "int \<Rightarrow> double \<Rightarrow> lift_hw \<Rightarrow> double \<times> lift_hw" where
  "compute_motion_command now period_s h0 =
     (let h = set_limit_recovery False h0; mp = lh_mp h; mv = lh_mv h; rq = lh_rq h in
      if \<not> feedback_is_fresh now h \<or> sf_motion_blocked (lh_sf h) then (0, h)
      else if \<not> isfinite (mv_command mv) \<or>
              (dp_has_velocity_command (lh_dp h) \<and> \<not> isfinite (mv_velocity_command mv)) \<or>
              (dp_has_acceleration_command (lh_dp h) \<and> \<not> isfinite (mv_acceleration_command mv))
      then (0, latch_motion_fault 6 h)
      else if rq_reset_velocity_request rq then
        (dclamp (of_int_d (max 1 \<bar>pm_reset_velocity_rpm mp\<bar>)) 0 (max_rpm_d mp) / lift_sign_of h, h)
      else
        let hold_requested = rq_reset_hold_request rq;
            unclamped = (if hold_requested then rq_reset_hold_target_m rq else mv_command mv)
        in if \<not> isfinite unclamped then (0, h)
           else
             let (target, h1) = clamp_target unclamped h;
                 err = target - fb_hw_position (lh_fb h);
                 feedback_velocity = fb_filtered_velocity_mps (lh_fb h);
                 commanded_velocity = (if \<not> hold_requested \<and> dp_has_velocity_command (lh_dp h) \<and>
                     isfinite (mv_velocity_command mv) then mv_velocity_command mv else 0);
                 h2 = note_target now target h1;
                 changed = mv_target_change_time (lh_mv h2);
                 terminal = (changed \<noteq> 0 \<and>
                   now - changed \<ge> ms_to_ns (max 0 (pm_stop_target_stable_ms mp)) \<and>
                   \<bar>commanded_velocity\<bar> \<le> pm_stationary_velocity_threshold_mps mp);
                 motion_active = (\<not> \<bar>err\<bar> \<le> pm_deadband_m mp \<or>
                   \<bar>commanded_velocity\<bar> > pm_stationary_velocity_threshold_mps mp)
             in if \<not> motion_active then
                  (0, h2\<lparr>lh_mv := (lh_mv h2)\<lparr>mv_last_target_wire_rpm := 0\<rparr>\<rparr>)
                else
                  let dt = dclamp period_s (Fin (1 / 1000)) (Fin (1 / 10));
                      joint_rpm = shaped_rpm h2 dt terminal target commanded_velocity feedback_velocity;
                      wire = joint_rpm / lift_sign_of h;
                      position = fb_hw_position (lh_fb h)
                  in (wire, set_limit_recovery
                        ((below_lower_limit mp position \<or> above_upper_limit mp position) \<and>
                         \<bar>joint_rpm\<bar> > pm_command_epsilon_rpm mp)
                        (h2\<lparr>lh_mv := (lh_mv h2)\<lparr>mv_last_target_wire_rpm := wire\<rparr>\<rparr>)))"

section \<open>write\<close>

definition apply_pending_zero_offset :: "int \<Rightarrow> lift_hw \<Rightarrow> lift_hw" where
  "apply_pending_zero_offset now h =
     (if \<not> fb_zero_offset_apply_pending (lh_fb h) then h
      else
        let fb = lh_fb h;
            position = position_units_to_m (fb_position_units fb) (fb_zero_offset_units_atomic fb)
              (dp_unit_config (lh_dp h));
            h1 = h\<lparr>lh_fb := fb\<lparr>fb_zero_offset_apply_pending := False,
                    fb_zero_offset_units := fb_zero_offset_units_atomic fb,
                    fb_zero_offset_loaded := True, fb_hw_position := position, fb_hw_velocity := 0,
                    fb_position_m := position, fb_velocity_mps := 0\<rparr>,
                  lh_mv := (lh_mv h)\<lparr>mv_command := 0, mv_velocity_command := 0,
                    mv_acceleration_command := 0\<rparr>\<rparr>;
            h2 = observe_feedback_continuity position now True (reset_feedback_continuity h1)
        in h2\<lparr>lh_fb := (lh_fb h2)\<lparr>fb_filtered_velocity_mps := 0,
                fb_zero_generation := fb_zero_generation (lh_fb h2) + 1\<rparr>,
              lh_mv := (lh_mv h2)\<lparr>mv_last_target_wire_rpm := 0,
                mv_last_target_position_m := position\<rparr>\<rparr>)"

definition reset_velocity_watchdog :: "int \<Rightarrow> lift_hw \<Rightarrow> lift_hw" where
  "reset_velocity_watchdog now h =
     (let rq = lh_rq h in
      if rq_reset_velocity_request rq \<and> rq_reset_velocity_start_time rq \<noteq> 0 \<and>
         now - rq_reset_velocity_start_time rq \<ge> ms_to_ns (dp_reset_velocity_timeout_ms (lh_dp h))
      then h\<lparr>lh_rq := rq\<lparr>rq_reset_velocity_request := False, rq_reset_velocity_stop_pending := True,
             rq_reset_hold_target_m := fb_position_m (lh_fb h), rq_reset_hold_request := True\<rparr>\<rparr>
      else h)"

definition estop_requests :: "lift_hw \<Rightarrow> lift_hw" where
  "estop_requests h =
     (if sf_estop_latched (lh_sf h) then
        h\<lparr>lh_rq := (lh_rq h)\<lparr>rq_brake_request_enable := False, rq_brake_stop_requested := True,
            rq_reset_velocity_request := False\<rparr>\<rparr>
      else h)"

definition power_command :: "lift_hw \<Rightarrow> bool" where
  "power_command h \<longleftrightarrow> isfinite (mv_power_command (lh_mv h)) \<and> mv_power_command (lh_mv h) \<ge> Fin (1 / 2)"

definition power_edge :: "lift_hw \<Rightarrow> lift_hw" where
  "power_edge h =
     (let p = power_command h; rq = lh_rq h; s = lh_sf h;
          rq1 = (if p \<noteq> rq_previous_power_command rq then
                   (if p \<and> \<not> sf_estop_latched s \<and> \<not> sf_motion_blocked s then
                      rq\<lparr>rq_service_disable_latched := False, rq_brake_stop_requested := False\<rparr>
                    else if \<not> p then rq\<lparr>rq_brake_stop_requested := True\<rparr> else rq)
                     \<lparr>rq_previous_power_command := p\<rparr>
                 else rq)
      in h\<lparr>lh_sf := s\<lparr>sf_power_command_requested := p\<rparr>, lh_rq := rq1\<rparr>)"

definition enable_requested :: "lift_hw \<Rightarrow> bool" where
  "enable_requested h \<longleftrightarrow> \<not> sf_estop_latched (lh_sf h) \<and> dp_brake_control_enabled (lh_dp h) \<and>
     \<not> rq_service_disable_latched (lh_rq h) \<and>
     (power_command h \<or> rq_brake_request_enable (lh_rq h))"

definition stop_requested :: "lift_hw \<Rightarrow> bool" where
  "stop_requested h \<longleftrightarrow> sf_estop_latched (lh_sf h) \<or> rq_brake_stop_requested (lh_rq h)"

definition expected_mode :: "lift_hw \<Rightarrow> i8" where
  "expected_mode h = (if rq_homing_active (lh_rq h) then 6 else 9)"

definition health_inputs :: "cycle_env \<Rightarrow> bool \<Rightarrow> lift_hw \<Rightarrow> cia402_inputs" where
  "health_inputs env fresh h =
     (let rx = fb_rx_pdo (lh_fb h) in
      \<lparr>ci_status_word = tx_status_word rx, ci_error_code = tx_error_code rx,
       ci_mode_display = tx_mode_display rx, ci_expected_mode = expected_mode h,
       ci_link_operational = (ev_link_state env = L_operational),
       ci_pdo_fresh = (fresh \<and> ev_pdo_fresh env \<and> \<not> sf_transport_fault_active (lh_sf h)),
       ci_working_counter_ok = (ev_working_counter env \<ge> dp_expected_working_counter (lh_dp h)),
       ci_request_enable = False, ci_request_quick_stop = False, ci_request_fault_reset = False\<rparr>)"

definition set_error_reason :: "nat \<Rightarrow> lift_hw \<Rightarrow> lift_hw" where
  "set_error_reason code h = h\<lparr>lh_sf := (lh_sf h)\<lparr>sf_error_reason_code := code\<rparr>\<rparr>"

definition set_mode_mismatch :: "u32 \<Rightarrow> lift_hw \<Rightarrow> lift_hw" where
  "set_mode_mismatch n h = h\<lparr>lh_sf := (lh_sf h)\<lparr>sf_mode_mismatch_cycles := n\<rparr>\<rparr>"

text \<open>The branch on drive errors, mode mismatch and transport health. \<open>enable\<close> and \<open>i\<close> were computed
  before it.\<close>

definition classify_faults :: "bool \<Rightarrow> bool \<Rightarrow> cia402_inputs \<Rightarrow> lift_hw \<Rightarrow> lift_hw" where
  "classify_faults fresh enable i h =
     (let s = lh_sf h; unlatched = (\<not> sf_motion_blocked s \<and> \<not> sf_estop_latched s) in
      if fresh \<and> ci_error_code i \<noteq> 0 then
        let h1 = set_mode_mismatch 0 h in
        if enable \<or> sf_power_enabled s then latch_motion_fault 7 h1
        else if unlatched then set_error_reason 7 h1 else h1
      else if fresh \<and> enable \<and> ci_mode_display i \<noteq> ci_expected_mode i then
        let next = min (sf_mode_mismatch_cycles s + 1) (dp_mode_mismatch_debounce_cycles (lh_dp h));
            h1 = set_mode_mismatch next h
        in if next \<ge> dp_mode_mismatch_debounce_cycles (lh_dp h) then latch_motion_fault 7 h1
           else if unlatched then set_error_reason 7 h1 else h1
      else if \<not> ci_link_operational i \<or> \<not> ci_pdo_fresh i \<or> \<not> ci_working_counter_ok i then
        let h1 = set_mode_mismatch 0 h in
        if \<not> sf_motion_blocked s then set_error_reason 1 h1 else h1
      else if unlatched then
        set_error_reason (if sf_position_limit_violation s then 3 else 0) (set_mode_mismatch 0 h)
      else h)"

text \<open>The brake stop phase. \<open>stop\<close> and \<open>enable\<close> were computed before the faults were classified.\<close>

definition brake_phase_step :: "int \<Rightarrow> bool \<Rightarrow> bool \<Rightarrow> lift_hw \<Rightarrow> lift_hw" where
  "brake_phase_step now stop enable h =
     (let mv = lh_mv h; phase = mv_brake_stop_phase mv in
      if stop \<and> phase = BP_idle then
        h\<lparr>lh_mv := mv\<lparr>mv_brake_stop_phase := BP_quick_stop, mv_brake_stop_start_time := now\<rparr>,
          lh_rq := (lh_rq h)\<lparr>rq_brake_stop_timeout := False\<rparr>\<rparr>
      else if \<not> stop \<and> phase = BP_quick_stop then
        h\<lparr>lh_mv := mv\<lparr>mv_brake_stop_phase := BP_idle, mv_brake_stop_start_time := 0\<rparr>\<rparr>
      else if \<not> stop \<and> phase = BP_disabled \<and> enable then
        h\<lparr>lh_mv := mv\<lparr>mv_brake_stop_phase := BP_idle\<rparr>\<rparr>
      else h)"

definition homing_word :: "cia402_decision \<Rightarrow> lift_hw \<Rightarrow> u16 \<times> lift_hw" where
  "homing_word d h =
     (if rq_homing_active (lh_rq h) \<and> cd_allow_motion d then
        (cd_control_word d OR 0x0010, h\<lparr>lh_rq := (lh_rq h)\<lparr>rq_homing_start_requested := False\<rparr>\<rparr>)
      else (cd_control_word d, h))"

definition finish_quick_stop :: "int \<Rightarrow> u16 \<Rightarrow> lift_hw \<Rightarrow> u16 \<times> lift_hw" where
  "finish_quick_stop now word h =
     (let units = dp_unit_config (lh_dp h);
          raw_velocity_mps = \<bar>velocity_units_to_mps
            (tx_actual_velocity_units_per_s (fb_rx_pdo (lh_fb h))) units\<bar>;
          brake_threshold_mps = \<bar>rpm_to_mps (of_int_d (dp_brake_p04_39_rpm (lh_dp h))) units\<bar>;
          stop_threshold_mps = dmax (pm_stationary_velocity_threshold_mps (lh_mp h)) brake_threshold_mps;
          low_speed = (raw_velocity_mps \<le> stop_threshold_mps);
          start = mv_brake_stop_start_time (lh_mv h);
          stop_timed_out = (start \<noteq> 0 \<and> now - start \<ge> ms_to_ns (max 0 (dp_brake_p06_14_ms (lh_dp h))))
      in if low_speed \<or> stop_timed_out \<or> word = 0x0006 then
           (0x0006, h\<lparr>lh_rq := (if stop_timed_out \<and> \<not> low_speed
                then (lh_rq h)\<lparr>rq_brake_stop_timeout := True\<rparr> else lh_rq h),
              lh_mv := (lh_mv h)\<lparr>mv_brake_stop_phase := BP_disabled, mv_brake_stop_start_time := 0\<rparr>\<rparr>)
         else (word, h))"

text \<open>Brake state inferred from the decision; the result says whether motion may be commanded.\<close>

definition infer_unlocked :: "int \<Rightarrow> bool \<Rightarrow> lift_hw \<Rightarrow> bool \<times> lift_hw" where
  "infer_unlocked now allow h =
     (let mv = lh_mv h;
          enable_time = (if allow \<and> \<not> mv_previous_operation_enabled mv then now
                         else mv_brake_enable_time mv);
          wait = dp_brake_release_wait_ms (lh_dp h);
          unlocked = (allow \<and> (wait \<ge> 0 \<and> now - enable_time \<ge> ms_to_ns wait) \<and>
            mv_brake_stop_phase mv = BP_idle \<and> \<not> sf_motion_blocked (lh_sf h))
      in (unlocked, h\<lparr>lh_mv := mv\<lparr>mv_brake_enable_time := enable_time,
            mv_previous_operation_enabled := allow\<rparr>,
            lh_rq := (lh_rq h)\<lparr>rq_brake_unlocked := unlocked\<rparr>\<rparr>))"

text \<open>During the startup guard, on the first write and in an emergency stop the command follows the
  feedback.\<close>

definition sync_command :: "bool \<Rightarrow> lift_hw \<Rightarrow> lift_hw" where
  "sync_command b h =
     (if b then h\<lparr>lh_mv := (lh_mv h)\<lparr>mv_command := fb_position_m (lh_fb h),
            mv_velocity_command := 0, mv_acceleration_command := 0\<rparr>\<rparr>
      else h)"

definition wire_units :: "i32 \<Rightarrow> double \<Rightarrow> lift_hw \<Rightarrow> i32" where
  "wire_units unspecified wire_rpm h =
     (case wire_rpm_to_velocity_units wire_rpm (dp_unit_config (lh_dp h)) of
        Some v \<Rightarrow> v | None \<Rightarrow> unspecified)"

text \<open>The motion command of a cycle: computed only behind the unlocked brake, and forced to zero
  unless every gate is open.\<close>

definition command_rpm :: "cycle_env \<Rightarrow> bool \<Rightarrow> bool \<Rightarrow> bool \<Rightarrow> bool \<Rightarrow> lift_hw \<Rightarrow> double \<times> lift_hw" where
  "command_rpm env fresh allow unlocked startup h =
     (let period_s = (if ev_period_s env > 0 then ev_period_s env else Fin (1 / 100));
          (wire, h1) = (if unlocked \<and> allow \<and> \<not> rq_homing_active (lh_rq h)
                        then compute_motion_command (ev_now env) period_s h else (0, h))
      in if \<not> allow \<or> \<not> unlocked \<or> \<not> fresh \<or> sf_motion_blocked (lh_sf h1) \<or>
            sf_estop_latched (lh_sf h1) \<or> startup
         then (0, h1\<lparr>lh_mv := (lh_mv h1)\<lparr>mv_last_target_wire_rpm := 0\<rparr>\<rparr>)
         else (wire, h1))"

definition startup_guard_active :: "int \<Rightarrow> lift_hw \<Rightarrow> bool" where
  "startup_guard_active now h \<longleftrightarrow>
     dp_startup_motion_guard_enabled (lh_dp h) \<and> now < sf_startup_guard_until (lh_sf h)"

text \<open>Steps of \<open>write\<close> up to the decision of the CiA 402 controller.\<close>

definition write_prepare :: "cycle_env \<Rightarrow> lift_hw \<Rightarrow> lift_hw" where
  "write_prepare env h =
     (let h1 = apply_pending_zero_offset (ev_now env) h;
          h2 = h1\<lparr>lh_fb := (lh_fb h1)\<lparr>fb_link_state := ev_link_state env,
                  fb_working_counter := ev_working_counter env\<rparr>\<rparr>
      in power_edge (estop_requests (reset_velocity_watchdog (ev_now env) h2)))"

definition write_decide :: "cycle_env \<Rightarrow> bool \<Rightarrow> lift_hw \<Rightarrow> cia402_decision \<times> lift_hw" where
  "write_decide env fresh h =
     (let enable = enable_requested h; stop = stop_requested h; i = health_inputs env fresh h;
          h1 = brake_phase_step (ev_now env) stop enable (classify_faults fresh enable i h);
          quick = (mv_brake_stop_phase (lh_mv h1) = BP_quick_stop);
          (d, cia) = cia402_step (lh_cia h1) (i\<lparr>ci_request_enable := (enable \<and> \<not> quick),
            ci_request_quick_stop := quick,
            ci_request_fault_reset := (dp_auto_fault_reset (lh_dp h1) \<and> \<not> sf_estop_latched (lh_sf h))\<rparr>)
      in (d, h1\<lparr>lh_cia := cia\<rparr>))"

definition write_word :: "int \<Rightarrow> cia402_decision \<Rightarrow> lift_hw \<Rightarrow> u16 \<times> lift_hw" where
  "write_word now d h =
     (let quick = (mv_brake_stop_phase (lh_mv h) = BP_quick_stop); (w, h1) = homing_word d h in
      if quick then finish_quick_stop now w h1 else (w, h1))"

definition startup_hold :: "int \<Rightarrow> lift_hw \<Rightarrow> bool" where
  "startup_hold now h \<longleftrightarrow> startup_guard_active now h \<or> sf_first_write_sync_pending (lh_sf h)"

text \<open>The end of \<open>write\<close>: fill and send the process data.\<close>

definition write_send ::
    "cycle_env \<Rightarrow> bool \<Rightarrow> bool \<Rightarrow> u16 \<Rightarrow> double \<Rightarrow> lift_hw \<Rightarrow> lift_hw \<times> lift_rx_pdo option \<times> bool" where
  "write_send env stop_pending allow word wire h =
     (let units = (if stop_pending then 0 else wire_units (ev_llround_unspecified env) wire h);
          h7 = (if stop_pending
                then h\<lparr>lh_mv := (lh_mv h)\<lparr>mv_last_target_wire_rpm := 0\<rparr>\<rparr> else h);
          tx = \<lparr>rx_control_word = word, rx_target_velocity_units_per_s = units,
                rx_torque_feedforward = 0\<rparr>;
          mv = lh_mv h7;
          h8 = h7\<lparr>lh_mv := mv\<lparr>mv_tx_pdo := tx, mv_command_position_sent := mv_command mv,
                 mv_command_velocity_sent := mv_velocity_command mv,
                 mv_command_acceleration_sent := mv_acceleration_command mv\<rparr>,
               lh_rq := (if rq_zero_request_pending (lh_rq h7) \<and> \<not> allow \<and> word = 0x0006
                         then (lh_rq h7)\<lparr>rq_zero_disable_observed := True\<rparr> else lh_rq h7)\<rparr>
      in if \<not> ev_write_ok env then (handle_transport_fault h8, Some tx, False)
         else
           let h9 = (if stop_pending then
                  h8\<lparr>lh_rq := (lh_rq h8)\<lparr>rq_reset_velocity_stop_pending := False\<rparr>\<rparr> else h8)
           in (update_state_interfaces (ev_now env) h9, Some tx, True))"

definition hw_write :: "cycle_env \<Rightarrow> lift_hw \<Rightarrow> lift_hw \<times> lift_rx_pdo option \<times> bool" where
  "hw_write env h =
     (if \<not> sf_active (lh_sf h) then (h, None, False)
      else
        let now = ev_now env;
            stop_pending = rq_reset_velocity_stop_pending (lh_rq (apply_pending_zero_offset now h));
            h1 = write_prepare env h;
            fresh = feedback_is_fresh now h1;
            (d, h2) = write_decide env fresh h1;
            (word, h3) = write_word now d h2;
            (unlocked, h4) = infer_unlocked now (cd_allow_motion d) h3;
            startup = startup_hold now h4;
            h5 = sync_command (startup \<or> sf_estop_latched (lh_sf h4))
              (h4\<lparr>lh_sf := (lh_sf h4)\<lparr>sf_first_write_sync_pending := False\<rparr>\<rparr>);
            (wire, h6) = command_rpm env fresh (cd_allow_motion d) unlocked startup h5
        in write_send env stop_pending (cd_allow_motion d) word wire h6)"

section \<open>Services\<close>

text \<open>A response is the success flag with its message.\<close>

type_synonym response = "bool \<times> string"

definition handle_brake_command :: "bool \<Rightarrow> lift_hw \<Rightarrow> lift_hw \<times> response" where
  "handle_brake_command data h =
     (if data \<and> \<not> dp_brake_control_enabled (lh_dp h) then
        (h, False, ''brake_control_enabled is false; unlock refused'')
      else if data \<and> sf_estop_latched (lh_sf h) then
        (h, False, ''brake release refused while emergency stop is latched'')
      else if data \<and> sf_motion_blocked (lh_sf h) then
        (h, False, ''brake release refused while a latched lift motion fault is active'')
      else if \<not> data then
        (h\<lparr>lh_rq := (lh_rq h)\<lparr>rq_brake_request_enable := False, rq_service_disable_latched := True,
             rq_reset_velocity_request := False, rq_reset_velocity_stop_pending := False,
             rq_brake_stop_requested := True, rq_brake_unlocked := False,
             rq_brake_stop_timeout := False\<rparr>\<rparr>, True,
         ''controlled stop and brake lock requested; Quick Stop is sent on the next 10 ms cycle and LD3M-EC drives BR+/BR- automatically'')
      else
        (h\<lparr>lh_rq := (lh_rq h)\<lparr>rq_brake_request_enable := True, rq_service_disable_latched := False,
             rq_brake_stop_requested := False, rq_brake_stop_timeout := False\<rparr>\<rparr>, True,
         ''Operation enabled requested; brake unlock and P04.38 release timing are checked before motion''))"

definition homing_window :: "lift_hw \<Rightarrow> bool" where
  "homing_window h \<longleftrightarrow>
     (let mp = lh_mp h; start = fb_position_m (lh_fb h) in
      start \<le> pm_position_max_m mp + pm_reset_max_search_travel_m mp + pm_command_epsilon_m mp \<and>
      start \<ge> pm_position_min_m mp - pm_reset_max_search_travel_m mp - pm_command_epsilon_m mp)"

definition handle_reset_velocity :: "int \<Rightarrow> bool \<Rightarrow> lift_hw \<Rightarrow> lift_hw \<times> response" where
  "handle_reset_velocity now data h =
     (let rq = lh_rq h in
      if data then
        (if sf_estop_latched (lh_sf h) then
           (h, False, ''reset velocity refused while emergency stop is latched'')
         else if \<not> dp_reset_velocity_debug_enabled (lh_dp h) then
           (h, False, ''reset velocity debug takeover is disabled by configuration'')
         else if \<not> dp_brake_control_enabled (lh_dp h) then
           (h, False, ''reset velocity refused because brake_control_enabled is false'')
         else if \<not> feedback_is_fresh now h then
           (h, False, ''reset velocity refused because PDO feedback is stale'')
         else if \<not> homing_window h then
           (h, False, ''reset velocity refused because the current position is outside the bounded homing search window; move the lift toward the valid range first'')
         else if sf_motion_blocked (lh_sf h) then
           (h, False, ''reset velocity refused while a latched motion fault is active'')
         else
           (h\<lparr>lh_rq := rq\<lparr>rq_brake_request_enable := True, rq_reset_velocity_request := True,
                rq_reset_search_start_position_m :=
                  (if rq_reset_velocity_request rq then rq_reset_search_start_position_m rq
                   else fb_position_m (lh_fb h)),
                rq_reset_velocity_stop_pending := False, rq_reset_hold_request := False,
                rq_reset_velocity_start_time := now\<rparr>\<rparr>, True,
            if rq_reset_velocity_request rq then ''reset velocity watchdog refreshed''
            else ''bounded reset velocity takeover requested through CSV/PDO''))
      else
        (h\<lparr>lh_rq := rq\<lparr>rq_reset_velocity_request := False, rq_reset_velocity_stop_pending := True,
             rq_reset_hold_target_m := fb_position_m (lh_fb h), rq_reset_hold_request := True\<rparr>\<rparr>, True,
         ''reset velocity takeover stopped; controlled zero-speed hold requested''))"

definition handle_reset_hold :: "int \<Rightarrow> bool \<Rightarrow> lift_hw \<Rightarrow> lift_hw \<times> response" where
  "handle_reset_hold now data h =
     (if data then
        (if sf_estop_latched (lh_sf h) then
           (h, False, ''reset hold refused while emergency stop is latched'')
         else if \<not> feedback_is_fresh now h then
           (h, False, ''reset hold refused because PDO feedback is stale'')
         else
           (h\<lparr>lh_rq := (lh_rq h)\<lparr>rq_reset_hold_target_m := fb_position_m (lh_fb h),
                rq_reset_hold_request := True\<rparr>\<rparr>, True,
            ''reset hold captured the current host position and uses CSV/PDO velocity control''))
      else (h\<lparr>lh_rq := (lh_rq h)\<lparr>rq_reset_hold_request := False\<rparr>\<rparr>, True, ''reset hold released''))"

definition stationary :: "lift_hw \<Rightarrow> bool" where
  "stationary h \<longleftrightarrow>
     \<not> \<bar>fb_velocity_mps (lh_fb h)\<bar> > pm_stationary_velocity_threshold_mps (lh_mp h)"

definition handle_reset_zero :: "int \<Rightarrow> lift_hw \<Rightarrow> lift_hw \<times> response" where
  "handle_reset_zero now h =
     (if sf_estop_latched (lh_sf h) then
        (h, False, ''zero refused while emergency stop is latched'')
      else if \<not> feedback_is_fresh now h \<or> \<not> stationary h then
        (h, False, ''zero refused until PDO feedback is fresh and velocity is near zero'')
      else
        (h\<lparr>lh_rq := (lh_rq h)\<lparr>rq_reset_velocity_request := False,
             rq_reset_velocity_stop_pending := True, rq_reset_hold_request := False,
             rq_brake_request_enable := False, rq_brake_stop_requested := True,
             rq_brake_unlocked := False, rq_zero_request_pending := True\<rparr>\<rparr>, True,
         ''zero request accepted; drive will stop, disable and persist the current 6064h as a host zero offset (no HM or P00.15 write)''))"

definition zero_record :: "lift_hw \<Rightarrow> zero_offset_record" where
  "zero_record h = \<lparr>zr_schema = 1, zr_motor_id = dp_motor_id (lh_dp h),
     zr_slave_alias = dp_slave_alias (lh_dp h), zr_slave_position = dp_slave_position (lh_dp h),
     zr_zero_offset_units = fb_position_units (lh_fb h)\<rparr>"

definition zero_conditions :: "int \<Rightarrow> lift_hw \<Rightarrow> bool" where
  "zero_conditions now h \<longleftrightarrow>
     sf_active (lh_sf h) \<and> rq_zero_request_pending (lh_rq h) \<and> rq_zero_disable_observed (lh_rq h) \<and>
     (if dp_brake_control_enabled (lh_dp h) then \<not> rq_brake_unlocked (lh_rq h) else True) \<and>
     feedback_is_fresh now h \<and> stationary h"

text \<open>\<open>complete_pending_zero\<close> with the file system of \<open>save_atomic\<close>.\<close>

definition complete_pending_zero ::
    "int \<Rightarrow> save_env \<Rightarrow> files \<Rightarrow> lift_hw \<Rightarrow> files \<times> lift_hw \<times> bool" where
  "complete_pending_zero now env fs h =
     (if \<not> zero_conditions now h then (fs, h, False)
      else
        let h1 = h\<lparr>lh_rq := (lh_rq h)\<lparr>rq_zero_request_pending := False,
                rq_zero_disable_observed := False\<rparr>\<rparr>
        in if \<not> dp_use_persistent_zero_offset (lh_dp h) then
             (fs, h1\<lparr>lh_fb := (lh_fb h)\<lparr>fb_zero_offset_units := 0, fb_zero_offset_units_atomic := 0,
                    fb_zero_offset_loaded := False\<rparr>,
                lh_sf := (lh_sf h)\<lparr>sf_error_reason_code := 0\<rparr>\<rparr>, True)
           else
             (case save_atomic env fs (dp_zero_offset_file (lh_dp h)) (zero_record h) of
                (fs', Inl _) \<Rightarrow>
                  (fs', h1\<lparr>lh_sf := (lh_sf h)\<lparr>sf_error_reason_code := 4, sf_motion_blocked := True,
                      sf_latched_motion_reason_code := 4\<rparr>\<rparr>, False)
              | (fs', Inr _) \<Rightarrow>
                  (fs', h1\<lparr>lh_fb := (lh_fb h)\<lparr>fb_zero_offset_units_atomic :=
                        zr_zero_offset_units (zero_record h), fb_zero_offset_apply_pending := True\<rparr>,
                      lh_sf := (lh_sf h)\<lparr>sf_error_reason_code := 0\<rparr>\<rparr>, True)))"

definition handle_estop :: "lift_hw \<Rightarrow> lift_hw \<times> response" where
  "handle_estop h =
     (h\<lparr>lh_sf := (lh_sf h)\<lparr>sf_estop_latched := True, sf_error_reason_code := 8,
          sf_latched_motion_reason_code := 8\<rparr>,
        lh_rq := (lh_rq h)\<lparr>rq_brake_request_enable := False, rq_brake_stop_requested := True,
          rq_brake_unlocked := False, rq_reset_velocity_request := False,
          rq_reset_velocity_stop_pending := True, rq_reset_hold_request := False,
          rq_zero_request_pending := False, rq_reset_hold_target_m := fb_position_m (lh_fb h)\<rparr>\<rparr>, True,
      ''lift emergency stop latched; next 100 Hz cycle forces zero 60FFh and CiA 402 Quick Stop'')"

definition command_cleared :: "lift_hw \<Rightarrow> bool" where
  "command_cleared h \<longleftrightarrow>
     (let mp = lh_mp h; mv = lh_mv h in
      \<bar>mv_command_position_sent mv - fb_position_m (lh_fb h)\<bar> \<le> pm_command_epsilon_m mp \<and>
      \<bar>mv_command_velocity_sent mv\<bar> \<le> pm_stationary_velocity_threshold_mps mp \<and>
      \<bar>mv_command_acceleration_sent mv\<bar> \<le> Fin (1 / 10 ^ 6))"

definition handle_safety_reset :: "int \<Rightarrow> lift_hw \<Rightarrow> lift_hw \<times> response" where
  "handle_safety_reset now h =
     (let s = lh_sf h; fb = lh_fb h in
      if \<not> sf_estop_latched s \<and> \<not> sf_motion_blocked s then
        (h, True, ''lift safety state is not latched'')
      else if \<not> sf_active s \<or> fb_link_state fb \<noteq> L_operational \<or> \<not> feedback_is_fresh now h \<or>
              sf_transport_fault_active s \<or> fb_error_code fb \<noteq> 0 \<or> fb_mode_display fb \<noteq> 9 \<or>
              \<not> stationary h \<or> \<not> command_cleared h then
        (h, False, ''safety reset refused: require Operational/fresh PDO, CSV mode, no fault, stationary feedback and cleared upper command'')
      else
        (h\<lparr>lh_rq := (lh_rq h)\<lparr>rq_reset_hold_target_m := fb_position_m fb, rq_reset_hold_request := True,
             rq_reset_velocity_request := False, rq_reset_velocity_stop_pending := False,
             rq_brake_request_enable := False, rq_brake_stop_requested := True\<rparr>,
           lh_sf := s\<lparr>sf_motion_blocked := False, sf_latched_motion_reason_code := 0,
             sf_position_limit_violation := False, sf_limit_recovery_active := False,
             sf_mode_mismatch_cycles := 0, sf_estop_latched := False, sf_error_reason_code := 0,
             sf_feedback_continuity_reset_pending := True\<rparr>,
           lh_cia := cia402_reset (lh_cia h)\<rparr>, True,
         ''safety reset accepted; HOLD current position, old motion is not resumed''))"

section \<open>Runs\<close>

text \<open>The steps of the driver. \<open>HW_command\<close> is the controller writing the command interfaces.\<close>

datatype hw_event =
    HW_read cycle_env | HW_write cycle_env | HW_command double double double double
  | HW_brake bool | HW_reset_velocity int bool | HW_reset_hold int bool | HW_reset_zero int
  | HW_complete_zero int save_env files | HW_estop | HW_safety_reset int

fun hw_step :: "lift_hw \<Rightarrow> hw_event \<Rightarrow> lift_hw" where
  "hw_step h (HW_read env) = fst (hw_read env h)"
| "hw_step h (HW_write env) = fst (hw_write env h)"
| "hw_step h (HW_command p v a w) =
     h\<lparr>lh_mv := (lh_mv h)\<lparr>mv_command := p, mv_velocity_command := v, mv_acceleration_command := a,
         mv_power_command := w\<rparr>\<rparr>"
| "hw_step h (HW_brake b) = fst (handle_brake_command b h)"
| "hw_step h (HW_reset_velocity now b) = fst (handle_reset_velocity now b h)"
| "hw_step h (HW_reset_hold now b) = fst (handle_reset_hold now b h)"
| "hw_step h (HW_reset_zero now) = fst (handle_reset_zero now h)"
| "hw_step h (HW_complete_zero now env fs) = fst (snd (complete_pending_zero now env fs h))"
| "hw_step h HW_estop = fst (handle_estop h)"
| "hw_step h (HW_safety_reset now) = fst (handle_safety_reset now h)"

text \<open>What a step puts on the wire.\<close>

fun hw_sent :: "lift_hw \<Rightarrow> hw_event \<Rightarrow> lift_rx_pdo option" where
  "hw_sent h (HW_write env) = fst (snd (hw_write env h))"
| "hw_sent h _ = None"

end
