(* ===== verification/LiftFrames.thy ===== *)
theory LiftFrames
  imports LiftHardware
begin

text \<open>
  Groundwork for the safety proofs of the lift hardware interface: what every stage of a step leaves
  unchanged, the gates a cycle passes before it may command motion, the stages of \<open>write\<close> by name,
  and a concrete driver with the deployed parameters on which the properties are exercised.
\<close>

section \<open>Fields the steps leave unchanged\<close>

lemma reset_observe_no_jump:
  "fr_state (snd (observe p t s f (guard_reset s g))) \<noteq> FC_jump_detected"
  by (auto simp: observe_def guard_reset_def advance_epoch_def invalidate_def Let_def)

lemma latch_frame [frame_simps]:
  "lh_mp (latch_motion_fault c h) = lh_mp h" "lh_dp (latch_motion_fault c h) = lh_dp h"
  "lh_fb (latch_motion_fault c h) = lh_fb h" "lh_mv (latch_motion_fault c h) = lh_mv h"
  "lh_cia (latch_motion_fault c h) = lh_cia h"
  "sf_estop_latched (lh_sf (latch_motion_fault c h)) = sf_estop_latched (lh_sf h)"
  "sf_active (lh_sf (latch_motion_fault c h)) = sf_active (lh_sf h)"
  "sf_transport_fault_active (lh_sf (latch_motion_fault c h)) = sf_transport_fault_active (lh_sf h)"
  "sf_first_write_sync_pending (lh_sf (latch_motion_fault c h)) = sf_first_write_sync_pending (lh_sf h)"
  "sf_startup_guard_until (lh_sf (latch_motion_fault c h)) = sf_startup_guard_until (lh_sf h)"
  "sf_motion_blocked (lh_sf (latch_motion_fault c h))"
  "rq_homing_active (lh_rq (latch_motion_fault c h)) = rq_homing_active (lh_rq h)"
  by (simp_all add: latch_motion_fault_def)

lemma continuity_frame [frame_simps]:
  "lh_mp (observe_feedback_continuity p t f h) = lh_mp h"
  "lh_dp (observe_feedback_continuity p t f h) = lh_dp h"
  "lh_fb (observe_feedback_continuity p t f h) = lh_fb h"
  "lh_mv (observe_feedback_continuity p t f h) = lh_mv h"
  "lh_cia (observe_feedback_continuity p t f h) = lh_cia h"
  "sf_estop_latched (lh_sf (observe_feedback_continuity p t f h)) = sf_estop_latched (lh_sf h)"
  "sf_active (lh_sf (observe_feedback_continuity p t f h)) = sf_active (lh_sf h)"
  "sf_motion_blocked (lh_sf h) \<Longrightarrow> sf_motion_blocked (lh_sf (observe_feedback_continuity p t f h))"
  by (simp_all add: observe_feedback_continuity_def case_prod_beta Let_def latch_frame)

lemma reset_continuity_frame [frame_simps]:
  "lh_mp (reset_feedback_continuity h) = lh_mp h" "lh_dp (reset_feedback_continuity h) = lh_dp h"
  "lh_fb (reset_feedback_continuity h) = lh_fb h" "lh_mv (reset_feedback_continuity h) = lh_mv h"
  "lh_cia (reset_feedback_continuity h) = lh_cia h" "lh_sf (reset_feedback_continuity h) = lh_sf h"
  "lh_rq (reset_feedback_continuity h) = lh_rq h"
  by (simp_all add: reset_feedback_continuity_def)

lemma source_code_guard [simp]: "feedback_source_code (h\<lparr>lh_guard := g\<rparr>) = feedback_source_code h"
  by (simp add: feedback_source_code_def)

lemma fresh_epoch_frame:
  "lh_sf (observe_feedback_continuity p t f (reset_feedback_continuity h)) = lh_sf h"
  "lh_rq (observe_feedback_continuity p t f (reset_feedback_continuity h)) = lh_rq h"
  using reset_observe_no_jump [of p t "feedback_source_code h" f "lh_guard h"]
  by (simp_all add: observe_feedback_continuity_def reset_feedback_continuity_def case_prod_beta
      Let_def)

lemma apply_zero_frame [frame_simps]:
  "lh_mp (apply_pending_zero_offset now h) = lh_mp h"
  "lh_dp (apply_pending_zero_offset now h) = lh_dp h"
  "lh_sf (apply_pending_zero_offset now h) = lh_sf h"
  "lh_rq (apply_pending_zero_offset now h) = lh_rq h"
  "lh_cia (apply_pending_zero_offset now h) = lh_cia h"
  "fb_rx_pdo (lh_fb (apply_pending_zero_offset now h)) = fb_rx_pdo (lh_fb h)"
  "fb_fresh (lh_fb (apply_pending_zero_offset now h)) = fb_fresh (lh_fb h)"
  "fb_last_feedback_ns (lh_fb (apply_pending_zero_offset now h)) = fb_last_feedback_ns (lh_fb h)"
  "mv_power_command (lh_mv (apply_pending_zero_offset now h)) = mv_power_command (lh_mv h)"
  "mv_brake_stop_phase (lh_mv (apply_pending_zero_offset now h)) = mv_brake_stop_phase (lh_mv h)"
  by (simp_all add: apply_pending_zero_offset_def Let_def continuity_frame reset_continuity_frame
      fresh_epoch_frame)

lemma prepare_frame [frame_simps]:
  "lh_mp (write_prepare env h) = lh_mp h" "lh_dp (write_prepare env h) = lh_dp h"
  "lh_sf (write_prepare env h) = (lh_sf h)\<lparr>sf_power_command_requested := power_command h\<rparr>"
  "lh_cia (write_prepare env h) = lh_cia h"
  "fb_rx_pdo (lh_fb (write_prepare env h)) = fb_rx_pdo (lh_fb h)"
  "fb_fresh (lh_fb (write_prepare env h)) = fb_fresh (lh_fb h)"
  "fb_last_feedback_ns (lh_fb (write_prepare env h)) = fb_last_feedback_ns (lh_fb h)"
  "mv_power_command (lh_mv (write_prepare env h)) = mv_power_command (lh_mv h)"
  "rq_homing_active (lh_rq (write_prepare env h)) = rq_homing_active (lh_rq h)"
  by (simp_all add: write_prepare_def Let_def power_edge_def estop_requests_def power_command_def
      reset_velocity_watchdog_def apply_zero_frame)

lemma prepare_fresh [frame_simps]:
  "feedback_is_fresh now (write_prepare env h) = feedback_is_fresh now h"
  by (simp add: feedback_is_fresh_def prepare_frame)

lemma classify_frame [frame_simps]:
  "lh_mp (classify_faults f e i h) = lh_mp h" "lh_dp (classify_faults f e i h) = lh_dp h"
  "lh_fb (classify_faults f e i h) = lh_fb h" "lh_mv (classify_faults f e i h) = lh_mv h"
  "lh_cia (classify_faults f e i h) = lh_cia h"
  "sf_estop_latched (lh_sf (classify_faults f e i h)) = sf_estop_latched (lh_sf h)"
  "sf_active (lh_sf (classify_faults f e i h)) = sf_active (lh_sf h)"
  "sf_first_write_sync_pending (lh_sf (classify_faults f e i h)) = sf_first_write_sync_pending (lh_sf h)"
  "sf_startup_guard_until (lh_sf (classify_faults f e i h)) = sf_startup_guard_until (lh_sf h)"
  "rq_homing_active (lh_rq (classify_faults f e i h)) = rq_homing_active (lh_rq h)"
  "sf_motion_blocked (lh_sf h) \<Longrightarrow> sf_motion_blocked (lh_sf (classify_faults f e i h))"
  by (simp_all add: classify_faults_def Let_def latch_frame set_mode_mismatch_def
      set_error_reason_def)

lemma phase_frame [frame_simps]:
  "lh_mp (brake_phase_step now s e h) = lh_mp h" "lh_dp (brake_phase_step now s e h) = lh_dp h"
  "lh_fb (brake_phase_step now s e h) = lh_fb h" "lh_sf (brake_phase_step now s e h) = lh_sf h"
  "lh_cia (brake_phase_step now s e h) = lh_cia h"
  "rq_homing_active (lh_rq (brake_phase_step now s e h)) = rq_homing_active (lh_rq h)"
  by (simp_all add: brake_phase_step_def Let_def)

lemma decide_frame [frame_simps]:
  assumes "write_decide env fresh h = (d, h2)"
  shows "lh_mp h2 = lh_mp h" "lh_dp h2 = lh_dp h" "lh_fb h2 = lh_fb h"
    "sf_estop_latched (lh_sf h2) = sf_estop_latched (lh_sf h)"
    "sf_active (lh_sf h2) = sf_active (lh_sf h)"
    "sf_first_write_sync_pending (lh_sf h2) = sf_first_write_sync_pending (lh_sf h)"
    "sf_startup_guard_until (lh_sf h2) = sf_startup_guard_until (lh_sf h)"
    "rq_homing_active (lh_rq h2) = rq_homing_active (lh_rq h)"
    "sf_motion_blocked (lh_sf h) \<Longrightarrow> sf_motion_blocked (lh_sf h2)"
  using assms
  by (auto simp: write_decide_def Let_def case_prod_beta classify_frame phase_frame)

lemma word_frame [frame_simps]:
  assumes "write_word now d h = (w, h3)"
  shows "lh_mp h3 = lh_mp h" "lh_dp h3 = lh_dp h" "lh_fb h3 = lh_fb h" "lh_sf h3 = lh_sf h"
    "rq_homing_active (lh_rq h3) = rq_homing_active (lh_rq h)"
  using assms
  by (auto simp: write_word_def homing_word_def finish_quick_stop_def Let_def split: if_splits)

lemma unlocked_frame [frame_simps]:
  assumes "infer_unlocked now allow h = (u, h4)"
  shows "lh_mp h4 = lh_mp h" "lh_dp h4 = lh_dp h" "lh_fb h4 = lh_fb h" "lh_sf h4 = lh_sf h"
    "rq_homing_active (lh_rq h4) = rq_homing_active (lh_rq h)"
    "u \<Longrightarrow> allow \<and> mv_brake_stop_phase (lh_mv h) = BP_idle \<and> \<not> sf_motion_blocked (lh_sf h) \<and>
       0 \<le> dp_brake_release_wait_ms (lh_dp h)"
  using assms by (auto simp: infer_unlocked_def Let_def)

section \<open>The gates of a cycle\<close>

lemma effective_units_finite: "\<exists>u. effective_command_units_per_rev c = Fin u"
  by (auto simp: effective_command_units_per_rev_def of_u32_def elim!: isfiniteE)

lemma wire_units_zero [simp]: "wire_units u 0 h = 0" "wire_units u (Fin 0) h = 0"
proof -
  obtain k where "effective_command_units_per_rev (dp_unit_config (lh_dp h)) = Fin k"
    using effective_units_finite by blast
  moreover have "round_half_away 0 = 0"
    using round_half_away_int [of 0] by simp
  ultimately show "wire_units u 0 h = 0" "wire_units u (Fin 0) h = 0"
    by (simp_all add: wire_units_def wire_rpm_to_velocity_units_def llround_def)
qed

lemma command_rpm_gates:
  assumes "command_rpm env fresh allow unlocked startup h = (wire, h')" "wire \<noteq> 0"
  shows "allow \<and> unlocked \<and> fresh \<and> \<not> startup \<and> \<not> rq_homing_active (lh_rq h) \<and>
    \<not> sf_motion_blocked (lh_sf h') \<and> \<not> sf_estop_latched (lh_sf h')"
  using assms by (auto simp: command_rpm_def Let_def case_prod_beta split: if_splits)

lemma lh_mv_id: "\<exists>mv. h = h\<lparr>lh_mv := mv\<rparr>"
  by (rule exI [of _ "lh_mv h"]) simp

lemma clamp_target_state: "\<exists>mv. snd (clamp_target u h) = h\<lparr>lh_mv := mv\<rparr>"
  using lh_mv_id [of h] by (simp add: clamp_target_def Let_def) blast

lemma note_target_state: "\<exists>mv. note_target now t h = h\<lparr>lh_mv := mv\<rparr>"
  using lh_mv_id [of h] by (simp add: note_target_def) blast

text \<open>The command law changes the command side of the state and the recovery flag, or latches a fault.\<close>

lemma compute_keeps:
  assumes "\<And>b g. P g \<Longrightarrow> P (set_limit_recovery b g)" "\<And>g. P g \<Longrightarrow> P (latch_motion_fault 6 g)"
    and "\<And>mv g. P g \<Longrightarrow> P (g\<lparr>lh_mv := mv\<rparr>)" and "P h"
  shows "P (snd (compute_motion_command now p h))"
proof -
  have clamp: "P (snd (clamp_target u g))" if "P g" for u g
    using clamp_target_state [of u g] that assms(3) by auto
  have target: "P (note_target now t g)" if "P g" for t g
    using note_target_state [of now t g] that assms(3) by auto
  have start: "P (set_limit_recovery False h)"
    using assms(1,4) .
  show ?thesis
    unfolding compute_motion_command_def Let_def split_def
    by (simp only: if_distrib [of snd] snd_conv split: if_split)
      (intro conjI impI start assms(1-3) target clamp)
qed

lemma compute_frame:
  "sf_estop_latched (lh_sf (snd (compute_motion_command now p h))) = sf_estop_latched (lh_sf h)"
  "sf_active (lh_sf (snd (compute_motion_command now p h))) = sf_active (lh_sf h)"
  "lh_dp (snd (compute_motion_command now p h)) = lh_dp h"
  "lh_mp (snd (compute_motion_command now p h)) = lh_mp h"
  "lh_fb (snd (compute_motion_command now p h)) = lh_fb h"
  "sf_motion_blocked (lh_sf h) \<Longrightarrow> sf_motion_blocked (lh_sf (snd (compute_motion_command now p h)))"
  by (rule compute_keeps; simp add: set_limit_recovery_def latch_frame)+

lemma command_rpm_state:
  assumes "command_rpm env fresh allow unlocked startup h = (wire, h')"
  shows "\<exists>g. (g = h \<or> (\<exists>p. g = snd (compute_motion_command (ev_now env) p h))) \<and>
    (\<exists>mv. h' = g\<lparr>lh_mv := mv\<rparr>)"
proof -
  define p where "p = (if ev_period_s env > 0 then ev_period_s env else Fin (1 / 100))"
  obtain w g where g: "(if unlocked \<and> allow \<and> \<not> rq_homing_active (lh_rq h)
      then compute_motion_command (ev_now env) p h else (0, h)) = (w, g)"
    by fastforce
  then have "g = h \<or> g = snd (compute_motion_command (ev_now env) p h)"
    by (metis snd_conv)
  moreover have "\<exists>mv. h' = g\<lparr>lh_mv := mv\<rparr>"
    using assms lh_mv_id [of g]
    unfolding command_rpm_def Let_def p_def [symmetric] g prod.case by (auto split: if_splits)
  ultimately show ?thesis
    by blast
qed

lemma command_rpm_frame:
  assumes "command_rpm env fresh allow unlocked startup h = (wire, h')"
  shows "sf_estop_latched (lh_sf h') = sf_estop_latched (lh_sf h)"
    "sf_active (lh_sf h') = sf_active (lh_sf h)"
    "lh_dp h' = lh_dp h" "lh_mp h' = lh_mp h" "lh_fb h' = lh_fb h"
    "sf_motion_blocked (lh_sf h) \<Longrightarrow> sf_motion_blocked (lh_sf h')"
  using command_rpm_state [OF assms] by (auto simp: compute_frame)

lemma write_send_simps:
  assumes "write_send env stop allow word wire h = (h', t, ok)"
  shows "\<exists>tx. t = Some tx \<and> rx_control_word tx = word \<and> rx_target_velocity_units_per_s tx =
      (if stop then 0 else wire_units (ev_llround_unspecified env) wire h)"
    "sf_estop_latched (lh_sf h') = sf_estop_latched (lh_sf h)"
    "sf_motion_blocked (lh_sf h') = sf_motion_blocked (lh_sf h)"
    "sf_active (lh_sf h') = sf_active (lh_sf h)"
    "lh_dp h' = lh_dp h" "lh_mp h' = lh_mp h"
  using assms
  by (auto simp: write_send_def Let_def handle_transport_fault_def
      invalidate_feedback_continuity_def update_state_interfaces_def split: if_splits)

text \<open>The stages of \<open>write\<close> of an active driver, named.\<close>

definition write_stages where
  "write_stages env h d h2 word h3 unlocked h4 h5 wire h6 \<longleftrightarrow>
     write_decide env (feedback_is_fresh (ev_now env) h) (write_prepare env h) = (d, h2) \<and>
     write_word (ev_now env) d h2 = (word, h3) \<and>
     infer_unlocked (ev_now env) (cd_allow_motion d) h3 = (unlocked, h4) \<and>
     h5 = sync_command (startup_hold (ev_now env) h4 \<or> sf_estop_latched (lh_sf h4))
        (h4\<lparr>lh_sf := (lh_sf h4)\<lparr>sf_first_write_sync_pending := False\<rparr>\<rparr>) \<and>
     command_rpm env (feedback_is_fresh (ev_now env) h) (cd_allow_motion d) unlocked
       (startup_hold (ev_now env) h4) h5 = (wire, h6)"

lemma hw_writeE:
  assumes "hw_write env h = (h', Some tx, ok)"
  obtains d h2 word h3 unlocked h4 h5 wire h6 where
    "sf_active (lh_sf h)" "write_stages env h d h2 word h3 unlocked h4 h5 wire h6"
    "write_send env (rq_reset_velocity_stop_pending (lh_rq h)) (cd_allow_motion d) word wire h6 =
       (h', Some tx, ok)"
proof -
  have active: "sf_active (lh_sf h)"
    using assms by (auto simp: hw_write_def split: if_splits)
  let ?now = "ev_now env"
  obtain d h2 where d: "write_decide env (feedback_is_fresh ?now h) (write_prepare env h) = (d, h2)"
    by fastforce
  obtain word h3 where w: "write_word ?now d h2 = (word, h3)"
    by fastforce
  obtain unlocked h4 where u: "infer_unlocked ?now (cd_allow_motion d) h3 = (unlocked, h4)"
    by fastforce
  let ?h5 = "sync_command (startup_hold ?now h4 \<or> sf_estop_latched (lh_sf h4))
        (h4\<lparr>lh_sf := (lh_sf h4)\<lparr>sf_first_write_sync_pending := False\<rparr>\<rparr>)"
  obtain wire h6 where c: "command_rpm env (feedback_is_fresh ?now h) (cd_allow_motion d) unlocked
       (startup_hold ?now h4) ?h5 = (wire, h6)"
    by fastforce
  have "write_send env (rq_reset_velocity_stop_pending (lh_rq h)) (cd_allow_motion d) word wire h6 =
       (h', Some tx, ok)"
    using assms active by (simp add: hw_write_def Let_def prepare_fresh d w u c apply_zero_frame)
  moreover have "write_stages env h d h2 word h3 unlocked h4 ?h5 wire h6"
    unfolding write_stages_def using d w u c by blast
  ultimately show ?thesis
    using that active by blast
qed

lemma decide_allow:
  assumes "write_decide env fresh h = (d, h2)" "cd_allow_motion d"
  shows "ev_link_state env = L_operational \<and> fresh \<and> ev_pdo_fresh env \<and>
    \<not> sf_transport_fault_active (lh_sf h) \<and>
    ev_working_counter env \<ge> dp_expected_working_counter (lh_dp h) \<and>
    tx_error_code (fb_rx_pdo (lh_fb h)) = 0 \<and>
    tx_mode_display (fb_rx_pdo (lh_fb h)) = expected_mode h \<and>
    parse_cia402_status (tx_status_word (fb_rx_pdo (lh_fb h))) = S_operation_enabled \<and>
    enable_requested h"
  using assms
  by (auto simp: write_decide_def Let_def case_prod_beta allow_motion_iff cia402_healthy_def
      cia402_faulty_def health_inputs_def)

lemma sync_frame [frame_simps]:
  "lh_sf (sync_command b h) = lh_sf h" "lh_rq (sync_command b h) = lh_rq h"
  "lh_dp (sync_command b h) = lh_dp h" "lh_mp (sync_command b h) = lh_mp h"
  "lh_fb (sync_command b h) = lh_fb h"
  by (simp_all add: sync_command_def)

lemma allow_word: "cd_allow_motion (fst (cia402_step c i)) \<Longrightarrow> cd_control_word (fst (cia402_step c i)) = 0x000F"
  by (auto simp: cia402_defs split: if_splits)

lemma decide_word:
  assumes "write_decide env fresh h = (d, h2)" "cd_allow_motion d"
  shows "cd_control_word d = 0x000F"
  using assms allow_word by (auto simp: write_decide_def Let_def case_prod_beta)

lemma word_idle:
  assumes "write_word now d h = (w, h3)" "mv_brake_stop_phase (lh_mv h3) = BP_idle"
    and "\<not> rq_homing_active (lh_rq h)"
  shows "w = cd_control_word d"
  using assms
  by (auto simp: write_word_def homing_word_def finish_quick_stop_def Let_def split: if_splits)

text \<open>What the latches of the state after \<open>write\<close> are.\<close>

lemma stages_frame:
  assumes "write_stages env h d h2 word h3 unlocked h4 h5 wire h6"
  shows "sf_estop_latched (lh_sf h6) = sf_estop_latched (lh_sf h)"
    "sf_active (lh_sf h6) = sf_active (lh_sf h)"
    "sf_motion_blocked (lh_sf h) \<Longrightarrow> sf_motion_blocked (lh_sf h6)"
    "lh_dp h6 = lh_dp h" "lh_mp h6 = lh_mp h"
    "rq_homing_active (lh_rq h5) = rq_homing_active (lh_rq h)"
    "startup_hold (ev_now env) h4 = startup_hold (ev_now env) h"
proof -
  note st = assms [unfolded write_stages_def]
  note frames = command_rpm_frame [OF st [THEN conjunct2, THEN conjunct2, THEN conjunct2, THEN conjunct2]]
    unlocked_frame [OF st [THEN conjunct2, THEN conjunct2, THEN conjunct1]]
    word_frame [OF st [THEN conjunct2, THEN conjunct1]] decide_frame [OF st [THEN conjunct1]]
  show "sf_estop_latched (lh_sf h6) = sf_estop_latched (lh_sf h)"
    "sf_active (lh_sf h6) = sf_active (lh_sf h)"
    "sf_motion_blocked (lh_sf h) \<Longrightarrow> sf_motion_blocked (lh_sf h6)"
    "lh_dp h6 = lh_dp h" "lh_mp h6 = lh_mp h"
    "rq_homing_active (lh_rq h5) = rq_homing_active (lh_rq h)"
    "startup_hold (ev_now env) h4 = startup_hold (ev_now env) h"
    using st frames
    by (simp_all add: prepare_frame sync_frame startup_hold_def startup_guard_active_def)
qed

section \<open>A deployed driver\<close>

text \<open>The parameters of \<open>config/lift_hardware.yaml\<close>, with the brake commissioned (control enabled, a
  release wait of 300 ms), and a driver that is enabled, fed and free to move, half way up its travel with a target ten centimetres higher.\<close>

definition deployed_motion :: motion_params where
  "deployed_motion = \<lparr>pm_max_rpm = 1080, pm_position_limit_recovery_max_rpm = 300,
     pm_stop_window_max_rpm = 10, pm_overshoot_recovery_max_rpm = 10,
     pm_stop_target_stable_ms = 50, pm_reset_velocity_rpm = 180, pm_kp_rpm_per_m = Fin 3000,
     pm_kd_rpm_per_mps = Fin 300, pm_deadband_m = Fin (1 / 1000),
     pm_slowdown_distance_m = Fin (6 / 1000), pm_stop_window_m = Fin (2 / 1000),
     pm_velocity_slew_rpm_per_s = Fin 600, pm_stop_slew_rpm_per_s = 0,
     pm_brake_accel_rpm_per_s = Fin 1200, pm_overshoot_guard_window_m = Fin (6 / 1000),
     pm_stationary_velocity_threshold_mps = Fin (1 / 1000),
     pm_command_epsilon_m = Fin (5 / 10000), pm_command_epsilon_rpm = 1,
     pm_position_min_m = Fin (- 1), pm_position_max_m = 0,
     pm_reset_max_search_travel_m = Fin (85 / 100), pm_limit_switch_enabled = False,
     pm_limit_switch_active_high = True, pm_limit_switch_positive_bit = - 1,
     pm_limit_switch_negative_bit = - 1, pm_direct_stop_in_stop_window = False\<rparr>"

definition deployed_drive :: drive_params where
  "deployed_drive = \<lparr>dp_unit_config = lift_unit_config_default, dp_expected_working_counter = 1,
     dp_feedback_timeout_ms = 100, dp_brake_release_wait_ms = 300,
     dp_mode_mismatch_debounce_cycles = 5, dp_transport_recovery_required_cycles = 5,
     dp_reset_velocity_timeout_ms = 1000, dp_brake_p04_39_rpm = 30, dp_brake_p06_14_ms = 500,
     dp_feedback_filter_alpha = Fin (2 / 10), dp_max_feedback_velocity_mps = Fin (60 / 1000),
     dp_feedback_velocity_tolerance_mps = Fin (3 / 1000), dp_brake_control_enabled = True,
     dp_auto_fault_reset = True, dp_startup_motion_guard_enabled = True,
     dp_reset_velocity_debug_enabled = True, dp_has_velocity_command = True,
     dp_has_acceleration_command = True, dp_use_persistent_zero_offset = True,
     dp_backend_name = ''etherlab'', dp_motor_id = ''LVM08008H3G3-M17'', dp_slave_alias = 0,
     dp_slave_position = 0, dp_zero_offset_file = ''zero.json''\<rparr>"

definition quiet_requests :: requests where
  "quiet_requests = \<lparr>rq_brake_request_enable = False, rq_service_disable_latched = False,
     rq_brake_stop_requested = False, rq_brake_stop_timeout = False, rq_brake_unlocked = True,
     rq_reset_velocity_request = False, rq_reset_velocity_stop_pending = False,
     rq_reset_velocity_start_time = 0, rq_reset_search_start_position_m = 0,
     rq_reset_hold_request = False, rq_reset_hold_target_m = 0, rq_zero_request_pending = False,
     rq_zero_disable_observed = False, rq_homing_active = False,
     rq_homing_start_requested = False, rq_homing_complete = False, rq_homing_failed = False,
     rq_drive_zero_pending = False, rq_previous_power_command = True\<rparr>"

definition clear_safety :: safety where
  "clear_safety = \<lparr>sf_active = True, sf_estop_latched = False, sf_motion_blocked = False,
     sf_latched_motion_reason_code = 0, sf_error_reason_code = 0,
     sf_transport_fault_active = False, sf_transport_recovery_healthy_cycles = 0,
     sf_position_limit_violation = False, sf_limit_recovery_active = False,
     sf_mode_mismatch_cycles = 0, sf_feedback_continuity_reset_pending = False,
     sf_first_write_sync_pending = False, sf_startup_guard_until = 0,
     sf_power_command_requested = True, sf_power_enabled = True\<rparr>"

definition live_feedback :: feedback where
  "live_feedback = \<lparr>fb_rx_pdo = lift_tx_pdo_default\<lparr>tx_status_word := 0x0027, tx_mode_display := 9\<rparr>,
     fb_position_units = 0, fb_position_m = Fin (- (1 / 2)), fb_velocity_mps = 0,
     fb_filtered_velocity_mps = 0, fb_fresh = True, fb_last_feedback_ns = 9000000000,
     fb_link_state = L_operational, fb_working_counter = 1, fb_error_code = 0,
     fb_mode_display = 9, fb_digital_inputs = 0, fb_hw_position = Fin (- (1 / 2)),
     fb_hw_velocity = 0, fb_zero_offset_units = 0, fb_zero_offset_units_atomic = 0,
     fb_zero_offset_apply_pending = False, fb_zero_offset_loaded = True, fb_zero_generation = 1\<rparr>"

definition tracking_motion :: motion where
  "tracking_motion = \<lparr>mv_command = Fin (- (2 / 5)), mv_velocity_command = Fin (1 / 50),
     mv_acceleration_command = 0, mv_power_command = 1, mv_last_target_wire_rpm = 0,
     mv_last_target_position_m = Fin (- (2 / 5)), mv_target_change_time = 8000000000,
     mv_tx_pdo = lift_rx_pdo_default, mv_brake_stop_phase = BP_idle,
     mv_brake_stop_start_time = 0, mv_brake_enable_time = 5000000000,
     mv_previous_operation_enabled = True, mv_command_position_sent = Fin (- (2 / 5)),
     mv_command_velocity_sent = 0, mv_command_acceleration_sent = 0\<rparr>"

definition deployed_hw :: lift_hw where
  "deployed_hw = \<lparr>lh_mp = deployed_motion, lh_dp = deployed_drive, lh_rq = quiet_requests,
     lh_sf = clear_safety, lh_fb = live_feedback, lh_mv = tracking_motion,
     lh_cia = cia402_init 3 100, lh_guard = guard_init (Fin (2 / 10)) 100000000\<rparr>"

definition deployed_cycle :: cycle_env where
  "deployed_cycle = \<lparr>ev_now = 9010000000, ev_link_state = L_operational, ev_working_counter = 1,
     ev_pdo_fresh = True, ev_read_sample = None, ev_write_ok = True, ev_period_s = Fin (1 / 100),
     ev_llround_unspecified = 0\<rparr>"

lemmas deployed_defs = deployed_hw_def live_feedback_def deployed_drive_def deployed_motion_def
  clear_safety_def quiet_requests_def tracking_motion_def

lemma deployed_pd:
  "pd_rpm deployed_motion (Fin (1 / 18000)) (Fin (1 / 10)) (Fin (1 / 50)) (Fin 0) = Fin 666"
  by (simp add: pd_rpm_def deployed_motion_def max_rpm_d_def of_int_d_def)

lemma deployed_slew:
  "slew_rpm deployed_motion (Fin (1 / 100)) False (Fin 0) (Fin 666) = Fin 6"
  by (simp add: slew_rpm_def deployed_motion_def)

lemma deployed_scale: "rpm_scale deployed_hw = Fin (1 / 18000)"
  by (simp add: rpm_scale_def deployed_defs lift_unit_config_default_def)

lemma deployed_sign: "lift_sign_of deployed_hw = Fin (- 1)"
  by (simp add: lift_sign_of_def deployed_defs lift_unit_config_default_def)

lemma deployed_shaped:
  "shaped_rpm deployed_hw (Fin (1 / 100)) False (Fin (- (2 / 5))) (Fin (1 / 50)) (Fin 0) = Fin 6"
proof -
  have "mv_last_target_wire_rpm (lh_mv deployed_hw) = Fin 0" "lh_mp deployed_hw = deployed_motion"
    "fb_hw_position (lh_fb deployed_hw) = Fin (- (1 / 2))" "fb_digital_inputs (lh_fb deployed_hw) = 0"
    by (simp_all add: deployed_hw_def live_feedback_def tracking_motion_def)
  note sel = this
  have lim: "\<not> limit_stop deployed_motion 0 (Fin (- (1 / 2))) (Fin 666)"
    by (simp add: limit_stop_def deployed_motion_def)
  show ?thesis
    unfolding shaped_rpm_def sel Let_def approach_slowdown_def overshoot_guard_def
      stop_window_rpm_def deployed_scale deployed_sign
    by (simp add: deployed_pd lim deployed_slew)
      (simp add: limit_recovery_def below_lower_limit_def above_upper_limit_def max_rpm_d_def
        of_int_d_def deployed_motion_def)
qed


lemma deployed_fresh: "feedback_is_fresh 9010000000 deployed_hw"
  by (simp add: feedback_is_fresh_def deployed_defs ms_to_ns_def)

lemma deployed_recovery: "set_limit_recovery False deployed_hw = deployed_hw"
  by (simp add: set_limit_recovery_def deployed_hw_def clear_safety_def)

lemma deployed_target:
  "clamp_target (Fin (- (2 / 5))) deployed_hw = (Fin (- (2 / 5)), deployed_hw)"
  "note_target now (Fin (- (2 / 5))) deployed_hw = deployed_hw"
  by (simp_all add: clamp_target_def note_target_def Let_def deployed_hw_def deployed_motion_def
      tracking_motion_def)

lemma deployed_selectors:
  "mv_command (lh_mv deployed_hw) = Fin (- (2 / 5))"
  "mv_velocity_command (lh_mv deployed_hw) = Fin (1 / 50)"
  "mv_acceleration_command (lh_mv deployed_hw) = Fin 0"
  "fb_hw_position (lh_fb deployed_hw) = Fin (- (1 / 2))"
  "fb_filtered_velocity_mps (lh_fb deployed_hw) = Fin 0"
  "mv_target_change_time (lh_mv deployed_hw) = 8000000000"
  "\<not> sf_motion_blocked (lh_sf deployed_hw)" "\<not> sf_estop_latched (lh_sf deployed_hw)"
  "\<not> rq_reset_velocity_request (lh_rq deployed_hw)" "\<not> rq_reset_hold_request (lh_rq deployed_hw)"
  "\<not> rq_homing_active (lh_rq deployed_hw)" "dp_has_velocity_command (lh_dp deployed_hw)"
  "pm_deadband_m (lh_mp deployed_hw) = Fin (1 / 1000)"
  "pm_stationary_velocity_threshold_mps (lh_mp deployed_hw) = Fin (1 / 1000)"
  by (simp_all add: deployed_defs)

lemma deployed_compute:
  "compute_motion_command 9010000000 (Fin (1 / 100)) deployed_hw =
     (Fin (- 6), deployed_hw\<lparr>lh_mv := tracking_motion\<lparr>mv_last_target_wire_rpm := Fin (- 6)\<rparr>\<rparr>)"
proof -
  have "\<not> below_lower_limit (lh_mp deployed_hw) (Fin (- (1 / 2)))"
    "\<not> above_upper_limit (lh_mp deployed_hw) (Fin (- (1 / 2)))"
    by (simp_all add: below_lower_limit_def above_upper_limit_def deployed_defs)
  then show ?thesis
    unfolding compute_motion_command_def deployed_recovery Let_def deployed_selectors
    by (simp add: deployed_fresh deployed_selectors deployed_target deployed_shaped deployed_sign)
      (simp add: set_limit_recovery_def deployed_hw_def clear_safety_def)
qed

lemma deployed_prepare: "write_prepare deployed_cycle deployed_hw = deployed_hw"
proof -
  have "apply_pending_zero_offset now deployed_hw = deployed_hw" for now
    by (simp add: apply_pending_zero_offset_def deployed_hw_def live_feedback_def)
  then show ?thesis
    by (simp add: write_prepare_def Let_def reset_velocity_watchdog_def estop_requests_def
        deployed_selectors)
      (simp add: power_edge_def Let_def power_command_def deployed_hw_def live_feedback_def
        deployed_cycle_def tracking_motion_def quiet_requests_def clear_safety_def)
qed


lemma deployed_decide:
  obtains d where "write_decide deployed_cycle True deployed_hw = (d, deployed_hw)"
    "cd_allow_motion d" "cd_control_word d = 0x000F"
proof -
  have enable: "enable_requested deployed_hw" "\<not> stop_requested deployed_hw"
    by (simp_all add: enable_requested_def stop_requested_def power_command_def deployed_defs)
  have "classify_faults True True (health_inputs deployed_cycle True deployed_hw) deployed_hw =
      deployed_hw"
    by (simp add: classify_faults_def health_inputs_def expected_mode_def Let_def deployed_defs
        deployed_cycle_def lift_tx_pdo_default_def set_mode_mismatch_def set_error_reason_def)
  moreover have "brake_phase_step now False True deployed_hw = deployed_hw" for now
    by (simp add: brake_phase_step_def Let_def deployed_hw_def tracking_motion_def)
  moreover have "mv_brake_stop_phase (lh_mv deployed_hw) \<noteq> BP_quick_stop"
    by (simp add: deployed_hw_def tracking_motion_def)
  moreover have "parse_cia402_status 0x0027 = S_operation_enabled"
    by (simp add: parse_cia402_status_def)
  ultimately show ?thesis
    using enable that
    by (simp add: write_decide_def Let_def)
      (simp add: health_inputs_def expected_mode_def Let_def deployed_defs cia402_init_def
        deployed_cycle_def lift_tx_pdo_default_def cia402_step_def cia402_observe_def
        cia402_faulty_def cia402_healthy_def)
qed

lemma deployed_unlocked: "infer_unlocked 9010000000 True deployed_hw = (True, deployed_hw)"
  by (simp add: infer_unlocked_def Let_def deployed_defs ms_to_ns_def)

lemma deployed_write:
  obtains h' ok where "hw_write deployed_cycle deployed_hw = (h', Some
    \<lparr>rx_control_word = 0x000F, rx_target_velocity_units_per_s = - 1000, rx_torque_feedforward = 0\<rparr>, ok)"
proof -
  obtain d where d: "write_decide deployed_cycle True deployed_hw = (d, deployed_hw)"
    "cd_allow_motion d" "cd_control_word d = 0x000F"
    by (rule deployed_decide)
  have w: "write_word now d deployed_hw = (0x000F, deployed_hw)" for now
    using d(3) by (simp add: write_word_def homing_word_def deployed_hw_def tracking_motion_def
        quiet_requests_def)
  have hold: "\<not> startup_hold 9010000000 deployed_hw"
    by (simp add: startup_hold_def startup_guard_active_def deployed_defs)
  have same: "deployed_hw\<lparr>lh_sf := (lh_sf deployed_hw)\<lparr>sf_first_write_sync_pending := False\<rparr>\<rparr> =
      deployed_hw"
    by (simp add: deployed_hw_def clear_safety_def)
  have wire: "wire_units u (Fin (- 6)) (deployed_hw\<lparr>lh_mv := m\<rparr>) = - 1000" for u m
  proof -
    have "round_half_away (- 1000) = - 1000"
      using round_half_away_int [of "- 1000"] by simp
    moreover have "effective_command_units_per_rev (dp_unit_config (lh_dp deployed_hw)) = Fin 10000"
      by (simp add: effective_command_units_per_rev_def deployed_defs lift_unit_config_default_def)
    ultimately show ?thesis
      by (simp add: wire_units_def wire_rpm_to_velocity_units_def llround_def)
  qed
  have active: "sf_active (lh_sf deployed_hw)" and env: "ev_now deployed_cycle = 9010000000"
    "ev_period_s deployed_cycle = Fin (1 / 100)"
    and pending: "\<not> rq_reset_velocity_stop_pending (lh_rq deployed_hw)"
    by (simp_all add: deployed_defs deployed_cycle_def)
  have "fst (snd (hw_write deployed_cycle deployed_hw)) = Some
    \<lparr>rx_control_word = 0x000F, rx_target_velocity_units_per_s = - 1000, rx_torque_feedforward = 0\<rparr>"
    using active pending
    by (simp add: hw_write_def Let_def deployed_prepare deployed_fresh env d w deployed_unlocked hold
        sync_command_def same command_rpm_def deployed_compute write_send_def wire apply_zero_frame
        deployed_selectors)
  with that show ?thesis
    by (metis prod.collapse)
qed

end
