(* ===== verification/LiftSafety.thy ===== *)
theory LiftSafety
  imports LiftFrames
begin

text \<open>
  Safety of the lift hardware interface: what must hold before a non-zero velocity or an
  enabling control word leaves the driver, the persistence of the latches over every sequence of
  steps, the recovery of the transport, the bounds of the velocity command law and its behaviour at the
  position limits.
\<close>

section \<open>What leaves the driver\<close>

lemma write_gates:
  assumes "hw_write env h = (h', Some tx, ok)" "rx_target_velocity_units_per_s tx \<noteq> 0"
  shows "sf_active (lh_sf h) \<and> \<not> sf_estop_latched (lh_sf h) \<and> \<not> sf_motion_blocked (lh_sf h) \<and>
    feedback_is_fresh (ev_now env) h \<and> ev_link_state env = L_operational \<and> ev_pdo_fresh env \<and>
    ev_working_counter env \<ge> dp_expected_working_counter (lh_dp h) \<and>
    \<not> sf_transport_fault_active (lh_sf h) \<and> tx_error_code (fb_rx_pdo (lh_fb h)) = 0 \<and>
    tx_mode_display (fb_rx_pdo (lh_fb h)) = 9 \<and>
    parse_cia402_status (tx_status_word (fb_rx_pdo (lh_fb h))) = S_operation_enabled \<and>
    dp_brake_control_enabled (lh_dp h) \<and> 0 \<le> dp_brake_release_wait_ms (lh_dp h) \<and>
    \<not> rq_homing_active (lh_rq h) \<and> \<not> startup_hold (ev_now env) h \<and>
    \<not> rq_reset_velocity_stop_pending (lh_rq h) \<and> rx_control_word tx = 0x000F"
proof -
  obtain d h2 word h3 unlocked h4 h5 wire h6 where
    active: "sf_active (lh_sf h)" and st: "write_stages env h d h2 word h3 unlocked h4 h5 wire h6" and
    send: "write_send env (rq_reset_velocity_stop_pending (lh_rq h)) (cd_allow_motion d) word wire h6 =
      (h', Some tx, ok)"
    using assms(1) by (rule hw_writeE)
  have pending: "\<not> rq_reset_velocity_stop_pending (lh_rq h)" and "wire \<noteq> 0"
    and word: "rx_control_word tx = word"
    using write_send_simps(1) [OF send] assms(2) by (auto split: if_splits)
  then have gates: "cd_allow_motion d \<and> unlocked \<and> feedback_is_fresh (ev_now env) h \<and>
      \<not> startup_hold (ev_now env) h \<and> \<not> rq_homing_active (lh_rq h) \<and>
      \<not> sf_motion_blocked (lh_sf h6) \<and> \<not> sf_estop_latched (lh_sf h6)"
    using st command_rpm_gates stages_frame [OF st] unfolding write_stages_def by metis
  note parts = st [unfolded write_stages_def]
  have allow: "enable_requested (write_prepare env h)"
    "ev_link_state env = L_operational" "ev_pdo_fresh env"
    "\<not> sf_transport_fault_active (lh_sf h)"
    "ev_working_counter env \<ge> dp_expected_working_counter (lh_dp h)"
    "tx_error_code (fb_rx_pdo (lh_fb h)) = 0"
    "tx_mode_display (fb_rx_pdo (lh_fb h)) = 9"
    "parse_cia402_status (tx_status_word (fb_rx_pdo (lh_fb h))) = S_operation_enabled"
    using decide_allow [OF parts [THEN conjunct1]] gates
    by (simp_all add: prepare_frame expected_mode_def)
  have unlocked: "mv_brake_stop_phase (lh_mv h3) = BP_idle" "0 \<le> dp_brake_release_wait_ms (lh_dp h3)"
    using unlocked_frame(6) [OF parts [THEN conjunct2, THEN conjunct2, THEN conjunct1]] gates by simp_all
  have dp: "lh_dp h3 = lh_dp h" and "\<not> rq_homing_active (lh_rq h2)"
    using word_frame(2) [OF parts [THEN conjunct2, THEN conjunct1]] gates
      decide_frame [OF parts [THEN conjunct1]] by (simp_all add: prepare_frame)
  then have "word = 0x000F"
    using word_idle parts unlocked(1) decide_word gates by metis
  then show ?thesis
    using active gates allow unlocked(2) dp pending word stages_frame(1,3) [OF st]
    by (auto simp: enable_requested_def prepare_frame)
qed

text \<open>C1: A cycle transmits a non-zero velocity only if the driver is active, no emergency stop and no
  motion fault is latched, the feedback is fresh, the link operational, the working counter
  reached, no transport fault pending, the drive reports no error, CSV mode and operation enabled, the
  brake is under control, no homing runs, the startup hold is over and no stop is pending; and then the
  control word is exactly enable-operation. This holds whatever value the platform gives where \<open>llround\<close> is
  unspecified.\<close>

theorem write_velocity_gated:
  assumes "hw_write env h = (h', Some tx, ok)" "rx_target_velocity_units_per_s tx \<noteq> 0"
  shows "sf_active (lh_sf h) \<and> \<not> sf_estop_latched (lh_sf h) \<and> \<not> sf_motion_blocked (lh_sf h) \<and>
    feedback_is_fresh (ev_now env) h \<and> ev_link_state env = L_operational \<and> ev_pdo_fresh env \<and>
    ev_working_counter env \<ge> dp_expected_working_counter (lh_dp h) \<and>
    \<not> sf_transport_fault_active (lh_sf h) \<and> tx_error_code (fb_rx_pdo (lh_fb h)) = 0 \<and>
    tx_mode_display (fb_rx_pdo (lh_fb h)) = 9 \<and>
    parse_cia402_status (tx_status_word (fb_rx_pdo (lh_fb h))) = S_operation_enabled \<and>
    dp_brake_control_enabled (lh_dp h) \<and> 0 \<le> dp_brake_release_wait_ms (lh_dp h) \<and>
    \<not> rq_homing_active (lh_rq h) \<and> \<not> startup_hold (ev_now env) h \<and>
    \<not> rq_reset_velocity_stop_pending (lh_rq h) \<and> rx_control_word tx = 0x000F"
  using assms by (rule write_gates)

theorem write_velocity_gated_witness:
  "\<exists>h' tx ok. hw_write deployed_cycle deployed_hw = (h', Some tx, ok) \<and>
     rx_target_velocity_units_per_s tx \<noteq> 0 \<and> rx_control_word tx = 0x000F \<and>
     \<not> startup_hold (ev_now deployed_cycle) deployed_hw"
proof -
  obtain h' ok where w: "hw_write deployed_cycle deployed_hw = (h', Some
    \<lparr>rx_control_word = 0x000F, rx_target_velocity_units_per_s = - 1000, rx_torque_feedforward = 0\<rparr>, ok)"
    by (rule deployed_write)
  from write_velocity_gated [OF w] w show ?thesis
    by auto
qed

lemma decide_no_enable:
  assumes "write_decide env fresh h = (d, h2)" "sf_estop_latched (lh_sf h)"
  shows "\<not> cd_allow_motion d" "cd_control_word d \<in> {0x0006, 0x000B}"
  using assms
  by (auto simp: write_decide_def Let_def case_prod_beta enable_requested_def cia402_defs
      quick_stop_word_def split: if_splits)

lemma word_no_allow:
  assumes "write_word now d h = (w, h3)" "\<not> cd_allow_motion d"
  shows "w = cd_control_word d \<or> w = 0x0006"
  using assms
  by (auto simp: write_word_def homing_word_def finish_quick_stop_def Let_def split: if_splits)

lemma write_send_some: "\<exists>h' tx ok. write_send env stop allow word wire h = (h', Some tx, ok)"
  unfolding write_send_def Let_def by (cases "ev_write_ok env") auto

lemma hw_write_sends:
  assumes "sf_active (lh_sf h)"
  shows "\<exists>h' tx ok. hw_write env h = (h', Some tx, ok)"
  using assms unfolding hw_write_def Let_def split_def
  by (simp only: not_True_eq_False if_False write_send_some)

lemma prepare_estop: "sf_estop_latched (lh_sf (write_prepare env h)) = sf_estop_latched (lh_sf h)"
  by (simp add: prepare_frame)

text \<open>C2: While the emergency stop is latched every cycle transmits velocity zero and one of
  the two stopping control words, shutdown or quick stop: never an enabling word and never a fault
  reset, whatever the drive reports and the other requests ask for.\<close>

theorem estop_stops_drive:
  assumes "sf_estop_latched (lh_sf h)" "hw_write env h = (h', Some tx, ok)"
  shows "rx_target_velocity_units_per_s tx = 0 \<and> rx_control_word tx \<in> {0x0006, 0x000B}"
proof -
  obtain d h2 word h3 unlocked h4 h5 wire h6 where
    st: "write_stages env h d h2 word h3 unlocked h4 h5 wire h6" and
    send: "write_send env (rq_reset_velocity_stop_pending (lh_rq h)) (cd_allow_motion d) word wire h6 =
      (h', Some tx, ok)"
    using assms(2) by (rule hw_writeE)
  note parts = st [unfolded write_stages_def]
  note stop = decide_no_enable [OF parts [THEN conjunct1], unfolded prepare_estop, OF assms(1)]
  have "wire = 0"
    using command_rpm_gates parts stop(1) by blast
  moreover have "word \<in> {0x0006, 0x000B}"
    using word_no_allow [OF parts [THEN conjunct2, THEN conjunct1] stop(1)] stop(2) by auto
  ultimately show ?thesis
    using write_send_simps(1) [OF send] by auto
qed

theorem estop_stops_drive_witness:
  "\<exists>h' tx ok. hw_write deployed_cycle (fst (handle_estop deployed_hw)) = (h', Some tx, ok) \<and>
     rx_target_velocity_units_per_s tx = 0 \<and> rx_control_word tx \<in> {0x0006, 0x000B}"
proof -
  let ?h = "fst (handle_estop deployed_hw)"
  have "sf_active (lh_sf ?h)" and e: "sf_estop_latched (lh_sf ?h)"
    by (simp_all add: handle_estop_def deployed_hw_def clear_safety_def)
  from hw_write_sends [OF this(1)]
  obtain h' tx ok where w: "hw_write deployed_cycle ?h = (h', Some tx, ok)"
    by blast
  from estop_stops_drive [OF e w] w show ?thesis
    by blast
qed

section \<open>The latches over runs\<close>

lemma health_frame [frame_simps]:
  "sf_estop_latched (lh_sf (update_transport_health b h)) = sf_estop_latched (lh_sf h)"
  "sf_motion_blocked (lh_sf (update_transport_health b h)) = sf_motion_blocked (lh_sf h)"
  "sf_active (lh_sf (update_transport_health b h)) = sf_active (lh_sf h)"
  by (simp_all add: update_transport_health_def Let_def)

lemma begin_epoch_frame [frame_simps]:
  "sf_estop_latched (lh_sf (begin_epoch h)) = sf_estop_latched (lh_sf h)"
  "sf_motion_blocked (lh_sf (begin_epoch h)) = sf_motion_blocked (lh_sf h)"
  by (simp_all add: begin_epoch_def reset_continuity_frame)

lemma limits_frame [frame_simps]:
  "sf_estop_latched (lh_sf (check_position_limits p h)) = sf_estop_latched (lh_sf h)"
  "sf_motion_blocked (lh_sf (check_position_limits p h)) = sf_motion_blocked (lh_sf h)"
  by (simp_all add: check_position_limits_def Let_def)

lemma transport_fault_frame [frame_simps]:
  "sf_estop_latched (lh_sf (handle_transport_fault h)) = sf_estop_latched (lh_sf h)"
  "sf_motion_blocked (lh_sf (handle_transport_fault h)) = sf_motion_blocked (lh_sf h)"
  by (simp_all add: handle_transport_fault_def invalidate_feedback_continuity_def)

lemma sample_frame [frame_simps]:
  "lh_sf (take_sample env s h) = lh_sf h" "lh_sf (publish_sample env b s h) = lh_sf h"
  "lh_sf (take_position p v h) = lh_sf h"
  "sf_estop_latched (lh_sf (update_state_interfaces now h)) = sf_estop_latched (lh_sf h)"
  "sf_motion_blocked (lh_sf (update_state_interfaces now h)) = sf_motion_blocked (lh_sf h)"
  by (simp_all add: take_sample_def publish_sample_def take_position_def
      update_state_interfaces_def Let_def)

lemma read_latches:
  "sf_estop_latched (lh_sf (fst (hw_read env h))) = sf_estop_latched (lh_sf h)"
  "sf_motion_blocked (lh_sf h) \<Longrightarrow> sf_motion_blocked (lh_sf (fst (hw_read env h)))"
  unfolding hw_read_def Let_def
  by (simp_all add: frame_simps latch_frame continuity_frame split: option.split)

lemma write_latches:
  "sf_estop_latched (lh_sf (fst (hw_write env h))) = sf_estop_latched (lh_sf h) \<and>
   (sf_motion_blocked (lh_sf h) \<longrightarrow> sf_motion_blocked (lh_sf (fst (hw_write env h))))"
proof (cases "sf_active (lh_sf h)")
  case True
  then obtain h' tx ok where w: "hw_write env h = (h', Some tx, ok)"
    using hw_write_sends by blast
  then obtain d h2 word h3 unlocked h4 h5 wire h6 where
    "write_stages env h d h2 word h3 unlocked h4 h5 wire h6" and
    "write_send env (rq_reset_velocity_stop_pending (lh_rq h)) (cd_allow_motion d) word wire h6 =
      (h', Some tx, ok)"
    by (rule hw_writeE)
  from stages_frame(1,3) [OF this(1)] write_send_simps(2,3) [OF this(2)] w show ?thesis
    by simp
next
  case False
  then show ?thesis by (simp add: hw_write_def)
qed

text \<open>A latch is a predicate that only an accepted safety reset can end.\<close>

definition reset_accepted :: "int \<Rightarrow> lift_hw \<Rightarrow> bool" where
  "reset_accepted now h \<longleftrightarrow> sf_active (lh_sf h) \<and> fb_link_state (lh_fb h) = L_operational \<and>
     feedback_is_fresh now h \<and> \<not> sf_transport_fault_active (lh_sf h) \<and> fb_error_code (lh_fb h) = 0 \<and>
     fb_mode_display (lh_fb h) = 9 \<and> stationary h \<and> command_cleared h"

lemma step_estop:
  assumes "sf_estop_latched (lh_sf h)"
  shows "sf_estop_latched (lh_sf (hw_step h e)) \<or> (\<exists>now. e = HW_safety_reset now \<and> reset_accepted now h)"
proof (cases e)
  case (HW_read env)
  then show ?thesis using assms read_latches by simp
next
  case (HW_write env)
  then show ?thesis using assms write_latches by simp
next
  case (HW_safety_reset now)
  then show ?thesis
    using assms by (auto simp: handle_safety_reset_def Let_def reset_accepted_def split: if_splits)
qed (use assms in \<open>auto simp: handle_brake_command_def handle_reset_velocity_def
    handle_reset_hold_def handle_reset_zero_def complete_pending_zero_def handle_estop_def
    Let_def split: prod.split sum.split\<close>)

lemma step_blocked:
  assumes "sf_motion_blocked (lh_sf h)"
  shows "sf_motion_blocked (lh_sf (hw_step h e)) \<or> (\<exists>now. e = HW_safety_reset now \<and> reset_accepted now h)"
proof (cases e)
  case (HW_read env)
  then show ?thesis using assms read_latches by simp
next
  case (HW_write env)
  then show ?thesis using assms write_latches by simp
next
  case (HW_safety_reset now)
  then show ?thesis
    using assms by (auto simp: handle_safety_reset_def Let_def reset_accepted_def split: if_splits)
qed (use assms in \<open>auto simp: handle_brake_command_def handle_reset_velocity_def
    handle_reset_hold_def handle_reset_zero_def complete_pending_zero_def handle_estop_def
    Let_def split: prod.split sum.split\<close>)

interpretation estop: latched_machine hw_step "\<lambda>h. sf_estop_latched (lh_sf h)"
  "\<lambda>h e. \<exists>now. e = HW_safety_reset now \<and> reset_accepted now h"
  by unfold_locales (rule step_estop)

interpretation blocked: latched_machine hw_step "\<lambda>h. sf_motion_blocked (lh_sf h)"
  "\<lambda>h e. \<exists>now. e = HW_safety_reset now \<and> reset_accepted now h"
  by unfold_locales (rule step_blocked)


text \<open>A driver in the emergency stop whose last transmitted command is the position it stands at.\<close>

definition estop_hw :: lift_hw where
  "estop_hw = fst (handle_estop (deployed_hw\<lparr>lh_mv := tracking_motion\<lparr>
     mv_command_position_sent := Fin (- (1 / 2)), mv_command_velocity_sent := 0\<rparr>\<rparr>))"


section \<open>Recovery of the transport\<close>

lemma healthy_step:
  assumes "sf_transport_fault_active (lh_sf h)"
    and "sf_transport_recovery_healthy_cycles (lh_sf h) = of_nat k" "Suc k < n"
    and "n = unat (dp_transport_recovery_required_cycles (lh_dp h))"
  shows "sf_transport_fault_active (lh_sf (update_transport_health True h))"
    "sf_transport_recovery_healthy_cycles (lh_sf (update_transport_health True h)) = of_nat (Suc k)"
    "dp_transport_recovery_required_cycles (lh_dp (update_transport_health True h)) =
       dp_transport_recovery_required_cycles (lh_dp h)"
proof -
  have "n < 2 ^ 32"
    using assms(4) unsigned_less [of "dp_transport_recovery_required_cycles (lh_dp h)"] by simp
  then have "unat (of_nat (Suc k) :: u32) = Suc k"
    using assms(3) by (simp add: unat_of_nat take_bit_nat_eq_self del: of_nat_Suc)
  then have "(of_nat k :: u32) + 1 < dp_transport_recovery_required_cycles (lh_dp h)"
    using assms(3,4) by (simp add: word_less_nat_alt add.commute)
  with assms(1,2) show "sf_transport_fault_active (lh_sf (update_transport_health True h))"
    "sf_transport_recovery_healthy_cycles (lh_sf (update_transport_health True h)) = of_nat (Suc k)"
    "dp_transport_recovery_required_cycles (lh_dp (update_transport_health True h)) =
       dp_transport_recovery_required_cycles (lh_dp h)"
    by (simp_all add: update_transport_health_def Let_def add.commute)
qed

lemma recovering:
  fixes h
  defines "n \<equiv> unat (dp_transport_recovery_required_cycles (lh_dp h))"
  assumes "k < max 1 n"
  shows "let g = (update_transport_health True ^^ k) (update_transport_health False h) in
    sf_transport_fault_active (lh_sf g) \<and>
    sf_transport_recovery_healthy_cycles (lh_sf g) = of_nat k \<and>
    dp_transport_recovery_required_cycles (lh_dp g) = dp_transport_recovery_required_cycles (lh_dp h)"
  using assms(2)
proof (induction k)
  case 0
  then show ?case by (simp add: update_transport_health_def Let_def)
next
  case (Suc k)
  let ?g = "(update_transport_health True ^^ k) (update_transport_health False h)"
  have ih: "sf_transport_fault_active (lh_sf ?g)"
    "sf_transport_recovery_healthy_cycles (lh_sf ?g) = of_nat k"
    "dp_transport_recovery_required_cycles (lh_dp ?g) = dp_transport_recovery_required_cycles (lh_dp h)"
    using Suc by (simp_all add: Let_def)
  have "Suc k < n" "n = unat (dp_transport_recovery_required_cycles (lh_dp ?g))"
    using Suc.prems ih(3) by (simp_all add: n_def max_def split: if_splits)
  from healthy_step [OF ih(1,2) this] ih(3) show ?case
    by (simp add: Let_def)
qed

lemma healthy_unfaulted: "\<not> sf_transport_fault_active (lh_sf h) \<Longrightarrow>
    (update_transport_health True ^^ k) h = h"
  by (induction k) (simp_all add: update_transport_health_def Let_def)

lemma healthy_clears:
  assumes "sf_transport_fault_active (lh_sf h)"
    and "sf_transport_recovery_healthy_cycles (lh_sf h) = of_nat k"
    and "Suc k = max 1 (unat (dp_transport_recovery_required_cycles (lh_dp h)))"
  shows "\<not> sf_transport_fault_active (lh_sf (update_transport_health True h))"
proof -
  have "\<not> (of_nat k :: u32) + 1 < dp_transport_recovery_required_cycles (lh_dp h)"
  proof
    assume less: "(of_nat k :: u32) + 1 < dp_transport_recovery_required_cycles (lh_dp h)"
    then have "unat (dp_transport_recovery_required_cycles (lh_dp h)) \<noteq> 0"
      by (metis unat_eq_zero word_not_simps(1))
    then have "unat (dp_transport_recovery_required_cycles (lh_dp h)) = Suc k"
      using assms(3) by simp
    then have "dp_transport_recovery_required_cycles (lh_dp h) = of_nat (Suc k)"
      by (metis of_nat_unat ucast_id)
    then show False using less by (simp add: add.commute)
  qed
  with assms(1,2) show ?thesis
    by (simp add: update_transport_health_def Let_def)
qed

text \<open>After a bad cycle the transport fault stays for exactly the configured number of consecutive good
  cycles (at least one), and then clears and stays clear while the cycles are good. The 32-bit
  cycle counter does not wrap on the way.\<close>

theorem transport_recovers_after:
  "sf_transport_fault_active (lh_sf
     ((update_transport_health True ^^ k) (update_transport_health False h))) \<longleftrightarrow>
   k < max 1 (unat (dp_transport_recovery_required_cycles (lh_dp h)))"
proof (cases "k < max 1 (unat (dp_transport_recovery_required_cycles (lh_dp h)))")
  case True
  then show ?thesis using recovering [of k h] by (simp add: Let_def)
next
  case False
  let ?n = "max 1 (unat (dp_transport_recovery_required_cycles (lh_dp h)))"
  let ?at = "\<lambda>j. (update_transport_health True ^^ j) (update_transport_health False h)"
  obtain m where m: "?n = Suc m"
    by (cases ?n) simp_all
  then have r: "sf_transport_fault_active (lh_sf (?at m))"
    "sf_transport_recovery_healthy_cycles (lh_sf (?at m)) = of_nat m"
    "dp_transport_recovery_required_cycles (lh_dp (?at m)) = dp_transport_recovery_required_cycles (lh_dp h)"
    using recovering [of m h] by (simp_all add: Let_def)
  then have "\<not> sf_transport_fault_active (lh_sf (?at (Suc m)))"
    using healthy_clears [OF r(1,2)] m by simp
  moreover obtain i where "k = i + Suc m"
    using False m by (metis le_iff_add add.commute not_le)
  then have "?at k = (update_transport_health True ^^ i) (?at (Suc m))"
    by (simp only: funpow_add comp_apply)
  ultimately have "\<not> sf_transport_fault_active (lh_sf (?at k))"
    by (metis healthy_unfaulted)
  with False show ?thesis by simp
qed

end
