(* ===== verification/LiftMotion.thy ===== *)
theory LiftMotion
  imports LiftFrames
begin

text \<open>
  The velocity command law of the lift hardware interface: with finite parameters and feedback its
  result is finite and bounded by the configured speed, and outside the position limits it moves
  only inwards, on request, at the recovery speed.
\<close>

section \<open>Finite doubles\<close>

lemma isfinite_arith [simp]:
  "isfinite x \<Longrightarrow> isfinite y \<Longrightarrow> isfinite (x + y)"
  "isfinite x \<Longrightarrow> isfinite y \<Longrightarrow> isfinite (x - y)"
  "isfinite x \<Longrightarrow> isfinite y \<Longrightarrow> isfinite (x * y)"
  "isfinite x \<Longrightarrow> isfinite \<bar>x\<bar>" "isfinite x \<Longrightarrow> isfinite (- x)"
  by (auto elim!: isfiniteE)

lemma isfinite_divide: "isfinite x \<Longrightarrow> isfinite y \<Longrightarrow> y \<noteq> Fin 0 \<Longrightarrow> isfinite (x / y)"
  by (elim isfiniteE) (auto simp: double_simps)

lemma isfinite_select [simp]:
  "isfinite v \<Longrightarrow> isfinite lo \<Longrightarrow> isfinite hi \<Longrightarrow> isfinite (dclamp v lo hi)"
  "isfinite a \<Longrightarrow> isfinite b \<Longrightarrow> isfinite (dmax a b)"
  "isfinite a \<Longrightarrow> isfinite b \<Longrightarrow> isfinite (dmin a b)"
  "isfinite (of_int_d i)" "isfinite (max_rpm_d mp)"
  by (simp_all add: dclamp_def dmax_def dmin_def of_int_d_def max_rpm_d_def)

lemma isfinite_dsqrt: "isfinite x \<Longrightarrow> isfinite (dsqrt (dmax (Fin 0) x))"
  by (elim isfiniteE) simp

lemma isfinite_dcopysign [simp]: "isfinite x \<Longrightarrow> isfinite (dcopysign x s)"
  by (simp add: dcopysign_def)

section \<open>The stages keep values finite\<close>

definition motion_params_ok :: "motion_params \<Rightarrow> bool" where
  "motion_params_ok mp \<longleftrightarrow> 0 \<le> pm_max_rpm mp \<and> 0 \<le> pm_position_limit_recovery_max_rpm mp \<and>
     isfinite (pm_kp_rpm_per_m mp) \<and> isfinite (pm_kd_rpm_per_mps mp) \<and> isfinite (pm_deadband_m mp) \<and>
     isfinite (pm_slowdown_distance_m mp) \<and> isfinite (pm_velocity_slew_rpm_per_s mp) \<and>
     isfinite (pm_stop_slew_rpm_per_s mp) \<and> isfinite (pm_brake_accel_rpm_per_s mp) \<and>
     isfinite (pm_position_min_m mp) \<and> isfinite (pm_position_max_m mp)"

definition motion_state_ok :: "lift_hw \<Rightarrow> bool" where
  "motion_state_ok h \<longleftrightarrow> motion_params_ok (lh_mp h) \<and>
     isfinite (uc_lead_mm_per_rev (dp_unit_config (lh_dp h))) \<and>
     isfinite (uc_lift_sign (dp_unit_config (lh_dp h))) \<and>
     isfinite (fb_hw_position (lh_fb h)) \<and> isfinite (fb_filtered_velocity_mps (lh_fb h)) \<and>
     isfinite (mv_last_target_wire_rpm (lh_mv h))"

lemma lift_sign_fin:
  assumes "motion_state_ok h"
  obtains s where "lift_sign_of h = Fin s" "s \<noteq> 0"
proof -
  obtain a where a: "uc_lift_sign (dp_unit_config (lh_dp h)) = Fin a"
    using assms by (auto simp: motion_state_ok_def elim!: isfiniteE)
  show ?thesis
  proof (cases "\<bar>a\<bar> > 1 / 10 ^ 9")
    case True
    with a that [of a] show ?thesis by (simp add: lift_sign_of_def Let_def)
  next
    case False
    with a that [of "- 1"] show ?thesis by (simp add: lift_sign_of_def Let_def)
  qed
qed

lemma scale_fin:
  assumes "motion_state_ok h"
  obtains k where "rpm_scale h = Fin k"
proof -
  obtain a where "uc_lead_mm_per_rev (dp_unit_config (lh_dp h)) = Fin a"
    using assms by (auto simp: motion_state_ok_def elim!: isfiniteE)
  with that [of "\<bar>a\<bar> / 60000"] show ?thesis
    by (simp add: rpm_scale_def)
qed

lemma pd_finite:
  assumes "motion_params_ok mp" "isfinite err" "isfinite cv" "isfinite fv"
  shows "isfinite (pd_rpm mp (Fin k) err cv fv)"
proof -
  have "isfinite (if Fin k > Fin (1 / 10 ^ 9) then cv / Fin k else 0)"
    using assms(3) isfinite_divide [of cv "Fin k"] by (auto simp: double_simps)
  then show ?thesis
    using assms unfolding pd_rpm_def Let_def motion_params_ok_def by simp
qed

lemma slowdown_limit_finite:
  assumes "motion_params_ok mp" "isfinite e" "pm_slowdown_distance_m mp > pm_deadband_m mp"
  shows "isfinite (slowdown_limit mp (Fin k) e)"
proof (cases "pm_brake_accel_rpm_per_s mp > 0 \<and> Fin k > Fin (1 / 10 ^ 9)")
  case True
  then have "Fin k \<noteq> Fin 0" by auto
  then show ?thesis
    using True assms unfolding slowdown_limit_def Let_def motion_params_ok_def
    by (auto intro!: isfinite_divide isfinite_dsqrt)
next
  case False
  have "pm_slowdown_distance_m mp - pm_deadband_m mp \<noteq> Fin 0"
    using assms by (auto simp: motion_params_ok_def elim!: isfiniteE)
  then have "isfinite ((e - pm_deadband_m mp) / (pm_slowdown_distance_m mp - pm_deadband_m mp))"
    using assms by (auto simp: motion_params_ok_def intro!: isfinite_divide)
  with False show ?thesis
    unfolding slowdown_limit_def Let_def by auto
qed

lemma approach_finite:
  assumes "motion_params_ok mp" "isfinite e" "isfinite j"
  shows "isfinite (approach_slowdown mp (Fin k) t e j)"
  using assms slowdown_limit_finite by (auto simp: approach_slowdown_def)

lemma guard_finite:
  assumes "isfinite j"
  shows "isfinite (overshoot_guard mp t e j)" "isfinite (stop_window_rpm mp t e v j)"
  using assms by (auto simp: overshoot_guard_def stop_window_rpm_def Let_def)

lemma slew_finite:
  assumes "motion_params_ok mp" "isfinite prev" "isfinite j" "isfinite dt"
  shows "isfinite (slew_rpm mp dt stop prev j)"
  using assms by (auto simp: slew_rpm_def motion_params_ok_def Let_def)

lemma dclamp_symmetric:
  assumes "isfinite j" "0 \<le> M"
  obtains r where "dclamp j (- of_int_d M) (of_int_d M) = Fin r" "\<bar>r\<bar> \<le> of_int M"
  using assms by (auto simp: of_int_d_def elim!: isfiniteE) 

text \<open>The law without its last stage is a finite speed within the limit.\<close>

lemma shaped_before_recovery:
  assumes "motion_state_ok h" "isfinite target" "isfinite cv" "isfinite dt"
  obtains r where "\<bar>r\<bar> \<le> of_int (pm_max_rpm (lh_mp h))"
    "shaped_rpm h dt t target cv (fb_filtered_velocity_mps (lh_fb h)) =
       limit_recovery (lh_mp h) (fb_hw_position (lh_fb h)) cv (Fin r)"
proof -
  obtain s where s: "lift_sign_of h = Fin s"
    using assms(1) by (rule lift_sign_fin)
  obtain k where k: "rpm_scale h = Fin k"
    using assms(1) by (rule scale_fin)
  have ok: "motion_params_ok (lh_mp h)" "isfinite (fb_hw_position (lh_fb h))"
    "isfinite (fb_filtered_velocity_mps (lh_fb h))" "isfinite (mv_last_target_wire_rpm (lh_mv h))"
    using assms(1) by (simp_all add: motion_state_ok_def)
  have M: "0 \<le> pm_max_rpm (lh_mp h)"
    using ok(1) by (simp add: motion_params_ok_def)
  define j6 where "j6 = (let mp = lh_mp h; position = fb_hw_position (lh_fb h);
      err = target - position; fv = fb_filtered_velocity_mps (lh_fb h);
      j4 = stop_window_rpm mp t \<bar>err\<bar> fv (overshoot_guard mp t err
        (approach_slowdown mp (Fin k) t \<bar>err\<bar> (pd_rpm mp (Fin k) err cv fv)));
      stop = limit_stop mp (fb_digital_inputs (lh_fb h)) position j4
    in slew_rpm mp dt stop (mv_last_target_wire_rpm (lh_mv h) * Fin s) (if stop then 0 else j4))"
  have "isfinite j6"
    unfolding j6_def Let_def
    using assms ok by (auto intro!: slew_finite guard_finite approach_finite pd_finite)
  then obtain r where "dclamp j6 (- max_rpm_d (lh_mp h)) (max_rpm_d (lh_mp h)) = Fin r"
    "\<bar>r\<bar> \<le> of_int (pm_max_rpm (lh_mp h))"
    unfolding max_rpm_d_def using M by (rule dclamp_symmetric)
  then show ?thesis
    using that [of r] unfolding shaped_rpm_def Let_def s k j6_def by simp
qed


section \<open>The result of the law\<close>

definition requested_velocity :: "lift_hw \<Rightarrow> double" where
  "requested_velocity h =
     (if \<not> rq_reset_hold_request (lh_rq h) \<and> dp_has_velocity_command (lh_dp h) \<and>
         isfinite (mv_velocity_command (lh_mv h)) then mv_velocity_command (lh_mv h) else 0)"

lemma requested_velocity_finite [simp]: "isfinite (requested_velocity h)"
  by (simp add: requested_velocity_def)

lemma target_frame:
  "lh_mp (note_target now t (snd (clamp_target u h))) = lh_mp h"
  "lh_fb (note_target now t (snd (clamp_target u h))) = lh_fb h"
  "lh_dp (note_target now t (snd (clamp_target u h))) = lh_dp h"
  "mv_last_target_wire_rpm (lh_mv (note_target now t (snd (clamp_target u h)))) =
     mv_last_target_wire_rpm (lh_mv h)"
  by (simp_all add: note_target_def clamp_target_def Let_def)

lemma recovery_flag_frame [simp]:
  "lh_mp (set_limit_recovery b h) = lh_mp h" "lh_dp (set_limit_recovery b h) = lh_dp h"
  "lh_fb (set_limit_recovery b h) = lh_fb h" "lh_mv (set_limit_recovery b h) = lh_mv h"
  "lh_rq (set_limit_recovery b h) = lh_rq h" "lift_sign_of (set_limit_recovery b h) = lift_sign_of h"
  by (simp_all add: set_limit_recovery_def lift_sign_of_def)

lemma requested_velocity_flag [simp]:
  "requested_velocity (set_limit_recovery b h) = requested_velocity h"
  by (simp add: requested_velocity_def)

lemma dt_finite: "p > Fin 0 \<Longrightarrow> isfinite (dclamp p (Fin (1 / 1000)) (Fin (1 / 10)))"
  by (cases p) (auto simp: dclamp_def)

text \<open>Every result is zero, the homing speed, or a bounded speed through the recovery stage.\<close>

lemma compute_result:
  fixes h
  defines "sign \<equiv> lift_sign_of h"
  assumes ok: "motion_state_ok h" and p: "p > Fin 0"
  shows "fst (compute_motion_command now p h) = 0 \<or>
    rq_reset_velocity_request (lh_rq h) \<and> fst (compute_motion_command now p h) =
      dclamp (of_int_d (max 1 \<bar>pm_reset_velocity_rpm (lh_mp h)\<bar>)) 0 (max_rpm_d (lh_mp h)) / sign \<or>
    \<not> rq_reset_velocity_request (lh_rq h) \<and> (\<exists>r. \<bar>r\<bar> \<le> of_int (pm_max_rpm (lh_mp h)) \<and>
      fst (compute_motion_command now p h) =
        limit_recovery (lh_mp h) (fb_hw_position (lh_fb h)) (requested_velocity h) (Fin r) / sign)"
proof -
  let ?g = "set_limit_recovery False h"
  have shaped: "\<exists>r. \<bar>r\<bar> \<le> of_int (pm_max_rpm (lh_mp h)) \<and>
      shaped_rpm h2 (dclamp p (Fin (1 / 1000)) (Fin (1 / 10))) t target (requested_velocity h)
        (fb_filtered_velocity_mps (lh_fb h)) =
      limit_recovery (lh_mp h) (fb_hw_position (lh_fb h)) (requested_velocity h) (Fin r)"
    if h2: "h2 = note_target now target (snd (clamp_target u ?g))" and tgt: "isfinite target"
    for h2 t target u
  proof -
    have "motion_state_ok h2" and eq: "lh_mp h2 = lh_mp h" "lh_fb h2 = lh_fb h"
      using ok unfolding h2 by (simp_all add: motion_state_ok_def target_frame)
    then obtain r where "\<bar>r\<bar> \<le> of_int (pm_max_rpm (lh_mp h2))"
      "shaped_rpm h2 (dclamp p (Fin (1 / 1000)) (Fin (1 / 10))) t target (requested_velocity h)
        (fb_filtered_velocity_mps (lh_fb h2)) =
       limit_recovery (lh_mp h2) (fb_hw_position (lh_fb h2)) (requested_velocity h) (Fin r)"
      using shaped_before_recovery tgt dt_finite [OF p] requested_velocity_finite by metis
    then show ?thesis unfolding eq by blast
  qed
  have target: "isfinite (fst (clamp_target u ?g))" if "isfinite u" for u
    using that ok by (simp add: clamp_target_def Let_def motion_state_ok_def motion_params_ok_def)
  define u where "u = (if rq_reset_hold_request (lh_rq h) then rq_reset_hold_target_m (lh_rq h)
    else mv_command (lh_mv h))"
  define early where "early \<longleftrightarrow> \<not> feedback_is_fresh now ?g \<or> sf_motion_blocked (lh_sf ?g)"
  define bad where "bad \<longleftrightarrow> \<not> isfinite (mv_command (lh_mv h)) \<or>
    (dp_has_velocity_command (lh_dp h) \<and> \<not> isfinite (mv_velocity_command (lh_mv h))) \<or>
    (dp_has_acceleration_command (lh_dp h) \<and> \<not> isfinite (mv_acceleration_command (lh_mv h)))"
  define val where "val = fst (compute_motion_command now p h)"
  have "val = (if early then 0 else if bad then 0 else if rq_reset_velocity_request (lh_rq h) then
      dclamp (of_int_d (max 1 \<bar>pm_reset_velocity_rpm (lh_mp h)\<bar>)) 0 (max_rpm_d (lh_mp h)) / sign
    else if \<not> isfinite u then 0 else val)"
    unfolding val_def compute_motion_command_def Let_def recovery_flag_frame sign_def
      u_def [symmetric] early_def [symmetric] bad_def [symmetric]
    by (cases early; cases bad; cases "rq_reset_velocity_request (lh_rq h)"; cases "isfinite u")
      (simp_all only: if_True if_False fst_conv not_False_eq_True not_True_eq_False)
  moreover have "\<exists>t. val = 0 \<or> val = shaped_rpm
      (note_target now (fst (clamp_target u ?g)) (snd (clamp_target u ?g)))
      (dclamp p (Fin (1 / 1000)) (Fin (1 / 10))) t (fst (clamp_target u ?g)) (requested_velocity h)
      (fb_filtered_velocity_mps (lh_fb h)) / sign"
    if "\<not> rq_reset_velocity_request (lh_rq h)"
    using that unfolding val_def compute_motion_command_def Let_def split_def recovery_flag_frame sign_def
      u_def [symmetric] early_def [symmetric] bad_def [symmetric] requested_velocity_def [symmetric]
    by (cases early; cases bad; cases "isfinite u") (auto simp only: if_True if_False fst_conv
        not_False_eq_True not_True_eq_False requested_velocity_flag split: if_split)
  ultimately show ?thesis
    using shaped [OF refl target] unfolding val_def [symmetric] by metis
qed


lemma command_bounded:
  assumes "motion_state_ok h" "p > Fin 0"
  shows "\<exists>r s. fst (compute_motion_command now p h) = Fin r \<and> lift_sign_of h = Fin s \<and>
    \<bar>r * s\<bar> \<le> of_int (pm_max_rpm (lh_mp h))"
proof -
  obtain s where s: "lift_sign_of h = Fin s" "s \<noteq> 0"
    using assms(1) by (rule lift_sign_fin)
  let ?M = "pm_max_rpm (lh_mp h)"
  have M: "0 \<le> ?M" "0 \<le> pm_position_limit_recovery_max_rpm (lh_mp h)"
    using assms(1) by (simp_all add: motion_state_ok_def motion_params_ok_def)
  have recovery: "\<exists>j. limit_recovery (lh_mp h) x cv (Fin r) = Fin j \<and> \<bar>j\<bar> \<le> of_int ?M"
    if r: "\<bar>r\<bar> \<le> of_int ?M" for x cv r
    using r M by (auto simp: limit_recovery_def Let_def of_int_d_def)
  consider "fst (compute_motion_command now p h) = Fin 0"
    | j where "fst (compute_motion_command now p h) = Fin j / Fin s" "\<bar>j\<bar> \<le> of_int ?M"
  proof -
    have "\<exists>j. dclamp (of_int_d n) 0 (max_rpm_d (lh_mp h)) = Fin j \<and> \<bar>j\<bar> \<le> of_int ?M" for n
      using M by (auto simp: of_int_d_def max_rpm_d_def)
    then show ?thesis
      using compute_result [OF assms, of now] recovery that s(1) by (metis double_consts(1))
  qed
  then show ?thesis
    using s M by cases (auto simp: abs_mult)
qed

lemma deployed_ok: "motion_state_ok deployed_hw"
  by (simp add: motion_state_ok_def motion_params_ok_def deployed_defs lift_unit_config_default_def)

section \<open>Properties\<close>

text \<open>With finite parameters, feedback and last command, the command law always gives a finite
  wire speed whose joint speed is within the configured maximum, in every branch: tracking, holding,
  homing, recovery and all the stop conditions.\<close>

theorem motion_command_bounded:
  assumes "motion_state_ok h" "p > Fin 0"
  shows "\<exists>r s. fst (compute_motion_command now p h) = Fin r \<and> lift_sign_of h = Fin s \<and>
    \<bar>r * s\<bar> \<le> of_int (pm_max_rpm (lh_mp h))"
  using assms by (rule command_bounded)

theorem motion_command_bounded_witness:
  "\<exists>r. fst (compute_motion_command 9010000000 (Fin (1 / 100)) deployed_hw) = Fin r \<and> \<bar>r\<bar> \<le> 1080"
proof -
  have "lift_sign_of deployed_hw = Fin (- 1)"
    by (rule deployed_sign)
  moreover have "pm_max_rpm (lh_mp deployed_hw) = 1080"
    by (simp add: deployed_hw_def deployed_motion_def)
  ultimately show ?thesis
    using motion_command_bounded [OF deployed_ok, of "Fin (1 / 100)" 9010000000] by auto
qed

lemma recovery_inward:
  assumes "\<bar>r\<bar> \<le> of_int (pm_max_rpm mp)" "0 \<le> pm_position_limit_recovery_max_rpm mp"
    and "below_lower_limit mp x \<noteq> above_upper_limit mp x"
  shows "\<exists>j. limit_recovery mp x cv (Fin r) = Fin j \<and>
    \<bar>j\<bar> \<le> of_int (pm_position_limit_recovery_max_rpm mp) \<and>
    (if below_lower_limit mp x then 0 \<le> j else j \<le> 0) \<and>
    (j = 0 \<or> (if below_lower_limit mp x then cv > Fin (1 / 10 ^ 9) else cv < Fin (- (1 / 10 ^ 9))))"
  using assms by (auto simp: limit_recovery_def Let_def of_int_d_def)


definition above_hw :: lift_hw where
  "above_hw = deployed_hw\<lparr>lh_fb := live_feedback\<lparr>fb_hw_position := Fin (1 / 100)\<rparr>\<rparr>"


text \<open>When a software limit or a limit switch demands a stop, the commanded speed does not drop to zero
  at once: the rate limit of normal motion still applies to the stop, so the joint speed falls
  only by the configured rate per cycle until it reaches zero. The stop is immediate only when
  the rate limit is switched off.\<close>

theorem limit_stop_is_ramped:
  assumes "pm_velocity_slew_rpm_per_s mp = Fin v" "0 \<le> t"
  shows "slew_rpm mp (Fin t) True (Fin j) (Fin 0) =
    Fin (if v > 0 then max (j - v * t) (min (j + v * t) 0) else 0)"
  using assms by (simp add: slew_rpm_def)

theorem limit_stop_is_ramped_witness:
  "slew_rpm deployed_motion (Fin (1 / 100)) True (Fin 1080) (Fin 0) = Fin 1074"
  using limit_stop_is_ramped [of deployed_motion 600 "1 / 100" 1080]
  by (simp add: deployed_motion_def)

end
