(* ===== verification/LiftMaintenance.thy ===== *)
theory LiftMaintenance
  imports LiftSafety
begin

text \<open>
  The service thread of the lift hardware interface (\<open>start_service_thread\<close>): one single-threaded
  executor that serves the requests in order, runs the status timer, and inside \<open>handle_home\<close> and
  \<open>handle_set_drive_zero\<close> polls until the drive has stopped, homed or saved its zero. The control
  thread's \<open>read\<close> and \<open>write\<close> run between the polls, so the two callbacks are split at
  their waits; \<open>ld_phase\<close> is the place where the thread stands, with the deadline of the wait.
  \<open>handle_read_drive_objects\<close>, which only reads objects of the drive, is left out.
\<close>

section \<open>The service thread\<close>

type_synonym sdo_write = "u16 \<times> u8 \<times> bytes"

record maint_params =
  mt_homing_method :: int
  mt_homing_speed_high_units_s :: int
  mt_homing_speed_low_units_s :: int
  mt_homing_acceleration_units_s2 :: int
  mt_homing_offset_units :: int
  mt_homing_timeout_ms :: int
  mt_drive_zero_timeout_ms :: int

datatype service_request =
    Rq_brake bool | Rq_reset_velocity bool | Rq_reset_hold bool | Rq_reset_zero
  | Rq_home | Rq_set_drive_zero | Rq_estop | Rq_safety_reset

datatype service_phase =
    SP_idle
  | SP_home_stop int \<comment> \<open>first \<open>wait_for_drive_stop\<close> of \<open>handle_home\<close>\<close>
  | SP_home_run int \<comment> \<open>\<open>wait_for_homing_result\<close>\<close>
  | SP_home_disable int bool \<comment> \<open>second \<open>wait_for_drive_stop\<close>, with \<open>homed\<close>\<close>
  | SP_home_zero int \<comment> \<open>\<open>wait_for_host_zero\<close>\<close>
  | SP_zero_stop int \<comment> \<open>\<open>wait_for_drive_stop\<close> of \<open>handle_set_drive_zero\<close>\<close>

record lift_driver =
  ld_hw :: lift_hw
  ld_mt :: maint_params
  ld_phase :: service_phase
  ld_queue :: "service_request list"
  ld_files :: files
  ld_sdo_log :: "sdo_write list"
  ld_replies :: "response list"

text \<open>What a step of the thread sees: the clock, the answers of the drive to SDO writes and the file
  system operations of \<open>save_atomic\<close>.\<close>

record srv_env =
  se_now :: int
  se_sdo_ok :: "sdo_write \<Rightarrow> bool"
  se_save :: save_env

definition encode_u32_le :: "u32 \<Rightarrow> bytes" where
  "encode_u32_le v = store_u32_le v"

definition encode_i32_le :: "i32 \<Rightarrow> bytes" where
  "encode_i32_le v = encode_u32_le v"

definition homing_sdos :: "maint_params \<Rightarrow> sdo_write list" where
  "homing_sdos mt =
     [(0x6098, 0, [of_int (mt_homing_method mt)]),
      (0x6099, 1, encode_u32_le (of_int (mt_homing_speed_high_units_s mt))),
      (0x6099, 2, encode_u32_le (of_int (mt_homing_speed_low_units_s mt))),
      (0x609a, 0, encode_u32_le (of_int (mt_homing_acceleration_units_s2 mt))),
      (0x607c, 0, encode_i32_le (of_int (mt_homing_offset_units mt))),
      (0x6060, 0, [6])]"

text \<open>A chain of \<open>write_homing_sdo\<close> calls joined by \<open>||\<close>: it ends at the first refusal.\<close>

fun write_homing_sdos :: "(sdo_write \<Rightarrow> bool) \<Rightarrow> sdo_write list \<Rightarrow> sdo_write list \<times> bool" where
  "write_homing_sdos ok [] = ([], True)"
| "write_homing_sdos ok (x # xs) =
     (if ok x then let (log, b) = write_homing_sdos ok xs in (x # log, b) else ([x], False))"

definition drive_stopped :: "int \<Rightarrow> lift_hw \<Rightarrow> bool" where
  "drive_stopped now h \<longleftrightarrow> \<not> sf_power_enabled (lh_sf h) \<and> feedback_is_fresh now h \<and>
     \<bar>fb_velocity_mps (lh_fb h)\<bar> \<le> pm_stationary_velocity_threshold_mps (lh_mp h) \<and>
     mv_brake_stop_phase (lh_mv h) = BP_disabled"

text \<open>One poll of a wait: \<open>None\<close> sleeps and polls again.\<close>

definition wait_for_drive_stop :: "int \<Rightarrow> int \<Rightarrow> lift_hw \<Rightarrow> bool option" where
  "wait_for_drive_stop now deadline h =
     (if sf_active (lh_sf h) \<and> now < deadline
      then if drive_stopped now h then Some True else None
      else Some False)"

definition wait_for_homing_result :: "int \<Rightarrow> int \<Rightarrow> lift_hw \<Rightarrow> bool option" where
  "wait_for_homing_result now deadline h =
     (if sf_active (lh_sf h) \<and> now < deadline
      then if rq_homing_failed (lh_rq h) then Some False
           else if rq_homing_complete (lh_rq h) then Some True else None
      else Some False)"

definition upd_rq :: "(requests \<Rightarrow> requests) \<Rightarrow> lift_driver \<Rightarrow> lift_driver" where
  "upd_rq f d = d\<lparr>ld_hw := (ld_hw d)\<lparr>lh_rq := f (lh_rq (ld_hw d))\<rparr>\<rparr>"

definition reply :: "response \<Rightarrow> lift_driver \<Rightarrow> lift_driver" where
  "reply r d = d\<lparr>ld_phase := SP_idle, ld_replies := ld_replies d @ [r]\<rparr>"

definition complete_zero :: "srv_env \<Rightarrow> lift_driver \<Rightarrow> lift_driver" where
  "complete_zero env d =
     (let (fs, h, _) = complete_pending_zero (se_now env) (se_save env) (ld_files d) (ld_hw d)
      in d\<lparr>ld_files := fs, ld_hw := h\<rparr>)"

text \<open>The requests both maintenance callbacks make before they wait for the stop.\<close>

definition request_stop :: "requests \<Rightarrow> requests" where
  "request_stop rq = rq\<lparr>rq_brake_request_enable := False, rq_brake_stop_requested := True,
     rq_reset_velocity_request := False, rq_reset_hold_request := False\<rparr>"

subsection \<open>Homing\<close>

definition home_begin :: "srv_env \<Rightarrow> lift_driver \<Rightarrow> lift_driver" where
  "home_begin env d =
     (let h = ld_hw d; rq = lh_rq h in
      if sf_estop_latched (lh_sf h) \<or> sf_motion_blocked (lh_sf h) then
        reply (False, ''homing refused while the lift safety state is latched'') d
      else if \<not> dp_brake_control_enabled (lh_dp h) then
        reply (False, ''homing refused because brake_control_enabled is false'') d
      else if rq_homing_active rq \<or> rq_drive_zero_pending rq then
        reply (False, ''another drive maintenance operation is already active'') d
      else if \<not> feedback_is_fresh (se_now env) h \<or> \<not> stationary h then
        reply (False, ''homing requires fresh, stationary PDO feedback'') d
      else
        (upd_rq request_stop d)\<lparr>ld_phase :=
           SP_home_stop (se_now env + ms_to_ns (mt_drive_zero_timeout_ms (ld_mt d)))\<rparr>)"

definition home_arm :: "srv_env \<Rightarrow> lift_driver \<Rightarrow> lift_driver" where
  "home_arm env d =
     (let (log, ok) = write_homing_sdos (se_sdo_ok env) (homing_sdos (ld_mt d));
          d1 = d\<lparr>ld_sdo_log := ld_sdo_log d @ log\<rparr>
      in if \<not> ok then reply (False, ''LD3M HM parameters or 6060h=6 could not be written'') d1
         else
           (upd_rq (\<lambda>rq. rq\<lparr>rq_homing_complete := False, rq_homing_failed := False,
              rq_homing_active := True, rq_homing_start_requested := True,
              rq_service_disable_latched := False, rq_brake_stop_requested := False,
              rq_brake_request_enable := True\<rparr>) d1)\<lparr>ld_phase :=
             SP_home_run (se_now env + ms_to_ns (mt_homing_timeout_ms (ld_mt d)))\<rparr>)"

definition home_disable :: "srv_env \<Rightarrow> bool \<Rightarrow> lift_driver \<Rightarrow> lift_driver" where
  "home_disable env homed d =
     (upd_rq (\<lambda>rq. rq\<lparr>rq_brake_request_enable := False, rq_brake_stop_requested := True\<rparr>) d)
       \<lparr>ld_phase :=
          SP_home_disable (se_now env + ms_to_ns (mt_drive_zero_timeout_ms (ld_mt d))) homed\<rparr>"

definition home_restore :: "srv_env \<Rightarrow> bool \<Rightarrow> lift_driver \<Rightarrow> lift_driver" where
  "home_restore env homed d =
     (let (log, csv_restored) = write_homing_sdos (se_sdo_ok env) [(0x6060, 0, [9])];
          failed = (\<not> homed \<or> \<not> csv_restored);
          d1 = upd_rq (\<lambda>rq. rq\<lparr>rq_homing_active := False, rq_homing_start_requested := False,
            rq_homing_failed := failed\<rparr>) (d\<lparr>ld_sdo_log := ld_sdo_log d @ log\<rparr>)
      in if failed then
           reply (False, if rq_homing_failed (lh_rq (ld_hw d1))
             then ''LD3M homing failed or timed out; the drive remains disabled''
             else ''LD3M homing completed but CSV mode could not be restored'') d1
         else
           (upd_rq (\<lambda>rq. rq\<lparr>rq_zero_request_pending := True, rq_zero_disable_observed := False\<rparr>) d1)
             \<lparr>ld_phase := SP_home_zero (se_now env + ms_to_ns (mt_drive_zero_timeout_ms (ld_mt d)))\<rparr>)"

definition home_zero_poll :: "srv_env \<Rightarrow> int \<Rightarrow> lift_driver \<Rightarrow> lift_driver" where
  "home_zero_poll env deadline d =
     (let failed = (False, ''homing completed, but the host zero offset could not be saved'') in
      if sf_active (lh_sf (ld_hw d)) \<and> se_now env < deadline then
        let d1 = complete_zero env d in
        if rq_zero_request_pending (lh_rq (ld_hw d1)) then d1
        else if sf_error_reason_code (lh_sf (ld_hw d1)) = 0 then
          reply (True, ''LD3M HM homing completed, CSV mode restored and zero saved'') d1
        else reply failed d1
      else reply failed d)"

subsection \<open>The maintenance zero of the drive\<close>

definition drive_zero_begin :: "srv_env \<Rightarrow> lift_driver \<Rightarrow> lift_driver" where
  "drive_zero_begin env d =
     (let h = ld_hw d; rq = lh_rq h in
      if sf_estop_latched (lh_sf h) then
        reply (False, ''drive zero refused while emergency stop is latched'') d
      else if rq_drive_zero_pending rq \<or> rq_homing_active rq then
        reply (False, ''another drive maintenance operation is already active'')
          (upd_rq (\<lambda>rq. rq\<lparr>rq_drive_zero_pending := True\<rparr>) d)
      else if \<not> feedback_is_fresh (se_now env) h \<or> \<not> stationary h then
        reply (False, ''drive zero requires fresh, stationary PDO feedback'')
          (upd_rq (\<lambda>rq. rq\<lparr>rq_drive_zero_pending := False\<rparr>) d)
      else
        (upd_rq (\<lambda>rq. request_stop (rq\<lparr>rq_drive_zero_pending := True\<rparr>)) d)\<lparr>ld_phase :=
           SP_zero_stop (se_now env + ms_to_ns (mt_drive_zero_timeout_ms (ld_mt d)))\<rparr>)"

definition drive_zero_finish :: "srv_env \<Rightarrow> bool \<Rightarrow> lift_driver \<Rightarrow> lift_driver" where
  "drive_zero_finish env stopped d =
     (let clear = upd_rq (\<lambda>rq. rq\<lparr>rq_drive_zero_pending := False\<rparr>) in
      if \<not> stopped then
        reply (False, ''drive zero refused because the controlled drive stop timed out'') (clear d)
      else
        let (log, ok) = write_homing_sdos (se_sdo_ok env) [(0x2015, 0, [9, 0])];
            d1 = clear (d\<lparr>ld_sdo_log := ld_sdo_log d @ log\<rparr>)
        in if \<not> ok then reply (False, ''LD3M P00.15=9 (2015h) was refused by the drive'') d1
           else
             let h = ld_hw d1;
                 d2 = d1\<lparr>ld_hw := h\<lparr>lh_fb := (lh_fb h)\<lparr>fb_zero_generation :=
                   fb_zero_generation (lh_fb h) + 1\<rparr>\<rparr>\<rparr>
             in reply (True, ''LD3M P00.15=9 accepted while disabled; power-cycle/restart the drive and verify its absolute position before motion. This does not set the ROS coordinate zero.'')
                  (complete_zero env d2))"

subsection \<open>The executor\<close>

definition answer :: "lift_driver \<Rightarrow> lift_hw \<times> response \<Rightarrow> lift_driver" where
  "answer d r = reply (snd r) (d\<lparr>ld_hw := fst r\<rparr>)"

fun dispatch :: "srv_env \<Rightarrow> service_request \<Rightarrow> lift_driver \<Rightarrow> lift_driver" where
  "dispatch env (Rq_brake b) d = answer d (handle_brake_command b (ld_hw d))"
| "dispatch env (Rq_reset_velocity b) d = answer d (handle_reset_velocity (se_now env) b (ld_hw d))"
| "dispatch env (Rq_reset_hold b) d = answer d (handle_reset_hold (se_now env) b (ld_hw d))"
| "dispatch env Rq_reset_zero d = answer d (handle_reset_zero (se_now env) (ld_hw d))"
| "dispatch env Rq_home d = home_begin env d"
| "dispatch env Rq_set_drive_zero d = drive_zero_begin env d"
| "dispatch env Rq_estop d = answer d (handle_estop (ld_hw d))"
| "dispatch env Rq_safety_reset d = answer d (handle_safety_reset (se_now env) (ld_hw d))"

definition thread_step :: "srv_env \<Rightarrow> lift_driver \<Rightarrow> lift_driver" where
  "thread_step env d =
     (let now = se_now env; h = ld_hw d in
      case ld_phase d of
        SP_idle \<Rightarrow>
          (case ld_queue d of [] \<Rightarrow> d | r # rs \<Rightarrow> dispatch env r (d\<lparr>ld_queue := rs\<rparr>))
      | SP_home_stop deadline \<Rightarrow>
          (case wait_for_drive_stop now deadline h of
             None \<Rightarrow> d
           | Some False \<Rightarrow>
               reply (False, ''homing refused because the controlled drive stop timed out'') d
           | Some True \<Rightarrow> home_arm env d)
      | SP_home_run deadline \<Rightarrow>
          (case wait_for_homing_result now deadline h of
             None \<Rightarrow> d | Some homed \<Rightarrow> home_disable env homed d)
      | SP_home_disable deadline homed \<Rightarrow>
          (case wait_for_drive_stop now deadline h of
             None \<Rightarrow> d
           | Some False \<Rightarrow>
               reply (False, ''homing stopped, but the controlled disable timed out'')
                 (upd_rq (\<lambda>rq. rq\<lparr>rq_homing_active := False\<rparr>) d)
           | Some True \<Rightarrow> home_restore env homed d)
      | SP_home_zero deadline \<Rightarrow> home_zero_poll env deadline d
      | SP_zero_stop deadline \<Rightarrow>
          (case wait_for_drive_stop now deadline h of
             None \<Rightarrow> d | Some stopped \<Rightarrow> drive_zero_finish env stopped d))"

text \<open>The status timer runs on the same executor.\<close>

definition timer_step :: "srv_env \<Rightarrow> lift_driver \<Rightarrow> lift_driver" where
  "timer_step env d = (if ld_phase d = SP_idle then complete_zero env d else d)"

datatype driver_event =
    DE_read cycle_env | DE_write cycle_env | DE_command double double double double
  | DE_request service_request | DE_thread srv_env | DE_timer srv_env

fun driver_step :: "lift_driver \<Rightarrow> driver_event \<Rightarrow> lift_driver" where
  "driver_step d (DE_read env) = d\<lparr>ld_hw := hw_step (ld_hw d) (HW_read env)\<rparr>"
| "driver_step d (DE_write env) = d\<lparr>ld_hw := hw_step (ld_hw d) (HW_write env)\<rparr>"
| "driver_step d (DE_command p v a w) = d\<lparr>ld_hw := hw_step (ld_hw d) (HW_command p v a w)\<rparr>"
| "driver_step d (DE_request r) = d\<lparr>ld_queue := ld_queue d @ [r]\<rparr>"
| "driver_step d (DE_thread env) = thread_step env d"
| "driver_step d (DE_timer env) = timer_step env d"

section \<open>The cycles do not touch the maintenance flags\<close>

definition maint_flags :: "lift_hw \<Rightarrow> bool \<times> bool" where
  "maint_flags h = (rq_homing_active (lh_rq h), rq_drive_zero_pending (lh_rq h))"

lemma flags_simple [simp]:
  "maint_flags (h\<lparr>lh_mv := mv\<rparr>) = maint_flags h" "maint_flags (h\<lparr>lh_fb := fb\<rparr>) = maint_flags h"
  "maint_flags (h\<lparr>lh_sf := sf\<rparr>) = maint_flags h" "maint_flags (h\<lparr>lh_cia := c\<rparr>) = maint_flags h"
  "maint_flags (h\<lparr>lh_guard := g\<rparr>) = maint_flags h"
  "maint_flags (latch_motion_fault n h) = maint_flags h"
  "maint_flags (set_limit_recovery b h) = maint_flags h"
  "maint_flags (handle_transport_fault h) = maint_flags h"
  "maint_flags (update_state_interfaces now h) = maint_flags h"
  "maint_flags (update_transport_health b h) = maint_flags h"
  "maint_flags (reset_feedback_continuity h) = maint_flags h"
  by (simp_all add: maint_flags_def latch_motion_fault_def set_limit_recovery_def
      handle_transport_fault_def invalidate_feedback_continuity_def update_state_interfaces_def
      update_transport_health_def reset_feedback_continuity_def Let_def)

lemma flags_observe [simp]:
  "maint_flags (observe_feedback_continuity p t f h) = maint_flags h"
  by (simp add: observe_feedback_continuity_def Let_def case_prod_beta)

lemma flags_read_stages [simp]:
  "maint_flags (take_sample env s h) = maint_flags h"
  "maint_flags (publish_sample env b s h) = maint_flags h"
  "maint_flags (take_position p v h) = maint_flags h"
  "maint_flags (begin_epoch h) = maint_flags h"
  "maint_flags (check_position_limits p h) = maint_flags h"
  by (simp_all add: take_sample_def publish_sample_def take_position_def begin_epoch_def
      check_position_limits_def Let_def) (simp_all add: maint_flags_def)

lemma flags_read [simp]: "maint_flags (fst (hw_read env h)) = maint_flags h"
  unfolding hw_read_def Let_def by (simp split: option.split)

lemma flags_apply_zero: "maint_flags (apply_pending_zero_offset now h) = maint_flags h"
  by (simp add: maint_flags_def apply_zero_frame)

lemma flags_rq:
  "maint_flags (reset_velocity_watchdog now h) = maint_flags h"
  "maint_flags (estop_requests h) = maint_flags h" "maint_flags (power_edge h) = maint_flags h"
  by (simp_all add: maint_flags_def reset_velocity_watchdog_def estop_requests_def power_edge_def Let_def)

lemma flags_prepare [simp]: "maint_flags (write_prepare env h) = maint_flags h"
  by (simp add: write_prepare_def Let_def flags_rq flags_apply_zero)

lemma flags_decide_stages [simp]:
  "maint_flags (classify_faults f e i h) = maint_flags h"
  "maint_flags (brake_phase_step now s e h) = maint_flags h"
  by (simp_all add: classify_faults_def set_mode_mismatch_def set_error_reason_def
      brake_phase_step_def Let_def) (simp_all add: maint_flags_def)

lemma flags_decide: "write_decide env f h = (d, h2) \<Longrightarrow> maint_flags h2 = maint_flags h"
  by (auto simp: write_decide_def Let_def case_prod_beta)

lemma flags_word: "write_word now d h = (w, h3) \<Longrightarrow> maint_flags h3 = maint_flags h"
  by (auto simp: write_word_def homing_word_def finish_quick_stop_def Let_def maint_flags_def
      split: if_splits)

lemma flags_unlocked: "infer_unlocked now a h = (u, h4) \<Longrightarrow> maint_flags h4 = maint_flags h"
  by (auto simp: infer_unlocked_def Let_def maint_flags_def)

lemma flags_compute [simp]: "maint_flags (snd (compute_motion_command now p h)) = maint_flags h"
  by (rule compute_keeps) simp_all

lemma flags_command: "command_rpm env f a u s h = (w, h') \<Longrightarrow> maint_flags h' = maint_flags h"
  using command_rpm_state by fastforce

lemma flags_send: "write_send env s a w wire h = (h', t, ok) \<Longrightarrow> maint_flags h' = maint_flags h"
  by (auto simp: write_send_def Let_def maint_flags_def handle_transport_fault_def
      invalidate_feedback_continuity_def update_state_interfaces_def split: if_splits)

lemma flags_write [simp]: "maint_flags (fst (hw_write env h)) = maint_flags h"
proof (cases "sf_active (lh_sf h)")
  case True
  then obtain h' tx ok where w: "hw_write env h = (h', Some tx, ok)"
    using hw_write_sends by blast
  then obtain d h2 word h3 unlocked h4 h5 wire h6 where
    st: "write_stages env h d h2 word h3 unlocked h4 h5 wire h6" and
    send: "write_send env (rq_reset_velocity_stop_pending (lh_rq h)) (cd_allow_motion d) word wire h6 =
      (h', Some tx, ok)"
    by (rule hw_writeE)
  note parts = st [unfolded write_stages_def]
  note eqs = flags_send [OF send]
    flags_command [OF parts [THEN conjunct2, THEN conjunct2, THEN conjunct2, THEN conjunct2]]
    flags_unlocked [OF parts [THEN conjunct2, THEN conjunct2, THEN conjunct1]]
    flags_word [OF parts [THEN conjunct2, THEN conjunct1]] flags_decide [OF parts [THEN conjunct1]]
  have "h5 = sync_command (startup_hold (ev_now env) h4 \<or> sf_estop_latched (lh_sf h4))
      (h4\<lparr>lh_sf := (lh_sf h4)\<lparr>sf_first_write_sync_pending := False\<rparr>\<rparr>)"
    using parts by blast
  then have "maint_flags h5 = maint_flags h4"
    by (simp add: sync_command_def)
  with eqs w show ?thesis by simp
next
  case False
  then show ?thesis by (simp add: hw_write_def)
qed

lemma flags_cycle [simp]:
  "maint_flags (hw_step h (HW_read env)) = maint_flags h"
  "maint_flags (hw_step h (HW_write env)) = maint_flags h"
  "maint_flags (hw_step h (HW_command p v a w)) = maint_flags h"
  by (simp_all)

lemma flags_complete_pending_zero [simp]:
  "maint_flags (fst (snd (complete_pending_zero now env fs h))) = maint_flags h"
  by (auto simp: complete_pending_zero_def Let_def maint_flags_def split: prod.split sum.split)

lemma flags_services [simp]:
  "maint_flags (fst (handle_brake_command b h)) = maint_flags h"
  "maint_flags (fst (handle_reset_velocity now b h)) = maint_flags h"
  "maint_flags (fst (handle_reset_hold now b h)) = maint_flags h"
  "maint_flags (fst (handle_reset_zero now h)) = maint_flags h"
  "maint_flags (fst (handle_estop h)) = maint_flags h"
  "maint_flags (fst (handle_safety_reset now h)) = maint_flags h"
  by (simp_all add: handle_brake_command_def handle_reset_velocity_def handle_reset_hold_def
      handle_reset_zero_def handle_estop_def handle_safety_reset_def Let_def maint_flags_def)

section \<open>The flags follow the phase\<close>

fun phase_flags :: "service_phase \<Rightarrow> bool \<times> bool" where
  "phase_flags (SP_home_run t) = (True, False)"
| "phase_flags (SP_home_disable t b) = (True, False)"
| "phase_flags (SP_zero_stop t) = (False, True)"
| "phase_flags _ = (False, False)"

definition maint_inv :: "lift_driver \<Rightarrow> bool" where
  "maint_inv d \<longleftrightarrow> maint_flags (ld_hw d) = phase_flags (ld_phase d)"

lemma reply_inv [simp]: "maint_inv (reply r d) \<longleftrightarrow> maint_flags (ld_hw d) = (False, False)"
  by (simp add: maint_inv_def reply_def)

lemma upd_rq_simps [simp]:
  "ld_phase (upd_rq f d) = ld_phase d" "lh_rq (ld_hw (upd_rq f d)) = f (lh_rq (ld_hw d))"
  "lh_sf (ld_hw (upd_rq f d)) = lh_sf (ld_hw d)"
  by (simp_all add: upd_rq_def)

lemma complete_zero_simps [simp]:
  "ld_phase (complete_zero env d) = ld_phase d"
  "maint_flags (ld_hw (complete_zero env d)) = maint_flags (ld_hw d)"
  using flags_complete_pending_zero [of "se_now env" "se_save env" "ld_files d" "ld_hw d"]
  by (simp_all add: complete_zero_def Let_def case_prod_beta)

lemma flags_of_rq: "maint_flags (ld_hw d) = (rq_homing_active (lh_rq (ld_hw d)),
    rq_drive_zero_pending (lh_rq (ld_hw d)))"
  by (simp add: maint_flags_def)

lemma dispatch_inv:
  assumes "maint_flags (ld_hw d) = (False, False)"
  shows "maint_inv (dispatch env r d)"
proof (cases r)
  case Rq_home
  with assms show ?thesis
    by (simp add: home_begin_def Let_def) (simp add: maint_inv_def flags_of_rq request_stop_def)
next
  case Rq_set_drive_zero
  with assms show ?thesis
    by (simp add: drive_zero_begin_def Let_def flags_of_rq)
      (simp add: maint_inv_def flags_of_rq request_stop_def)
qed (use assms in \<open>simp_all add: answer_def\<close>)

lemma home_arm_inv:
  assumes "maint_flags (ld_hw d) = (False, False)"
  shows "maint_inv (home_arm env d)"
  using assms by (simp add: home_arm_def Let_def case_prod_beta) (simp add: maint_inv_def flags_of_rq)

lemma home_disable_inv:
  assumes "maint_flags (ld_hw d) = (True, False)"
  shows "maint_inv (home_disable env b d)"
  using assms by (simp add: home_disable_def maint_inv_def flags_of_rq)

lemma home_restore_inv:
  assumes "maint_flags (ld_hw d) = (True, False)"
  shows "maint_inv (home_restore env b d)"
  using assms unfolding home_restore_def Let_def case_prod_beta
  by (simp add: flags_of_rq) (simp add: maint_inv_def flags_of_rq)

lemma home_zero_inv:
  assumes "maint_flags (ld_hw d) = (False, False)" "ld_phase d = SP_home_zero t"
  shows "maint_inv (home_zero_poll env t d)"
  using assms by (simp add: home_zero_poll_def Let_def) (simp add: maint_inv_def)

lemma drive_zero_finish_inv:
  assumes "maint_flags (ld_hw d) = (False, True)"
  shows "maint_inv (drive_zero_finish env b d)"
  using assms by (simp add: drive_zero_finish_def Let_def case_prod_beta) (simp add: flags_of_rq)

lemma thread_step_inv: "maint_inv d \<Longrightarrow> maint_inv (thread_step env d)"
  unfolding thread_step_def Let_def
  by (auto simp: maint_inv_def [of d] flags_of_rq dispatch_inv home_arm_inv home_disable_inv
      home_restore_inv home_zero_inv drive_zero_finish_inv
      split: service_phase.splits list.splits option.splits bool.splits)

lemma driver_step_inv: "maint_inv d \<Longrightarrow> maint_inv (driver_step d e)"
  by (cases e) (auto simp: thread_step_inv timer_step_def, auto simp: maint_inv_def)

interpretation maint: guarded_machine driver_step maint_inv
  by unfold_locales (rule driver_step_inv)

section \<open>Properties\<close>

text \<open>C17: In every state that the control thread and the service thread can reach together, from a
  driver whose service thread is idle with both flags clear, homing is marked active exactly while the
  thread runs or disables a homing and the maintenance zero is marked pending exactly while
  the thread stops the drive for it. So both flags are clear whenever the thread is idle: every exit of
  the two callbacks, timeouts and refusals included, releases them, and a new request is never
  turned away because of an operation that has already ended.\<close>

theorem maintenance_exclusive:
  assumes "ld_phase d = SP_idle" "\<not> rq_homing_active (lh_rq (ld_hw d))"
    and "\<not> rq_drive_zero_pending (lh_rq (ld_hw d))"
  shows "let g = run_events driver_step d es in
    (rq_homing_active (lh_rq (ld_hw g)) \<longleftrightarrow>
       (\<exists>t. ld_phase g = SP_home_run t) \<or> (\<exists>t b. ld_phase g = SP_home_disable t b)) \<and>
    (rq_drive_zero_pending (lh_rq (ld_hw g)) \<longleftrightarrow> (\<exists>t. ld_phase g = SP_zero_stop t))"
proof -
  have "maint_inv d"
    using assms by (simp add: maint_inv_def flags_of_rq)
  then have "maint_inv (run_events driver_step d es)"
    by (rule maint.run_inv)
  then show ?thesis
    by (cases "ld_phase (run_events driver_step d es)") (simp_all add: maint_inv_def flags_of_rq Let_def)
qed

definition deployed_maint :: maint_params where
  "deployed_maint = \<lparr>mt_homing_method = 19, mt_homing_speed_high_units_s = 10000,
     mt_homing_speed_low_units_s = 5000, mt_homing_acceleration_units_s2 = 500000,
     mt_homing_offset_units = 0, mt_homing_timeout_ms = 60000, mt_drive_zero_timeout_ms = 5000\<rparr>"

definition deployed_driver :: lift_driver where
  "deployed_driver = \<lparr>ld_hw = deployed_hw, ld_mt = deployed_maint, ld_phase = SP_idle, ld_queue = [],
     ld_files = Map.empty, ld_sdo_log = [], ld_replies = []\<rparr>"

theorem maintenance_exclusive_witness:
  "let g = run_events driver_step deployed_driver [DE_request Rq_home, DE_read deployed_cycle] in
   ld_phase g = SP_idle \<and> \<not> rq_homing_active (lh_rq (ld_hw g)) \<and>
   \<not> rq_drive_zero_pending (lh_rq (ld_hw g))"
proof -
  have "ld_phase deployed_driver = SP_idle" "\<not> rq_homing_active (lh_rq (ld_hw deployed_driver))"
    "\<not> rq_drive_zero_pending (lh_rq (ld_hw deployed_driver))"
    by (simp_all add: deployed_driver_def deployed_hw_def quiet_requests_def)
  from maintenance_exclusive [OF this, of "[DE_request Rq_home, DE_read deployed_cycle]"] show ?thesis
    by (simp add: Let_def deployed_driver_def)
qed

text \<open>Steps of a busy thread and of the cycles leave the emergency stop alone.\<close>

lemma estop_complete_zero:
  "sf_estop_latched (lh_sf (ld_hw (complete_zero env d))) = sf_estop_latched (lh_sf (ld_hw d))"
  by (auto simp: complete_zero_def complete_pending_zero_def Let_def split: prod.split sum.split)

lemma busy_step_estop:
  assumes "ld_phase d \<noteq> SP_idle"
  shows "sf_estop_latched (lh_sf (ld_hw (driver_step d e))) = sf_estop_latched (lh_sf (ld_hw d))"
proof (cases e)
  case (DE_thread env)
  with assms show ?thesis
    by (auto simp: thread_step_def Let_def reply_def home_arm_def home_disable_def home_restore_def
        home_zero_poll_def drive_zero_finish_def estop_complete_zero case_prod_beta
        split: service_phase.splits option.splits bool.splits)
qed (use assms in \<open>simp_all add: read_latches write_latches timer_step_def\<close>)

interpretation busy: latched_machine driver_step
  "\<lambda>d. ld_phase d \<noteq> SP_idle \<and> \<not> sf_estop_latched (lh_sf (ld_hw d))"
  "\<lambda>d e. ld_phase (driver_step d e) = SP_idle"
  by unfold_locales (auto simp: busy_step_estop)

text \<open>The emergency stop service shares the single-threaded executor with the homing and the
  maintenance zero. While one of these callbacks runs, nothing latches the stop, whatever is in the request
  queue: if a run that starts inside a callback ends with the emergency stop latched, the callback
  had returned before.\<close>

theorem estop_waits_for_callback:
  assumes "ld_phase d \<noteq> SP_idle" "\<not> sf_estop_latched (lh_sf (ld_hw d))"
    and "sf_estop_latched (lh_sf (ld_hw (run_events driver_step d es)))"
  shows "\<exists>pre e post. es = pre @ e # post \<and>
    ld_phase (run_events driver_step d (pre @ [e])) = SP_idle \<and>
    \<not> sf_estop_latched (lh_sf (ld_hw (run_events driver_step d (pre @ [e]))))"
proof -
  obtain pre e post where "es = pre @ e # post" "ld_phase (run_events driver_step d pre) \<noteq> SP_idle"
    "\<not> sf_estop_latched (lh_sf (ld_hw (run_events driver_step d pre)))"
    "ld_phase (driver_step (run_events driver_step d pre) e) = SP_idle"
    using busy.released_by [of d es] assms by blast
  then show ?thesis
    by (intro exI [of _ pre] exI [of _ e] exI [of _ post]) (simp add: run_events_append busy_step_estop)
qed

text \<open>A driver in the middle of a homing, and a clock.\<close>

definition homing_driver :: lift_driver where
  "homing_driver = deployed_driver\<lparr>ld_phase := SP_home_run 70000000000,
     ld_hw := deployed_hw\<lparr>lh_rq := quiet_requests\<lparr>rq_homing_active := True,
       rq_brake_request_enable := True\<rparr>\<rparr>\<rparr>"

definition clock_at :: "int \<Rightarrow> srv_env" where
  "clock_at t = \<lparr>se_now = t, se_sdo_ok = (\<lambda>_. True), se_save = \<lparr>sv_has_parent = True,
     sv_mkdir_error = None, sv_open_ok = True, sv_write_error = None, sv_rename_ok = True, sv_remove_ok = True,
     sv_remove_message = []\<rparr>\<rparr>"

definition late_estop :: "driver_event list" where
  "late_estop = [DE_request Rq_estop, DE_thread (clock_at 60000000000),
     DE_thread (clock_at 71000000000), DE_thread (clock_at 77000000000),
     DE_thread (clock_at 77000000001)]"

theorem estop_waits_for_callback_witness:
  "sf_estop_latched (lh_sf (ld_hw (run_events driver_step homing_driver late_estop))) \<and>
   (\<exists>pre e post. late_estop = pre @ e # post \<and>
      ld_phase (run_events driver_step homing_driver (pre @ [e])) = SP_idle)"
proof -
  have b: "ld_phase homing_driver \<noteq> SP_idle" "\<not> sf_estop_latched (lh_sf (ld_hw homing_driver))"
    by (simp_all add: homing_driver_def deployed_hw_def clear_safety_def)
  have e: "sf_estop_latched (lh_sf (ld_hw (run_events driver_step homing_driver late_estop)))"
    by (simp add: late_estop_def homing_driver_def deployed_driver_def clock_at_def thread_step_def
        wait_for_homing_result_def wait_for_drive_stop_def home_disable_def upd_rq_def reply_def
        answer_def handle_estop_def deployed_maint_def ms_to_ns_def deployed_hw_def clear_safety_def
        quiet_requests_def)
  show ?thesis
    using e estop_waits_for_callback [OF b e] by blast
qed

section \<open>The waits end\<close>

fun phase_deadline :: "service_phase \<Rightarrow> int" where
  "phase_deadline SP_idle = 0"
| "phase_deadline (SP_home_stop t) = t"
| "phase_deadline (SP_home_run t) = t"
| "phase_deadline (SP_home_disable t b) = t"
| "phase_deadline (SP_home_zero t) = t"
| "phase_deadline (SP_zero_stop t) = t"

fun is_thread :: "driver_event \<Rightarrow> bool" where
  "is_thread (DE_thread env) = True"
| "is_thread _ = False"

lemma phase_other:
  "\<not> is_thread e \<Longrightarrow> ld_phase (driver_step d e) = ld_phase d"
  "\<not> is_thread e \<Longrightarrow> ld_mt (driver_step d e) = ld_mt d"
  by (cases e; simp add: timer_step_def complete_zero_def Let_def case_prod_beta)+

lemma phase_others:
  "list_all (\<lambda>e. \<not> is_thread e) es \<Longrightarrow>
     ld_phase (run_events driver_step d es) = ld_phase d \<and> ld_mt (run_events driver_step d es) = ld_mt d"
  by (induction es arbitrary: d) (simp_all add: phase_other)

lemma poll_past_deadline:
  assumes "ld_phase d \<noteq> SP_idle" "phase_deadline (ld_phase d) \<le> se_now env"
  shows "case ld_phase d of
      SP_home_run t \<Rightarrow> \<exists>b. ld_phase (thread_step env d) =
        SP_home_disable (se_now env + ms_to_ns (mt_drive_zero_timeout_ms (ld_mt d))) b
    | _ \<Rightarrow> ld_phase (thread_step env d) = SP_idle"
  using assms
  by (cases "ld_phase d") (auto simp: thread_step_def wait_for_drive_stop_def
      wait_for_homing_result_def home_disable_def home_zero_poll_def reply_def
      drive_zero_finish_def Let_def intro: exI [of _ False])

text \<open>C18: The service thread always comes free again: whatever callback it is in and whatever the
  cycles, commands, requests and timers do meanwhile, a poll after the deadline of the current wait
  either returns from the callback or enters its last wait, and a poll one further stop timeout
  later returns.\<close>

theorem service_thread_comes_free:
  assumes "ld_phase d \<noteq> SP_idle"
    and "list_all (\<lambda>e. \<not> is_thread e) es" "list_all (\<lambda>e. \<not> is_thread e) fs"
    and "phase_deadline (ld_phase d) \<le> se_now env1"
    and "se_now env1 + ms_to_ns (mt_drive_zero_timeout_ms (ld_mt d)) \<le> se_now env2"
  shows "ld_phase (run_events driver_step d (es @ [DE_thread env1])) = SP_idle \<or>
    ld_phase (run_events driver_step d (es @ DE_thread env1 # fs @ [DE_thread env2])) = SP_idle"
proof -
  let ?g = "run_events driver_step d es"
  have g: "ld_phase ?g = ld_phase d" "ld_mt ?g = ld_mt d"
    using phase_others [OF assms(2)] by simp_all
  then have p: "ld_phase ?g \<noteq> SP_idle" "phase_deadline (ld_phase ?g) \<le> se_now env1"
    using assms by simp_all
  show ?thesis
  proof (cases "ld_phase (thread_step env1 ?g) = SP_idle")
    case True
    then show ?thesis by (simp add: run_events_append)
  next
    case False
    with poll_past_deadline [OF p] obtain b where b: "ld_phase (thread_step env1 ?g) =
        SP_home_disable (se_now env1 + ms_to_ns (mt_drive_zero_timeout_ms (ld_mt ?g))) b"
      by (auto split: service_phase.splits)
    let ?k = "run_events driver_step (thread_step env1 ?g) fs"
    have k: "ld_phase ?k = ld_phase (thread_step env1 ?g)"
      using phase_others [OF assms(3)] by simp
    have "ld_phase (thread_step env2 ?k) = SP_idle"
      using poll_past_deadline [of ?k env2] assms(5) by (simp add: k b g)
    then show ?thesis by (simp add: run_events_append)
  qed
qed

theorem service_thread_comes_free_witness:
  "ld_phase (run_events driver_step homing_driver
     ([DE_write deployed_cycle] @ [DE_thread (clock_at 70000000000)])) = SP_idle \<or>
   ld_phase (run_events driver_step homing_driver ([DE_write deployed_cycle] @
     DE_thread (clock_at 70000000000) # [DE_read deployed_cycle] @ [DE_thread (clock_at 75000000000)])) =
     SP_idle"
  by (rule service_thread_comes_free)
    (simp_all add: homing_driver_def deployed_driver_def deployed_maint_def clock_at_def ms_to_ns_def)

end
