(* ===== verification/LiftLifecycle.thy ===== *)
theory LiftLifecycle
  imports LiftSafety ZeroOffset
begin

text \<open>
  The lifecycle of the lift driver (\<open>lift/lift_hardware.cpp\<close>): loading the zero offset, what
  \<open>on_configure\<close>, \<open>on_activate\<close> and \<open>on_deactivate\<close> reset and send, and the bootstrap loop that waits for
  the first trustworthy feedback while it keeps the drive disabled. The loop runs over a list with
  one entry per iteration, holding what the backend and the clock gave in it; a list that ends before
  the deadline is an activation that has not returned yet.
\<close>

record lifecycle_params =
  ly_max_feedback_jump_m :: double
  ly_max_fault_reset_attempts :: int
  ly_fault_reset_backoff_ms :: int
  ly_startup_motion_guard_ms :: int

text \<open>The members that only the lifecycle reads, around the driver.\<close>

record lift_node =
  nd_hw :: lift_hw
  nd_configured :: bool
  nd_initialized :: bool

section \<open>Configure\<close>

definition load_zero_offset :: "zero_offset_load_result \<Rightarrow> lift_hw \<Rightarrow> bool \<times> lift_hw" where
  "load_zero_offset result h =
     (let set = (\<lambda>units loaded. h\<lparr>lh_fb := (lh_fb h)\<lparr>fb_zero_offset_units := units,
            fb_zero_offset_units_atomic := units, fb_zero_offset_loaded := loaded\<rparr>\<rparr>)
      in if \<not> dp_use_persistent_zero_offset (lh_dp h) then (True, set 0 False)
      else case result of
        ZL_invalid e \<Rightarrow> (False, h)
      | ZL_loaded r \<Rightarrow> (True, set (zr_zero_offset_units r) True)
      | ZL_missing \<Rightarrow> (True, set 0 False))"

text \<open>The part of the reset that \<open>on_configure\<close> and \<open>on_activate\<close> share.\<close>

definition reset_requests :: "requests \<Rightarrow> requests" where
  "reset_requests rq = rq\<lparr>rq_service_disable_latched := False, rq_brake_stop_requested := False,
     rq_brake_stop_timeout := False, rq_reset_velocity_request := False,
     rq_reset_velocity_stop_pending := False, rq_reset_hold_request := False, rq_homing_active := False,
     rq_homing_start_requested := False, rq_homing_complete := False, rq_homing_failed := False,
     rq_drive_zero_pending := False, rq_zero_disable_observed := False,
     rq_previous_power_command := False\<rparr>"

definition reset_latches :: "safety \<Rightarrow> safety" where
  "reset_latches s = s\<lparr>sf_active := False, sf_latched_motion_reason_code := 0,
     sf_transport_fault_active := False, sf_transport_recovery_healthy_cycles := 0,
     sf_error_reason_code := 0, sf_position_limit_violation := False, sf_limit_recovery_active := False,
     sf_mode_mismatch_cycles := 0, sf_feedback_continuity_reset_pending := False,
     sf_power_command_requested := False, sf_power_enabled := False\<rparr>"

definition on_configure ::
  "lifecycle_params \<Rightarrow> bool \<Rightarrow> zero_offset_load_result \<Rightarrow> lift_node \<Rightarrow> bool \<times> lift_node" where
  "on_configure ly backend_ok result n =
     (if \<not> backend_ok then (False, n)
      else case load_zero_offset result (nd_hw n) of
        (False, h) \<Rightarrow> (False, n\<lparr>nd_hw := h\<rparr>)
      | (True, h) \<Rightarrow>
          let h = h\<lparr>lh_rq := (reset_requests (lh_rq h))\<lparr>rq_brake_request_enable := False,
                     rq_zero_request_pending := False\<rparr>,
                   lh_sf := (reset_latches (lh_sf h))\<lparr>sf_motion_blocked := False,
                     sf_first_write_sync_pending := False\<rparr>,
                   lh_fb := (lh_fb h)\<lparr>fb_zero_offset_apply_pending := False\<rparr>,
                   lh_mv := (lh_mv h)\<lparr>mv_brake_stop_phase := BP_disabled, mv_brake_stop_start_time := 0,
                     mv_last_target_wire_rpm := 0, mv_last_target_position_m := NaN,
                     mv_command := fb_hw_position (lh_fb h), mv_velocity_command := 0,
                     mv_acceleration_command := 0, mv_power_command := 0\<rparr>,
                   lh_guard := guard_configure (ly_max_feedback_jump_m ly)
                     (ms_to_ns (dp_feedback_timeout_ms (lh_dp h))) (lh_guard h)\<rparr>
          in (True, n\<lparr>nd_hw := reset_feedback_continuity h, nd_configured := True,
                     nd_initialized := False\<rparr>))"

section \<open>Bootstrap\<close>

record boot_env =
  be_loop_now :: int
  be_sample :: "lift_tx_pdo option" \<comment> \<open>\<open>None\<close>: \<open>read_pdo\<close> fails\<close>
  be_reset_now :: int
  be_write_ok :: bool
  be_link_state :: ethercat_link_state
  be_working_counter :: u32
  be_pdo_fresh :: bool
  be_store_now :: int

record boot_state =
  bo_stable_samples :: u32
  bo_candidate_position :: double
  bo_fault_reset_attempts :: u32
  bo_next_fault_reset_time :: int
  bo_word :: u16

definition boot_init :: boot_state where
  "boot_init = \<lparr>bo_stable_samples = 0, bo_candidate_position = 0, bo_fault_reset_attempts = 0,
     bo_next_fault_reset_time = 0, bo_word = 0x0006\<rparr>"

definition kRequiredStableSamples :: u32 where
  "kRequiredStableSamples = 5"

definition safe_output :: "u16 \<Rightarrow> lift_rx_pdo" where
  "safe_output w = lift_rx_pdo_default\<lparr>rx_control_word := w, rx_target_velocity_units_per_s := 0\<rparr>"

definition reset_allowed ::
  "lifecycle_params \<Rightarrow> lift_hw \<Rightarrow> lift_tx_pdo \<Rightarrow> int \<Rightarrow> boot_state \<Rightarrow> bool" where
  "reset_allowed ly h sample now b \<longleftrightarrow> dp_auto_fault_reset (lh_dp h) \<and> tx_error_code sample \<noteq> 0 \<and>
     tx_actual_velocity_units_per_s sample = 0 \<and>
     bo_fault_reset_attempts b < word_of_int (ly_max_fault_reset_attempts ly) \<and>
     now \<ge> bo_next_fault_reset_time b"

definition choose_word ::
  "lifecycle_params \<Rightarrow> lift_hw \<Rightarrow> lift_tx_pdo \<Rightarrow> int \<Rightarrow> boot_state \<Rightarrow> boot_state" where
  "choose_word ly h sample now b =
     (if reset_allowed ly h sample now b
      then b\<lparr>bo_word := 0x0080, bo_fault_reset_attempts := bo_fault_reset_attempts b + 1,
             bo_next_fault_reset_time := now + ms_to_ns (ly_fault_reset_backoff_ms ly)\<rparr>
      else b\<lparr>bo_word := 0x0006\<rparr>)"

definition boot_position :: "lift_hw \<Rightarrow> lift_tx_pdo \<Rightarrow> double" where
  "boot_position h sample = position_units_to_m (tx_actual_position_units sample)
     (fb_zero_offset_units (lh_fb h)) (dp_unit_config (lh_dp h))"

definition boot_velocity :: "lift_hw \<Rightarrow> lift_tx_pdo \<Rightarrow> double" where
  "boot_velocity h sample =
     velocity_units_to_mps (tx_actual_velocity_units_per_s sample) (dp_unit_config (lh_dp h))"

definition valid_stationary_sample :: "lift_hw \<Rightarrow> lift_tx_pdo \<Rightarrow> bool" where
  "valid_stationary_sample h sample \<longleftrightarrow>
     isfinite (boot_position h sample) \<and> isfinite (boot_velocity h sample) \<and>
     tx_mode_display sample = 9 \<and> parse_cia402_status (tx_status_word sample) \<noteq> S_unknown \<and>
     \<bar>boot_velocity h sample\<bar> \<le> pm_stationary_velocity_threshold_mps (lh_mp h)"

definition count_stable ::
  "lifecycle_params \<Rightarrow> lift_hw \<Rightarrow> lift_tx_pdo \<Rightarrow> boot_state \<Rightarrow> boot_state" where
  "count_stable ly h sample b =
     (let p = boot_position h sample
      in if \<not> valid_stationary_sample h sample then b\<lparr>bo_stable_samples := 0\<rparr>
      else if bo_stable_samples b = 0 \<or> \<bar>p - bo_candidate_position b\<bar> > ly_max_feedback_jump_m ly
      then b\<lparr>bo_candidate_position := p, bo_stable_samples := 1\<rparr>
      else b\<lparr>bo_candidate_position := p, bo_stable_samples := bo_stable_samples b + 1\<rparr>)"

definition boot_fresh :: "lift_hw \<Rightarrow> boot_env \<Rightarrow> bool" where
  "boot_fresh h e \<longleftrightarrow> be_pdo_fresh e \<and> be_link_state e = L_operational \<and>
     be_working_counter e \<ge> dp_expected_working_counter (lh_dp h)"

definition store_first_feedback :: "boot_env \<Rightarrow> lift_tx_pdo \<Rightarrow> lift_hw \<Rightarrow> lift_hw" where
  "store_first_feedback e sample h =
     (let p = boot_position h sample; v = boot_velocity h sample
      in update_state_interfaces (be_store_now e)
        (h\<lparr>lh_fb := (lh_fb h)\<lparr>fb_rx_pdo := sample, fb_position_units := tx_actual_position_units sample,
             fb_error_code := tx_error_code sample, fb_mode_display := tx_mode_display sample,
             fb_digital_inputs := tx_digital_inputs sample, fb_hw_position := p, fb_hw_velocity := v,
             fb_position_m := p, fb_velocity_mps := v, fb_filtered_velocity_mps := v,
             fb_last_feedback_ns := be_store_now e, fb_fresh := True\<rparr>,
           lh_mv := (lh_mv h)\<lparr>mv_command := p, mv_velocity_command := 0, mv_acceleration_command := 0,
             mv_power_command := 0\<rparr>\<rparr>))"

definition note_link :: "boot_env \<Rightarrow> lift_hw \<Rightarrow> lift_hw" where
  "note_link e h = h\<lparr>lh_fb := (lh_fb h)\<lparr>fb_link_state := be_link_state e,
     fb_working_counter := be_working_counter e\<rparr>\<rparr>"

text \<open>One iteration: the new driver and loop state, what was written, and whether feedback was accepted.
  An accepted iteration returns before the second write.\<close>

definition boot_iteration ::
  "lifecycle_params \<Rightarrow> boot_env \<Rightarrow> lift_hw \<times> boot_state \<Rightarrow> (lift_hw \<times> boot_state) \<times> lift_rx_pdo list \<times> bool"
  where
  "boot_iteration ly e = (\<lambda>(h, b).
     case be_sample e of
       None \<Rightarrow> ((h, b), [safe_output (bo_word b)], False)
     | Some sample \<Rightarrow>
         let b = choose_word ly h sample (be_reset_now e) b; out = safe_output (bo_word b)
         in if \<not> be_write_ok e then ((h, b), [out, out], False)
         else
           let h = note_link e h
           in if \<not> boot_fresh h e then ((h, b), [out, out], False)
           else
             let b = count_stable ly h sample b
             in if bo_stable_samples b \<ge> kRequiredStableSamples
                then ((store_first_feedback e sample h, b), [out], True)
                else ((h, b), [out, out], False))"

datatype boot_result = B_running | B_timeout | B_ready

fun boot_loop ::
  "lifecycle_params \<Rightarrow> int \<Rightarrow> boot_env list \<Rightarrow> lift_hw \<times> boot_state
     \<Rightarrow> (lift_hw \<times> boot_state) \<times> lift_rx_pdo list \<times> boot_result" where
  "boot_loop ly deadline [] s = (s, [], B_running)"
| "boot_loop ly deadline (e # es) s =
     (if \<not> be_loop_now e < deadline then (s, [], B_timeout)
      else let (s, outs, ready) = boot_iteration ly e s
           in if ready then (s, outs, B_ready)
              else let (s, more, r) = boot_loop ly deadline es s in (s, outs @ more, r))"

definition bootstrap_first_feedback ::
  "lifecycle_params \<Rightarrow> int \<Rightarrow> boot_env list \<Rightarrow> lift_hw \<Rightarrow> lift_hw \<times> lift_rx_pdo list \<times> boot_result" where
  "bootstrap_first_feedback ly now es h =
     (let ((h, _), outs, r) = boot_loop ly (now + 3000000000) es (h, boot_init) in (h, outs, r))"

section \<open>Activate and deactivate\<close>

text \<open>The clock readings and the link as \<open>on_activate\<close> finds them: when the enable time is taken, at the
  start of the bootstrap, and at its end.\<close>

record activate_env =
  ae_start_ok :: bool
  ae_enable_now :: int
  ae_link_state :: ethercat_link_state
  ae_working_counter :: u32
  ae_boot_now :: int
  ae_end_now :: int

definition activate_reset :: "activate_env \<Rightarrow> lift_hw \<Rightarrow> lift_hw" where
  "activate_reset a h = reset_feedback_continuity
     (h\<lparr>lh_rq := (reset_requests (lh_rq h))\<lparr>rq_brake_unlocked := False\<rparr>,
        lh_sf := reset_latches (lh_sf h),
        lh_fb := (lh_fb h)\<lparr>fb_rx_pdo := lift_tx_pdo_default, fb_link_state := ae_link_state a,
          fb_working_counter := ae_working_counter a, fb_last_feedback_ns := 0, fb_fresh := False,
          fb_position_units := 0, fb_zero_offset_apply_pending := False\<rparr>,
        lh_mv := (lh_mv h)\<lparr>mv_tx_pdo := lift_rx_pdo_default, mv_brake_enable_time := ae_enable_now a,
          mv_previous_operation_enabled := False, mv_power_command := 0,
          mv_brake_stop_phase := BP_disabled, mv_brake_stop_start_time := 0,
          mv_last_target_wire_rpm := 0, mv_last_target_position_m := NaN\<rparr>,
        lh_cia := cia402_reset (lh_cia h)\<rparr>)"

definition activate_finish :: "lifecycle_params \<Rightarrow> int \<Rightarrow> lift_hw \<Rightarrow> lift_hw" where
  "activate_finish ly now h =
     (let h = reset_feedback_continuity h
      in h\<lparr>lh_sf := (lh_sf h)\<lparr>sf_startup_guard_until :=
             (if dp_startup_motion_guard_enabled (lh_dp h)
              then now + ms_to_ns (ly_startup_motion_guard_ms ly) else now),
           sf_first_write_sync_pending := True, sf_active := True\<rparr>\<rparr>)"

text \<open>The result \<open>None\<close> is an activation whose bootstrap has not ended.\<close>

definition on_activate ::
  "lifecycle_params \<Rightarrow> activate_env \<Rightarrow> boot_env list \<Rightarrow> lift_node \<Rightarrow> lift_node \<times> lift_rx_pdo list \<times> bool option"
  where
  "on_activate ly a es n =
     (if \<not> nd_configured n \<or> \<not> ae_start_ok a then (n, [], Some False)
      else
        let (h, outs, r) = bootstrap_first_feedback ly (ae_boot_now a) es (activate_reset a (nd_hw n))
        in case r of
          B_running \<Rightarrow> (n\<lparr>nd_hw := h\<rparr>, outs, None)
        | B_timeout \<Rightarrow> (n\<lparr>nd_hw := h\<rparr>, outs, Some False)
        | B_ready \<Rightarrow> (n\<lparr>nd_hw := activate_finish ly (ae_end_now a) h, nd_initialized := True\<rparr>,
            outs, Some True))"

definition on_deactivate :: "lift_node \<Rightarrow> lift_node \<times> lift_rx_pdo list" where
  "on_deactivate n =
     (let h = reset_feedback_continuity
            ((nd_hw n)\<lparr>lh_sf := (lh_sf (nd_hw n))\<lparr>sf_active := False\<rparr>\<rparr>);
          quick = (mv_tx_pdo (lh_mv h))\<lparr>rx_control_word := 0x000B, rx_target_velocity_units_per_s := 0\<rparr>;
          last = quick\<lparr>rx_control_word := 0x0006\<rparr>;
          h = h\<lparr>lh_rq := (lh_rq h)\<lparr>rq_brake_request_enable := False, rq_service_disable_latched := True,
                  rq_brake_stop_requested := True, rq_brake_stop_timeout := False,
                  rq_reset_velocity_request := False, rq_reset_velocity_stop_pending := False,
                  rq_reset_hold_request := False, rq_homing_active := False,
                  rq_homing_start_requested := False, rq_homing_complete := False,
                  rq_homing_failed := False, rq_drive_zero_pending := False,
                  rq_brake_unlocked := False\<rparr>,
                lh_sf := (lh_sf h)\<lparr>sf_power_command_requested := False, sf_power_enabled := False,
                  sf_mode_mismatch_cycles := 0, sf_position_limit_violation := False,
                  sf_limit_recovery_active := False\<rparr>,
                lh_mv := (lh_mv h)\<lparr>mv_power_command := 0, mv_tx_pdo := last,
                  mv_brake_stop_phase := BP_disabled\<rparr>\<rparr>
      in (n\<lparr>nd_hw := h, nd_initialized := False\<rparr>, [quick, last]))"

section \<open>The bootstrap keeps the drive disabled\<close>

lemma safe_output_simps [simp]:
  "rx_target_velocity_units_per_s (safe_output w) = 0" "rx_control_word (safe_output w) = w"
  "rx_torque_feedforward (safe_output w) = 0"
  by (simp_all add: safe_output_def lift_rx_pdo_default_def)

definition boot_words_ok :: "lifecycle_params \<Rightarrow> boot_state \<Rightarrow> bool" where
  "boot_words_ok ly b \<longleftrightarrow> bo_word b \<in> {0x0006, 0x0080} \<and>
     bo_fault_reset_attempts b \<le> word_of_int (ly_max_fault_reset_attempts ly)"

lemma choose_word_ok:
  assumes "boot_words_ok ly b"
  shows "boot_words_ok ly (choose_word ly h sample now b)"
  using assms by (auto simp: boot_words_ok_def choose_word_def reset_allowed_def inc_le)

lemma count_stable_word [simp]:
  "bo_word (count_stable ly h sample b) = bo_word b"
  "bo_fault_reset_attempts (count_stable ly h sample b) = bo_fault_reset_attempts b"
  by (simp_all add: count_stable_def Let_def)

lemma count_stable_words_ok [simp]: "boot_words_ok ly (count_stable ly' h sample b) = boot_words_ok ly b"
  by (simp add: boot_words_ok_def)

lemma boot_iteration_words:
  assumes "boot_words_ok ly (snd s)"
  shows "boot_words_ok ly (snd (fst (boot_iteration ly e s)))"
    and "\<forall>tx\<in>set (fst (snd (boot_iteration ly e s))). \<exists>w\<in>{0x0006, 0x0080}. tx = safe_output w"
proof -
  have ok: "boot_words_ok ly (choose_word ly h sample now (snd s))" for h sample now
    using choose_word_ok [OF assms] .
  show "boot_words_ok ly (snd (fst (boot_iteration ly e s)))"
    using assms ok by (simp add: boot_iteration_def case_prod_beta Let_def split: option.split)
  then have "bo_word (snd (fst (boot_iteration ly e s))) \<in> {0x0006, 0x0080}"
    by (simp add: boot_words_ok_def)
  moreover have "set (fst (snd (boot_iteration ly e s))) \<subseteq>
      {safe_output (bo_word (snd (fst (boot_iteration ly e s))))}"
    by (simp add: boot_iteration_def case_prod_beta Let_def split: option.split)
  ultimately show "\<forall>tx\<in>set (fst (snd (boot_iteration ly e s))). \<exists>w\<in>{0x0006, 0x0080}. tx = safe_output w"
    by blast
qed

lemma boot_loop_words:
  assumes "boot_words_ok ly (snd s)"
  shows "(\<forall>tx\<in>set (fst (snd (boot_loop ly deadline es s))). \<exists>w\<in>{0x0006, 0x0080}. tx = safe_output w) \<and>
    boot_words_ok ly (snd (fst (boot_loop ly deadline es s)))"
  using assms
proof (induction es arbitrary: s)
  case Nil
  then show ?case by simp
next
  case (Cons e es)
  from Cons.IH [OF boot_iteration_words(1) [OF Cons.prems, of e]] boot_iteration_words [OF Cons.prems, of e]
  show ?case
    using Cons.prems by (auto simp: case_prod_beta Let_def)
qed

section \<open>What an accepted bootstrap has seen\<close>

definition hw_scale :: "lift_hw \<Rightarrow> lift_unit_config \<times> u32 \<times> i32 \<times> double" where
  "hw_scale h = (dp_unit_config (lh_dp h), dp_expected_working_counter (lh_dp h),
     fb_zero_offset_units (lh_fb h), pm_stationary_velocity_threshold_mps (lh_mp h))"

lemma hw_scale_cong:
  assumes "hw_scale h = hw_scale h'"
  shows "boot_position h = boot_position h'" "valid_stationary_sample h = valid_stationary_sample h'"
    "boot_fresh h = boot_fresh h'"
proof -
  show p: "boot_position h = boot_position h'"
    using assms by (auto simp: boot_position_def hw_scale_def)
  have "boot_velocity h = boot_velocity h'"
    using assms by (auto simp: boot_velocity_def hw_scale_def)
  with p show "valid_stationary_sample h = valid_stationary_sample h'" "boot_fresh h = boot_fresh h'"
    using assms by (auto simp: valid_stationary_sample_def boot_fresh_def hw_scale_def)
qed

lemma hw_scale_link [simp]: "hw_scale (note_link e h) = hw_scale h"
  by (simp add: note_link_def hw_scale_def)

text \<open>The samples of the iterations whose read and write succeeded on an operational bus.\<close>

fun fresh_samples :: "lift_hw \<Rightarrow> boot_env list \<Rightarrow> lift_tx_pdo list" where
  "fresh_samples h [] = []"
| "fresh_samples h (e # es) =
     (case be_sample e of
        Some sample \<Rightarrow> if be_write_ok e \<and> boot_fresh h e then sample # fresh_samples h es else fresh_samples h es
      | None \<Rightarrow> fresh_samples h es)"

lemma fresh_samples_append [simp]: "fresh_samples h (xs @ ys) = fresh_samples h xs @ fresh_samples h ys"
  by (induction xs) (auto split: option.split)

definition stable_run :: "lifecycle_params \<Rightarrow> lift_hw \<Rightarrow> lift_tx_pdo list \<Rightarrow> bool" where
  "stable_run ly h xs \<longleftrightarrow> (\<forall>x\<in>set xs. valid_stationary_sample h x) \<and>
     successively (\<lambda>x y. \<not> \<bar>boot_position h y - boot_position h x\<bar> > ly_max_feedback_jump_m ly) xs"

text \<open>\<open>xs\<close> are the samples the counter stands for.\<close>

definition counts :: "lifecycle_params \<Rightarrow> lift_hw \<Rightarrow> lift_tx_pdo list \<Rightarrow> boot_state \<Rightarrow> bool" where
  "counts ly h ss b \<longleftrightarrow> (\<exists>pre xs. ss = pre @ xs \<and> length xs = unat (bo_stable_samples b) \<and>
     stable_run ly h xs \<and> (xs \<noteq> [] \<longrightarrow> bo_candidate_position b = boot_position h (last xs)))"

lemma count_stable_counts:
  assumes "counts ly h ss b" "bo_stable_samples b < 5"
  shows "counts ly h (ss @ [sample]) (count_stable ly h sample b)"
proof -
  obtain pre xs where xs: "ss = pre @ xs" "length xs = unat (bo_stable_samples b)" "stable_run ly h xs"
    "xs \<noteq> [] \<longrightarrow> bo_candidate_position b = boot_position h (last xs)"
    using assms(1) by (auto simp: counts_def)
  have suc: "unat (bo_stable_samples b + 1) = Suc (length xs)"
    using xs(2) assms(2) by (simp add: word_less_nat_alt unat_word_ariths)
  consider (bad) "\<not> valid_stationary_sample h sample"
    | (first) "valid_stationary_sample h sample" "bo_stable_samples b = 0 \<or>
        \<bar>boot_position h sample - bo_candidate_position b\<bar> > ly_max_feedback_jump_m ly"
    | (next_one) "valid_stationary_sample h sample" "bo_stable_samples b \<noteq> 0"
        "\<not> \<bar>boot_position h sample - bo_candidate_position b\<bar> > ly_max_feedback_jump_m ly"
    by blast
  then show ?thesis
  proof cases
    case bad
    then have "counts ly h (ss @ [sample]) (b\<lparr>bo_stable_samples := 0\<rparr>)"
      unfolding counts_def by (intro exI [of _ "ss @ [sample]"] exI [of _ "[]"]) (simp add: stable_run_def)
    with bad show ?thesis by (simp add: count_stable_def Let_def)
  next
    case first
    then have "counts ly h (ss @ [sample]) (b\<lparr>bo_candidate_position := boot_position h sample, bo_stable_samples := 1\<rparr>)"
      unfolding counts_def by (intro exI [of _ ss] exI [of _ "[sample]"]) (simp add: stable_run_def)
    with first show ?thesis by (simp add: count_stable_def Let_def)
  next
    case next_one
    then have ne: "xs \<noteq> []"
      using xs(2) by (auto simp: unat_eq_zero)
    then have "stable_run ly h (xs @ [sample])"
      using xs(3,4) next_one by (simp add: stable_run_def successively_append_iff)
    then have "counts ly h (ss @ [sample])
        (b\<lparr>bo_candidate_position := boot_position h sample, bo_stable_samples := bo_stable_samples b + 1\<rparr>)"
      unfolding counts_def
      by (intro exI [of _ pre] exI [of _ "xs @ [sample]"]) (simp add: xs(1) suc)
    with next_one show ?thesis by (simp add: count_stable_def Let_def)
  qed
qed

lemma counts_cong: "hw_scale h = hw_scale h' \<Longrightarrow> counts ly h = counts ly h'"
  using hw_scale_cong [of h h'] by (simp add: counts_def stable_run_def fun_eq_iff)

lemma fresh_samples_cong: "hw_scale h = hw_scale h' \<Longrightarrow> fresh_samples h es = fresh_samples h' es"
  using hw_scale_cong(3) [of h h'] by (induction es) (auto split: option.split)

lemma hw_scale_store [simp]: "hw_scale (store_first_feedback e sample h) = hw_scale h"
  by (simp add: store_first_feedback_def update_state_interfaces_def hw_scale_def Let_def)

lemma store_fields [simp]:
  "fb_hw_position (lh_fb (store_first_feedback e sample h)) = boot_position h sample"
  "mv_command (lh_mv (store_first_feedback e sample h)) = boot_position h sample"
  "mv_velocity_command (lh_mv (store_first_feedback e sample h)) = 0"
  "mv_acceleration_command (lh_mv (store_first_feedback e sample h)) = 0"
  "mv_power_command (lh_mv (store_first_feedback e sample h)) = 0"
  "fb_rx_pdo (lh_fb (store_first_feedback e sample h)) = sample"
  "fb_fresh (lh_fb (store_first_feedback e sample h))"
  by (simp_all add: store_first_feedback_def update_state_interfaces_def Let_def)

lemma choose_word_counts [simp]:
  "counts ly h ss (choose_word ly h' sample now b) = counts ly h ss b"
  "bo_stable_samples (choose_word ly h' sample now b) = bo_stable_samples b"
  by (simp_all add: counts_def choose_word_def)

text \<open>One iteration extends the history by its fresh sample, if any; an accepted one has counted five.\<close>

lemma boot_iteration_counts:
  assumes "counts ly h ss b" "bo_stable_samples b < 5" "boot_iteration ly e (h, b) = ((h', b'), outs, ready)"
  shows "hw_scale h' = hw_scale h \<and> counts ly h (ss @ fresh_samples h [e]) b' \<and>
    (\<not> ready \<longrightarrow> bo_stable_samples b' < 5) \<and>
    (ready \<longrightarrow> bo_stable_samples b' \<ge> 5 \<and> (\<exists>sample. fresh_samples h [e] = [sample] \<and>
      fb_hw_position (lh_fb h') = boot_position h sample \<and> mv_command (lh_mv h') = boot_position h sample \<and>
      mv_velocity_command (lh_mv h') = 0 \<and> mv_acceleration_command (lh_mv h') = 0 \<and>
      mv_power_command (lh_mv h') = 0 \<and> fb_rx_pdo (lh_fb h') = sample \<and> fb_fresh (lh_fb h')))"
proof (cases "be_sample e")
  case None
  with assms show ?thesis by (auto simp: boot_iteration_def)
next
  case (Some sample)
  let ?b = "choose_word ly h sample (be_reset_now e) b"
  have eq: "boot_fresh (note_link e h) = boot_fresh h" "boot_position (note_link e h) = boot_position h"
    "valid_stationary_sample (note_link e h) = valid_stationary_sample h"
    using hw_scale_cong [OF hw_scale_link] by simp_all
  have stable: "count_stable ly (note_link e h) sample ?b = count_stable ly h sample ?b"
    by (simp add: count_stable_def eq)
  show ?thesis
  proof (cases "be_write_ok e \<and> boot_fresh h e")
    case False
    with Some assms eq show ?thesis
      by (auto simp: boot_iteration_def Let_def split: if_splits)
  next
    case fresh: True
    have c: "counts ly h (ss @ [sample]) (count_stable ly h sample ?b)"
      using count_stable_counts [of ly h ss ?b sample] assms(1,2) by simp
    show ?thesis
    proof (cases "bo_stable_samples (count_stable ly h sample ?b) \<ge> 5")
      case True
      then have "h' = store_first_feedback e sample (note_link e h)" "b' = count_stable ly h sample ?b" "ready"
        using assms(3) Some fresh eq stable
        by (auto simp: boot_iteration_def kRequiredStableSamples_def Let_def)
      then show ?thesis
        using True c Some fresh
        by (simp add: eq)
    next
      case False
      then have "h' = note_link e h" "b' = count_stable ly h sample ?b" "\<not> ready"
        using assms(3) Some fresh eq stable
        by (auto simp: boot_iteration_def kRequiredStableSamples_def Let_def)
      then show ?thesis
        using False c Some fresh by (simp add: not_le)
    qed
  qed
qed

lemma boot_loop_counts:
  assumes "counts ly h ss b" "bo_stable_samples b < 5" "boot_loop ly deadline es (h, b) = ((h', b'), outs, B_ready)"
  shows "\<exists>pre e post sample. es = pre @ e # post \<and> fresh_samples h [e] = [sample] \<and>
      hw_scale h' = hw_scale h \<and> counts ly h (ss @ fresh_samples h (pre @ [e])) b' \<and> bo_stable_samples b' \<ge> 5 \<and>
      fb_hw_position (lh_fb h') = boot_position h sample \<and> mv_command (lh_mv h') = boot_position h sample \<and>
      mv_velocity_command (lh_mv h') = 0 \<and> mv_acceleration_command (lh_mv h') = 0 \<and>
      mv_power_command (lh_mv h') = 0 \<and> fb_rx_pdo (lh_fb h') = sample \<and> fb_fresh (lh_fb h')"
  using assms
proof (induction es arbitrary: h b ss outs)
  case Nil
  then show ?case by simp
next
  case (Cons e es)
  obtain h1 b1 o1 r1 where it: "boot_iteration ly e (h, b) = ((h1, b1), o1, r1)"
    by (cases "boot_iteration ly e (h, b)") auto
  note step = boot_iteration_counts [OF Cons.prems(1,2) it]
  have now: "be_loop_now e < deadline"
    using Cons.prems(3) by (simp split: if_splits)
  show ?case
  proof (cases r1)
    case True
    then have "h' = h1" "b' = b1"
      using Cons.prems(3) now it by simp_all
    then show ?thesis
      using step True by (intro exI [of _ "[]"] exI [of _ e] exI [of _ es]) auto
  next
    case False
    then obtain o2 where rest: "boot_loop ly deadline es (h1, b1) = ((h', b'), o2, B_ready)"
      using Cons.prems(3) now it by (auto simp: Let_def case_prod_beta prod_eq_iff)
    have sc: "hw_scale h1 = hw_scale h"
      using step by blast
    have "counts ly h1 (ss @ fresh_samples h [e]) b1" "bo_stable_samples b1 < 5"
      using step False counts_cong [OF sc] by auto
    from Cons.IH [OF this rest] show ?thesis
      unfolding counts_cong [OF sc] fresh_samples_cong [OF sc] hw_scale_cong(1) [OF sc] sc
      using Cons_eq_appendI fresh_samples_append [of h "[e]"]
      by (smt (verit, best) append.assoc append_Cons append_Nil)
  qed
qed

section \<open>A concrete activation\<close>

definition demo_sample :: lift_tx_pdo where
  "demo_sample = lift_tx_pdo_default\<lparr>tx_status_word := 0x0040, tx_mode_display := 9\<rparr>"

definition demo_boot_env :: "int \<Rightarrow> boot_env" where
  "demo_boot_env t = \<lparr>be_loop_now = t, be_sample = Some demo_sample, be_reset_now = t, be_write_ok = True,
     be_link_state = L_operational, be_working_counter = 1, be_pdo_fresh = True, be_store_now = t\<rparr>"

definition demo_lifecycle :: lifecycle_params where
  "demo_lifecycle = \<lparr>ly_max_feedback_jump_m = Fin (1 / 5), ly_max_fault_reset_attempts = 3,
     ly_fault_reset_backoff_ms = 100, ly_startup_motion_guard_ms = 3000\<rparr>"

definition demo_activate_env :: activate_env where
  "demo_activate_env = \<lparr>ae_start_ok = True, ae_enable_now = 1, ae_link_state = L_operational,
     ae_working_counter = 1, ae_boot_now = 2, ae_end_now = 9\<rparr>"

definition demo_node :: lift_node where
  "demo_node = \<lparr>nd_hw = deployed_hw, nd_configured = True, nd_initialized = False\<rparr>"

definition demo_boot :: "boot_env list" where
  "demo_boot = map demo_boot_env [3, 4, 5, 6, 7]"

lemma demo_boot_ready:
  "snd (snd (bootstrap_first_feedback demo_lifecycle 2 demo_boot deployed_hw)) = B_ready"
  by code_simp

lemma demo_activated: "snd (snd (on_activate demo_lifecycle demo_activate_env demo_boot demo_node)) = Some True"
  by code_simp

text \<open>While the driver waits for feedback it sends nothing that could move or enable the axis: every
  frame has velocity zero and is a shutdown or a fault reset, and the number of fault resets
  stays within the configured attempts.\<close>

theorem bootstrap_keeps_disabled:
  "set (fst (snd (bootstrap_first_feedback ly now es h))) \<subseteq>
      {tx. rx_target_velocity_units_per_s tx = 0 \<and> rx_torque_feedforward tx = 0 \<and>
        rx_control_word tx \<in> {0x0006, 0x0080}} \<and>
    bo_fault_reset_attempts (snd (fst (boot_loop ly (now + 3000000000) es (h, boot_init))))
      \<le> word_of_int (ly_max_fault_reset_attempts ly)"
proof -
  have "boot_words_ok ly (snd (h, boot_init))"
    by (simp add: boot_words_ok_def boot_init_def)
  from boot_loop_words [OF this, of "now + 3000000000" es] show ?thesis
    by (auto simp: bootstrap_first_feedback_def boot_words_ok_def case_prod_beta)
qed

lemma boot_ready:
  assumes "bootstrap_first_feedback ly now es h = (h', outs, B_ready)"
  shows "\<exists>used post older five. es = used @ post \<and> fresh_samples h used = older @ five \<and>
    5 \<le> length five \<and> (\<forall>x\<in>set five. valid_stationary_sample h x) \<and>
    successively (\<lambda>x y. \<not> \<bar>boot_position h y - boot_position h x\<bar> > ly_max_feedback_jump_m ly) five \<and>
    fb_rx_pdo (lh_fb h') = last five \<and> fb_hw_position (lh_fb h') = boot_position h (last five) \<and>
    mv_command (lh_mv h') = fb_hw_position (lh_fb h') \<and> mv_velocity_command (lh_mv h') = 0 \<and>
    mv_acceleration_command (lh_mv h') = 0 \<and> mv_power_command (lh_mv h') = 0"
proof -
  obtain b' where loop: "boot_loop ly (now + 3000000000) es (h, boot_init) = ((h', b'), outs, B_ready)"
    using assms by (auto simp: bootstrap_first_feedback_def case_prod_beta prod_eq_iff)
  have "counts ly h [] boot_init" "bo_stable_samples boot_init < 5"
    by (simp_all add: counts_def stable_run_def boot_init_def)
  from boot_loop_counts [OF this loop] obtain pre e post sample where
    es: "es = pre @ e # post" "fresh_samples h [e] = [sample]" and
    c: "counts ly h (fresh_samples h (pre @ [e])) b'" "bo_stable_samples b' \<ge> 5" and
    p: "fb_hw_position (lh_fb h') = boot_position h sample" "mv_command (lh_mv h') = boot_position h sample"
      "mv_velocity_command (lh_mv h') = 0" "mv_acceleration_command (lh_mv h') = 0"
      "mv_power_command (lh_mv h') = 0" "fb_rx_pdo (lh_fb h') = sample"
    by auto
  from c obtain older five where five: "fresh_samples h (pre @ [e]) = older @ five" "stable_run ly h five"
    "length five = unat (bo_stable_samples b')"
    by (auto simp: counts_def)
  then have long: "5 \<le> length five"
    using c(2) by (simp add: word_le_nat_alt)
  then have "last five = sample"
    using five(1) es(2) by (metis fresh_samples_append last_appendR last_snoc list.size(3) not_numeral_le_zero)
  with es p five long show ?thesis
    by (intro exI [of _ "pre @ [e]"] exI [of _ post] exI [of _ older] exI [of _ five])
      (simp add: stable_run_def)
qed

lemma boot_ready_commands:
  "bootstrap_first_feedback ly now es h = (h', outs, B_ready) \<Longrightarrow>
     mv_command (lh_mv h') = fb_hw_position (lh_fb h') \<and> mv_velocity_command (lh_mv h') = 0 \<and>
     mv_power_command (lh_mv h') = 0"
  using boot_ready by blast

text \<open>C5: Feedback is accepted only after at least five fresh samples in a row, all finite, stationary, in
  velocity mode and with a known status, each within the allowed jump of the one before; the position
  then published and commanded is that of the last of them, with velocity, acceleration and power
  commanded zero.\<close>

theorem bootstrap_five_stable:
  assumes "bootstrap_first_feedback ly now es h = (h', outs, B_ready)"
  shows "\<exists>used post older five. es = used @ post \<and> fresh_samples h used = older @ five \<and>
    5 \<le> length five \<and> (\<forall>x\<in>set five. valid_stationary_sample h x) \<and>
    successively (\<lambda>x y. \<not> \<bar>boot_position h y - boot_position h x\<bar> > ly_max_feedback_jump_m ly) five \<and>
    fb_rx_pdo (lh_fb h') = last five \<and> fb_hw_position (lh_fb h') = boot_position h (last five) \<and>
    mv_command (lh_mv h') = fb_hw_position (lh_fb h') \<and> mv_velocity_command (lh_mv h') = 0 \<and>
    mv_acceleration_command (lh_mv h') = 0 \<and> mv_power_command (lh_mv h') = 0"
  using assms by (rule boot_ready)

theorem bootstrap_five_stable_witness:
  "mv_command (lh_mv (fst (bootstrap_first_feedback demo_lifecycle 2 demo_boot deployed_hw))) =
    fb_hw_position (lh_fb (fst (bootstrap_first_feedback demo_lifecycle 2 demo_boot deployed_hw)))"
proof -
  obtain h' outs where b: "bootstrap_first_feedback demo_lifecycle 2 demo_boot deployed_hw = (h', outs, B_ready)"
    using demo_boot_ready by (cases "bootstrap_first_feedback demo_lifecycle 2 demo_boot deployed_hw") auto
  from bootstrap_five_stable [OF b] show ?thesis
    using b by auto
qed

section \<open>Activation\<close>

definition quiet_sf :: "safety \<Rightarrow> safety" where
  "quiet_sf s = s\<lparr>sf_power_enabled := False\<rparr>"

lemma boot_iteration_frame:
  "quiet_sf (lh_sf (fst (fst (boot_iteration ly e s)))) = quiet_sf (lh_sf (fst s)) \<and>
   lh_rq (fst (fst (boot_iteration ly e s))) = lh_rq (fst s) \<and>
   lh_dp (fst (fst (boot_iteration ly e s))) = lh_dp (fst s) \<and>
   lh_mp (fst (fst (boot_iteration ly e s))) = lh_mp (fst s)"
  by (simp add: boot_iteration_def store_first_feedback_def update_state_interfaces_def note_link_def
      quiet_sf_def case_prod_beta Let_def split: option.split)

lemma boot_loop_frame:
  "quiet_sf (lh_sf (fst (fst (boot_loop ly d es s)))) = quiet_sf (lh_sf (fst s)) \<and>
   lh_rq (fst (fst (boot_loop ly d es s))) = lh_rq (fst s) \<and>
   lh_dp (fst (fst (boot_loop ly d es s))) = lh_dp (fst s) \<and>
   lh_mp (fst (fst (boot_loop ly d es s))) = lh_mp (fst s)"
proof (induction es arbitrary: s)
  case (Cons e es)
  show ?case
    using Cons.IH [of "fst (boot_iteration ly e s)"] boot_iteration_frame [of ly e s]
    by (simp add: case_prod_beta Let_def)
qed simp

lemma quiet_sf_eq:
  "quiet_sf s = quiet_sf s' \<Longrightarrow> sf_estop_latched s = sf_estop_latched s' \<and>
     sf_motion_blocked s = sf_motion_blocked s' \<and> sf_active s = sf_active s'"
  by (cases s; cases s') (simp add: quiet_sf_def)

lemma bootstrap_frame:
  assumes "bootstrap_first_feedback ly now es h = (h', outs, r)"
  shows "sf_estop_latched (lh_sf h') = sf_estop_latched (lh_sf h)"
    "sf_motion_blocked (lh_sf h') = sf_motion_blocked (lh_sf h)"
    "sf_active (lh_sf h') = sf_active (lh_sf h)" "lh_rq h' = lh_rq h"
proof -
  have "h' = fst (fst (boot_loop ly (now + 3000000000) es (h, boot_init)))"
    using assms by (auto simp: bootstrap_first_feedback_def case_prod_beta)
  then have f: "quiet_sf (lh_sf h') = quiet_sf (lh_sf h)" "lh_rq h' = lh_rq h"
    using boot_loop_frame [of ly "now + 3000000000" es "(h, boot_init)"] by simp_all
  from f(2) show "lh_rq h' = lh_rq h" .
  show "sf_estop_latched (lh_sf h') = sf_estop_latched (lh_sf h)"
    "sf_motion_blocked (lh_sf h') = sf_motion_blocked (lh_sf h)"
    "sf_active (lh_sf h') = sf_active (lh_sf h)"
    using quiet_sf_eq [OF f(1)] by simp_all
qed

lemma activate_reset_simps [simp]:
  "sf_estop_latched (lh_sf (activate_reset a h)) = sf_estop_latched (lh_sf h)"
  "sf_motion_blocked (lh_sf (activate_reset a h)) = sf_motion_blocked (lh_sf h)"
  "\<not> sf_active (lh_sf (activate_reset a h))"
  "lh_rq (activate_reset a h) = (reset_requests (lh_rq h))\<lparr>rq_brake_unlocked := False\<rparr>"
  by (simp_all add: activate_reset_def reset_latches_def reset_feedback_continuity_def)

lemma activate_finish_simps [simp]:
  "sf_estop_latched (lh_sf (activate_finish ly now h)) = sf_estop_latched (lh_sf h)"
  "sf_motion_blocked (lh_sf (activate_finish ly now h)) = sf_motion_blocked (lh_sf h)"
  "sf_active (lh_sf (activate_finish ly now h))"
  "sf_first_write_sync_pending (lh_sf (activate_finish ly now h))"
  "lh_rq (activate_finish ly now h) = lh_rq h" "lh_mv (activate_finish ly now h) = lh_mv h"
  "lh_fb (activate_finish ly now h) = lh_fb h"
  by (simp_all add: activate_finish_def reset_feedback_continuity_def Let_def)

lemma on_activate_ready:
  assumes "on_activate ly a es n = (n', outs, Some True)"
  obtains h where "nd_configured n" "bootstrap_first_feedback ly (ae_boot_now a) es (activate_reset a (nd_hw n)) = (h, outs, B_ready)"
    "nd_hw n' = activate_finish ly (ae_end_now a) h"
  using assms that
  by (auto simp: on_activate_def case_prod_beta Let_def prod_eq_iff split: if_splits boot_result.splits)

text \<open>No lifecycle transition ends an emergency stop, and activating or deactivating, whether it succeeds,
  fails or has not returned, does not end a latched motion fault; a driver is active only after an
  activation that succeeded, and never after a deactivation.\<close>

theorem lifecycle_keeps_latches:
  "sf_estop_latched (lh_sf (nd_hw (snd (on_configure ly ok res n)))) = sf_estop_latched (lh_sf (nd_hw n)) \<and>
   sf_estop_latched (lh_sf (nd_hw (fst (on_activate ly a es n)))) = sf_estop_latched (lh_sf (nd_hw n)) \<and>
   sf_estop_latched (lh_sf (nd_hw (fst (on_deactivate n)))) = sf_estop_latched (lh_sf (nd_hw n)) \<and>
   sf_motion_blocked (lh_sf (nd_hw (fst (on_activate ly a es n)))) = sf_motion_blocked (lh_sf (nd_hw n)) \<and>
   sf_motion_blocked (lh_sf (nd_hw (fst (on_deactivate n)))) = sf_motion_blocked (lh_sf (nd_hw n)) \<and>
   \<not> sf_active (lh_sf (nd_hw (fst (on_deactivate n))))"
proof -
  obtain h outs r where b: "bootstrap_first_feedback ly (ae_boot_now a) es (activate_reset a (nd_hw n)) = (h, outs, r)"
    by (metis prod_cases3)
  have "sf_estop_latched (lh_sf (nd_hw (fst (on_activate ly a es n)))) = sf_estop_latched (lh_sf (nd_hw n))"
    "sf_motion_blocked (lh_sf (nd_hw (fst (on_activate ly a es n)))) = sf_motion_blocked (lh_sf (nd_hw n))"
    using bootstrap_frame(1,2) [OF b] by (cases r; simp add: on_activate_def b)+
  moreover have "sf_estop_latched (lh_sf (nd_hw (snd (on_configure ly ok res n)))) = sf_estop_latched (lh_sf (nd_hw n))"
    by (simp add: on_configure_def load_zero_offset_def reset_latches_def reset_feedback_continuity_def Let_def
        split: zero_offset_load_result.split)
  ultimately show ?thesis
    by (simp add: on_deactivate_def reset_feedback_continuity_def Let_def)
qed

text \<open>Reading leaves the pending synchronisation alone.\<close>

lemma read_keeps_sync [simp]:
  "sf_first_write_sync_pending (lh_sf (fst (hw_read env h))) = sf_first_write_sync_pending (lh_sf h)"
proof -
  have base: "sf_first_write_sync_pending (lh_sf (handle_transport_fault h)) = sf_first_write_sync_pending (lh_sf h)"
    "sf_first_write_sync_pending (lh_sf (take_sample env sm h)) = sf_first_write_sync_pending (lh_sf h)"
    "sf_first_write_sync_pending (lh_sf (publish_sample env fr sm h)) = sf_first_write_sync_pending (lh_sf h)"
    "sf_first_write_sync_pending (lh_sf (update_transport_health b h)) = sf_first_write_sync_pending (lh_sf h)"
    "sf_first_write_sync_pending (lh_sf (latch_motion_fault r h)) = sf_first_write_sync_pending (lh_sf h)"
    "sf_first_write_sync_pending (lh_sf (check_position_limits x h)) = sf_first_write_sync_pending (lh_sf h)"
    "sf_first_write_sync_pending (lh_sf (take_position x y h)) = sf_first_write_sync_pending (lh_sf h)"
    "sf_first_write_sync_pending (lh_sf (begin_epoch h)) = sf_first_write_sync_pending (lh_sf h)"
    "sf_first_write_sync_pending (lh_sf (update_state_interfaces t h)) = sf_first_write_sync_pending (lh_sf h)"
    "sf_first_write_sync_pending (lh_sf (invalidate_feedback_continuity h)) = sf_first_write_sync_pending (lh_sf h)"
    "sf_first_write_sync_pending (lh_sf (reset_feedback_continuity h)) = sf_first_write_sync_pending (lh_sf h)"
    for sm fr b r x y t h
    by (simp_all add: handle_transport_fault_def invalidate_feedback_continuity_def take_sample_def
        publish_sample_def update_transport_health_def latch_motion_fault_def check_position_limits_def
        take_position_def begin_epoch_def reset_feedback_continuity_def update_state_interfaces_def Let_def)
  moreover have "sf_first_write_sync_pending (lh_sf (observe_feedback_continuity p t fr h)) =
      sf_first_write_sync_pending (lh_sf h)" for p t fr h
    by (simp add: observe_feedback_continuity_def base case_prod_beta Let_def)
  ultimately show ?thesis
    by (simp add: hw_read_def Let_def split: option.split)
qed

text \<open>C4: The first frame after an activation cannot move the axis: the command is the measured position
  with zero velocity and power off, and whatever was read and commanded in between, the
  first write sends velocity zero.\<close>

theorem first_write_after_activation:
  assumes "on_activate ly a es n = (n', outs, Some True)"
    and "h = fold (\<lambda>env h. fst (hw_read env h)) reads (nd_hw n')"
    and "hw_write env (h\<lparr>lh_mv := m\<rparr>) = (h', Some tx, ok)"
  shows "mv_command (lh_mv (nd_hw n')) = fb_hw_position (lh_fb (nd_hw n')) \<and>
    mv_velocity_command (lh_mv (nd_hw n')) = 0 \<and> mv_power_command (lh_mv (nd_hw n')) = 0 \<and>
    rx_target_velocity_units_per_s tx = 0"
proof -
  obtain g where g: "bootstrap_first_feedback ly (ae_boot_now a) es (activate_reset a (nd_hw n)) = (g, outs, B_ready)"
    "nd_hw n' = activate_finish ly (ae_end_now a) g"
    using assms(1) by (rule on_activate_ready)
  have "sf_first_write_sync_pending (lh_sf (fold (\<lambda>env h. fst (hw_read env h)) reads x)) =
      sf_first_write_sync_pending (lh_sf x)" for x
    by (induction reads arbitrary: x) simp_all
  then have "startup_hold (ev_now env) (h\<lparr>lh_mv := m\<rparr>)"
    using g(2) assms(2) by (simp add: startup_hold_def)
  then have "rx_target_velocity_units_per_s tx = 0"
    using write_gates [OF assms(3)] by blast
  moreover have "mv_command (lh_mv g) = fb_hw_position (lh_fb g)" "mv_velocity_command (lh_mv g) = 0"
    "mv_power_command (lh_mv g) = 0"
    using boot_ready_commands [OF g(1)] by simp_all
  ultimately show ?thesis using g(2) by simp
qed

theorem first_write_after_activation_witness:
  "\<exists>h' tx ok. hw_write deployed_cycle
      (nd_hw (fst (on_activate demo_lifecycle demo_activate_env demo_boot demo_node))) = (h', Some tx, ok) \<and>
     rx_target_velocity_units_per_s tx = 0"
proof -
  obtain n' outs where n: "on_activate demo_lifecycle demo_activate_env demo_boot demo_node = (n', outs, Some True)"
    using demo_activated by (cases "on_activate demo_lifecycle demo_activate_env demo_boot demo_node") auto
  then have "sf_active (lh_sf (nd_hw n'))"
    by (metis on_activate_ready activate_finish_simps(3))
  then obtain h' tx ok where w: "hw_write deployed_cycle (nd_hw n') = (h', Some tx, ok)"
    using hw_write_sends by blast
  with first_write_after_activation [OF n, of "nd_hw n'" "[]" deployed_cycle "lh_mv (nd_hw n')"] n show ?thesis
    by simp
qed

text \<open>Deactivation sends exactly a quick stop and a shutdown, both with velocity zero, and no later cycle of
  the inactive driver sends anything.\<close>

theorem deactivation_stops:
  "map rx_control_word (snd (on_deactivate n)) = [0x000B, 0x0006] \<and>
   map rx_target_velocity_units_per_s (snd (on_deactivate n)) = [0, 0] \<and>
   hw_write env (nd_hw (fst (on_deactivate n))) = (nd_hw (fst (on_deactivate n)), None, False)"
  by (simp add: on_deactivate_def hw_write_def reset_feedback_continuity_def Let_def)

end
