(* ===== verification/LiftConfigure.thy ===== *)
theory LiftConfigure
  imports LiftLifecycle PdoMapping
begin

text \<open>
  Bringing the drive up (\<open>configure_backend\<close>, \<open>validate_brake_parameters\<close>, \<open>read_validated_sdo\<close> of
  \<open>lift/lift_hardware.cpp\<close>): the process data mapping, the CSV mode, the unit objects and the brake
  timings are written to or read from the drive through the abstract backend, whose methods are the
  fields of \<open>drive_backend\<close>. Methods return a flag and the new state. The interface
  \<open>sdo_drive\<close> says what a backend with an object dictionary does; for every such backend the
  procedure accepts exactly the drives whose objects pass the checks.
\<close>

record 'b drive_backend =
  bk_initialize :: "ethercat_master_config \<Rightarrow> 'b \<Rightarrow> bool \<times> 'b"
  bk_configure_slave :: "ethercat_slave_config \<Rightarrow> 'b \<Rightarrow> bool \<times> 'b"
  bk_write_sdo :: "u16 \<Rightarrow> u8 \<Rightarrow> bytes \<Rightarrow> 'b \<Rightarrow> bool \<times> 'b"
  bk_read_sdo :: "u16 \<Rightarrow> u8 \<Rightarrow> 'b \<Rightarrow> bytes option \<times> 'b"
  bk_error_message :: "'b \<Rightarrow> string"

definition mock_methods :: "mock_backend drive_backend" where
  "mock_methods = \<lparr>bk_initialize = mock_initialize, bk_configure_slave = mock_configure_slave,
     bk_write_sdo = mock_write_sdo, bk_read_sdo = mock_read_sdo, bk_error_message = mb_error_message\<rparr>"

text \<open>The parameters the checks compare with.\<close>

record drive_check_params =
  dc_master :: ethercat_master_config
  dc_slave :: ethercat_slave_config
  dc_configured_command_units_per_rev :: u32
  dc_command_units_parameter_set :: bool
  dc_brake_p04_37_ms :: int
  dc_brake_release_wait_ms :: int
  dc_brake_p04_39_rpm :: int
  dc_brake_p06_14_ms :: int
  dc_brake_p05_06_mode :: string
  dc_brake_p05_10_mode :: string

text \<open>What configuration writes: the backend, the unit configuration, the observed release time.\<close>

record 'b configuring =
  cf_backend :: 'b
  cf_units :: lift_unit_config
  cf_observed_ms :: int

section \<open>Reading objects\<close>

definition decode_u32_le :: "bytes \<Rightarrow> u32 option" where
  "decode_u32_le bs =
     (if bs = [] \<or> length bs > 4 then None
      else Some (fold (\<lambda>i v. v OR push_bit (8 * i) (ucast (bs ! i))) [0..<length bs] 0))"

text \<open>The out parameter keeps its value unless the bytes decode, and is set even to a refused zero.\<close>

definition read_validated_sdo ::
  "'b drive_backend \<Rightarrow> u16 \<Rightarrow> u8 \<Rightarrow> bool \<Rightarrow> u32 \<Rightarrow> 'b \<Rightarrow> (bool \<times> u32) \<times> 'b" where
  "read_validated_sdo bk index subindex allow_zero old b =
     (let (r, b) = bk_read_sdo bk index subindex b
      in case r of None \<Rightarrow> ((False, old), b)
         | Some bs \<Rightarrow> (case decode_u32_le bs of
               None \<Rightarrow> ((False, old), b)
             | Some value \<Rightarrow> ((allow_zero \<or> value \<noteq> 0, value), b)))"

definition read_units ::
  "'b drive_backend \<Rightarrow> u16 \<Rightarrow> u8 \<Rightarrow> bool \<Rightarrow> (lift_unit_config \<Rightarrow> u32) \<Rightarrow>
    (u32 \<Rightarrow> lift_unit_config \<Rightarrow> lift_unit_config) \<Rightarrow> 'b configuring \<Rightarrow> bool \<times> 'b configuring" where
  "read_units bk index subindex allow_zero get put c =
     (let ((ok, v), b) = read_validated_sdo bk index subindex allow_zero (get (cf_units c)) (cf_backend c)
      in (ok, c\<lparr>cf_backend := b, cf_units := put v (cf_units c)\<rparr>))"

text \<open>The encoder resolution goes to a local variable first.\<close>

definition read_encoder :: "'b drive_backend \<Rightarrow> 'b configuring \<Rightarrow> bool \<times> 'b configuring" where
  "read_encoder bk c =
     (let ((ok, v), b) = read_validated_sdo bk 0x608F 1 False 0 (cf_backend c); c = c\<lparr>cf_backend := b\<rparr>
      in if \<not> ok then (False, c)
         else (True, c\<lparr>cf_units := (cf_units c)\<lparr>uc_encoder_counts_per_rev := v,
                         uc_encoder_counts_denominator := 1\<rparr>\<rparr>))"

text \<open>\<open>if (!a || !b) return false\<close> for methods that change the state.\<close>

fun all_steps :: "('s \<Rightarrow> bool \<times> 's) list \<Rightarrow> 's \<Rightarrow> bool \<times> 's" where
  "all_steps [] s = (True, s)"
| "all_steps (f # fs) s = (let (ok, s) = f s in if ok then all_steps fs s else (False, s))"

definition with_backend :: "('b \<Rightarrow> bool \<times> 'b) \<Rightarrow> 'b configuring \<Rightarrow> bool \<times> 'b configuring" where
  "with_backend f c = (let (ok, b) = f (cf_backend c) in (ok, c\<lparr>cf_backend := b\<rparr>))"

section \<open>The drive and its units\<close>

definition write_csv_pdos :: "'b drive_backend \<Rightarrow> 'b \<Rightarrow> bool \<times> 'b" where
  "write_csv_pdos bk b =
     (let (r, b) = configure_lift_csv_pdos (bk_write_sdo bk) (bk_error_message bk) b in (is_ok r, b))"

definition confirm_csv_mode :: "'b drive_backend \<Rightarrow> 'b \<Rightarrow> bool \<times> 'b" where
  "confirm_csv_mode bk b =
     (let (r, b) = bk_read_sdo bk 0x6061 0 b
      in (case r of None \<Rightarrow> False | Some actual_mode \<Rightarrow> length actual_mode = 1 \<and> actual_mode ! 0 = 9, b))"

definition units_disagree :: "drive_check_params \<Rightarrow> double \<Rightarrow> bool" where
  "units_disagree k units_per_rev \<longleftrightarrow> dc_command_units_parameter_set k \<and>
     \<bar>of_u32 (dc_configured_command_units_per_rev k) - units_per_rev\<bar> >
       Fin (1 / 10 ^ 9) * dmax (Fin 1) units_per_rev"

definition settle_units :: "drive_check_params \<Rightarrow> 'b configuring \<Rightarrow> bool \<times> 'b configuring" where
  "settle_units k c =
     (let u = cf_units c
      in case derive_command_units_per_rev (uc_encoder_counts_per_rev u) (uc_gear_ratio_numerator u)
            (uc_gear_ratio_denominator u) (uc_feed_units_numerator u)
            (uc_p00_08_command_units_per_rev u) of
           Inl e \<Rightarrow> (False, c)
         | Inr units_per_rev \<Rightarrow>
             let u = u\<lparr>uc_effective_command_units_per_rev := units_per_rev,
                       uc_command_units_per_rev := the (llround_u32 units_per_rev)\<rparr>
             in (\<not> units_disagree k units_per_rev \<and> validate_lift_units u = Inr (), c\<lparr>cf_units := u\<rparr>))"

section \<open>Brake timings\<close>

fun read_objects :: "'b drive_backend \<Rightarrow> u16 list \<Rightarrow> 'b \<Rightarrow> u32 list option \<times> 'b" where
  "read_objects bk [] b = (Some [], b)"
| "read_objects bk (i # is) b =
     (let ((ok, v), b) = read_validated_sdo bk i 0 True 0 b
      in if \<not> ok then (None, b)
         else let (vs, b) = read_objects bk is b in (map_option (Cons v) vs, b))"

definition brake_objects :: "u16 list" where
  "brake_objects = [0x2437, 0x2438, 0x2439, 0x2614, 0x2506, 0x2510]"

definition brake_ranges_ok :: "u32 \<Rightarrow> u32 \<Rightarrow> u32 \<Rightarrow> u32 \<Rightarrow> u32 \<Rightarrow> u32 \<Rightarrow> bool" where
  "brake_ranges_ok p04_37 p04_38 p04_39 p06_14 p05_06 p05_10 \<longleftrightarrow>
     \<not> (p04_37 > 0x7FFFFFFF \<or> p04_38 > 0x7FFFFFFF \<or> p04_39 > 0x7FFFFFFF \<or> p06_14 > 0x7FFFFFFF) \<and>
     \<not> (p04_37 > 3000 \<or> p04_38 > 3000 \<or> p04_39 < 30 \<or> p04_39 > 3000 \<or> p06_14 > 3000 \<or>
        p05_06 < 3 \<or> p05_06 > 4 \<or> p05_10 < 4 \<or> p05_10 > 5)"

definition mismatch :: "int \<Rightarrow> u32 \<Rightarrow> bool" where
  "mismatch expected actual \<longleftrightarrow> \<not> expected < 0 \<and> word_of_int expected \<noteq> actual"

text \<open>\<open>None\<close> where the lambda returns false: nothing is expected.\<close>

definition expected_mode :: "string \<Rightarrow> u32 option" where
  "expected_mode text =
     (if text = '''' \<or> text = ''drive_default'' then None
      else case parse_unsigned text of
             None \<Rightarrow> None
           | Some parsed \<Rightarrow> if parsed > 65535 then None else Some (ucast parsed))"

definition mode_mismatch :: "string \<Rightarrow> u32 \<Rightarrow> bool" where
  "mode_mismatch text actual \<longleftrightarrow>
     (case expected_mode text of None \<Rightarrow> False | Some expected \<Rightarrow> expected \<noteq> actual)"

definition brake_matches ::
  "drive_check_params \<Rightarrow> u32 \<Rightarrow> u32 \<Rightarrow> u32 \<Rightarrow> u32 \<Rightarrow> u32 \<Rightarrow> u32 \<Rightarrow> bool" where
  "brake_matches k p04_37 p04_38 p04_39 p06_14 p05_06 p05_10 \<longleftrightarrow>
     \<not> (mismatch (dc_brake_p04_37_ms k) p04_37 \<or> mismatch (dc_brake_p04_39_rpm k) p04_39 \<or>
        mismatch (dc_brake_p06_14_ms k) p06_14 \<or> mismatch (dc_brake_release_wait_ms k) p04_38) \<and>
     \<not> mode_mismatch (dc_brake_p05_06_mode k) p05_06 \<and> \<not> mode_mismatch (dc_brake_p05_10_mode k) p05_10"

definition validate_brake_parameters ::
  "'b drive_backend \<Rightarrow> drive_check_params \<Rightarrow> 'b configuring \<Rightarrow> bool \<times> 'b configuring" where
  "validate_brake_parameters bk k c =
     (let (vs, b) = read_objects bk brake_objects (cf_backend c); c = c\<lparr>cf_backend := b\<rparr>
      in case vs of
           Some [p04_37, p04_38, p04_39, p06_14, p05_06, p05_10] \<Rightarrow>
             if \<not> brake_ranges_ok p04_37 p04_38 p04_39 p06_14 p05_06 p05_10 then (False, c)
             else (brake_matches k p04_37 p04_38 p04_39 p06_14 p05_06 p05_10,
                   c\<lparr>cf_observed_ms := uint p04_38\<rparr>)
         | _ \<Rightarrow> (False, c))"

section \<open>configure\_backend\<close>

definition configure_backend ::
  "'b drive_backend \<Rightarrow> drive_check_params \<Rightarrow> 'b configuring \<Rightarrow> bool \<times> 'b configuring" where
  "configure_backend bk k =
     all_steps
       [with_backend (bk_initialize bk (dc_master k)),
        with_backend (bk_configure_slave bk (dc_slave k)),
        with_backend (write_csv_pdos bk),
        with_backend (bk_write_sdo bk 0x6060 0 [9]),
        with_backend (confirm_csv_mode bk),
        read_encoder bk,
        read_units bk 0x6091 1 False uc_gear_ratio_numerator (\<lambda>v u. u\<lparr>uc_gear_ratio_numerator := v\<rparr>),
        read_units bk 0x6091 2 False uc_gear_ratio_denominator (\<lambda>v u. u\<lparr>uc_gear_ratio_denominator := v\<rparr>),
        read_units bk 0x6092 1 False uc_feed_units_numerator (\<lambda>v u. u\<lparr>uc_feed_units_numerator := v\<rparr>),
        read_units bk 0x2008 0 True uc_p00_08_command_units_per_rev
          (\<lambda>v u. u\<lparr>uc_p00_08_command_units_per_rev := v\<rparr>),
        settle_units k,
        validate_brake_parameters bk k]"

text \<open>\<open>on_configure\<close> with its real first condition; the driver takes the units found.\<close>

definition configure_lift ::
  "'b drive_backend \<Rightarrow> drive_check_params \<Rightarrow> lifecycle_params \<Rightarrow> zero_offset_load_result \<Rightarrow>
    'b configuring \<times> lift_node \<Rightarrow> bool \<times> 'b configuring \<times> lift_node" where
  "configure_lift bk k ly result = (\<lambda>(c, n).
     let (backend_ok, c) = configure_backend bk k c;
         n = n\<lparr>nd_hw := (nd_hw n)\<lparr>lh_dp := (lh_dp (nd_hw n))\<lparr>dp_unit_config := cf_units c\<rparr>\<rparr>\<rparr>;
         (ok, n) = on_configure ly backend_ok result n
     in (ok, c, n))"

section \<open>What an accepted drive is\<close>

text \<open>The object dictionary decides: \<open>od\<close> gives the decoded value of an object, if it has one.\<close>

definition object_u32 :: "(u16 \<Rightarrow> u8 \<Rightarrow> bytes option) \<Rightarrow> u16 \<Rightarrow> u8 \<Rightarrow> u32 option" where
  "object_u32 od index subindex = Option.bind (od index subindex) decode_u32_le"

definition units_of_drive ::
  "(u16 \<Rightarrow> u8 \<Rightarrow> u32 option) \<Rightarrow> drive_check_params \<Rightarrow> lift_unit_config \<Rightarrow> lift_unit_config option" where
  "units_of_drive od k u =
     (case (od 0x608F 1, od 0x6091 1, od 0x6091 2, od 0x6092 1, od 0x2008 0) of
        (Some e, Some n, Some d, Some f, Some p) \<Rightarrow>
          (case derive_command_units_per_rev e n d f p of
             Inl _ \<Rightarrow> None
           | Inr units \<Rightarrow>
               let u = u\<lparr>uc_encoder_counts_per_rev := e, uc_encoder_counts_denominator := 1,
                     uc_gear_ratio_numerator := n, uc_gear_ratio_denominator := d,
                     uc_feed_units_numerator := f, uc_p00_08_command_units_per_rev := p,
                     uc_effective_command_units_per_rev := units,
                     uc_command_units_per_rev := the (llround_u32 units)\<rparr>
               in if units_disagree k units \<or> validate_lift_units u \<noteq> Inr () then None else Some u)
      | _ \<Rightarrow> None)"

definition brake_of_drive :: "(u16 \<Rightarrow> u8 \<Rightarrow> u32 option) \<Rightarrow> drive_check_params \<Rightarrow> int option" where
  "brake_of_drive od k =
     (case (od 0x2437 0, od 0x2438 0, od 0x2439 0, od 0x2614 0, od 0x2506 0, od 0x2510 0) of
        (Some a, Some b, Some c, Some d, Some e, Some f) \<Rightarrow>
          if brake_ranges_ok a b c d e f \<and> brake_matches k a b c d e f then Some (uint b) else None
      | _ \<Rightarrow> None)"

lemma all_steps_append:
  "all_steps (xs @ ys) s = (let (ok, s) = all_steps xs s in if ok then all_steps ys s else (False, s))"
  by (induction xs arbitrary: s) (simp_all add: case_prod_beta Let_def)

lemma derive_nonzero:
  "derive_command_units_per_rev e n d f p = Inr units \<Longrightarrow> e \<noteq> 0 \<and> n \<noteq> 0 \<and> d \<noteq> 0 \<and> f \<noteq> 0"
  by (auto simp: derive_command_units_per_rev_def split: if_splits)

section \<open>Interface: a backend with an object dictionary\<close>

text \<open>Beyond accepting mapping writes: starting and configuring the slave succeeds exactly when
  \<open>starts\<close> says so, and keeps the objects; the CSV mode is taken and shown; reading an object
  gives it and keeps all.\<close>

locale sdo_drive = pdo_backend "bk_write_sdo bk" ready
  for bk :: "'b drive_backend" and ready :: "'b \<Rightarrow> bool" +
  fixes obj :: "'b \<Rightarrow> u16 \<Rightarrow> u8 \<Rightarrow> bytes option"
    and starts :: "ethercat_master_config \<Rightarrow> ethercat_slave_config \<Rightarrow> 'b \<Rightarrow> bool"
  assumes start_iff:
      "fst (bk_initialize bk m b) \<and> fst (bk_configure_slave bk s (snd (bk_initialize bk m b))) \<longleftrightarrow> starts m s b"
    and start_ready: "starts m s b \<Longrightarrow>
      ready (snd (bk_configure_slave bk s (snd (bk_initialize bk m b)))) \<and>
      obj (snd (bk_configure_slave bk s (snd (bk_initialize bk m b)))) = obj b"
    and mapping_obj: "ready b \<Longrightarrow> mapping_index i \<Longrightarrow> length v = mapping_width i j \<Longrightarrow>
      obj (snd (bk_write_sdo bk i j v b)) = obj b"
    and csv_mode: "ready b \<Longrightarrow> fst (bk_write_sdo bk 0x6060 0 [9] b) \<and>
      ready (snd (bk_write_sdo bk 0x6060 0 [9] b)) \<and>
      obj (snd (bk_write_sdo bk 0x6060 0 [9] b)) = (obj b)(0x6061 := (obj b 0x6061)(0 := Some [9]))"
    and read_obj: "ready b \<Longrightarrow> fst (bk_read_sdo bk i j b) = obj b i j \<and>
      ready (snd (bk_read_sdo bk i j b)) \<and> obj (snd (bk_read_sdo bk i j b)) = obj b"
begin

lemma apply_plan_obj:
  assumes "ready b" "\<forall>w \<in> set ws. mapping_index (sw_index w) \<and>
      (\<exists>v. encode_pdo_sdo_value w = Some v \<and> length v = mapping_width (sw_index w) (sw_subindex w))"
  shows "obj (snd (apply_plan (bk_write_sdo bk) err ws b)) = obj b"
  using assms
proof (induction ws arbitrary: b)
  case Nil
  then show ?case by simp
next
  case (Cons w ws)
  then obtain v where v: "encode_pdo_sdo_value w = Some v"
    "length v = mapping_width (sw_index w) (sw_subindex w)" "mapping_index (sw_index w)"
    by auto
  show ?case
    using Cons accepts [OF Cons.prems(1) v(3,2)] mapping_obj [OF Cons.prems(1) v(3,2)] v
    by (simp add: case_prod_beta Let_def)
qed

lemma csv_pdos:
  assumes "ready b"
  shows "fst (write_csv_pdos bk b)" "ready (snd (write_csv_pdos bk b))"
    "obj (snd (write_csv_pdos bk b)) = obj b"
  using apply_plan_ready [OF assms lift_plan_writes] apply_plan_obj [OF assms lift_plan_writes]
  by (simp_all add: write_csv_pdos_def configure_lift_csv_pdos_def build_plan case_prod_beta)

lemma read_validated:
  assumes "ready b"
  shows "fst (read_validated_sdo bk i j az old b) =
      (case object_u32 (obj b) i j of None \<Rightarrow> (False, old) | Some v \<Rightarrow> (az \<or> v \<noteq> 0, v))"
    and "ready (snd (read_validated_sdo bk i j az old b))"
    and "obj (snd (read_validated_sdo bk i j az old b)) = obj b"
  using read_obj [OF assms, of i j]
  by (auto simp: read_validated_sdo_def object_u32_def case_prod_beta Let_def split: option.split)

text \<open>The drive up to the confirmed CSV mode.\<close>

definition bring_up :: "drive_check_params \<Rightarrow> ('b configuring \<Rightarrow> bool \<times> 'b configuring) list" where
  "bring_up k =
     [with_backend (bk_initialize bk (dc_master k)), with_backend (bk_configure_slave bk (dc_slave k)),
      with_backend (write_csv_pdos bk), with_backend (bk_write_sdo bk 0x6060 0 [9]),
      with_backend (confirm_csv_mode bk)]"

lemma bring_up_steps:
  assumes "all_steps (bring_up k) c = (ok, c')"
  shows "ok \<longleftrightarrow> starts (dc_master k) (dc_slave k) (cf_backend c)"
    and "ok \<Longrightarrow> ready (cf_backend c') \<and> cf_units c' = cf_units c \<and> cf_observed_ms c' = cf_observed_ms c \<and>
      obj (cf_backend c') = (obj (cf_backend c))(0x6061 := (obj (cf_backend c) 0x6061)(0 := Some [9]))"
proof -
  let ?m = "dc_master k" and ?s = "dc_slave k" and ?b = "cf_backend c"
  define b0 where "b0 = snd (bk_configure_slave bk ?s (snd (bk_initialize bk ?m ?b)))"
  define b1 where "b1 = snd (write_csv_pdos bk b0)"
  define b2 where "b2 = snd (bk_write_sdo bk 0x6060 0 [9] b1)"
  note steps = assms [unfolded bring_up_def all_steps.simps with_backend_def case_prod_beta Let_def]
  have "(ok \<longleftrightarrow> starts ?m ?s ?b) \<and> (ok \<longrightarrow> ready (cf_backend c') \<and> cf_units c' = cf_units c \<and>
      cf_observed_ms c' = cf_observed_ms c \<and>
      obj (cf_backend c') = (obj ?b)(0x6061 := (obj ?b 0x6061)(0 := Some [9])))"
  proof (cases "starts ?m ?s ?b")
    case False
    then show ?thesis
      using steps start_iff by (auto split: if_splits)
  next
    case True
    then have s: "fst (bk_initialize bk ?m ?b)" "fst (bk_configure_slave bk ?s (snd (bk_initialize bk ?m ?b)))"
      and r0: "ready b0" "obj b0 = obj ?b"
      using start_iff start_ready [OF True] by (auto simp: b0_def)
    note r1 = csv_pdos [OF r0(1), folded b1_def]
    note r2 = csv_mode [OF r1(2), folded b2_def]
    then have r3: "fst (bk_read_sdo bk 0x6061 0 b2) = Some [9]"
      "ready (snd (bk_read_sdo bk 0x6061 0 b2))" "obj (snd (bk_read_sdo bk 0x6061 0 b2)) = obj b2"
      using read_obj [of b2 "0x6061" 0] by auto
    have "ok \<and> c' = c\<lparr>cf_backend := snd (bk_read_sdo bk 0x6061 0 b2)\<rparr>"
      using steps s r1(1) r2 r3 by (simp add: confirm_csv_mode_def b0_def b1_def b2_def case_prod_beta)
    then show ?thesis
      using True r0 r1 r2 r3 by simp
  qed
  then show "ok \<longleftrightarrow> starts ?m ?s ?b" and "ok \<Longrightarrow> ready (cf_backend c') \<and> cf_units c' = cf_units c \<and>
      cf_observed_ms c' = cf_observed_ms c \<and>
      obj (cf_backend c') = (obj ?b)(0x6061 := (obj ?b 0x6061)(0 := Some [9]))"
    by blast+
qed

end

text \<open>The object dictionary after \<open>bring_up\<close> differs only in the mode, which the checks do not read.\<close>

definition mode_shown :: "(u16 \<Rightarrow> u8 \<Rightarrow> bytes option) \<Rightarrow> u16 \<Rightarrow> u8 \<Rightarrow> bytes option" where
  "mode_shown od = od(0x6061 := (od 0x6061)(0 := Some [9]))"

lemma object_mode_shown [simp]: "i \<noteq> 0x6061 \<Longrightarrow> object_u32 (mode_shown od) i j = object_u32 od i j"
  by (simp add: object_u32_def mode_shown_def)

lemma brake_mode_shown: "brake_of_drive (object_u32 (mode_shown od)) k = brake_of_drive (object_u32 od) k"
  by (simp add: brake_of_drive_def)

lemma units_mode_shown: "units_of_drive (object_u32 (mode_shown od)) k u = units_of_drive (object_u32 od) k u"
  by (simp add: units_of_drive_def)

context sdo_drive
begin

lemma read_units_step:
  assumes "ready (cf_backend c)"
  shows "fst (read_units bk i j az get put c) =
      (case object_u32 (obj (cf_backend c)) i j of None \<Rightarrow> False | Some v \<Rightarrow> az \<or> v \<noteq> 0)"
    and "ready (cf_backend (snd (read_units bk i j az get put c)))"
    and "obj (cf_backend (snd (read_units bk i j az get put c))) = obj (cf_backend c)"
    and "object_u32 (obj (cf_backend c)) i j = Some v \<Longrightarrow>
      cf_units (snd (read_units bk i j az get put c)) = put v (cf_units c)"
    and "cf_observed_ms (snd (read_units bk i j az get put c)) = cf_observed_ms c"
  using read_validated [OF assms, of i j az "get (cf_units c)"]
  by (auto simp: read_units_def case_prod_beta Let_def split: option.splits)

lemma read_encoder_step:
  assumes "ready (cf_backend c)"
  shows "fst (read_encoder bk c) = (case object_u32 (obj (cf_backend c)) 0x608F 1 of None \<Rightarrow> False | Some v \<Rightarrow> v \<noteq> 0)"
    and "ready (cf_backend (snd (read_encoder bk c)))"
    and "obj (cf_backend (snd (read_encoder bk c))) = obj (cf_backend c)"
    and "object_u32 (obj (cf_backend c)) 0x608F 1 = Some v \<Longrightarrow> v \<noteq> 0 \<Longrightarrow>
      cf_units (snd (read_encoder bk c)) =
        (cf_units c)\<lparr>uc_encoder_counts_per_rev := v, uc_encoder_counts_denominator := 1\<rparr>"
    and "cf_observed_ms (snd (read_encoder bk c)) = cf_observed_ms c"
  using read_validated [OF assms, of "0x608F" 1 False 0]
  by (auto simp: read_encoder_def case_prod_beta Let_def split: option.splits)

lemma read_objects_values:
  assumes "ready b"
  shows "fst (read_objects bk is b) = those (map (\<lambda>i. object_u32 (obj b) i 0) is)"
    and "ready (snd (read_objects bk is b))" and "obj (snd (read_objects bk is b)) = obj b"
proof -
  have "fst (read_objects bk is b) = those (map (\<lambda>i. object_u32 (obj b) i 0) is) \<and>
      ready (snd (read_objects bk is b)) \<and> obj (snd (read_objects bk is b)) = obj b"
    using assms
  proof (induction "is" arbitrary: b)
    case Nil
    then show ?case by simp
  next
    case (Cons i "is")
    note r = read_validated [OF Cons.prems, of i 0 True 0]
    show ?case
      using r Cons.IH [OF r(2)]
      by (cases "object_u32 (obj b) i 0") (simp_all add: case_prod_beta Let_def)
  qed
  then show "fst (read_objects bk is b) = those (map (\<lambda>i. object_u32 (obj b) i 0) is)"
    "ready (snd (read_objects bk is b))" "obj (snd (read_objects bk is b)) = obj b"
    by blast+
qed

lemma brake_step:
  assumes "ready (cf_backend c)" "validate_brake_parameters bk k c = (ok, c')"
  shows "ok \<longleftrightarrow> brake_of_drive (object_u32 (obj (cf_backend c))) k \<noteq> None"
    and "brake_of_drive (object_u32 (obj (cf_backend c))) k = Some t \<Longrightarrow> cf_observed_ms c' = t"
    and "cf_units c' = cf_units c"
proof -
  let ?o = "object_u32 (obj (cf_backend c))"
  have "fst (read_objects bk brake_objects (cf_backend c)) =
      those [?o 0x2437 0, ?o 0x2438 0, ?o 0x2439 0, ?o 0x2614 0, ?o 0x2506 0, ?o 0x2510 0]"
    using read_objects_values(1) [OF assms(1), of brake_objects] by (simp add: brake_objects_def)
  then show "ok \<longleftrightarrow> brake_of_drive ?o k \<noteq> None"
    and "brake_of_drive ?o k = Some t \<Longrightarrow> cf_observed_ms c' = t" and "cf_units c' = cf_units c"
    using assms(2)
    by (auto simp: validate_brake_parameters_def brake_of_drive_def case_prod_beta Let_def
        split: option.splits if_splits)
qed

end

text \<open>The three stages of \<open>configure_backend\<close>.\<close>

definition unit_reads :: "'b drive_backend \<Rightarrow> ('b configuring \<Rightarrow> bool \<times> 'b configuring) list" where
  "unit_reads bk =
     [read_encoder bk,
      read_units bk 0x6091 1 False uc_gear_ratio_numerator (\<lambda>v u. u\<lparr>uc_gear_ratio_numerator := v\<rparr>),
      read_units bk 0x6091 2 False uc_gear_ratio_denominator (\<lambda>v u. u\<lparr>uc_gear_ratio_denominator := v\<rparr>),
      read_units bk 0x6092 1 False uc_feed_units_numerator (\<lambda>v u. u\<lparr>uc_feed_units_numerator := v\<rparr>),
      read_units bk 0x2008 0 True uc_p00_08_command_units_per_rev
        (\<lambda>v u. u\<lparr>uc_p00_08_command_units_per_rev := v\<rparr>)]"

context sdo_drive
begin

lemma unit_stage:
  assumes "ready (cf_backend c)" "all_steps (unit_reads bk @ [settle_units k]) c = (ok, c')"
  defines "od \<equiv> object_u32 (obj (cf_backend c))"
  shows "ok \<longleftrightarrow> units_of_drive od k (cf_units c) \<noteq> None"
    and "ok \<Longrightarrow> units_of_drive od k (cf_units c) = Some (cf_units c') \<and>
      ready (cf_backend c') \<and> obj (cf_backend c') = obj (cf_backend c) \<and>
      cf_observed_ms c' = cf_observed_ms c"
proof -
  let ?n = "read_units bk 0x6091 1 False uc_gear_ratio_numerator (\<lambda>v u. u\<lparr>uc_gear_ratio_numerator := v\<rparr>)"
  let ?d = "read_units bk 0x6091 2 False uc_gear_ratio_denominator
    (\<lambda>v u. u\<lparr>uc_gear_ratio_denominator := v\<rparr>)"
  let ?f = "read_units bk 0x6092 1 False uc_feed_units_numerator (\<lambda>v u. u\<lparr>uc_feed_units_numerator := v\<rparr>)"
  let ?p = "read_units bk 0x2008 0 True uc_p00_08_command_units_per_rev
    (\<lambda>v u. u\<lparr>uc_p00_08_command_units_per_rev := v\<rparr>)"
  define c1 where "c1 = snd (read_encoder bk c)"
  define c2 where "c2 = snd (?n c1)"
  define c3 where "c3 = snd (?d c2)"
  define c4 where "c4 = snd (?f c3)"
  define c5 where "c5 = snd (?p c4)"
  note s1 = read_encoder_step [OF assms(1), folded c1_def]
  note s2 = read_units_step [OF s1(2), where i = "0x6091" and j = 1 and az = False and
      get = uc_gear_ratio_numerator and put = "\<lambda>v u. u\<lparr>uc_gear_ratio_numerator := v\<rparr>",
      folded c2_def, unfolded s1(3)]
  note s3 = read_units_step [OF s2(2), where i = "0x6091" and j = 2 and az = False and
      get = uc_gear_ratio_denominator and put = "\<lambda>v u. u\<lparr>uc_gear_ratio_denominator := v\<rparr>",
      folded c3_def, unfolded s2(3)]
  note s4 = read_units_step [OF s3(2), where i = "0x6092" and j = 1 and az = False and
      get = uc_feed_units_numerator and put = "\<lambda>v u. u\<lparr>uc_feed_units_numerator := v\<rparr>",
      folded c4_def, unfolded s3(3)]
  note s5 = read_units_step [OF s4(2), where i = "0x2008" and j = 0 and az = True and
      get = uc_p00_08_command_units_per_rev and put = "\<lambda>v u. u\<lparr>uc_p00_08_command_units_per_rev := v\<rparr>",
      folded c5_def, unfolded s4(3)]
  have kept: "ready (cf_backend c5)" "obj (cf_backend c5) = obj (cf_backend c)"
    "cf_observed_ms c5 = cf_observed_ms c"
    using s5 s4(5) s3(5) s2(5) s1(5) by simp_all
  have run: "(ok, c') = (if fst (read_encoder bk c) \<and> fst (?n c1) \<and> fst (?d c2) \<and> fst (?f c3) \<and> fst (?p c4)
      then all_steps [settle_units k] c5 else (False, c'))"
    using assms(2) [symmetric] unfolding unit_reads_def append.simps all_steps.simps case_prod_beta Let_def
      c5_def c4_def c3_def c2_def c1_def by (simp split: if_splits)
  have "(ok \<longleftrightarrow> units_of_drive od k (cf_units c) \<noteq> None) \<and>
      (ok \<longrightarrow> units_of_drive od k (cf_units c) = Some (cf_units c') \<and> cf_backend c' = cf_backend c5 \<and>
        cf_observed_ms c' = cf_observed_ms c5)"
  proof (cases "\<exists>e n d f p. od 0x608F 1 = Some e \<and> od 0x6091 1 = Some n \<and> od 0x6091 2 = Some d \<and>
      od 0x6092 1 = Some f \<and> od 0x2008 0 = Some p \<and> e \<noteq> 0 \<and> n \<noteq> 0 \<and> d \<noteq> 0 \<and> f \<noteq> 0")
    case True
    then obtain e n d f p where v: "od 0x608F 1 = Some e" "od 0x6091 1 = Some n" "od 0x6091 2 = Some d"
      "od 0x6092 1 = Some f" "od 0x2008 0 = Some p" "e \<noteq> 0" "n \<noteq> 0" "d \<noteq> 0" "f \<noteq> 0"
      by blast
    note w = v(1-5) [unfolded od_def]
    have u: "cf_units c5 = (cf_units c)\<lparr>uc_encoder_counts_per_rev := e, uc_encoder_counts_denominator := 1,
        uc_gear_ratio_numerator := n, uc_gear_ratio_denominator := d, uc_feed_units_numerator := f,
        uc_p00_08_command_units_per_rev := p\<rparr>"
      using s5(4) [OF w(5)] s4(4) [OF w(4)] s3(4) [OF w(3)] s2(4) [OF w(2)] s1(4) [OF w(1) v(6)] by simp
    have "(ok, c') = all_steps [settle_units k] c5"
      using run s1(1) s2(1) s3(1) s4(1) s5(1) v w by simp
    then show ?thesis
      using v u by (cases "derive_command_units_per_rev e n d f p")
        (auto simp: settle_units_def units_of_drive_def Let_def case_prod_beta split: if_splits)
  next
    case False
    have "\<not> ok"
    proof
      assume ok
      with run have "fst (read_encoder bk c)" "fst (?n c1)" "fst (?d c2)" "fst (?f c3)" "fst (?p c4)"
        by (auto split: if_splits)
      then show False
        using False s1(1) s2(1) s3(1) s4(1) s5(1) by (auto simp: od_def split: option.splits)
    qed
    moreover have "units_of_drive od k (cf_units c) = None"
      using False by (auto simp: units_of_drive_def dest: derive_nonzero split: option.splits sum.splits)
    ultimately show ?thesis by simp
  qed
  then show "ok \<longleftrightarrow> units_of_drive od k (cf_units c) \<noteq> None"
    and "ok \<Longrightarrow> units_of_drive od k (cf_units c) = Some (cf_units c') \<and>
      ready (cf_backend c') \<and> obj (cf_backend c') = obj (cf_backend c) \<and>
      cf_observed_ms c' = cf_observed_ms c"
    using kept by auto
qed

lemma configure_iff:
  assumes "configure_backend bk k c = (ok, c')"
  defines "od \<equiv> object_u32 (obj (cf_backend c))"
  shows "ok \<longleftrightarrow> starts (dc_master k) (dc_slave k) (cf_backend c) \<and>
      units_of_drive od k (cf_units c) \<noteq> None \<and> brake_of_drive od k \<noteq> None"
    and "ok \<Longrightarrow> units_of_drive od k (cf_units c) = Some (cf_units c') \<and>
      brake_of_drive od k = Some (cf_observed_ms c')"
proof -
  have stages: "configure_backend bk k =
      all_steps (bring_up k @ (unit_reads bk @ [settle_units k]) @ [validate_brake_parameters bk k])"
    by (simp add: configure_backend_def bring_up_def unit_reads_def)
  obtain ok1 c1 where s1: "all_steps (bring_up k) c = (ok1, c1)" by fastforce
  obtain ok2 c2 where s2: "all_steps (unit_reads bk @ [settle_units k]) c1 = (ok2, c2)" by fastforce
  obtain ok3 c3 where v3: "validate_brake_parameters bk k c2 = (ok3, c3)" by fastforce
  note s3 = brake_step [OF _ v3]
  have run: "(ok, c') = (if ok1 then if ok2 then (ok3, c3) else (False, c2) else (False, c1))"
    using assms(1) unfolding stages all_steps_append [of "bring_up k"]
      all_steps_append [of "unit_reads bk @ [settle_units k]"] by (simp add: s1 s2 v3 Let_def split: if_splits)
  show "ok \<longleftrightarrow> starts (dc_master k) (dc_slave k) (cf_backend c) \<and>
      units_of_drive od k (cf_units c) \<noteq> None \<and> brake_of_drive od k \<noteq> None"
    and "ok \<Longrightarrow> units_of_drive od k (cf_units c) = Some (cf_units c') \<and>
      brake_of_drive od k = Some (cf_observed_ms c')"
    using run bring_up_steps [OF s1] unit_stage [OF _ s2] s3
    by (auto simp: od_def units_mode_shown brake_mode_shown mode_shown_def [symmetric] split: if_splits)
qed

end

section \<open>The simulated drive and the placeholder\<close>

definition mock_objects :: "mock_backend \<Rightarrow> u16 \<Rightarrow> u8 \<Rightarrow> bytes option" where
  "mock_objects m = (\<lambda>i j. mock_object i j m)"

definition mock_starts :: "ethercat_master_config \<Rightarrow> ethercat_slave_config \<Rightarrow> mock_backend \<Rightarrow> bool" where
  "mock_starts master slave m \<longleftrightarrow> mc_cycle_period master > 0"

lemma mock_object_frame:
  "mock_object i j (m\<lparr>mb_error_message := e\<rparr>) = mock_object i j m"
  "mock_object i j (m\<lparr>mb_mode := 9\<rparr>) = (if i = 0x6061 \<and> j = 0 then Some [9] else mock_object i j m)"
  by (simp_all add: mock_object_def cong: if_cong)

interpretation mock_drive: sdo_drive mock_methods mb_configured mock_objects mock_starts
proof
  fix b :: mock_backend and m s i j and index :: u16 and subindex :: u8 and v :: bytes
  let ?up = "snd (bk_configure_slave mock_methods s (snd (bk_initialize mock_methods m b)))"
  show "mb_configured b \<Longrightarrow> mapping_index index \<Longrightarrow> length v = mapping_width index subindex \<Longrightarrow>
      fst (bk_write_sdo mock_methods index subindex v b) \<and>
      mb_configured (snd (bk_write_sdo mock_methods index subindex v b))"
    by (simp add: mock_methods_def mock_write_mapping)
  show "\<not> mb_configured b \<Longrightarrow> \<not> fst (bk_write_sdo mock_methods index subindex v b)"
    by (simp add: mock_methods_def mock_write_sdo_def mock_fail_def)
  show "fst (bk_initialize mock_methods m b) \<and>
      fst (bk_configure_slave mock_methods s (snd (bk_initialize mock_methods m b))) \<longleftrightarrow> mock_starts m s b"
    by (simp add: mock_methods_def mock_initialize_def mock_configure_slave_def mock_starts_def Let_def)
  show "mock_starts m s b \<Longrightarrow> mb_configured ?up \<and> mock_objects ?up = mock_objects b"
    by (simp add: mock_methods_def mock_initialize_def mock_configure_slave_def mock_starts_def Let_def
        mock_objects_def mock_object_def cong: if_cong)
  show "mb_configured b \<Longrightarrow> mapping_index i \<Longrightarrow> length v = mapping_width i j \<Longrightarrow>
      mock_objects (snd (bk_write_sdo mock_methods i j v b)) = mock_objects b"
    by (simp add: mock_methods_def mock_write_mapping)
  show "mb_configured b \<Longrightarrow> fst (bk_write_sdo mock_methods 0x6060 0 [9] b) \<and>
      mb_configured (snd (bk_write_sdo mock_methods 0x6060 0 [9] b)) \<and>
      mock_objects (snd (bk_write_sdo mock_methods 0x6060 0 [9] b)) =
        (mock_objects b)(0x6061 := (mock_objects b 0x6061)(0 := Some [9]))"
    by (simp add: mock_methods_def mock_write_sdo_def mock_objects_def mock_object_frame fun_eq_iff)
  show "mb_configured b \<Longrightarrow> fst (bk_read_sdo mock_methods i j b) = mock_objects b i j \<and>
      mb_configured (snd (bk_read_sdo mock_methods i j b)) \<and>
      mock_objects (snd (bk_read_sdo mock_methods i j b)) = mock_objects b"
    by (simp add: mock_methods_def mock_read_sdo_def mock_objects_def mock_object_frame split: option.split)
qed

definition unavailable_methods :: "unit drive_backend" where
  "unavailable_methods = \<lparr>bk_initialize = \<lambda>_ b. (False, b), bk_configure_slave = \<lambda>_ b. (False, b),
     bk_write_sdo = unavailable_write_sdo, bk_read_sdo = \<lambda>_ _ b. (None, b),
     bk_error_message = \<lambda>_. br_error_message unavailable_report\<rparr>"

interpretation unavailable_drive: sdo_drive unavailable_methods "\<lambda>_. False" "\<lambda>_ _ _. None" "\<lambda>_ _ _. False"
  by unfold_locales (simp_all add: unavailable_methods_def unavailable_write_sdo_def)

text \<open>C8: Bringing the drive up accepts exactly the drives whose objects pass every check, for the simulated
  drive: the cycle is positive, the unit objects are present, non-zero where they must be, consistent
  and in agreement with the configured value, and the six brake objects lie in the ranges of the
  manual and equal every configured value. Then the driver holds the units and the brake release
  time of these objects.\<close>

theorem configure_backend_exact:
  "case configure_backend mock_methods k c of (ok, c') \<Rightarrow>
     let od = object_u32 (mock_objects (cf_backend c));
         units = units_of_drive od k (cf_units c); brake = brake_of_drive od k
     in if ok then mc_cycle_period (dc_master k) > 0 \<and> units = Some (cf_units c') \<and>
              brake = Some (cf_observed_ms c')
        else \<not> (mc_cycle_period (dc_master k) > 0 \<and> units \<noteq> None \<and> brake \<noteq> None)"
proof -
  obtain ok c' where r: "configure_backend mock_methods k c = (ok, c')" by fastforce
  show ?thesis
    using mock_drive.configure_iff [OF r] by (cases ok) (auto simp: r Let_def mock_starts_def)
qed

lemma placeholder_refused: "\<not> fst (configure_backend unavailable_methods k c)"
  using unavailable_drive.configure_iff(1) [of k c] by (metis prod.collapse)

text \<open>A configured mode that does not parse is treated like no expectation.\<close>

lemma malformed_mode_unchecked: "\<not> mode_mismatch ''three'' actual"
  by (simp add: mode_mismatch_def expected_mode_def parse_unsigned_def split_sign_def c_space_def
      magnitude_def digits_value_def digit_value_def)

section \<open>Read-only diagnostics\<close>

text \<open>\<open>read_drive_objects_text\<close>. A shift by 64 or more bits is undefined in C++, so a value of more than
  eight bytes has no text.\<close>

definition hex_text :: "u64 \<Rightarrow> nat \<Rightarrow> string option" where
  "hex_text value width =
     (if width > 16 then None
      else Some (map (\<lambda>i. hex_digit (unat (drop_bit (4 * i) value AND 0xF))) (rev [0..<width])))"

definition kEntries :: "(u16 \<times> u8 \<times> string) list" where
  "kEntries =
     [(0x2015, 0x00, ''P00.15 absolute encoder setting''), (0x6060, 0x00, ''6060h mode of operation''),
      (0x6061, 0x00, ''6061h mode display''), (0x603F, 0x00, ''603Fh error code''),
      (0x6502, 0x00, ''6502h supported drive modes''), (0x5500, 0x01, ''5500h:01 multi-turn count''),
      (0x5500, 0x02, ''5500h:02 single-turn position''), (0x2663, 0x00, ''P06.63 multi-turn upper limit''),
      (0x6064, 0x00, ''6064h position actual value'')]"

definition raw_u64 :: "bytes \<Rightarrow> u64" where
  "raw_u64 bs = fold (\<lambda>i raw. raw OR push_bit (8 * i) (ucast (bs ! i))) [0..<min (length bs) 8] 0"

definition value_text :: "bytes \<Rightarrow> string option" where
  "value_text bs =
     map_option (\<lambda>hex. ''0x'' @ hex @ '' ('' @ show_nat (unat (raw_u64 bs)) @
         (if length bs = 4 then '' / '' @ show_int (sint (ucast (raw_u64 bs) :: i32))
          else if length bs = 2 then '' / '' @ show_int (sint (ucast (raw_u64 bs) :: i16))
          else '''') @ '')'')
       (hex_text (raw_u64 bs) (length bs * 2))"

definition entry_text :: "'b drive_backend \<Rightarrow> u16 \<times> u8 \<times> string \<Rightarrow> 'b \<Rightarrow> string option \<times> 'b" where
  "entry_text bk = (\<lambda>(index, subindex, name) b.
     let (r, b) = bk_read_sdo bk index subindex b;
         body = (case r of None \<Rightarrow> Some (''READ_FAILED('' @ bk_error_message bk b @ '')'') | Some bs \<Rightarrow> value_text bs)
     in (map_option (\<lambda>t. ''0x'' @ the (hex_text (ucast index) 4) @ '':'' @ the (hex_text (ucast subindex) 2) @
           '' '' @ name @ '' = '' @ t @ ''; '') body, b))"

fun entries_text :: "'b drive_backend \<Rightarrow> (u16 \<times> u8 \<times> string) list \<Rightarrow> 'b \<Rightarrow> string option \<times> 'b" where
  "entries_text bk [] b = (Some [], b)"
| "entries_text bk (e # es) b =
     (let (t, b) = entry_text bk e b; (ts, b) = entries_text bk es b
      in (case (t, ts) of (Some t, Some ts) \<Rightarrow> Some (t @ ts) | _ \<Rightarrow> None, b))"

definition read_drive_objects_text :: "'b drive_backend \<Rightarrow> 'b \<Rightarrow> string option \<times> 'b" where
  "read_drive_objects_text bk = entries_text bk kEntries"

text \<open>The reply of the service: success and message.\<close>

definition drive_objects_reply :: "string \<Rightarrow> bool \<times> string" where
  "drive_objects_reply text = (\<not> contains ''READ_FAILED'' text, text)"

text \<open>What each read delivers, in order.\<close>

fun read_results :: "'b drive_backend \<Rightarrow> (u16 \<times> u8 \<times> string) list \<Rightarrow> 'b \<Rightarrow> bytes option list" where
  "read_results bk [] b = []"
| "read_results bk ((i, j, name) # es) b =
     (let (r, b) = bk_read_sdo bk i j b in r # read_results bk es b)"

text \<open>The underscore marks a failed read.\<close>

abbreviation (input) "mark \<equiv> CHR ''_''"

lemma decimal_no_mark: "mark \<notin> set (show_nat n)" "mark \<notin> set (show_int i)"
proof -
  show n: "mark \<notin> set (show_nat n)" for n
    using show_nat_value(1) [of n] by (auto simp: decimal_def list_all_iff digit_value_def)
  then show "mark \<notin> set (show_int i)"
    by (simp add: show_int_def)
qed

lemma hex_digit_no_mark: "hex_digit (unat (w AND 0xF :: u64)) \<noteq> mark"
proof -
  have "unat (w AND 0xF :: u64) \<le> unat (0xF :: u64)"
    by (rule word_and_le1 [unfolded word_le_nat_alt])
  then have "unat (w AND 0xF) < 16" by simp
  moreover have "\<forall>n < 16. hex_digit n \<noteq> mark"
    by (simp add: hex_digit_def numeral_eq_Suc All_less_Suc)
  ultimately show ?thesis by blast
qed

lemma hex_no_mark: "hex_text w n = Some t \<Longrightarrow> mark \<notin> set t"
  using hex_digit_no_mark by (fastforce simp: hex_text_def dest: sym split: if_splits)

lemma value_no_mark: "value_text bs = Some t \<Longrightarrow> mark \<notin> set t"
  using hex_no_mark [of "raw_u64 bs" "length bs * 2"] decimal_no_mark
  by (auto simp: value_text_def split: if_splits)

lemma entry_mark:
  assumes "entry_text bk (i, j, name) b = (Some t, b')" "mark \<notin> set name"
  shows "fst (bk_read_sdo bk i j b) = None \<Longrightarrow> contains ''READ_FAILED'' t"
    and "fst (bk_read_sdo bk i j b) \<noteq> None \<Longrightarrow> mark \<notin> set t"
    and "b' = snd (bk_read_sdo bk i j b)"
proof -
  obtain hi hj where h: "hex_text (ucast i) 4 = Some hi" "hex_text (ucast j) 2 = Some hj"
    by (simp add: hex_text_def)
  note e = assms(1) [unfolded entry_text_def case_prod_beta Let_def]
  show "contains ''READ_FAILED'' t" if "fst (bk_read_sdo bk i j b) = None"
  proof -
    have "\<exists>x y. t = x @ ''READ_FAILED'' @ y"
      using e that by (simp add: h) (metis append.assoc append_Cons append_Nil)
    then show ?thesis by (simp add: contains_iff)
  qed
  show "mark \<notin> set t" if "fst (bk_read_sdo bk i j b) \<noteq> None"
    using e that assms(2) hex_no_mark [OF h(1)] hex_no_mark [OF h(2)] by (auto simp: h dest: value_no_mark)
  show "b' = snd (bk_read_sdo bk i j b)"
    using e by simp
qed

lemma entries_mark:
  assumes "entries_text bk es b = (Some t, b')" "\<forall>(i, j, name) \<in> set es. mark \<notin> set name"
  shows "(None \<in> set (read_results bk es b) \<longrightarrow> contains ''READ_FAILED'' t) \<and>
    (None \<notin> set (read_results bk es b) \<longrightarrow> mark \<notin> set t)"
  using assms
proof (induction es arbitrary: b t)
  case Nil
  then show ?case by simp
next
  case (Cons e es)
  obtain i j name where e: "e = (i, j, name)" by (cases e)
  obtain t1 b1 t2 where t: "entry_text bk (i, j, name) b = (Some t1, b1)" "t = t1 @ t2"
    "entries_text bk es b1 = (Some t2, b')"
    using Cons.prems(1) by (auto simp: e case_prod_beta Let_def prod_eq_iff split: option.splits)
  have n: "mark \<notin> set name" and rest: "\<forall>(i, j, name) \<in> set es. mark \<notin> set name"
    using Cons.prems(2) by (auto simp: e)
  note one = entry_mark [OF t(1) n]
  have "(None \<in> set (read_results bk es b1) \<longrightarrow> contains ''READ_FAILED'' t2) \<and>
      (None \<notin> set (read_results bk es b1) \<longrightarrow> mark \<notin> set t2)"
    by (rule Cons.IH [OF t(3) rest])
  moreover have "contains ''READ_FAILED'' t1 \<Longrightarrow> contains ''READ_FAILED'' t"
    using contains_mono [of _ t1 "[]" t2] t(2) by simp
  moreover have "contains ''READ_FAILED'' t2 \<Longrightarrow> contains ''READ_FAILED'' t"
    using contains_mono [of _ t2 t1 "[]"] t(2) by simp
  ultimately show ?case
    using one t(2) by (cases "fst (bk_read_sdo bk i j b)") (auto simp: e case_prod_beta Let_def)
qed

text \<open>The diagnostic service reports success exactly when all nine objects were read; its search for the
  failure mark in the text never mistakes a name or a value for a failure and never misses one.\<close>

theorem drive_objects_success_iff:
  assumes "read_drive_objects_text bk b = (Some text, b')"
  shows "fst (drive_objects_reply text) \<longleftrightarrow> None \<notin> set (read_results bk kEntries b)"
proof -
  have "\<forall>(i, j, name) \<in> set kEntries. mark \<notin> set name"
    by (simp add: kEntries_def)
  from entries_mark [OF assms [unfolded read_drive_objects_text_def] this]
  have "contains ''READ_FAILED'' text \<longleftrightarrow> None \<in> set (read_results bk kEntries b)"
    unfolding contains_iff by auto
  then show ?thesis by (simp add: drive_objects_reply_def)
qed

theorem drive_objects_success_iff_witness:
  "\<exists>text b'. read_drive_objects_text mock_methods mock_new = (Some text, b') \<and>
     \<not> fst (drive_objects_reply text)"
proof -
  have run: "fst (read_drive_objects_text mock_methods mock_new) \<noteq> None \<and>
      None \<in> set (read_results mock_methods kEntries mock_new)"
    by code_simp
  then obtain message b' where r: "read_drive_objects_text mock_methods mock_new = (Some message, b')"
    by (metis option.exhaust prod.collapse)
  with drive_objects_success_iff [OF r] run show ?thesis by blast
qed

end
