(* ===== verification/LiftParameters.thy ===== *)
theory LiftParameters
  imports LiftConfigure LiftMotion LiftMaintenance
begin

text \<open>
  Parsing of the hardware parameters (\<open>parse_parameters\<close> of \<open>lift/lift_hardware.cpp\<close> with \<open>parse_bool\<close>,
  \<open>get_int\<close>, \<open>get_uint32\<close>, \<open>get_double\<close>, \<open>get_optional\<close>): a map from names to texts is turned into the
  members the driver uses, in the order of the code, one step per parameter. A step either gives the
  new members or refuses. Two members that the models of the driver keep in two records
  (the release time, two brake values, the working counter, the slave address) are set in both.
\<close>

section \<open>Texts to values\<close>

definition to_lower :: "char \<Rightarrow> char" where
  "to_lower c = (let n = of_char c :: nat in if 65 \<le> n \<and> n \<le> 90 then char_of (n + 32) else c)"

definition parse_bool :: "string \<Rightarrow> bool option" where
  "parse_bool s =
     (let n = map to_lower s
      in if n = ''true'' \<or> n = ''1'' \<or> n = ''yes'' \<or> n = ''on'' then Some True
         else if n = ''false'' \<or> n = ''0'' \<or> n = ''no'' \<or> n = ''off'' then Some False
         else None)"

text \<open>\<open>std::stoll\<close> and \<open>std::stoull\<close> with base 0 and the whole text consumed are \<open>parse_signed\<close> and
  \<open>parse_unsigned\<close> of the zero offset store, which uses the same functions of the library.\<close>

definition parse_int :: "string \<Rightarrow> int option" where
  "parse_int s = (case parse_signed s of None \<Rightarrow> None
     | Some v \<Rightarrow> if v < - 2147483648 \<or> v > 2147483647 then None else Some v)"

definition parse_u32 :: "string \<Rightarrow> u32 option" where
  "parse_u32 s = (case parse_unsigned s of None \<Rightarrow> None
     | Some v \<Rightarrow> if v > 4294967295 then None else Some (ucast v))"

text \<open>\<open>std::stod\<close>: the value of a text it consumes completely and that is finite. Decimal and
  hexadecimal numbers with a fraction and an exponent; overflow and underflow throw. Texts of infinities
  and NaN have no value here because \<open>get_double\<close> refuses them.\<close>

definition scan_digits :: "nat \<Rightarrow> string \<Rightarrow> (nat \<times> nat \<times> string) option" where
  "scan_digits base s =
     (let digit = (\<lambda>c. digit_value c < base);
          whole = takeWhile digit s; rest = dropWhile digit s;
          (fraction, rest) = (case rest of
             c # r \<Rightarrow> if c = CHR ''.'' then (takeWhile digit r, dropWhile digit r) else ([], rest)
           | [] \<Rightarrow> ([], []))
      in if whole @ fraction = [] then None
         else Some (fold (\<lambda>c acc. acc * base + digit_value c) (whole @ fraction) 0, length fraction, rest))"

definition scan_exponent :: "string \<Rightarrow> string \<Rightarrow> int option" where
  "scan_exponent marks s =
     (case s of [] \<Rightarrow> Some 0
      | c # r \<Rightarrow>
          if c \<notin> set marks then None
          else let (neg, digits) = split_sign r
               in map_option (\<lambda>n. if neg then - int n else int n) (digits_value 10 digits))"

definition scaled :: "nat \<Rightarrow> real \<Rightarrow> int \<Rightarrow> real" where
  "scaled m base e = (if 0 \<le> e then real m * base ^ nat e else real m / base ^ nat (- e))"

definition stod_magnitude :: "string \<Rightarrow> real option" where
  "stod_magnitude s =
     (let hex = (case s of c # d # _ \<Rightarrow> c = CHR ''0'' \<and> (d = CHR ''x'' \<or> d = CHR ''X'') | _ \<Rightarrow> False)
      in if hex then
           (case scan_digits 16 (drop 2 s) of None \<Rightarrow> None
            | Some (m, k, r) \<Rightarrow> map_option (\<lambda>e. scaled m 2 (e - 4 * int k)) (scan_exponent ''pP'' r))
         else
           (case scan_digits 10 s of None \<Rightarrow> None
            | Some (m, k, r) \<Rightarrow> map_option (\<lambda>e. scaled m 10 (e - int k)) (scan_exponent ''eE'' r)))"

text \<open>The least magnitude that rounds to infinity, and the least normal one.\<close>

definition overflow_bound :: real where "overflow_bound = 2 ^ 1024 - 2 ^ 970"

definition min_normal :: real where "min_normal = 1 / 2 ^ 1022"

definition parse_double :: "string \<Rightarrow> double option" where
  "parse_double s =
     (let (neg, body) = split_sign (dropWhile c_space s)
      in case stod_magnitude body of None \<Rightarrow> None
         | Some v \<Rightarrow>
             if v \<ge> overflow_bound \<or> (0 < v \<and> v < min_normal) then None
             else Some (Fin (if neg then - v else v)))"

section \<open>The members\<close>

type_synonym hardware_parameters = "string \<Rightarrow> string option"

record params =
  pa_mp :: motion_params
  pa_dp :: drive_params
  pa_ly :: lifecycle_params
  pa_mt :: maint_params
  pa_dc :: drive_check_params
  pa_motion_command_period_ms :: int
  pa_reset_velocity_period_ms :: int
  pa_cia :: cia402_controller

type_synonym param_step = "hardware_parameters \<Rightarrow> params \<Rightarrow> params option"

definition upd_mp :: "(motion_params \<Rightarrow> motion_params) \<Rightarrow> params \<Rightarrow> params" where
  "upd_mp f p = p\<lparr>pa_mp := f (pa_mp p)\<rparr>"

definition upd_dp :: "(drive_params \<Rightarrow> drive_params) \<Rightarrow> params \<Rightarrow> params" where
  "upd_dp f p = p\<lparr>pa_dp := f (pa_dp p)\<rparr>"

definition upd_ly :: "(lifecycle_params \<Rightarrow> lifecycle_params) \<Rightarrow> params \<Rightarrow> params" where
  "upd_ly f p = p\<lparr>pa_ly := f (pa_ly p)\<rparr>"

definition upd_mt :: "(maint_params \<Rightarrow> maint_params) \<Rightarrow> params \<Rightarrow> params" where
  "upd_mt f p = p\<lparr>pa_mt := f (pa_mt p)\<rparr>"

definition upd_dc :: "(drive_check_params \<Rightarrow> drive_check_params) \<Rightarrow> params \<Rightarrow> params" where
  "upd_dc f p = p\<lparr>pa_dc := f (pa_dc p)\<rparr>"

definition upd_units :: "(lift_unit_config \<Rightarrow> lift_unit_config) \<Rightarrow> params \<Rightarrow> params" where
  "upd_units f = upd_dp (\<lambda>d. d\<lparr>dp_unit_config := f (dp_unit_config d)\<rparr>)"

definition upd_master :: "(ethercat_master_config \<Rightarrow> ethercat_master_config) \<Rightarrow> params \<Rightarrow> params" where
  "upd_master f = upd_dc (\<lambda>d. d\<lparr>dc_master := f (dc_master d)\<rparr>)"

definition upd_slave :: "(ethercat_slave_config \<Rightarrow> ethercat_slave_config) \<Rightarrow> params \<Rightarrow> params" where
  "upd_slave f = upd_dc (\<lambda>d. d\<lparr>dc_slave := f (dc_slave d)\<rparr>)"

text \<open>The initial values of the members (\<open>lift_hardware.hpp\<close>).\<close>

definition params_default :: params where
  "params_default =
     \<lparr>pa_mp = \<lparr>pm_max_rpm = 0, pm_position_limit_recovery_max_rpm = 300, pm_stop_window_max_rpm = 10,
        pm_overshoot_recovery_max_rpm = 10, pm_stop_target_stable_ms = 50, pm_reset_velocity_rpm = 96,
        pm_kp_rpm_per_m = Fin 3000, pm_kd_rpm_per_mps = Fin 300, pm_deadband_m = Fin (1 / 1000),
        pm_slowdown_distance_m = Fin (6 / 1000), pm_stop_window_m = Fin (2 / 1000),
        pm_velocity_slew_rpm_per_s = Fin 600, pm_stop_slew_rpm_per_s = 0,
        pm_brake_accel_rpm_per_s = Fin 1200, pm_overshoot_guard_window_m = Fin (6 / 1000),
        pm_stationary_velocity_threshold_mps = Fin (1 / 1000), pm_command_epsilon_m = Fin (5 / 10000),
        pm_command_epsilon_rpm = 1, pm_position_min_m = NaN, pm_position_max_m = NaN,
        pm_reset_max_search_travel_m = Fin (85 / 100), pm_limit_switch_enabled = False,
        pm_limit_switch_active_high = True, pm_limit_switch_positive_bit = - 1,
        pm_limit_switch_negative_bit = - 1, pm_direct_stop_in_stop_window = False\<rparr>,
      pa_dp = \<lparr>dp_unit_config = lift_unit_config_default, dp_expected_working_counter = 1,
        dp_feedback_timeout_ms = 100, dp_brake_release_wait_ms = - 1,
        dp_mode_mismatch_debounce_cycles = 5, dp_transport_recovery_required_cycles = 5,
        dp_reset_velocity_timeout_ms = 1000, dp_brake_p04_39_rpm = 30, dp_brake_p06_14_ms = 500,
        dp_feedback_filter_alpha = Fin (2 / 10), dp_max_feedback_velocity_mps = NaN,
        dp_feedback_velocity_tolerance_mps = Fin (3 / 1000), dp_brake_control_enabled = False,
        dp_auto_fault_reset = True, dp_startup_motion_guard_enabled = True,
        dp_reset_velocity_debug_enabled = False, dp_has_velocity_command = False,
        dp_has_acceleration_command = False, dp_use_persistent_zero_offset = True,
        dp_backend_name = ''unavailable'', dp_motor_id = ''LVM08008H3G3-M17'', dp_slave_alias = 0,
        dp_slave_position = 0, dp_zero_offset_file = ''/tmp/joint_hardware_lift_zero_offset.cfg''\<rparr>,
      pa_ly = \<lparr>ly_max_feedback_jump_m = Fin (2 / 10), ly_max_fault_reset_attempts = 3,
        ly_fault_reset_backoff_ms = 100, ly_startup_motion_guard_ms = 3000\<rparr>,
      pa_mt = \<lparr>mt_homing_method = 19, mt_homing_speed_high_units_s = 10000,
        mt_homing_speed_low_units_s = 5000, mt_homing_acceleration_units_s2 = 500000,
        mt_homing_offset_units = 0, mt_homing_timeout_ms = 60000, mt_drive_zero_timeout_ms = 5000\<rparr>,
      pa_dc = \<lparr>dc_master = master_config_default, dc_slave = slave_config_default,
        dc_configured_command_units_per_rev = 10000, dc_command_units_parameter_set = False,
        dc_brake_p04_37_ms = 150, dc_brake_release_wait_ms = - 1, dc_brake_p04_39_rpm = 30,
        dc_brake_p06_14_ms = 500, dc_brake_p05_06_mode = ''drive_default'',
        dc_brake_p05_10_mode = ''drive_default''\<rparr>,
      pa_motion_command_period_ms = 10, pa_reset_velocity_period_ms = 50, pa_cia = cia402_init 3 10\<rparr>"

section \<open>Steps\<close>

fun run_steps :: "param_step list \<Rightarrow> hardware_parameters \<Rightarrow> params \<Rightarrow> params option" where
  "run_steps [] info p = Some p"
| "run_steps (s # ss) info p = (case s info p of None \<Rightarrow> None | Some p \<Rightarrow> run_steps ss info p)"

text \<open>\<open>get_optional\<close> and \<open>get_bool_optional\<close>: an absent parameter keeps the member.\<close>

definition get_optional :: "(string \<Rightarrow> 'a option) \<Rightarrow> string \<Rightarrow> ('a \<Rightarrow> params \<Rightarrow> params) \<Rightarrow> param_step" where
  "get_optional parser key put info p =
     (case info key of None \<Rightarrow> Some p | Some s \<Rightarrow> map_option (\<lambda>v. put v p) (parser s))"

text \<open>The calls whose result the code drops.\<close>

definition get_ignoring :: "(string \<Rightarrow> 'a option) \<Rightarrow> string \<Rightarrow> ('a \<Rightarrow> params \<Rightarrow> params) \<Rightarrow> param_step" where
  "get_ignoring parser key put info p =
     Some (case get_optional parser key put info p of None \<Rightarrow> p | Some q \<Rightarrow> q)"

definition get_string :: "string \<Rightarrow> (string \<Rightarrow> params \<Rightarrow> params) \<Rightarrow> param_step" where
  "get_string key put info p = Some (case info key of None \<Rightarrow> p | Some s \<Rightarrow> put s p)"

definition check :: "(params \<Rightarrow> bool) \<Rightarrow> param_step" where
  "check P info p = (if P p then Some p else None)"

text \<open>A local variable with a default takes the parameter; \<open>put\<close> refuses it or stores it.\<close>

definition get_local ::
  "(string \<Rightarrow> 'a option) \<Rightarrow> string \<Rightarrow> 'a \<Rightarrow> ('a \<Rightarrow> params \<Rightarrow> params option) \<Rightarrow> param_step" where
  "get_local parser key initial put info p =
     (case (case info key of None \<Rightarrow> Some initial | Some s \<Rightarrow> parser s) of
        None \<Rightarrow> None | Some v \<Rightarrow> put v p)"

section \<open>parse\_parameters\<close>

text \<open>A malformed \<open>feedback_timeout_ms\<close> skips the test of its sign and keeps the default.\<close>

definition feedback_timeout_step :: param_step where
  "feedback_timeout_step info p =
     (case get_optional parse_int ''feedback_timeout_ms''
          (\<lambda>v. upd_dp (\<lambda>m. m\<lparr>dp_feedback_timeout_ms := v\<rparr>)) info p of
        None \<Rightarrow> Some p
      | Some q \<Rightarrow> if dp_feedback_timeout_ms (pa_dp q) \<le> 0 then None else Some q)"

definition u16_member :: "(u16 \<Rightarrow> params \<Rightarrow> params) \<Rightarrow> int \<Rightarrow> params \<Rightarrow> params option" where
  "u16_member put v p = (if v < 0 \<or> v > 65535 then None else Some (put (word_of_int v) p))"

definition transport_steps :: "param_step list" where
  "transport_steps =
     [get_string ''ethercat_backend'' (\<lambda>v. upd_dp (\<lambda>m. m\<lparr>dp_backend_name := v\<rparr>)),
      get_string ''motor_id'' (\<lambda>v. upd_dp (\<lambda>m. m\<lparr>dp_motor_id := v\<rparr>)),
      get_string ''zero_offset_file'' (\<lambda>v. upd_dp (\<lambda>m. m\<lparr>dp_zero_offset_file := v\<rparr>)),
      get_optional parse_bool ''use_persistent_zero_offset''
        (\<lambda>v. upd_dp (\<lambda>m. m\<lparr>dp_use_persistent_zero_offset := v\<rparr>)),
      get_string ''ethercat_interface'' (\<lambda>v. upd_master (\<lambda>m. m\<lparr>mc_interface_name := v\<rparr>)),
      get_optional parse_u32 ''ethercat_master_index'' (\<lambda>v. upd_master (\<lambda>m. m\<lparr>mc_master_index := v\<rparr>)),
      get_local parse_int ''ethercat_cycle_ms'' 10 (\<lambda>v p.
        if v \<le> 0 \<or> v \<noteq> 10 then None
        else Some (upd_master (\<lambda>m. m\<lparr>mc_cycle_period := ms_to_ns v\<rparr>) p)),
      feedback_timeout_step,
      get_optional parse_u32 ''expected_working_counter''
        (\<lambda>v. upd_dp (\<lambda>m. m\<lparr>dp_expected_working_counter := v\<rparr>)),
      check (\<lambda>p. dp_expected_working_counter (pa_dp p) \<noteq> 0),
      \<lambda>info p. Some (upd_master (\<lambda>m. m\<lparr>mc_expected_working_counter := dp_expected_working_counter (pa_dp p)\<rparr>) p),
      get_local parse_int ''slave_alias'' 0 (u16_member (\<lambda>v.
        upd_slave (\<lambda>m. m\<lparr>sc_alias := v\<rparr>) \<circ> upd_dp (\<lambda>m. m\<lparr>dp_slave_alias := v\<rparr>))),
      get_local parse_int ''slave_position'' 0 (u16_member (\<lambda>v.
        upd_slave (\<lambda>m. m\<lparr>sc_position := v\<rparr>) \<circ> upd_dp (\<lambda>m. m\<lparr>dp_slave_position := v\<rparr>))),
      get_ignoring parse_u32 ''slave_vendor_id'' (\<lambda>v. upd_slave (\<lambda>m. m\<lparr>sc_vendor_id := v\<rparr>)),
      get_ignoring parse_u32 ''slave_product_code'' (\<lambda>v. upd_slave (\<lambda>m. m\<lparr>sc_product_code := v\<rparr>)),
      get_ignoring parse_u32 ''pdo_rx_logical_address'' (\<lambda>v. upd_slave (\<lambda>m. m\<lparr>sc_rx_pdo_logical_address := v\<rparr>)),
      get_ignoring parse_u32 ''pdo_tx_logical_address'' (\<lambda>v. upd_slave (\<lambda>m. m\<lparr>sc_tx_pdo_logical_address := v\<rparr>)),
      \<lambda>info p. get_local parse_u32 ''dc_assign_activate'' (ucast (sc_dc_assign_activate (dc_slave (pa_dc p))))
        (\<lambda>v. u16_member (\<lambda>v. upd_slave (\<lambda>m. m\<lparr>sc_dc_assign_activate := v\<rparr>)) (uint v)) info p,
      get_optional parse_int ''dc_sync0_shift_ns''
        (\<lambda>v. upd_slave (\<lambda>m. m\<lparr>sc_dc_sync0_shift_ns := word_of_int v\<rparr>)),
      \<lambda>info p. get_local parse_u32 ''pdo_rx_bytes'' (ucast (sc_rx_pdo_bytes (dc_slave (pa_dc p))))
        (\<lambda>v. u16_member (\<lambda>v. upd_slave (\<lambda>m. m\<lparr>sc_rx_pdo_bytes := v\<rparr>)) (uint v)) info p,
      \<lambda>info p. get_local parse_u32 ''pdo_tx_bytes'' (ucast (sc_tx_pdo_bytes (dc_slave (pa_dc p))))
        (\<lambda>v. u16_member (\<lambda>v. upd_slave (\<lambda>m. m\<lparr>sc_tx_pdo_bytes := v\<rparr>)) (uint v)) info p,
      check (\<lambda>p. sc_rx_pdo_bytes (dc_slave (pa_dc p)) = 8 \<and> sc_tx_pdo_bytes (dc_slave (pa_dc p)) = 17)]"

text \<open>The limits are exchanged when they come in the wrong order.\<close>

definition order_limits :: "motion_params \<Rightarrow> motion_params" where
  "order_limits m =
     (if pm_position_min_m m > pm_position_max_m m
      then m\<lparr>pm_position_min_m := pm_position_max_m m, pm_position_max_m := pm_position_min_m m\<rparr> else m)"

definition unit_steps :: "param_step list" where
  "unit_steps =
     [\<lambda>info p. Some (upd_dc (\<lambda>m. m\<lparr>dc_command_units_parameter_set :=
        info ''command_units_per_rev'' \<noteq> None\<rparr>) p),
      get_optional parse_u32 ''command_units_per_rev''
        (\<lambda>v. upd_dc (\<lambda>m. m\<lparr>dc_configured_command_units_per_rev := v\<rparr>)),
      check (\<lambda>p. dc_configured_command_units_per_rev (pa_dc p) \<noteq> 0),
      \<lambda>info p. Some (upd_units (\<lambda>m. m\<lparr>uc_command_units_per_rev :=
        dc_configured_command_units_per_rev (pa_dc p)\<rparr>) p),
      get_optional parse_u32 ''encoder_counts_per_rev''
        (\<lambda>v. upd_units (\<lambda>m. m\<lparr>uc_encoder_counts_per_rev := v\<rparr>)),
      check (\<lambda>p. uc_encoder_counts_per_rev (dp_unit_config (pa_dp p)) \<noteq> 0),
      get_optional parse_double ''lift_sign'' (\<lambda>v. upd_units (\<lambda>m. m\<lparr>uc_lift_sign := v\<rparr>)),
      get_optional parse_double ''lead_mm_per_rev'' (\<lambda>v. upd_units (\<lambda>m. m\<lparr>uc_lead_mm_per_rev := v\<rparr>)),
      get_optional parse_double ''position_min_m'' (\<lambda>v. upd_mp (\<lambda>m. m\<lparr>pm_position_min_m := v\<rparr>)),
      get_optional parse_double ''position_max_m'' (\<lambda>v. upd_mp (\<lambda>m. m\<lparr>pm_position_max_m := v\<rparr>)),
      get_optional parse_double ''reset_max_search_travel_m''
        (\<lambda>v. upd_mp (\<lambda>m. m\<lparr>pm_reset_max_search_travel_m := v\<rparr>)),
      check (\<lambda>p. isfinite (pm_position_min_m (pa_mp p)) \<and> isfinite (pm_position_max_m (pa_mp p))),
      \<lambda>info p. Some (upd_mp order_limits p),
      check (\<lambda>p. isfinite (pm_reset_max_search_travel_m (pa_mp p)) \<and>
        \<not> pm_reset_max_search_travel_m (pa_mp p) \<le> 0),
      get_optional parse_int ''max_rpm'' (\<lambda>v. upd_mp (\<lambda>m. m\<lparr>pm_max_rpm := v\<rparr>)),
      check (\<lambda>p. \<not> pm_max_rpm (pa_mp p) \<le> 0)]"

text \<open>The legacy names.\<close>

definition tuning_steps :: "param_step list" where
  "tuning_steps =
     [get_optional parse_double ''kp_rpm_per_m'' (\<lambda>v. upd_mp (\<lambda>m. m\<lparr>pm_kp_rpm_per_m := v\<rparr>)),
      get_optional parse_double ''kd_rpm_per_mps'' (\<lambda>v. upd_mp (\<lambda>m. m\<lparr>pm_kd_rpm_per_mps := v\<rparr>)),
      get_optional parse_double ''deadband_m'' (\<lambda>v. upd_mp (\<lambda>m. m\<lparr>pm_deadband_m := v\<rparr>)),
      get_optional parse_double ''slowdown_distance_m'' (\<lambda>v. upd_mp (\<lambda>m. m\<lparr>pm_slowdown_distance_m := v\<rparr>)),
      get_optional parse_double ''stop_window_m'' (\<lambda>v. upd_mp (\<lambda>m. m\<lparr>pm_stop_window_m := v\<rparr>)),
      get_optional parse_int ''stop_target_stable_ms'' (\<lambda>v. upd_mp (\<lambda>m. m\<lparr>pm_stop_target_stable_ms := v\<rparr>)),
      get_optional parse_int ''stop_window_max_rpm'' (\<lambda>v. upd_mp (\<lambda>m. m\<lparr>pm_stop_window_max_rpm := v\<rparr>)),
      get_optional parse_double ''feedback_filter_alpha'' (\<lambda>v. upd_dp (\<lambda>m. m\<lparr>dp_feedback_filter_alpha := v\<rparr>)),
      get_optional parse_double ''velocity_slew_rpm_per_s'' (\<lambda>v. upd_mp (\<lambda>m. m\<lparr>pm_velocity_slew_rpm_per_s := v\<rparr>)),
      get_optional parse_double ''stop_slew_rpm_per_s'' (\<lambda>v. upd_mp (\<lambda>m. m\<lparr>pm_stop_slew_rpm_per_s := v\<rparr>)),
      get_optional parse_double ''brake_accel_rpm_per_s'' (\<lambda>v. upd_mp (\<lambda>m. m\<lparr>pm_brake_accel_rpm_per_s := v\<rparr>)),
      get_optional parse_double ''overshoot_guard_window_m'' (\<lambda>v. upd_mp (\<lambda>m. m\<lparr>pm_overshoot_guard_window_m := v\<rparr>)),
      get_optional parse_int ''overshoot_recovery_max_rpm'' (\<lambda>v. upd_mp (\<lambda>m. m\<lparr>pm_overshoot_recovery_max_rpm := v\<rparr>)),
      get_optional parse_double ''stationary_velocity_threshold_mps'' (\<lambda>v. upd_mp (\<lambda>m. m\<lparr>pm_stationary_velocity_threshold_mps := v\<rparr>)),
      get_optional parse_double ''command_epsilon_m'' (\<lambda>v. upd_mp (\<lambda>m. m\<lparr>pm_command_epsilon_m := v\<rparr>)),
      get_optional parse_double ''max_feedback_jump_m'' (\<lambda>v. upd_ly (\<lambda>m. m\<lparr>ly_max_feedback_jump_m := v\<rparr>)),
      get_optional parse_int ''motion_command_period_ms'' (\<lambda>v. pa_motion_command_period_ms_update (\<lambda>_. v)),
      get_optional parse_int ''reset_velocity_rpm'' (\<lambda>v. upd_mp (\<lambda>m. m\<lparr>pm_reset_velocity_rpm := v\<rparr>)),
      get_optional parse_int ''reset_velocity_period_ms'' (\<lambda>v. pa_reset_velocity_period_ms_update (\<lambda>_. v))]"

definition maintenance_steps :: "param_step list" where
  "maintenance_steps =
     [get_optional parse_int ''homing_method'' (\<lambda>v. upd_mt (\<lambda>m. m\<lparr>mt_homing_method := v\<rparr>)),
      get_optional parse_int ''homing_speed_high_units_s'' (\<lambda>v. upd_mt (\<lambda>m. m\<lparr>mt_homing_speed_high_units_s := v\<rparr>)),
      get_optional parse_int ''homing_speed_low_units_s'' (\<lambda>v. upd_mt (\<lambda>m. m\<lparr>mt_homing_speed_low_units_s := v\<rparr>)),
      get_optional parse_int ''homing_acceleration_units_s2'' (\<lambda>v. upd_mt (\<lambda>m. m\<lparr>mt_homing_acceleration_units_s2 := v\<rparr>)),
      get_optional parse_int ''homing_offset_units'' (\<lambda>v. upd_mt (\<lambda>m. m\<lparr>mt_homing_offset_units := v\<rparr>)),
      get_optional parse_int ''homing_timeout_ms'' (\<lambda>v. upd_mt (\<lambda>m. m\<lparr>mt_homing_timeout_ms := v\<rparr>)),
      get_optional parse_int ''drive_zero_timeout_ms'' (\<lambda>v. upd_mt (\<lambda>m. m\<lparr>mt_drive_zero_timeout_ms := v\<rparr>)),
      get_optional parse_int ''position_limit_recovery_max_rpm'' (\<lambda>v. upd_mp (\<lambda>m. m\<lparr>pm_position_limit_recovery_max_rpm := v\<rparr>)),
      get_optional parse_int ''max_fault_reset_attempts'' (\<lambda>v. upd_ly (\<lambda>m. m\<lparr>ly_max_fault_reset_attempts := v\<rparr>)),
      get_optional parse_int ''fault_reset_backoff_ms'' (\<lambda>v. upd_ly (\<lambda>m. m\<lparr>ly_fault_reset_backoff_ms := v\<rparr>)),
      get_optional parse_int ''mode_mismatch_debounce_cycles'' (\<lambda>v. upd_dp (\<lambda>m. m\<lparr>dp_mode_mismatch_debounce_cycles := word_of_int v\<rparr>)),
      get_optional parse_int ''brake_release_wait_ms'' (\<lambda>v. upd_dc (\<lambda>m. m\<lparr>dc_brake_release_wait_ms := v\<rparr>) \<circ> upd_dp (\<lambda>m. m\<lparr>dp_brake_release_wait_ms := v\<rparr>)),
      get_optional parse_int ''brake_p04_37_ms'' (\<lambda>v. upd_dc (\<lambda>m. m\<lparr>dc_brake_p04_37_ms := v\<rparr>)),
      get_optional parse_int ''brake_p04_39_rpm'' (\<lambda>v. upd_dc (\<lambda>m. m\<lparr>dc_brake_p04_39_rpm := v\<rparr>) \<circ> upd_dp (\<lambda>m. m\<lparr>dp_brake_p04_39_rpm := v\<rparr>)),
      get_optional parse_int ''brake_p06_14_ms'' (\<lambda>v. upd_dc (\<lambda>m. m\<lparr>dc_brake_p06_14_ms := v\<rparr>) \<circ> upd_dp (\<lambda>m. m\<lparr>dp_brake_p06_14_ms := v\<rparr>)),
      get_optional parse_int ''limit_switch_positive_bit'' (\<lambda>v. upd_mp (\<lambda>m. m\<lparr>pm_limit_switch_positive_bit := v\<rparr>)),
      get_optional parse_int ''limit_switch_negative_bit'' (\<lambda>v. upd_mp (\<lambda>m. m\<lparr>pm_limit_switch_negative_bit := v\<rparr>))]"

text \<open>The public names, read after the legacy ones.\<close>

definition public_steps :: "param_step list" where
  "public_steps =
     [get_optional parse_double ''lift_velocity_kp_rpm_per_m'' (\<lambda>v. upd_mp (\<lambda>m. m\<lparr>pm_kp_rpm_per_m := v\<rparr>)),
      get_optional parse_double ''lift_velocity_kd_rpm_per_mps'' (\<lambda>v. upd_mp (\<lambda>m. m\<lparr>pm_kd_rpm_per_mps := v\<rparr>)),
      get_optional parse_double ''lift_velocity_deadband_m'' (\<lambda>v. upd_mp (\<lambda>m. m\<lparr>pm_deadband_m := v\<rparr>)),
      get_optional parse_double ''lift_velocity_slowdown_distance_m'' (\<lambda>v. upd_mp (\<lambda>m. m\<lparr>pm_slowdown_distance_m := v\<rparr>)),
      get_optional parse_double ''lift_velocity_stop_window_m'' (\<lambda>v. upd_mp (\<lambda>m. m\<lparr>pm_stop_window_m := v\<rparr>)),
      get_optional parse_int ''lift_velocity_stop_target_stable_ms'' (\<lambda>v. upd_mp (\<lambda>m. m\<lparr>pm_stop_target_stable_ms := v\<rparr>)),
      get_optional parse_int ''lift_velocity_stop_window_max_rpm'' (\<lambda>v. upd_mp (\<lambda>m. m\<lparr>pm_stop_window_max_rpm := v\<rparr>)),
      get_optional parse_double ''lift_velocity_feedback_filter_alpha'' (\<lambda>v. upd_dp (\<lambda>m. m\<lparr>dp_feedback_filter_alpha := v\<rparr>)),
      get_optional parse_double ''lift_velocity_command_epsilon_rpm'' (\<lambda>v. upd_mp (\<lambda>m. m\<lparr>pm_command_epsilon_rpm := v\<rparr>)),
      get_optional parse_double ''lift_velocity_slew_rpm_per_s'' (\<lambda>v. upd_mp (\<lambda>m. m\<lparr>pm_velocity_slew_rpm_per_s := v\<rparr>)),
      get_optional parse_double ''lift_velocity_stop_slew_rpm_per_s'' (\<lambda>v. upd_mp (\<lambda>m. m\<lparr>pm_stop_slew_rpm_per_s := v\<rparr>)),
      get_optional parse_double ''lift_velocity_brake_accel_rpm_per_s'' (\<lambda>v. upd_mp (\<lambda>m. m\<lparr>pm_brake_accel_rpm_per_s := v\<rparr>)),
      get_optional parse_double ''lift_velocity_overshoot_guard_window_m'' (\<lambda>v. upd_mp (\<lambda>m. m\<lparr>pm_overshoot_guard_window_m := v\<rparr>)),
      get_optional parse_int ''lift_velocity_overshoot_recovery_max_rpm'' (\<lambda>v. upd_mp (\<lambda>m. m\<lparr>pm_overshoot_recovery_max_rpm := v\<rparr>)),
      get_optional parse_double ''lift_stationary_velocity_threshold_mps'' (\<lambda>v. upd_mp (\<lambda>m. m\<lparr>pm_stationary_velocity_threshold_mps := v\<rparr>)),
      get_optional parse_int ''lift_motion_command_period_ms'' (\<lambda>v. pa_motion_command_period_ms_update (\<lambda>_. v)),
      get_optional parse_int ''lift_startup_motion_guard_ms'' (\<lambda>v. upd_ly (\<lambda>m. m\<lparr>ly_startup_motion_guard_ms := v\<rparr>)),
      get_optional parse_int ''reset_velocity_timeout_ms'' (\<lambda>v. upd_dp (\<lambda>m. m\<lparr>dp_reset_velocity_timeout_ms := v\<rparr>)),
      get_optional parse_double ''max_feedback_velocity_mps'' (\<lambda>v. upd_dp (\<lambda>m. m\<lparr>dp_max_feedback_velocity_mps := v\<rparr>)),
      get_optional parse_double ''feedback_velocity_tolerance_mps'' (\<lambda>v. upd_dp (\<lambda>m. m\<lparr>dp_feedback_velocity_tolerance_mps := v\<rparr>))]"

definition flag_steps :: "param_step list" where
  "flag_steps =
     [get_optional parse_bool ''brake_control_enabled'' (\<lambda>v. upd_dp (\<lambda>m. m\<lparr>dp_brake_control_enabled := v\<rparr>)),
      get_optional parse_bool ''limit_switch_enabled'' (\<lambda>v. upd_mp (\<lambda>m. m\<lparr>pm_limit_switch_enabled := v\<rparr>)),
      get_optional parse_bool ''limit_switch_active_high'' (\<lambda>v. upd_mp (\<lambda>m. m\<lparr>pm_limit_switch_active_high := v\<rparr>)),
      get_optional parse_bool ''direct_stop_in_stop_window'' (\<lambda>v. upd_mp (\<lambda>m. m\<lparr>pm_direct_stop_in_stop_window := v\<rparr>)),
      get_optional parse_bool ''auto_fault_reset'' (\<lambda>v. upd_dp (\<lambda>m. m\<lparr>dp_auto_fault_reset := v\<rparr>)),
      get_optional parse_bool ''lift_velocity_direct_stop_in_stop_window'' (\<lambda>v. upd_mp (\<lambda>m. m\<lparr>pm_direct_stop_in_stop_window := v\<rparr>)),
      get_optional parse_bool ''lift_startup_motion_guard_enabled'' (\<lambda>v. upd_dp (\<lambda>m. m\<lparr>dp_startup_motion_guard_enabled := v\<rparr>)),
      get_optional parse_bool ''reset_velocity_debug_enabled'' (\<lambda>v. upd_dp (\<lambda>m. m\<lparr>dp_reset_velocity_debug_enabled := v\<rparr>))]"

definition brake_mode_steps :: "param_step list" where
  "brake_mode_steps =
     [get_string ''brake_p05_06_mode'' (\<lambda>v. upd_dc (\<lambda>m. m\<lparr>dc_brake_p05_06_mode := v\<rparr>)),
      get_string ''brake_p05_10_mode'' (\<lambda>v. upd_dc (\<lambda>m. m\<lparr>dc_brake_p05_10_mode := v\<rparr>))]"

text \<open>The long condition, negated. \<open>x < 0\<close> is false for a NaN, as in C++.\<close>

definition ranges_ok :: "params \<Rightarrow> bool" where
  "ranges_ok p \<longleftrightarrow>
     (let m = pa_mp p; d = pa_dp p; l = pa_ly p; t = pa_mt p; c = pa_dc p
      in \<not> dp_feedback_filter_alpha d < 0 \<and> \<not> dp_feedback_filter_alpha d > 1 \<and>
         \<not> pm_deadband_m m < 0 \<and> \<not> pm_slowdown_distance_m m < 0 \<and> \<not> pm_stop_window_m m < 0 \<and>
         \<not> pa_motion_command_period_ms p \<le> 0 \<and> \<not> pa_reset_velocity_period_ms p \<le> 0 \<and>
         \<not> ly_max_fault_reset_attempts l < 0 \<and> \<not> pm_stop_window_max_rpm m < 0 \<and>
         \<not> pm_overshoot_recovery_max_rpm m < 0 \<and> \<not> ly_max_feedback_jump_m l \<le> 0 \<and>
         \<not> dp_brake_release_wait_ms d < - 1 \<and> \<not> dc_brake_p04_37_ms c < 0 \<and>
         \<not> dp_brake_p04_39_rpm d < 0 \<and> \<not> dp_brake_p06_14_ms d < 0 \<and>
         \<not> pm_limit_switch_positive_bit m < - 1 \<and> \<not> pm_limit_switch_positive_bit m > 31 \<and>
         \<not> pm_limit_switch_negative_bit m < - 1 \<and> \<not> pm_limit_switch_negative_bit m > 31 \<and>
         \<not> pm_command_epsilon_rpm m < 0 \<and> \<not> ly_startup_motion_guard_ms l < 0 \<and>
         \<not> dp_reset_velocity_timeout_ms d \<le> 0 \<and>
         \<not> mt_homing_method t < - 6 \<and> \<not> mt_homing_method t > 37 \<and> mt_homing_method t \<noteq> 0 \<and>
         mt_homing_method t \<noteq> 36 \<and>
         \<not> mt_homing_speed_high_units_s t \<le> 0 \<and> \<not> mt_homing_speed_low_units_s t \<le> 0 \<and>
         \<not> mt_homing_acceleration_units_s2 t \<le> 0 \<and> \<not> mt_homing_timeout_ms t \<le> 0 \<and>
         \<not> mt_drive_zero_timeout_ms t \<le> 0 \<and>
         \<not> dp_max_feedback_velocity_mps d \<le> 0 \<and> \<not> dp_feedback_velocity_tolerance_mps d < 0 \<and>
         \<not> pm_kp_rpm_per_m m < 0 \<and> \<not> pm_kd_rpm_per_mps m < 0 \<and> \<not> pm_velocity_slew_rpm_per_s m < 0 \<and>
         \<not> pm_stop_slew_rpm_per_s m < 0 \<and> \<not> pm_brake_accel_rpm_per_s m < 0 \<and>
         \<not> pm_stationary_velocity_threshold_mps m \<le> 0 \<and> \<not> ly_fault_reset_backoff_ms l < 0 \<and>
         \<not> sint (dp_mode_mismatch_debounce_cycles d) \<le> 0 \<and>
         \<not> sint (dp_mode_mismatch_debounce_cycles d) > 1000 \<and>
         \<not> pm_position_limit_recovery_max_rpm m \<le> 0 \<and>
         \<not> pm_position_limit_recovery_max_rpm m > pm_max_rpm m \<and>
         ly_fault_reset_backoff_ms l mod pa_motion_command_period_ms p = 0)"

definition limit_switch_ok :: "params \<Rightarrow> bool" where
  "limit_switch_ok p \<longleftrightarrow> \<not> (pm_limit_switch_enabled (pa_mp p) \<and>
     pm_limit_switch_positive_bit (pa_mp p) < 0 \<and> pm_limit_switch_negative_bit (pa_mp p) < 0)"

definition make_controller :: "params \<Rightarrow> params" where
  "make_controller p = p\<lparr>pa_cia := cia402_init (word_of_int (ly_max_fault_reset_attempts (pa_ly p)))
     (word_of_int (ly_fault_reset_backoff_ms (pa_ly p) div pa_motion_command_period_ms p))\<rparr>"

definition final_steps :: "param_step list" where
  "final_steps = [check ranges_ok, check limit_switch_ok, \<lambda>info p. Some (make_controller p)]"

definition parse_parameters :: "hardware_parameters \<Rightarrow> params \<Rightarrow> params option" where
  "parse_parameters = run_steps (transport_steps @ unit_steps @ tuning_steps @ maintenance_steps @
     public_steps @ brake_mode_steps @ flag_steps @ final_steps)"

section \<open>What a run of steps keeps\<close>

named_theorems keeps_intros "steps keep the members they do not set"

definition keeps :: "(params \<Rightarrow> 'a) \<Rightarrow> param_step \<Rightarrow> bool" where
  "keeps f s \<longleftrightarrow> (\<forall>info p q. s info p = Some q \<longrightarrow> f q = f p)"

definition stays :: "(params \<Rightarrow> bool) \<Rightarrow> param_step \<Rightarrow> bool" where
  "stays P s \<longleftrightarrow> (\<forall>info p q. P p \<longrightarrow> s info p = Some q \<longrightarrow> P q)"

lemma run_steps_append:
  "run_steps (xs @ ys) info p = Option.bind (run_steps xs info p) (run_steps ys info)"
  by (induction xs arbitrary: p) (auto split: option.split)

lemma run_keeps:
  assumes "list_all (keeps f) ss" "run_steps ss info p = Some q"
  shows "f q = f p"
  using assms by (induction ss arbitrary: p) (auto simp: keeps_def split: option.splits)

lemma run_stays:
  assumes "list_all (stays P) ss" "run_steps ss info p = Some q" "P p"
  shows "P q"
  using assms by (induction ss arbitrary: p) (auto simp: stays_def split: option.splits)

lemma keeps_steps [keeps_intros]:
  "(\<And>v p. f (put v p) = f p) \<Longrightarrow> keeps f (get_optional parser key put)"
  "(\<And>v p. f (put v p) = f p) \<Longrightarrow> keeps f (get_ignoring parser key put)"
  "(\<And>v p. f (put' v p) = f p) \<Longrightarrow> keeps f (get_string key put')"
  "keeps f (check P)"
  "(\<And>v p q. putl v p = Some q \<Longrightarrow> f q = f p) \<Longrightarrow> keeps f (get_local parser key initial putl)"
  "(\<And>info p. f (h info p) = f p) \<Longrightarrow> keeps f (\<lambda>info p. Some (h info p))"
  by (auto simp: keeps_def get_optional_def get_ignoring_def get_string_def check_def get_local_def
      split: option.splits if_splits)

lemma keeps_local [keeps_intros]:
  "(\<And>v p q. putl v p = Some q \<Longrightarrow> f q = f p) \<Longrightarrow>
     keeps f (\<lambda>info p. get_local parser key (initial p) putl info p)"
  by (auto simp: keeps_def get_local_def split: option.splits)

lemma keeps_timeout [keeps_intros]:
  "(\<And>v p. f (upd_dp (\<lambda>m. m\<lparr>dp_feedback_timeout_ms := v\<rparr>) p) = f p) \<Longrightarrow> keeps f feedback_timeout_step"
  by (auto simp: keeps_def feedback_timeout_step_def get_optional_def split: option.splits if_splits)

lemma u16_member_Some [simp]:
  "u16_member put v p = Some q \<longleftrightarrow> 0 \<le> v \<and> v \<le> 65535 \<and> q = put (word_of_int v) p"
  by (auto simp: u16_member_def)

lemmas upd_defs = upd_mp_def upd_dp_def upd_ly_def upd_mt_def upd_dc_def upd_units_def upd_master_def
  upd_slave_def

lemmas step_lists = transport_steps_def unit_steps_def tuning_steps_def maintenance_steps_def
  public_steps_def brake_mode_steps_def flag_steps_def

text \<open>The limits of the axis are settled by \<open>unit_steps\<close>, the frame by \<open>transport_steps\<close>.\<close>

definition limits_of :: "params \<Rightarrow> double \<times> double \<times> double \<times> int" where
  "limits_of p = (pm_position_min_m (pa_mp p), pm_position_max_m (pa_mp p),
     pm_reset_max_search_travel_m (pa_mp p), pm_max_rpm (pa_mp p))"

definition frame_of :: "params \<Rightarrow> int \<times> u16 \<times> u16 \<times> u32 \<times> int" where
  "frame_of p = (mc_cycle_period (dc_master (pa_dc p)), sc_rx_pdo_bytes (dc_slave (pa_dc p)),
     sc_tx_pdo_bytes (dc_slave (pa_dc p)), dp_expected_working_counter (pa_dp p),
     dp_feedback_timeout_ms (pa_dp p))"

lemma later_keep_limits:
  "list_all (keeps limits_of) (tuning_steps @ maintenance_steps @ public_steps @ brake_mode_steps @ flag_steps)"
  by (auto simp: step_lists limits_of_def upd_defs intro!: keeps_intros)

lemma later_keep_frame:
  "list_all (keeps frame_of) (unit_steps @ tuning_steps @ maintenance_steps @ public_steps @
     brake_mode_steps @ flag_steps)"
  by (auto simp: step_lists frame_of_def upd_defs intro!: keeps_intros)

named_theorems stays_intros "steps keep a property of the members"

lemma run_checked:
  assumes "run_steps ss info p = Some q" "ss = xs @ check P # ys" "list_all (keeps f) ys"
    and "\<And>p. P p \<longleftrightarrow> Q (f p)"
  shows "Q (f q)"
proof -
  obtain p' where "P p'" "run_steps ys info p' = Some q"
    using assms(1) unfolding assms(2)
    by (auto simp: run_steps_append check_def bind_eq_Some_conv split: option.splits if_splits)
  then show ?thesis
    using run_keeps [OF assms(3)] assms(4) by auto
qed

lemma stays_steps [stays_intros]:
  "(\<And>v p. P p \<Longrightarrow> P (puti v p)) \<Longrightarrow> stays P (get_optional parse_int key puti)"
  "(\<And>v p. P p \<Longrightarrow> P (putu v p)) \<Longrightarrow> stays P (get_optional parse_u32 key putu)"
  "(\<And>v p. P p \<Longrightarrow> P (putb v p)) \<Longrightarrow> stays P (get_optional parse_bool key putb)"
  "(\<And>v p. P p \<Longrightarrow> P (put' v p)) \<Longrightarrow> stays P (get_string key put')"
  "stays P (check Q)"
  "(\<And>info p. P p \<Longrightarrow> P (h info p)) \<Longrightarrow> stays P (\<lambda>info p. Some (h info p))"
  by (auto simp: stays_def get_optional_def get_string_def check_def split: option.splits if_splits)

lemma stays_ignoring [stays_intros]:
  assumes "\<And>v p. P p \<Longrightarrow> P (put v p)"
  shows "stays P (get_ignoring parser key put)"
  using assms by (auto simp: stays_def get_ignoring_def get_optional_def split: option.split)

lemma stays_local [stays_intros]:
  assumes "\<And>v p q. P p \<Longrightarrow> putl v p = Some q \<Longrightarrow> P q"
  shows "stays P (get_local parser key initial putl)"
    and "stays P (\<lambda>info p. get_local parser key (initial' p) putl info p)"
  using assms unfolding stays_def get_local_def by (metis (no_types, lifting) option.case_eq_if option.distinct(1))+

lemma stays_timeout [stays_intros]:
  assumes "\<And>v p. P p \<Longrightarrow> v > 0 \<Longrightarrow> P (upd_dp (\<lambda>m. m\<lparr>dp_feedback_timeout_ms := v\<rparr>) p)"
  shows "stays P feedback_timeout_step"
proof -
  have "q = p \<or> (\<exists>v. \<not> v \<le> 0 \<and> q = upd_dp (\<lambda>m. m\<lparr>dp_feedback_timeout_ms := v\<rparr>) p)"
    if "feedback_timeout_step info p = Some q" for info p q
    using that
    by (auto simp: feedback_timeout_step_def get_optional_def upd_dp_def split: option.splits if_splits)
  then show ?thesis
    unfolding stays_def using assms not_le by blast
qed

lemma get_optional_cases:
  "get_optional parser key put info p = Some q \<Longrightarrow> q = p \<or> (\<exists>s v. parser s = Some v \<and> q = put v p)"
  by (auto simp: get_optional_def split: option.splits)

lemma parse_double_finite:
  assumes "parse_double s = Some v"
  shows "isfinite v"
proof -
  obtain neg body where b: "split_sign (dropWhile c_space s) = (neg, body)" by fastforce
  show ?thesis
    using assms by (cases "stod_magnitude body") (auto simp: parse_double_def b split: if_splits)
qed

lemma stays_double [stays_intros]:
  assumes put: "\<And>v p. isfinite v \<Longrightarrow> P p \<Longrightarrow> P (put v p)"
  shows "stays P (get_optional parse_double key put)"
  unfolding stays_def
proof (intro allI impI)
  fix info p q
  assume p: "P p" and "get_optional parse_double key put info p = Some q"
  from get_optional_cases [OF this(2)] consider "q = p" | s v where "parse_double s = Some v" "q = put v p"
    by auto
  then show "P q"
    by cases (simp_all add: p put [OF parse_double_finite p])
qed

definition finite_gains :: "params \<Rightarrow> bool" where
  "finite_gains p \<longleftrightarrow> isfinite (pm_kp_rpm_per_m (pa_mp p)) \<and> isfinite (pm_kd_rpm_per_mps (pa_mp p)) \<and>
     isfinite (pm_deadband_m (pa_mp p)) \<and> isfinite (pm_slowdown_distance_m (pa_mp p)) \<and>
     isfinite (pm_velocity_slew_rpm_per_s (pa_mp p)) \<and> isfinite (pm_stop_slew_rpm_per_s (pa_mp p)) \<and>
     isfinite (pm_brake_accel_rpm_per_s (pa_mp p))"

definition gains_of :: "params \<Rightarrow> double list" where
  "gains_of p = [pm_kp_rpm_per_m (pa_mp p), pm_kd_rpm_per_mps (pa_mp p), pm_deadband_m (pa_mp p),
     pm_slowdown_distance_m (pa_mp p), pm_velocity_slew_rpm_per_s (pa_mp p),
     pm_stop_slew_rpm_per_s (pa_mp p), pm_brake_accel_rpm_per_s (pa_mp p)]"

lemma gains_kept: "list_all (keeps gains_of) (transport_steps @ unit_steps)"
  unfolding step_lists append.simps list.pred_inject
  by (intro conjI TrueI keeps_intros; auto simp: gains_of_def upd_defs order_limits_def split: if_splits)

lemma gains_stay: "list_all (stays finite_gains) (tuning_steps @ maintenance_steps @ public_steps @
    brake_mode_steps @ flag_steps)"
  unfolding step_lists append.simps list.pred_inject
  by (intro conjI TrueI stays_intros; simp add: finite_gains_def upd_defs)

definition limits_ok :: "double \<times> double \<times> double \<times> int \<Rightarrow> bool" where
  "limits_ok = (\<lambda>(lo, hi, travel, rpm). isfinite lo \<and> isfinite hi \<and> lo \<le> hi)"

lemma order_limits_ok:
  "isfinite (pm_position_min_m m) \<Longrightarrow> isfinite (pm_position_max_m m) \<Longrightarrow>
     isfinite (pm_position_min_m (order_limits m)) \<and> isfinite (pm_position_max_m (order_limits m)) \<and>
     pm_position_min_m (order_limits m) \<le> pm_position_max_m (order_limits m)"
  by (auto simp: order_limits_def less_eq_double_def elim!: isfiniteE)

lemma unit_limits:
  assumes "run_steps unit_steps info p = Some q"
  shows "limits_ok (limits_of q)" "pm_max_rpm (pa_mp q) > 0"
    "isfinite (pm_reset_max_search_travel_m (pa_mp q)) \<and> \<not> pm_reset_max_search_travel_m (pa_mp q) \<le> 0"
proof -
  let ?pos = "\<lambda>p. (pm_position_min_m (pa_mp p), pm_position_max_m (pa_mp p))"
  have split: "unit_steps = take 11 unit_steps @
      check (\<lambda>p. isfinite (pm_position_min_m (pa_mp p)) \<and> isfinite (pm_position_max_m (pa_mp p))) #
      (\<lambda>info p. Some (upd_mp order_limits p)) # drop 13 unit_steps"
    by (simp add: unit_steps_def)
  obtain p1 where p1: "isfinite (pm_position_min_m (pa_mp p1))" "isfinite (pm_position_max_m (pa_mp p1))"
    "run_steps (drop 13 unit_steps) info (upd_mp order_limits p1) = Some q"
    using assms by (subst (asm) split)
      (auto simp: run_steps_append check_def bind_eq_Some_conv split: option.splits if_splits)
  have "list_all (keeps ?pos) (drop 13 unit_steps)"
    by (auto simp: unit_steps_def upd_defs intro!: keeps_intros)
  from run_keeps [OF this p1(3)] show "limits_ok (limits_of q)"
    using order_limits_ok [OF p1(1,2)] by (simp add: limits_ok_def limits_of_def upd_defs)
  show "pm_max_rpm (pa_mp q) > 0"
    by (rule run_checked [OF assms, where xs = "butlast unit_steps" and ys = "[]"
          and P = "\<lambda>p. \<not> pm_max_rpm (pa_mp p) \<le> 0"]) (auto simp: unit_steps_def)
  let ?travel = "\<lambda>p. pm_reset_max_search_travel_m (pa_mp p)"
  show "isfinite (?travel q) \<and> \<not> ?travel q \<le> 0"
    by (rule run_checked [OF assms, where xs = "take 13 unit_steps" and ys = "drop 14 unit_steps"
          and P = "\<lambda>p. isfinite (?travel p) \<and> \<not> ?travel p \<le> 0" and f = ?travel])
      (auto simp: unit_steps_def upd_defs intro!: keeps_intros)
qed

lemma transport_frame:
  assumes "run_steps transport_steps info p = Some q"
    and "mc_cycle_period (dc_master (pa_dc p)) = 10000000" "dp_feedback_timeout_ms (pa_dp p) > 0"
  shows "mc_cycle_period (dc_master (pa_dc q)) = 10000000" "dp_feedback_timeout_ms (pa_dp q) > 0"
    "sc_rx_pdo_bytes (dc_slave (pa_dc q)) = 8 \<and> sc_tx_pdo_bytes (dc_slave (pa_dc q)) = 17"
    "dp_expected_working_counter (pa_dp q) \<noteq> 0"
proof -
  let ?cycle = "\<lambda>p. mc_cycle_period (dc_master (pa_dc p)) = 10000000"
  let ?timeout = "\<lambda>p. dp_feedback_timeout_ms (pa_dp p) > 0"
  let ?wc = "\<lambda>p. dp_expected_working_counter (pa_dp p)"
  have "list_all (stays ?cycle) transport_steps"
    by (auto simp: transport_steps_def upd_defs ms_to_ns_def intro!: stays_intros split: if_splits)
  from run_stays [OF this assms(1,2)] show "?cycle q" .
  have "list_all (stays ?timeout) transport_steps"
    by (auto simp: transport_steps_def upd_defs intro!: stays_intros split: if_splits)
  from run_stays [OF this assms(1,3)] show "?timeout q" .
  show "sc_rx_pdo_bytes (dc_slave (pa_dc q)) = 8 \<and> sc_tx_pdo_bytes (dc_slave (pa_dc q)) = 17"
    by (rule run_checked [OF assms(1), where xs = "butlast transport_steps" and ys = "[]" and f = id
          and P = "\<lambda>p. sc_rx_pdo_bytes (dc_slave (pa_dc p)) = 8 \<and> sc_tx_pdo_bytes (dc_slave (pa_dc p)) = 17",
          unfolded id_apply]) (auto simp: transport_steps_def)
  show "?wc q \<noteq> 0"
    by (rule run_checked [OF assms(1), where xs = "take 9 transport_steps" and ys = "drop 10 transport_steps"
          and P = "\<lambda>p. ?wc p \<noteq> 0" and f = ?wc])
      (auto simp: transport_steps_def upd_defs intro!: keeps_intros)
qed

section \<open>Accepted parameters\<close>

lemma run_finalE:
  assumes "run_steps final_steps info p = Some q"
  shows "ranges_ok p" "limit_switch_ok p" "q = make_controller p"
  using assms by (auto simp: final_steps_def check_def split: if_splits)

lemma make_controller_frame [simp]:
  "pa_mp (make_controller p) = pa_mp p" "pa_dp (make_controller p) = pa_dp p"
  "pa_dc (make_controller p) = pa_dc p" "pa_ly (make_controller p) = pa_ly p"
  "limits_of (make_controller p) = limits_of p" "finite_gains (make_controller p) = finite_gains p"
  "frame_of (make_controller p) = frame_of p" "limit_switch_ok (make_controller p) = limit_switch_ok p"
  "pa_cia (make_controller p) = cia402_init (word_of_int (ly_max_fault_reset_attempts (pa_ly p)))
     (word_of_int (ly_fault_reset_backoff_ms (pa_ly p) div pa_motion_command_period_ms p))"
  by (simp_all add: make_controller_def limits_of_def finite_gains_def frame_of_def limit_switch_ok_def)

text \<open>The stages of an accepted run.\<close>

definition later_steps :: "param_step list" where
  "later_steps = tuning_steps @ maintenance_steps @ public_steps @ brake_mode_steps @ flag_steps"

lemma parse_split:
  "parse_parameters info p = run_steps (transport_steps @ unit_steps @ later_steps @ final_steps) info p"
  by (simp add: parse_parameters_def later_steps_def)

lemma parse_stages:
  assumes "parse_parameters info p = Some q"
  obtains p1 p2 p3 where "run_steps transport_steps info p = Some p1" "run_steps unit_steps info p1 = Some p2"
    "run_steps later_steps info p2 = Some p3"
    "ranges_ok p3" "limit_switch_ok p3" "q = make_controller p3"
proof -
  obtain p1 p2 p3 where s: "run_steps transport_steps info p = Some p1"
    "run_steps unit_steps info p1 = Some p2" "run_steps later_steps info p2 = Some p3"
    "run_steps final_steps info p3 = Some q"
    using assms by (auto simp: parse_split run_steps_append bind_eq_Some_conv)
  show thesis
    by (rule that [OF s(1-3) run_finalE [OF s(4)]])
qed

lemma default_facts:
  "mc_cycle_period (dc_master (pa_dc params_default)) = 10000000"
  "dp_feedback_timeout_ms (pa_dp params_default) > 0" "finite_gains params_default"
  by (simp_all add: params_default_def master_config_default_def finite_gains_def zero_double_def)

lemma accepted:
  assumes "parse_parameters info params_default = Some q"
  shows "motion_params_ok (pa_mp q)" "pm_position_min_m (pa_mp q) \<le> pm_position_max_m (pa_mp q)"
    "0 < pm_max_rpm (pa_mp q)" "pm_position_limit_recovery_max_rpm (pa_mp q) \<le> pm_max_rpm (pa_mp q)"
    "mc_cycle_period (dc_master (pa_dc q)) = 10000000"
    "sc_rx_pdo_bytes (dc_slave (pa_dc q)) = 8 \<and> sc_tx_pdo_bytes (dc_slave (pa_dc q)) = 17"
    "dp_expected_working_counter (pa_dp q) \<noteq> 0" "dp_feedback_timeout_ms (pa_dp q) > 0"
    "limit_switch_ok q" "0 \<le> ly_max_fault_reset_attempts (pa_ly q)"
proof -
  obtain p1 p2 p3 where s: "run_steps transport_steps info params_default = Some p1"
    "run_steps unit_steps info p1 = Some p2"
    "run_steps later_steps info p2 = Some p3"
    and f: "ranges_ok p3" "limit_switch_ok p3" "q = make_controller p3"
    using assms by (rule parse_stages)
  note l = run_keeps [OF later_keep_limits s(3) [unfolded later_steps_def]]
  have fr: "frame_of p3 = frame_of p1"
  proof -
    have "run_steps (unit_steps @ tuning_steps @ maintenance_steps @ public_steps @ brake_mode_steps @
        flag_steps) info p1 = Some p3"
      using s(2,3) by (simp add: run_steps_append [of unit_steps] later_steps_def)
    then show ?thesis by (rule run_keeps [OF later_keep_frame])
  qed
  have "run_steps (transport_steps @ unit_steps) info params_default = Some p2"
    using s(1,2) by (simp add: run_steps_append)
  then have "gains_of p2 = gains_of params_default"
    by (rule run_keeps [OF gains_kept])
  then have "finite_gains p2"
    using default_facts(3) by (simp add: gains_of_def finite_gains_def)
  then have g: "finite_gains p3"
    using run_stays [OF gains_stay s(3) [unfolded later_steps_def]] by simp
  note t = transport_frame [OF s(1) default_facts(1,2)]
  note u = unit_limits [OF s(2)]
  have lim: "isfinite (pm_position_min_m (pa_mp p3))" "isfinite (pm_position_max_m (pa_mp p3))"
    "pm_position_min_m (pa_mp p3) \<le> pm_position_max_m (pa_mp p3)" "0 < pm_max_rpm (pa_mp p3)"
    using u(1,2) l by (auto simp: limits_ok_def limits_of_def)
  have rec: "0 < pm_position_limit_recovery_max_rpm (pa_mp p3)"
    "pm_position_limit_recovery_max_rpm (pa_mp p3) \<le> pm_max_rpm (pa_mp p3)"
    "0 \<le> ly_max_fault_reset_attempts (pa_ly p3)"
    using f(1) by (simp_all add: ranges_ok_def Let_def)
  show "motion_params_ok (pa_mp q)"
    using lim g rec by (simp add: f(3) motion_params_ok_def finite_gains_def)
  show "pm_position_min_m (pa_mp q) \<le> pm_position_max_m (pa_mp q)" "0 < pm_max_rpm (pa_mp q)"
    "pm_position_limit_recovery_max_rpm (pa_mp q) \<le> pm_max_rpm (pa_mp q)" "limit_switch_ok q"
    "0 \<le> ly_max_fault_reset_attempts (pa_ly q)"
    using lim rec f(2) by (simp_all add: f(3))
  show "mc_cycle_period (dc_master (pa_dc q)) = 10000000"
    "sc_rx_pdo_bytes (dc_slave (pa_dc q)) = 8 \<and> sc_tx_pdo_bytes (dc_slave (pa_dc q)) = 17"
    "dp_expected_working_counter (pa_dp q) \<noteq> 0" "dp_feedback_timeout_ms (pa_dp q) > 0"
    using t fr by (simp_all add: f(3) frame_of_def)
qed

text \<open>A deployed configuration.\<close>

definition demo_parameters :: hardware_parameters where
  "demo_parameters = map_of
     [(''position_min_m'', ''0.0''), (''position_max_m'', ''-0.85''), (''max_rpm'', ''1080''),
      (''kp_rpm_per_m'', ''2000''), (''lift_velocity_kp_rpm_per_m'', ''2.5e3'')]"

lemma bounds_wide: "1000000 < overflow_bound" "min_normal < 1 / 1000000"
proof -
  have "(2::real) ^ 970 * 2 \<le> 2 ^ 970 * 2 ^ 54"
    by (intro mult_left_mono) simp_all
  then have "(2::real) ^ 970 * 2 \<le> 2 ^ 1024"
    by (simp only: power_add [symmetric]) simp
  moreover have "(2::real) ^ 20 \<le> 2 ^ 970"
    by (intro power_increasing) simp_all
  ultimately show "1000000 < overflow_bound"
    unfolding overflow_bound_def by simp
  have "(2::real) ^ 20 \<le> 2 ^ 1022"
    by (intro power_increasing) simp_all
  then have "1 / (2::real) ^ 1022 \<le> 1 / 2 ^ 20"
    by (intro divide_left_mono) simp_all
  then show "min_normal < 1 / 1000000"
    unfolding min_normal_def by simp
qed

lemma demo_texts:
  "parse_double ''0.0'' = Some (Fin 0)" "parse_double ''-0.85'' = Some (Fin (- 85 / 100))"
  "parse_double ''2000'' = Some (Fin 2000)" "parse_double ''2.5e3'' = Some (Fin 2500)"
  "parse_int ''1080'' = Some 1080"
  using bounds_wide
  by (simp_all add: parse_double_def c_space_def split_sign_def stod_magnitude_def scan_digits_def
      scan_exponent_def digit_value_def scaled_def digits_value_def parse_int_def parse_signed_def
      magnitude_def Let_def)

section \<open>Two names of one member\<close>

text \<open>The value a member gets that has a public and a legacy name.\<close>

definition resolved :: "(string \<Rightarrow> 'a option) \<Rightarrow> hardware_parameters \<Rightarrow> string \<Rightarrow> string \<Rightarrow> 'a \<Rightarrow> 'a option" where
  "resolved parser info public legacy initial =
     (case info public of Some s \<Rightarrow> parser s
      | None \<Rightarrow> (case info legacy of Some s \<Rightarrow> parser s | None \<Rightarrow> Some initial))"

lemma run_optional:
  assumes "run_steps (get_optional parser key put # ys) info p = Some q" "list_all (keeps f) ys"
    and "\<And>v p. f (put v p) = v"
  shows "(case info key of Some s \<Rightarrow> parser s | None \<Rightarrow> Some (f p)) = Some (f q)"
  using assms(1) run_keeps [OF assms(2)]
  by (auto simp: get_optional_def assms(3) split: option.splits)

lemma run_two_names:
  assumes "run_steps ss info p = Some q"
    and "ss = xs @ get_optional parser legacy put # ys @ get_optional parser public put # zs"
    and "list_all (keeps f) (xs @ ys @ zs)" "\<And>v p. f (put v p) = v"
  shows "resolved parser info public legacy (f p) = Some (f q)"
proof -
  obtain p1 p2 where r: "run_steps xs info p = Some p1"
    "run_steps (get_optional parser legacy put # ys) info p1 = Some p2"
    "run_steps (get_optional parser public put # zs) info p2 = Some q"
    using assms(1) unfolding assms(2)
    by (auto simp: run_steps_append bind_eq_Some_conv split: option.splits)
  have k: "list_all (keeps f) xs" "list_all (keeps f) ys" "list_all (keeps f) zs"
    using assms(3) by simp_all
  show ?thesis
    using run_keeps [OF k(1) r(1)] run_optional [OF r(2) k(2) assms(4)] run_optional [OF r(3) k(3) assms(4)]
    by (auto simp: resolved_def split: option.splits)
qed

lemma two_names:
  assumes "parse_parameters info params_default = Some q"
  shows "resolved parse_double info ''lift_velocity_kp_rpm_per_m'' ''kp_rpm_per_m'' (Fin 3000) =
      Some (pm_kp_rpm_per_m (pa_mp q))"
    and "resolved parse_double info ''lift_velocity_slew_rpm_per_s'' ''velocity_slew_rpm_per_s'' (Fin 600) =
      Some (pm_velocity_slew_rpm_per_s (pa_mp q))"
proof -
  obtain p1 p2 p3 where s: "run_steps transport_steps info params_default = Some p1"
    "run_steps unit_steps info p1 = Some p2" "run_steps later_steps info p2 = Some p3"
    and q: "q = make_controller p3"
    using assms by (rule parse_stages)
  have "run_steps (transport_steps @ unit_steps) info params_default = Some p2"
    using s(1,2) by (simp add: run_steps_append)
  then have "gains_of p2 = gains_of params_default"
    by (rule run_keeps [OF gains_kept])
  then have p2: "pm_kp_rpm_per_m (pa_mp p2) = Fin 3000" "pm_velocity_slew_rpm_per_s (pa_mp p2) = Fin 600"
    by (simp_all add: gains_of_def params_default_def)
  show "resolved parse_double info ''lift_velocity_kp_rpm_per_m'' ''kp_rpm_per_m'' (Fin 3000) =
      Some (pm_kp_rpm_per_m (pa_mp q))"
    unfolding q make_controller_frame p2(1) [symmetric]
    by (rule run_two_names [OF s(3), where xs = "[]" and ys = "tl tuning_steps @ maintenance_steps"
          and zs = "tl public_steps @ brake_mode_steps @ flag_steps"
          and put = "\<lambda>v. upd_mp (\<lambda>m. m\<lparr>pm_kp_rpm_per_m := v\<rparr>)"])
      (auto simp: later_steps_def step_lists upd_defs intro!: keeps_intros)
  show "resolved parse_double info ''lift_velocity_slew_rpm_per_s'' ''velocity_slew_rpm_per_s'' (Fin 600) =
      Some (pm_velocity_slew_rpm_per_s (pa_mp q))"
    unfolding q make_controller_frame p2(2) [symmetric]
    by (rule run_two_names [OF s(3), where xs = "take 8 tuning_steps" and
          ys = "drop 9 tuning_steps @ maintenance_steps @ take 9 public_steps"
          and zs = "drop 10 public_steps @ brake_mode_steps @ flag_steps"
          and put = "\<lambda>v. upd_mp (\<lambda>m. m\<lparr>pm_velocity_slew_rpm_per_s := v\<rparr>)"])
      (auto simp: later_steps_def step_lists upd_defs intro!: keeps_intros)
qed

section \<open>A malformed timeout\<close>

lemma run_steps_cong: "list_all (\<lambda>s. \<forall>p. s i p = s i' p) ss \<Longrightarrow> run_steps ss i p = run_steps ss i' p"
  by (induction ss arbitrary: p) (auto split: option.split)

definition without_timeout :: "hardware_parameters \<Rightarrow> hardware_parameters" where
  "without_timeout info = info(''feedback_timeout_ms'' := None)"

lemma other_steps_agree:
  "list_all (\<lambda>s. \<forall>p. s (info(''feedback_timeout_ms'' \<mapsto> bad)) p = s (without_timeout info) p)
     (take 7 transport_steps @ drop 8 transport_steps @ unit_steps @ later_steps @ final_steps)"
  by (simp add: step_lists later_steps_def final_steps_def get_optional_def get_ignoring_def get_string_def
      check_def get_local_def without_timeout_def)

lemma timeout_ignored:
  assumes "parse_int bad = None"
  shows "parse_parameters (info(''feedback_timeout_ms'' \<mapsto> bad)) params_default =
    parse_parameters (without_timeout info) params_default"
proof -
  let ?i = "info(''feedback_timeout_ms'' \<mapsto> bad)" and ?i' = "without_timeout info"
  define rest where "rest = drop 8 transport_steps @ unit_steps @ later_steps @ final_steps"
  have split: "parse_parameters = run_steps (take 7 transport_steps @ feedback_timeout_step # rest)"
    by (simp add: parse_parameters_def later_steps_def transport_steps_def rest_def)
  have agree: "run_steps (take 7 transport_steps) ?i p = run_steps (take 7 transport_steps) ?i' p"
    "run_steps rest ?i p = run_steps rest ?i' p" for p
    using other_steps_agree [of info bad] by (auto simp: rest_def intro!: run_steps_cong)
  have "dp_feedback_timeout_ms (pa_dp p) > 0"
    if "run_steps (take 7 transport_steps) ?i' params_default = Some p" for p
  proof -
    have "list_all (stays (\<lambda>p. dp_feedback_timeout_ms (pa_dp p) > 0)) (take 7 transport_steps)"
      by (auto simp: transport_steps_def upd_defs intro!: stays_intros split: if_splits)
    from run_stays [OF this that default_facts(2)] show ?thesis .
  qed
  then have "feedback_timeout_step ?i p = feedback_timeout_step ?i' p"
    if "run_steps (take 7 transport_steps) ?i' params_default = Some p" for p
    using that assms by (simp add: feedback_timeout_step_def get_optional_def without_timeout_def)
  then show ?thesis
    unfolding split run_steps_append run_steps.simps agree
    by (cases "run_steps (take 7 transport_steps) ?i' params_default") (simp_all add: agree)
qed

section \<open>Properties\<close>

lemma demo_transport: "run_steps transport_steps demo_parameters params_default = Some params_default"
  by (simp add: transport_steps_def get_optional_def get_ignoring_def get_string_def check_def get_local_def
      feedback_timeout_step_def u16_member_def demo_parameters_def params_default_def upd_defs
      master_config_default_def slave_config_default_def ms_to_ns_def)

definition demo_settled :: params where
  "demo_settled = upd_mp (\<lambda>m. m\<lparr>pm_position_min_m := Fin (- 85 / 100), pm_position_max_m := Fin 0,
     pm_max_rpm := 1080\<rparr>) params_default"

lemma demo_units: "run_steps unit_steps demo_parameters params_default = Some demo_settled"
  by (simp add: unit_steps_def get_optional_def check_def demo_parameters_def demo_settled_def params_default_def
      upd_defs order_limits_def demo_texts lift_unit_config_default_def zero_double_def)

lemma absent_steps:
  "list_all (\<lambda>s. \<forall>p. s info p = Some p) ss \<Longrightarrow> run_steps ss info p = Some p"
  by (induction ss arbitrary: p) auto

lemma demo_later: "run_steps later_steps demo_parameters demo_settled =
    Some (upd_mp (\<lambda>m. m\<lparr>pm_kp_rpm_per_m := Fin 2500\<rparr>) demo_settled)"
proof -
  have "list_all (\<lambda>s. \<forall>p. s demo_parameters p = Some p) (tl tuning_steps @ maintenance_steps)"
    "list_all (\<lambda>s. \<forall>p. s demo_parameters p = Some p) (tl public_steps @ brake_mode_steps @ flag_steps)"
    by (simp_all add: step_lists get_optional_def get_string_def demo_parameters_def)
  note skip = this [THEN absent_steps]
  have v: "demo_parameters ''kp_rpm_per_m'' = Some ''2000''"
    "demo_parameters ''lift_velocity_kp_rpm_per_m'' = Some ''2.5e3''"
    by (simp_all add: demo_parameters_def)
  have l: "later_steps = get_optional parse_double ''kp_rpm_per_m'' (\<lambda>v. upd_mp (\<lambda>m. m\<lparr>pm_kp_rpm_per_m := v\<rparr>)) #
      (tl tuning_steps @ maintenance_steps) @
      get_optional parse_double ''lift_velocity_kp_rpm_per_m'' (\<lambda>v. upd_mp (\<lambda>m. m\<lparr>pm_kp_rpm_per_m := v\<rparr>)) #
      tl public_steps @ brake_mode_steps @ flag_steps"
    by (simp add: later_steps_def step_lists)
  show ?thesis
    unfolding l run_steps.simps run_steps_append [of "tl tuning_steps @ maintenance_steps"]
    by (simp add: skip v get_optional_def demo_texts upd_mp_def)
qed

lemma demo_accepted:
  "parse_parameters demo_parameters params_default =
     Some (make_controller (upd_mp (\<lambda>m. m\<lparr>pm_kp_rpm_per_m := Fin 2500\<rparr>) demo_settled))"
proof -
  let ?p = "upd_mp (\<lambda>m. m\<lparr>pm_kp_rpm_per_m := Fin 2500\<rparr>) demo_settled"
  have "ranges_ok ?p" "limit_switch_ok ?p"
    by (simp_all add: ranges_ok_def limit_switch_ok_def demo_settled_def params_default_def upd_mp_def
        less_eq_double_def zero_double_def one_double_def)
  then have "run_steps final_steps demo_parameters ?p = Some (make_controller ?p)"
    by (simp add: final_steps_def check_def)
  then show ?thesis
    by (simp only: parse_split run_steps_append demo_transport demo_units demo_later bind.simps)
qed

text \<open>C7: Accepted parameters are safe to run with: the gains and limits of the command law are finite, the
  position limits are in order, the speeds are positive and the recovery speed does not exceed the
  maximum, the bus cycle is 10 ms with the two process data images of the drive, the expected working
  counter and the feedback timeout are positive, an enabled limit switch has an input, and the number
  of fault resets is not negative.\<close>

theorem parameters_accepted_safe:
  assumes "parse_parameters info params_default = Some q"
  shows "motion_params_ok (pa_mp q) \<and> pm_position_min_m (pa_mp q) \<le> pm_position_max_m (pa_mp q) \<and>
    0 < pm_max_rpm (pa_mp q) \<and> pm_position_limit_recovery_max_rpm (pa_mp q) \<le> pm_max_rpm (pa_mp q) \<and>
    mc_cycle_period (dc_master (pa_dc q)) = 10000000 \<and>
    sc_rx_pdo_bytes (dc_slave (pa_dc q)) = 8 \<and> sc_tx_pdo_bytes (dc_slave (pa_dc q)) = 17 \<and>
    dp_expected_working_counter (pa_dp q) \<noteq> 0 \<and> dp_feedback_timeout_ms (pa_dp q) > 0 \<and>
    limit_switch_ok q \<and> 0 \<le> ly_max_fault_reset_attempts (pa_ly q)"
  using accepted [OF assms] by blast

theorem parameters_accepted_safe_witness:
  "\<exists>q. parse_parameters demo_parameters params_default = Some q \<and> motion_params_ok (pa_mp q)"
  using parameters_accepted_safe [OF demo_accepted] demo_accepted by blast

text \<open>The public tuning names override the legacy ones, which override the defaults, for the gain and the
  slew rate: the member of an accepted configuration is exactly the value of the name that counts.\<close>

theorem public_names_override:
  assumes "parse_parameters info params_default = Some q"
  shows "resolved parse_double info ''lift_velocity_kp_rpm_per_m'' ''kp_rpm_per_m'' (Fin 3000) =
      Some (pm_kp_rpm_per_m (pa_mp q)) \<and>
    resolved parse_double info ''lift_velocity_slew_rpm_per_s'' ''velocity_slew_rpm_per_s'' (Fin 600) =
      Some (pm_velocity_slew_rpm_per_s (pa_mp q))"
  using two_names [OF assms] by blast

theorem public_names_override_witness:
  "\<exists>q. parse_parameters demo_parameters params_default = Some q \<and> pm_kp_rpm_per_m (pa_mp q) = Fin 2500"
  using public_names_override [OF demo_accepted] demo_accepted
  by (simp add: resolved_def demo_parameters_def demo_texts)

text \<open>A malformed feedback timeout is accepted silently: the parameters are treated as if it were absent.\<close>

theorem malformed_timeout_accepted:
  assumes "parse_int bad = None"
  shows "parse_parameters (info(''feedback_timeout_ms'' \<mapsto> bad)) params_default =
    parse_parameters (without_timeout info) params_default"
  using assms by (rule timeout_ignored)

theorem malformed_timeout_accepted_witness:
  "parse_parameters (demo_parameters(''feedback_timeout_ms'' \<mapsto> ''50ms'')) params_default =
    parse_parameters demo_parameters params_default"
proof -
  have "parse_int ''50ms'' = None"
    by (simp add: parse_int_def parse_signed_def c_space_def split_sign_def magnitude_def digits_value_def
        digit_value_def)
  moreover have "without_timeout demo_parameters = demo_parameters"
    by (simp add: without_timeout_def demo_parameters_def)
  ultimately show ?thesis
    using malformed_timeout_accepted [of "''50ms''" demo_parameters] by simp
qed

section \<open>Parameters, drive and command law together\<close>

lemma units_of_drive_valid: "units_of_drive od k u = Some v \<Longrightarrow> validate_lift_units v = Inr ()"
  by (auto simp: units_of_drive_def Let_def split: option.splits sum.splits if_splits)

definition demo_configuring :: "mock_backend configuring" where
  "demo_configuring = \<lparr>cf_backend = mock_new, cf_units = lift_unit_config_default, cf_observed_ms = - 1\<rparr>"

lemma decode_store_u32 [simp]: "decode_u32_le (store_u32_le v) = Some v"
proof -
  have "[0..<4] = [0, 1, 2, 3]"
    by (simp add: upt_rec)
  then show ?thesis
    using load_store_u32_le_Nil [of v] by (simp add: decode_u32_le_def load_u32_le_def) (simp add: store_u32_le_def)
qed

lemma demo_speed_configured: "fst (configure_backend mock_methods (pa_dc params_default) demo_configuring)"
proof -
  let ?od = "object_u32 (mock_objects mock_new)"
  have o: "?od 0x608F 1 = Some 131072" "?od 0x6091 1 = Some 1" "?od 0x6091 2 = Some 1" "?od 0x6092 1 = Some 10000"
    "?od 0x2008 0 = Some 0" "?od 0x2437 0 = Some 150" "?od 0x2438 0 = Some 0" "?od 0x2439 0 = Some 30"
    "?od 0x2614 0 = Some 500" "?od 0x2506 0 = Some 3" "?od 0x2510 0 = Some 4"
    by (simp_all add: object_u32_def mock_objects_def mock_object_def mock_new_def)
  have "llround_u32 (Fin 10000) = Some 10000"
    using llround_u32_of_u32 [of 10000] by (simp add: of_u32_def)
  then have "units_of_drive ?od (pa_dc params_default) lift_unit_config_default \<noteq> None"
    using llround_u32_of_u32 [of 10000]
    by (simp add: units_of_drive_def o derive_command_units_per_rev_def units_disagree_def params_default_def
        lift_unit_config_default_def validate_lift_units_def effective_command_units_per_rev_def of_u32_def
        less_eq_double_def zero_double_def abs_double_def dmax_def)
  moreover have "brake_of_drive ?od (pa_dc params_default) \<noteq> None"
    by (simp add: brake_of_drive_def o brake_ranges_ok_def brake_matches_def mismatch_def mode_mismatch_def
        expected_mode_def params_default_def)
  moreover have "mock_starts (dc_master (pa_dc params_default)) s b" for s b
    by (simp add: mock_starts_def params_default_def master_config_default_def)
  ultimately show ?thesis
    using mock_drive.configure_iff(1) [of "pa_dc params_default" demo_configuring]
    by (metis prod.collapse demo_configuring_def configuring.select_convs(1,2))
qed



end
