(* ===== verification/HeavyGateway.thy ===== *)
theory HeavyGateway
  imports Doubles
begin

text \<open>
  The data and the readiness tests of the Heavy gateway (\<open>robot_lower_gateway\<close>,
  \<open>heavy_gateway_v1.cpp\<close>), the node through which the upper computer commands the lift and the
  two arms: the messages it exchanges, its configuration and the state it keeps under its mutex,
  the handlers of the feedback topics, the feedback message it publishes and the validation of a
  command. A time is an integer count of nanoseconds of the steady clock, zero being the unset
  time point. A text assembled by the code from strings and numbers is the list of its parts; how a
  number is printed is left open.
\<close>

section \<open>Messages\<close>

datatype token = T string | N int | D double

type_synonym gtext = "token list"
type_synonym time = int

definition MODE_HOLD :: u8 where "MODE_HOLD = 0"
definition MODE_FOLLOW_POSITION :: u8 where "MODE_FOLLOW_POSITION = 1"
definition MODE_STOP :: u8 where "MODE_STOP = 2"
definition FIELD_POSITION :: u8 where "FIELD_POSITION = 1"
definition FIELD_VELOCITY :: u8 where "FIELD_VELOCITY = 2"
definition FIELD_ACCELERATION :: u8 where "FIELD_ACCELERATION = 4"

definition kProtocolMajor :: u16 where "kProtocolMajor = 1"
definition kProtocolMinor :: u16 where "kProtocolMinor = 0"
definition kLayoutCrc32 :: u32 where "kLayoutCrc32 = 0x8c172bd8"
definition kResourceCount :: nat where "kResourceCount = 15"

lemmas gw_consts = MODE_HOLD_def MODE_FOLLOW_POSITION_def MODE_STOP_def FIELD_POSITION_def
  FIELD_VELOCITY_def FIELD_ACCELERATION_def kProtocolMajor_def kProtocolMinor_def kLayoutCrc32_def
  kResourceCount_def

record command =
  c_protocol_major :: u16
  c_protocol_minor :: u16
  c_layout_crc32 :: u32
  c_owner_id :: string
  c_lease_id :: string
  c_sequence :: u64
  c_mode :: u8
  c_field_mask :: u8
  c_position :: "double list"
  c_velocity :: "double list"
  c_acceleration :: "double list"

definition zeros :: "nat \<Rightarrow> double list" where
  "zeros n = replicate n (Fin 0)"

definition command_default :: command where
  "command_default = \<lparr>c_protocol_major = 0, c_protocol_minor = 0, c_layout_crc32 = 0, c_owner_id = '''',
     c_lease_id = '''', c_sequence = 0, c_mode = 0, c_field_mask = 0, c_position = zeros 15,
     c_velocity = zeros 15, c_acceleration = zeros 15\<rparr>"

record arm_power_status =
  ap_status_codes :: "i32 list"
  ap_enabled :: "bool list"
  ap_command_enabled :: bool
  ap_all_enabled :: bool

record lift_status =
  ls_valid :: bool
  ls_feedback_fresh :: bool
  ls_ethercat_operational :: bool
  ls_working_counter_ok :: bool
  ls_initialized :: bool
  ls_command_enabled :: bool
  ls_enabled :: bool
  ls_brake_unlocked :: bool
  ls_estop :: bool
  ls_motion_blocked :: bool
  ls_trajectory_active :: bool
  ls_jog_active :: bool
  ls_error_code :: i32
  ls_cia402_state :: string

text \<open>The values of \<open>WorkspaceStatus::state\<close> and \<open>mode\<close>, \<open>ArmControlModeStatus::active_mode\<close> and the
  gateway's own \<open>Status::state\<close>.\<close>

definition WS_STARTING :: u8 where "WS_STARTING = 1"
definition WS_RUNNING :: u8 where "WS_RUNNING = 2"
definition WS_SIMULATION :: u8 where "WS_SIMULATION = 0"
definition WS_REAL :: u8 where "WS_REAL = 1"
definition CM_POSITION :: u8 where "CM_POSITION = 0"

lemmas ws_consts = WS_STARTING_def WS_RUNNING_def WS_SIMULATION_def WS_REAL_def CM_POSITION_def

record workspace_status =
  wk_state :: u8
  wk_mode :: u8
  wk_accepted :: bool

record control_mode_status =
  cm_active_mode :: u8
  cm_position_command_ready :: bool

record joint_state_msg =
  jm_name :: "string list"
  jm_position :: "double list"
  jm_velocity :: "double list"

datatype gw_state = ST_OFFLINE | ST_MONITOR | ST_LEASED_HOLD | ST_FOLLOWING | ST_STOPPING | ST_FAULT

section \<open>Configuration\<close>

text \<open>The parameters as declared; \<open>k_brake_client\<close> says whether the name of the native brake service is
  non-empty, which is when the client exists. Durations are in milliseconds.\<close>

record gw_config =
  k_command_rate_hz :: double
  k_controller_rate_hz :: double
  k_feedback_rate_hz :: double
  k_status_rate_hz :: double
  k_command_hold_timeout :: int
  k_feedback_fault_timeout :: int
  k_workspace_status_timeout :: int
  k_execution_lease_timeout :: int
  k_startup_feedback_grace :: int
  k_controller_ack_timeout :: int
  k_controller_ack_retry_interval :: int
  k_service_timeout :: int
  k_lift_enable_timeout :: int
  k_arm_max_velocity :: double
  k_arm_max_acceleration :: double
  k_lift_min_position :: double
  k_lift_max_position :: double
  k_lift_position_tolerance :: double
  k_lift_max_velocity :: double
  k_lift_max_acceleration :: double
  k_allow_lift_only_follow :: bool
  k_arm_hold_tolerance :: double
  k_brake_lock_velocity :: double
  k_arm_native_names :: "string list"
  k_lift_native_name :: string
  k_brake_client :: bool

definition default_arm_names :: "string list" where
  "default_arm_names =
     [''ljoint1'', ''ljoint2'', ''ljoint3'', ''ljoint4'', ''ljoint5'', ''ljoint6'', ''ljoint7'',
      ''rjoint1'', ''rjoint2'', ''rjoint3'', ''rjoint4'', ''rjoint5'', ''rjoint6'', ''rjoint7'']"

definition declared_config :: gw_config where
  "declared_config = \<lparr>k_command_rate_hz = Fin 100, k_controller_rate_hz = Fin 100,
     k_feedback_rate_hz = Fin 100, k_status_rate_hz = Fin 10, k_command_hold_timeout = 100,
     k_feedback_fault_timeout = 300, k_workspace_status_timeout = 3000,
     k_execution_lease_timeout = 500, k_startup_feedback_grace = 2000,
     k_controller_ack_timeout = 200, k_controller_ack_retry_interval = 50,
     k_service_timeout = 5000, k_lift_enable_timeout = 1000,
     k_arm_max_velocity = Fin (3 / 10), k_arm_max_acceleration = Fin 1,
     k_lift_min_position = Fin (-1), k_lift_max_position = Fin 0,
     k_lift_position_tolerance = Fin (2 / 1000), k_lift_max_velocity = Fin (60 / 1000),
     k_lift_max_acceleration = Fin (10 / 100), k_allow_lift_only_follow = False,
     k_arm_hold_tolerance = Fin (1 / 1000), k_brake_lock_velocity = Fin (1 / 1000),
     k_arm_native_names = default_arm_names, k_lift_native_name = ''joint_motor'',
     k_brake_client = False\<rparr>"

definition positiveMilliseconds :: "int \<Rightarrow> bool" where
  "positiveMilliseconds v \<longleftrightarrow> \<not> (v \<le> 0 \<or> v > 600000)"

definition positiveRate :: "double \<Rightarrow> bool" where
  "positiveRate v \<longleftrightarrow> \<not> (\<not> isfinite v \<or> v \<le> Fin 0 \<or> v > Fin 1000)"

text \<open>\<open>configureParameters\<close> throws unless all of this holds.\<close>

definition configureParameters :: "gw_config \<Rightarrow> bool" where
  "configureParameters k \<longleftrightarrow>
     list_all positiveRate [k_command_rate_hz k, k_controller_rate_hz k, k_feedback_rate_hz k,
       k_status_rate_hz k, k_arm_max_velocity k, k_arm_max_acceleration k, k_lift_max_velocity k,
       k_lift_max_acceleration k, k_brake_lock_velocity k] \<and>
     list_all positiveMilliseconds [k_command_hold_timeout k, k_feedback_fault_timeout k,
       k_workspace_status_timeout k, k_execution_lease_timeout k, k_startup_feedback_grace k,
       k_controller_ack_timeout k, k_controller_ack_retry_interval k, k_service_timeout k,
       k_lift_enable_timeout k] \<and>
     \<not> k_brake_lock_velocity k > k_lift_max_velocity k \<and>
     \<not> k_controller_ack_retry_interval k \<ge> k_controller_ack_timeout k \<and>
     \<not> (\<not> isfinite (k_lift_min_position k) \<or> \<not> isfinite (k_lift_max_position k) \<or>
       k_lift_min_position k \<ge> k_lift_max_position k) \<and>
     \<not> (k_lift_min_position k < Fin (-1) \<or> k_lift_max_position k > Fin 0 \<or>
       k_lift_max_velocity k > Fin (60 / 1000) \<or> k_lift_max_acceleration k > Fin (10 / 100)) \<and>
     \<not> (\<not> isfinite (k_lift_position_tolerance k) \<or> k_lift_position_tolerance k < Fin 0 \<or>
       k_lift_position_tolerance k > Fin (1 / 100)) \<and>
     \<not> (\<not> isfinite (k_arm_hold_tolerance k) \<or> k_arm_hold_tolerance k \<le> Fin 0 \<or>
       k_arm_hold_tolerance k > Fin (1 / 100)) \<and>
     \<not> (length (k_arm_native_names k) \<noteq> 14 \<or> k_lift_native_name k = '''')"

definition ms :: "int \<Rightarrow> time" where
  "ms n = 1000000 * n"

section \<open>State\<close>

record joint_snapshot =
  js_position :: "double list"
  js_velocity :: "double list"
  js_position_valid_mask :: u16
  js_velocity_valid_mask :: u16
  js_arm_received :: bool
  js_lift_received :: bool
  js_arm_time :: time
  js_lift_time :: time

definition joint_snapshot_default :: joint_snapshot where
  "joint_snapshot_default = \<lparr>js_position = zeros 15, js_velocity = zeros 15,
     js_position_valid_mask = 0, js_velocity_valid_mask = 0, js_arm_received = False,
     js_lift_received = False, js_arm_time = 0, js_lift_time = 0\<rparr>"

record lease_state =
  le_active :: bool
  le_owner_id :: string
  le_lease_id :: string
  le_last_received_sequence :: u64
  le_last_accepted_sequence :: u64
  le_applied_command_sequence :: u64
  le_last_received_command_time :: time
  le_last_accepted_command_time :: time
  le_state :: gw_state
  le_detail :: gtext
  le_watchdog_hold_position :: "double list"
  le_watchdog_hold_captured :: bool

text \<open>The command in flight to the lower controllers, the staged one behind it, and what the lease
  keeps about them.\<close>

record transaction =
  tr_lease_generation :: u64
  tr_initial_sequence :: u64
  tr_controller_generation :: u64
  tr_pending_sequence :: u64
  tr_pending_external_sequence :: u64
  tr_pending_lift_target :: double
  tr_pending_internal :: command
  tr_pending_publish_time :: time
  tr_retry_count :: u64
  tr_arm_ack :: u64
  tr_lift_ack :: u64
  tr_aligned_hold :: bool
  tr_pending_valid :: bool
  tr_pending_is_user :: bool
  tr_staged_valid :: bool
  tr_staged :: command
  tr_revoke_after_ack :: bool
  tr_last_mode :: u8
  tr_first_user_command :: bool
  tr_pending_clear_reason :: gtext
  tr_last_clear_reason :: gtext
  tr_lease_deadline :: time
  tr_pending_time :: time

record brake_state =
  br_locked :: bool
  br_lock_commanded :: bool
  br_lock_pending :: bool
  br_lock_force :: bool
  br_transition :: bool
  br_transition_count :: u64
  br_pending_reason :: gtext
  br_last_reason :: gtext
  br_last_physical_time :: time

record counters =
  ct_received :: u64
  ct_accepted :: u64
  ct_rejected :: u64
  ct_duplicate :: u64
  ct_out_of_order :: u64
  ct_watchdog_hold :: u64
  ct_lease_expiry :: u64
  ct_last_arm_ack :: u64
  ct_last_lift_ack :: u64
  ct_ignored_arm_ack :: u64
  ct_ignored_lift_ack :: u64
  ct_feedback_sequence :: u64
  ct_last_rejection_reason :: gtext
  ct_last_feedback_publish_time :: time
  ct_last_status_publish_time :: time

text \<open>The last message of a topic, with its \<open>_received\<close> flag and its time.\<close>

record 'm latest =
  la_msg :: 'm
  la_received :: bool
  la_time :: time

record gateway =
  g_joints :: joint_snapshot
  g_arm_power :: "arm_power_status latest"
  g_lift_status :: "lift_status latest"
  g_workspace :: "workspace_status latest"
  g_control_mode :: "control_mode_status latest"
  g_lease :: lease_state
  g_tr :: transaction
  g_brake :: brake_state
  g_count :: counters
  g_acquiring :: bool
  g_started_at :: time

definition arm_power_default :: arm_power_status where
  "arm_power_default = \<lparr>ap_status_codes = [], ap_enabled = [], ap_command_enabled = False,
     ap_all_enabled = False\<rparr>"

definition lift_status_default :: lift_status where
  "lift_status_default = \<lparr>ls_valid = False, ls_feedback_fresh = False,
     ls_ethercat_operational = False, ls_working_counter_ok = False, ls_initialized = False,
     ls_command_enabled = False, ls_enabled = False, ls_brake_unlocked = False, ls_estop = False,
     ls_motion_blocked = False, ls_trajectory_active = False, ls_jog_active = False,
     ls_error_code = 0, ls_cia402_state = ''''\<rparr>"

definition never :: "'m \<Rightarrow> 'm latest" where
  "never m = \<lparr>la_msg = m, la_received = False, la_time = 0\<rparr>"

definition gateway_init :: "time \<Rightarrow> gateway" where
  "gateway_init now = \<lparr>g_joints = joint_snapshot_default, g_arm_power = never arm_power_default,
     g_lift_status = never lift_status_default,
     g_workspace = never \<lparr>wk_state = 0, wk_mode = 0, wk_accepted = False\<rparr>,
     g_control_mode = never \<lparr>cm_active_mode = 0, cm_position_command_ready = False\<rparr>,
     g_lease = \<lparr>le_active = False, le_owner_id = '''', le_lease_id = '''', le_last_received_sequence = 0,
       le_last_accepted_sequence = 0, le_applied_command_sequence = 0,
       le_last_received_command_time = 0, le_last_accepted_command_time = 0, le_state = ST_OFFLINE,
       le_detail = [T ''waiting for complete lower-controller feedback''],
       le_watchdog_hold_position = zeros 15, le_watchdog_hold_captured = False\<rparr>,
     g_tr = \<lparr>tr_lease_generation = 0, tr_initial_sequence = 0, tr_controller_generation = 0,
       tr_pending_sequence = 0, tr_pending_external_sequence = 0, tr_pending_lift_target = Fin 0,
       tr_pending_internal = command_default, tr_pending_publish_time = 0, tr_retry_count = 0,
       tr_arm_ack = 0, tr_lift_ack = 0, tr_aligned_hold = False, tr_pending_valid = False,
       tr_pending_is_user = False, tr_staged_valid = False, tr_staged = command_default,
       tr_revoke_after_ack = False, tr_last_mode = MODE_STOP, tr_first_user_command = True,
       tr_pending_clear_reason = [], tr_last_clear_reason = [T ''none''], tr_lease_deadline = 0,
       tr_pending_time = 0\<rparr>,
     g_brake = \<lparr>br_locked = True, br_lock_commanded = False, br_lock_pending = False,
       br_lock_force = False, br_transition = False, br_transition_count = 0,
       br_pending_reason = [], br_last_reason = [T ''startup: brake state awaiting feedback''],
       br_last_physical_time = 0\<rparr>,
     g_count = \<lparr>ct_received = 0, ct_accepted = 0, ct_rejected = 0, ct_duplicate = 0,
       ct_out_of_order = 0, ct_watchdog_hold = 0, ct_lease_expiry = 0, ct_last_arm_ack = 0,
       ct_last_lift_ack = 0, ct_ignored_arm_ack = 0, ct_ignored_lift_ack = 0,
       ct_feedback_sequence = 0, ct_last_rejection_reason = [], ct_last_feedback_publish_time = 0,
       ct_last_status_publish_time = 0\<rparr>,
     g_acquiring = False, g_started_at = now\<rparr>"

text \<open>Shorthands for the nested fields the code names by reference members.\<close>

abbreviation g_active :: "gateway \<Rightarrow> bool" where
  "g_active g \<equiv> le_active (g_lease g)"
abbreviation g_state :: "gateway \<Rightarrow> gw_state" where
  "g_state g \<equiv> le_state (g_lease g)"
abbreviation g_lift :: "gateway \<Rightarrow> lift_status" where
  "g_lift g \<equiv> la_msg (g_lift_status g)"
abbreviation g_mode :: "gateway \<Rightarrow> u8" where
  "g_mode g \<equiv> wk_mode (la_msg (g_workspace g))"

definition isFresh :: "bool \<Rightarrow> time \<Rightarrow> time \<Rightarrow> time \<Rightarrow> bool" where
  "isFresh received stamp now timeout \<longleftrightarrow>
     received \<and> stamp \<noteq> 0 \<and> now \<ge> stamp \<and> now - stamp \<le> timeout"

definition fresh :: "'m latest \<Rightarrow> time \<Rightarrow> int \<Rightarrow> bool" where
  "fresh l now timeout_ms = isFresh (la_received l) (la_time l) now (ms timeout_ms)"

section \<open>Readiness\<close>

text \<open>A test that fills \<open>reason\<close> returns \<open>None\<close> for true and \<open>Some reason\<close> for false. A chain of
  tests with \<open>||\<close> or early returns stops at the first one that fails.\<close>

fun first_reason :: "gtext option list \<Rightarrow> gtext option" where
  "first_reason [] = None"
| "first_reason (Some r # rs) = Some r"
| "first_reason (None # rs) = first_reason rs"

definition reject :: "bool \<Rightarrow> gtext \<Rightarrow> gtext option" where
  "reject b r = (if b then Some r else None)"

definition workspaceReady :: "gw_config \<Rightarrow> gateway \<Rightarrow> time \<Rightarrow> gtext option" where
  "workspaceReady k g now = first_reason
     [reject (\<not> fresh (g_workspace g) now (k_workspace_status_timeout k))
        [T ''workspace status unavailable or stale''],
      reject (\<not> wk_accepted (la_msg (g_workspace g)) \<or> wk_state (la_msg (g_workspace g)) \<noteq> WS_RUNNING)
        [T ''workspace is not RUNNING''],
      reject (\<not> fresh (g_control_mode g) now (k_feedback_fault_timeout k) \<or>
          cm_active_mode (la_msg (g_control_mode g)) \<noteq> CM_POSITION \<or>
          \<not> cm_position_command_ready (la_msg (g_control_mode g)))
        [T ''arm POSITION control mode is not ready'']]"

definition arm_joints_fresh :: "gw_config \<Rightarrow> gateway \<Rightarrow> time \<Rightarrow> bool" where
  "arm_joints_fresh k g now = isFresh (js_arm_received (g_joints g)) (js_arm_time (g_joints g)) now
     (ms (k_feedback_fault_timeout k))"

definition lift_joint_fresh :: "gw_config \<Rightarrow> gateway \<Rightarrow> time \<Rightarrow> bool" where
  "lift_joint_fresh k g now = isFresh (js_lift_received (g_joints g)) (js_lift_time (g_joints g)) now
     (ms (k_feedback_fault_timeout k))"

definition jointFeedbackComplete :: "gw_config \<Rightarrow> gateway \<Rightarrow> time \<Rightarrow> bool" where
  "jointFeedbackComplete k g now \<longleftrightarrow>
     arm_joints_fresh k g now \<and>
     js_position_valid_mask (g_joints g) AND 0x7ffe = 0x7ffe \<and>
     js_velocity_valid_mask (g_joints g) AND 0x7ffe = 0x7ffe \<and>
     lift_joint_fresh k g now \<and>
     js_position_valid_mask (g_joints g) AND 0x0001 \<noteq> 0 \<and>
     js_velocity_valid_mask (g_joints g) AND 0x0001 \<noteq> 0"

definition arm_power_fresh :: "gw_config \<Rightarrow> gateway \<Rightarrow> time \<Rightarrow> bool" where
  "arm_power_fresh k g now \<longleftrightarrow> fresh (g_arm_power g) now (k_feedback_fault_timeout k) \<and>
     length (ap_enabled (la_msg (g_arm_power g))) = 14 \<and>
     length (ap_status_codes (la_msg (g_arm_power g))) = 14"

definition feedbackReady :: "gw_config \<Rightarrow> gateway \<Rightarrow> time \<Rightarrow> gtext option" where
  "feedbackReady k g now = first_reason
     [reject (\<not> jointFeedbackComplete k g now)
        [T ''joint position or velocity feedback is incomplete or stale''],
      reject (\<not> arm_power_fresh k g now) [T ''arm power feedback is incomplete or stale''],
      reject (\<not> fresh (g_lift_status g) now (k_feedback_fault_timeout k) \<or> \<not> ls_valid (g_lift g) \<or>
          \<not> ls_feedback_fresh (g_lift g))
        [T ''lift drive feedback is invalid or stale'']]"

definition liftEnableReady :: "gw_config \<Rightarrow> gateway \<Rightarrow> time \<Rightarrow> gtext option" where
  "liftEnableReady k g now = first_reason
     [workspaceReady k g now, feedbackReady k g now,
      reject (ls_estop (g_lift g) \<or> ls_motion_blocked (g_lift g) \<or> ls_error_code (g_lift g) \<noteq> 0)
        [T ''lift is blocked by an emergency stop, motion latch, or drive error'']]"

definition liftPowerEnabled :: "gw_config \<Rightarrow> gateway \<Rightarrow> time \<Rightarrow> bool" where
  "liftPowerEnabled k g now \<longleftrightarrow>
     fresh (g_lift_status g) now (k_feedback_fault_timeout k) \<and>
     ls_valid (g_lift g) \<and> ls_feedback_fresh (g_lift g) \<and>
     ls_ethercat_operational (g_lift g) \<and> ls_working_counter_ok (g_lift g) \<and>
     ls_initialized (g_lift g) \<and> ls_command_enabled (g_lift g) \<and> ls_enabled (g_lift g) \<and>
     ls_brake_unlocked (g_lift g) \<and> ls_cia402_state (g_lift g) = ''operation_enabled'' \<and>
     \<not> ls_estop (g_lift g) \<and> \<not> ls_motion_blocked (g_lift g) \<and> ls_error_code (g_lift g) = 0"

text \<open>The numbers of matched subscriptions and publishers come from the middleware.\<close>

definition controllerEndpointsReady :: "nat \<times> nat \<times> nat \<Rightarrow> gtext option" where
  "controllerEndpointsReady = (\<lambda>(subs, arm, lift).
     reject (subs < 2 \<or> arm < 1 \<or> lift < 1)
       [T ''lower controller Heavy endpoints are not ready: command_subscriptions='', N (int subs),
        T ''/2 arm_ack_publishers='', N (int arm), T ''/1 lift_ack_publishers='', N (int lift), T ''/1''])"

lemma first_reason_None [simp]:
  "first_reason rs = None \<longleftrightarrow> list_all (\<lambda>r. r = None) rs"
  by (induction rs rule: first_reason.induct) simp_all

lemma reject_None [simp]: "reject b r = None \<longleftrightarrow> \<not> b"
  by (simp add: reject_def)

section \<open>Feedback topics\<close>

definition newest :: "'m \<Rightarrow> time \<Rightarrow> 'm latest" where
  "newest m now = \<lparr>la_msg = m, la_received = True, la_time = now\<rparr>"

definition on_arm_power :: "arm_power_status \<Rightarrow> time \<Rightarrow> gateway \<Rightarrow> gateway" where
  "on_arm_power m now g = g\<lparr>g_arm_power := newest m now\<rparr>"

definition on_lift_status :: "lift_status \<Rightarrow> time \<Rightarrow> gateway \<Rightarrow> gateway" where
  "on_lift_status m now g =
     (let g = g\<lparr>g_lift_status := newest m now\<rparr>
      in if \<not> br_lock_commanded (g_brake g)
         then g\<lparr>g_brake := (g_brake g)\<lparr>br_locked := \<not> ls_brake_unlocked m\<rparr>\<rparr> else g)"

definition running_simulation :: "workspace_status \<Rightarrow> bool" where
  "running_simulation w \<longleftrightarrow> wk_state w = WS_RUNNING \<and> wk_mode w = WS_SIMULATION"

definition on_workspace :: "workspace_status \<Rightarrow> time \<Rightarrow> gateway \<Rightarrow> gateway" where
  "on_workspace m now g =
     (let entering = running_simulation m \<and>
            (\<not> la_received (g_workspace g) \<or> \<not> running_simulation (la_msg (g_workspace g)));
          g = g\<lparr>g_workspace := newest m now\<rparr>
      in if entering
         then g\<lparr>g_joints := joint_snapshot_default, g_arm_power := never arm_power_default,
                g_lift_status := never lift_status_default\<rparr>
         else g)"

definition on_control_mode :: "control_mode_status \<Rightarrow> time \<Rightarrow> gateway \<Rightarrow> gateway" where
  "on_control_mode m now g = g\<lparr>g_control_mode := newest m now\<rparr>"

text \<open>\<open>handleArmJointState\<close>: the sources of the message are matched against the configured names; a name
  met twice is invalid.\<close>

record arm_sample =
  as_positions :: "double list"
  as_velocities :: "double list"
  as_seen :: "bool list"
  as_position_mask :: u16
  as_velocity_mask :: u16

definition arm_sample_init :: arm_sample where
  "arm_sample_init = \<lparr>as_positions = zeros 14, as_velocities = zeros 14, as_seen = replicate 14 False,
     as_position_mask = 0, as_velocity_mask = 0\<rparr>"

fun index_of :: "string list \<Rightarrow> string \<Rightarrow> nat option" where
  "index_of [] n = None"
| "index_of (x # xs) n = (if x = n then Some 0 else map_option Suc (index_of xs n))"

definition finite_at :: "double list \<Rightarrow> nat \<Rightarrow> bool" where
  "finite_at xs i \<longleftrightarrow> i < length xs \<and> isfinite (xs ! i)"

definition arm_sample_step :: "gw_config \<Rightarrow> joint_state_msg \<Rightarrow> nat \<Rightarrow> arm_sample \<Rightarrow> arm_sample" where
  "arm_sample_step k m source a =
     (case index_of (k_arm_native_names k) (jm_name m ! source) of
        None \<Rightarrow> a
      | Some i \<Rightarrow>
          if as_seen a ! i
          then a\<lparr>as_position_mask := as_position_mask a AND NOT (push_bit (i + 1) 1),
                 as_velocity_mask := as_velocity_mask a AND NOT (push_bit (i + 1) 1)\<rparr>
          else
            let a = a\<lparr>as_seen := (as_seen a)[i := True]\<rparr>;
                a = (if finite_at (jm_position m) source
                     then a\<lparr>as_positions := (as_positions a)[i := jm_position m ! source],
                            as_position_mask := as_position_mask a OR push_bit (i + 1) 1\<rparr>
                     else a)
            in if finite_at (jm_velocity m) source
               then a\<lparr>as_velocities := (as_velocities a)[i := jm_velocity m ! source],
                      as_velocity_mask := as_velocity_mask a OR push_bit (i + 1) 1\<rparr>
               else a)"

definition arm_sample :: "gw_config \<Rightarrow> joint_state_msg \<Rightarrow> arm_sample" where
  "arm_sample k m = fold (arm_sample_step k m) [0..<length (jm_name m)] arm_sample_init"

definition handleArmJointState :: "gw_config \<Rightarrow> joint_state_msg \<Rightarrow> time \<Rightarrow> gateway \<Rightarrow> gateway" where
  "handleArmJointState k m now g =
     (let a = arm_sample k m; j = g_joints g
      in g\<lparr>g_joints := j\<lparr>
           js_position := js_position j ! 0 # as_positions a,
           js_velocity := js_velocity j ! 0 # as_velocities a,
           js_position_valid_mask := (js_position_valid_mask j AND 0x0001) OR as_position_mask a,
           js_velocity_valid_mask := (js_velocity_valid_mask j AND 0x0001) OR as_velocity_mask a,
           js_arm_received := True, js_arm_time := now\<rparr>\<rparr>)"

text \<open>\<open>handleLiftJointState\<close>: the loop over the sources, from index \<open>i\<close>, with its flags \<open>seen\<close> and
  \<open>duplicate\<close>, and the accepted position and velocity.\<close>

function lift_sample_from :: "gw_config \<Rightarrow> joint_state_msg \<Rightarrow> nat \<Rightarrow> bool \<times> double option \<times> double option
    \<Rightarrow> bool \<times> double option \<times> double option" where
  "lift_sample_from k m i (seen, p, v) =
     (if i \<ge> length (jm_name m) then (False, p, v)
      else if jm_name m ! i \<noteq> k_lift_native_name k then lift_sample_from k m (i + 1) (seen, p, v)
      else if seen then (True, p, v)
      else lift_sample_from k m (i + 1)
        (True, if finite_at (jm_position m) i then Some (jm_position m ! i) else p,
               if finite_at (jm_velocity m) i then Some (jm_velocity m ! i) else v))"
  by pat_completeness auto
termination
  by (relation "measure (\<lambda>(k, m, i, _). length (jm_name m) - i)") auto

definition set_valid_bit :: "bool \<Rightarrow> u16 \<Rightarrow> u16" where
  "set_valid_bit b w = (if b then w OR 0x0001 else w AND 0xfffe)"

definition handleLiftJointState :: "gw_config \<Rightarrow> joint_state_msg \<Rightarrow> time \<Rightarrow> gateway \<Rightarrow> gateway" where
  "handleLiftJointState k m now g =
     (let (duplicate, p, v) = lift_sample_from k m 0 (False, None, None); j = g_joints g
      in g\<lparr>g_joints := j\<lparr>
           js_position := (js_position j)[0 := case p of Some x \<Rightarrow> x | None \<Rightarrow> Fin 0],
           js_velocity := (js_velocity j)[0 := case v of Some x \<Rightarrow> x | None \<Rightarrow> Fin 0],
           js_position_valid_mask :=
             set_valid_bit (p \<noteq> None \<and> \<not> duplicate) (js_position_valid_mask j),
           js_velocity_valid_mask :=
             set_valid_bit (v \<noteq> None \<and> \<not> duplicate) (js_velocity_valid_mask j),
           js_lift_received := True, js_lift_time := now\<rparr>\<rparr>)"

section \<open>Published feedback and status\<close>

definition kNoCommandAge :: "time option" where
  "kNoCommandAge = None"

text \<open>Ages are in nanoseconds; \<open>None\<close> is the code's \<open>-1.0\<close>.\<close>

definition commandAge :: "gateway \<Rightarrow> time \<Rightarrow> time option" where
  "commandAge g now =
     (if le_last_accepted_command_time (g_lease g) = 0 then kNoCommandAge
      else Some (now - le_last_accepted_command_time (g_lease g)))"

definition receivedCommandAge :: "gateway \<Rightarrow> time \<Rightarrow> time option" where
  "receivedCommandAge g now =
     (if le_last_received_command_time (g_lease g) = 0 then kNoCommandAge
      else Some (now - le_last_received_command_time (g_lease g)))"

definition leaseRemaining :: "gateway \<Rightarrow> time \<Rightarrow> time" where
  "leaseRemaining g now =
     (if \<not> g_active g \<or> now \<ge> tr_lease_deadline (g_tr g) then 0 else tr_lease_deadline (g_tr g) - now)"

datatype workspace_kind = WORKSPACE_STOPPED | WORKSPACE_SIMULATION | WORKSPACE_REAL

record feedback =
  fb_sequence :: u64
  fb_applied_command_sequence :: u64
  fb_active_owner_id :: string
  fb_active_lease_id :: string
  fb_workspace_state :: workspace_kind
  fb_control_mode_position :: bool
  fb_position_valid_mask :: u16
  fb_velocity_valid_mask :: u16
  fb_arm_torque_enabled_mask :: u16
  fb_resource_fault_mask :: u16
  fb_lift_drive_enabled :: bool
  fb_position :: "double list"
  fb_velocity :: "double list"
  fb_fault_code :: "i32 list"
  fb_command_age :: "time option"

definition feedback_workspace :: "gw_config \<Rightarrow> gateway \<Rightarrow> time \<Rightarrow> workspace_kind" where
  "feedback_workspace k g now =
     (if fresh (g_workspace g) now (k_workspace_status_timeout k) \<and>
         wk_state (la_msg (g_workspace g)) = WS_RUNNING
      then if g_mode g = WS_REAL then WORKSPACE_REAL else WORKSPACE_SIMULATION
      else WORKSPACE_STOPPED)"

definition trim_mask :: "gw_config \<Rightarrow> gateway \<Rightarrow> time \<Rightarrow> u16 \<Rightarrow> u16" where
  "trim_mask k g now w =
     (let w = (if arm_joints_fresh k g now then w else w AND 0x0001)
      in if lift_joint_fresh k g now then w else w AND 0x7ffe)"

text \<open>The torque mask, the fault mask and the fault codes after the drive at \<open>index\<close> of the arm power
  status, and after all of them.\<close>

definition arm_power_bit :: "arm_power_status \<Rightarrow> nat \<Rightarrow> u16 \<times> u16 \<times> i32 list \<Rightarrow> u16 \<times> u16 \<times> i32 list" where
  "arm_power_bit ap index = (\<lambda>(torque, faults, codes).
     let torque = (if ap_enabled ap ! index then torque OR push_bit (index + 1) 1 else torque);
         code = ap_status_codes ap ! index
     in if code = 0 \<or> code = 8
        then (torque, faults OR push_bit (index + 1) 1, codes[index + 1 := if code = 0 then -1 else code])
        else (torque, faults, codes))"

definition arm_power_masks :: "gw_config \<Rightarrow> gateway \<Rightarrow> time \<Rightarrow> u16 \<times> u16 \<times> i32 list" where
  "arm_power_masks k g now =
     (if arm_power_fresh k g now
      then fold (arm_power_bit (la_msg (g_arm_power g))) [0..<14] (0, 0, replicate 15 0)
      else (0, 0, replicate 15 0))"

definition lift_fault_mask :: "gw_config \<Rightarrow> gateway \<Rightarrow> time \<Rightarrow> u16 \<times> i32 list \<Rightarrow> u16 \<times> i32 list" where
  "lift_fault_mask k g now = (\<lambda>(faults, codes).
     if \<not> fresh (g_lift_status g) now (k_feedback_fault_timeout k) \<or> \<not> ls_valid (g_lift g) \<or>
        ls_error_code (g_lift g) \<noteq> 0
     then (faults OR 0x0001,
           codes[0 := if ls_error_code (g_lift g) = 0 then -1 else ls_error_code (g_lift g)])
     else (faults, codes))"

definition or_minus_one :: "i32 \<Rightarrow> i32" where
  "or_minus_one c = (if c = 0 then -1 else c)"

definition incomplete_fault_mask :: "u16 \<Rightarrow> u16 \<Rightarrow> u16 \<times> i32 list \<Rightarrow> u16 \<times> i32 list" where
  "incomplete_fault_mask pmask vmask = (\<lambda>(faults, codes).
     let (faults, codes) =
           (if pmask AND 0x7ffe \<noteq> 0x7ffe \<or> vmask AND 0x7ffe \<noteq> 0x7ffe
            then (faults OR 0x7ffe, hd codes # map or_minus_one (tl codes)) else (faults, codes))
     in if pmask AND 0x0001 = 0 \<or> vmask AND 0x0001 = 0
        then (faults OR 0x0001, codes[0 := or_minus_one (codes ! 0)]) else (faults, codes))"

definition publishFeedback :: "gw_config \<Rightarrow> time \<Rightarrow> gateway \<Rightarrow> feedback option \<times> gateway" where
  "publishFeedback k now g =
     (let complete = jointFeedbackComplete k g now
      in if g_active g \<and> \<not> complete then (None, g)
      else
        let g = g\<lparr>g_count := (g_count g)\<lparr>ct_last_feedback_publish_time := now,
                    ct_feedback_sequence := ct_feedback_sequence (g_count g) + 1\<rparr>\<rparr>;
            pmask = trim_mask k g now (js_position_valid_mask (g_joints g));
            vmask = trim_mask k g now (js_velocity_valid_mask (g_joints g));
            (torque, faults, codes) = arm_power_masks k g now;
            (faults, codes) = lift_fault_mask k g now (faults, codes);
            (faults, codes) = (if \<not> complete then incomplete_fault_mask pmask vmask (faults, codes)
                               else (faults, codes))
        in (Some \<lparr>fb_sequence = ct_feedback_sequence (g_count g),
              fb_applied_command_sequence = le_applied_command_sequence (g_lease g),
              fb_active_owner_id = (if g_active g then le_owner_id (g_lease g) else ''''),
              fb_active_lease_id = (if g_active g then le_lease_id (g_lease g) else ''''),
              fb_workspace_state = feedback_workspace k g now,
              fb_control_mode_position =
                (fresh (g_control_mode g) now (k_feedback_fault_timeout k) \<and>
                 cm_active_mode (la_msg (g_control_mode g)) = CM_POSITION),
              fb_position_valid_mask = pmask, fb_velocity_valid_mask = vmask,
              fb_arm_torque_enabled_mask = torque, fb_resource_fault_mask = faults,
              fb_lift_drive_enabled = (fresh (g_lift_status g) now (k_feedback_fault_timeout k) \<and>
                ls_valid (g_lift g) \<and> ls_enabled (g_lift g)),
              fb_position = js_position (g_joints g), fb_velocity = js_velocity (g_joints g),
              fb_fault_code = codes, fb_command_age = commandAge g now\<rparr>, g))"

text \<open>The compatibility answer; the constants that only describe the build are left out.\<close>

record capabilities =
  ca_compatible :: bool
  ca_protocol_major :: u16
  ca_protocol_minor :: u16
  ca_layout_crc32 :: u32
  ca_resource_count :: nat
  ca_command_rate_hz :: double
  ca_feedback_rate_hz :: double
  ca_command_timeout_ms :: int
  ca_lease_timeout_ms :: int

definition handleCapabilities :: "gw_config \<Rightarrow> u16 \<Rightarrow> capabilities" where
  "handleCapabilities k requested_major =
     \<lparr>ca_compatible = (requested_major = kProtocolMajor), ca_protocol_major = kProtocolMajor,
      ca_protocol_minor = kProtocolMinor, ca_layout_crc32 = kLayoutCrc32,
      ca_resource_count = kResourceCount, ca_command_rate_hz = k_command_rate_hz k,
      ca_feedback_rate_hz = k_feedback_rate_hz k, ca_command_timeout_ms = k_command_hold_timeout k,
      ca_lease_timeout_ms = k_execution_lease_timeout k\<rparr>"

text \<open>The status message without its diagnostic text.\<close>

record status_msg =
  sm_state :: gw_state
  sm_active_owner_id :: string
  sm_active_lease_id :: string
  sm_lease_remaining :: time
  sm_command_age :: "time option"
  sm_accepted :: u64
  sm_rejected :: u64
  sm_duplicate :: u64
  sm_out_of_order :: u64
  sm_detail :: gtext

text \<open>\<open>minimum_period\<close> is one over the status rate, in nanoseconds, for a rate the configuration
  allows.\<close>

definition minimum_period :: "gw_config \<Rightarrow> real" where
  "minimum_period k = 1000000000 / val (k_status_rate_hz k)"

definition publishStatus :: "gw_config \<Rightarrow> bool \<Rightarrow> time \<Rightarrow> gateway \<Rightarrow> status_msg option \<times> gateway" where
  "publishStatus k force now g =
     (if \<not> force \<and> ct_last_status_publish_time (g_count g) \<noteq> 0 \<and>
         real_of_int (now - ct_last_status_publish_time (g_count g)) < minimum_period k
      then (None, g)
      else (Some \<lparr>sm_state = g_state g,
              sm_active_owner_id = (if g_active g then le_owner_id (g_lease g) else ''''),
              sm_active_lease_id = (if g_active g then le_lease_id (g_lease g) else ''''),
              sm_lease_remaining = leaseRemaining g now, sm_command_age = commandAge g now,
              sm_accepted = ct_accepted (g_count g), sm_rejected = ct_rejected (g_count g),
              sm_duplicate = ct_duplicate (g_count g),
              sm_out_of_order = ct_out_of_order (g_count g), sm_detail = le_detail (g_lease g)\<rparr>,
            g\<lparr>g_count := (g_count g)\<lparr>ct_last_status_publish_time := now\<rparr>\<rparr>))"

section \<open>Validation of a command\<close>

text \<open>The body of the loop over the resources.\<close>

definition check_resource :: "gw_config \<Rightarrow> command \<Rightarrow> nat \<Rightarrow> gtext option" where
  "check_resource k c i = first_reason
     [reject (c_mode c \<noteq> MODE_STOP \<and> c_field_mask c AND FIELD_POSITION \<noteq> 0 \<and>
          \<not> isfinite (c_position c ! i)) [T ''non-finite position at resource '', N (int i)],
      reject (c_field_mask c AND FIELD_VELOCITY \<noteq> 0 \<and> \<not> isfinite (c_velocity c ! i))
        [T ''non-finite velocity at resource '', N (int i)],
      reject (c_field_mask c AND FIELD_ACCELERATION \<noteq> 0 \<and> \<not> isfinite (c_acceleration c ! i))
        [T ''non-finite acceleration at resource '', N (int i)],
      (let limit = (if i = 0 then k_lift_max_velocity k else k_arm_max_velocity k)
       in reject (c_mode c \<noteq> MODE_STOP \<and> c_field_mask c AND FIELD_VELOCITY \<noteq> 0 \<and>
            \<bar>c_velocity c ! i\<bar> > limit)
         [T ''velocity exceeds resource limit at resource '', N (int i), T '': value='',
          D (c_velocity c ! i), T '' limit='', D limit]),
      (let limit = (if i = 0 then k_lift_max_acceleration k else k_arm_max_acceleration k)
       in reject (c_mode c \<noteq> MODE_STOP \<and> c_field_mask c AND FIELD_ACCELERATION \<noteq> 0 \<and>
            \<bar>c_acceleration c ! i\<bar> > limit)
         [T ''acceleration exceeds resource limit at resource '', N (int i), T '': value='',
          D (c_acceleration c ! i), T '' limit='', D limit])]"

definition check_lift_travel :: "gw_config \<Rightarrow> gateway \<Rightarrow> command \<Rightarrow> gtext option" where
  "check_lift_travel k g c =
     (let tol = (if c_mode c = MODE_HOLD then k_lift_position_tolerance k else Fin 0); p = c_position c ! 0
      in reject (c_mode c \<noteq> MODE_STOP \<and> c_field_mask c AND FIELD_POSITION \<noteq> 0 \<and>
           (p < k_lift_min_position k - tol \<or> p > k_lift_max_position k + tol))
         [T ''lift position exceeds software travel: target='', D p, T '' min='',
          D (k_lift_min_position k), T '' max='', D (k_lift_max_position k), T '' tolerance='', D tol,
          T '' feedback='', D (js_position (g_joints g) ! 0), T '' sequence='',
          N (uint (c_sequence c))])"

definition all_fields :: u8 where
  "all_fields = FIELD_POSITION OR FIELD_VELOCITY OR FIELD_ACCELERATION"

definition check_arm_hold :: "gw_config \<Rightarrow> gateway \<Rightarrow> command \<Rightarrow> nat \<Rightarrow> gtext option" where
  "check_arm_hold k g c i = first_reason
     [reject (\<bar>c_position c ! i - js_position (g_joints g) ! i\<bar> > k_arm_hold_tolerance k)
        [T ''arm target differs from measured position at resource '', N (int i)],
      reject (\<bar>c_velocity c ! i\<bar> > Fin (1 / 1000000000) \<or> \<bar>c_acceleration c ! i\<bar> > Fin (1 / 1000000000))
        [T ''arm velocity and acceleration must be zero at resource '', N (int i)]]"

definition armHoldCommand :: "gw_config \<Rightarrow> gateway \<Rightarrow> command \<Rightarrow> gtext option" where
  "armHoldCommand k g c = first_reason
     (reject (c_field_mask c AND all_fields \<noteq> all_fields)
        [T ''position, velocity, and acceleration fields are required'']
      # map (check_arm_hold k g c) [1..<length (c_position c)])"

definition all_arm_enabled :: "gateway \<Rightarrow> bool" where
  "all_arm_enabled g \<longleftrightarrow>
     (let ap = la_msg (g_arm_power g)
      in ap_all_enabled ap \<and> ap_command_enabled ap \<and> length (ap_enabled ap) = 14 \<and>
         list_all (\<lambda>e. e) (ap_enabled ap))"

text \<open>The part that only \<open>FOLLOW_POSITION\<close> has to pass, and in a simulated workspace passes at once.\<close>

definition check_follow :: "gw_config \<Rightarrow> gateway \<Rightarrow> command \<Rightarrow> time \<Rightarrow> bool \<Rightarrow> gtext option" where
  "check_follow k g c now allow_lift_power_disabled =
     (if c_mode c \<noteq> MODE_FOLLOW_POSITION \<or> g_mode g = WS_SIMULATION then None
      else first_reason
       [if all_arm_enabled g then None
        else if \<not> k_allow_lift_only_follow k
        then Some [T ''FOLLOW_POSITION requires all 14 arm drives enabled'']
        else map_option (\<lambda>r. T ''lift-only FOLLOW_POSITION requires safe arm hold: '' # r)
          (armHoldCommand k g c),
        reject (ls_motion_blocked (g_lift g) \<or> ls_estop (g_lift g) \<or> ls_error_code (g_lift g) \<noteq> 0)
          [T ''FOLLOW_POSITION requires an unblocked lift drive''],
        reject (br_locked (g_brake g) \<and> \<not> k_brake_client k)
          [T ''FOLLOW_POSITION requires lift brake release, but native lift brake service is not configured''],
        reject (\<not> allow_lift_power_disabled \<and> \<not> liftPowerEnabled k g now)
          [T ''FOLLOW_POSITION requires confirmed Operation Enabled and brake release'']])"

text \<open>The tests that read only the command and the configuration, then \<open>validateCommandLocked\<close>
  as a whole.\<close>

definition check_header :: "command \<Rightarrow> gtext option" where
  "check_header c = first_reason
     [reject (c_protocol_major c \<noteq> kProtocolMajor \<or> c_protocol_minor c > kProtocolMinor)
        [T ''protocol version mismatch''],
      reject (c_layout_crc32 c \<noteq> kLayoutCrc32) [T ''layout CRC mismatch'']]"

definition check_fields :: "command \<Rightarrow> gtext option" where
  "check_fields c = first_reason
     [reject (c_mode c > MODE_STOP) [T ''unsupported command mode''],
      reject (c_field_mask c AND NOT all_fields \<noteq> 0) [T ''unsupported field mask''],
      reject ((c_mode c = MODE_HOLD \<or> c_mode c = MODE_FOLLOW_POSITION) \<and>
          c_field_mask c AND FIELD_POSITION = 0)
        [T ''HOLD and FOLLOW_POSITION require position field'']]"

definition validateCommand :: "gw_config \<Rightarrow> gateway \<Rightarrow> command \<Rightarrow> time \<Rightarrow> bool \<Rightarrow> gtext option" where
  "validateCommand k g c now allow_lift_power_disabled = first_reason
     ([check_header c,
       reject (\<not> g_active g \<or> c_owner_id c \<noteq> le_owner_id (g_lease g) \<or>
           c_lease_id c \<noteq> le_lease_id (g_lease g)) [T ''owner or lease mismatch''],
       check_fields c]
      @ map (check_resource k c) [0..<kResourceCount]
      @ [check_lift_travel k g c,
         reject (c_mode c = MODE_FOLLOW_POSITION \<and> \<not> tr_aligned_hold (g_tr g))
           [T ''aligned HOLD has not been confirmed''],
         workspaceReady k g now, feedbackReady k g now,
         check_follow k g c now allow_lift_power_disabled])"

end
