(* ===== verification/LiftController.thy ===== *)
theory LiftController
  imports MotionProfile ZeroOffset HeavyGateway
begin

text \<open>
  The lift controller (\<open>lift_controller.hpp\<close>, \<open>lift/lift_controller.cpp\<close>): a \<open>ros2_control\<close> controller that
  turns jog, stream, trajectory, position, stop and hold requests and the commands of the Heavy
  gateway into one motion of the lift, behind a gate that waits for the drive.

  Two threads share its state. The control thread runs \<open>update\<close>; the callbacks of the node run one at
  a time on an executor. The atomics, the buffers between the threads and the members under
  \<open>trajectory_mutex_\<close> are the record \<open>ctl_shared\<close>; a callback stores the generation of its command
  before it writes the buffer, and \<open>update\<close> may run in between, so the write is a step of its own. The
  members of the control thread are \<open>lift_ctl\<close>. A time is a count of nanoseconds of the steady clock,
  zero being the unset time point; the clock is read once for each cycle and callback. A text that
  streams numbers is the list of its parts. \<open>status_message_\<close> is set and never read; it is left out.
  A \<open>try_lock\<close> of \<open>update\<close> may fail: whether it succeeds is part of the input of the cycle.
\<close>

section \<open>Data\<close>

datatype command_type = CT_none | CT_position | CT_trajectory | CT_jog | CT_stream | CT_soft_stop | CT_hold

datatype ctl_mode = M_hold | M_brake_gate | M_position | M_trajectory | M_jog | M_streaming | M_soft_stop
  | M_estop | M_fault

datatype soft_stop_completion = SS_disable | SS_hold_powered

datatype hold_failure_stage = HF_none | HF_driver_gate | HF_motion_profile | HF_velocity_confirmation
  | HF_mode_confirmation

record motion_command =
  mo_type :: command_type
  mo_position_m :: double
  mo_velocity_mps :: double
  mo_acceleration_mps2 :: double
  mo_acceleration_limit_mps2 :: double
  mo_velocity_scale :: double
  mo_generation :: u64
  mo_heavy_sequence :: u64

definition motion_command_default :: motion_command where
  "motion_command_default = \<lparr>mo_type = CT_none, mo_position_m = 0, mo_velocity_mps = 0,
     mo_acceleration_mps2 = 0, mo_acceleration_limit_mps2 = 0, mo_velocity_scale = 0, mo_generation = 0,
     mo_heavy_sequence = 0\<rparr>"

record traj_point =
  tp_positions :: "double list"
  tp_velocities :: "double list"
  tp_accelerations :: "double list"
  tp_sec :: int
  tp_nanosec :: int

record joint_trajectory =
  jt_joint_names :: "string list"
  jt_points :: "traj_point list"

definition duration_seconds :: "traj_point \<Rightarrow> double" where
  "duration_seconds p = Fin (of_int (tp_sec p) + of_int (tp_nanosec p) / 10 ^ 9)"

record ctl_config =
  lcc_joint_name :: string
  lcc_limits :: motion_limits
  lcc_jog_timeout_sec :: double
  lcc_brake_gate_stable_sec :: double
  lcc_driver_status_timeout_sec :: double
  lcc_target_stable_sec :: double
  lcc_goal_tolerance_m :: double
  lcc_stationary_velocity_mps :: double
  lcc_status_rate_hz :: double

text \<open>The parts of the driver status; \<open>ds_status_ns\<close> is the time it was received.\<close>

record ctl_driver =
  ds_feedback_fresh :: bool
  ds_ethercat_operational :: bool
  ds_working_counter_ok :: bool
  ds_operation_enabled :: bool
  ds_brake_unlocked :: bool
  ds_estop_latched :: bool
  ds_motion_blocked :: bool
  ds_quick_stop :: bool
  ds_error_code :: u16
  ds_mode_display :: i8
  ds_status_ns :: int
  ds_zero_generation :: u64
  ds_zero_generation_valid :: bool

text \<open>What the threads share; \<open>sh_acks\<close> are the acknowledgements published to the gateway so far.\<close>

record ctl_shared =
  sh_command :: motion_command
  sh_safety_command :: motion_command
  sh_heavy_command :: motion_command
  sh_command_generation :: u64
  sh_safety_command_generation :: u64
  sh_heavy_command_generation :: u64
  sh_admitted_heavy_sequence :: u64
  sh_applied_heavy_sequence :: u64
  sh_motion_generation :: u64
  sh_cancellation_generation :: u64
  sh_applied_cancellation_generation :: u64
  sh_heavy_lease_active :: bool
  sh_pending_trajectory :: "joint_trajectory option"
  sh_pending_trajectory_generation :: u64
  sh_consumed_trajectory_generation :: u64
  sh_active :: bool
  sh_completed_hold_generation :: u64
  sh_failed_hold_generation :: u64
  sh_hold_failure_stage :: hold_failure_stage
  sh_measured_position :: double
  sh_measured_velocity :: double
  sh_command_position :: double
  sh_command_velocity :: double
  sh_command_acceleration :: double
  sh_mode :: ctl_mode
  sh_trajectory_active :: bool
  sh_gated_command_active :: bool
  sh_power_enable_requested :: bool
  sh_power_enabled_state :: bool
  sh_acks :: "u64 list"

text \<open>The four command interfaces.\<close>

record ctl_output =
  co_position :: double
  co_velocity :: double
  co_acceleration :: double
  co_power_enable :: double

text \<open>The fault history is a ring of eight records; \<open>fl_records\<close> holds the slots in use.\<close>

record fault_record =
  fe_first_ns :: int
  fe_last_ns :: int
  fe_repeats :: u32
  fe_code :: string
  fe_detail :: gtext

record fault_log =
  fl_history :: "fault_record list"
  fl_next :: nat
  fl_total :: u64
  fl_last_record_ns :: int
  fl_last_line_ns :: int
  fl_line_suppressed :: u64
  fl_last_code :: string

record gate_log =
  gl_last_warn_ns :: int
  gl_last_debug_ns :: int
  gl_unready_since_ns :: int
  gl_warn_emitted :: bool

record 'o lift_ctl =
  lc_profile :: "'o motion_profile"
  lc_sample :: motion_sample
  lc_lease_rt :: bool
  lc_consumed_generation :: u64
  lc_consumed_safety_generation :: u64
  lc_consumed_heavy_generation :: u64
  lc_pending_follow_ack :: u64
  lc_gated :: motion_command
  lc_gated_valid :: bool
  lc_active_trajectory :: "joint_trajectory option"
  lc_active_trajectory_generation :: u64
  lc_point_index :: nat
  lc_elapsed_sec :: double
  lc_waiting_at_point :: bool
  lc_mode :: ctl_mode
  lc_position :: double
  lc_velocity :: double
  lc_goal_stable_active :: bool
  lc_completion :: soft_stop_completion
  lc_pending_hold_generation :: u64
  lc_goal_stable_since :: int
  lc_gate_stable_since :: int
  lc_last_jog_time :: int
  lc_applied_zero_generation :: u64
  lc_zero_resync_total :: u64
  lc_zero_resync_from :: double
  lc_zero_resync_to :: double
  lc_faults :: fault_log
  lc_gate_log :: gate_log
  lc_out :: ctl_output
  lc_sh :: ctl_shared
  lc_dr :: ctl_driver

text \<open>What a cycle of the control thread reads: the state interfaces, the period, the clock and whether
  the mutex is free.\<close>

record ctl_cycle =
  cy_position :: double
  cy_velocity :: double
  cy_power_enable :: double
  cy_period :: double
  cy_now :: int
  cy_lock :: bool

definition seconds_since :: "int \<Rightarrow> int \<Rightarrow> double" where
  "seconds_since now t = Fin (of_int (now - t) / 10 ^ 9)"

section \<open>Driver status\<close>

definition quoted_key :: "string \<Rightarrow> string" where
  "quoted_key k = [CHR 0x22] @ k @ [CHR 0x22, CHR '':'']"

text \<open>The text behind the first occurrence of a key.\<close>

fun after_first :: "string \<Rightarrow> string \<Rightarrow> string option" where
  "after_first p [] = (if p = [] then Some [] else None)"
| "after_first p (c # cs) =
     (if take (length p) (c # cs) = p then Some (drop (length p) (c # cs)) else after_first p cs)"

definition json_bool :: "string \<Rightarrow> string \<Rightarrow> bool" where
  "json_bool text key \<longleftrightarrow> contains (quoted_key key @ ''true'') text"

text \<open>\<open>std::stol\<close> with base 0 reads the longest prefix that is a number.\<close>

definition number_prefix :: "nat \<Rightarrow> string \<Rightarrow> nat" where
  "number_prefix base s =
     fold (\<lambda>c n. n * base + digit_value c) (takeWhile (\<lambda>c. digit_value c < base) s) 0"

definition stol_magnitude :: "string \<Rightarrow> nat option" where
  "stol_magnitude s =
     (case s of
        [] \<Rightarrow> None
      | c # rest \<Rightarrow>
          if c = CHR ''0'' then
            (case rest of
               x # d # _ \<Rightarrow> if (x = CHR ''x'' \<or> x = CHR ''X'') \<and> digit_value d < 16
                  then Some (number_prefix 16 (tl rest)) else Some (number_prefix 8 s)
             | _ \<Rightarrow> Some (number_prefix 8 s))
          else if digit_value c < 10 then Some (number_prefix 10 s) else None)"

definition stol :: "string \<Rightarrow> int option" where
  "stol text =
     (let (neg, body) = split_sign (dropWhile c_space text) in
      case stol_magnitude body of
        None \<Rightarrow> None
      | Some m \<Rightarrow> let v = (if neg then - int m else int m) in
          if - (2 ^ 63) \<le> v \<and> v < 2 ^ 63 then Some v else None)"

definition json_integer :: "string \<Rightarrow> string \<Rightarrow> int \<Rightarrow> int" where
  "json_integer text key fallback =
     (case after_first (quoted_key key) text of
        None \<Rightarrow> fallback
      | Some rest \<Rightarrow> (case stol rest of None \<Rightarrow> fallback | Some v \<Rightarrow> v))"

definition quoted_pair :: "string \<Rightarrow> string \<Rightarrow> string" where
  "quoted_pair k v = quoted_key k @ [CHR 0x22] @ v @ [CHR 0x22]"

definition parse_driver_status :: "int \<Rightarrow> string \<Rightarrow> ctl_driver \<Rightarrow> ctl_driver" where
  "parse_driver_status now text d = d\<lparr>
     ds_feedback_fresh := json_bool text ''feedback_fresh'' \<or> json_bool text ''pdo_fresh'',
     ds_ethercat_operational := json_bool text ''ethercat_operational'' \<or>
       contains (quoted_pair ''link_state'' ''operational'') text,
     ds_working_counter_ok := json_bool text ''working_counter_ok'',
     ds_operation_enabled := contains (quoted_pair ''cia402_state'' ''operation_enabled'') text,
     ds_brake_unlocked := json_bool text ''brake_unlocked_inferred'' \<or> json_bool text ''brake_unlocked'',
     ds_estop_latched := json_bool text ''estop_latched'',
     ds_motion_blocked := json_bool text ''motion_blocked'',
     ds_quick_stop := json_bool text ''quick_stop_active'',
     ds_error_code := word_of_int (json_integer text ''error_code'' 0),
     ds_mode_display := word_of_int (json_integer text ''mode_display'' (json_integer text ''mode'' 0)),
     ds_status_ns := now\<rparr>"

definition on_driver_status :: "int \<Rightarrow> string \<Rightarrow> 'o lift_ctl \<Rightarrow> 'o lift_ctl" where
  "on_driver_status now text s =
     (let s1 = s\<lparr>lc_dr := parse_driver_status now text (lc_dr s)\<rparr> in
      if contains (quoted_key ''zero_generation'') text then
        let generation = word_of_int (json_integer text ''zero_generation'' 0);
            s2 = s1\<lparr>lc_dr := (lc_dr s1)\<lparr>ds_zero_generation := generation, ds_zero_generation_valid := True\<rparr>\<rparr>
        in if ds_zero_generation_valid (lc_dr s1) then s2
           else s2\<lparr>lc_applied_zero_generation := generation\<rparr>
      else s1)"

definition driver_status_fresh :: "ctl_config \<Rightarrow> int \<Rightarrow> ctl_driver \<Rightarrow> bool" where
  "driver_status_fresh cfg now d \<longleftrightarrow>
     ds_status_ns d > 0 \<and> now \<ge> ds_status_ns d \<and>
     seconds_since now (ds_status_ns d) \<le> lcc_driver_status_timeout_sec cfg"

definition driver_gate_ready :: "ctl_config \<Rightarrow> int \<Rightarrow> 'o lift_ctl \<Rightarrow> bool" where
  "driver_gate_ready cfg now s \<longleftrightarrow>
     (let d = lc_dr s in
      driver_status_fresh cfg now d \<and> ds_feedback_fresh d \<and> ds_ethercat_operational d \<and>
      ds_working_counter_ok d \<and> sh_power_enabled_state (lc_sh s) \<and> ds_operation_enabled d \<and>
      \<not> ds_estop_latched d \<and> ds_error_code d = 0 \<and> ds_mode_display d = 9)"

section \<open>Small steps of both threads\<close>

definition upd_sh :: "(ctl_shared \<Rightarrow> ctl_shared) \<Rightarrow> 'o lift_ctl \<Rightarrow> 'o lift_ctl" where
  "upd_sh f s = s\<lparr>lc_sh := f (lc_sh s)\<rparr>"

definition request_brake :: "bool \<Rightarrow> 'o lift_ctl \<Rightarrow> 'o lift_ctl" where
  "request_brake enable = upd_sh (sh_power_enable_requested_update (\<lambda>_. enable))"

definition hold_profile :: "('o \<Rightarrow> 'o) \<Rightarrow> double \<Rightarrow> 'o lift_ctl \<Rightarrow> 'o lift_ctl" where
  "hold_profile rst x s = s\<lparr>lc_profile := profile_hold rst x (lc_profile s)\<rparr>"

definition take_profile_state :: "'o lift_ctl \<Rightarrow> 'o lift_ctl" where
  "take_profile_state s = s\<lparr>lc_sample := mp_state (lc_profile s)\<rparr>"

definition run_profile :: "('o \<Rightarrow> 'o) \<Rightarrow> 'o otg_update \<Rightarrow> double \<Rightarrow> 'o lift_ctl \<Rightarrow> 'o lift_ctl" where
  "run_profile rst upd dt s =
     (let (p, sample) = profile_update rst upd dt (lc_profile s) in s\<lparr>lc_profile := p, lc_sample := sample\<rparr>)"

text \<open>\<open>std::clamp\<close> to the travel.\<close>

definition clamp_travel :: "ctl_config \<Rightarrow> double \<Rightarrow> double" where
  "clamp_travel cfg x = dclamp x (ml_min_position_m (lcc_limits cfg)) (ml_max_position_m (lcc_limits cfg))"

definition stationary :: "ctl_config \<Rightarrow> double \<Rightarrow> bool" where
  "stationary cfg v \<longleftrightarrow> \<bar>v\<bar> \<le> lcc_stationary_velocity_mps cfg"

definition fail_pending_hold :: "hold_failure_stage \<Rightarrow> 'o lift_ctl \<Rightarrow> 'o lift_ctl" where
  "fail_pending_hold stage s =
     (if lc_pending_hold_generation s = 0 then s
      else (upd_sh (\<lambda>h. h\<lparr>sh_hold_failure_stage := stage,
              sh_failed_hold_generation := lc_pending_hold_generation s\<rparr>) s)\<lparr>lc_pending_hold_generation := 0\<rparr>)"

definition enter_hold :: "('o \<Rightarrow> 'o) \<Rightarrow> ctl_config \<Rightarrow> double \<Rightarrow> 'o lift_ctl \<Rightarrow> 'o lift_ctl" where
  "enter_hold rst cfg measured s =
     (take_profile_state (hold_profile rst (clamp_travel cfg measured) s))\<lparr>lc_mode := M_hold,
        lc_goal_stable_active := False\<rparr>"

definition begin_brake_gate :: "('o \<Rightarrow> 'o) \<Rightarrow> int \<Rightarrow> motion_command \<Rightarrow> 'o lift_ctl \<Rightarrow> 'o lift_ctl" where
  "begin_brake_gate rst now command s =
     (let s1 = take_profile_state (s\<lparr>lc_gated := command, lc_gated_valid := True, lc_mode := M_brake_gate,
            lc_profile := profile_reset rst (lc_position s) 0 0 (lc_profile s)\<rparr>);
          s2 = s1\<lparr>lc_gate_stable_since := 0, lc_goal_stable_active := False\<rparr>;
          s3 = (if mo_type command = CT_jog then s2\<lparr>lc_last_jog_time := now\<rparr> else s2)
      in request_brake True s3)"

definition begin_soft_stop ::
    "('o \<Rightarrow> 'o) \<Rightarrow> soft_stop_completion \<Rightarrow> u64 \<Rightarrow> 'o lift_ctl \<Rightarrow> 'o lift_ctl" where
  "begin_soft_stop rst completion hold_generation s =
     s\<lparr>lc_gated_valid := False, lc_active_trajectory := None, lc_active_trajectory_generation := 0,
       lc_waiting_at_point := False, lc_profile := request_soft_stop rst (lc_profile s),
       lc_mode := M_soft_stop, lc_completion := completion, lc_pending_hold_generation := hold_generation,
       lc_goal_stable_active := False\<rparr>"

definition start_trajectory_point ::
    "('o \<Rightarrow> 'o) \<Rightarrow> ctl_config \<Rightarrow> nat \<Rightarrow> 'o lift_ctl \<Rightarrow> bool \<times> 'o lift_ctl" where
  "start_trajectory_point rst cfg index s =
     (case lc_active_trajectory s of
        None \<Rightarrow> (False, s)
      | Some t \<Rightarrow>
          if index \<ge> length (jt_points t) then (False, s)
          else
            let point = jt_points t ! index;
                velocity = (if tp_velocities point = [] then 0 else tp_velocities point ! 0);
                acceleration = (if tp_accelerations point = [] then 0 else tp_accelerations point ! 0);
                s1 = s\<lparr>lc_waiting_at_point := False\<rparr>
            in (case set_position_target rst (tp_positions point ! 0) velocity acceleration
                    (ml_default_velocity_scale (lcc_limits cfg)) 0 (lc_profile s) of
                  None \<Rightarrow> (False, s1)
                | Some p \<Rightarrow> (True, s1\<lparr>lc_profile := p\<rparr>)))"

definition stream_sample :: "motion_command \<Rightarrow> motion_sample" where
  "stream_sample c = \<lparr>ms_position_m = mo_position_m c, ms_velocity_mps = mo_velocity_mps c,
     ms_acceleration_mps2 = mo_acceleration_mps2 c, ms_jerk_mps3 = 0, ms_finished = False, ms_valid = True\<rparr>"

text \<open>The results of \<open>set_position_target\<close> and \<open>set_velocity_target\<close> are not looked at here.\<close>

definition start_gated_motion :: "('o \<Rightarrow> 'o) \<Rightarrow> ctl_config \<Rightarrow> int \<Rightarrow> 'o lift_ctl \<Rightarrow> 'o lift_ctl" where
  "start_gated_motion rst cfg now s =
     (if \<not> lc_gated_valid s \<or> ds_estop_latched (lc_dr s) then s
      else
        let command = lc_gated s; s1 = s\<lparr>lc_gated_valid := False\<rparr> in
        (case mo_type command of
           CT_position \<Rightarrow>
             (case set_position_target rst (mo_position_m command) 0 0 (mo_velocity_scale command)
                  (mo_acceleration_limit_mps2 command) (lc_profile s1) of
                None \<Rightarrow> s1 | Some p \<Rightarrow> s1\<lparr>lc_profile := p\<rparr>)\<lparr>lc_mode := M_position\<rparr>
         | CT_trajectory \<Rightarrow>
             let s2 = s1\<lparr>lc_elapsed_sec := 0, lc_point_index := 0, lc_waiting_at_point := False\<rparr>;
                 (ok, s3) = start_trajectory_point rst cfg 0 s2
             in if lc_active_trajectory s2 \<noteq> None \<and> ok then s3\<lparr>lc_mode := M_trajectory\<rparr>
                else begin_soft_stop rst SS_disable 0 s3
         | CT_jog \<Rightarrow>
             (case set_velocity_target rst (mo_velocity_mps command) (mo_velocity_scale command)
                  (lc_profile s1) of
                None \<Rightarrow> s1 | Some p \<Rightarrow> s1\<lparr>lc_profile := p\<rparr>)\<lparr>lc_last_jog_time := now, lc_mode := M_jog\<rparr>
         | CT_stream \<Rightarrow> s1\<lparr>lc_sample := stream_sample command, lc_mode := M_streaming\<rparr>
         | _ \<Rightarrow> enter_hold rst cfg (lc_position s1) s1))"

text \<open>A trajectory without a current owner: \<open>active_trajectory_\<close> is empty.\<close>

definition apply_zero_frame_resync :: "('o \<Rightarrow> 'o) \<Rightarrow> ctl_config \<Rightarrow> 'o lift_ctl \<Rightarrow> 'o lift_ctl" where
  "apply_zero_frame_resync rst cfg s =
     (if \<not> ds_zero_generation_valid (lc_dr s) \<or>
         ds_zero_generation (lc_dr s) = lc_applied_zero_generation s then s
      else
        let s1 = s\<lparr>lc_applied_zero_generation := ds_zero_generation (lc_dr s)\<rparr>;
            measured = clamp_travel cfg (lc_position s1)
        in if \<not> isfinite measured then s1
           else
             let stale = ms_position_m (lc_sample s1);
                 latched = (lc_mode s1 = M_fault \<or> lc_mode s1 = M_estop);
                 s2 = take_profile_state (hold_profile rst measured (s1\<lparr>lc_active_trajectory := None,
                        lc_gated_valid := False, lc_pending_hold_generation := 0,
                        lc_goal_stable_active := False\<rparr>));
                 s3 = (if latched then s2 else s2\<lparr>lc_mode := M_hold\<rparr>)
             in s3\<lparr>lc_zero_resync_total := lc_zero_resync_total s3 + 1, lc_zero_resync_from := stale,
                   lc_zero_resync_to := measured\<rparr>)"

definition confirm_pending_hold :: "ctl_config \<Rightarrow> 'o lift_ctl \<Rightarrow> 'o lift_ctl" where
  "confirm_pending_hold cfg s =
     (let d = lc_dr s in
      if lc_pending_hold_generation s = 0 \<or> lc_mode s \<noteq> M_hold then s
      else if ds_estop_latched d \<or> ds_motion_blocked d \<or> ds_quick_stop d \<or> ds_error_code d \<noteq> 0 then
        fail_pending_hold HF_driver_gate s
      else if \<bar>lc_velocity s\<bar> > lcc_stationary_velocity_mps cfg \<or>
         \<bar>ms_velocity_mps (lc_sample s)\<bar> > lcc_stationary_velocity_mps cfg \<or>
         \<bar>ms_acceleration_mps2 (lc_sample s)\<bar> > Fin (1 / 10 ^ 9) then s
      else if sh_power_enabled_state (lc_sh s) \<and> (\<not> ds_operation_enabled d \<or> \<not> ds_brake_unlocked d) then s
      else (upd_sh (\<lambda>h. h\<lparr>sh_completed_hold_generation := lc_pending_hold_generation s,
              sh_hold_failure_stage := HF_none\<rparr>) s)\<lparr>lc_pending_hold_generation := 0\<rparr>)"

definition finite_sample :: "motion_sample \<Rightarrow> bool" where
  "finite_sample m \<longleftrightarrow> isfinite (ms_position_m m) \<and> isfinite (ms_velocity_mps m) \<and>
     isfinite (ms_acceleration_mps2 m)"

definition write_command_interfaces :: "ctl_config \<Rightarrow> motion_sample \<Rightarrow> 'o lift_ctl \<Rightarrow> 'o lift_ctl" where
  "write_command_interfaces cfg m s =
     (let finite = finite_sample m;
          x = (if finite then clamp_travel cfg (ms_position_m m) else lc_position s);
          v = (if finite then ms_velocity_mps m else 0);
          a = (if finite then ms_acceleration_mps2 m else 0)
      in upd_sh (\<lambda>h. h\<lparr>sh_command_position := x, sh_command_velocity := v, sh_command_acceleration := a,
             sh_mode := lc_mode s,
             sh_trajectory_active := (lc_mode s = M_trajectory \<and> lc_active_trajectory s \<noteq> None),
             sh_gated_command_active := lc_gated_valid s\<rparr>)
           (s\<lparr>lc_out := \<lparr>co_position = x, co_velocity = v, co_acceleration = a,
              co_power_enable = (if sh_power_enable_requested (lc_sh s) then 1 else 0)\<rparr>\<rparr>))"

section \<open>Fault history\<close>

definition kFaultHistoryCapacity :: nat where "kFaultHistoryCapacity = 8"
definition kFaultBurstWindowNs :: int where "kFaultBurstWindowNs = 60000000000"
definition kFaultLineThrottleNs :: int where "kFaultLineThrottleNs = 1000000000"

text \<open>A \<open>char[40]\<close> written with \<open>strncpy\<close>.\<close>

definition code_buffer :: "string \<Rightarrow> string" where
  "code_buffer code = take 39 code"

definition newest_fault :: "fault_log \<Rightarrow> nat" where
  "newest_fault l = (fl_next l + kFaultHistoryCapacity - 1) mod kFaultHistoryCapacity"

definition lift_fault_line_due :: "int \<Rightarrow> string \<Rightarrow> fault_log \<Rightarrow> bool" where
  "lift_fault_line_due now code l \<longleftrightarrow>
     fl_last_line_ns l = 0 \<or> fl_last_code l \<noteq> code \<or> now - fl_last_line_ns l \<ge> kFaultLineThrottleNs"

definition note_lift_fault_repeat :: "int \<Rightarrow> string \<Rightarrow> fault_log \<Rightarrow> fault_log" where
  "note_lift_fault_repeat now code l =
     (let l1 = l\<lparr>fl_total := fl_total l + 1, fl_line_suppressed := fl_line_suppressed l + 1\<rparr>;
          i = newest_fault l
      in if fl_history l = [] \<or> fe_code (fl_history l ! i) \<noteq> code then l1
         else l1\<lparr>fl_history := (fl_history l)[i := (fl_history l ! i)\<lparr>fe_last_ns := now,
                fe_repeats := fe_repeats (fl_history l ! i) + 1\<rparr>]\<rparr>)"

text \<open>The slots fill in order, so a new record is appended until the ring is full and replaces the oldest
  one from then on.\<close>

definition put_record :: "fault_record \<Rightarrow> fault_log \<Rightarrow> fault_log" where
  "put_record r l = l\<lparr>
     fl_history := (if fl_next l < length (fl_history l) then (fl_history l)[fl_next l := r]
       else fl_history l @ [r]),
     fl_next := (fl_next l + 1) mod kFaultHistoryCapacity\<rparr>"

definition write_lift_fault :: "int \<Rightarrow> string \<Rightarrow> gtext \<Rightarrow> fault_log \<Rightarrow> fault_log" where
  "write_lift_fault now code detail l =
     (let i = newest_fault l;
          new_burst = (fl_history l = [] \<or> fl_last_record_ns l = 0 \<or> fe_code (fl_history l ! i) \<noteq> code \<or>
            now - fl_last_record_ns l \<ge> kFaultBurstWindowNs);
          l1 = (if new_burst then
                  put_record \<lparr>fe_first_ns = now, fe_last_ns = now, fe_repeats = 1,
                    fe_code = code_buffer code, fe_detail = detail\<rparr> l
                else l\<lparr>fl_history := (fl_history l)[i := (fl_history l ! i)\<lparr>fe_last_ns := now,
                  fe_repeats := fe_repeats (fl_history l ! i) + 1, fe_detail := detail\<rparr>]\<rparr>)
      in l1\<lparr>fl_total := fl_total l + 1, fl_last_record_ns := now, fl_line_suppressed := 0,
            fl_last_line_ns := now, fl_last_code := code_buffer code\<rparr>)"

definition record_lift_fault ::
    "int \<Rightarrow> string \<Rightarrow> ('o lift_ctl \<Rightarrow> gtext) \<Rightarrow> 'o lift_ctl \<Rightarrow> 'o lift_ctl" where
  "record_lift_fault now code build_detail s =
     s\<lparr>lc_faults := (if \<not> lift_fault_line_due now code (lc_faults s)
        then note_lift_fault_repeat now code (lc_faults s)
        else write_lift_fault now code (build_detail s) (lc_faults s))\<rparr>"

definition last_fault_text :: "'o lift_ctl \<Rightarrow> gtext" where
  "last_fault_text s =
     (let l = lc_faults s in
      if sh_mode (lc_sh s) \<noteq> M_fault \<or> fl_history l = [] then []
      else let r = fl_history l ! newest_fault l in
        if fe_detail r \<noteq> [] then T (fe_code r) # T '': '' # fe_detail r else [T (fe_code r)])"

fun mode_name :: "ctl_mode \<Rightarrow> string" where
  "mode_name M_hold = ''hold''"
| "mode_name M_brake_gate = ''brake_gate''"
| "mode_name M_position = ''position''"
| "mode_name M_trajectory = ''trajectory''"
| "mode_name M_jog = ''jog''"
| "mode_name M_streaming = ''streaming''"
| "mode_name M_soft_stop = ''soft_stop''"
| "mode_name M_estop = ''estop''"
| "mode_name M_fault = ''fault''"

fun hold_failure_stage_name :: "hold_failure_stage \<Rightarrow> string" where
  "hold_failure_stage_name HF_driver_gate = ''driver_gate''"
| "hold_failure_stage_name HF_motion_profile = ''soft_stop''"
| "hold_failure_stage_name HF_velocity_confirmation = ''velocity_confirmation''"
| "hold_failure_stage_name HF_mode_confirmation = ''mode_confirmation''"
| "hold_failure_stage_name HF_none = ''unknown''"

section \<open>Gate diagnostics\<close>

definition kGateDebugThrottleNs :: int where "kGateDebugThrottleNs = 1000000000"
definition kGateWarnWindowNs :: int where "kGateWarnWindowNs = 5000000000"
definition kGateWarnAfterSec :: double where "kGateWarnAfterSec = Fin 2"

definition note_if :: "bool \<Rightarrow> string \<Rightarrow> token \<Rightarrow> (string \<times> token) list" where
  "note_if failed name value = (if failed then [(name, value)] else [])"

definition gate_notes :: "ctl_config \<Rightarrow> int \<Rightarrow> 'o lift_ctl \<Rightarrow> (string \<times> token) list" where
  "gate_notes cfg now s =
     (let d = lc_dr s; stamp = ds_status_ns d in
      (if stamp \<le> 0 then [(''driver_status'', T ''never_received'')]
       else note_if (now \<ge> stamp \<and> seconds_since now stamp > lcc_driver_status_timeout_sec cfg)
         ''driver_status_age_sec'' (D (seconds_since now stamp))) @
      note_if (\<not> ds_feedback_fresh d) ''feedback_fresh'' (T ''false'') @
      note_if (\<not> ds_ethercat_operational d) ''ethercat_operational'' (T ''false'') @
      note_if (\<not> ds_working_counter_ok d) ''working_counter_ok'' (T ''false'') @
      note_if (\<not> sh_power_enabled_state (lc_sh s)) ''power_enabled_state'' (T ''false'') @
      note_if (\<not> ds_operation_enabled d) ''cia402_operation_enabled'' (T ''false'') @
      note_if (ds_estop_latched d) ''estop_latched'' (T ''true'') @
      note_if (ds_error_code d \<noteq> 0) ''driver_error_code'' (N (uint (ds_error_code d))) @
      note_if (ds_mode_display d \<noteq> 9) ''mode_display'' (N (sint (ds_mode_display d))))"

fun join_notes :: "(string \<times> token) list \<Rightarrow> gtext" where
  "join_notes [] = []"
| "join_notes [(name, value)] = [T name, T ''='', value]"
| "join_notes ((name, value) # ns) = [T name, T ''='', value, T '',''] @ join_notes ns"

definition driver_gate_failure_reason :: "ctl_config \<Rightarrow> int \<Rightarrow> 'o lift_ctl \<Rightarrow> gtext" where
  "driver_gate_failure_reason cfg now s =
     (if gate_notes cfg now s = [] then [T ''none''] else join_notes (gate_notes cfg now s))"

definition driver_gate_expected :: "'o lift_ctl \<Rightarrow> bool" where
  "driver_gate_expected s \<longleftrightarrow> sh_power_enable_requested (lc_sh s) \<or> sh_power_enabled_state (lc_sh s) \<or>
     lc_gated_valid s \<or> lc_pending_hold_generation s \<noteq> 0 \<or>
     (lc_mode s \<noteq> M_hold \<and> lc_mode s \<noteq> M_estop)"

definition gate_log_idle :: gate_log where
  "gate_log_idle = \<lparr>gl_last_warn_ns = 0, gl_last_debug_ns = 0, gl_unready_since_ns = 0,
     gl_warn_emitted = False\<rparr>"

text \<open>The bookkeeping of \<open>log_gate_diagnostics\<close>, and whether it warns; the lines themselves are I/O.\<close>

definition log_gate_diagnostics :: "ctl_config \<Rightarrow> int \<Rightarrow> 'o lift_ctl \<Rightarrow> 'o lift_ctl \<times> bool" where
  "log_gate_diagnostics cfg now s =
     (let g = lc_gate_log s in
      if lc_mode s = M_fault then (s\<lparr>lc_gate_log := gate_log_idle\<rparr>, False)
      else if driver_gate_ready cfg now s then
        (if gl_unready_since_ns g = 0 then (s, False) else (s\<lparr>lc_gate_log := gate_log_idle\<rparr>, False))
      else
        let g1 = (if gl_unready_since_ns g = 0 then g\<lparr>gl_unready_since_ns := now\<rparr> else g);
            unready_sec = seconds_since now (gl_unready_since_ns g1);
            g2 = (if gl_last_debug_ns g1 = 0 \<or> now - gl_last_debug_ns g1 \<ge> kGateDebugThrottleNs
                  then g1\<lparr>gl_last_debug_ns := now\<rparr> else g1)
        in if \<not> driver_gate_expected s \<or> unready_sec < kGateWarnAfterSec then (s\<lparr>lc_gate_log := g2\<rparr>, False)
           else if gl_last_warn_ns g2 \<noteq> 0 \<and> now - gl_last_warn_ns g2 < kGateWarnWindowNs then
             (s\<lparr>lc_gate_log := g2\<rparr>, False)
           else (s\<lparr>lc_gate_log := g2\<lparr>gl_last_warn_ns := now, gl_warn_emitted := True\<rparr>\<rparr>, True))"

section \<open>The control cycle\<close>

definition read_state_interfaces :: "ctl_cycle \<Rightarrow> 'o lift_ctl \<Rightarrow> 'o lift_ctl" where
  "read_state_interfaces cy s =
     upd_sh (\<lambda>h. h\<lparr>sh_measured_position := cy_position cy, sh_measured_velocity := cy_velocity cy,
         sh_power_enabled_state := (isfinite (cy_power_enable cy) \<and> cy_power_enable cy \<ge> Fin (1 / 2))\<rparr>)
       (s\<lparr>lc_position := cy_position cy, lc_velocity := cy_velocity cy\<rparr>)"

definition zero_sample :: motion_sample where
  "zero_sample = \<lparr>ms_position_m = 0, ms_velocity_mps = 0, ms_acceleration_mps2 = 0, ms_jerk_mps3 = 0,
     ms_finished = True, ms_valid = False\<rparr>"

definition non_finite_cycle :: "ctl_config \<Rightarrow> ctl_cycle \<Rightarrow> 'o lift_ctl \<Rightarrow> 'o lift_ctl" where
  "non_finite_cycle cfg cy s =
     (let s1 = record_lift_fault (cy_now cy) ''non_finite_state_interfaces''
                 (\<lambda>s. [T ''entry_mode='', T (mode_name (lc_mode s)), T '' position='', D (lc_position s),
                    T '' velocity='', D (lc_velocity s), T '' power_enable='', D (cy_power_enable cy)]) s;
          s2 = request_brake False ((fail_pending_hold HF_motion_profile s1)\<lparr>lc_mode := M_fault\<rparr>)
      in write_command_interfaces cfg zero_sample (s2\<lparr>lc_sample := zero_sample\<rparr>))"

text \<open>Drop the queued trajectory.\<close>

definition drop_pending :: "ctl_shared \<Rightarrow> ctl_shared" where
  "drop_pending h = h\<lparr>sh_pending_trajectory := None,
     sh_consumed_trajectory_generation := sh_pending_trajectory_generation h\<rparr>"

definition estop_cycle :: "('o \<Rightarrow> 'o) \<Rightarrow> ctl_config \<Rightarrow> ctl_cycle \<Rightarrow> 'o lift_ctl \<Rightarrow> 'o lift_ctl" where
  "estop_cycle rst cfg cy s =
     (let s1 = s\<lparr>lc_mode := M_estop, lc_gated_valid := False, lc_active_trajectory := None\<rparr>;
          s2 = (if cy_lock cy then upd_sh drop_pending s1 else s1);
          s3 = s2\<lparr>lc_consumed_generation := sh_command_generation (lc_sh s2)\<rparr>;
          s4 = request_brake False (take_profile_state (hold_profile rst (lc_position s3) s3))
      in write_command_interfaces cfg (lc_sample s4) s4)"

definition leave_estop :: "('o \<Rightarrow> 'o) \<Rightarrow> ctl_config \<Rightarrow> 'o lift_ctl \<Rightarrow> 'o lift_ctl" where
  "leave_estop rst cfg s =
     (if lc_mode s = M_estop then
        enter_hold rst cfg (lc_position s) (s\<lparr>lc_consumed_generation := sh_command_generation (lc_sh s)\<rparr>)
      else s)"

text \<open>The lease gate and the queued trajectory. The second component is the trajectory picked up.\<close>

definition follow_lease :: "'o lift_ctl \<Rightarrow> 'o lift_ctl" where
  "follow_lease s =
     (let lease = sh_heavy_lease_active (lc_sh s);
          s1 = (if \<not> lease \<and> lc_lease_rt s
                then s\<lparr>lc_consumed_heavy_generation := sh_heavy_command_generation (lc_sh s)\<rparr> else s)
      in s1\<lparr>lc_lease_rt := lease\<rparr>)"

definition take_trajectory :: "ctl_cycle \<Rightarrow> 'o lift_ctl \<Rightarrow> 'o lift_ctl \<times> joint_trajectory option" where
  "take_trajectory cy s =
     (let h = lc_sh s in
      if \<not> sh_heavy_lease_active h then
        (case sh_pending_trajectory h of
           None \<Rightarrow> (s, None)
         | Some t \<Rightarrow>
             if cy_lock cy \<and> sh_consumed_trajectory_generation h \<noteq> sh_pending_trajectory_generation h \<and>
                sh_pending_trajectory_generation h > sh_cancellation_generation h
             then ((upd_sh (\<lambda>h. h\<lparr>sh_consumed_trajectory_generation := sh_pending_trajectory_generation h\<rparr>)
                     s)\<lparr>lc_active_trajectory_generation := sh_pending_trajectory_generation h\<rparr>, Some t)
             else (s, None))
      else
        let s1 = s\<lparr>lc_consumed_generation := sh_command_generation h, lc_active_trajectory := None,
                   lc_active_trajectory_generation := 0\<rparr>
        in (if cy_lock cy then upd_sh drop_pending s1 else s1, None))"

definition pick_up_trajectory :: "('o \<Rightarrow> 'o) \<Rightarrow> ctl_cycle \<Rightarrow> 'o lift_ctl \<Rightarrow> 'o lift_ctl" where
  "pick_up_trajectory rst cy s =
     (case take_trajectory cy s of
        (s1, None) \<Rightarrow> s1
      | (s1, Some t) \<Rightarrow> begin_brake_gate rst (cy_now cy) (motion_command_default\<lparr>mo_type := CT_trajectory\<rparr>)
          (s1\<lparr>lc_active_trajectory := Some t, lc_point_index := 0, lc_elapsed_sec := 0,
             lc_waiting_at_point := False\<rparr>))"

text \<open>Which buffer the cycle reads.\<close>

datatype command_source = From_safety | From_heavy | From_local

definition select_command ::
    "'o lift_ctl \<Rightarrow> 'o lift_ctl \<times> (command_source \<times> motion_command) option" where
  "select_command s =
     (let h = lc_sh s in
      if sh_safety_command_generation h \<noteq> lc_consumed_safety_generation s then
        (s\<lparr>lc_consumed_safety_generation := sh_safety_command_generation h\<rparr>,
         Some (From_safety, sh_safety_command h))
      else if sh_heavy_lease_active h then
        (if sh_heavy_command_generation h \<noteq> lc_consumed_heavy_generation s then
           (s\<lparr>lc_consumed_heavy_generation := sh_heavy_command_generation h\<rparr>,
            Some (From_heavy, sh_heavy_command h))
         else (s, None))
      else (s, Some (From_local, sh_command h)))"

definition is_new :: "'o lift_ctl \<Rightarrow> command_source \<Rightarrow> motion_command \<Rightarrow> bool" where
  "is_new s src c \<longleftrightarrow> mo_generation c \<noteq> 0 \<and>
     (src = From_safety \<or> mo_generation c > sh_cancellation_generation (lc_sh s)) \<and>
     (src = From_safety \<or> src = From_heavy \<or> mo_generation c \<noteq> lc_consumed_generation s)"

definition cancel_pending_trajectory :: "u64 \<Rightarrow> ctl_shared \<Rightarrow> ctl_shared" where
  "cancel_pending_trajectory generation h =
     (if sh_pending_trajectory_generation h \<le> generation then drop_pending h else h)"

definition stop_or_hold ::
    "('o \<Rightarrow> 'o) \<Rightarrow> ctl_config \<Rightarrow> bool \<Rightarrow> motion_command \<Rightarrow> 'o lift_ctl \<Rightarrow> 'o lift_ctl" where
  "stop_or_hold rst cfg safety c s =
     (let s1 = (if safety then
              (upd_sh (\<lambda>h. (cancel_pending_trajectory (mo_generation c) h)\<lparr>
                  sh_applied_cancellation_generation := mo_generation c\<rparr>) s)\<lparr>
                lc_active_trajectory := None, lc_active_trajectory_generation := 0\<rparr>
            else s)
      in if lc_mode s1 = M_hold \<and> stationary cfg (lc_velocity s1) \<and>
            stationary cfg (ms_velocity_mps (lc_sample s1)) then
           (if mo_type c = CT_hold then
              enter_hold rst cfg (if safety then lc_position s1 else mo_position_m c)
                (s1\<lparr>lc_pending_hold_generation := (if safety then mo_generation c else 0)\<rparr>)
            else request_brake False (enter_hold rst cfg (lc_position s1) s1))
         else
           begin_soft_stop rst (if mo_type c = CT_hold then SS_hold_powered else SS_disable)
             (if mo_type c = CT_hold \<and> safety then mo_generation c else 0) s1)"

definition follow_jog ::
    "('o \<Rightarrow> 'o) \<Rightarrow> ctl_config \<Rightarrow> int \<Rightarrow> motion_command \<Rightarrow> 'o lift_ctl \<Rightarrow> 'o lift_ctl" where
  "follow_jog rst cfg now c s =
     (case set_velocity_target rst (mo_velocity_mps c) (mo_velocity_scale c) (lc_profile s) of
        Some p \<Rightarrow> s\<lparr>lc_profile := p, lc_last_jog_time := now\<rparr>
      | None \<Rightarrow>
          let s1 = record_lift_fault now ''invalid_jog_velocity''
                     (\<lambda>s. [T ''entry_mode='', T (mode_name (lc_mode s)), T '' jog_velocity_mps='',
                        D (mo_velocity_mps c), T '' requested_velocity_scale='', D (mo_velocity_scale c),
                        T '' limits[max_velocity_mps='', D (ml_max_velocity_mps (lcc_limits cfg)),
                        T '',max_acceleration_mps2='', D (ml_max_acceleration_mps2 (lcc_limits cfg)),
                        T '',max_jerk_mps3='', D (ml_max_jerk_mps3 (lcc_limits cfg)), T '']'']) s
          in request_brake False (hold_profile rst (lc_position s1) (s1\<lparr>lc_mode := M_fault\<rparr>)))"

text \<open>The dispatch of a new command; the second component says that a stream sample was selected.\<close>

definition dispatch_command ::
    "('o \<Rightarrow> 'o) \<Rightarrow> ctl_config \<Rightarrow> int \<Rightarrow> command_source \<Rightarrow> motion_command \<Rightarrow> 'o lift_ctl \<Rightarrow>
      'o lift_ctl \<times> bool" where
  "dispatch_command rst cfg now src c s0 =
     (let s = (if src = From_local then s0\<lparr>lc_consumed_generation := mo_generation c\<rparr> else s0) in
      if mo_type c = CT_soft_stop \<or> mo_type c = CT_hold then
        (stop_or_hold rst cfg (src = From_safety) c s, False)
      else if lc_mode s = M_brake_gate \<and> mo_type c \<noteq> CT_none then
        (let s1 = s\<lparr>lc_gated := c, lc_gated_valid := True\<rparr> in
         (if mo_type c = CT_jog then s1\<lparr>lc_last_jog_time := now\<rparr> else s1, False))
      else if mo_type c = CT_jog \<and> lc_mode s = M_jog \<and> driver_gate_ready cfg now s then
        (follow_jog rst cfg now c s, False)
      else if mo_type c = CT_stream \<and> lc_mode s = M_streaming \<and> driver_gate_ready cfg now s then
        (s\<lparr>lc_sample := stream_sample c\<rparr>, True)
      else if mo_type c \<noteq> CT_none then
        (begin_brake_gate rst now c (s\<lparr>lc_active_trajectory := None,
           lc_active_trajectory_generation := 0\<rparr>), False)
      else (s, False))"

text \<open>The third component is the heavy command consumed.\<close>

definition handle_command ::
    "('o \<Rightarrow> 'o) \<Rightarrow> ctl_config \<Rightarrow> int \<Rightarrow> 'o lift_ctl \<Rightarrow> 'o lift_ctl \<times> bool \<times> motion_command option" where
  "handle_command rst cfg now s =
     (case select_command s of
        (s1, None) \<Rightarrow> (s1, False, None)
      | (s1, Some (src, c)) \<Rightarrow>
          let (s2, streamed) = (if is_new s1 src c then dispatch_command rst cfg now src c s1 else (s1, False))
          in (s2, streamed, if src = From_heavy then Some c else None))"

definition check_gate :: "('o \<Rightarrow> 'o) \<Rightarrow> ctl_config \<Rightarrow> int \<Rightarrow> 'o lift_ctl \<Rightarrow> 'o lift_ctl" where
  "check_gate rst cfg now s =
     (if lc_mode s \<noteq> M_hold \<and> lc_mode s \<noteq> M_brake_gate \<and> lc_mode s \<noteq> M_estop \<and>
         \<not> driver_gate_ready cfg now s \<and> sh_power_enable_requested (lc_sh s) then
        let s1 = record_lift_fault now ''gate_lost_during_motion''
                   (\<lambda>s. [T ''entry_mode='', T (mode_name (lc_mode s)), T '' position='', D (lc_position s),
                      T '' velocity='', D (lc_velocity s), T '' command_position='',
                      D (ms_position_m (lc_sample s)), T '' command_velocity='',
                      D (ms_velocity_mps (lc_sample s)), T '' gate[''] @
                      driver_gate_failure_reason cfg now s @ [T '']'']) s;
            s2 = (fail_pending_hold HF_driver_gate s1)\<lparr>lc_mode := M_fault, lc_gated_valid := False,
                   lc_active_trajectory := None\<rparr>
        in request_brake False (hold_profile rst (lc_position s2) s2)
      else s)"

definition brake_gate_cycle ::
    "('o \<Rightarrow> 'o) \<Rightarrow> 'o otg_update \<Rightarrow> ctl_config \<Rightarrow> int \<Rightarrow> double \<Rightarrow> 'o lift_ctl \<times> bool \<Rightarrow> 'o lift_ctl \<times> bool" where
  "brake_gate_cycle rst upd cfg now dt = (\<lambda>(s, streamed).
     let (s1, streamed1) =
           (if lc_gated_valid s \<and> mo_type (lc_gated s) = CT_jog \<and> lc_last_jog_time s \<noteq> 0 \<and>
               seconds_since now (lc_last_jog_time s) > lcc_jog_timeout_sec cfg then
              (run_profile rst upd dt (begin_soft_stop rst SS_disable 0 s), streamed)
            else if driver_gate_ready cfg now s then
              (if lc_gate_stable_since s = 0 then (s\<lparr>lc_gate_stable_since := now\<rparr>, streamed)
               else if seconds_since now (lc_gate_stable_since s) \<ge> lcc_brake_gate_stable_sec cfg then
                 let s' = start_gated_motion rst cfg now s in (s', lc_mode s' = M_streaming)
               else (s, streamed))
            else (request_brake True (s\<lparr>lc_gate_stable_since := 0\<rparr>), streamed))
     in (if lc_mode s1 = M_brake_gate then take_profile_state s1 else s1, streamed1))"

definition trajectory_cycle ::
    "('o \<Rightarrow> 'o) \<Rightarrow> 'o otg_update \<Rightarrow> ctl_config \<Rightarrow> double \<Rightarrow> joint_trajectory \<Rightarrow> 'o lift_ctl \<Rightarrow> 'o lift_ctl" where
  "trajectory_cycle rst upd cfg dt t s =
     (let s1 = run_profile rst upd dt (s\<lparr>lc_elapsed_sec := lc_elapsed_sec s + dt\<rparr>) in
      if ms_finished (lc_sample s1) \<and>
         lc_elapsed_sec s1 + Fin (1 / 10 ^ 9) \<ge> duration_seconds (jt_points t ! lc_point_index s1) then
        (if lc_point_index s1 + 1 < length (jt_points t) then
           (case start_trajectory_point rst cfg (lc_point_index s1 + 1)
                (s1\<lparr>lc_point_index := lc_point_index s1 + 1\<rparr>) of
              (True, s2) \<Rightarrow> s2
            | (False, s2) \<Rightarrow> begin_soft_stop rst SS_disable 0 s2)
         else s1\<lparr>lc_waiting_at_point := True\<rparr>)
      else s1)"

definition run_mode ::
    "('o \<Rightarrow> 'o) \<Rightarrow> 'o otg_update \<Rightarrow> ctl_config \<Rightarrow> int \<Rightarrow> double \<Rightarrow> 'o lift_ctl \<times> bool \<Rightarrow> 'o lift_ctl \<times> bool" where
  "run_mode rst upd cfg now dt = (\<lambda>(s, streamed).
     if lc_mode s = M_brake_gate then brake_gate_cycle rst upd cfg now dt (s, streamed)
     else if lc_mode s = M_jog \<and> seconds_since now (lc_last_jog_time s) > lcc_jog_timeout_sec cfg then
       (run_profile rst upd dt (begin_soft_stop rst SS_disable 0 s), streamed)
     else if lc_mode s = M_trajectory \<and> lc_active_trajectory s \<noteq> None then
       (trajectory_cycle rst upd cfg dt (the (lc_active_trajectory s)) s, streamed)
     else if lc_mode s = M_position \<or> lc_mode s = M_jog \<or> lc_mode s = M_soft_stop then
       (run_profile rst upd dt s, streamed)
     else if lc_mode s = M_streaming then (s, streamed)
     else (take_profile_state s, streamed))"

definition check_sample :: "('o \<Rightarrow> 'o) \<Rightarrow> ctl_config \<Rightarrow> int \<Rightarrow> 'o lift_ctl \<Rightarrow> 'o lift_ctl" where
  "check_sample rst cfg now s =
     (if \<not> ms_valid (lc_sample s) then
        let s1 = record_lift_fault now ''ruckig_rejected_state''
                   (\<lambda>s. let m = mp_state (lc_profile s) in
                      [T ''entry_mode='', T (mode_name (lc_mode s)), T '' position='', D (lc_position s),
                       T '' velocity='', D (lc_velocity s), T '' profile_position='', D (ms_position_m m),
                       T '' profile_velocity='', D (ms_velocity_mps m), T '' profile_acceleration='',
                       D (ms_acceleration_mps2 m), T '' profile_jerk='', D (ms_jerk_mps3 m),
                       T '' limits[max_velocity_mps='', D (ml_max_velocity_mps (lcc_limits cfg)),
                       T '',max_acceleration_mps2='', D (ml_max_acceleration_mps2 (lcc_limits cfg)),
                       T '',max_jerk_mps3='', D (ml_max_jerk_mps3 (lcc_limits cfg)), T '']'']) s;
            s2 = (fail_pending_hold HF_motion_profile s1)\<lparr>lc_mode := M_fault\<rparr>
        in request_brake False (take_profile_state (hold_profile rst (lc_position s2) s2))
      else s)"

definition finish_soft_stop :: "('o \<Rightarrow> 'o) \<Rightarrow> ctl_config \<Rightarrow> 'o lift_ctl \<Rightarrow> 'o lift_ctl" where
  "finish_soft_stop rst cfg s =
     (if lc_mode s = M_soft_stop \<and> ms_finished (lc_sample s) \<and>
         stationary cfg (ms_velocity_mps (lc_sample s)) \<and>
         \<bar>ms_acceleration_mps2 (lc_sample s)\<bar> \<le> Fin (1 / 10 ^ 9) then
        let s1 = enter_hold rst cfg (lc_position s) s
        in if lc_completion s1 = SS_disable then request_brake False s1 else s1
      else s)"

definition profile_target :: "'o motion_profile \<Rightarrow> double" where
  "profile_target p = oi_target_position (mp_input p)"

definition target_stable :: "ctl_config \<Rightarrow> 'o lift_ctl \<Rightarrow> bool" where
  "target_stable cfg s \<longleftrightarrow>
     (lc_mode s = M_position \<or> (lc_mode s = M_trajectory \<and> lc_waiting_at_point s)) \<and>
     \<bar>profile_target (lc_profile s) - lc_position s\<bar> \<le> lcc_goal_tolerance_m cfg \<and>
     stationary cfg (lc_velocity s) \<and> stationary cfg (ms_velocity_mps (lc_sample s))"

definition check_target :: "('o \<Rightarrow> 'o) \<Rightarrow> ctl_config \<Rightarrow> int \<Rightarrow> 'o lift_ctl \<Rightarrow> 'o lift_ctl" where
  "check_target rst cfg now s =
     (if target_stable cfg s then
        (if \<not> lc_goal_stable_active s then s\<lparr>lc_goal_stable_active := True, lc_goal_stable_since := now\<rparr>
         else if seconds_since now (lc_goal_stable_since s) \<ge> lcc_target_stable_sec cfg then
           enter_hold rst cfg (profile_target (lc_profile s)) (s\<lparr>lc_active_trajectory := None\<rparr>)
         else s)
      else s\<lparr>lc_goal_stable_active := False\<rparr>)"

definition publish_ack :: "u64 \<Rightarrow> ctl_shared \<Rightarrow> ctl_shared" where
  "publish_ack n h = h\<lparr>sh_applied_heavy_sequence := n, sh_acks := sh_acks h @ [n]\<rparr>"

definition ack_consumed :: "motion_command option \<Rightarrow> 'o lift_ctl \<Rightarrow> 'o lift_ctl" where
  "ack_consumed heavy s =
     (case heavy of
        None \<Rightarrow> s
      | Some c \<Rightarrow>
          if mo_heavy_sequence c = 0 then s
          else if mo_type c = CT_stream then s\<lparr>lc_pending_follow_ack := mo_heavy_sequence c\<rparr>
          else upd_sh (publish_ack (mo_heavy_sequence c)) s)"

definition ack_follow :: "ctl_config \<Rightarrow> int \<Rightarrow> bool \<Rightarrow> 'o lift_ctl \<Rightarrow> 'o lift_ctl" where
  "ack_follow cfg now streamed s =
     (if lc_pending_follow_ack s \<noteq> 0 \<and> lc_mode s = M_streaming \<and> driver_gate_ready cfg now s \<and> streamed then
        (upd_sh (publish_ack (lc_pending_follow_ack s)) s)\<lparr>lc_pending_follow_ack := 0\<rparr>
      else s)"

definition cycle_dt :: "ctl_cycle \<Rightarrow> double" where
  "cycle_dt cy = (if cy_period cy > 0 then cy_period cy else Fin (1 / 100))"

text \<open>The part of \<open>update\<close> before a command is taken, the motion of the cycle, and what follows it.\<close>

definition admit_cycle :: "('o \<Rightarrow> 'o) \<Rightarrow> ctl_config \<Rightarrow> ctl_cycle \<Rightarrow> 'o lift_ctl \<Rightarrow> 'o lift_ctl" where
  "admit_cycle rst cfg cy s = pick_up_trajectory rst cy (follow_lease (leave_estop rst cfg s))"

definition motion_cycle ::
    "('o \<Rightarrow> 'o) \<Rightarrow> 'o otg_update \<Rightarrow> ctl_config \<Rightarrow> ctl_cycle \<Rightarrow> 'o lift_ctl \<times> bool \<Rightarrow> 'o lift_ctl \<times> bool" where
  "motion_cycle rst upd cfg cy = (\<lambda>(s, streamed).
     let now = cy_now cy;
         (s1, streamed1) = run_mode rst upd cfg now (cycle_dt cy) (check_gate rst cfg now s, streamed)
     in (check_target rst cfg now (finish_soft_stop rst cfg (check_sample rst cfg now s1)), streamed1))"

definition emit_cycle :: "('o \<Rightarrow> 'o) \<Rightarrow> ctl_config \<Rightarrow> int \<Rightarrow> 'o lift_ctl \<Rightarrow> 'o lift_ctl" where
  "emit_cycle rst cfg now s =
     (let s1 = fst (log_gate_diagnostics cfg now (apply_zero_frame_resync rst cfg s))
      in confirm_pending_hold cfg (write_command_interfaces cfg (lc_sample s1) s1))"

text \<open>\<open>update\<close>; the result is \<open>True\<close> for \<open>OK\<close> and \<open>False\<close> for \<open>ERROR\<close>.\<close>

definition ctl_update ::
    "('o \<Rightarrow> 'o) \<Rightarrow> 'o otg_update \<Rightarrow> ctl_config \<Rightarrow> ctl_cycle \<Rightarrow> 'o lift_ctl \<Rightarrow> 'o lift_ctl \<times> bool" where
  "ctl_update rst upd cfg cy s =
     (let s0 = read_state_interfaces cy s; now = cy_now cy in
      if \<not> isfinite (cy_position cy) \<or> \<not> isfinite (cy_velocity cy) \<or> \<not> isfinite (cy_power_enable cy) then
        (non_finite_cycle cfg cy s0, False)
      else if ds_estop_latched (lc_dr s0) then (estop_cycle rst cfg cy s0, True)
      else
        let (s1, streamed, heavy) = handle_command rst cfg now (admit_cycle rst cfg cy s0);
            (s2, streamed2) = motion_cycle rst upd cfg cy (s1, streamed);
            s3 = emit_cycle rst cfg now s2
        in (ack_follow cfg now streamed2 (ack_consumed heavy s3), True))"

section \<open>Callbacks\<close>

definition next_motion_generation :: "ctl_shared \<Rightarrow> ctl_shared \<times> u64" where
  "next_motion_generation h =
     (let g = sh_motion_generation h + 1 in (h\<lparr>sh_motion_generation := g\<rparr>, g))"

datatype buffer_name = Command_buffer | Safety_buffer | Heavy_buffer

definition write_buffer :: "buffer_name \<Rightarrow> motion_command \<Rightarrow> ctl_shared \<Rightarrow> ctl_shared" where
  "write_buffer b c h =
     (case b of Command_buffer \<Rightarrow> h\<lparr>sh_command := c\<rparr>
      | Safety_buffer \<Rightarrow> h\<lparr>sh_safety_command := c\<rparr>
      | Heavy_buffer \<Rightarrow> h\<lparr>sh_heavy_command := c\<rparr>)"

text \<open>The part of the enqueue functions up to the store of the generation. The command returned, which
  carries its generation, is still to be written to the buffer.\<close>

definition enqueue_command :: "motion_command \<Rightarrow> ctl_shared \<Rightarrow> ctl_shared \<times> motion_command" where
  "enqueue_command c h =
     (let (h1, g) = next_motion_generation h
      in (h1\<lparr>sh_command_generation := g\<rparr>, c\<lparr>mo_generation := g\<rparr>))"

definition enqueue_safety_command :: "motion_command \<Rightarrow> ctl_shared \<Rightarrow> ctl_shared \<times> motion_command" where
  "enqueue_safety_command c h =
     (let (h1, g) = next_motion_generation h;
          h2 = cancel_pending_trajectory g (h1\<lparr>sh_cancellation_generation := g\<rparr>)
      in (h2\<lparr>sh_safety_command_generation := g\<rparr>, c\<lparr>mo_generation := g\<rparr>))"

definition enqueue_heavy_command :: "motion_command \<Rightarrow> ctl_shared \<Rightarrow> ctl_shared \<times> motion_command" where
  "enqueue_heavy_command c h =
     (let (h1, g) = next_motion_generation h
      in (h1\<lparr>sh_heavy_command_generation := g\<rparr>, c\<lparr>mo_generation := g\<rparr>))"

definition jog_command :: "ctl_config \<Rightarrow> bool \<Rightarrow> ctl_shared \<Rightarrow> double \<Rightarrow> motion_command option" where
  "jog_command cfg estop h v =
     (if \<not> isfinite v \<or> estop \<or> sh_heavy_lease_active h then None
      else Some (motion_command_default\<lparr>
        mo_type := (if \<bar>v\<bar> \<le> Fin (1 / 10 ^ 9) then CT_soft_stop else CT_jog),
        mo_velocity_mps := dclamp v (- ml_max_velocity_mps (lcc_limits cfg))
          (ml_max_velocity_mps (lcc_limits cfg)),
        mo_velocity_scale := 1\<rparr>))"

definition first_finite :: "double list \<Rightarrow> double" where
  "first_finite xs = (if xs \<noteq> [] \<and> isfinite (xs ! 0) then xs ! 0 else 0)"

definition stream_command :: "ctl_config \<Rightarrow> bool \<Rightarrow> ctl_shared \<Rightarrow> traj_point \<Rightarrow> motion_command option" where
  "stream_command cfg estop h p =
     (if tp_positions p = [] \<or> \<not> isfinite (tp_positions p ! 0) \<or> estop \<or> sh_heavy_lease_active h then None
      else Some (motion_command_default\<lparr>mo_type := CT_stream,
        mo_position_m := clamp_travel cfg (tp_positions p ! 0),
        mo_velocity_mps := first_finite (tp_velocities p),
        mo_acceleration_mps2 := first_finite (tp_accelerations p),
        mo_velocity_scale := ml_default_velocity_scale (lcc_limits cfg)\<rparr>))"

definition optional_finite :: "double list \<Rightarrow> bool" where
  "optional_finite xs \<longleftrightarrow> xs = [] \<or> (length xs = 1 \<and> isfinite (xs ! 0))"

definition point_valid :: "ctl_config \<Rightarrow> traj_point \<Rightarrow> bool" where
  "point_valid cfg p \<longleftrightarrow> length (tp_positions p) = 1 \<and> isfinite (tp_positions p ! 0) \<and>
     \<not> tp_positions p ! 0 < ml_min_position_m (lcc_limits cfg) \<and>
     \<not> tp_positions p ! 0 > ml_max_position_m (lcc_limits cfg) \<and>
     optional_finite (tp_velocities p) \<and> optional_finite (tp_accelerations p)"

definition queue_trajectory :: "ctl_config \<Rightarrow> bool \<Rightarrow> joint_trajectory \<Rightarrow> ctl_shared \<Rightarrow> ctl_shared" where
  "queue_trajectory cfg estop t h =
     (if length (jt_joint_names t) \<noteq> 1 \<or> jt_joint_names t ! 0 \<noteq> lcc_joint_name cfg \<or> jt_points t = [] \<or>
         estop \<or> sh_heavy_lease_active h \<or> \<not> list_all (point_valid cfg) (jt_points t) then h
      else let (h1, g) = next_motion_generation h in
        h1\<lparr>sh_pending_trajectory := Some t, sh_pending_trajectory_generation := g\<rparr>)"

record joint_request =
  jr_joint_names :: "string list"
  jr_values :: "double list"
  jr_relative :: bool
  jr_vel :: double
  jr_acc :: double

definition position_command ::
    "ctl_config \<Rightarrow> bool \<Rightarrow> ctl_shared \<Rightarrow> joint_request \<Rightarrow> motion_command option \<times> string" where
  "position_command cfg estop h r =
     (let l = lcc_limits cfg in
      if sh_heavy_lease_active h then
        (None, ''lift command rejected: Heavy V1 execution lease is active'')
      else if estop then (None, ''lift command rejected: emergency stop is latched'')
      else if length (jr_joint_names r) \<noteq> 1 \<or> jr_joint_names r ! 0 \<noteq> lcc_joint_name cfg \<or>
         length (jr_values r) \<noteq> 1 \<or> \<not> isfinite (jr_values r ! 0) \<or> \<not> isfinite (jr_vel r) \<or>
         \<not> isfinite (jr_acc r) then
        (None, ''expected one finite joint_motor target'')
      else
        let target = (if jr_relative r then sh_measured_position h + jr_values r ! 0 else jr_values r ! 0);
            position = clamp_travel cfg target
        in (Some (motion_command_default\<lparr>mo_type := CT_position, mo_position_m := position,
              mo_velocity_scale := (if jr_vel r > 0 \<and> isfinite (jr_vel r)
                then dclamp (jr_vel r / ml_max_velocity_mps l) (Fin (1 / 100)) 1
                else ml_default_velocity_scale l),
              mo_acceleration_limit_mps2 := (if jr_acc r > 0
                then dmin (jr_acc r) (ml_max_acceleration_mps2 l) else ml_max_acceleration_mps2 l)\<rparr>),
            if deq position target then ''lift command accepted''
            else ''lift command clamped to software travel''))"

text \<open>The translation of a gateway command; \<open>None\<close> is a refusal. Resource 0 is the lift.\<close>

definition heavy_motion :: "ctl_config \<Rightarrow> command \<Rightarrow> motion_command option" where
  "heavy_motion cfg m =
     (let l = lcc_limits cfg; x = c_position m ! 0;
          c = motion_command_default\<lparr>mo_heavy_sequence := c_sequence m\<rparr> in
      if c_mode m = MODE_FOLLOW_POSITION then
        let v = (if c_field_mask m AND FIELD_VELOCITY \<noteq> 0 then c_velocity m ! 0 else 0);
            a = (if c_field_mask m AND FIELD_ACCELERATION \<noteq> 0 then c_acceleration m ! 0 else 0)
        in if c_field_mask m AND FIELD_POSITION = 0 \<or> \<not> isfinite x \<or> x < ml_min_position_m l \<or>
              x > ml_max_position_m l \<or> \<not> isfinite v \<or> \<bar>v\<bar> > ml_max_velocity_mps l \<or>
              \<not> isfinite a \<or> \<bar>a\<bar> > ml_max_acceleration_mps2 l then None
           else Some (c\<lparr>mo_type := CT_stream, mo_position_m := x, mo_velocity_mps := v,
             mo_acceleration_mps2 := a, mo_velocity_scale := ml_default_velocity_scale l\<rparr>)
      else if c_mode m = MODE_STOP then Some (c\<lparr>mo_type := CT_soft_stop\<rparr>)
      else if c_mode m = MODE_HOLD then
        (if c_field_mask m AND FIELD_POSITION = 0 \<or> \<not> isfinite x then None
         else Some (c\<lparr>mo_type := CT_hold, mo_position_m := clamp_travel cfg x\<rparr>))
      else None)"

text \<open>The heavy command callback. The admitted sequence is raised first; a command that is then refused
  has used up its sequence.\<close>

definition admit_heavy :: "ctl_config \<Rightarrow> command \<Rightarrow> ctl_shared \<Rightarrow> ctl_shared \<times> motion_command option" where
  "admit_heavy cfg m h =
     (let admitted = sh_admitted_heavy_sequence h in
      if c_sequence m \<le> admitted then
        (if c_sequence m = sh_applied_heavy_sequence h
         then (h\<lparr>sh_acks := sh_acks h @ [c_sequence m]\<rparr>, None) else (h, None))
      else
        let h1 = h\<lparr>sh_admitted_heavy_sequence := c_sequence m\<rparr> in
        (case heavy_motion cfg m of
           None \<Rightarrow> (h1, None)
         | Some c \<Rightarrow> (let (h2, c2) = enqueue_heavy_command c h1 in (h2, Some c2))))"

definition lease_gate :: "bool \<Rightarrow> ctl_shared \<Rightarrow> ctl_shared" where
  "lease_gate active h =
     (let h1 = h\<lparr>sh_heavy_lease_active := active\<rparr> in
      if active then h1 else h1\<lparr>sh_admitted_heavy_sequence := 0, sh_applied_heavy_sequence := 0\<rparr>)"

definition hold_snapshot_is_safe :: "ctl_config \<Rightarrow> ctl_shared \<Rightarrow> bool" where
  "hold_snapshot_is_safe cfg h \<longleftrightarrow> sh_mode h = M_hold \<and> \<not> sh_trajectory_active h \<and>
     \<not> sh_gated_command_active h \<and> stationary cfg (sh_measured_velocity h) \<and>
     stationary cfg (sh_command_velocity h) \<and> \<bar>sh_command_acceleration h\<bar> \<le> Fin (1 / 10 ^ 9)"

section \<open>Lifecycle\<close>

definition ctl_configure :: "ctl_config \<Rightarrow> 'o motion_profile \<Rightarrow> 'o motion_profile option" where
  "ctl_configure cfg p =
     (if lcc_joint_name cfg \<noteq> ''joint_motor'' then None
      else case profile_configure (lcc_limits cfg) p of
        (_, Inl _) \<Rightarrow> None
      | (p1, Inr _) \<Rightarrow>
          if \<not> isfinite (lcc_jog_timeout_sec cfg) \<or> lcc_jog_timeout_sec cfg \<le> 0 \<or>
             \<not> isfinite (lcc_brake_gate_stable_sec cfg) \<or> lcc_brake_gate_stable_sec cfg < Fin (1 / 10) \<or>
             \<not> isfinite (lcc_driver_status_timeout_sec cfg) \<or> lcc_driver_status_timeout_sec cfg \<le> 0 \<or>
             \<not> isfinite (lcc_target_stable_sec cfg) \<or> lcc_target_stable_sec cfg < 0 \<or>
             \<not> isfinite (lcc_goal_tolerance_m cfg) \<or> lcc_goal_tolerance_m cfg \<le> 0 \<or>
             \<not> isfinite (lcc_stationary_velocity_mps cfg) \<or> lcc_stationary_velocity_mps cfg \<le> 0 \<or>
             \<not> isfinite (lcc_status_rate_hz cfg) \<or> lcc_status_rate_hz cfg \<le> 0 then None
          else Some p1)"

text \<open>The records of the fault history are kept over an activation, what arms the diagnostics is reset.\<close>

definition rearm_faults :: "fault_log \<Rightarrow> fault_log" where
  "rearm_faults l = l\<lparr>fl_last_line_ns := 0, fl_last_record_ns := 0, fl_line_suppressed := 0,
     fl_last_code := ''''\<rparr>"

definition ctl_activate ::
    "('o \<Rightarrow> 'o) \<Rightarrow> ctl_config \<Rightarrow> nat \<Rightarrow> nat \<Rightarrow> double \<Rightarrow> double \<Rightarrow> double \<Rightarrow> 'o lift_ctl \<Rightarrow>
      'o lift_ctl \<times> bool" where
  "ctl_activate rst cfg n_command n_state position velocity power_enable s =
     (if n_command \<noteq> 4 \<or> n_state \<noteq> 3 then (s, False)
      else
        let s1 = s\<lparr>lc_position := position, lc_velocity := velocity\<rparr> in
        if \<not> isfinite position \<or> \<not> isfinite velocity \<or> \<not> isfinite power_enable then (s1, False)
        else
          let s2 = upd_sh (\<lambda>h. h\<lparr>sh_power_enabled_state := (power_enable \<ge> Fin (1 / 2)),
                       sh_power_enable_requested := False, sh_measured_position := position,
                       sh_measured_velocity := velocity\<rparr>) s1;
              s3 = take_profile_state (s2\<lparr>lc_profile := profile_reset rst position 0 0 (lc_profile s2)\<rparr>);
              s4 = write_command_interfaces cfg (lc_sample s3) s3;
              h = lc_sh s4;
              s5 = (upd_sh drop_pending s4)\<lparr>lc_consumed_generation := sh_command_generation h,
                     lc_consumed_safety_generation := sh_safety_command_generation h,
                     lc_consumed_heavy_generation := sh_heavy_command_generation h,
                     lc_lease_rt := False, lc_active_trajectory := None,
                     lc_active_trajectory_generation := 0, lc_gated_valid := False, lc_mode := M_hold,
                     lc_faults := rearm_faults (lc_faults s4), lc_gate_log := gate_log_idle,
                     lc_completion := SS_disable, lc_pending_hold_generation := 0,
                     lc_goal_stable_active := False\<rparr>
          in (upd_sh (\<lambda>h. h\<lparr>sh_cancellation_generation := sh_motion_generation h,
                 sh_applied_cancellation_generation := sh_motion_generation h, sh_active := True\<rparr>) s5, True))"

definition ctl_deactivate ::
    "('o \<Rightarrow> 'o) \<Rightarrow> ctl_config \<Rightarrow> nat \<Rightarrow> nat \<Rightarrow> double \<Rightarrow> 'o lift_ctl \<Rightarrow> 'o lift_ctl" where
  "ctl_deactivate rst cfg n_command n_state position s =
     (let s1 = upd_sh (\<lambda>h. h\<lparr>sh_active := False, sh_heavy_lease_active := False\<rparr>) s;
          s2 = request_brake False (s1\<lparr>lc_consumed_heavy_generation :=
                 sh_heavy_command_generation (lc_sh s1), lc_lease_rt := False\<rparr>)
      in if n_state \<ge> 3 \<and> n_command \<ge> 4 then
           let s3 = hold_profile rst (if isfinite position then position else 0) (s2\<lparr>lc_position := position\<rparr>)
           in write_command_interfaces cfg (mp_state (lc_profile s3)) s3
         else s2)"

text \<open>The members as they are initialised, around a configured profile; \<open>on_configure\<close> writes empty
  commands to the buffers.\<close>

definition driver_unset :: ctl_driver where
  "driver_unset = \<lparr>ds_feedback_fresh = False, ds_ethercat_operational = False, ds_working_counter_ok = False,
     ds_operation_enabled = False, ds_brake_unlocked = False, ds_estop_latched = False,
     ds_motion_blocked = False, ds_quick_stop = False, ds_error_code = 0, ds_mode_display = 0,
     ds_status_ns = 0, ds_zero_generation = 0, ds_zero_generation_valid = False\<rparr>"

definition shared_unset :: ctl_shared where
  "shared_unset = \<lparr>sh_command = motion_command_default, sh_safety_command = motion_command_default,
     sh_heavy_command = motion_command_default, sh_command_generation = 0, sh_safety_command_generation = 0,
     sh_heavy_command_generation = 0, sh_admitted_heavy_sequence = 0, sh_applied_heavy_sequence = 0,
     sh_motion_generation = 0, sh_cancellation_generation = 0, sh_applied_cancellation_generation = 0,
     sh_heavy_lease_active = False, sh_pending_trajectory = None, sh_pending_trajectory_generation = 0,
     sh_consumed_trajectory_generation = 0, sh_active = False, sh_completed_hold_generation = 0,
     sh_failed_hold_generation = 0, sh_hold_failure_stage = HF_none, sh_measured_position = 0,
     sh_measured_velocity = 0, sh_command_position = 0, sh_command_velocity = 0,
     sh_command_acceleration = 0, sh_mode = M_hold, sh_trajectory_active = False,
     sh_gated_command_active = False, sh_power_enable_requested = False, sh_power_enabled_state = False,
     sh_acks = []\<rparr>"

definition fault_log_empty :: fault_log where
  "fault_log_empty = \<lparr>fl_history = [], fl_next = 0, fl_total = 0, fl_last_record_ns = 0,
     fl_last_line_ns = 0, fl_line_suppressed = 0, fl_last_code = []\<rparr>"

definition motion_sample_default :: motion_sample where
  "motion_sample_default = \<lparr>ms_position_m = 0, ms_velocity_mps = 0, ms_acceleration_mps2 = 0,
     ms_jerk_mps3 = 0, ms_finished = True, ms_valid = True\<rparr>"

definition ctl_initial :: "'o motion_profile \<Rightarrow> ctl_output \<Rightarrow> 'o lift_ctl" where
  "ctl_initial p out = \<lparr>lc_profile = p, lc_sample = motion_sample_default, lc_lease_rt = False,
     lc_consumed_generation = 0, lc_consumed_safety_generation = 0, lc_consumed_heavy_generation = 0,
     lc_pending_follow_ack = 0, lc_gated = motion_command_default, lc_gated_valid = False,
     lc_active_trajectory = None, lc_active_trajectory_generation = 0, lc_point_index = 0, lc_elapsed_sec = 0,
     lc_waiting_at_point = False, lc_mode = M_hold, lc_position = 0, lc_velocity = 0,
     lc_goal_stable_active = False, lc_completion = SS_disable, lc_pending_hold_generation = 0,
     lc_goal_stable_since = 0, lc_gate_stable_since = 0, lc_last_jog_time = 0, lc_applied_zero_generation = 0,
     lc_zero_resync_total = 0, lc_zero_resync_from = 0, lc_zero_resync_to = 0,
     lc_faults = fault_log_empty, lc_gate_log = gate_log_idle, lc_out = out, lc_sh = shared_unset,
     lc_dr = driver_unset\<rparr>"

section \<open>Controller status\<close>

definition escape_char :: "char \<Rightarrow> string" where
  "escape_char c =
     (if c = CHR 0x22 then [CHR 0x5C, CHR 0x22]
      else if c = CHR 0x5C then [CHR 0x5C, CHR 0x5C]
      else if c = CHR 0x0A then [CHR 0x5C, CHR ''n'']
      else if c = CHR 0x0D then [CHR 0x5C, CHR ''r'']
      else if c = CHR 0x09 then [CHR 0x5C, CHR ''t'']
      else if (of_char c :: nat) < 0x20 then '' '' else [c])"

fun escape_token :: "token \<Rightarrow> token" where
  "escape_token (T s) = T (concat (map escape_char s))"
| "escape_token (N i) = N i"
| "escape_token (D x) = D x"

definition json_quote :: "gtext \<Rightarrow> gtext" where
  "json_quote text = T [CHR 0x22] # map escape_token text @ [T [CHR 0x22]]"

definition flag :: "bool \<Rightarrow> token" where
  "flag b = T (if b then ''true'' else ''false'')"

text \<open>The members of the status object, in order.\<close>

definition status_members :: "ctl_config \<Rightarrow> int \<Rightarrow> 'o lift_ctl \<Rightarrow> (string \<times> gtext) list" where
  "status_members cfg now s =
     (let h = lc_sh s; ready = driver_gate_ready cfg now s in
      [(''component'', json_quote [T ''lift_controller'']),
       (''mode'', json_quote [T (mode_name (sh_mode h))]),
       (''position'', [D (sh_measured_position h)]), (''velocity'', [D (sh_measured_velocity h)]),
       (''command_position'', [D (sh_command_position h)]),
       (''command_velocity'', [D (sh_command_velocity h)]),
       (''command_acceleration'', [D (sh_command_acceleration h)]),
       (''zero_generation'', [N (uint (ds_zero_generation (lc_dr s)))]),
       (''zero_resync_total'', [N (uint (lc_zero_resync_total s))]),
       (''last_zero_resync_from'', [D (lc_zero_resync_from s)]),
       (''last_zero_resync_to'', [D (lc_zero_resync_to s)]),
       (''estop_latched'', [flag (ds_estop_latched (lc_dr s))]), (''brake_gate_ready'', [flag ready]),
       (''power_enable_command'', [flag (sh_power_enable_requested h)]),
       (''power_enabled'', [flag (sh_power_enabled_state h)]),
       (''trajectory_active'', [flag (sh_mode h = M_trajectory)]),
       (''jog_active'', [flag (sh_mode h = M_jog)]),
       (''motion_generation'', [N (uint (sh_motion_generation h))]),
       (''cancellation_generation'', [N (uint (sh_cancellation_generation h))]),
       (''applied_cancellation_generation'', [N (uint (sh_applied_cancellation_generation h))]),
       (''gate_ready'', [flag ready]),
       (''gate_failure'', json_quote (if ready then [T ''none''] else driver_gate_failure_reason cfg now s)),
       (''fault_reason'', json_quote (last_fault_text s)),
       (''fault_total'', [N (uint (fl_total (lc_faults s)))])])"

definition age_ms :: "int \<Rightarrow> int \<Rightarrow> double" where
  "age_ms now t = (if t > 0 \<and> now \<ge> t then Fin (of_int (now - t) / 10 ^ 6) else Fin (-1))"

definition fault_members :: "int \<Rightarrow> fault_record \<Rightarrow> (string \<times> gtext) list" where
  "fault_members now r =
     [(''age_ms'', [D (age_ms now (fe_first_ns r))]), (''last_age_ms'', [D (age_ms now (fe_last_ns r))]),
      (''repeats'', [N (uint (fe_repeats r))]), (''code'', json_quote [T (fe_code r)]),
      (''detail'', json_quote (fe_detail r))]"

text \<open>The fault records from the newest to the oldest.\<close>

definition newest_first :: "fault_log \<Rightarrow> fault_record list" where
  "newest_first l = map (\<lambda>offset. fl_history l !
       ((fl_next l + kFaultHistoryCapacity - 1 - offset) mod kFaultHistoryCapacity))
     [0..<length (fl_history l)]"

definition member_text :: "string \<times> gtext \<Rightarrow> gtext" where
  "member_text m = T (quoted_key (fst m)) # snd m"

fun separated :: "gtext list \<Rightarrow> gtext" where
  "separated [] = []"
| "separated [x] = x"
| "separated (x # xs) = x @ T '','' # separated xs"

definition object_text :: "(string \<times> gtext) list \<Rightarrow> gtext" where
  "object_text members = T ''{'' # separated (map member_text members) @ [T ''}'']"

definition publish_status :: "ctl_config \<Rightarrow> int \<Rightarrow> 'o lift_ctl \<Rightarrow> gtext option" where
  "publish_status cfg now s =
     (if \<not> sh_active (lc_sh s) then None
      else Some (object_text (status_members cfg now s @
        [(''fault_history'', T ''['' # separated (map (object_text \<circ> fault_members now)
           (newest_first (lc_faults s))) @ [T '']''])])))"

section \<open>The node\<close>

text \<open>The callback that runs, if any: a command still to be written to its buffer, or a service waiting
  for the control thread.\<close>

datatype after_write = AW_done | AW_stop | AW_hold

datatype service = SV_idle | SV_writing buffer_name motion_command after_write
  | SV_stop_wait u64 int | SV_hold_wait u64 int

record 'o ctl_node =
  nd_ctl :: "'o lift_ctl"
  nd_service :: service
  nd_replies :: "(bool \<times> string) list"

definition reply :: "bool \<Rightarrow> string \<Rightarrow> 'o ctl_node \<Rightarrow> 'o ctl_node" where
  "reply ok text n = n\<lparr>nd_service := SV_idle, nd_replies := nd_replies n @ [(ok, text)]\<rparr>"

definition set_shared :: "ctl_shared \<Rightarrow> 'o ctl_node \<Rightarrow> 'o ctl_node" where
  "set_shared h n = n\<lparr>nd_ctl := (nd_ctl n)\<lparr>lc_sh := h\<rparr>\<rparr>"

definition shared :: "'o ctl_node \<Rightarrow> ctl_shared" where
  "shared n = lc_sh (nd_ctl n)"

text \<open>A callback that enqueues a command: the generation now, the buffer in the next step.\<close>

definition start_enqueue ::
    "buffer_name \<Rightarrow> after_write \<Rightarrow> ctl_shared \<times> motion_command \<Rightarrow> 'o ctl_node \<Rightarrow> 'o ctl_node" where
  "start_enqueue b after hc n =
     (set_shared (fst hc) n)\<lparr>nd_service := SV_writing b (snd hc) after\<rparr>"

definition stop_request :: motion_command where
  "stop_request = motion_command_default\<lparr>mo_type := CT_soft_stop\<rparr>"

definition hold_request :: "ctl_shared \<Rightarrow> motion_command" where
  "hold_request h = motion_command_default\<lparr>mo_type := CT_hold, mo_position_m := sh_measured_position h\<rparr>"

definition begin_hold_service :: "'o ctl_node \<Rightarrow> 'o ctl_node" where
  "begin_hold_service n =
     (if \<not> sh_active (shared n) then
        reply True ''stage=inactive: lift controller is stopped; HOLD is already fail-safe'' n
      else start_enqueue Safety_buffer AW_hold (enqueue_safety_command (hold_request (shared n)) (shared n)) n)"

definition set_applied :: "u64 \<Rightarrow> ctl_shared \<Rightarrow> ctl_shared" where
  "set_applied g h = h\<lparr>sh_applied_cancellation_generation := g\<rparr>"

text \<open>What the two services do after the command is queued.\<close>

definition stop_queued :: "ctl_config \<Rightarrow> int \<Rightarrow> u64 \<Rightarrow> 'o ctl_node \<Rightarrow> 'o ctl_node" where
  "stop_queued cfg now g n =
     (let h = shared n in
      if \<not> sh_active h then
        reply True ''stage=inactive: lift controller is stopped; STOP is already fail-safe'' n
      else if hold_snapshot_is_safe cfg h \<and> \<not> sh_power_enable_requested h then
        reply True ''stage=idempotent: lift already stopped; old trajectory invalidated''
          (set_shared (set_applied g h) n)
      else n\<lparr>nd_service := SV_stop_wait g (now + 1000000000)\<rparr>)"

definition hold_queued :: "ctl_config \<Rightarrow> int \<Rightarrow> u64 \<Rightarrow> 'o ctl_node \<Rightarrow> 'o ctl_node" where
  "hold_queued cfg now g n =
     (let h = shared n in
      if hold_snapshot_is_safe cfg h then
        reply True ''stage=idempotent: lift already in safe HOLD; old trajectory invalidated''
          (set_shared (set_applied g h) n)
      else n\<lparr>nd_service := SV_hold_wait g (now + 4000000000)\<rparr>)"

definition poll_stop :: "int \<Rightarrow> u64 \<Rightarrow> int \<Rightarrow> 'o ctl_node \<Rightarrow> 'o ctl_node" where
  "poll_stop now g deadline n =
     (if now < deadline then
        (if sh_applied_cancellation_generation (shared n) \<ge> g
         then reply True ''stage=cancellation: lift STOP committed; old trajectory invalidated'' n else n)
      else reply False ''stage=cancellation: timed out waiting for control-loop acknowledgement'' n)"

definition poll_hold :: "int \<Rightarrow> u64 \<Rightarrow> int \<Rightarrow> 'o ctl_node \<Rightarrow> 'o ctl_node" where
  "poll_hold now g deadline n =
     (if now < deadline then
        (if sh_completed_hold_generation (shared n) \<ge> g
         then reply True ''stage=mode_confirmation: lift HOLD confirmed'' n
         else if sh_failed_hold_generation (shared n) \<ge> g then
           reply False (''stage='' @ hold_failure_stage_name (sh_hold_failure_stage (shared n)) @
             '': lift HOLD failed'') n
         else n)
      else reply False ''stage=mode_confirmation: timed out waiting for confirmed HOLD'' n)"

definition service_step :: "ctl_config \<Rightarrow> int \<Rightarrow> 'o ctl_node \<Rightarrow> 'o ctl_node" where
  "service_step cfg now n =
     (case nd_service n of
        SV_idle \<Rightarrow> n
      | SV_writing b c after \<Rightarrow>
          let n1 = set_shared (write_buffer b c (shared n)) n in
          (case after of
             AW_done \<Rightarrow> n1\<lparr>nd_service := SV_idle\<rparr>
           | AW_stop \<Rightarrow> stop_queued cfg now (mo_generation c) n1
           | AW_hold \<Rightarrow> hold_queued cfg now (mo_generation c) n1)
      | SV_stop_wait g deadline \<Rightarrow> poll_stop now g deadline n
      | SV_hold_wait g deadline \<Rightarrow> poll_hold now g deadline n)"

datatype callback =
    CB_status int string | CB_jog double | CB_stream traj_point | CB_trajectory joint_trajectory
  | CB_request joint_request | CB_heavy command | CB_lease bool | CB_stop | CB_hold

definition local_enqueue :: "motion_command option \<Rightarrow> 'o ctl_node \<Rightarrow> 'o ctl_node" where
  "local_enqueue co n =
     (case co of None \<Rightarrow> n
      | Some c \<Rightarrow> start_enqueue Command_buffer AW_done (enqueue_command c (shared n)) n)"

definition estop_seen :: "'o ctl_node \<Rightarrow> bool" where
  "estop_seen n = ds_estop_latched (lc_dr (nd_ctl n))"

fun run_callback :: "ctl_config \<Rightarrow> callback \<Rightarrow> 'o ctl_node \<Rightarrow> 'o ctl_node" where
  "run_callback cfg (CB_status now text) n = n\<lparr>nd_ctl := on_driver_status now text (nd_ctl n)\<rparr>"
| "run_callback cfg (CB_jog v) n = local_enqueue (jog_command cfg (estop_seen n) (shared n) v) n"
| "run_callback cfg (CB_stream p) n = local_enqueue (stream_command cfg (estop_seen n) (shared n) p) n"
| "run_callback cfg (CB_trajectory t) n = set_shared (queue_trajectory cfg (estop_seen n) t (shared n)) n"
| "run_callback cfg (CB_request r) n =
     (let (co, text) = position_command cfg (estop_seen n) (shared n) r in
      local_enqueue co (n\<lparr>nd_replies := nd_replies n @ [(co \<noteq> None, text)]\<rparr>))"
| "run_callback cfg (CB_heavy m) n =
     (case admit_heavy cfg m (shared n) of
        (h, None) \<Rightarrow> set_shared h n
      | (h, Some c) \<Rightarrow> start_enqueue Heavy_buffer AW_done (h, c) n)"
| "run_callback cfg (CB_lease b) n = set_shared (lease_gate b (shared n)) n"
| "run_callback cfg CB_stop n =
     start_enqueue Safety_buffer AW_stop (enqueue_safety_command stop_request (shared n)) n"
| "run_callback cfg CB_hold n = begin_hold_service n"

text \<open>The events of both threads. A callback starts only when none is running. The position, velocity
  and power interfaces are read at an activation, the position at a deactivation; the interfaces are
  those the controller asks for, four and three.\<close>

datatype ctl_event = EV_cycle ctl_cycle | EV_callback callback | EV_service int
  | EV_activate double double double | EV_deactivate double

fun node_step :: "('o \<Rightarrow> 'o) \<Rightarrow> 'o otg_update \<Rightarrow> ctl_config \<Rightarrow> 'o ctl_node \<Rightarrow> ctl_event \<Rightarrow> 'o ctl_node" where
  "node_step rst upd cfg n (EV_cycle cy) = n\<lparr>nd_ctl := fst (ctl_update rst upd cfg cy (nd_ctl n))\<rparr>"
| "node_step rst upd cfg n (EV_callback cb) = (if nd_service n = SV_idle then run_callback cfg cb n else n)"
| "node_step rst upd cfg n (EV_service now) = service_step cfg now n"
| "node_step rst upd cfg n (EV_activate x v e) =
     n\<lparr>nd_ctl := fst (ctl_activate rst cfg 4 3 x v e (nd_ctl n))\<rparr>"
| "node_step rst upd cfg n (EV_deactivate x) = n\<lparr>nd_ctl := ctl_deactivate rst cfg 4 3 x (nd_ctl n)\<rparr>"

end
