(* ===== verification/LiftControl.thy ===== *)
theory LiftControl
  imports LiftController
begin

text \<open>
  The properties of the lift controller: what it may command in every run, how motion starts and ends,
  and how it answers its services and the gateway.
\<close>

section \<open>Frames\<close>

named_theorems ctl_frame \<open>what the steps of a cycle leave alone\<close>

text \<open>What a cycle reads and never writes once the state interfaces are read.\<close>

definition inputs :: "'o lift_ctl \<Rightarrow>
    (ctl_driver \<times> double \<times> double \<times> bool) \<times> (motion_command \<times> motion_command \<times> motion_command) \<times>
    (u64 \<times> u64 \<times> u64 \<times> u64 \<times> u64) \<times> bool \<times> bool" where
  "inputs s = ((lc_dr s, lc_position s, lc_velocity s, sh_power_enabled_state (lc_sh s)),
     (sh_command (lc_sh s), sh_safety_command (lc_sh s), sh_heavy_command (lc_sh s)),
     (sh_command_generation (lc_sh s), sh_safety_command_generation (lc_sh s),
      sh_heavy_command_generation (lc_sh s), sh_motion_generation (lc_sh s),
      sh_cancellation_generation (lc_sh s)),
     sh_heavy_lease_active (lc_sh s), sh_active (lc_sh s))"

lemma inputsD:
  assumes "inputs s = inputs t"
  shows "lc_dr s = lc_dr t" "lc_position s = lc_position t" "lc_velocity s = lc_velocity t"
    "driver_gate_ready cfg now s = driver_gate_ready cfg now t"
    "sh_heavy_lease_active (lc_sh s) = sh_heavy_lease_active (lc_sh t)"
    "sh_safety_command_generation (lc_sh s) = sh_safety_command_generation (lc_sh t)"
    "sh_heavy_command_generation (lc_sh s) = sh_heavy_command_generation (lc_sh t)"
    "sh_cancellation_generation (lc_sh s) = sh_cancellation_generation (lc_sh t)"
    "sh_command (lc_sh s) = sh_command (lc_sh t)"
    "sh_safety_command (lc_sh s) = sh_safety_command (lc_sh t)"
    "sh_heavy_command (lc_sh s) = sh_heavy_command (lc_sh t)"
  using assms by (simp_all add: inputs_def driver_gate_ready_def)

lemma inputs_small [ctl_frame]:
  "inputs (request_brake b s) = inputs s"
  "inputs (hold_profile rst x s) = inputs s"
  "inputs (take_profile_state s) = inputs s"
  "inputs (run_profile rst upd dt s) = inputs s"
  "inputs (fail_pending_hold st s) = inputs s"
  "inputs (enter_hold rst cfg x s) = inputs s"
  "inputs (begin_brake_gate rst now c s) = inputs s"
  "inputs (begin_soft_stop rst k g s) = inputs s"
  "inputs (record_lift_fault now code d s) = inputs s"
  "inputs (write_command_interfaces cfg m s) = inputs s"
  "inputs (confirm_pending_hold cfg s) = inputs s"
  "inputs (apply_zero_frame_resync rst cfg s) = inputs s"
  "inputs (fst (log_gate_diagnostics cfg now s)) = inputs s"
  by (simp_all add: inputs_def request_brake_def upd_sh_def hold_profile_def take_profile_state_def
      run_profile_def fail_pending_hold_def enter_hold_def begin_brake_gate_def begin_soft_stop_def
      record_lift_fault_def write_command_interfaces_def confirm_pending_hold_def
      apply_zero_frame_resync_def log_gate_diagnostics_def Let_def split_beta)

lemma inputs_updates [simp]:
  "inputs (s\<lparr>lc_profile := p\<rparr>) = inputs s" "inputs (s\<lparr>lc_sample := m\<rparr>) = inputs s"
  "inputs (s\<lparr>lc_lease_rt := b\<rparr>) = inputs s" "inputs (s\<lparr>lc_consumed_generation := g\<rparr>) = inputs s"
  "inputs (s\<lparr>lc_consumed_safety_generation := g\<rparr>) = inputs s"
  "inputs (s\<lparr>lc_consumed_heavy_generation := g\<rparr>) = inputs s"
  "inputs (s\<lparr>lc_pending_follow_ack := g\<rparr>) = inputs s" "inputs (s\<lparr>lc_gated := c\<rparr>) = inputs s"
  "inputs (s\<lparr>lc_gated_valid := b\<rparr>) = inputs s" "inputs (s\<lparr>lc_active_trajectory := t\<rparr>) = inputs s"
  "inputs (s\<lparr>lc_active_trajectory_generation := g\<rparr>) = inputs s"
  "inputs (s\<lparr>lc_point_index := i\<rparr>) = inputs s" "inputs (s\<lparr>lc_elapsed_sec := e\<rparr>) = inputs s"
  "inputs (s\<lparr>lc_waiting_at_point := b\<rparr>) = inputs s" "inputs (s\<lparr>lc_mode := md\<rparr>) = inputs s"
  "inputs (s\<lparr>lc_goal_stable_active := b\<rparr>) = inputs s"
  "inputs (s\<lparr>lc_pending_hold_generation := g\<rparr>) = inputs s"
  "inputs (s\<lparr>lc_goal_stable_since := t2\<rparr>) = inputs s"
  "inputs (s\<lparr>lc_gate_stable_since := t2\<rparr>) = inputs s" "inputs (s\<lparr>lc_last_jog_time := t2\<rparr>) = inputs s"
  by (simp_all add: inputs_def)

lemma inputs_push [ctl_frame]:
  "inputs (if b then s else t) = (if b then inputs s else inputs t)"
  "fst (if b then u else v) = (if b then fst u else fst v)"
  "inputs (case ob of None \<Rightarrow> s | Some x \<Rightarrow> f x) = (case ob of None \<Rightarrow> inputs s | Some x \<Rightarrow> inputs (f x))"
  by (auto split: option.split)

lemmas inputs_push_rules = inputs_updates if_cancel fst_conv Let_def split_beta

lemma inputs_point [ctl_frame]:
  "inputs (snd (start_trajectory_point rst cfg i s)) = inputs s"
  by (simp add: start_trajectory_point_def Let_def split: option.split)

lemma inputs_gated [ctl_frame]: "inputs (start_gated_motion rst cfg now s) = inputs s"
  using inputs_point [of rst cfg 0]
  by (simp add: start_gated_motion_def Let_def split_beta ctl_frame split: command_type.split option.split)

lemma inputs_queue [ctl_frame]:
  "inputs (upd_sh drop_pending s) = inputs s"
  "inputs (upd_sh (\<lambda>h. (cancel_pending_trajectory g h)\<lparr>sh_applied_cancellation_generation := g\<rparr>) s) = inputs s"
  "inputs (upd_sh (publish_ack n) s) = inputs s"
  by (simp_all add: inputs_def upd_sh_def drop_pending_def cancel_pending_trajectory_def publish_ack_def)

lemma inputs_admit_parts [ctl_frame]:
  "inputs (leave_estop rst cfg s) = inputs s"
  "inputs (follow_lease s) = inputs s"
  "inputs (fst (take_trajectory cy s)) = inputs s"
  "inputs (upd_sh (\<lambda>h. h\<lparr>sh_consumed_trajectory_generation := sh_pending_trajectory_generation h\<rparr>) s) = inputs s"
  subgoal by (simp add: leave_estop_def ctl_frame)
  subgoal by (simp add: follow_lease_def Let_def)
  subgoal
    by (simp add: take_trajectory_def Let_def ctl_frame split: option.split) (simp add: inputs_def upd_sh_def)
  subgoal by (simp add: inputs_def upd_sh_def)
  done

lemma inputs_pick_up [ctl_frame]: "inputs (pick_up_trajectory rst cy s) = inputs s"
proof -
  obtain s1 t where t: "take_trajectory cy s = (s1, t)" by fastforce
  then show ?thesis
    using inputs_admit_parts(3) [of cy s] by (cases t) (simp_all add: pick_up_trajectory_def ctl_frame)
qed

lemma inputs_admit [ctl_frame]: "inputs (admit_cycle rst cfg cy s) = inputs s"
  by (simp only: admit_cycle_def ctl_frame)

lemma inputs_stop [ctl_frame]: "inputs (stop_or_hold rst cfg safety c s) = inputs s"
  by (simp only: stop_or_hold_def ctl_frame inputs_push_rules)

lemma inputs_jog [ctl_frame]: "inputs (follow_jog rst cfg now c s) = inputs s"
  by (simp add: follow_jog_def Let_def ctl_frame split: option.split)

lemma inputs_dispatch [ctl_frame]:
  "inputs (fst (dispatch_command rst cfg now src c s)) = inputs s"
  by (simp only: dispatch_command_def ctl_frame inputs_push_rules)

lemma inputs_select: "select_command s = (s1, r) \<Longrightarrow> inputs s1 = inputs s"
  by (auto simp: select_command_def Let_def split: if_splits)

lemma inputs_handle [ctl_frame]: "inputs (fst (handle_command rst cfg now s)) = inputs s"
proof -
  obtain s1 r where r: "select_command s = (s1, r)" by fastforce
  show ?thesis
    by (cases r) (simp_all add: handle_command_def r inputs_select [OF r] ctl_frame inputs_push_rules)
qed

lemma inputs_motion [ctl_frame]:
  "inputs (check_gate rst cfg now s) = inputs s"
  "inputs (fst (brake_gate_cycle rst upd cfg now dt sb)) = inputs (fst sb)"
  "inputs (check_sample rst cfg now s) = inputs s"
  "inputs (finish_soft_stop rst cfg s) = inputs s"
  "inputs (check_target rst cfg now s) = inputs s"
  by (simp_all only: check_gate_def brake_gate_cycle_def check_sample_def finish_soft_stop_def
      check_target_def ctl_frame inputs_push_rules)

lemma inputs_trajectory [ctl_frame]: "inputs (trajectory_cycle rst upd cfg dt t s) = inputs s"
proof -
  let ?s1 = "run_profile rst upd dt (s\<lparr>lc_elapsed_sec := lc_elapsed_sec s + dt\<rparr>)"
  obtain ok s2 where r: "start_trajectory_point rst cfg (lc_point_index ?s1 + 1)
      (?s1\<lparr>lc_point_index := lc_point_index ?s1 + 1\<rparr>) = (ok, s2)" by fastforce
  have "inputs s2 = inputs s"
    using inputs_point [of rst cfg "lc_point_index ?s1 + 1"
        "?s1\<lparr>lc_point_index := lc_point_index ?s1 + 1\<rparr>"] unfolding r by (simp add: ctl_frame)
  then show ?thesis
    using r by (cases ok) (simp_all add: trajectory_cycle_def ctl_frame Let_def)
qed

lemma inputs_run [ctl_frame]: "inputs (fst (run_mode rst upd cfg now dt sb)) = inputs (fst sb)"
  by (simp only: run_mode_def ctl_frame inputs_push_rules prod.collapse)

lemma inputs_motion_cycle [ctl_frame]: "inputs (fst (motion_cycle rst upd cfg cy sb)) = inputs (fst sb)"
  by (simp add: motion_cycle_def Let_def split_beta ctl_frame)

lemma inputs_emit [ctl_frame]: "inputs (emit_cycle rst cfg now s) = inputs s"
  by (simp add: emit_cycle_def Let_def ctl_frame)

section \<open>Shape of a cycle\<close>

definition readable :: "ctl_cycle \<Rightarrow> bool" where
  "readable cy \<longleftrightarrow> isfinite (cy_position cy) \<and> isfinite (cy_velocity cy) \<and> isfinite (cy_power_enable cy)"

text \<open>The stages of a cycle that is neither unreadable nor under an emergency stop.\<close>

lemma ctl_update_stages:
  assumes "readable cy" "\<not> ds_estop_latched (lc_dr s)"
  obtains s1 s2 streamed heavy s3 streamed2 where
    "s1 = admit_cycle rst cfg cy (read_state_interfaces cy s)"
    "handle_command rst cfg (cy_now cy) s1 = (s2, streamed, heavy)"
    "motion_cycle rst upd cfg cy (s2, streamed) = (s3, streamed2)"
    "ctl_update rst upd cfg cy s = (ack_follow cfg (cy_now cy) streamed2
       (ack_consumed heavy (emit_cycle rst cfg (cy_now cy) s3)), True)"
    "inputs s1 = inputs (read_state_interfaces cy s)" "inputs s2 = inputs s1" "inputs s3 = inputs s1"
proof -
  let ?s1 = "admit_cycle rst cfg cy (read_state_interfaces cy s)"
  obtain s2 streamed heavy where h: "handle_command rst cfg (cy_now cy) ?s1 = (s2, streamed, heavy)"
    using prod_cases3 by blast
  obtain s3 streamed2 where m: "motion_cycle rst upd cfg cy (s2, streamed) = (s3, streamed2)" by fastforce
  have dr: "lc_dr (read_state_interfaces cy s) = lc_dr s"
    by (simp add: read_state_interfaces_def upd_sh_def)
  show ?thesis
  proof (rule that [OF refl h m])
    show "ctl_update rst upd cfg cy s = (ack_follow cfg (cy_now cy) streamed2
       (ack_consumed heavy (emit_cycle rst cfg (cy_now cy) s3)), True)"
      using assms by (simp add: ctl_update_def Let_def readable_def dr h m)
    show "inputs ?s1 = inputs (read_state_interfaces cy s)"
      by (simp add: ctl_frame)
    show "inputs s2 = inputs ?s1"
      using inputs_handle [of rst cfg "cy_now cy" ?s1] by (simp add: h)
    then show "inputs s3 = inputs ?s1"
      using inputs_motion_cycle [of rst upd cfg cy "(s2, streamed)"] by (simp add: m)
  qed
qed

section \<open>The modes\<close>

text \<open>The modes the small steps end in, and what they do to the gate.\<close>

definition moving :: "ctl_mode \<Rightarrow> bool" where
  "moving m \<longleftrightarrow> m = M_position \<or> m = M_trajectory \<or> m = M_jog \<or> m = M_streaming"

named_theorems mode_simps \<open>modes after the steps of a cycle\<close>

lemma mode_small [mode_simps]:
  "lc_mode (request_brake b s) = lc_mode s"
  "lc_mode (upd_sh f s) = lc_mode s"
  "lc_mode (hold_profile rst x s) = lc_mode s"
  "lc_mode (take_profile_state s) = lc_mode s"
  "lc_mode (run_profile rst upd dt s) = lc_mode s"
  "lc_mode (fail_pending_hold st s) = lc_mode s"
  "lc_mode (enter_hold rst cfg x s) = M_hold"
  "lc_mode (begin_brake_gate rst now c s) = M_brake_gate"
  "lc_mode (begin_soft_stop rst k g s) = M_soft_stop"
  "lc_mode (record_lift_fault now code d s) = lc_mode s"
  "lc_mode (write_command_interfaces cfg m s) = lc_mode s"
  "lc_mode (confirm_pending_hold cfg s) = lc_mode s"
  "lc_mode (fst (log_gate_diagnostics cfg now s)) = lc_mode s"
  "lc_mode (ack_consumed h s) = lc_mode s"
  "lc_mode (ack_follow cfg now b s) = lc_mode s"
  "lc_mode (snd (start_trajectory_point rst cfg i s)) = lc_mode s"
  by (simp_all add: request_brake_def upd_sh_def hold_profile_def take_profile_state_def
      run_profile_def fail_pending_hold_def enter_hold_def begin_brake_gate_def begin_soft_stop_def
      record_lift_fault_def write_command_interfaces_def confirm_pending_hold_def
      log_gate_diagnostics_def ack_consumed_def ack_follow_def start_trajectory_point_def
      Let_def split_beta split: option.split)

lemma stable_small [mode_simps]:
  "lc_gate_stable_since (request_brake b s) = lc_gate_stable_since s"
  "lc_gate_stable_since (upd_sh f s) = lc_gate_stable_since s"
  "lc_gate_stable_since (hold_profile rst x s) = lc_gate_stable_since s"
  "lc_gate_stable_since (take_profile_state s) = lc_gate_stable_since s"
  "lc_gate_stable_since (fail_pending_hold st s) = lc_gate_stable_since s"
  "lc_gate_stable_since (enter_hold rst cfg x s) = lc_gate_stable_since s"
  "lc_gate_stable_since (begin_brake_gate rst now c s) = 0"
  "lc_gate_stable_since (begin_soft_stop rst k g s) = lc_gate_stable_since s"
  "lc_gate_stable_since (record_lift_fault now code d s) = lc_gate_stable_since s"
  by (simp_all add: request_brake_def upd_sh_def hold_profile_def take_profile_state_def
      fail_pending_hold_def enter_hold_def begin_brake_gate_def begin_soft_stop_def record_lift_fault_def
      Let_def)

text \<open>Taking a trajectory or a command never enters a moving mode; it keeps the mode, or enters the
  brake gate anew, or stops.\<close>

definition gate_change :: "'o lift_ctl \<Rightarrow> 'o lift_ctl \<Rightarrow> bool" where
  "gate_change s t \<longleftrightarrow>
     lc_mode t = lc_mode s \<and> lc_gate_stable_since t = lc_gate_stable_since s \<or>
     lc_mode t = M_brake_gate \<and> lc_gate_stable_since t = 0 \<or>
     lc_mode t = M_hold \<or> lc_mode t = M_soft_stop \<or> lc_mode t = M_fault"

lemma gate_change_refl [simp]: "gate_change s s"
  by (simp add: gate_change_def)

lemma gate_change_trans: "gate_change s t \<Longrightarrow> gate_change t u \<Longrightarrow> gate_change s u"
  by (auto simp: gate_change_def)

lemma gate_change_admit: "gate_change (read_state_interfaces cy s) (admit_cycle rst cfg cy (read_state_interfaces cy s))"
proof -
  have a: "gate_change s0 (follow_lease (leave_estop rst cfg s0))" for s0 :: "'a lift_ctl"
    by (auto simp: gate_change_def follow_lease_def leave_estop_def mode_simps Let_def)
  have "gate_change s0 (pick_up_trajectory rst cy s0)" for s0 :: "'a lift_ctl"
  proof -
    obtain s1 t where t: "take_trajectory cy s0 = (s1, t)" by fastforce
    have "lc_mode s1 = lc_mode s0" "lc_gate_stable_since s1 = lc_gate_stable_since s0"
      using t by (auto simp: take_trajectory_def Let_def mode_simps split: option.splits if_splits)
    then show ?thesis
      by (cases t) (simp_all add: pick_up_trajectory_def t gate_change_def mode_simps)
  qed
  then show ?thesis
    unfolding admit_cycle_def using a gate_change_trans by blast
qed

lemma mode_updates [mode_simps]:
  "gate_change (s\<lparr>lc_consumed_generation := g\<rparr>) t = gate_change s t"
  "gate_change (s\<lparr>lc_active_trajectory := a, lc_active_trajectory_generation := g\<rparr>) t = gate_change s t"
  by (simp_all add: gate_change_def)

lemma gate_change_stop: "gate_change s (stop_or_hold rst cfg safety c s)"
  by (auto simp: gate_change_def stop_or_hold_def Let_def mode_simps)

lemma gate_change_jog: "gate_change s (follow_jog rst cfg now c s)"
  by (auto simp: gate_change_def follow_jog_def Let_def mode_simps split: option.split)

lemma gate_change_dispatch:
  assumes "dispatch_command rst cfg now src c s = (t, b)"
  shows "gate_change s t" "b \<longrightarrow> lc_mode t = M_streaming"
proof -
  let ?s = "if src = From_local then s\<lparr>lc_consumed_generation := mo_generation c\<rparr> else s"
  have s: "gate_change ?s u = gate_change s u" for u
    by (simp add: mode_simps)
  show "gate_change s t"
    using assms gate_change_stop [of ?s rst cfg] gate_change_jog [of ?s rst cfg] unfolding s [symmetric]
    by (auto simp: dispatch_command_def Let_def gate_change_def mode_simps split: if_splits)
  show "b \<longrightarrow> lc_mode t = M_streaming"
    using assms by (auto simp: dispatch_command_def Let_def split: if_splits)
qed

lemma gate_change_handle:
  assumes "handle_command rst cfg now s = (t, b, h)"
  shows "gate_change s t" "b \<longrightarrow> lc_mode t = M_streaming"
proof -
  obtain s1 r where r: "select_command s = (s1, r)" by fastforce
  have s1: "gate_change s1 u = gate_change s u" for u
    using r by (auto simp: select_command_def Let_def gate_change_def split: if_splits)
  show "gate_change s t"
    using assms gate_change_dispatch(1) [of rst cfg now] unfolding s1 [symmetric]
    by (auto simp: handle_command_def r split: option.splits if_splits prod.splits)
  show "b \<longrightarrow> lc_mode t = M_streaming"
    using assms gate_change_dispatch(2) [of rst cfg now]
    by (auto simp: handle_command_def r split: option.splits if_splits prod.splits)
qed

lemma gate_change_check: "gate_change s (check_gate rst cfg now s)"
  by (simp add: check_gate_def Let_def gate_change_def mode_simps)

text \<open>The motion of a cycle enters a moving mode only from the brake gate, with the drive ready and the
  gate stable for the configured time.\<close>

definition gate_open :: "ctl_config \<Rightarrow> int \<Rightarrow> 'o lift_ctl \<Rightarrow> bool" where
  "gate_open cfg now s \<longleftrightarrow> lc_mode s = M_brake_gate \<and> driver_gate_ready cfg now s \<and>
     lc_gate_stable_since s \<noteq> 0 \<and>
     seconds_since now (lc_gate_stable_since s) \<ge> lcc_brake_gate_stable_sec cfg"

lemma brake_gate_cycle_mode:
  assumes "brake_gate_cycle rst upd cfg now dt (s, b) = (t, b')" "lc_mode s = M_brake_gate" "moving (lc_mode t)"
  shows "gate_open cfg now s"
  using assms
  by (auto simp: brake_gate_cycle_def gate_open_def moving_def mode_simps Let_def split: if_splits)

lemma trajectory_cycle_mode:
  "lc_mode (trajectory_cycle rst upd cfg dt t s) = lc_mode s \<or>
   lc_mode (trajectory_cycle rst upd cfg dt t s) = M_soft_stop"
proof -
  let ?s1 = "run_profile rst upd dt (s\<lparr>lc_elapsed_sec := lc_elapsed_sec s + dt\<rparr>)"
  obtain ok s2 where r: "start_trajectory_point rst cfg (lc_point_index ?s1 + 1)
      (?s1\<lparr>lc_point_index := lc_point_index ?s1 + 1\<rparr>) = (ok, s2)" by fastforce
  have "lc_mode s2 = lc_mode s"
    using mode_small(16) [of rst cfg "lc_point_index ?s1 + 1"
        "?s1\<lparr>lc_point_index := lc_point_index ?s1 + 1\<rparr>"] unfolding r by (simp add: mode_simps)
  then show ?thesis
    using r by (cases ok) (simp_all add: trajectory_cycle_def Let_def mode_simps)
qed

lemma run_mode_moving:
  assumes "run_mode rst upd cfg now dt (s, b) = (t, b')" "moving (lc_mode t)"
  shows "lc_mode t = lc_mode s \<or> gate_open cfg now s"
  using assms brake_gate_cycle_mode [of rst upd cfg now dt s b t b']
    trajectory_cycle_mode [of rst upd cfg dt "the (lc_active_trajectory s)" s]
  by (auto simp: run_mode_def moving_def mode_simps split: if_splits)

lemma settle_modes:
  "lc_mode (check_sample rst cfg now s) = (if ms_valid (lc_sample s) then lc_mode s else M_fault)"
  "lc_mode (finish_soft_stop rst cfg s) \<in> {lc_mode s, M_hold}"
  "lc_mode (check_target rst cfg now s) \<in> {lc_mode s, M_hold}"
  "lc_mode (apply_zero_frame_resync rst cfg s) \<in> {lc_mode s, M_hold}"
  by (auto simp: check_sample_def finish_soft_stop_def check_target_def apply_zero_frame_resync_def Let_def
      mode_simps)

lemma emit_mode: "lc_mode (emit_cycle rst cfg now s) \<in> {lc_mode s, M_hold}"
  using settle_modes(4) by (simp add: emit_cycle_def Let_def mode_simps)

lemma settled_mode:
  "lc_mode (check_target rst cfg now (finish_soft_stop rst cfg (check_sample rst cfg now s)))
     \<in> {lc_mode s, M_hold, M_fault}"
  using settle_modes(1) [of rst cfg now s] settle_modes(2) [of rst cfg "check_sample rst cfg now s"]
    settle_modes(3) [of rst cfg now "finish_soft_stop rst cfg (check_sample rst cfg now s)"]
  by (auto split: if_splits)

lemma not_moving [simp]: "\<not> moving M_hold" "\<not> moving M_fault" "\<not> moving M_brake_gate"
  "\<not> moving M_soft_stop" "\<not> moving M_estop"
  by (simp_all add: moving_def)



section \<open>A configuration and a state to run on\<close>

definition demo_ctl_config :: ctl_config where
  "demo_ctl_config = \<lparr>lcc_joint_name = ''joint_motor'', lcc_limits = sample_limits,
     lcc_jog_timeout_sec = Fin (45 / 100), lcc_brake_gate_stable_sec = Fin (1 / 10),
     lcc_driver_status_timeout_sec = Fin 2, lcc_target_stable_sec = Fin 1, lcc_goal_tolerance_m = Fin (1 / 1000),
     lcc_stationary_velocity_mps = Fin (1 / 1000), lcc_status_rate_hz = Fin 20\<rparr>"

definition demo_driver :: ctl_driver where
  "demo_driver = \<lparr>ds_feedback_fresh = True, ds_ethercat_operational = True, ds_working_counter_ok = True,
     ds_operation_enabled = True, ds_brake_unlocked = True, ds_estop_latched = False,
     ds_motion_blocked = False, ds_quick_stop = False, ds_error_code = 0, ds_mode_display = 9,
     ds_status_ns = 1000000000, ds_zero_generation = 0, ds_zero_generation_valid = True\<rparr>"

definition demo_shared :: ctl_shared where
  "demo_shared = shared_unset\<lparr>sh_active := True, sh_measured_position := Fin (1 / 2),
     sh_command_position := Fin (1 / 2), sh_power_enable_requested := True, sh_power_enabled_state := True\<rparr>"

definition demo_profile :: "unit motion_profile" where
  "demo_profile = profile_reset id (Fin (1 / 2)) 0 0 (fst (profile_configure sample_limits fresh_profile))"

definition demo_ctl :: "unit lift_ctl" where
  "demo_ctl = (ctl_initial demo_profile \<lparr>co_position = Fin (1 / 2), co_velocity = Fin 0,
       co_acceleration = Fin 0, co_power_enable = Fin 1\<rparr>)\<lparr>lc_sample := mp_state demo_profile,
     lc_position := Fin (1 / 2), lc_sh := demo_shared, lc_dr := demo_driver\<rparr>"

definition demo_cycle :: "int \<Rightarrow> ctl_cycle" where
  "demo_cycle now = \<lparr>cy_position = Fin (1 / 2), cy_velocity = Fin 0, cy_power_enable = Fin 1,
     cy_period = Fin (1 / 100), cy_now = now, cy_lock = True\<rparr>"

text \<open>A position command that waits in the brake gate.\<close>

definition demo_gated :: "unit lift_ctl" where
  "demo_gated = demo_ctl\<lparr>lc_mode := M_brake_gate, lc_gate_stable_since := 1000000000, lc_gated_valid := True,
     lc_gated := motion_command_default\<lparr>mo_type := CT_position, mo_position_m := Fin (3 / 4)\<rparr>\<rparr>"

lemmas demo_ctl_defs = demo_ctl_config_def demo_driver_def demo_shared_def shared_unset_def demo_ctl_def
  ctl_initial_def demo_cycle_def
  sample_limits_def motion_command_default_def

lemmas cycle_defs = ctl_update_def read_state_interfaces_def upd_sh_def admit_cycle_def
  pick_up_trajectory_def take_trajectory_def follow_lease_def leave_estop_def handle_command_def
  select_command_def is_new_def motion_cycle_def check_gate_def run_mode_def

lemma demo_profile_simps:
  "mp_state demo_profile = \<lparr>ms_position_m = Fin (1 / 2), ms_velocity_mps = Fin 0,
     ms_acceleration_mps2 = Fin 0, ms_jerk_mps3 = Fin 0, ms_finished = True, ms_valid = True\<rparr>"
  "mp_configured demo_profile" "mp_limits demo_profile = sample_limits" "mp_mode demo_profile = PM_hold"
  by (simp_all add: demo_profile_def profile_reset_def profile_configure_def apply_limits_def Let_def
      sample_limits_def fresh_profile_def)

lemma demo_gate_ready: "now \<ge> 1000000000 \<Longrightarrow> now \<le> 3000000000 \<Longrightarrow>
  lc_dr s = demo_driver \<Longrightarrow> sh_power_enabled_state (lc_sh s) \<Longrightarrow> driver_gate_ready demo_ctl_config now s"
  by (simp add: driver_gate_ready_def driver_status_fresh_def demo_driver_def demo_ctl_config_def
      seconds_since_def)

lemmas settle_defs = check_sample_def finish_soft_stop_def check_target_def target_stable_def
  stationary_def emit_cycle_def apply_zero_frame_resync_def write_command_interfaces_def finite_sample_def
  clamp_travel_def confirm_pending_hold_def ack_consumed_def ack_follow_def

text \<open>A cycle in which nothing is taken from the queues.\<close>

definition quiet :: "'o lift_ctl \<Rightarrow> bool" where
  "quiet s \<longleftrightarrow> lc_mode s \<noteq> M_estop \<and> \<not> sh_heavy_lease_active (lc_sh s) \<and> \<not> lc_lease_rt s \<and>
     sh_pending_trajectory (lc_sh s) = None \<and>
     sh_safety_command_generation (lc_sh s) = lc_consumed_safety_generation s \<and>
     (mo_generation (sh_command (lc_sh s)) = 0 \<or>
      mo_generation (sh_command (lc_sh s)) = lc_consumed_generation s)"

lemma quiet_handle:
  assumes "quiet s"
  shows "handle_command rst cfg now (admit_cycle rst cfg cy s) = (s, False, None)"
proof -
  have "admit_cycle rst cfg cy s = s"
    using assms
    by (simp add: quiet_def admit_cycle_def pick_up_trajectory_def take_trajectory_def follow_lease_def
        leave_estop_def Let_def)
  then show ?thesis
    using assms by (auto simp: quiet_def handle_command_def select_command_def is_new_def Let_def)
qed

lemma quiet_update:
  assumes "quiet s" "readable cy" "\<not> ds_estop_latched (lc_dr s)"
  shows "ctl_update rst upd cfg cy s =
    (case motion_cycle rst upd cfg cy (read_state_interfaces cy s, False) of (s3, b) \<Rightarrow>
       (ack_follow cfg (cy_now cy) b (emit_cycle rst cfg (cy_now cy) s3), True))"
proof -
  have "quiet (read_state_interfaces cy s)" "lc_dr (read_state_interfaces cy s) = lc_dr s"
    using assms(1) by (simp_all add: quiet_def read_state_interfaces_def upd_sh_def)
  then show ?thesis
    using assms(2,3) by (simp add: ctl_update_def readable_def quiet_handle Let_def ack_consumed_def
        split: prod.split)
qed

lemma settled_same:
  assumes "ms_valid (lc_sample s)" "lc_mode s \<noteq> M_soft_stop" "\<not> lc_goal_stable_active s"
  shows "lc_mode (check_target rst cfg now (finish_soft_stop rst cfg (check_sample rst cfg now s))) = lc_mode s"
    "lc_applied_zero_generation
       (check_target rst cfg now (finish_soft_stop rst cfg (check_sample rst cfg now s))) =
     lc_applied_zero_generation s"
  using assms by (simp_all add: check_sample_def finish_soft_stop_def check_target_def)

lemma emit_same_frame:
  assumes "ds_zero_generation (lc_dr s) = lc_applied_zero_generation s"
  shows "emit_cycle rst cfg now s = confirm_pending_hold cfg (write_command_interfaces cfg
    (lc_sample (fst (log_gate_diagnostics cfg now s))) (fst (log_gate_diagnostics cfg now s)))"
  using assms by (simp add: emit_cycle_def apply_zero_frame_resync_def Let_def)

lemma demo_readable [simp]: "readable (demo_cycle now)"
  by (simp add: readable_def demo_cycle_def)

lemma demo_starts:
  "lc_mode (fst (ctl_update id jump_otg demo_ctl_config (demo_cycle 2000000000) demo_gated)) = M_position"
proof -
  let ?n = "2000000000 :: int"
  let ?r = "read_state_interfaces (demo_cycle ?n) demo_gated"
  let ?g = "start_gated_motion id demo_ctl_config ?n ?r"
  have q: "quiet demo_gated" "\<not> ds_estop_latched (lc_dr demo_gated)"
    by (simp_all add: quiet_def demo_gated_def demo_ctl_defs)
  have ready: "driver_gate_ready demo_ctl_config ?n ?r"
    by (rule demo_gate_ready) (simp_all add: read_state_interfaces_def upd_sh_def demo_gated_def
        demo_ctl_def ctl_initial_def demo_shared_def demo_cycle_def)
  have r: "check_gate id demo_ctl_config ?n ?r = ?r" "lc_mode ?r = M_brake_gate"
    by (simp_all add: check_gate_def demo_gated_def read_state_interfaces_def upd_sh_def)
  have run: "run_mode id jump_otg demo_ctl_config ?n d (?r, False) = (?g, False)" for d
    using ready
    by (simp add: run_mode_def brake_gate_cycle_def start_gated_motion_def set_position_target_def
        read_state_interfaces_def upd_sh_def demo_gated_def demo_ctl_defs seconds_since_def Let_def
        split: option.split)
  have g: "lc_mode ?g = M_position" "ms_valid (lc_sample ?g)" "\<not> lc_goal_stable_active ?g"
    "lc_applied_zero_generation ?g = 0" "ds_zero_generation (lc_dr ?g) = 0"
    by (simp_all add: start_gated_motion_def set_position_target_def read_state_interfaces_def upd_sh_def
        demo_gated_def demo_ctl_def ctl_initial_def demo_driver_def motion_command_default_def
        demo_profile_simps Let_def
        split: option.split)
  let ?c = "check_target id demo_ctl_config ?n (finish_soft_stop id demo_ctl_config
      (check_sample id demo_ctl_config ?n ?g))"
  have c: "lc_mode ?c = M_position" "lc_applied_zero_generation ?c = 0" "inputs ?c = inputs ?g"
    using settled_same [of ?g id demo_ctl_config ?n] g by (simp_all add: ctl_frame)
  then have "emit_cycle id demo_ctl_config ?n ?c = confirm_pending_hold demo_ctl_config
      (write_command_interfaces demo_ctl_config (lc_sample (fst (log_gate_diagnostics demo_ctl_config ?n ?c)))
        (fst (log_gate_diagnostics demo_ctl_config ?n ?c)))"
    using inputsD(1) [OF c(3)] g by (intro emit_same_frame) simp
  moreover have "cy_now (demo_cycle ?n) = ?n"
    by (simp add: demo_cycle_def)
  ultimately show ?thesis
    using c by (simp add: quiet_update [OF q(1) demo_readable q(2)] motion_cycle_def Let_def r run mode_simps)
qed


section \<open>The commands stay safe\<close>

text \<open>A valid sample is finite; so is the state of the profile.\<close>

definition sample_ok :: "motion_sample \<Rightarrow> bool" where
  "sample_ok m \<longleftrightarrow> (ms_valid m \<longrightarrow> finite_sample m)"

definition prof_ok :: "ctl_config \<Rightarrow> 'o motion_profile \<Rightarrow> bool" where
  "prof_ok cfg p \<longleftrightarrow> prof_inv (lcc_limits cfg) p \<and> sample_ok (mp_state p)"

text \<open>A command that sets the position directly is finite.\<close>

definition queue_ok :: "motion_command \<Rightarrow> bool" where
  "queue_ok c \<longleftrightarrow> (mo_type c = CT_stream \<or> mo_type c = CT_hold \<longrightarrow>
     isfinite (mo_position_m c) \<and> isfinite (mo_velocity_mps c) \<and> isfinite (mo_acceleration_mps2 c))"

definition safety_ok :: "motion_command \<Rightarrow> bool" where
  "safety_ok c \<longleftrightarrow> mo_type c = CT_none \<or> mo_type c = CT_soft_stop \<or> mo_type c = CT_hold"

definition buffers_ok :: "ctl_shared \<Rightarrow> bool" where
  "buffers_ok h \<longleftrightarrow> queue_ok (sh_command h) \<and> queue_ok (sh_heavy_command h) \<and> safety_ok (sh_safety_command h)"

definition latched_off :: "'o lift_ctl \<Rightarrow> bool" where
  "latched_off s \<longleftrightarrow> (lc_mode s = M_fault \<or> lc_mode s = M_estop \<longrightarrow> \<not> sh_power_enable_requested (lc_sh s))"

definition cycle_ok :: "ctl_config \<Rightarrow> 'o lift_ctl \<Rightarrow> bool" where
  "cycle_ok cfg s \<longleftrightarrow> prof_ok cfg (lc_profile s) \<and> isfinite (lc_position s) \<and> queue_ok (lc_gated s) \<and>
     sample_ok (lc_sample s) \<and> latched_off s"

lemma limits_clamps:
  assumes "prof_ok cfg p" "isfinite x"
  shows "isfinite (clamp_travel cfg x)" "within_limits (lcc_limits cfg) (clamp_travel cfg x)"
proof -
  have l: "limits_ok (lcc_limits cfg)"
    using assms(1) by (simp add: prof_ok_def prof_inv_def)
  show "isfinite (clamp_travel cfg x)"
    using l assms(2) by (auto simp: clamp_travel_def elim!: limits_okE isfiniteE)
  show "within_limits (lcc_limits cfg) (clamp_travel cfg x)"
    unfolding clamp_travel_def using within_dclamp [OF l, of x] assms(2) by (cases x) simp_all
qed

lemma profile_reset_ok:
  assumes "prof_ok cfg p" "isfinite x"
  shows "prof_ok cfg (profile_reset rst x (Fin 0) (Fin 0) p)"
    "finite_sample (mp_state (profile_reset rst x (Fin 0) (Fin 0) p))"
    "ms_valid (mp_state (profile_reset rst x (Fin 0) (Fin 0) p))"
    "ms_velocity_mps (mp_state (profile_reset rst x (Fin 0) (Fin 0) p)) = 0"
    "ms_acceleration_mps2 (mp_state (profile_reset rst x (Fin 0) (Fin 0) p)) = 0"
    "ms_position_m (mp_state (profile_reset rst x (Fin 0) (Fin 0) p)) = clamp_travel cfg x"
proof -
  have inv: "prof_inv (lcc_limits cfg) p"
    using assms(1) by (simp add: prof_ok_def)
  then have l: "limits_ok (lcc_limits cfg)" "mp_limits p = lcc_limits cfg"
    by (simp_all add: prof_inv_def)
  obtain lo hi v a where f: "ml_min_position_m (lcc_limits cfg) = Fin lo"
    "ml_max_position_m (lcc_limits cfg) = Fin hi" "lo < hi" "ml_max_velocity_mps (lcc_limits cfg) = Fin v"
    "0 < v" "ml_max_acceleration_mps2 (lcc_limits cfg) = Fin a" "0 < a"
    using limits_okE [OF l(1)] by metis
  show vel: "ms_velocity_mps (mp_state (profile_reset rst x (Fin 0) (Fin 0) p)) = 0"
    and acc: "ms_acceleration_mps2 (mp_state (profile_reset rst x (Fin 0) (Fin 0) p)) = 0"
    and pos: "ms_position_m (mp_state (profile_reset rst x (Fin 0) (Fin 0) p)) = clamp_travel cfg x"
    and "ms_valid (mp_state (profile_reset rst x (Fin 0) (Fin 0) p))"
    using f by (simp_all add: frame_simps l clamp_travel_def)
  show fin: "finite_sample (mp_state (profile_reset rst x (Fin 0) (Fin 0) p))"
    using limits_clamps(1) [OF assms] by (simp add: finite_sample_def vel acc pos)
  show "prof_ok cfg (profile_reset rst x (Fin 0) (Fin 0) p)"
    using reset_inv [OF inv] fin by (simp add: prof_ok_def sample_ok_def)
qed

lemma profile_hold_ok:
  assumes "prof_ok cfg p" "isfinite x"
  shows "prof_ok cfg (profile_hold rst x p)" "finite_sample (mp_state (profile_hold rst x p))"
    "ms_valid (mp_state (profile_hold rst x p))" "ms_velocity_mps (mp_state (profile_hold rst x p)) = 0"
    "ms_acceleration_mps2 (mp_state (profile_hold rst x p)) = 0"
    "ms_position_m (mp_state (profile_hold rst x p)) = clamp_travel cfg x"
  using profile_reset_ok [OF assms] by (simp_all add: profile_hold_def)

lemma target_ok:
  "prof_ok cfg p \<Longrightarrow> set_position_target rst x v a k m p = Some q \<Longrightarrow> prof_ok cfg q"
  "prof_ok cfg p \<Longrightarrow> set_velocity_target rst v k p = Some q \<Longrightarrow> prof_ok cfg q"
  "prof_ok cfg p \<Longrightarrow> prof_ok cfg (request_soft_stop rst p)"
  by (auto simp: prof_ok_def prof_inv_def frame_simps dest: set_targets_frame)

lemma take_output_sample_ok:
  assumes "limits_ok (mp_limits q)"
  shows "sample_ok (mp_state (take_output rst r out q))"
proof -
  obtain lo hi v a where "ml_min_position_m (mp_limits q) = Fin lo" "ml_max_position_m (mp_limits q) = Fin hi"
    "lo < hi" "ml_max_velocity_mps (mp_limits q) = Fin v" "0 < v"
    "ml_max_acceleration_mps2 (mp_limits q) = Fin a" "0 < a"
    using limits_okE [OF assms] by metis
  then show ?thesis
    by (simp add: take_output_def Let_def sample_ok_def finite_sample_def frame_simps)
qed

lemma profile_update_ok:
  assumes "prof_ok cfg p"
  shows "prof_ok cfg (fst (profile_update rst upd c p))"
    "snd (profile_update rst upd c p) = mp_state (fst (profile_update rst upd c p))"
proof -
  have inv: "prof_inv (lcc_limits cfg) p"
    using assms by (simp add: prof_ok_def)
  have "sample_ok (mp_state (fst (profile_update rst upd c p))) \<and>
      snd (profile_update rst upd c p) = mp_state (fst (profile_update rst upd c p))"
  proof (cases rule: profile_updateE [of rst upd c p])
    case (flags f v q)
    then show ?thesis
      using assms by (auto simp: prof_ok_def sample_ok_def finite_sample_def)
  next
    case (step q r out)
    then show ?thesis
      using inv take_output_sample_ok [of q rst r out] by (simp add: prof_inv_def)
  qed
  then show "prof_ok cfg (fst (profile_update rst upd c p))"
    "snd (profile_update rst upd c p) = mp_state (fst (profile_update rst upd c p))"
    using update_inv [OF inv] by (simp_all add: prof_ok_def)
qed

named_theorems ok_steps \<open>steps that keep \<open>cycle_ok\<close>\<close>

lemmas cycle_ok_defs = cycle_ok_def latched_off_def request_brake_def upd_sh_def hold_profile_def
  take_profile_state_def

lemma cycle_ok_updates [simp]:
  "cycle_ok cfg (s\<lparr>lc_consumed_generation := g\<rparr>) = cycle_ok cfg s"
  "cycle_ok cfg (s\<lparr>lc_consumed_safety_generation := g\<rparr>) = cycle_ok cfg s"
  "cycle_ok cfg (s\<lparr>lc_consumed_heavy_generation := g\<rparr>) = cycle_ok cfg s"
  "cycle_ok cfg (s\<lparr>lc_active_trajectory := t\<rparr>) = cycle_ok cfg s"
  "cycle_ok cfg (s\<lparr>lc_active_trajectory_generation := g\<rparr>) = cycle_ok cfg s"
  "cycle_ok cfg (s\<lparr>lc_gated_valid := b\<rparr>) = cycle_ok cfg s"
  "cycle_ok cfg (s\<lparr>lc_point_index := i\<rparr>) = cycle_ok cfg s"
  "cycle_ok cfg (s\<lparr>lc_elapsed_sec := x\<rparr>) = cycle_ok cfg s"
  "cycle_ok cfg (s\<lparr>lc_waiting_at_point := b\<rparr>) = cycle_ok cfg s"
  "cycle_ok cfg (s\<lparr>lc_goal_stable_active := b\<rparr>) = cycle_ok cfg s"
  "cycle_ok cfg (s\<lparr>lc_goal_stable_since := n\<rparr>) = cycle_ok cfg s"
  "cycle_ok cfg (s\<lparr>lc_gate_stable_since := n\<rparr>) = cycle_ok cfg s"
  "cycle_ok cfg (s\<lparr>lc_last_jog_time := n\<rparr>) = cycle_ok cfg s"
  "cycle_ok cfg (s\<lparr>lc_pending_hold_generation := g\<rparr>) = cycle_ok cfg s"
  "cycle_ok cfg (s\<lparr>lc_lease_rt := b\<rparr>) = cycle_ok cfg s"
  "cycle_ok cfg (s\<lparr>lc_applied_zero_generation := g\<rparr>) = cycle_ok cfg s"
  "cycle_ok cfg (s\<lparr>lc_zero_resync_total := g\<rparr>) = cycle_ok cfg s"
  "cycle_ok cfg (s\<lparr>lc_zero_resync_from := x\<rparr>) = cycle_ok cfg s"
  "cycle_ok cfg (s\<lparr>lc_zero_resync_to := x\<rparr>) = cycle_ok cfg s"
  "cycle_ok cfg (s\<lparr>lc_completion := k\<rparr>) = cycle_ok cfg s"
  "cycle_ok cfg (s\<lparr>lc_faults := l\<rparr>) = cycle_ok cfg s"
  "cycle_ok cfg (s\<lparr>lc_gate_log := gl\<rparr>) = cycle_ok cfg s"
  "cycle_ok cfg (record_lift_fault now code d s) = cycle_ok cfg s"
  "cycle_ok cfg (upd_sh drop_pending s) = cycle_ok cfg s"
  "cycle_ok cfg (upd_sh (\<lambda>h. h\<lparr>sh_consumed_trajectory_generation := sh_pending_trajectory_generation h\<rparr>) s)
     = cycle_ok cfg s"
  "cycle_ok cfg (upd_sh (\<lambda>h. (cancel_pending_trajectory g h)\<lparr>sh_applied_cancellation_generation := g\<rparr>) s)
     = cycle_ok cfg s"
  by (simp_all add: cycle_ok_defs record_lift_fault_def drop_pending_def cancel_pending_trajectory_def)

lemma cycle_ok_mode:
  "cycle_ok cfg s \<Longrightarrow> m \<noteq> M_fault \<Longrightarrow> m \<noteq> M_estop \<Longrightarrow> cycle_ok cfg (s\<lparr>lc_mode := m\<rparr>)"
  by (simp add: cycle_ok_defs)

lemma cycle_ok_profile: "cycle_ok cfg s \<Longrightarrow> prof_ok cfg p \<Longrightarrow> cycle_ok cfg (s\<lparr>lc_profile := p\<rparr>)"
  by (simp add: cycle_ok_defs)

lemma cycle_ok_gated: "cycle_ok cfg s \<Longrightarrow> queue_ok c \<Longrightarrow> cycle_ok cfg (s\<lparr>lc_gated := c\<rparr>)"
  by (simp add: cycle_ok_defs)

lemma cycle_ok_fail [simp]: "cycle_ok cfg (fail_pending_hold st s) = cycle_ok cfg s"
  by (simp add: fail_pending_hold_def cycle_ok_defs)

lemma hold_profile_ok [ok_steps]:
  "cycle_ok cfg s \<Longrightarrow> isfinite x \<Longrightarrow> cycle_ok cfg (hold_profile rst x s)"
  using profile_hold_ok(1) by (auto simp: cycle_ok_defs)

lemma take_profile_ok [ok_steps]: "cycle_ok cfg s \<Longrightarrow> cycle_ok cfg (take_profile_state s)"
  by (simp add: cycle_ok_defs prof_ok_def)

lemma run_profile_ok [ok_steps]: "cycle_ok cfg s \<Longrightarrow> cycle_ok cfg (run_profile rst upd dt s)"
  using profile_update_ok [of cfg "lc_profile s" rst upd dt]
  by (auto simp: run_profile_def cycle_ok_def latched_off_def prof_ok_def split: prod.split)

lemma enter_hold_ok [ok_steps]:
  assumes "cycle_ok cfg s" "isfinite x"
  shows "cycle_ok cfg (enter_hold rst cfg x s)"
proof -
  have "isfinite (clamp_travel cfg x)"
    using assms limits_clamps(1) by (auto simp: cycle_ok_def)
  then show ?thesis
    unfolding enter_hold_def cycle_ok_updates
    by (intro cycle_ok_mode take_profile_ok hold_profile_ok assms) simp_all
qed

lemma request_off_ok:
  assumes "cycle_ok cfg (s\<lparr>lc_mode := M_hold\<rparr>)"
  shows "cycle_ok cfg (request_brake False s)"
  using assms by (simp add: cycle_ok_defs)

lemma request_on_ok:
  "cycle_ok cfg s \<Longrightarrow> lc_mode s = M_brake_gate \<Longrightarrow> cycle_ok cfg (request_brake True s)"
  by (simp add: cycle_ok_defs)

lemma cycle_ok_as_hold: "cycle_ok cfg s \<Longrightarrow> cycle_ok cfg (s\<lparr>lc_mode := M_hold\<rparr>)"
  by (rule cycle_ok_mode) simp_all

text \<open>A fault holds the profile and takes the power away.\<close>

lemma fault_ok:
  assumes "cycle_ok cfg s"
  shows "cycle_ok cfg (request_brake False (hold_profile rst (lc_position s) (s\<lparr>lc_mode := M_fault\<rparr>)))"
    "cycle_ok cfg (request_brake False
       (take_profile_state (hold_profile rst (lc_position s) (s\<lparr>lc_mode := M_fault\<rparr>))))"
  using assms profile_hold_ok [of cfg "lc_profile s" "lc_position s"]
  by (simp_all add: cycle_ok_defs sample_ok_def prof_ok_def)

lemma begin_gate_ok [ok_steps]:
  assumes "cycle_ok cfg s" "queue_ok c"
  shows "cycle_ok cfg (begin_brake_gate rst now c s)"
proof -
  have "cycle_ok cfg (s\<lparr>lc_gated := c, lc_gated_valid := True, lc_mode := M_brake_gate,
      lc_profile := profile_reset rst (lc_position s) (Fin 0) (Fin 0) (lc_profile s)\<rparr>)"
    using assms profile_reset_ok(1) [of cfg "lc_profile s" "lc_position s"]
    by (simp add: cycle_ok_def latched_off_def)
  then show ?thesis
    unfolding begin_brake_gate_def Let_def zero_double_def
    by (intro request_on_ok) (simp_all add: take_profile_ok take_profile_state_def cycle_ok_def prof_ok_def
        latched_off_def)
qed

lemma begin_stop_ok [ok_steps]: "cycle_ok cfg s \<Longrightarrow> cycle_ok cfg (begin_soft_stop rst k g s)"
  unfolding begin_soft_stop_def cycle_ok_updates
  by (intro cycle_ok_mode cycle_ok_profile) (simp_all add: target_ok(3) cycle_ok_def latched_off_def)

lemma start_point_ok [ok_steps]:
  "cycle_ok cfg s \<Longrightarrow> cycle_ok cfg (snd (start_trajectory_point rst cfg i s))"
  by (auto simp: start_trajectory_point_def Let_def split: option.split intro!: cycle_ok_profile
      intro: target_ok(1) simp: cycle_ok_def latched_off_def)

lemma stream_ok: "cycle_ok cfg s \<Longrightarrow> queue_ok c \<Longrightarrow> mo_type c = CT_stream \<Longrightarrow>
    cycle_ok cfg (s\<lparr>lc_sample := stream_sample c\<rparr>)"
  by (simp add: cycle_ok_def latched_off_def sample_ok_def finite_sample_def stream_sample_def queue_ok_def)

lemma taken_ok:
  assumes "cycle_ok cfg s" "\<And>p. q = Some p \<Longrightarrow> prof_ok cfg p"
  shows "cycle_ok cfg (case q of None \<Rightarrow> s | Some p \<Rightarrow> s\<lparr>lc_profile := p\<rparr>)"
  by (cases q) (simp_all add: assms cycle_ok_profile)

lemma gated_ok [ok_steps]:
  assumes "cycle_ok cfg s"
  shows "cycle_ok cfg (start_gated_motion rst cfg now s)"
proof -
  have p: "prof_ok cfg (lc_profile s)" "queue_ok (lc_gated s)" "isfinite (lc_position s)"
    using assms by (simp_all add: cycle_ok_def)
  let ?s = "s\<lparr>lc_gated_valid := False\<rparr>" and ?c = "lc_gated s"
  let ?t = "?s\<lparr>lc_elapsed_sec := 0, lc_point_index := 0, lc_waiting_at_point := False\<rparr>"
  have s: "cycle_ok cfg ?s" "cycle_ok cfg (snd (start_trajectory_point rst cfg 0 ?t))"
    using assms by (simp_all add: ok_steps)
  have position: "cycle_ok cfg ((case set_position_target rst x v a k m (lc_profile ?s) of
      None \<Rightarrow> ?s | Some p \<Rightarrow> ?s\<lparr>lc_profile := p\<rparr>)\<lparr>lc_mode := M_position\<rparr>)" for x v a k m
    by (rule cycle_ok_mode [OF taken_ok [OF s(1)]]) (simp_all add: target_ok(1) [OF p(1)])
  have velocity: "cycle_ok cfg ((case set_velocity_target rst v k (lc_profile ?s) of
      None \<Rightarrow> ?s | Some p \<Rightarrow> ?s\<lparr>lc_profile := p\<rparr>)\<lparr>lc_last_jog_time := now, lc_mode := M_jog\<rparr>)" for v k
    by (rule cycle_ok_mode) (simp_all add: taken_ok [OF s(1) target_ok(2) [OF p(1)], simplified])
  show ?thesis
  proof (cases "\<not> lc_gated_valid s \<or> ds_estop_latched (lc_dr s)")
    case True
    show ?thesis
      unfolding start_gated_motion_def if_P [OF True] by (rule assms)
  next
    case False
    note start = start_gated_motion_def if_not_P [OF False] Let_def
    show ?thesis
    proof (cases "mo_type ?c")
      case CT_position
      then show ?thesis unfolding start by (simp only: command_type.case position)
    next
      case CT_jog
      then show ?thesis unfolding start by (simp only: command_type.case velocity)
    next
      case CT_stream
      then have "cycle_ok cfg (?s\<lparr>lc_sample := stream_sample ?c, lc_mode := M_streaming\<rparr>)"
        by (intro cycle_ok_mode stream_ok s p) simp_all
      with CT_stream show ?thesis unfolding start by (simp only: command_type.case)
    next
      case CT_trajectory
      have "cycle_ok cfg (if b then (snd (start_trajectory_point rst cfg 0 ?t))\<lparr>lc_mode := M_trajectory\<rparr>
          else begin_soft_stop rst SS_disable 0 (snd (start_trajectory_point rst cfg 0 ?t)))" for b
        using cycle_ok_mode [OF s(2)] begin_stop_ok [OF s(2)] by simp
      with CT_trajectory show ?thesis unfolding start by (simp only: command_type.case split_beta)
    qed (unfold start, simp_all only: command_type.case, insert s p, simp_all add: enter_hold_ok)
  qed
qed

lemma admit_ok [ok_steps]:
  assumes "cycle_ok cfg s" shows "cycle_ok cfg (admit_cycle rst cfg cy s)"
proof -
  let ?s = "follow_lease (leave_estop rst cfg s)"
  have "isfinite (lc_position s)"
    using assms by (simp add: cycle_ok_def)
  then have s: "cycle_ok cfg ?s"
    using assms by (simp add: follow_lease_def leave_estop_def Let_def ok_steps)
  obtain s1 t where t: "take_trajectory cy ?s = (s1, t)" by fastforce
  have "cycle_ok cfg s1"
    using t s by (auto simp: take_trajectory_def Let_def split: option.splits if_splits)
  moreover have "queue_ok (motion_command_default\<lparr>mo_type := CT_trajectory\<rparr>)"
    by (simp add: queue_ok_def)
  ultimately show ?thesis
    by (cases t) (simp_all add: admit_cycle_def pick_up_trajectory_def t ok_steps)
qed

lemma stop_ok:
  assumes "cycle_ok cfg s" "safety \<or> queue_ok c" "mo_type c = CT_soft_stop \<or> mo_type c = CT_hold"
  shows "cycle_ok cfg (stop_or_hold rst cfg safety c s)"
proof -
  let ?s1 = "if safety then
      (upd_sh (\<lambda>h. (cancel_pending_trajectory (mo_generation c) h)\<lparr>
          sh_applied_cancellation_generation := mo_generation c\<rparr>) s)\<lparr>
        lc_active_trajectory := None, lc_active_trajectory_generation := 0\<rparr>
    else s"
  have s1: "cycle_ok cfg ?s1"
    using assms(1) by simp
  then have "isfinite (lc_position ?s1)"
    by (simp only: cycle_ok_def)
  moreover have "isfinite (if safety then lc_position ?s1 else mo_position_m c)" if "mo_type c = CT_hold"
    using assms calculation that by (auto simp: queue_ok_def)
  ultimately show ?thesis
    unfolding stop_or_hold_def Let_def using s1
    by (auto intro!: enter_hold_ok begin_stop_ok request_off_ok cycle_ok_as_hold)
qed

lemma jog_ok:
  assumes "cycle_ok cfg s" shows "cycle_ok cfg (follow_jog rst cfg now c s)"
proof (cases "set_velocity_target rst (mo_velocity_mps c) (mo_velocity_scale c) (lc_profile s)")
  case None
  have "cycle_ok cfg (request_brake False (hold_profile rst (lc_position (record_lift_fault now k d s))
      ((record_lift_fault now k d s)\<lparr>lc_mode := M_fault\<rparr>)))" for k d
    by (rule fault_ok(1)) (simp add: assms)
  then show ?thesis
    by (simp add: follow_jog_def None Let_def)
next
  case (Some p)
  then have "prof_ok cfg p"
    using assms target_ok(2) by (auto simp: cycle_ok_def)
  then show ?thesis
    using cycle_ok_profile [OF assms] by (simp add: follow_jog_def Some)
qed

lemma dispatch_ok:
  assumes "cycle_ok cfg s" "src = From_safety \<longrightarrow> safety_ok c" "src \<noteq> From_safety \<longrightarrow> queue_ok c"
  shows "cycle_ok cfg (fst (dispatch_command rst cfg now src c s))"
proof -
  define t where "t = (if src = From_local then s\<lparr>lc_consumed_generation := mo_generation c\<rparr> else s)"
  have s: "cycle_ok cfg t"
    using assms(1) by (simp add: t_def)
  note dispatch = dispatch_command_def Let_def t_def [symmetric]
  show ?thesis
  proof (cases "mo_type c = CT_soft_stop \<or> mo_type c = CT_hold")
    case True
    have "cycle_ok cfg (stop_or_hold rst cfg (src = From_safety) c t)"
      by (rule stop_ok [OF s _ True]) (use assms(3) in blast)
    with True show ?thesis by (simp add: dispatch)
  next
    case False
    show ?thesis
    proof (cases "mo_type c = CT_none")
      case True
      then show ?thesis
        using s by (simp add: dispatch)
    next
      case none: False
      then have q: "queue_ok c"
        using assms(2,3) False by (auto simp: safety_ok_def)
      have steps: "cycle_ok cfg (t\<lparr>lc_gated := c\<rparr>)" "cycle_ok cfg (follow_jog rst cfg now c t)"
        "cycle_ok cfg (begin_brake_gate rst now c (t\<lparr>lc_active_trajectory := None,
           lc_active_trajectory_generation := 0\<rparr>))"
        "mo_type c = CT_stream \<Longrightarrow> cycle_ok cfg (t\<lparr>lc_sample := stream_sample c\<rparr>)"
        using cycle_ok_gated [OF s q] jog_ok [OF s] stream_ok [OF s q]
        by (simp_all only: cycle_ok_updates s q begin_gate_ok)
      show ?thesis
        unfolding dispatch
        using False none steps by (simp only: if_False fst_conv cycle_ok_updates split: if_split) simp
    qed
  qed
qed

lemma handle_ok:
  assumes "cycle_ok cfg s" "buffers_ok (lc_sh s)"
  shows "cycle_ok cfg (fst (handle_command rst cfg now s))"
proof -
  obtain s1 r where r: "select_command s = (s1, r)" by fastforce
  have s1: "cycle_ok cfg s1"
    using r assms(1) by (auto simp: select_command_def Let_def split: if_splits)
  have c: "src = From_safety \<longrightarrow> safety_ok c" "src \<noteq> From_safety \<longrightarrow> queue_ok c" if "r = Some (src, c)" for src c
    using r assms(2) that by (auto simp: select_command_def buffers_ok_def Let_def split: if_splits)
  show ?thesis
  proof (cases r)
    case None
    then show ?thesis
      using r s1 by (simp add: handle_command_def)
  next
    case (Some sc)
    then show ?thesis
      using r s1 dispatch_ok [OF s1 c [of "fst sc" "snd sc"], of rst now]
      by (simp add: handle_command_def split_beta Let_def)
  qed
qed

lemma power_off_ok:
  assumes "cycle_ok cfg (s\<lparr>lc_mode := M_hold\<rparr>)" "isfinite x"
  shows "cycle_ok cfg (request_brake False (hold_profile rst x s))"
  using assms profile_hold_ok(1) by (auto simp: cycle_ok_defs)

lemma check_gate_ok:
  assumes "cycle_ok cfg s" shows "cycle_ok cfg (check_gate rst cfg now s)"
proof -
  have c: "cycle_ok cfg (fail_pending_hold HF_driver_gate (record_lift_fault now k d s))" for k d
    using assms by simp
  have "cycle_ok cfg (request_brake False (hold_profile rst (lc_position t)
      (t\<lparr>lc_mode := M_fault, lc_gated_valid := False, lc_active_trajectory := None\<rparr>)))"
    if "cycle_ok cfg t" for t :: "'a lift_ctl"
    by (rule power_off_ok) (use that in \<open>simp_all add: cycle_ok_def latched_off_def\<close>)
  from this [OF c] show ?thesis
    using assms by (simp add: check_gate_def Let_def)
qed

lemma brake_gate_cycle_ok:
  assumes "cycle_ok cfg s" "lc_mode s = M_brake_gate"
  shows "cycle_ok cfg (fst (brake_gate_cycle rst upd cfg now dt (s, b)))"
proof -
  have "cycle_ok cfg (run_profile rst upd dt (begin_soft_stop rst SS_disable 0 s))"
    "cycle_ok cfg (start_gated_motion rst cfg now s)"
    "cycle_ok cfg (request_brake True (s\<lparr>lc_gate_stable_since := 0\<rparr>))"
    using assms by (simp_all add: ok_steps request_on_ok)
  then show ?thesis
    using assms by (simp add: brake_gate_cycle_def Let_def ok_steps)
qed

lemma trajectory_cycle_ok:
  assumes "cycle_ok cfg s" shows "cycle_ok cfg (trajectory_cycle rst upd cfg dt t s)"
proof -
  let ?s1 = "run_profile rst upd dt (s\<lparr>lc_elapsed_sec := lc_elapsed_sec s + dt\<rparr>)"
  obtain ok s2 where r: "start_trajectory_point rst cfg (lc_point_index ?s1 + 1)
      (?s1\<lparr>lc_point_index := lc_point_index ?s1 + 1\<rparr>) = (ok, s2)" by fastforce
  have s1: "cycle_ok cfg ?s1"
    using assms by (simp add: ok_steps)
  then have "cycle_ok cfg s2"
    using start_point_ok [of cfg "?s1\<lparr>lc_point_index := lc_point_index ?s1 + 1\<rparr>" rst "lc_point_index ?s1 + 1"]
    unfolding r by simp
  then have "cycle_ok cfg s2" "cycle_ok cfg (begin_soft_stop rst SS_disable 0 s2)"
    by (simp_all add: begin_stop_ok)
  then show ?thesis
    using r s1 by (cases ok) (simp_all add: trajectory_cycle_def Let_def)
qed

lemma run_mode_ok:
  assumes "cycle_ok cfg s" shows "cycle_ok cfg (fst (run_mode rst upd cfg now dt (s, b)))"
  using assms brake_gate_cycle_ok [OF assms] trajectory_cycle_ok [OF assms] begin_stop_ok [OF assms]
  by (simp add: run_mode_def run_profile_ok take_profile_ok)

text \<open>Once the sample of the cycle was checked it is finite.\<close>

definition settled_ok :: "ctl_config \<Rightarrow> 'o lift_ctl \<Rightarrow> bool" where
  "settled_ok cfg s \<longleftrightarrow> cycle_ok cfg s \<and> finite_sample (lc_sample s)"

lemma check_sample_ok:
  assumes "cycle_ok cfg s" shows "settled_ok cfg (check_sample rst cfg now s)"
proof (cases "ms_valid (lc_sample s)")
  case True
  then show ?thesis
    using assms by (simp add: check_sample_def settled_ok_def cycle_ok_def sample_ok_def)
next
  case False
  have c: "cycle_ok cfg (fail_pending_hold HF_motion_profile (record_lift_fault now k d s))" for k d
    using assms by simp
  have "finite_sample (mp_state (profile_hold rst
      (lc_position (fail_pending_hold HF_motion_profile (record_lift_fault now k d s)))
      (lc_profile (fail_pending_hold HF_motion_profile (record_lift_fault now k d s)))))" for k d
    using c [of k d] by (intro profile_hold_ok(2)) (auto simp: cycle_ok_def)
  then show ?thesis
    using False fault_ok(2) [OF c] by (simp add: check_sample_def settled_ok_def Let_def take_profile_state_def
        hold_profile_def request_brake_def upd_sh_def)
qed

lemma enter_hold_settled:
  assumes "cycle_ok cfg s" "isfinite x" shows "settled_ok cfg (enter_hold rst cfg x s)"
proof -
  have p: "prof_ok cfg (lc_profile s)"
    using assms by (simp add: cycle_ok_def)
  show ?thesis
    using enter_hold_ok [OF assms] profile_hold_ok(2) [OF p limits_clamps(1) [OF p assms(2)]]
    by (simp add: settled_ok_def enter_hold_def take_profile_state_def hold_profile_def)
qed

lemma finish_ok:
  assumes "settled_ok cfg s" shows "settled_ok cfg (finish_soft_stop rst cfg s)"
proof -
  let ?h = "enter_hold rst cfg (lc_position s) s"
  have h: "settled_ok cfg ?h"
    using assms by (intro enter_hold_settled) (simp_all add: settled_ok_def cycle_ok_def)
  then have "settled_ok cfg (request_brake False ?h)"
    using request_off_ok [OF cycle_ok_as_hold, of cfg ?h]
    by (simp add: settled_ok_def) (simp add: request_brake_def upd_sh_def)
  with h show ?thesis
    using assms by (simp add: finish_soft_stop_def Let_def)
qed

text \<open>The target of the profile is finite when the tolerance test on it succeeds.\<close>

lemma finite_near: "isfinite y \<Longrightarrow> isfinite e \<Longrightarrow> \<bar>x - y\<bar> \<le> e \<Longrightarrow> isfinite x"
  by (cases x; cases y; cases e) (simp_all add: minus_double_def less_eq_double_def)

lemma check_target_ok:
  assumes "settled_ok cfg s" "isfinite (lcc_goal_tolerance_m cfg)"
  shows "settled_ok cfg (check_target rst cfg now s)"
proof -
  have c: "cycle_ok cfg (s\<lparr>lc_active_trajectory := None\<rparr>)" "isfinite (lc_position s)"
    using assms(1) by (simp_all add: settled_ok_def) (simp add: cycle_ok_def)
  have "isfinite (profile_target (lc_profile s))" if "target_stable cfg s"
    using finite_near [OF c(2) assms(2)] that by (simp add: target_stable_def)
  then have "target_stable cfg s \<Longrightarrow>
      settled_ok cfg (enter_hold rst cfg (profile_target (lc_profile s)) (s\<lparr>lc_active_trajectory := None\<rparr>))"
    by (intro enter_hold_settled c)
  then show ?thesis
    using assms(1) by (auto simp: check_target_def settled_ok_def)
qed

lemma resync_ok:
  assumes "settled_ok cfg s" shows "settled_ok cfg (apply_zero_frame_resync rst cfg s)"
proof -
  have x: "prof_ok cfg (lc_profile s)" "isfinite (lc_position s)"
    using assms by (simp_all add: settled_ok_def cycle_ok_def)
  note hold = profile_hold_ok [OF x(1) limits_clamps(1) [OF x]]
  show ?thesis
    using assms hold
    by (auto simp: apply_zero_frame_resync_def settled_ok_def Let_def cycle_ok_defs sample_ok_def)
qed

definition out_ok :: "ctl_config \<Rightarrow> ctl_output \<Rightarrow> bool" where
  "out_ok cfg out \<longleftrightarrow> within_limits (lcc_limits cfg) (co_position out) \<and> isfinite (co_velocity out) \<and>
     isfinite (co_acceleration out) \<and> (co_power_enable out = 0 \<or> co_power_enable out = 1)"

lemma write_out:
  assumes "prof_ok cfg p" "finite_sample m"
  shows "lc_out (write_command_interfaces cfg m s) = \<lparr>co_position = clamp_travel cfg (ms_position_m m),
      co_velocity = ms_velocity_mps m, co_acceleration = ms_acceleration_mps2 m,
      co_power_enable = (if sh_power_enable_requested (lc_sh s) then 1 else 0)\<rparr>"
    "out_ok cfg (lc_out (write_command_interfaces cfg m s))"
proof -
  show out: "lc_out (write_command_interfaces cfg m s) = \<lparr>co_position = clamp_travel cfg (ms_position_m m),
      co_velocity = ms_velocity_mps m, co_acceleration = ms_acceleration_mps2 m,
      co_power_enable = (if sh_power_enable_requested (lc_sh s) then 1 else 0)\<rparr>"
    using assms(2) by (simp add: write_command_interfaces_def Let_def upd_sh_def)
  show "out_ok cfg (lc_out (write_command_interfaces cfg m s))"
    unfolding out using limits_clamps(2) [OF assms(1)] assms(2) by (simp add: out_ok_def finite_sample_def)
qed

section \<open>Every run\<close>

definition out_latched :: "'o lift_ctl \<Rightarrow> bool" where
  "out_latched s \<longleftrightarrow>
     (lc_mode s = M_fault \<or> lc_mode s = M_estop \<longrightarrow> co_power_enable (lc_out s) = 0)"

definition ctl_inv :: "ctl_config \<Rightarrow> 'o lift_ctl \<Rightarrow> bool" where
  "ctl_inv cfg s \<longleftrightarrow> prof_ok cfg (lc_profile s) \<and> queue_ok (lc_gated s) \<and> sample_ok (lc_sample s) \<and>
     latched_off s \<and> buffers_ok (lc_sh s) \<and> out_ok cfg (lc_out s) \<and> out_latched s \<and>
     isfinite (lcc_goal_tolerance_m cfg)"

lemma out_small:
  "lc_out (confirm_pending_hold cfg s) = lc_out s" "lc_out (ack_consumed h s) = lc_out s"
  "lc_out (ack_follow cfg now b s) = lc_out s" "lc_out (fst (log_gate_diagnostics cfg now s)) = lc_out s"
  by (simp_all add: confirm_pending_hold_def fail_pending_hold_def ack_consumed_def ack_follow_def upd_sh_def
      log_gate_diagnostics_def Let_def split: option.split)

lemma cycle_ok_tail [simp]:
  "cycle_ok cfg (confirm_pending_hold k s) = cycle_ok cfg s" "cycle_ok cfg (ack_consumed h s) = cycle_ok cfg s"
  "cycle_ok cfg (ack_follow k now b s) = cycle_ok cfg s"
  "cycle_ok cfg (fst (log_gate_diagnostics k now s)) = cycle_ok cfg s"
  "cycle_ok cfg (write_command_interfaces k m s) = cycle_ok cfg s"
  by (simp_all add: confirm_pending_hold_def fail_pending_hold_def ack_consumed_def ack_follow_def
      publish_ack_def log_gate_diagnostics_def write_command_interfaces_def cycle_ok_defs Let_def
      split: option.split)

lemma inputs_tail [ctl_frame]:
  "inputs (ack_consumed h s) = inputs s" "inputs (ack_follow cfg now b s) = inputs s"
  by (simp_all add: ack_consumed_def ack_follow_def ctl_frame split: option.split)

lemma buffers_inputs: "inputs s = inputs t \<Longrightarrow> buffers_ok (lc_sh s) = buffers_ok (lc_sh t)"
  by (simp add: inputs_def buffers_ok_def)

text \<open>The end of a cycle writes what was settled.\<close>

lemma emit_out:
  fixes rst :: "'o \<Rightarrow> 'o" and now :: int
  assumes "settled_ok cfg s"
  defines "t \<equiv> fst (log_gate_diagnostics cfg now (apply_zero_frame_resync rst cfg s))"
  shows "lc_out (emit_cycle rst cfg now s) = \<lparr>co_position = clamp_travel cfg (ms_position_m (lc_sample t)),
      co_velocity = ms_velocity_mps (lc_sample t), co_acceleration = ms_acceleration_mps2 (lc_sample t),
      co_power_enable = (if sh_power_enable_requested (lc_sh t) then 1 else 0)\<rparr>"
    "out_ok cfg (lc_out (emit_cycle rst cfg now s))" "out_latched (emit_cycle rst cfg now s)"
    "cycle_ok cfg (emit_cycle rst cfg now s)" "lc_sample t = lc_sample (apply_zero_frame_resync rst cfg s)"
proof -
  have u: "settled_ok cfg (apply_zero_frame_resync rst cfg s)"
    using assms(1) by (rule resync_ok)
  show sample: "lc_sample t = lc_sample (apply_zero_frame_resync rst cfg s)"
    by (simp add: t_def log_gate_diagnostics_def Let_def)
  have t: "cycle_ok cfg t" "finite_sample (lc_sample t)"
    using u by (simp_all add: t_def settled_ok_def flip: sample [unfolded t_def])
  then have p: "prof_ok cfg (lc_profile t)" "latched_off t"
    by (simp_all add: cycle_ok_def)
  have e: "emit_cycle rst cfg now s = confirm_pending_hold cfg (write_command_interfaces cfg (lc_sample t) t)"
    by (simp add: emit_cycle_def t_def Let_def)
  show out: "lc_out (emit_cycle rst cfg now s) = \<lparr>co_position = clamp_travel cfg (ms_position_m (lc_sample t)),
      co_velocity = ms_velocity_mps (lc_sample t), co_acceleration = ms_acceleration_mps2 (lc_sample t),
      co_power_enable = (if sh_power_enable_requested (lc_sh t) then 1 else 0)\<rparr>"
    unfolding e out_small by (rule write_out(1) [OF p(1) t(2)])
  show "out_ok cfg (lc_out (emit_cycle rst cfg now s))"
    unfolding e out_small by (rule write_out(2) [OF p(1) t(2)])
  show "out_latched (emit_cycle rst cfg now s)"
    using p(2) unfolding out_latched_def out unfolding e by (simp add: mode_simps latched_off_def)
  show "cycle_ok cfg (emit_cycle rst cfg now s)"
    unfolding e using t(1) by simp
qed

lemma motion_cycle_ok:
  assumes "cycle_ok cfg s" "isfinite (lcc_goal_tolerance_m cfg)" "motion_cycle rst upd cfg cy (s, b) = (t, b')"
  shows "settled_ok cfg t"
proof -
  let ?c = "check_gate rst cfg (cy_now cy) s"
  obtain u where u: "run_mode rst upd cfg (cy_now cy) (cycle_dt cy) (?c, b) = (u, b')"
    "t = check_target rst cfg (cy_now cy) (finish_soft_stop rst cfg (check_sample rst cfg (cy_now cy) u))"
    using assms(3) by (auto simp: motion_cycle_def Let_def split: prod.splits)
  have "cycle_ok cfg u"
    using run_mode_ok [OF check_gate_ok [OF assms(1)], of rst upd "cy_now cy" "cycle_dt cy" rst "cy_now cy" b]
    by (simp add: u(1))
  then show ?thesis
    unfolding u(2) by (intro check_target_ok finish_ok check_sample_ok assms(2))
qed

lemma estop_cycle_ok:
  assumes "ctl_inv cfg s" "isfinite (lc_position s)"
  shows "ctl_inv cfg (estop_cycle rst cfg cy s)" "lc_mode (estop_cycle rst cfg cy s) = M_estop"
    "lc_out (estop_cycle rst cfg cy s) = \<lparr>co_position = clamp_travel cfg (clamp_travel cfg (lc_position s)),
       co_velocity = 0, co_acceleration = 0, co_power_enable = 0\<rparr>"
    "\<not> lc_gated_valid (estop_cycle rst cfg cy s)" "lc_active_trajectory (estop_cycle rst cfg cy s) = None"
proof -
  have p: "prof_ok cfg (lc_profile s)"
    using assms(1) by (simp add: ctl_inv_def)
  note hold = profile_hold_ok [OF p assms(2), of rst]
  let ?t = "estop_cycle rst cfg cy s"
  have t: "lc_profile ?t = profile_hold rst (lc_position s) (lc_profile s)"
    "lc_sample ?t = mp_state (profile_hold rst (lc_position s) (lc_profile s))"
    "lc_gated ?t = lc_gated s" "buffers_ok (lc_sh ?t) = buffers_ok (lc_sh s)"
    "\<not> sh_power_enable_requested (lc_sh ?t)"
    by (simp_all add: estop_cycle_def Let_def request_brake_def upd_sh_def take_profile_state_def
        hold_profile_def write_command_interfaces_def drop_pending_def buffers_ok_def)
  show mode: "lc_mode ?t = M_estop" and "\<not> lc_gated_valid ?t" "lc_active_trajectory ?t = None"
    by (simp_all add: estop_cycle_def Let_def request_brake_def upd_sh_def take_profile_state_def
        hold_profile_def write_command_interfaces_def)
  show out: "lc_out ?t = \<lparr>co_position = clamp_travel cfg (clamp_travel cfg (lc_position s)),
       co_velocity = 0, co_acceleration = 0, co_power_enable = 0\<rparr>"
    using hold by (simp add: estop_cycle_def Let_def request_brake_def upd_sh_def take_profile_state_def
        hold_profile_def write_out(1) [OF p])
  have "out_ok cfg (lc_out ?t)"
    unfolding out using limits_clamps [OF p limits_clamps(1) [OF p assms(2)]] by (simp add: out_ok_def)
  then show "ctl_inv cfg ?t"
    using assms(1) hold t mode by (simp add: ctl_inv_def latched_off_def out_latched_def sample_ok_def out)
qed

lemma read_inv: "ctl_inv cfg s \<Longrightarrow> ctl_inv cfg (read_state_interfaces cy s)"
  by (simp add: ctl_inv_def read_state_interfaces_def upd_sh_def latched_off_def out_latched_def buffers_ok_def)

lemma read_lc [simp]:
  "lc_position (read_state_interfaces cy s) = cy_position cy"
  "lc_velocity (read_state_interfaces cy s) = cy_velocity cy"
  "lc_dr (read_state_interfaces cy s) = lc_dr s"
  "lc_mode (read_state_interfaces cy s) = lc_mode s"
  by (simp_all add: read_state_interfaces_def upd_sh_def)

lemma inv_cycle_ok: "ctl_inv cfg s \<Longrightarrow> isfinite (lc_position s) \<Longrightarrow> cycle_ok cfg s"
  by (simp add: ctl_inv_def cycle_ok_def)

lemma non_finite_ok:
  assumes "ctl_inv cfg s"
  shows "ctl_inv cfg (non_finite_cycle cfg cy s)" "lc_mode (non_finite_cycle cfg cy s) = M_fault"
    "lc_out (non_finite_cycle cfg cy s) = \<lparr>co_position = clamp_travel cfg 0, co_velocity = 0,
       co_acceleration = 0, co_power_enable = 0\<rparr>"
    "lc_profile (non_finite_cycle cfg cy s) = lc_profile s"
    "\<not> sh_power_enable_requested (lc_sh (non_finite_cycle cfg cy s))"
proof -
  have p: "prof_ok cfg (lc_profile s)"
    using assms by (simp add: ctl_inv_def)
  let ?t = "non_finite_cycle cfg cy s"
  have f: "finite_sample zero_sample"
    by (simp add: finite_sample_def zero_sample_def)
  have t: "lc_gated ?t = lc_gated s" "lc_sample ?t = zero_sample" "buffers_ok (lc_sh ?t) = buffers_ok (lc_sh s)"
    by (simp_all add: non_finite_cycle_def Let_def request_brake_def upd_sh_def fail_pending_hold_def
        record_lift_fault_def write_command_interfaces_def buffers_ok_def)
  show mode: "lc_mode ?t = M_fault" and prof: "lc_profile ?t = lc_profile s"
    and off: "\<not> sh_power_enable_requested (lc_sh ?t)"
    by (simp_all add: non_finite_cycle_def Let_def request_brake_def upd_sh_def fail_pending_hold_def
        record_lift_fault_def write_command_interfaces_def)
  show out: "lc_out ?t = \<lparr>co_position = clamp_travel cfg 0, co_velocity = 0, co_acceleration = 0,
      co_power_enable = 0\<rparr>"
    by (simp add: non_finite_cycle_def Let_def write_out(1) [OF p f] request_brake_def upd_sh_def)
      (simp add: zero_sample_def)
  have "out_ok cfg (lc_out ?t)"
    unfolding out using limits_clamps(2) [OF p, of 0] by (simp add: out_ok_def)
  then show "ctl_inv cfg ?t"
    using assms f t mode prof off out by (simp add: ctl_inv_def latched_off_def out_latched_def sample_ok_def)
qed

lemma update_inv_ctl:
  assumes "ctl_inv cfg s" shows "ctl_inv cfg (fst (ctl_update rst upd cfg cy s))"
proof -
  let ?r = "read_state_interfaces cy s"
  have r: "ctl_inv cfg ?r"
    using assms by (rule read_inv)
  consider (bad) "\<not> readable cy" | (estop) "readable cy" "ds_estop_latched (lc_dr s)"
    | (run) "readable cy" "\<not> ds_estop_latched (lc_dr s)"
    by blast
  then show ?thesis
  proof cases
    case bad
    then show ?thesis
      using non_finite_ok(1) [OF r] by (simp add: ctl_update_def readable_def Let_def)
  next
    case estop
    then show ?thesis
      using estop_cycle_ok(1) [OF r] by (simp add: ctl_update_def readable_def Let_def)
  next
    case run
    obtain s1 s2 streamed heavy s3 streamed2 where st:
      "s1 = admit_cycle rst cfg cy ?r" "handle_command rst cfg (cy_now cy) s1 = (s2, streamed, heavy)"
      "motion_cycle rst upd cfg cy (s2, streamed) = (s3, streamed2)"
      "ctl_update rst upd cfg cy s = (ack_follow cfg (cy_now cy) streamed2
         (ack_consumed heavy (emit_cycle rst cfg (cy_now cy) s3)), True)"
      "inputs s1 = inputs ?r" "inputs s2 = inputs s1" "inputs s3 = inputs s1"
      using ctl_update_stages [OF run] by blast
    have tol: "isfinite (lcc_goal_tolerance_m cfg)"
      using r by (simp add: ctl_inv_def)
    have "cycle_ok cfg ?r"
      using r run by (intro inv_cycle_ok) (simp_all add: readable_def)
    then have s1: "cycle_ok cfg s1"
      unfolding st(1) by (rule admit_ok)
    moreover have b: "buffers_ok (lc_sh s1)"
      using r buffers_inputs [OF st(5)] by (simp add: ctl_inv_def)
    ultimately have "cycle_ok cfg s2"
      using handle_ok [of cfg s1 rst "cy_now cy"] by (simp add: st(2))
    then have "settled_ok cfg s3"
      by (rule motion_cycle_ok [OF _ tol st(3)])
    note emit = emit_out(2-4) [OF this, of rst "cy_now cy"]
    let ?e = "emit_cycle rst cfg (cy_now cy) s3" and ?t = "fst (ctl_update rst upd cfg cy s)"
    have "inputs ?t = inputs s1"
      using st by (simp add: ctl_frame)
    then have "buffers_ok (lc_sh ?t)"
      using b buffers_inputs by blast
    moreover have "cycle_ok cfg ?t" "lc_out ?t = lc_out ?e" "lc_mode ?t = lc_mode ?e"
      using emit(3) by (simp_all add: st(4) out_small mode_simps)
    ultimately show ?thesis
      using emit(1,2) tol by (simp add: ctl_inv_def cycle_ok_def out_latched_def)
  qed
qed

lemma activate_inv:
  assumes "ctl_inv cfg s" shows "ctl_inv cfg (fst (ctl_activate rst cfg m n x v e s))"
proof -
  have p: "prof_ok cfg (lc_profile s)"
    using assms by (simp add: ctl_inv_def)
  show ?thesis
  proof (cases "m \<noteq> 4 \<or> n \<noteq> 3 \<or> \<not> isfinite x \<or> \<not> isfinite v \<or> \<not> isfinite e")
    case True
    then show ?thesis
      using assms by (auto simp: ctl_activate_def Let_def ctl_inv_def latched_off_def out_latched_def)
  next
    case False
    note reset = profile_reset_ok [OF p, of x rst]
    show ?thesis
      using False assms reset
      by (simp add: ctl_activate_def Let_def ctl_inv_def upd_sh_def take_profile_state_def write_out(1) [OF p]
          drop_pending_def latched_off_def out_latched_def sample_ok_def buffers_ok_def
          write_command_interfaces_def out_ok_def limits_clamps [OF p])
  qed
qed

lemma deactivate_inv:
  assumes "ctl_inv cfg s" shows "ctl_inv cfg (ctl_deactivate rst cfg m n x s)"
proof -
  have p: "prof_ok cfg (lc_profile s)"
    using assms by (simp add: ctl_inv_def)
  let ?x = "if isfinite x then x else 0"
  note hold = profile_hold_ok [OF p, of ?x rst]
  have x: "isfinite ?x" by simp
  show ?thesis
    using assms hold x limits_clamps [OF p limits_clamps(1) [OF p x]]
    by (simp add: ctl_deactivate_def Let_def ctl_inv_def upd_sh_def request_brake_def hold_profile_def
        latched_off_def out_latched_def sample_ok_def buffers_ok_def write_command_interfaces_def out_ok_def)
qed

definition writing_ok :: "service \<Rightarrow> bool" where
  "writing_ok v \<longleftrightarrow> (case v of SV_writing b c after \<Rightarrow> if b = Safety_buffer then safety_ok c else queue_ok c
     | _ \<Rightarrow> True)"

definition node_inv :: "ctl_config \<Rightarrow> 'o ctl_node \<Rightarrow> bool" where
  "node_inv cfg n \<longleftrightarrow> ctl_inv cfg (nd_ctl n) \<and> writing_ok (nd_service n)"

text \<open>The callbacks queue only such commands, and change nothing the control thread relies on.\<close>

definition shared_step :: "ctl_shared \<Rightarrow> ctl_shared \<Rightarrow> bool" where
  "shared_step h h' \<longleftrightarrow> sh_power_enable_requested h' = sh_power_enable_requested h \<and>
     (buffers_ok h \<longrightarrow> buffers_ok h')"

lemma shared_step_inv:
  "node_inv cfg n \<Longrightarrow> shared_step (shared n) h \<Longrightarrow> node_inv cfg (set_shared h n)"
  by (simp add: node_inv_def ctl_inv_def set_shared_def shared_def shared_step_def latched_off_def out_latched_def)

lemma shared_steps [simp]:
  "shared_step h (fst (enqueue_command c h))" "shared_step h (fst (enqueue_safety_command c h))"
  "shared_step h (fst (enqueue_heavy_command c h))" "shared_step h (queue_trajectory cfg e t h)"
  "shared_step h (lease_gate b h)" "shared_step h (set_applied g h)" "shared_step h h"
  by (simp_all add: shared_step_def enqueue_command_def enqueue_safety_command_def enqueue_heavy_command_def
      queue_trajectory_def lease_gate_def next_motion_generation_def cancel_pending_trajectory_def
      drop_pending_def buffers_ok_def set_applied_def Let_def)

lemma first_finite_fin [simp]: "isfinite (first_finite xs)"
  by (simp add: first_finite_def)

lemma heavy_motion_ok:
  assumes "limits_ok (lcc_limits cfg)" "heavy_motion cfg m = Some c" shows "queue_ok c"
proof -
  have clamp: "isfinite x \<Longrightarrow> isfinite (clamp_travel cfg x)" for x
    using assms(1) by (auto simp: clamp_travel_def elim!: limits_okE isfiniteE)
  consider "c_mode m = MODE_FOLLOW_POSITION" | "c_mode m \<noteq> MODE_FOLLOW_POSITION" "c_mode m = MODE_HOLD"
    | "c_mode m \<noteq> MODE_FOLLOW_POSITION" "c_mode m \<noteq> MODE_HOLD"
    by blast
  then show ?thesis
  proof cases
    case 1
    with assms(2) show ?thesis
      by (simp add: heavy_motion_def Let_def queue_ok_def split: if_splits) (safe; simp)+
  next
    case 2
    with assms(2) clamp show ?thesis
      by (simp add: heavy_motion_def Let_def queue_ok_def motion_command_default_def gw_consts split: if_splits)
        (safe; simp)+
  next
    case 3
    with assms(2) show ?thesis
      by (simp add: heavy_motion_def Let_def queue_ok_def split: if_splits) (safe; simp)+
  qed
qed

lemma commands_ok:
  assumes "limits_ok (lcc_limits cfg)"
  shows "jog_command cfg e h v = Some c \<Longrightarrow> queue_ok c"
    "stream_command cfg e h p = Some c \<Longrightarrow> queue_ok c"
    "fst (position_command cfg e h r) = Some c \<Longrightarrow> queue_ok c"
proof -
  have clamp: "isfinite x \<Longrightarrow> isfinite (clamp_travel cfg x)" for x
    using assms by (auto simp: clamp_travel_def elim!: limits_okE isfiniteE)
  show "jog_command cfg e h v = Some c \<Longrightarrow> queue_ok c"
    by (auto simp: jog_command_def queue_ok_def split: if_splits)
  show "stream_command cfg e h p = Some c \<Longrightarrow> queue_ok c"
    using clamp by (auto simp: stream_command_def queue_ok_def split: if_splits)
  show "fst (position_command cfg e h r) = Some c \<Longrightarrow> queue_ok c"
    by (auto simp: position_command_def queue_ok_def Let_def split: if_splits)
qed

lemma queue_ok_generation [simp]: "queue_ok (c\<lparr>mo_generation := g\<rparr>) = queue_ok c"
  "safety_ok (c\<lparr>mo_generation := g\<rparr>) = safety_ok c"
  by (simp_all add: queue_ok_def safety_ok_def)

lemma enqueued_ok [simp]:
  "queue_ok (snd (enqueue_command c h)) = queue_ok c"
  "safety_ok (snd (enqueue_safety_command c h)) = safety_ok c"
  "queue_ok (snd (enqueue_heavy_command c h)) = queue_ok c"
  by (simp_all add: enqueue_command_def enqueue_safety_command_def enqueue_heavy_command_def
      next_motion_generation_def Let_def)

lemma start_enqueue_inv:
  assumes "node_inv cfg n" "shared_step (shared n) (fst hc)"
    "if b = Safety_buffer then safety_ok (snd hc) else queue_ok (snd hc)"
  shows "node_inv cfg (start_enqueue b a hc n)"
  using shared_step_inv [OF assms(1,2)] assms(3)
  by (simp add: start_enqueue_def node_inv_def writing_ok_def set_shared_def)

lemma local_enqueue_inv:
  assumes "node_inv cfg n" "\<And>c. co = Some c \<Longrightarrow> queue_ok c"
  shows "node_inv cfg (local_enqueue co n)"
  using assms by (auto simp: local_enqueue_def split: option.split intro!: start_enqueue_inv)

lemma admit_heavy_inv:
  assumes "node_inv cfg n" "admit_heavy cfg m (shared n) = (h, co)"
  shows "shared_step (shared n) h" "\<And>c. co = Some c \<Longrightarrow> queue_ok c"
proof -
  have l: "limits_ok (lcc_limits cfg)"
    using assms(1) by (simp add: node_inv_def ctl_inv_def prof_ok_def prof_inv_def)
  show "shared_step (shared n) h"
    using assms(2) shared_steps(3)
    by (auto simp: admit_heavy_def Let_def shared_step_def buffers_ok_def enqueue_heavy_command_def
        next_motion_generation_def split: if_splits option.splits)
  show "queue_ok c" if "co = Some c" for c
    using assms(2) that heavy_motion_ok [OF l, of m] enqueued_ok(3)
    by (auto simp: admit_heavy_def Let_def split_beta split: if_splits option.splits)
qed

lemma driver_status_inv: "ctl_inv cfg s \<Longrightarrow> ctl_inv cfg (on_driver_status now tx s)"
  by (simp add: ctl_inv_def on_driver_status_def Let_def latched_off_def out_latched_def)

lemma callback_inv:
  assumes "node_inv cfg n" shows "node_inv cfg (run_callback cfg cb n)"
proof -
  have l: "limits_ok (lcc_limits cfg)"
    using assms by (simp add: node_inv_def ctl_inv_def prof_ok_def prof_inv_def)
  show ?thesis
  proof (cases cb)
    case (CB_status now tx)
    then show ?thesis
      using assms by (simp add: node_inv_def driver_status_inv)
  next
    case (CB_jog v)
    then show ?thesis
      using assms commands_ok(1) [OF l] by (auto intro: local_enqueue_inv)
  next
    case (CB_stream p)
    then show ?thesis
      using assms commands_ok(2) [OF l] by (auto intro: local_enqueue_inv)
  next
    case (CB_request r)
    obtain co tx where r: "position_command cfg (estop_seen n) (shared n) r = (co, tx)" by fastforce
    have "node_inv cfg (n\<lparr>nd_replies := x\<rparr>)" for x
      using assms by (simp add: node_inv_def)
    then show ?thesis
      using r CB_request commands_ok(3) [OF l, of "estop_seen n" "shared n" r]
      by (simp add: local_enqueue_inv)
  next
    case (CB_heavy m)
    obtain h co where h: "admit_heavy cfg m (shared n) = (h, co)" by fastforce
    show ?thesis
      using CB_heavy h admit_heavy_inv [OF assms h] shared_step_inv [OF assms] start_enqueue_inv [OF assms]
      by (cases co) simp_all
  next
    case CB_hold
    have "node_inv cfg (start_enqueue Safety_buffer AW_hold
        (enqueue_safety_command (hold_request (shared n)) (shared n)) n)"
      by (rule start_enqueue_inv [OF assms], simp_all) (simp add: hold_request_def safety_ok_def)
    moreover have "node_inv cfg (reply ok tx n)" for ok tx
      using assms by (simp add: reply_def node_inv_def writing_ok_def)
    ultimately show ?thesis
      using CB_hold by (simp add: begin_hold_service_def)
  next
    case CB_stop
    have "node_inv cfg (start_enqueue Safety_buffer AW_stop
        (enqueue_safety_command stop_request (shared n)) n)"
      by (rule start_enqueue_inv [OF assms], simp_all) (simp add: stop_request_def safety_ok_def)
    then show ?thesis
      using CB_stop by simp
  qed (use shared_step_inv [OF assms] in simp_all)
qed

lemma idle_inv: "node_inv cfg n \<Longrightarrow> writing_ok v \<Longrightarrow> node_inv cfg (n\<lparr>nd_service := v, nd_replies := r\<rparr>)"
  "node_inv cfg n \<Longrightarrow> writing_ok v \<Longrightarrow> node_inv cfg (n\<lparr>nd_service := v\<rparr>)"
  "writing_ok SV_idle" "writing_ok (SV_stop_wait g d)" "writing_ok (SV_hold_wait g d)"
  by (simp_all add: node_inv_def writing_ok_def)

lemma service_inv:
  assumes "node_inv cfg n" shows "node_inv cfg (service_step cfg now n)"
proof (cases "nd_service n")
  case (SV_writing b c a)
  let ?n = "set_shared (write_buffer b c (shared n)) n"
  have n: "node_inv cfg ?n"
    using assms SV_writing
    by (intro shared_step_inv) (auto simp: shared_step_def write_buffer_def buffers_ok_def node_inv_def
        writing_ok_def split: buffer_name.splits)
  have "node_inv cfg (set_shared (set_applied (mo_generation c) (shared ?n)) ?n)"
    by (rule shared_step_inv [OF n]) simp
  then show ?thesis
    using n SV_writing
    by (cases a) (simp_all add: service_step_def stop_queued_def hold_queued_def reply_def idle_inv Let_def)
qed (use assms in \<open>simp_all add: service_step_def poll_stop_def poll_hold_def reply_def idle_inv\<close>)

interpretation lift_node: guarded_machine "node_step rst upd cfg" "node_inv cfg" for rst upd cfg
proof
  fix n :: "'a ctl_node" and e
  assume n: "node_inv cfg n"
  have c: "node_inv cfg (n\<lparr>nd_ctl := s\<rparr>)" if "ctl_inv cfg s" for s
    using n that by (simp add: node_inv_def)
  have inv: "ctl_inv cfg (nd_ctl n)"
    using n by (simp add: node_inv_def)
  show "node_inv cfg (node_step rst upd cfg n e)"
    by (cases e) (simp_all add: c n callback_inv service_inv update_inv_ctl [OF inv] activate_inv [OF inv]
      deactivate_inv [OF inv])
qed



end
