(* ===== verification/HeavyLease.thy ===== *)
theory HeavyLease
  imports HeavyGateway
begin

text \<open>
  The operations of the Heavy gateway that change its lease, its command in flight and its brake latch
  (\<open>heavy_gateway_v1.cpp\<close>): one definition per function called under the mutex and one per section
  of a handler between taking and giving back the mutex. A handler that calls a service or waits on
  the condition variable between two sections is two definitions, so that other handlers can run in
  between. A section takes \<open>clk\<close>, the steady clock at each of its numbered reading points, or one
  reading \<open>now\<close> when it reads the clock once; it returns the new state and what it publishes.
\<close>

text \<open>What a handler publishes: a command to the lower controllers (\<open>publishInternalCommand\<close> without and
  with its \<open>retry\<close> flag) and the lease gate.\<close>

datatype gw_out = Internal command | Retry command | Gate bool

abbreviation set_detail :: "gtext \<Rightarrow> gateway \<Rightarrow> gateway" where
  "set_detail d g \<equiv> g\<lparr>g_lease := (g_lease g)\<lparr>le_detail := d\<rparr>\<rparr>"

section \<open>Functions called under the mutex\<close>

definition newestAdmitted :: "gateway \<Rightarrow> u64" where
  "newestAdmitted g =
     (let s = le_last_accepted_sequence (g_lease g);
          s = (if tr_pending_valid (g_tr g) \<and> tr_pending_is_user (g_tr g)
               then max s (tr_pending_external_sequence (g_tr g)) else s)
      in if tr_staged_valid (g_tr g) then max s (c_sequence (tr_staged (g_tr g))) else s)"

definition clampLiftSafetyTarget :: "gw_config \<Rightarrow> double \<Rightarrow> double" where
  "clampLiftSafetyTarget k x =
     (if x > k_lift_max_position k \<and> x \<le> k_lift_max_position k + k_lift_position_tolerance k
      then k_lift_max_position k
      else if x < k_lift_min_position k \<and> x \<ge> k_lift_min_position k - k_lift_position_tolerance k
      then k_lift_min_position k
      else x)"

definition makeHoldCommand :: "gw_config \<Rightarrow> gateway \<Rightarrow> u64 \<Rightarrow> command" where
  "makeHoldCommand k g seqn =
     \<lparr>c_protocol_major = kProtocolMajor, c_protocol_minor = kProtocolMinor,
      c_layout_crc32 = kLayoutCrc32, c_owner_id = le_owner_id (g_lease g),
      c_lease_id = le_lease_id (g_lease g), c_sequence = seqn, c_mode = MODE_HOLD,
      c_field_mask = FIELD_POSITION,
      c_position = (js_position (g_joints g))[0 := clampLiftSafetyTarget k (js_position (g_joints g) ! 0)],
      c_velocity = zeros 15, c_acceleration = zeros 15\<rparr>"

definition queueBrakeLock :: "gtext \<Rightarrow> bool \<Rightarrow> gateway \<Rightarrow> gateway" where
  "queueBrakeLock reason force g =
     (if br_locked (g_brake g) \<or> br_transition (g_brake g) \<or> br_lock_pending (g_brake g) then g
      else g\<lparr>g_brake := (g_brake g)\<lparr>br_lock_pending := True, br_lock_force := force,
             br_pending_reason := reason\<rparr>\<rparr>)"

text \<open>What \<open>dispatchUserCommandLocked\<close> and \<open>beginSafetyHoldLocked\<close> both do to put a command in
  flight.\<close>

definition put_in_flight :: "command \<Rightarrow> u64 \<Rightarrow> bool \<Rightarrow> time \<Rightarrow> time \<Rightarrow> transaction \<Rightarrow> transaction" where
  "put_in_flight c external user published pending t =
     t\<lparr>tr_controller_generation := tr_controller_generation t + 1,
       tr_pending_sequence := tr_controller_generation t + 1,
       tr_pending_external_sequence := external, tr_pending_lift_target := c_position c ! 0,
       tr_pending_internal := c\<lparr>c_sequence := tr_controller_generation t + 1\<rparr>,
       tr_pending_publish_time := published, tr_retry_count := 0,
       tr_pending_valid := True, tr_pending_is_user := user,
       tr_arm_ack := 0, tr_lift_ack := 0, tr_pending_time := pending\<rparr>"

definition mode_state :: "u8 \<Rightarrow> gw_state \<times> gtext" where
  "mode_state m =
     (if m = MODE_FOLLOW_POSITION then (ST_FOLLOWING, [T ''FOLLOW_POSITION submitted to lower controllers''])
      else if m = MODE_STOP then (ST_STOPPING, [T ''STOP submitted to lower controller safety paths''])
      else (ST_LEASED_HOLD, [T ''HOLD submitted to lower controllers'']))"

definition effective_command :: "gw_config \<Rightarrow> command \<Rightarrow> command" where
  "effective_command k c =
     (if c_mode c = MODE_HOLD \<or> c_mode c = MODE_STOP
      then c\<lparr>c_position := (c_position c)[0 := clampLiftSafetyTarget k (c_position c ! 0)]\<rparr> else c)"

definition dispatch_brake :: "command \<Rightarrow> gateway \<Rightarrow> gateway" where
  "dispatch_brake c g =
     (if tr_last_mode (g_tr g) = MODE_FOLLOW_POSITION \<and> c_mode c = MODE_HOLD
      then queueBrakeLock [T ''FOLLOW_POSITION_to_HOLD''] False g
      else if tr_first_user_command (g_tr g) \<and> c_mode c = MODE_HOLD
      then queueBrakeLock [T ''first_HOLD_for_owner_or_lease''] False g
      else if c_mode c = MODE_STOP then queueBrakeLock [T ''MODE_STOP''] True g
      else g)"

definition dispatchUserCommand :: "gw_config \<Rightarrow> command \<Rightarrow> time \<Rightarrow> gateway \<Rightarrow> gateway \<times> command" where
  "dispatchUserCommand k c0 now g =
     (let c = effective_command k c0;
          g = dispatch_brake c g;
          t = (put_in_flight c (c_sequence c) True now now (g_tr g))
                \<lparr>tr_lease_deadline := now + ms (k_execution_lease_timeout k),
                 tr_revoke_after_ack := False, tr_first_user_command := False,
                 tr_last_mode := c_mode c\<rparr>;
          l = (g_lease g)
                \<lparr>le_last_accepted_sequence := c_sequence c, le_last_accepted_command_time := now,
                 le_watchdog_hold_captured := False, le_state := fst (mode_state (c_mode c)),
                 le_detail := snd (mode_state (c_mode c))\<rparr>;
          n = (g_count g)\<lparr>ct_accepted := ct_accepted (g_count g) + 1, ct_last_rejection_reason := []\<rparr>
      in (g\<lparr>g_tr := t, g_lease := l, g_count := n\<rparr>, tr_pending_internal t))"

definition clearHeavyLease :: "gtext \<Rightarrow> gateway \<Rightarrow> gateway" where
  "clearHeavyLease reason g =
     (if \<not> g_active g then g
      else g\<lparr>g_lease := (g_lease g)\<lparr>le_active := False, le_owner_id := '''', le_lease_id := '''',
               le_state := ST_MONITOR, le_detail := T ''lease cleared: '' # reason\<rparr>,
             g_tr := (g_tr g)\<lparr>tr_last_clear_reason := reason, tr_aligned_hold := False,
               tr_pending_valid := False, tr_pending_is_user := False, tr_staged_valid := False,
               tr_pending_external_sequence := 0, tr_pending_internal := command_default,
               tr_pending_publish_time := 0, tr_retry_count := 0, tr_arm_ack := 0, tr_lift_ack := 0,
               tr_revoke_after_ack := False, tr_pending_clear_reason := []\<rparr>\<rparr>)"

definition command_timeout_reason :: gtext where
  "command_timeout_reason = [T ''command_timeout: FOLLOWING to HOLD'']"

text \<open>The position a safety hold commands: the captured one in a command timeout and, when there is
  one, in a revocation; the measured one otherwise.\<close>

definition capture_hold :: "bool \<Rightarrow> gateway \<Rightarrow> gateway" where
  "capture_hold watchdog g =
     (if watchdog \<and> \<not> le_watchdog_hold_captured (g_lease g)
      then g\<lparr>g_lease := (g_lease g)\<lparr>le_watchdog_hold_position := js_position (g_joints g),
                                     le_watchdog_hold_captured := True\<rparr>\<rparr>
      else g)"

definition safety_hold_command :: "gw_config \<Rightarrow> bool \<Rightarrow> bool \<Rightarrow> gateway \<Rightarrow> command" where
  "safety_hold_command k watchdog revoke g =
     (let c = makeHoldCommand k g (le_last_accepted_sequence (g_lease g))
      in if le_watchdog_hold_captured (g_lease g) \<and> (watchdog \<or> revoke)
         then c\<lparr>c_position := le_watchdog_hold_position (g_lease g)\<rparr> else c)"

definition beginSafetyHold ::
  "gw_config \<Rightarrow> gtext \<Rightarrow> bool \<Rightarrow> time \<Rightarrow> time \<Rightarrow> gateway \<Rightarrow> gateway \<times> gw_out list" where
  "beginSafetyHold k reason revoke published pending g =
     (if \<not> g_active g then (g, [])
      else
        let watchdog = (\<not> revoke \<and> reason = command_timeout_reason);
            g = capture_hold watchdog g;
            c = safety_hold_command k watchdog revoke g;
            t = (put_in_flight c 0 False published pending (g_tr g))
                  \<lparr>tr_staged_valid := False, tr_revoke_after_ack := revoke,
                   tr_pending_clear_reason := if revoke then reason else []\<rparr>;
            l = (g_lease g)\<lparr>le_state := if revoke then ST_STOPPING else ST_LEASED_HOLD,
                            le_detail := reason\<rparr>;
            n = (g_count g)\<lparr>ct_watchdog_hold := ct_watchdog_hold (g_count g) + (if watchdog then 1 else 0)\<rparr>;
            g = g\<lparr>g_tr := t, g_lease := l, g_count := n\<rparr>;
            g = (if revoke then queueBrakeLock reason True g
                 else if tr_last_mode (g_tr g) = MODE_FOLLOW_POSITION then queueBrakeLock reason False g
                 else g)
        in (g\<lparr>g_tr := (g_tr g)\<lparr>tr_last_mode := MODE_HOLD\<rparr>\<rparr>, [Internal (tr_pending_internal t)]))"

section \<open>The brake\<close>

record brake_action =
  ba_release :: bool
  ba_reason :: gtext

definition lift_stationary :: "gw_config \<Rightarrow> gateway \<Rightarrow> time \<Rightarrow> bool" where
  "lift_stationary k g now \<longleftrightarrow>
     fresh (g_lift_status g) now (k_feedback_fault_timeout k) \<and> lift_joint_fresh k g now \<and>
     \<bar>js_velocity (g_joints g) ! 0\<bar> \<le> k_brake_lock_velocity k \<and>
     \<not> ls_trajectory_active (g_lift g) \<and> \<not> ls_jog_active (g_lift g)"

definition takePendingBrakeAction ::
  "gw_config \<Rightarrow> time \<Rightarrow> gateway \<Rightarrow> gateway \<times> brake_action option" where
  "takePendingBrakeAction k now g =
     (let b = g_brake g
      in if \<not> br_lock_pending b \<or> br_transition b \<or> br_locked b then (g, None)
      else if \<not> k_brake_client k
      then (let r = br_pending_reason b @ [T '': native lift brake service is not configured'']
            in (set_detail r (g\<lparr>g_brake := b\<lparr>br_lock_pending := False, br_last_reason := r\<rparr>\<rparr>), None))
      else if \<not> br_lock_force b \<and> \<not> lift_stationary k g now then (g, None)
      else (g\<lparr>g_brake := b\<lparr>br_lock_pending := False, br_lock_force := False, br_pending_reason := [],
                br_transition := True\<rparr>\<rparr>,
            Some \<lparr>ba_release = False, ba_reason = br_pending_reason b\<rparr>))"

text \<open>\<open>executeBrakeAction\<close>: the answer of the native service (\<open>None\<close> when the bounded call failed); the
  states in which the wait for the enabled drive evaluates its condition, the first being the
  one found when the mutex is taken; the requests sent; the section that commits the outcome.\<close>

record native_reply =
  nr_success :: bool
  nr_message :: string

definition brake_confirmed ::
  "gw_config \<Rightarrow> brake_action \<Rightarrow> native_reply option \<Rightarrow> (gateway \<times> time) list \<Rightarrow> bool" where
  "brake_confirmed k a reply polls \<longleftrightarrow>
     (case reply of None \<Rightarrow> False
      | Some r \<Rightarrow> nr_success r \<and>
          (ba_release a \<and> polls \<noteq> [] \<and> g_mode (fst (hd polls)) = WS_REAL \<longrightarrow>
             list_ex (\<lambda>(g, now). liftPowerEnabled k g now) polls))"

definition brake_requests :: "brake_action \<Rightarrow> native_reply option \<Rightarrow> bool \<Rightarrow> bool list" where
  "brake_requests a reply confirmed =
     ba_release a # (if \<not> confirmed \<and> ba_release a \<and> (\<exists>r. reply = Some r \<and> nr_success r)
                     then [False] else [])"

definition brake_commit :: "brake_action \<Rightarrow> bool \<Rightarrow> gtext \<Rightarrow> time \<Rightarrow> gateway \<Rightarrow> gateway" where
  "brake_commit a confirmed failure now g =
     (let b = (g_brake g)\<lparr>br_transition := False\<rparr>
      in if confirmed
         then set_detail (T (if ba_release a then ''lift brake release requested: ''
                             else ''lift brake lock requested: '') # ba_reason a)
           (g\<lparr>g_brake := b\<lparr>br_locked := \<not> ba_release a, br_lock_commanded := \<not> ba_release a,
                br_transition_count := br_transition_count b + 1, br_last_reason := ba_reason a,
                br_last_physical_time := now\<rparr>\<rparr>)
         else (let r = ba_reason a @ T '': '' # failure
               in set_detail (T ''lift brake transition failed: '' # r)
                    (g\<lparr>g_brake := b\<lparr>br_last_reason := r\<rparr>\<rparr>)))"

text \<open>\<open>handleLiftBrake\<close> up to the call: an answer, or the action to execute.\<close>

definition handleLiftBrake ::
  "gw_config \<Rightarrow> bool \<Rightarrow> time \<Rightarrow> gateway \<Rightarrow> gateway \<times> ((bool \<times> gtext) + brake_action)" where
  "handleLiftBrake k release now g =
     (let b = g_brake g; ready = first_reason [workspaceReady k g now, feedbackReady k g now]
      in if \<not> k_brake_client k
      then (g, Inl (False, [T ''Heavy lift brake interface is not configured; request was not routed to the Junior lift board'']))
      else if \<not> release \<and> br_locked b
      then (g, Inl (True, [T ''lift brake is already locked; no physical transition issued'']))
      else if release \<and> \<not> br_locked b
      then (g, Inl (True, [T ''lift brake is already released; no physical transition issued'']))
      else if br_transition b
      then (g, Inl (False, [T ''lift brake transition is already in progress'']))
      else if release \<and> (ready \<noteq> None \<or> ls_estop (g_lift g) \<or> ls_motion_blocked (g_lift g) \<or>
                ls_error_code (g_lift g) \<noteq> 0)
      then (g, Inl (False, T ''Heavy lift brake release rejected: '' #
                (case ready of Some r \<Rightarrow> r | None \<Rightarrow> [])))
      else (g\<lparr>g_brake := b\<lparr>br_transition := True\<rparr>\<rparr>,
            Inr \<lparr>ba_release = release, ba_reason =
              [T (if release then ''explicit_brake_release'' else ''explicit_brake_lock'')]\<rparr>))"

definition lift_brake_reply :: "bool \<Rightarrow> bool \<Rightarrow> bool \<times> string" where
  "lift_brake_reply release confirmed =
     (confirmed, if confirmed
        then (if release then ''lift brake release transition accepted''
              else ''lift brake lock transition accepted'')
        else ''native lift brake transition failed'')"

section \<open>Acquiring a lease\<close>

record acquire_request =
  rq_owner_id :: string
  rq_protocol_major :: u16
  rq_protocol_minor :: u16
  rq_layout_crc32 :: u32

record acquire_response =
  rp_lease_id :: string
  rp_lease_timeout :: int
  rp_initial_sequence :: u64

text \<open>The first section refuses or reserves the acquisition; the flag in its result says whether the lift
  has to be enabled first. (The text that refuses a second holder also prints the current one.)\<close>

definition acquire_begin ::
  "gw_config \<Rightarrow> nat \<times> nat \<times> nat \<Rightarrow> acquire_request \<Rightarrow> time \<Rightarrow> gateway \<Rightarrow> gateway \<times> (gtext + bool)" where
  "acquire_begin k ends rq now g =
     (let unavailable = first_reason
            [reject (rq_owner_id rq = '''') [T ''owner_id must not be empty''],
             reject (rq_protocol_major rq \<noteq> kProtocolMajor) [T ''protocol major mismatch''],
             reject (rq_protocol_minor rq > kProtocolMinor)
               [T ''protocol minor is newer than supported''],
             reject (rq_layout_crc32 rq \<noteq> kLayoutCrc32) [T ''layout CRC mismatch''],
             reject (g_active g \<or> g_acquiring g) [T ''execution lease already held''],
             workspaceReady k g now, feedbackReady k g now, controllerEndpointsReady ends,
             liftEnableReady k g now,
             reject (\<not> liftPowerEnabled k g now \<and> \<not> k_brake_client k)
               [T ''lift power is disabled and the native enable service is not configured'']]
      in case unavailable of Some r \<Rightarrow> (g, Inl r)
      | None \<Rightarrow>
          let enable = (g_mode g = WS_REAL \<and> \<not> liftPowerEnabled k g now);
              g = g\<lparr>g_acquiring := True\<rparr>
          in (if enable
              then set_detail [T ''preparing zero-velocity lift enable before lease grant'']
                (g\<lparr>g_brake := (g_brake g)\<lparr>br_transition := True\<rparr>\<rparr>)
              else g, Inr enable))"

definition acquire_enable_failed :: "gateway \<Rightarrow> gateway" where
  "acquire_enable_failed g = g\<lparr>g_acquiring := False\<rparr>"

text \<open>The lease identifier is made of random numbers and the clock: an argument.\<close>

definition grant_lease :: "gw_config \<Rightarrow> acquire_request \<Rightarrow> string \<Rightarrow> time \<Rightarrow> gateway \<Rightarrow> gateway" where
  "grant_lease k rq lease_id now g =
     (let gen = tr_lease_generation (g_tr g) + 1; initial = gen * 1000000 + 1;
          g = g\<lparr>g_lease := (g_lease g)\<lparr>le_active := True, le_owner_id := rq_owner_id rq,
                  le_lease_id := lease_id, le_last_accepted_sequence := initial - 1,
                  le_last_accepted_command_time := 0, le_state := ST_MONITOR,
                  le_detail := [T ''lease granted; aligning HOLD to current feedback'']\<rparr>,
                g_tr := (g_tr g)\<lparr>tr_lease_generation := gen, tr_initial_sequence := initial,
                  tr_aligned_hold := False, tr_first_user_command := True, tr_last_mode := MODE_STOP,
                  tr_lease_deadline := 0\<rparr>\<rparr>;
          c = makeHoldCommand k g (initial - 1)
      in g\<lparr>g_tr := (put_in_flight c 0 False now now (g_tr g))
             \<lparr>tr_staged_valid := False, tr_revoke_after_ack := False\<rparr>\<rparr>)"

definition acquire_finish ::
  "gw_config \<Rightarrow> nat \<times> nat \<times> nat \<Rightarrow> acquire_request \<Rightarrow> string \<Rightarrow> time \<Rightarrow> gateway
     \<Rightarrow> gateway \<times> gw_out list \<times> (gtext + acquire_response)" where
  "acquire_finish k ends rq lease_id now g =
     (let g = g\<lparr>g_acquiring := False\<rparr>;
          reason = first_reason [workspaceReady k g now, feedbackReady k g now,
            controllerEndpointsReady ends, liftEnableReady k g now]
      in if g_active g \<or> reason \<noteq> None \<or> (g_mode g = WS_REAL \<and> \<not> liftPowerEnabled k g now)
         then (g, [], Inl (T ''execution lease unavailable after lift preparation: '' #
                 (case reason of None \<Rightarrow> [T ''lift power is not confirmed''] | Some r \<Rightarrow> r)))
         else
           let g = grant_lease k rq lease_id now g
           in (g, [Gate True, Internal (tr_pending_internal (g_tr g))],
               Inr \<lparr>rp_lease_id = lease_id, rp_lease_timeout = k_execution_lease_timeout k,
                    rp_initial_sequence = tr_initial_sequence (g_tr g)\<rparr>))"

section \<open>Commands\<close>

text \<open>The first section of \<open>handleCommand\<close> counts the message and decides whether the brake is to be
  released first; its three readings of the clock are \<open>clk 0\<close>, \<open>clk 1\<close> and \<open>clk 2\<close>.\<close>

definition release_before_follow :: "gw_config \<Rightarrow> (nat \<Rightarrow> time) \<Rightarrow> command \<Rightarrow> gateway \<Rightarrow> bool" where
  "release_before_follow k clk c g \<longleftrightarrow>
     c_mode c = MODE_FOLLOW_POSITION \<and> g_active g \<and> \<not> tr_pending_valid (g_tr g) \<and>
     \<not> tr_staged_valid (g_tr g) \<and> c_owner_id c = le_owner_id (g_lease g) \<and>
     c_lease_id c = le_lease_id (g_lease g) \<and> c_sequence c > newestAdmitted g \<and>
     br_locked (g_brake g) \<and> \<not> br_transition (g_brake g) \<and> k_brake_client k \<and>
     validateCommand k g c (clk 1) True = None \<and> liftEnableReady k g (clk 2) = None"

definition command_preflight ::
  "gw_config \<Rightarrow> (nat \<Rightarrow> time) \<Rightarrow> command \<Rightarrow> gateway \<Rightarrow> gateway \<times> brake_action option" where
  "command_preflight k clk c g =
     (let g = g\<lparr>g_count := (g_count g)\<lparr>ct_received := ct_received (g_count g) + 1\<rparr>,
                g_lease := (g_lease g)\<lparr>le_last_received_sequence := c_sequence c,
                  le_last_received_command_time := clk 0\<rparr>\<rparr>
      in if release_before_follow k clk c g
         then (g\<lparr>g_brake := (g_brake g)\<lparr>br_transition := True\<rparr>\<rparr>,
               Some \<lparr>ba_release = True, ba_reason = [T ''MODE_FOLLOW_POSITION brake release'']\<rparr>)
         else (g, None))"

definition count_rejection :: "gtext \<Rightarrow> gateway \<Rightarrow> gateway" where
  "count_rejection r g =
     g\<lparr>g_count := (g_count g)\<lparr>ct_rejected := ct_rejected (g_count g) + 1,
         ct_last_rejection_reason := r\<rparr>\<rparr>"

definition out_of_order_reason :: gtext where
  "out_of_order_reason = [T ''sequence is below first allowed/last accepted sequence'']"

definition pending_locked_reason :: gtext where
  "pending_locked_reason =
     [T ''FOLLOW_POSITION rejected while a controller command is pending and lift brake is locked'']"

text \<open>The second section, entered when no release was needed or it was confirmed.\<close>

definition command_admit :: "gw_config \<Rightarrow> command \<Rightarrow> time \<Rightarrow> gateway \<Rightarrow> gateway \<times> gw_out list" where
  "command_admit k c now g =
     (if g_state g = ST_FAULT
      then (count_rejection [T ''gateway is in controller-acknowledgement fault; explicit release is required''] g, [])
      else case validateCommand k g c now False of
        Some r \<Rightarrow> (set_detail (T ''command rejected: '' # r) (count_rejection r g), [])
      | None \<Rightarrow>
          if c_sequence c < newestAdmitted g
          then (let g = count_rejection out_of_order_reason g
                in (set_detail [T ''out-of-order command rejected'']
                      (g\<lparr>g_count := (g_count g)\<lparr>ct_out_of_order := ct_out_of_order (g_count g) + 1\<rparr>\<rparr>), []))
          else if c_sequence c = newestAdmitted g
          then (set_detail [T ''duplicate command ignored'']
                 (g\<lparr>g_count := (g_count g)\<lparr>ct_duplicate := ct_duplicate (g_count g) + 1\<rparr>\<rparr>), [])
          else if tr_pending_valid (g_tr g)
          then (if c_mode c = MODE_FOLLOW_POSITION \<and> br_locked (g_brake g)
                then (set_detail (T ''command rejected: '' # pending_locked_reason)
                       (count_rejection pending_locked_reason g), [])
                else (set_detail [T ''command staged; lower-controller acknowledgement pending'']
                       (g\<lparr>g_tr := (g_tr g)\<lparr>tr_staged := c, tr_staged_valid := True\<rparr>\<rparr>), []))
          else (let (g, i) = dispatchUserCommand k c now g in (g, [Internal i])))"

section \<open>Acknowledgements\<close>

definition note_ack :: "bool \<Rightarrow> u64 \<Rightarrow> gateway \<Rightarrow> gateway" where
  "note_ack arm seqn g =
     g\<lparr>g_count := (if arm then (g_count g)\<lparr>ct_last_arm_ack := seqn\<rparr>
                   else (g_count g)\<lparr>ct_last_lift_ack := seqn\<rparr>)\<rparr>"

definition ignore_ack :: "bool \<Rightarrow> gateway \<Rightarrow> gateway" where
  "ignore_ack arm g =
     g\<lparr>g_count := (if arm then (g_count g)\<lparr>ct_ignored_arm_ack := ct_ignored_arm_ack (g_count g) + 1\<rparr>
                   else (g_count g)\<lparr>ct_ignored_lift_ack := ct_ignored_lift_ack (g_count g) + 1\<rparr>)\<rparr>"

definition store_ack :: "bool \<Rightarrow> u64 \<Rightarrow> gateway \<Rightarrow> gateway" where
  "store_ack arm seqn g =
     g\<lparr>g_tr := (if arm then (g_tr g)\<lparr>tr_arm_ack := seqn\<rparr> else (g_tr g)\<lparr>tr_lift_ack := seqn\<rparr>)\<rparr>"

text \<open>What both acknowledgements together complete: the command in flight is applied, the first one
  confirms the aligned hold, a stop ends in hold.\<close>

definition ack_applied :: "gateway \<Rightarrow> gateway" where
  "ack_applied g =
     (let t = g_tr g; l = g_lease g;
          l = (if tr_pending_is_user t
               then l\<lparr>le_applied_command_sequence := tr_pending_external_sequence t\<rparr> else l);
          l = (if \<not> tr_aligned_hold t
               then l\<lparr>le_state := ST_LEASED_HOLD,
                      le_detail := [T ''aligned HOLD confirmed by arm and lift controllers'']\<rparr>
               else if le_state l = ST_STOPPING \<and> \<not> tr_revoke_after_ack t
               then l\<lparr>le_state := ST_LEASED_HOLD, le_detail := [T ''STOP completed in HOLD'']\<rparr>
               else l)
      in g\<lparr>g_tr := t\<lparr>tr_pending_valid := False, tr_aligned_hold := True\<rparr>, g_lease := l\<rparr>)"

definition clear_reason :: "transaction \<Rightarrow> gtext" where
  "clear_reason t = (if tr_pending_clear_reason t = []
     then [T ''internal_state_invariant_failure''] else tr_pending_clear_reason t)"

definition handleAck :: "gw_config \<Rightarrow> bool \<Rightarrow> u64 \<Rightarrow> time \<Rightarrow> gateway \<Rightarrow> gateway \<times> gw_out list" where
  "handleAck k arm seqn now g =
     (let g = note_ack arm seqn g
      in if \<not> tr_pending_valid (g_tr g) \<or> seqn \<noteq> tr_pending_sequence (g_tr g)
      then (ignore_ack arm g, [])
      else
        let g = store_ack arm seqn g
        in if tr_arm_ack (g_tr g) \<noteq> tr_pending_sequence (g_tr g) \<or>
              tr_lift_ack (g_tr g) \<noteq> tr_pending_sequence (g_tr g)
        then (g, [])
        else
          let g = ack_applied g
          in if tr_revoke_after_ack (g_tr g)
          then (clearHeavyLease (clear_reason (g_tr g)) g, [Gate False])
          else if tr_staged_valid (g_tr g)
          then (let (g, i) = dispatchUserCommand k (tr_staged (g_tr g)) now g
                in (g\<lparr>g_tr := (g_tr g)\<lparr>tr_staged_valid := False\<rparr>\<rparr>, [Internal i]))
          else (g, []))"

section \<open>Releasing a lease\<close>

text \<open>The section up to the wait: a refusal, a release without a hold, or a hold to wait for.\<close>

datatype release_progress = R_refused | R_released gtext | R_waiting

definition workspace_state_unavailable :: "gw_config \<Rightarrow> gateway \<Rightarrow> time \<Rightarrow> bool" where
  "workspace_state_unavailable k g now \<longleftrightarrow>
     \<not> la_received (g_workspace g) \<or>
     \<not> fresh (g_workspace g) now (k_workspace_status_timeout k) \<or>
     \<not> wk_accepted (la_msg (g_workspace g)) \<or> wk_state (la_msg (g_workspace g)) \<noteq> WS_RUNNING"

definition release_begin ::
  "gw_config \<Rightarrow> string \<Rightarrow> string \<Rightarrow> (nat \<Rightarrow> time) \<Rightarrow> gateway \<Rightarrow> gateway \<times> gw_out list \<times> release_progress"
  where
  "release_begin k owner lease clk g =
     (if \<not> g_active g \<or> owner \<noteq> le_owner_id (g_lease g) \<or> lease \<noteq> le_lease_id (g_lease g)
      then (g, [], R_refused)
      else if workspace_state_unavailable k g (clk 0)
      then (let d = T ''workspace_stop: '' #
                  (case workspaceReady k g (clk 0) of Some r \<Rightarrow> r
                   | None \<Rightarrow> [T ''workspace is not RUNNING''])
            in (clearHeavyLease d g, [Gate False], R_released d))
      else (let (g, outs) = beginSafetyHold k [T ''explicit_release''] True (clk 1) (clk 2) g
            in (g, outs, R_waiting)))"

text \<open>The section after the wait, which ends when no lease is active or on the timeout.\<close>

definition release_ack_timeout :: gtext where
  "release_ack_timeout = [T ''explicit_release_ack_timeout: controller HOLD ack timeout'']"

definition release_finish :: "gateway \<Rightarrow> gateway \<times> gw_out list \<times> gtext option" where
  "release_finish g =
     (if g_active g
      then (clearHeavyLease release_ack_timeout g, [Gate False], Some release_ack_timeout)
      else (g, [], None))"

text \<open>The answer to a release confirmed by its hold; \<open>torque_off\<close> is the answer of the power
  service or the error of the call.\<close>

definition release_reply :: "bool \<Rightarrow> string + native_reply \<Rightarrow> bool \<times> string" where
  "release_reply request_torque_off torque_off =
     (if request_torque_off
      then (case torque_off of
              Inr r \<Rightarrow> if nr_success r then (True, ''lease released and arm torque-off confirmed'')
                        else (False, ''lease released, but arm torque-off failed: '' @ nr_message r)
            | Inl error \<Rightarrow> (False, ''lease released, but arm torque-off failed: '' @ error))
      else (True, ''lease released after HOLD confirmation''))"

section \<open>The watchdog\<close>

definition updateStateWithoutLease :: "gw_config \<Rightarrow> time \<Rightarrow> gateway \<Rightarrow> gateway" where
  "updateStateWithoutLease k now g =
     (let set = (\<lambda>st d. g\<lparr>g_lease := (g_lease g)\<lparr>le_state := st, le_detail := d\<rparr>\<rparr>);
          cleared = T ''lease cleared: '' # tr_last_clear_reason (g_tr g);
          rejected = ct_last_rejection_reason (g_count g)
      in if g_active g then g
      else if la_received (g_workspace g) \<and> fresh (g_workspace g) now (k_workspace_status_timeout k) \<and>
              wk_state (la_msg (g_workspace g)) = WS_STARTING
      then set ST_OFFLINE [T ''workspace start in progress; waiting for RUNNING and complete feedback'']
      else case first_reason [workspaceReady k g now, feedbackReady k g now] of
        None \<Rightarrow> set ST_MONITOR (cleared @
            T ''; complete lower-controller feedback; no execution lease'' #
            (if rejected \<noteq> [] then T ''; last command rejected: '' # rejected else []))
      | Some r \<Rightarrow>
          if now - g_started_at g \<le> ms (k_startup_feedback_grace k)
          then set ST_OFFLINE (cleared @ T ''; startup feedback grace: '' # r)
          else set ST_FAULT (cleared @ T ''; lower-controller feedback unavailable: '' # r))"

text \<open>The blocks of \<open>watchdogAndFeedbackTick\<close> in the order of the code; \<open>clk 0\<close> is its \<open>now\<close>, the other
  readings are those of \<open>beginSafetyHoldLocked\<close>.\<close>

definition wd_command_timeout ::
  "gw_config \<Rightarrow> (nat \<Rightarrow> time) \<Rightarrow> gateway \<Rightarrow> gateway \<times> gw_out list" where
  "wd_command_timeout k clk g =
     (if g_active g \<and> \<not> tr_pending_valid (g_tr g) \<and> g_state g = ST_FOLLOWING \<and>
         clk 0 - le_last_accepted_command_time (g_lease g) > ms (k_command_hold_timeout k)
      then beginSafetyHold k command_timeout_reason False (clk 1) (clk 2) g
      else (g, []))"

definition lease_expired :: "gateway \<Rightarrow> time \<Rightarrow> bool" where
  "lease_expired g now \<longleftrightarrow> g_active g \<and> le_last_accepted_command_time (g_lease g) \<noteq> 0 \<and>
     now \<ge> tr_lease_deadline (g_tr g)"

definition wd_lease_expiry ::
  "gw_config \<Rightarrow> (nat \<Rightarrow> time) \<Rightarrow> gateway \<Rightarrow> gateway \<times> gw_out list" where
  "wd_lease_expiry k clk g =
     (if lease_expired g (clk 0)
      then beginSafetyHold k [T ''execution lease expired after '', N (k_execution_lease_timeout k),
             T '' ms without an accepted command''] True (clk 3) (clk 4)
             (g\<lparr>g_count := (g_count g)\<lparr>ct_lease_expiry := ct_lease_expiry (g_count g) + 1\<rparr>\<rparr>)
      else (g, []))"

definition wd_revoke_fallback :: "gw_config \<Rightarrow> time \<Rightarrow> gateway \<Rightarrow> gateway \<times> gw_out list" where
  "wd_revoke_fallback k now g =
     (if g_active g \<and> tr_revoke_after_ack (g_tr g) \<and> tr_pending_valid (g_tr g) \<and>
         now - tr_pending_time (g_tr g) > ms (k_controller_ack_timeout k)
      then (let g = clearHeavyLease (clear_reason (g_tr g) @ [T '' (ack timeout fallback)'']) g
            in (g\<lparr>g_tr := (g_tr g)\<lparr>tr_pending_valid := False, tr_pending_is_user := False,
                   tr_staged_valid := False, tr_revoke_after_ack := False\<rparr>\<rparr>, [Gate False]))
      else (g, []))"

definition ack_timeout_clear_reason :: gtext where
  "ack_timeout_clear_reason =
     [T ''automatic release: controller HOLD ack timeout; lease revoked after STOP/HOLD submission'']"

text \<open>The timeout text is an argument: it prints most of the state.\<close>

definition wd_ack_timeout :: "gw_config \<Rightarrow> gtext \<Rightarrow> time \<Rightarrow> gateway \<Rightarrow> gateway \<times> gw_out list" where
  "wd_ack_timeout k timeout now g =
     (if g_active g \<and> tr_pending_valid (g_tr g) \<and>
         now - tr_pending_time (g_tr g) > ms (k_controller_ack_timeout k) \<and> g_state g \<noteq> ST_FAULT
      then (let g = g\<lparr>g_lease := (g_lease g)\<lparr>le_state := ST_FAULT, le_detail := timeout\<rparr>\<rparr>;
                g = queueBrakeLock [T ''controller_apply_ack_timeout''] True g
            in (clearHeavyLease ack_timeout_clear_reason g, [Gate False]))
      else (g, []))"

definition wd_retry :: "gw_config \<Rightarrow> time \<Rightarrow> gateway \<Rightarrow> gateway \<times> gw_out list" where
  "wd_retry k now g =
     (let t = g_tr g
      in if g_active g \<and> tr_pending_valid t \<and>
            now - tr_pending_time t < ms (k_controller_ack_timeout k) \<and>
            now - tr_pending_publish_time t \<ge> ms (k_controller_ack_retry_interval k) \<and>
            c_sequence (tr_pending_internal t) = tr_pending_sequence t
         then (g\<lparr>g_tr := t\<lparr>tr_retry_count := tr_retry_count t + 1\<rparr>\<rparr>, [Retry (tr_pending_internal t)])
         else (g, []))"

definition wd_resources :: "gw_config \<Rightarrow> (nat \<Rightarrow> time) \<Rightarrow> gateway \<Rightarrow> gateway \<times> gw_out list" where
  "wd_resources k clk g =
     (let stop = (\<lambda>r. let (g, outs) = beginSafetyHold k r True (clk 5) (clk 6) g
                      in (clearHeavyLease r g, outs @ [Gate False]));
          workspace = workspaceReady k g (clk 0); fb = feedbackReady k g (clk 0)
      in if g_active g \<and> \<not> tr_revoke_after_ack (g_tr g) \<and> workspace \<noteq> None
      then stop (T ''workspace_stop: '' # the workspace)
      else if g_active g \<and> fb \<noteq> None \<and> g_state g \<noteq> ST_FAULT \<and> g_state g \<noteq> ST_STOPPING
      then stop (T ''resource_fault: '' # the fb)
      else (g, []))"

definition then_step ::
  "gateway \<times> gw_out list \<Rightarrow> (gateway \<Rightarrow> gateway \<times> gw_out list) \<Rightarrow> gateway \<times> gw_out list" where
  "then_step r f = (let (g, outs) = r; (g, more) = f g in (g, outs @ more))"

definition watchdog_lease ::
  "gw_config \<Rightarrow> gtext \<Rightarrow> (nat \<Rightarrow> time) \<Rightarrow> gateway \<Rightarrow> gateway \<times> gw_out list" where
  "watchdog_lease k timeout clk g =
     then_step (then_step (then_step (then_step (then_step
       (wd_command_timeout k clk g)
       (wd_lease_expiry k clk))
       (wd_revoke_fallback k (clk 0)))
       (wd_ack_timeout k timeout (clk 0)))
       (wd_retry k (clk 0)))
       (wd_resources k clk)"

text \<open>Safety holds are published under the mutex, the gate (once) and a retry after it is given back.\<close>

fun is_Internal :: "gw_out \<Rightarrow> bool" where
  "is_Internal (Internal c) = True"
| "is_Internal _ = False"

fun is_Retry :: "gw_out \<Rightarrow> bool" where
  "is_Retry (Retry c) = True"
| "is_Retry _ = False"

definition publish_order :: "gw_out list \<Rightarrow> gw_out list" where
  "publish_order outs = filter is_Internal outs @
     (if Gate False \<in> set outs then [Gate False] else []) @ filter is_Retry outs"

definition watchdogAndFeedbackTick ::
  "gw_config \<Rightarrow> gtext \<Rightarrow> (nat \<Rightarrow> time) \<Rightarrow> gateway \<Rightarrow> gateway \<times> gw_out list \<times> brake_action option" where
  "watchdogAndFeedbackTick k timeout clk g =
     (let (g, outs) = watchdog_lease k timeout clk g;
          (g, action) = takePendingBrakeAction k (clk 0) (updateStateWithoutLease k (clk 0) g)
      in (g, publish_order outs, action))"

text \<open>\<open>publishInternalCommand\<close> takes the mutex, if it is free, to note when the command in flight was
  last published.\<close>

definition note_published :: "command \<Rightarrow> time \<Rightarrow> gateway \<Rightarrow> gateway" where
  "note_published c now g =
     (if tr_pending_valid (g_tr g) \<and> tr_pending_sequence (g_tr g) = c_sequence c
      then g\<lparr>g_tr := (g_tr g)\<lparr>tr_pending_publish_time := now\<rparr>\<rparr> else g)"

section \<open>The gateway as a machine\<close>

text \<open>Every section of every handler is one event. Handlers run concurrently, so sections are taken in any
  order; the order inside one handler is not imposed, and what holds for all sequences of events
  holds for the interleavings the code allows. An event whose command lacks the fixed length of its
  arrays does not exist in the code and changes nothing.\<close>

datatype gw_event =
    E_arm_power arm_power_status time
  | E_lift_status lift_status time
  | E_workspace workspace_status time
  | E_control_mode control_mode_status time
  | E_arm_joints joint_state_msg time
  | E_lift_joints joint_state_msg time
  | E_acquire_begin "nat \<times> nat \<times> nat" acquire_request time
  | E_acquire_enable_failed
  | E_acquire_finish "nat \<times> nat \<times> nat" acquire_request string time
  | E_command_preflight "nat \<Rightarrow> time" command
  | E_command_admit command time
  | E_ack bool u64 time
  | E_release_begin string string "nat \<Rightarrow> time"
  | E_release_finish
  | E_lift_brake bool time
  | E_brake_commit brake_action bool gtext time
  | E_watchdog gtext "nat \<Rightarrow> time"
  | E_published command time
  | E_feedback time
  | E_status bool time

definition command_shape :: "command \<Rightarrow> bool" where
  "command_shape c \<longleftrightarrow> length (c_position c) = 15 \<and> length (c_velocity c) = 15 \<and>
     length (c_acceleration c) = 15"

fun gw_step :: "gw_config \<Rightarrow> gateway \<Rightarrow> gw_event \<Rightarrow> gateway \<times> gw_out list" where
  "gw_step k g (E_arm_power m now) = (on_arm_power m now g, [])"
| "gw_step k g (E_lift_status m now) = (on_lift_status m now g, [])"
| "gw_step k g (E_workspace m now) = (on_workspace m now g, [])"
| "gw_step k g (E_control_mode m now) = (on_control_mode m now g, [])"
| "gw_step k g (E_arm_joints m now) = (handleArmJointState k m now g, [])"
| "gw_step k g (E_lift_joints m now) = (handleLiftJointState k m now g, [])"
| "gw_step k g (E_acquire_begin ends rq now) = (fst (acquire_begin k ends rq now g), [])"
| "gw_step k g E_acquire_enable_failed = (acquire_enable_failed g, [])"
| "gw_step k g (E_acquire_finish ends rq i now) =
     (let (g, outs, _) = acquire_finish k ends rq i now g in (g, outs))"
| "gw_step k g (E_command_preflight clk c) =
     (if command_shape c then (fst (command_preflight k clk c g), []) else (g, []))"
| "gw_step k g (E_command_admit c now) = (if command_shape c then command_admit k c now g else (g, []))"
| "gw_step k g (E_ack arm s now) = handleAck k arm s now g"
| "gw_step k g (E_release_begin owner lease clk) =
     (let (g, outs, _) = release_begin k owner lease clk g in (g, outs))"
| "gw_step k g E_release_finish = (let (g, outs, _) = release_finish g in (g, outs))"
| "gw_step k g (E_lift_brake release now) = (fst (handleLiftBrake k release now g), [])"
| "gw_step k g (E_brake_commit a confirmed failure now) = (brake_commit a confirmed failure now g, [])"
| "gw_step k g (E_watchdog timeout clk) =
     (let (g, outs, _) = watchdogAndFeedbackTick k timeout clk g in (g, outs))"
| "gw_step k g (E_published c now) = (note_published c now g, [])"
| "gw_step k g (E_feedback now) = (snd (publishFeedback k now g), [])"
| "gw_step k g (E_status force now) = (snd (publishStatus k force now g), [])"

fun gw_run :: "gw_config \<Rightarrow> gateway \<Rightarrow> gw_event list \<Rightarrow> gateway \<times> gw_out list" where
  "gw_run k g [] = (g, [])"
| "gw_run k g (e # es) = (let (g, outs) = gw_step k g e; (g, more) = gw_run k g es in (g, outs @ more))"

end
