(* ===== verification/HeavySafety.thy ===== *)
theory HeavySafety
  imports HeavyProps
begin

text \<open>
  Revocation, admission and brake of the Heavy gateway: when a lease is taken back within a bounded
  time and when it is not, what the admission of \<open>FOLLOW_POSITION\<close> guarantees about the drives and
  what a staged command escapes, and how the brake lock is queued, forced and rolled back.
\<close>

section \<open>Revocation\<close>

lemma begin_hold_revoked:
  assumes "g_active g"
  shows "tr_revoke_after_ack (g_tr (fst (beginSafetyHold k r True t1 t2 g)))"
    "tr_pending_time (g_tr (fst (beginSafetyHold k r True t1 t2 g))) = t2"
    "g_state (fst (beginSafetyHold k r True t1 t2 g)) = ST_STOPPING"
  using assms by (simp_all add: beginSafetyHold_def put_in_flight_def Let_def)

lemma begin_hold_times [simp]:
  "tr_lease_deadline (g_tr (fst (beginSafetyHold k r rv t1 t2 g))) = tr_lease_deadline (g_tr g)"
  "le_last_accepted_command_time (g_lease (fst (beginSafetyHold k r rv t1 t2 g))) =
    le_last_accepted_command_time (g_lease g)"
proof -
  have "le_last_accepted_command_time (g_lease (capture_hold w g)) = le_last_accepted_command_time (g_lease g)"
    for w
    by (simp add: capture_hold_def)
  then show "tr_lease_deadline (g_tr (fst (beginSafetyHold k r rv t1 t2 g))) = tr_lease_deadline (g_tr g)"
    "le_last_accepted_command_time (g_lease (fst (beginSafetyHold k r rv t1 t2 g))) =
      le_last_accepted_command_time (g_lease g)"
    by (simp_all add: beginSafetyHold_def put_in_flight_def Let_def)
qed

lemma positive_timeout: "configureParameters k \<Longrightarrow> 0 < ms (k_controller_ack_timeout k)"
  by (simp add: configureParameters_def positiveMilliseconds_def ms_def)

lemma tick_expired:
  assumes "configureParameters k" "lease_expired g (clk 0)" "clk 0 \<le> clk 4"
  shows "g_active (fst (watchdogAndFeedbackTick k d clk g)) \<and>
    tr_lease_deadline (g_tr (fst (watchdogAndFeedbackTick k d clk g))) = tr_lease_deadline (g_tr g) \<and>
    le_last_accepted_command_time (g_lease (fst (watchdogAndFeedbackTick k d clk g))) =
      le_last_accepted_command_time (g_lease g) \<and>
    Gate False \<notin> set (fst (snd (watchdogAndFeedbackTick k d clk g)))"
proof -
  define a where "a = fst (wd_command_timeout k clk g)"
  have a: "g_active a" "lease_expired a (clk 0)" "tr_lease_deadline (g_tr a) = tr_lease_deadline (g_tr g)"
    "le_last_accepted_command_time (g_lease a) = le_last_accepted_command_time (g_lease g)"
    using assms(2) by (simp_all add: a_def wd_command_timeout_def lease_expired_def)
  define b where "b = fst (wd_lease_expiry k clk a)"
  have b: "g_active b" "tr_revoke_after_ack (g_tr b)" "tr_pending_time (g_tr b) = clk 4"
    "g_state b = ST_STOPPING" "tr_lease_deadline (g_tr b) = tr_lease_deadline (g_tr g)"
    "le_last_accepted_command_time (g_lease b) = le_last_accepted_command_time (g_lease g)"
    using a begin_hold_revoked by (simp_all add: b_def wd_lease_expiry_def)
  have no: "\<not> clk 0 - tr_pending_time (g_tr b) > ms (k_controller_ack_timeout k)"
    using b(3) assms(3) positive_timeout [OF assms(1)] by linarith
  define c where "c = fst (wd_retry k (clk 0) b)"
  have c: "g_active c" "tr_revoke_after_ack (g_tr c)" "g_state c = ST_STOPPING"
    "tr_lease_deadline (g_tr c) = tr_lease_deadline (g_tr g)"
    "le_last_accepted_command_time (g_lease c) = le_last_accepted_command_time (g_lease g)"
    using b by (simp_all add: c_def wd_retry_def Let_def)
  have w: "fst (watchdog_lease k d clk g) = c" "Gate False \<notin> set (snd (watchdog_lease k d clk g))"
    using no c wd_gate(1-3)
    by (simp_all add: watchdog_lease_def a_def [symmetric] b_def [symmetric] c_def [symmetric]
        wd_revoke_fallback_def wd_ack_timeout_def wd_resources_def Let_def)
  have "updateStateWithoutLease k now c = c" for now
    using c(1) by (simp add: updateStateWithoutLease_def Let_def)
  moreover have "le_last_accepted_command_time (g_lease (fst (takePendingBrakeAction k now c))) =
      le_last_accepted_command_time (g_lease c)" for now
    by (simp add: takePendingBrakeAction_def Let_def)
  ultimately show ?thesis
    using w c by (simp add: watchdogAndFeedbackTick_def Let_def case_prod_beta publish_order_def)
qed

text \<open>An expired lease whose hold is never acknowledged is not taken back by the watchdog: every
  tick finds it expired, begins the safety hold anew and restarts its acknowledgement timeout, so
  neither the revocation fallback nor the acknowledgement timeout is reached; after any number of
  ticks the lease is still active and the gate has not been closed.\<close>

theorem expired_lease_stays:
  assumes "configureParameters k" "g_active g" "le_last_accepted_command_time (g_lease g) \<noteq> 0"
    and "\<forall>(d, clk)\<in>set ticks. tr_lease_deadline (g_tr g) \<le> clk 0 \<and> clk 0 \<le> clk 4"
  shows "g_active (fst (gw_run k g (map (\<lambda>(d, clk). E_watchdog d clk) ticks))) \<and>
    Gate False \<notin> set (snd (gw_run k g (map (\<lambda>(d, clk). E_watchdog d clk) ticks)))"
  using assms(2-)
proof (induction ticks arbitrary: g)
  case Nil
  then show ?case by simp
next
  case (Cons tick ticks)
  obtain d clk where tick: "tick = (d, clk)" by fastforce
  have "lease_expired g (clk 0)" "clk 0 \<le> clk 4"
    using Cons.prems tick by (auto simp: lease_expired_def)
  from tick_expired [where d = d, OF assms(1) this] show ?case
    using Cons tick by (simp add: Let_def case_prod_beta)
qed

definition demo_held :: gateway where
  "demo_held = fst (gw_run demo_config demo_leased (take 1 demo_commands))"

theorem expired_lease_stays_witness:
  "g_active (fst (gw_run demo_config demo_held
     (map (\<lambda>(d, clk). E_watchdog d clk) [([], \<lambda>i. 1600000000), ([], \<lambda>i. 9000000000)])))"
proof -
  have "let g = demo_held in g_active g \<and>
      le_last_accepted_command_time (g_lease g) \<noteq> 0 \<and>
      tr_lease_deadline (g_tr g) = 1500000000"
    by code_simp
  then have "g_active demo_held"
    "le_last_accepted_command_time (g_lease demo_held) \<noteq> 0"
    "tr_lease_deadline (g_tr demo_held) = 1500000000"
    unfolding Let_def by simp_all
  then show ?thesis
    using expired_lease_stays [OF demo_configured, of demo_held "[([], \<lambda>i. 1600000000), ([], \<lambda>i. 9000000000)]"]
    by simp
qed



text \<open>The position captured by a command timeout survives the end of its lease and the grant of the next
  one: a revocation before the first accepted command commands that old position.\<close>

lemma captured_hold_outlives_lease:
  assumes "le_watchdog_hold_captured (g_lease g)"
    and "h = grant_lease k rq i now (clearHeavyLease r g)"
  shows "\<exists>c. snd (beginSafetyHold k r' True t1 t2 h) = [Internal c] \<and>
    c_position c = le_watchdog_hold_position (g_lease g)"
proof -
  have "g_active h" "le_watchdog_hold_captured (g_lease h)"
    "le_watchdog_hold_position (g_lease h) = le_watchdog_hold_position (g_lease g)"
    using assms by (simp_all add: grant_lease_def clearHeavyLease_def Let_def)
  then show ?thesis
    by (simp add: beginSafetyHold_def safety_hold_command_def capture_hold_def put_in_flight_def Let_def)
qed

section \<open>Admission of \<open>FOLLOW_POSITION\<close>\<close>

text \<open>What the drives report when a \<open>FOLLOW_POSITION\<close> is allowed outside a simulation.\<close>

definition arms_enabled_or_held :: "gw_config \<Rightarrow> gateway \<Rightarrow> command \<Rightarrow> bool" where
  "arms_enabled_or_held k g c \<longleftrightarrow> all_arm_enabled g \<or>
     k_allow_lift_only_follow k \<and>
     (\<forall>i\<in>{1..<length (c_position c)}.
        \<not> \<bar>c_position c ! i - js_position (g_joints g) ! i\<bar> > k_arm_hold_tolerance k \<and>
        \<not> \<bar>c_velocity c ! i\<bar> > Fin (1 / 1000000000) \<and> \<not> \<bar>c_acceleration c ! i\<bar> > Fin (1 / 1000000000))"

lemma check_follow_real:
  assumes "check_follow k g c now False = None" "c_mode c = MODE_FOLLOW_POSITION" "g_mode g \<noteq> WS_SIMULATION"
  shows "liftPowerEnabled k g now \<and> arms_enabled_or_held k g c"
  using assms by (auto simp: check_follow_def arms_enabled_or_held_def armHoldCommand_def
      check_arm_hold_def list_all_iff split: if_splits)

lemma admit_publishes:
  "Internal c \<in> set (snd (command_admit k c0 now g)) \<longleftrightarrow>
     g_state g \<noteq> ST_FAULT \<and> validateCommand k g c0 now False = None \<and> newestAdmitted g < c_sequence c0 \<and>
     \<not> tr_pending_valid (g_tr g) \<and> c = snd (dispatchUserCommand k c0 now g)"
  by (auto simp: command_admit_def Let_def case_prod_beta split: option.splits)

lemma dispatch_internal_mode [simp]: "c_mode (snd (dispatchUserCommand k c now g)) = c_mode c"
  by (simp add: dispatchUserCommand_def put_in_flight_def Let_def)


definition demo_aligned :: gateway where
  "demo_aligned = fst (gw_run demo_config demo_held [E_ack True 2 demo_now, E_ack False 2 demo_now])"


text \<open>A staged command escapes that gate: when the second acknowledgement arrives, what is dispatched
  does not depend on what the drives, the workspace or the control mode report by then. A staged
  \<open>FOLLOW_POSITION\<close> is submitted although an emergency stop has been reported in between.\<close>

theorem staged_command_not_revalidated:
  assumes "tr_pending_valid (g_tr g)" "\<not> tr_revoke_after_ack (g_tr g)" "tr_staged_valid (g_tr g)"
    and "tr_arm_ack (g_tr g) = tr_pending_sequence (g_tr g)"
  shows "\<exists>i. snd (handleAck k False (tr_pending_sequence (g_tr g)) now
        (g\<lparr>g_lift_status := l, g_arm_power := a, g_workspace := w, g_control_mode := m\<rparr>)) = [Internal i] \<and>
      c_mode i = c_mode (tr_staged (g_tr g))"
  using assms
  by (simp add: handleAck_def store_ack_def note_ack_def ack_applied_def Let_def case_prod_beta
      dispatchUserCommand_def put_in_flight_def)

definition demo_staged :: gateway where
  "demo_staged = fst (gw_run demo_config demo_leased (take 3 demo_commands))"

theorem staged_command_not_revalidated_witness:
  "\<exists>i. snd (handleAck demo_config False (tr_pending_sequence (g_tr demo_staged)) demo_now
      (demo_staged\<lparr>g_lift_status := newest (demo_lift\<lparr>ls_estop := True\<rparr>) demo_now,
        g_arm_power := never arm_power_default, g_workspace := g_workspace demo_staged,
        g_control_mode := g_control_mode demo_staged\<rparr>)) = [Internal i] \<and>
     c_mode i = MODE_FOLLOW_POSITION"
proof -
  have "let g = demo_staged in tr_pending_valid (g_tr g) \<and>
      \<not> tr_revoke_after_ack (g_tr g) \<and>
      tr_staged_valid (g_tr g) \<and>
      tr_arm_ack (g_tr g) = tr_pending_sequence (g_tr g) \<and>
      c_mode (tr_staged (g_tr g)) = MODE_FOLLOW_POSITION"
    by code_simp
  then have "tr_pending_valid (g_tr demo_staged)"
    "\<not> tr_revoke_after_ack (g_tr demo_staged)"
    "tr_staged_valid (g_tr demo_staged)"
    "tr_arm_ack (g_tr demo_staged) = tr_pending_sequence (g_tr demo_staged)"
    "c_mode (tr_staged (g_tr demo_staged)) = MODE_FOLLOW_POSITION"
    unfolding Let_def by simp_all
  then show ?thesis
    using staged_command_not_revalidated [of demo_staged demo_config demo_now] by metis
qed

section \<open>The brake\<close>

text \<open>After a revoking safety hold the brake is locked, or a transition runs, or a lock is queued; the
  queued lock is forced, that is, does not wait for standstill, unless an unforced lock was queued
  before: then the forced request is dropped and the lock goes on waiting.\<close>

theorem revocation_locks_brake:
  assumes "g_active g" "h = fst (beginSafetyHold k r True t1 t2 g)"
  shows "(br_locked (g_brake h) \<or> br_transition (g_brake h) \<or> br_lock_pending (g_brake h)) \<and>
    (\<not> br_locked (g_brake g) \<and> \<not> br_transition (g_brake g) \<longrightarrow>
      br_lock_force (g_brake h) = (\<not> br_lock_pending (g_brake g) \<or> br_lock_force (g_brake g)))"
  using assms by (auto simp: beginSafetyHold_def queueBrakeLock_def capture_hold_def Let_def)

theorem revocation_locks_brake_witness:
  "br_lock_pending (g_brake (fst (beginSafetyHold demo_config [] True 1 2 demo_leased)))"
proof -
  have "let g = demo_leased in g_active g \<and>
      \<not> br_locked (g_brake (fst (beginSafetyHold demo_config [] True 1 2 g))) \<and>
      \<not> br_transition (g_brake (fst (beginSafetyHold demo_config [] True 1 2 g)))"
    by code_simp
  then have "g_active demo_leased"
    "\<not> br_locked (g_brake (fst (beginSafetyHold demo_config [] True 1 2 demo_leased)))"
    "\<not> br_transition (g_brake (fst (beginSafetyHold demo_config [] True 1 2 demo_leased)))"
    unfolding Let_def by simp_all
  then show ?thesis
    using revocation_locks_brake [OF _ refl] by blast
qed

text \<open>A brake release counts as confirmed in a real workspace only when the native service accepted it and
  the enabled drive was seen during the wait; a release that the service accepted but the drive
  did not confirm is rolled back by a lock request, and then the latch is left as it was.\<close>

theorem brake_release_rolled_back:
  assumes "ba_release a" "reply = Some r" "nr_success r" "polls \<noteq> []"
    and "g_mode (fst (hd polls)) = WS_REAL"
  shows "brake_confirmed k a reply polls = (\<exists>(g, now)\<in>set polls. liftPowerEnabled k g now) \<and>
    (\<not> brake_confirmed k a reply polls \<longrightarrow>
      brake_requests a reply (brake_confirmed k a reply polls) = [True, False] \<and>
      br_locked (g_brake (brake_commit a (brake_confirmed k a reply polls) d now s)) = br_locked (g_brake s))"
  using assms by (auto simp: brake_confirmed_def brake_requests_def brake_commit_def list_ex_iff Let_def)

theorem brake_release_rolled_back_witness:
  "brake_requests \<lparr>ba_release = True, ba_reason = []\<rparr> (Some \<lparr>nr_success = True, nr_message = ''x''\<rparr>)
     (brake_confirmed demo_config \<lparr>ba_release = True, ba_reason = []\<rparr>
        (Some \<lparr>nr_success = True, nr_message = ''x''\<rparr>) [(demo_leased, 9000000000)]) = [True, False]"
proof -
  have "g_mode demo_leased = WS_REAL" and
    stale: "\<not> fresh (g_lift_status demo_leased) 9000000000 (k_feedback_fault_timeout demo_config)"
    by code_simp+
  moreover have "\<not> liftPowerEnabled demo_config demo_leased 9000000000"
    using stale by (simp add: liftPowerEnabled_def)
  ultimately show ?thesis
    using brake_release_rolled_back [of "\<lparr>ba_release = True, ba_reason = []\<rparr>"
        "Some \<lparr>nr_success = True, nr_message = ''x''\<rparr>" "\<lparr>nr_success = True, nr_message = ''x''\<rparr>"
        "[(demo_leased, 9000000000)]" demo_config] by simp
qed

text \<open>A lock queued by \<open>HOLD\<close> is not withdrawn by the next \<open>FOLLOW_POSITION\<close>: as soon as the lift stands
  still, it is requested although the gateway is following.\<close>

lemma queued_lock_survives_follow:
  assumes "br_lock_pending (g_brake g)" "\<not> br_locked (g_brake g)" "\<not> br_transition (g_brake g)"
    and "k_brake_client k" "c_mode c = MODE_FOLLOW_POSITION"
    and "lift_stationary k (fst (dispatchUserCommand k c now g)) later"
  shows "g_state (fst (dispatchUserCommand k c now g)) = ST_FOLLOWING"
    and "snd (takePendingBrakeAction k later (fst (dispatchUserCommand k c now g))) =
      Some \<lparr>ba_release = False, ba_reason = br_pending_reason (g_brake g)\<rparr>"
proof -
  have "g_brake (fst (dispatchUserCommand k c now g)) = g_brake g"
    using assms(5) by (simp add: dispatchUserCommand_def dispatch_brake_def gw_consts Let_def)
  then show "snd (takePendingBrakeAction k later (fst (dispatchUserCommand k c now g))) =
      Some \<lparr>ba_release = False, ba_reason = br_pending_reason (g_brake g)\<rparr>"
    using assms by (simp add: takePendingBrakeAction_def Let_def)
  show "g_state (fst (dispatchUserCommand k c now g)) = ST_FOLLOWING"
    using assms(5) by (simp add: dispatchUserCommand_def mode_state_def Let_def)
qed

section \<open>Feedback\<close>

lemma index_of_Some: "index_of xs x = Some i \<Longrightarrow> i < length xs \<and> xs ! i = x"
  by (induction xs arbitrary: i) (auto split: if_splits)

lemma index_of_None: "index_of xs x = None \<longleftrightarrow> x \<notin> set xs"
  by (induction xs) auto

lemma index_of_distinct:
  assumes "distinct xs" "i < length xs"
  shows "xs ! i = x \<longleftrightarrow> index_of xs x = Some i"
proof
  assume x: "xs ! i = x"
  then obtain j where "index_of xs x = Some j"
    using index_of_None [of xs x] nth_mem [OF assms(2)] by auto
  moreover from this have "j = i"
    using index_of_Some [of xs x j] x assms nth_eq_iff_index_eq by blast
  ultimately show "index_of xs x = Some i" by simp
qed (simp add: index_of_Some)

text \<open>The sources of a message that carry the name of arm resource \<open>i\<close>, among the first \<open>n\<close>.\<close>

definition sources_of :: "gw_config \<Rightarrow> joint_state_msg \<Rightarrow> nat \<Rightarrow> nat \<Rightarrow> nat list" where
  "sources_of k m i n = filter (\<lambda>s. jm_name m ! s = k_arm_native_names k ! i) [0..<n]"

lemma sources_of_Suc:
  "sources_of k m i (Suc n) = sources_of k m i n @
     (if jm_name m ! n = k_arm_native_names k ! i then [n] else [])"
  by (simp add: sources_of_def)

definition arm_prefix :: "gw_config \<Rightarrow> joint_state_msg \<Rightarrow> nat \<Rightarrow> arm_sample" where
  "arm_prefix k m n = fold (arm_sample_step k m) [0..<n] arm_sample_init"

lemma arm_prefix_simps [simp]:
  "arm_prefix k m 0 = arm_sample_init"
  "arm_prefix k m (Suc n) = arm_sample_step k m n (arm_prefix k m n)"
  by (simp_all add: arm_prefix_def)

lemma resource_bit [simp]:
  "i < 14 \<Longrightarrow> j < 14 \<Longrightarrow> bit (push_bit (Suc i) 1 :: u16) (Suc j) \<longleftrightarrow> i = j"
  by (auto simp: bit_simps)

lemma arm_prefix_lengths:
  "length (as_seen (arm_prefix k m n)) = 14 \<and> length (as_positions (arm_prefix k m n)) = 14 \<and>
   length (as_velocities (arm_prefix k m n)) = 14"
  by (induction n) (auto simp: arm_sample_init_def zeros_def arm_sample_step_def Let_def split: option.split)

lemma arm_prefix_exact:
  fixes m :: joint_state_msg
  assumes "distinct (k_arm_native_names k)" "length (k_arm_native_names k) = 14" "i < 14"
  defines "a \<equiv> arm_prefix k m" and "src \<equiv> sources_of k m i"
  shows "(as_seen (a n) ! i \<longleftrightarrow> src n \<noteq> []) \<and>
    (bit (as_position_mask (a n)) (Suc i) \<longleftrightarrow> (\<exists>s. src n = [s] \<and> finite_at (jm_position m) s)) \<and>
    (bit (as_velocity_mask (a n)) (Suc i) \<longleftrightarrow> (\<exists>s. src n = [s] \<and> finite_at (jm_velocity m) s)) \<and>
    (\<forall>s. src n = [s] \<and> finite_at (jm_position m) s \<longrightarrow> as_positions (a n) ! i = jm_position m ! s) \<and>
    (\<forall>s. src n = [s] \<and> finite_at (jm_velocity m) s \<longrightarrow> as_velocities (a n) ! i = jm_velocity m ! s)"
proof (induction n)
  case 0
  show ?case
    using assms(3) by (simp add: a_def src_def sources_of_def arm_sample_init_def)
next
  case (Suc n)
  note len = arm_prefix_lengths [of k m n]
  show ?case
  proof (cases "index_of (k_arm_native_names k) (jm_name m ! n)")
    case None
    then have "jm_name m ! n \<noteq> k_arm_native_names k ! i"
      using assms(2,3) nth_mem by (fastforce simp: index_of_None)
    with Suc None show ?thesis
      by (simp add: a_def src_def sources_of_Suc arm_sample_step_def)
  next
    case (Some j)
    then have j: "j < 14" and eq: "jm_name m ! n = k_arm_native_names k ! i \<longleftrightarrow> i = j"
      using index_of_Some [OF Some] index_of_distinct [OF assms(1), of i "jm_name m ! n"] assms(2,3) by auto
    show ?thesis
    proof (cases "i = j")
      case False
      with Suc Some j eq assms(3) len show ?thesis
        by (simp add: a_def src_def sources_of_Suc arm_sample_step_def Let_def bit_simps)
    next
      case True
      with Suc Some j eq assms(3) len show ?thesis
        by (cases "src n") (auto simp: a_def src_def sources_of_Suc arm_sample_step_def Let_def bit_simps)
    qed
  qed
qed

lemma arm_prefix_lift_bit:
  "length (k_arm_native_names k) = 14 \<Longrightarrow> \<not> bit (as_position_mask (arm_prefix k m n)) 0 \<and>
     \<not> bit (as_velocity_mask (arm_prefix k m n)) 0"
  by (induction n) (auto simp: arm_sample_init_def arm_sample_step_def Let_def bit_simps split: option.split)

lemma arm_sample_prefix: "arm_sample k m = arm_prefix k m (length (jm_name m))"
  by (simp add: arm_sample_def arm_prefix_def)

text \<open>The arm feedback is exact: after a joint state message the position (velocity) of arm resource \<open>i\<close>
  is valid exactly when one and only one source of the message has its configured name and gives a
  finite position (velocity), and then it is that value; the lift's own validity is untouched.\<close>

theorem arm_feedback_exact:
  assumes "distinct (k_arm_native_names k)" "length (k_arm_native_names k) = 14" "i < 14"
    and "j = g_joints (handleArmJointState k m now g)"
  shows "(bit (js_position_valid_mask j) (i + 1) \<longleftrightarrow>
      (\<exists>s. sources_of k m i (length (jm_name m)) = [s] \<and> finite_at (jm_position m) s)) \<and>
    (bit (js_velocity_valid_mask j) (i + 1) \<longleftrightarrow>
      (\<exists>s. sources_of k m i (length (jm_name m)) = [s] \<and> finite_at (jm_velocity m) s)) \<and>
    (\<forall>s. sources_of k m i (length (jm_name m)) = [s] \<and> finite_at (jm_position m) s \<longrightarrow>
      js_position j ! (i + 1) = jm_position m ! s) \<and>
    (\<forall>s. sources_of k m i (length (jm_name m)) = [s] \<and> finite_at (jm_velocity m) s \<longrightarrow>
      js_velocity j ! (i + 1) = jm_velocity m ! s) \<and>
    bit (js_position_valid_mask j) 0 = bit (js_position_valid_mask (g_joints g)) 0 \<and>
    bit (js_velocity_valid_mask j) 0 = bit (js_velocity_valid_mask (g_joints g)) 0"
  using arm_prefix_exact [OF assms(1-3), of m "length (jm_name m)"]
    arm_prefix_lift_bit [OF assms(2), of m "length (jm_name m)"]
  by (simp add: assms(4) handleArmJointState_def arm_sample_prefix Let_def bit_simps)

theorem arm_feedback_exact_witness:
  "bit (js_position_valid_mask (g_joints (handleArmJointState demo_config demo_arm_joints demo_now demo_leased))) 3"
proof -
  have "sources_of demo_config demo_arm_joints 2 (length (jm_name demo_arm_joints)) = [2]"
    "finite_at (jm_position demo_arm_joints) 2" "distinct (k_arm_native_names demo_config)"
    "length (k_arm_native_names demo_config) = 14"
    by code_simp+
  then show ?thesis
    using arm_feedback_exact [of demo_config 2, OF _ _ _ refl, of demo_arm_joints demo_now demo_leased] by simp
qed

lemma and_join: "(w :: u16) AND 0x7ffe = 0x7ffe \<Longrightarrow> w AND 0x0001 \<noteq> 0 \<Longrightarrow> w AND 0x7fff = 0x7fff"
proof -
  assume w: "w AND 0x7ffe = 0x7ffe" "w AND 0x0001 \<noteq> 0"
  then have "w AND 1 = 1"
    by (simp add: and_one_eq odd_iff_mod_2_eq_one)
  moreover have "(0x7fff :: u16) = 0x7ffe OR 1"
    by simp
  ultimately show "w AND 0x7fff = 0x7fff"
    using w by (simp only: bit.conj_disj_distrib)
qed

lemma trim_fresh:
  "arm_joints_fresh k g now \<Longrightarrow> lift_joint_fresh k g now \<Longrightarrow> trim_mask k g now w = w"
  by (simp add: trim_mask_def)

lemma bit_lift_mask [simp]: "bit (0x0001 :: u16) n \<longleftrightarrow> n = 0"
  by (simp add: bit_1_iff)

lemma bit_arm_mask [simp]: "\<not> bit (0x7ffe :: u16) 0"
  by simp

lemma trim_bits:
  "bit (trim_mask k g now w) 0 \<Longrightarrow> lift_joint_fresh k g now"
  "bit (trim_mask k g now w) (Suc n) \<Longrightarrow> arm_joints_fresh k g now"
  by (auto simp: trim_mask_def Let_def bit_simps split: if_splits)

text \<open>A published feedback never vouches for old data: its sequence number is the next one, a set bit
  of the lift (of an arm joint) means that the lift (the arm) was heard within the timeout, the owner
  is named only under a lease, and while a lease is active only complete feedback is published at
  all, with all fifteen positions and velocities valid.\<close>

theorem feedback_complete_under_lease:
  assumes "publishFeedback k now g = (Some m, h)"
  shows "fb_sequence m = ct_feedback_sequence (g_count g) + 1 \<and>
    ct_feedback_sequence (g_count h) = fb_sequence m \<and>
    (bit (fb_position_valid_mask m) 0 \<or> bit (fb_velocity_valid_mask m) 0 \<longrightarrow> lift_joint_fresh k g now) \<and>
    (\<forall>n. bit (fb_position_valid_mask m) (Suc n) \<or> bit (fb_velocity_valid_mask m) (Suc n) \<longrightarrow>
       arm_joints_fresh k g now) \<and>
    (\<not> g_active g \<longrightarrow> fb_active_owner_id m = '''') \<and>
    (g_active g \<longrightarrow> fb_position_valid_mask m AND 0x7fff = 0x7fff \<and>
       fb_velocity_valid_mask m AND 0x7fff = 0x7fff)"
proof -
  define g1 where "g1 = g\<lparr>g_count := (g_count g)\<lparr>ct_last_feedback_publish_time := now,
      ct_feedback_sequence := ct_feedback_sequence (g_count g) + 1\<rparr>\<rparr>"
  have go: "\<not> (g_active g \<and> \<not> jointFeedbackComplete k g now)"
  proof
    assume "g_active g \<and> \<not> jointFeedbackComplete k g now"
    then have "publishFeedback k now g = (None, g)"
      by (simp add: publishFeedback_def)
    with assms show False by simp
  qed
  have m: "fb_sequence m = ct_feedback_sequence (g_count g) + 1" "h = g1"
    "fb_position_valid_mask m = trim_mask k g1 now (js_position_valid_mask (g_joints g))"
    "fb_velocity_valid_mask m = trim_mask k g1 now (js_velocity_valid_mask (g_joints g))"
    "fb_active_owner_id m = (if g_active g then le_owner_id (g_lease g) else '''')"
    using assms go [unfolded de_Morgan_conj not_not]
    unfolding publishFeedback_def Let_def case_prod_beta g1_def [symmetric] if_not_P [OF go]
    by (auto simp: g1_def)
  have same: "arm_joints_fresh k g1 now = arm_joints_fresh k g now"
    "lift_joint_fresh k g1 now = lift_joint_fresh k g now"
    by (simp_all add: g1_def arm_joints_fresh_def lift_joint_fresh_def)
  have "fb_position_valid_mask m AND 0x7fff = 0x7fff \<and> fb_velocity_valid_mask m AND 0x7fff = 0x7fff"
    if "g_active g"
    using that go and_join m(3,4) same trim_fresh [of k g1 now]
    by (simp add: jointFeedbackComplete_def)
  then show ?thesis
    using m same trim_bits [of k g1 now] by (auto simp: g1_def)
qed

theorem feedback_complete_under_lease_witness:
  "fb_position_valid_mask (the (fst (publishFeedback demo_config demo_now demo_leased))) AND 0x7fff = 0x7fff"
proof -
  have "let g = demo_leased in fst (publishFeedback demo_config demo_now g) \<noteq> None \<and>
      g_active g"
    by code_simp
  then have "fst (publishFeedback demo_config demo_now demo_leased) \<noteq> None"
    "g_active demo_leased"
    unfolding Let_def by simp_all
  then obtain m h where "publishFeedback demo_config demo_now demo_leased = (Some m, h)"
    by (cases "publishFeedback demo_config demo_now demo_leased") auto
  then show ?thesis
    using feedback_complete_under_lease [of demo_config demo_now demo_leased m h] \<open>g_active demo_leased\<close> by simp
qed

end
