(* ===== verification/LiftControlProps.thy ===== *)
theory LiftControlProps
  imports LiftControl HeavySafety
begin

text \<open>
  The lift controller over whole runs, its queues, its services and its part of the protocol with the
  Heavy gateway.
\<close>

section \<open>Every run from an activation\<close>

text \<open>A reset does not depend on the state before it, so the invariant holds from the first activation on.\<close>

lemma reset_forgets: "profile_reset rst x v a (p\<lparr>mp_state := m\<rparr>) = profile_reset rst x v a p"
  by (simp add: profile_reset_def apply_limits_def Let_def)

lemma configure_some:
  assumes "ctl_configure cfg p0 = Some p"
  shows "limits_ok (lcc_limits cfg)" "mp_limits p = lcc_limits cfg" "mp_configured p"
    "isfinite (lcc_goal_tolerance_m cfg)"
proof -
  obtain r where r: "profile_configure (lcc_limits cfg) p0 = (p, r)" "r = Inr ()"
    and tol: "isfinite (lcc_goal_tolerance_m cfg)"
    using assms by (auto simp: ctl_configure_def split: prod.splits sum.splits if_splits)
  then show "limits_ok (lcc_limits cfg)" "mp_limits p = lcc_limits cfg" "mp_configured p"
    using configure_ok [of "lcc_limits cfg" p0] by simp_all
  show "isfinite (lcc_goal_tolerance_m cfg)"
    by (rule tol)
qed

definition rest_output :: "ctl_config \<Rightarrow> ctl_output" where
  "rest_output cfg = \<lparr>co_position = ml_min_position_m (lcc_limits cfg), co_velocity = 0, co_acceleration = 0,
     co_power_enable = 0\<rparr>"

lemma activated_inv:
  assumes "ctl_configure cfg p0 = Some p"
    and "ctl_activate rst cfg 4 3 x v e (ctl_initial p out) = (s, True)"
  shows "ctl_inv cfg s"
proof -
  let ?m = "motion_sample_default\<lparr>ms_position_m := ml_min_position_m (lcc_limits cfg)\<rparr>"
  let ?s = "ctl_initial (p\<lparr>mp_state := ?m\<rparr>) (rest_output cfg)"
  note conf = configure_some [OF assms(1)]
  obtain lo hi where l: "ml_min_position_m (lcc_limits cfg) = Fin lo"
    "ml_max_position_m (lcc_limits cfg) = Fin hi" "lo < hi"
    using limits_okE [OF conf(1)] by metis
  have "prof_ok cfg (p\<lparr>mp_state := ?m\<rparr>)"
    using conf l by (simp add: prof_ok_def prof_inv_def sample_ok_def finite_sample_def within_limits_def
        motion_sample_default_def)
  then have "ctl_inv cfg ?s"
    using conf l by (simp add: ctl_inv_def ctl_initial_def queue_ok_def motion_command_default_def sample_ok_def
        finite_sample_def motion_sample_default_def latched_off_def buffers_ok_def shared_unset_def safety_ok_def
        out_ok_def rest_output_def within_limits_def out_latched_def)
  then have "ctl_inv cfg (fst (ctl_activate rst cfg 4 3 x v e ?s))"
    by (rule activate_inv)
  moreover have "fst (ctl_activate rst cfg 4 3 x v e ?s) = s"
    using assms(2)
    by (auto simp: ctl_activate_def Let_def reset_forgets ctl_initial_def upd_sh_def take_profile_state_def
        write_command_interfaces_def split: if_splits)
  ultimately show ?thesis by simp
qed

definition idle_node :: "'o lift_ctl \<Rightarrow> 'o ctl_node" where
  "idle_node s = \<lparr>nd_ctl = s, nd_service = SV_idle, nd_replies = []\<rparr>"

lemma run_node_inv:
  assumes "ctl_configure cfg p0 = Some p"
    and "ctl_activate rst cfg 4 3 x v e (ctl_initial p out) = (s, True)"
  shows "node_inv cfg (run_events (node_step rst upd cfg) (idle_node s) es)"
  by (rule lift_node.run_inv) (simp add: node_inv_def idle_node_def writing_ok_def activated_inv [OF assms])

text \<open>C10: From the first activation on and over every run of cycles, callbacks, service polls, further
  activations and deactivations, whatever the interfaces, the drive and the clients deliver, the
  controller commands a position inside the configured travel with a finite velocity and
  acceleration, and in a fault or an emergency stop it takes the power away.\<close>

theorem commanded_output_safe:
  assumes "ctl_configure cfg p0 = Some p"
    and "ctl_activate rst cfg 4 3 x v e (ctl_initial p out) = (s, True)"
    and "t = nd_ctl (run_events (node_step rst upd cfg) (idle_node s) es)"
  shows "ml_min_position_m (lcc_limits cfg) \<le> co_position (lc_out t) \<and>
    co_position (lc_out t) \<le> ml_max_position_m (lcc_limits cfg) \<and> isfinite (co_velocity (lc_out t)) \<and>
    isfinite (co_acceleration (lc_out t)) \<and>
    (lc_mode t = M_fault \<or> lc_mode t = M_estop \<longrightarrow> co_power_enable (lc_out t) = 0)"
proof -
  have "ctl_inv cfg t"
    using run_node_inv [OF assms(1,2)] assms(3) by (simp add: node_inv_def)
  then show ?thesis
    by (simp add: ctl_inv_def out_ok_def within_limits_def out_latched_def)
qed

lemma demo_configure:
  "ctl_configure demo_ctl_config fresh_profile = Some (fst (profile_configure sample_limits fresh_profile))"
  by (simp add: ctl_configure_def demo_ctl_config_def profile_configure_def sample_limits_def)

lemma demo_activate: "snd (ctl_activate rst demo_ctl_config 4 3 (Fin (1 / 2)) (Fin 0) (Fin 0) s)"
  by (simp add: ctl_activate_def Let_def)

text \<open>What an activation of the demonstration leaves.\<close>

lemma demo_activated_views:
  assumes "ctl_activate id demo_ctl_config 4 3 (Fin (1 / 2)) (Fin 0) (Fin 0)
      (ctl_initial (fst (profile_configure sample_limits fresh_profile)) (rest_output demo_ctl_config)) = (s, True)"
  shows "lc_dr s = driver_unset" "lc_applied_zero_generation s = 0" "\<not> sh_heavy_lease_active (lc_sh s)"
    "sh_pending_trajectory (lc_sh s) = None" "sh_safety_command_generation (lc_sh s) = 0"
    "lc_consumed_safety_generation s = 0" "sh_motion_generation (lc_sh s) = 0"
    "sh_cancellation_generation (lc_sh s) = 0" "lc_consumed_generation s = 0" "\<not> lc_lease_rt s"
    "lc_mode s = M_hold" "ms_velocity_mps (lc_sample s) = 0" "sh_active (lc_sh s)"
    "sh_completed_hold_generation (lc_sh s) = 0" "sh_trajectory_active (lc_sh s) = False"
proof -
  have s: "s = fst (ctl_activate id demo_ctl_config 4 3 (Fin (1 / 2)) (Fin 0) (Fin 0)
      (ctl_initial (fst (profile_configure sample_limits fresh_profile)) (rest_output demo_ctl_config)))"
    using assms by simp
  show "lc_dr s = driver_unset" "lc_applied_zero_generation s = 0" "\<not> sh_heavy_lease_active (lc_sh s)"
    "sh_pending_trajectory (lc_sh s) = None" "sh_safety_command_generation (lc_sh s) = 0"
    "lc_consumed_safety_generation s = 0" "sh_motion_generation (lc_sh s) = 0"
    "sh_cancellation_generation (lc_sh s) = 0" "lc_consumed_generation s = 0" "\<not> lc_lease_rt s"
    "lc_mode s = M_hold" "ms_velocity_mps (lc_sample s) = 0" "sh_active (lc_sh s)"
    "sh_completed_hold_generation (lc_sh s) = 0" "sh_trajectory_active (lc_sh s) = False"
    unfolding s
    by (simp_all add: ctl_activate_def Let_def upd_sh_def take_profile_state_def write_command_interfaces_def
      ctl_initial_def profile_reset_def apply_limits_def profile_configure_def sample_limits_def shared_unset_def
      drop_pending_def finite_sample_def clamp_travel_def)
qed

text \<open>The interfaces fail, then a stream sample far outside the travel arrives.\<close>

theorem commanded_output_safe_witness:
  "\<exists>s. ctl_activate id demo_ctl_config 4 3 (Fin (1 / 2)) (Fin 0) (Fin 0)
      (ctl_initial (fst (profile_configure sample_limits fresh_profile)) (rest_output demo_ctl_config)) = (s, True) \<and>
    co_position (lc_out (nd_ctl (run_events (node_step id jump_otg demo_ctl_config) (idle_node s)
      [EV_cycle ((demo_cycle 1)\<lparr>cy_position := NaN\<rparr>),
       EV_callback (CB_stream \<lparr>tp_positions = [Fin 7], tp_velocities = [PInf], tp_accelerations = [],
         tp_sec = 0, tp_nanosec = 0\<rparr>), EV_service 2, EV_cycle (demo_cycle 3)]))) \<le> 1"
proof -
  obtain s where s: "ctl_activate id demo_ctl_config 4 3 (Fin (1 / 2)) (Fin 0) (Fin 0)
      (ctl_initial (fst (profile_configure sample_limits fresh_profile)) (rest_output demo_ctl_config)) = (s, True)"
    using demo_activate by (metis prod.collapse)
  have "ml_max_position_m (lcc_limits demo_ctl_config) = 1"
    by (simp add: demo_ctl_config_def sample_limits_def)
  then show ?thesis
    using commanded_output_safe [OF demo_configure s refl] s by (intro exI [of _ s]) metis
qed

text \<open>C12: While the drive reports a latched emergency stop, every readable cycle commands standstill at
  the measured position with the power off, and drops the command that waits for the gate and the
  trajectory.\<close>

theorem estop_stops_lift:
  assumes "ctl_configure cfg p0 = Some p"
    and "ctl_activate rst cfg 4 3 x v e (ctl_initial p out) = (s, True)"
    and "t = nd_ctl (run_events (node_step rst upd cfg) (idle_node s) es)"
    and "ds_estop_latched (lc_dr t)" "readable cy" "ctl_update rst upd cfg cy t = (u, ok)"
  shows "lc_out u = \<lparr>co_position = clamp_travel cfg (cy_position cy), co_velocity = 0, co_acceleration = 0,
      co_power_enable = 0\<rparr> \<and> lc_mode u = M_estop \<and> \<not> lc_gated_valid u \<and> lc_active_trajectory u = None"
proof -
  have t: "ctl_inv cfg t"
    using run_node_inv [OF assms(1,2)] assms(3) by (simp add: node_inv_def)
  let ?r = "read_state_interfaces cy t"
  have r: "ctl_inv cfg ?r" "isfinite (lc_position ?r)"
    using read_inv [OF t] assms(5) by (simp_all add: readable_def)
  have "u = estop_cycle rst cfg cy ?r"
    using assms(4-6) by (simp add: ctl_update_def readable_def Let_def)
  moreover have "clamp_travel cfg (clamp_travel cfg (cy_position cy)) = clamp_travel cfg (cy_position cy)"
    using limits_clamps(2) [of cfg "lc_profile t" "cy_position cy"] t assms(5)
    unfolding clamp_travel_def [of cfg "clamp_travel cfg (cy_position cy)"]
    by (intro dclamp_id) (simp_all add: ctl_inv_def readable_def within_limits_def)
  ultimately show ?thesis
    using estop_cycle_ok(2-5) [OF r] by simp
qed

lemma demo_estop_status:
  "json_bool (quoted_key ''estop_latched'' @ ''true'') ''estop_latched''"
  by (simp add: json_bool_def quoted_key_def)

theorem estop_stops_lift_witness:
  "\<exists>s. ctl_activate id demo_ctl_config 4 3 (Fin (1 / 2)) (Fin 0) (Fin 0)
      (ctl_initial (fst (profile_configure sample_limits fresh_profile)) (rest_output demo_ctl_config)) = (s, True) \<and>
    co_power_enable (lc_out (fst (ctl_update id jump_otg demo_ctl_config (demo_cycle 3)
      (nd_ctl (run_events (node_step id jump_otg demo_ctl_config) (idle_node s)
        [EV_cycle (demo_cycle 1), EV_callback (CB_status 2 (quoted_key ''estop_latched'' @ ''true''))]))))) = 0"
proof -
  obtain s where s: "ctl_activate id demo_ctl_config 4 3 (Fin (1 / 2)) (Fin 0) (Fin 0)
      (ctl_initial (fst (profile_configure sample_limits fresh_profile)) (rest_output demo_ctl_config)) = (s, True)"
    using demo_activate by (metis prod.collapse)
  let ?es = "[EV_cycle (demo_cycle 1), EV_callback (CB_status 2 (quoted_key ''estop_latched'' @ ''true''))]"
  have "ds_estop_latched (lc_dr (nd_ctl (run_events (node_step id jump_otg demo_ctl_config) (idle_node s) ?es)))"
    by (simp add: idle_node_def on_driver_status_def parse_driver_status_def demo_estop_status Let_def)
  from estop_stops_lift [OF demo_configure s refl this demo_readable prod.collapse [symmetric]] show ?thesis
    using s by (intro exI [of _ s]) simp
qed

section \<open>What the queues and the answers depend on\<close>

text \<open>What only a safety command, the confirmation of a hold, an acknowledgement or a re-zero changes.\<close>

definition answers :: "'o lift_ctl \<Rightarrow> u64 \<times> u64 \<times> u64 \<times> u64 list \<times> u64" where
  "answers s = (sh_applied_cancellation_generation (lc_sh s), lc_consumed_safety_generation s,
     sh_completed_hold_generation (lc_sh s), sh_acks (lc_sh s), lc_applied_zero_generation s)"

named_theorems answer_frame \<open>steps of a cycle that answer nothing\<close>

lemma answers_small [answer_frame]:
  "answers (request_brake b s) = answers s"
  "answers (hold_profile rst x s) = answers s"
  "answers (take_profile_state s) = answers s"
  "answers (run_profile rst upd dt s) = answers s"
  "answers (fail_pending_hold st s) = answers s"
  "answers (enter_hold rst cfg x s) = answers s"
  "answers (begin_brake_gate rst now c s) = answers s"
  "answers (begin_soft_stop rst k g s) = answers s"
  "answers (record_lift_fault now code d s) = answers s"
  "answers (write_command_interfaces cfg m s) = answers s"
  "answers (fst (log_gate_diagnostics cfg now s)) = answers s"
  "answers (read_state_interfaces cy s) = answers s"
  "answers (follow_lease s) = answers s"
  "answers (upd_sh drop_pending s) = answers s"
  "answers (upd_sh (\<lambda>h. h\<lparr>sh_consumed_trajectory_generation := sh_pending_trajectory_generation h\<rparr>) s) = answers s"
  by (simp_all add: answers_def request_brake_def upd_sh_def hold_profile_def take_profile_state_def
      run_profile_def fail_pending_hold_def enter_hold_def begin_brake_gate_def begin_soft_stop_def
      record_lift_fault_def write_command_interfaces_def log_gate_diagnostics_def read_state_interfaces_def follow_lease_def drop_pending_def Let_def split_beta)

lemma answers_updates [simp]:
  "answers (s\<lparr>lc_profile := p\<rparr>) = answers s" "answers (s\<lparr>lc_sample := m\<rparr>) = answers s"
  "answers (s\<lparr>lc_consumed_generation := g\<rparr>) = answers s"
  "answers (s\<lparr>lc_consumed_heavy_generation := g\<rparr>) = answers s"
  "answers (s\<lparr>lc_pending_follow_ack := g\<rparr>) = answers s" "answers (s\<lparr>lc_gated := c\<rparr>) = answers s"
  "answers (s\<lparr>lc_gated_valid := b\<rparr>) = answers s" "answers (s\<lparr>lc_active_trajectory := t\<rparr>) = answers s"
  "answers (s\<lparr>lc_active_trajectory_generation := g\<rparr>) = answers s"
  "answers (s\<lparr>lc_point_index := i\<rparr>) = answers s" "answers (s\<lparr>lc_elapsed_sec := e\<rparr>) = answers s"
  "answers (s\<lparr>lc_waiting_at_point := b\<rparr>) = answers s" "answers (s\<lparr>lc_mode := md\<rparr>) = answers s"
  "answers (s\<lparr>lc_goal_stable_active := b\<rparr>) = answers s"
  "answers (s\<lparr>lc_pending_hold_generation := g\<rparr>) = answers s"
  "answers (s\<lparr>lc_goal_stable_since := t2\<rparr>) = answers s"
  "answers (s\<lparr>lc_gate_stable_since := t2\<rparr>) = answers s" "answers (s\<lparr>lc_last_jog_time := t2\<rparr>) = answers s"
  by (simp_all add: answers_def)

lemma answers_push [answer_frame]:
  "answers (if b then s else t) = (if b then answers s else answers t)"
  "answers (case ob of None \<Rightarrow> s | Some x \<Rightarrow> f x) = (case ob of None \<Rightarrow> answers s | Some x \<Rightarrow> answers (f x))"
  by (auto split: option.split)

lemmas answers_push_rules = answers_updates inputs_push(2) if_cancel fst_conv Let_def split_beta

lemma answers_point [answer_frame]: "answers (snd (start_trajectory_point rst cfg i s)) = answers s"
  by (simp add: start_trajectory_point_def Let_def split: option.split)

lemma answers_gated [answer_frame]: "answers (start_gated_motion rst cfg now s) = answers s"
  using answers_point [of rst cfg 0]
  by (simp add: start_gated_motion_def Let_def split_beta answer_frame split: command_type.split option.split)

lemma answers_admit [answer_frame]: "answers (admit_cycle rst cfg cy s) = answers s"
proof -
  let ?s = "follow_lease (leave_estop rst cfg s)"
  have s: "answers ?s = answers s"
    by (simp add: leave_estop_def answer_frame)
  obtain s1 t where t: "take_trajectory cy ?s = (s1, t)" by fastforce
  have "answers s1 = answers ?s"
    using t by (auto simp: take_trajectory_def Let_def answer_frame split: option.splits if_splits)
  then show ?thesis
    using s by (cases t) (simp_all add: admit_cycle_def pick_up_trajectory_def t answer_frame)
qed

lemma answers_stop [answer_frame]: "answers (stop_or_hold rst cfg False c s) = answers s"
  by (simp only: stop_or_hold_def answer_frame answers_push_rules if_False)

lemma answers_jog [answer_frame]: "answers (follow_jog rst cfg now c s) = answers s"
  by (simp add: follow_jog_def Let_def answer_frame split: option.split)

lemma answers_dispatch [answer_frame]:
  "src \<noteq> From_safety \<Longrightarrow> answers (fst (dispatch_command rst cfg now src c s)) = answers s"
  by (simp only: dispatch_command_def answer_frame answers_push_rules simp_thms)

text \<open>Unless a safety command is new, taking a command answers nothing.\<close>

lemma answers_handle:
  assumes "sh_safety_command_generation (lc_sh s) = lc_consumed_safety_generation s"
  shows "answers (fst (handle_command rst cfg now s)) = answers s"
proof -
  obtain s1 r where r: "select_command s = (s1, r)" by fastforce
  have s1: "answers s1 = answers s" "\<And>src c. r = Some (src, c) \<Longrightarrow> src \<noteq> From_safety"
    using r assms by (auto simp: select_command_def Let_def split: if_splits)
  show ?thesis
  proof (cases r)
    case None
    then show ?thesis
      using s1 by (simp add: handle_command_def r)
  next
    case (Some sc)
    then show ?thesis
      using s1(1) answers_dispatch [OF s1(2), of "fst sc" "snd sc" rst cfg now "snd sc" s1]
      by (simp add: handle_command_def r split_beta Let_def)
  qed
qed

lemma answers_trajectory [answer_frame]: "answers (trajectory_cycle rst upd cfg dt t s) = answers s"
proof -
  let ?s1 = "run_profile rst upd dt (s\<lparr>lc_elapsed_sec := lc_elapsed_sec s + dt\<rparr>)"
  obtain ok s2 where r: "start_trajectory_point rst cfg (lc_point_index ?s1 + 1)
      (?s1\<lparr>lc_point_index := lc_point_index ?s1 + 1\<rparr>) = (ok, s2)" by fastforce
  have "answers s2 = answers s"
    using answers_point [of rst cfg "lc_point_index ?s1 + 1"
        "?s1\<lparr>lc_point_index := lc_point_index ?s1 + 1\<rparr>"] unfolding r by (simp add: answer_frame)
  then show ?thesis
    using r by (cases ok) (simp_all add: trajectory_cycle_def answer_frame Let_def)
qed

lemma answers_motion [answer_frame]:
  "answers (check_gate rst cfg now s) = answers s"
  "answers (fst (brake_gate_cycle rst upd cfg now dt sb)) = answers (fst sb)"
  "answers (check_sample rst cfg now s) = answers s"
  "answers (finish_soft_stop rst cfg s) = answers s"
  "answers (check_target rst cfg now s) = answers s"
  by (simp_all only: check_gate_def brake_gate_cycle_def check_sample_def finish_soft_stop_def
      check_target_def answer_frame answers_push_rules)

lemma answers_run [answer_frame]: "answers (fst (run_mode rst upd cfg now dt sb)) = answers (fst sb)"
  by (simp only: run_mode_def answer_frame answers_push_rules prod.collapse)

lemma answers_motion_cycle [answer_frame]:
  "answers (fst (motion_cycle rst upd cfg cy sb)) = answers (fst sb)"
  by (simp add: motion_cycle_def Let_def split_beta answer_frame)

lemma answers_confirm:
  "sh_applied_cancellation_generation (lc_sh (confirm_pending_hold cfg s)) =
     sh_applied_cancellation_generation (lc_sh s)"
  "lc_consumed_safety_generation (confirm_pending_hold cfg s) = lc_consumed_safety_generation s"
  "sh_acks (lc_sh (confirm_pending_hold cfg s)) = sh_acks (lc_sh s)"
  by (simp_all add: confirm_pending_hold_def fail_pending_hold_def upd_sh_def Let_def)

lemma answers_resync:
  "sh_applied_cancellation_generation (lc_sh (apply_zero_frame_resync rst cfg s)) =
     sh_applied_cancellation_generation (lc_sh s)"
  "lc_consumed_safety_generation (apply_zero_frame_resync rst cfg s) = lc_consumed_safety_generation s"
  "sh_completed_hold_generation (lc_sh (apply_zero_frame_resync rst cfg s)) =
     sh_completed_hold_generation (lc_sh s)"
  "sh_acks (lc_sh (apply_zero_frame_resync rst cfg s)) = sh_acks (lc_sh s)"
  by (simp_all add: apply_zero_frame_resync_def take_profile_state_def hold_profile_def Let_def)

lemma answers_ack:
  "sh_applied_cancellation_generation (lc_sh (ack_consumed h s)) = sh_applied_cancellation_generation (lc_sh s)"
  "sh_applied_cancellation_generation (lc_sh (ack_follow cfg now b s)) =
     sh_applied_cancellation_generation (lc_sh s)"
  "lc_consumed_safety_generation (ack_consumed h s) = lc_consumed_safety_generation s"
  "lc_consumed_safety_generation (ack_follow cfg now b s) = lc_consumed_safety_generation s"
  "sh_completed_hold_generation (lc_sh (ack_consumed h s)) = sh_completed_hold_generation (lc_sh s)"
  "sh_completed_hold_generation (lc_sh (ack_follow cfg now b s)) = sh_completed_hold_generation (lc_sh s)"
  by (simp_all add: ack_consumed_def ack_follow_def upd_sh_def publish_ack_def split: option.split)

section \<open>A STOP can be lost\<close>

text \<open>After a command is taken, the rest of a cycle leaves the cancellation alone.\<close>

lemma rest_keeps_safety:
  assumes "motion_cycle rst upd cfg cy (s2, streamed) = (s3, streamed2)"
    and "t = ack_follow cfg now b (ack_consumed heavy (emit_cycle rst cfg now s3))"
  shows "sh_applied_cancellation_generation (lc_sh t) = sh_applied_cancellation_generation (lc_sh s2)"
    "lc_consumed_safety_generation t = lc_consumed_safety_generation s2"
proof -
  have m: "answers s3 = answers s2"
    using answers_motion_cycle [of rst upd cfg cy "(s2, streamed)"] unfolding assms(1) by simp
  let ?l = "fst (log_gate_diagnostics cfg now (apply_zero_frame_resync rst cfg s3))"
  have "answers (write_command_interfaces cfg (lc_sample ?l) ?l) = answers (apply_zero_frame_resync rst cfg s3)"
    by (simp add: answer_frame)
  then show "sh_applied_cancellation_generation (lc_sh t) = sh_applied_cancellation_generation (lc_sh s2)"
    "lc_consumed_safety_generation t = lc_consumed_safety_generation s2"
    using m by (simp_all add: assms(2) answers_ack emit_cycle_def Let_def answers_confirm)
      (simp_all add: answers_def answers_resync)
qed

text \<open>A cycle that runs reads the safety buffer once a generation is new. If the buffer still holds nothing,
  the generation is used up all the same.\<close>

lemma update_uses_up:
  assumes "readable cy" "\<not> ds_estop_latched (lc_dr s)" "t = fst (ctl_update rst upd cfg cy s)"
    and "sh_safety_command_generation (lc_sh s) = lc_consumed_safety_generation s \<or>
      mo_generation (sh_safety_command (lc_sh s)) = 0"
  shows "sh_applied_cancellation_generation (lc_sh t) = sh_applied_cancellation_generation (lc_sh s)"
    "lc_consumed_safety_generation t = sh_safety_command_generation (lc_sh s)"
    "inputs t = inputs (read_state_interfaces cy s)"
proof -
  let ?r = "read_state_interfaces cy s"
  have r: "sh_safety_command_generation (lc_sh ?r) = sh_safety_command_generation (lc_sh s)"
    "sh_safety_command (lc_sh ?r) = sh_safety_command (lc_sh s)" "answers ?r = answers s"
    by (simp_all add: read_state_interfaces_def upd_sh_def answers_def)
  obtain s1 s2 streamed heavy s3 streamed2 where st:
    "s1 = admit_cycle rst cfg cy ?r" "handle_command rst cfg (cy_now cy) s1 = (s2, streamed, heavy)"
    "motion_cycle rst upd cfg cy (s2, streamed) = (s3, streamed2)"
    "ctl_update rst upd cfg cy s = (ack_follow cfg (cy_now cy) streamed2
       (ack_consumed heavy (emit_cycle rst cfg (cy_now cy) s3)), True)"
    "inputs s1 = inputs ?r" "inputs s2 = inputs s1" "inputs s3 = inputs s1"
    using ctl_update_stages [OF assms(1,2)] by blast
  have a1: "answers s1 = answers s"
    by (simp add: st(1) answer_frame)
  have g1: "sh_safety_command_generation (lc_sh s1) = sh_safety_command_generation (lc_sh s)"
    "sh_safety_command (lc_sh s1) = sh_safety_command (lc_sh s)"
    using inputsD(6,10) [OF st(5)] r by simp_all
  have "sh_applied_cancellation_generation (lc_sh s2) = sh_applied_cancellation_generation (lc_sh s1) \<and>
      lc_consumed_safety_generation s2 = sh_safety_command_generation (lc_sh s1)"
  proof (cases "sh_safety_command_generation (lc_sh s1) = lc_consumed_safety_generation s1")
    case True
    have "answers s2 = answers s1"
      using answers_handle [OF True, of rst cfg "cy_now cy"] unfolding st(2) by simp
    with True show ?thesis
      by (simp add: answers_def)
  next
    case False
    then have "mo_generation (sh_safety_command (lc_sh s1)) = 0"
      using assms(4) a1 g1 by (auto simp: answers_def)
    with False have "s2 = s1\<lparr>lc_consumed_safety_generation := sh_safety_command_generation (lc_sh s1)\<rparr>"
      using st(2) by (simp add: handle_command_def select_command_def is_new_def Let_def)
    then show ?thesis
      by simp
  qed
  moreover have t: "t = ack_follow cfg (cy_now cy) streamed2
       (ack_consumed heavy (emit_cycle rst cfg (cy_now cy) s3))"
    by (simp add: assms(3) st(4))
  ultimately show "sh_applied_cancellation_generation (lc_sh t) = sh_applied_cancellation_generation (lc_sh s)"
    "lc_consumed_safety_generation t = sh_safety_command_generation (lc_sh s)"
    using rest_keeps_safety [OF st(3) t] a1 g1 by (simp_all add: answers_def)
  show "inputs t = inputs ?r"
    using st by (simp add: t ctl_frame)
qed

lemma update_keeps_safety:
  assumes "sh_safety_command_generation (lc_sh s) = lc_consumed_safety_generation s"
    and t_def: "t = fst (ctl_update rst upd cfg cy s)"
  shows "sh_applied_cancellation_generation (lc_sh t) = sh_applied_cancellation_generation (lc_sh s)"
    "lc_consumed_safety_generation t = lc_consumed_safety_generation s"
    "sh_safety_command_generation (lc_sh t) = sh_safety_command_generation (lc_sh s)"
proof -
  let ?r = "read_state_interfaces cy s"
  have r: "sh_safety_command_generation (lc_sh ?r) = sh_safety_command_generation (lc_sh s)" "answers ?r = answers s"
    by (simp add: read_state_interfaces_def upd_sh_def) (simp add: answer_frame)
  have "sh_applied_cancellation_generation (lc_sh t) = sh_applied_cancellation_generation (lc_sh s) \<and>
      lc_consumed_safety_generation t = lc_consumed_safety_generation s \<and> inputs t = inputs ?r"
  proof (cases "readable cy \<and> \<not> ds_estop_latched (lc_dr s)")
    case True
    then show ?thesis
      using update_uses_up [OF _ _ t_def] assms(1) by simp
  next
    case False
    then have "t = non_finite_cycle cfg cy ?r \<or> t = estop_cycle rst cfg cy ?r"
      by (auto simp: t_def ctl_update_def readable_def Let_def)
    then have "answers t = answers ?r" "inputs t = inputs ?r"
      by (auto simp: non_finite_cycle_def estop_cycle_def Let_def answer_frame ctl_frame)
    then show ?thesis
      using r(2) by (simp add: answers_def)
  qed
  then show "sh_applied_cancellation_generation (lc_sh t) = sh_applied_cancellation_generation (lc_sh s)"
    "lc_consumed_safety_generation t = lc_consumed_safety_generation s"
    "sh_safety_command_generation (lc_sh t) = sh_safety_command_generation (lc_sh s)"
    using inputsD(6) [of t ?r] r by simp_all
qed

text \<open>The STOP service waits for a generation the control thread has used up.\<close>

definition lost_stop :: "u64 \<Rightarrow> u64 \<Rightarrow> (bool \<times> string) list \<Rightarrow> 'o ctl_node \<Rightarrow> bool" where
  "lost_stop g a rs n \<longleftrightarrow>
     sh_applied_cancellation_generation (shared n) = a \<and> sh_safety_command_generation (shared n) = g \<and>
     lc_consumed_safety_generation (nd_ctl n) = g \<and>
     ((\<exists>d. nd_service n = SV_stop_wait g d) \<and> nd_replies n = rs \<or>
      nd_service n = SV_idle \<and> nd_replies n =
        rs @ [(False, ''stage=cancellation: timed out waiting for control-loop acknowledgement'')])"

definition cycle_or_poll :: "ctl_event \<Rightarrow> bool" where
  "cycle_or_poll e \<longleftrightarrow> (case e of EV_cycle _ \<Rightarrow> True | EV_service _ \<Rightarrow> True | _ \<Rightarrow> False)"

lemma lost_stop_stays:
  assumes "lost_stop g a rs n" "a < g" "list_all cycle_or_poll es"
  shows "lost_stop g a rs (run_events (node_step rst upd cfg) n es)"
  using assms(1,3)
proof (induction es arbitrary: n)
  case Nil
  then show ?case by simp
next
  case (Cons e es)
  have "lost_stop g a rs (node_step rst upd cfg n e)"
  proof (cases e)
    case (EV_cycle cy)
    have "sh_safety_command_generation (lc_sh (nd_ctl n)) = lc_consumed_safety_generation (nd_ctl n)"
      using Cons.prems(1) by (simp add: lost_stop_def shared_def)
    from update_keeps_safety [OF this refl, of rst upd cfg cy] show ?thesis
      using Cons.prems(1) EV_cycle by (simp add: lost_stop_def shared_def)
  next
    case (EV_service now)
    have "\<not> g \<le> sh_applied_cancellation_generation (shared n)"
      using Cons.prems(1) assms(2) by (simp add: lost_stop_def)
    then have "service_step cfg now n = n \<or> (\<exists>d. nd_service n = SV_stop_wait g d) \<and>
        service_step cfg now n =
          reply False ''stage=cancellation: timed out waiting for control-loop acknowledgement'' n"
      using Cons.prems(1) by (auto simp: lost_stop_def service_step_def poll_stop_def)
    then show ?thesis
      using Cons.prems(1) EV_service by (auto simp: lost_stop_def reply_def shared_def)
  qed (use Cons.prems(2) in \<open>simp_all add: cycle_or_poll_def\<close>)
  then show ?case
    using Cons by simp
qed

text \<open>A STOP can be lost. \<open>enqueue_safety_command\<close> stores the new generation before it writes the
  buffer; a control cycle between the two consumes the generation and finds the buffer empty. From
  then on no number of cycles applies the STOP, and all the service can answer is its timeout.\<close>

theorem stop_lost_before_write:
  assumes "nd_service n = SV_idle" "sh_active (shared n)"
    and "mo_generation (sh_safety_command (shared n)) = 0"
    and "sh_applied_cancellation_generation (shared n) < sh_motion_generation (shared n) + 1"
    and "readable cy" "\<not> estop_seen n"
    and "m = run_events (node_step rst upd cfg) n [EV_callback CB_stop, EV_cycle cy]"
    and "sh_power_enable_requested (shared m)" "list_all cycle_or_poll es"
    and "q = run_events (node_step rst upd cfg) m (EV_service t # es)"
  shows "sh_applied_cancellation_generation (shared q) = sh_applied_cancellation_generation (shared n) \<and>
    lc_consumed_safety_generation (nd_ctl q) = sh_safety_command_generation (shared q) \<and>
    (nd_replies q = nd_replies n \<or> nd_replies q = nd_replies n @
      [(False, ''stage=cancellation: timed out waiting for control-loop acknowledgement'')])"
proof -
  let ?g = "sh_motion_generation (shared n) + 1" and ?a = "sh_applied_cancellation_generation (shared n)"
  let ?c = "stop_request\<lparr>mo_generation := ?g\<rparr>"
  define n1 where "n1 = node_step rst upd cfg n (EV_callback CB_stop)"
  have n1: "nd_service n1 = SV_writing Safety_buffer ?c AW_stop" "sh_safety_command_generation (shared n1) = ?g"
    "sh_applied_cancellation_generation (shared n1) = ?a" "nd_replies n1 = nd_replies n"
    "sh_safety_command (shared n1) = sh_safety_command (shared n)" "lc_dr (nd_ctl n1) = lc_dr (nd_ctl n)"
    "sh_active (shared n1)"
    using assms(1,2) by (simp_all add: n1_def start_enqueue_def set_shared_def shared_def enqueue_safety_command_def
        next_motion_generation_def cancel_pending_trajectory_def drop_pending_def Let_def)
  have m: "m = n1\<lparr>nd_ctl := fst (ctl_update rst upd cfg cy (nd_ctl n1))\<rparr>"
    by (simp add: assms(7) n1_def)
  have "\<not> ds_estop_latched (lc_dr (nd_ctl n1))" "mo_generation (sh_safety_command (lc_sh (nd_ctl n1))) = 0"
    using assms(3,6) n1 by (simp_all add: estop_seen_def shared_def)
  note used = update_uses_up [OF assms(5) this(1) refl disjI2, OF this(2), of rst upd cfg]
  have act: "sh_active (shared m)" "sh_safety_command_generation (shared m) = ?g"
    using used(3) n1 by (simp_all add: m shared_def inputs_def read_state_interfaces_def upd_sh_def)
  have "lost_stop ?g ?a (nd_replies n) (node_step rst upd cfg m (EV_service t))"
    using n1 used act assms(8)
    by (simp add: lost_stop_def m service_step_def stop_queued_def set_shared_def shared_def write_buffer_def
        Let_def)
  from lost_stop_stays [OF this assms(4,9), of rst upd cfg] show ?thesis
    using assms(10) by (auto simp: lost_stop_def)
qed

text \<open>In the demonstration the STOP meets the powered controller in HOLD.\<close>

lemma power_small:
  "sh_power_enable_requested (lc_sh (confirm_pending_hold cfg s)) = sh_power_enable_requested (lc_sh s)"
  "sh_power_enable_requested (lc_sh (write_command_interfaces cfg m s)) = sh_power_enable_requested (lc_sh s)"
  "sh_power_enable_requested (lc_sh (fst (log_gate_diagnostics cfg now s))) = sh_power_enable_requested (lc_sh s)"
  by (simp_all add: confirm_pending_hold_def fail_pending_hold_def write_command_interfaces_def
      log_gate_diagnostics_def upd_sh_def Let_def)

lemma empty_safety_cycle:
  assumes "readable cy" "\<not> ds_estop_latched (lc_dr s)" "lc_mode s = M_hold"
    and "\<not> sh_heavy_lease_active (lc_sh s)" "\<not> lc_lease_rt s" "sh_pending_trajectory (lc_sh s) = None"
    and "sh_safety_command_generation (lc_sh s) \<noteq> lc_consumed_safety_generation s"
    and "mo_generation (sh_safety_command (lc_sh s)) = 0" "ms_valid (mp_state (lc_profile s))"
    and "lc_pending_hold_generation s = 0" "lc_pending_follow_ack s = 0"
    and "ds_zero_generation (lc_dr s) = lc_applied_zero_generation s"
  shows "sh_power_enable_requested (lc_sh (fst (ctl_update rst upd cfg cy s))) =
    sh_power_enable_requested (lc_sh s)"
proof -
  let ?r = "read_state_interfaces cy s"
  let ?c = "?r\<lparr>lc_consumed_safety_generation := sh_safety_command_generation (lc_sh s)\<rparr>"
  have a: "admit_cycle rst cfg cy ?r = ?r"
    using assms by (simp add: admit_cycle_def pick_up_trajectory_def take_trajectory_def follow_lease_def
        leave_estop_def Let_def read_state_interfaces_def upd_sh_def)
  have h: "handle_command rst cfg (cy_now cy) ?r = (?c, False, None)"
    using assms by (simp add: handle_command_def select_command_def is_new_def Let_def read_state_interfaces_def
        upd_sh_def)
  have m: "motion_cycle rst upd cfg cy (?c, False) =
      ((take_profile_state ?c)\<lparr>lc_goal_stable_active := False\<rparr>, False)"
    using assms by (simp add: motion_cycle_def Let_def check_gate_def run_mode_def check_sample_def
        take_profile_state_def finish_soft_stop_def check_target_def target_stable_def read_state_interfaces_def
        upd_sh_def)
  have "ctl_update rst upd cfg cy s = (emit_cycle rst cfg (cy_now cy)
      ((take_profile_state ?c)\<lparr>lc_goal_stable_active := False\<rparr>), True)"
    using assms(1,2) by (simp add: ctl_update_def Let_def readable_def a h m ack_consumed_def ack_follow_def)
  moreover have "ds_zero_generation (lc_dr X) = lc_applied_zero_generation X"
    if "X = (take_profile_state ?c)\<lparr>lc_goal_stable_active := False\<rparr>" for X
    using assms(12) by (simp add: that take_profile_state_def read_state_interfaces_def upd_sh_def)
  ultimately show ?thesis
    by (simp add: emit_same_frame power_small)
      (simp add: take_profile_state_def read_state_interfaces_def upd_sh_def)
qed

theorem stop_lost_before_write_witness:
  "nd_replies (run_events (node_step id jump_otg demo_ctl_config) (idle_node demo_ctl)
      [EV_callback CB_stop, EV_cycle (demo_cycle 2000000000), EV_service 2000000001,
       EV_cycle (demo_cycle 2010000000), EV_service 3000000001]) \<in>
    {[], [(False, ''stage=cancellation: timed out waiting for control-loop acknowledgement'')]}"
proof -
  let ?s = "node_step id jump_otg demo_ctl_config" and ?n = "idle_node demo_ctl"
  let ?m = "run_events ?s ?n [EV_callback CB_stop, EV_cycle (demo_cycle 2000000000)]"
  let ?es = "[EV_cycle (demo_cycle 2010000000), EV_service 3000000001]"
  define c where "c = nd_ctl (run_callback demo_ctl_config CB_stop ?n)"
  have c: "\<not> ds_estop_latched (lc_dr c)" "lc_mode c = M_hold" "\<not> sh_heavy_lease_active (lc_sh c)"
    "\<not> lc_lease_rt c" "sh_pending_trajectory (lc_sh c) = None"
    "sh_safety_command_generation (lc_sh c) \<noteq> lc_consumed_safety_generation c"
    "mo_generation (sh_safety_command (lc_sh c)) = 0" "ms_valid (mp_state (lc_profile c))"
    "lc_pending_hold_generation c = 0" "lc_pending_follow_ack c = 0"
    "ds_zero_generation (lc_dr c) = lc_applied_zero_generation c" "sh_power_enable_requested (lc_sh c)"
    by (simp_all add: c_def idle_node_def start_enqueue_def set_shared_def shared_def enqueue_safety_command_def
        next_motion_generation_def cancel_pending_trajectory_def drop_pending_def demo_ctl_defs
        demo_profile_simps Let_def)
  have "shared ?m = lc_sh (fst (ctl_update id jump_otg demo_ctl_config (demo_cycle 2000000000) c))"
    by (simp add: shared_def c_def idle_node_def)
  then have power: "sh_power_enable_requested (shared ?m)"
    using empty_safety_cycle [OF demo_readable c(1-11), of id jump_otg demo_ctl_config 2000000000] c(12) by simp
  have start: "nd_service ?n = SV_idle" "sh_active (shared ?n)"
    "mo_generation (sh_safety_command (shared ?n)) = 0" "\<not> estop_seen ?n"
    "sh_applied_cancellation_generation (shared ?n) < sh_motion_generation (shared ?n) + 1"
    by (simp_all add: idle_node_def shared_def estop_seen_def demo_ctl_defs)
  have replies: "nd_replies ?n = []" and es: "list_all cycle_or_poll ?es"
    by (simp_all add: idle_node_def cycle_or_poll_def)
  from stop_lost_before_write [OF start(1-3) start(5) demo_readable start(4) refl power es refl] show ?thesis
    unfolding replies by auto
qed

text \<open>A safety command changes the cancellation and nothing else of this.\<close>

lemma answers_safety_stop:
  "answers (stop_or_hold rst cfg True c s) = (mo_generation c, snd (answers s))"
proof -
  have "answers (stop_or_hold rst cfg True c s) = answers (upd_sh (\<lambda>h.
      (cancel_pending_trajectory (mo_generation c) h)\<lparr>sh_applied_cancellation_generation := mo_generation c\<rparr>) s)"
    by (simp only: stop_or_hold_def answer_frame answers_push_rules if_True)
  then show ?thesis
    by (simp add: answers_def upd_sh_def cancel_pending_trajectory_def drop_pending_def)
qed

lemma dispatch_safety:
  "fst (dispatch_command rst cfg now From_safety c s) =
    (if mo_type c = CT_soft_stop \<or> mo_type c = CT_hold then stop_or_hold rst cfg True c s
     else fst (dispatch_command rst cfg now From_heavy c s))"
  by (simp add: dispatch_command_def)

lemma handle_keeps_zero:
  "snd (snd (answers (fst (handle_command rst cfg now s)))) = snd (snd (answers s))"
proof -
  obtain s1 r where r: "select_command s = (s1, r)" by fastforce
  have s1: "snd (snd (answers s1)) = snd (snd (answers s))"
    using r by (auto simp: select_command_def answers_def Let_def split: if_splits)
  have "snd (snd (answers (fst (dispatch_command rst cfg now src c s1)))) = snd (snd (answers s1))" for src c
    by (cases src) (simp_all add: dispatch_safety answers_safety_stop answers_dispatch)
  then show ?thesis
    using s1 by (cases r) (simp_all add: handle_command_def r split_beta Let_def)
qed

section \<open>Zero, hold and fault\<close>

text \<open>A cycle that runs settles a state and emits it.\<close>

lemma update_settles:
  assumes "ctl_inv cfg s" "readable cy" "\<not> ds_estop_latched (lc_dr s)"
  obtains s2 b heavy s3 b2 where
    "handle_command rst cfg (cy_now cy) (admit_cycle rst cfg cy (read_state_interfaces cy s)) = (s2, b, heavy)"
    "motion_cycle rst upd cfg cy (s2, b) = (s3, b2)" "cycle_ok cfg s2" "settled_ok cfg s3"
    "inputs s2 = inputs (read_state_interfaces cy s)" "inputs s3 = inputs (read_state_interfaces cy s)"
    "fst (ctl_update rst upd cfg cy s) =
       ack_follow cfg (cy_now cy) b2 (ack_consumed heavy (emit_cycle rst cfg (cy_now cy) s3))"
proof -
  let ?r = "read_state_interfaces cy s"
  obtain s1 s2 b heavy s3 b2 where st:
    "s1 = admit_cycle rst cfg cy ?r" "handle_command rst cfg (cy_now cy) s1 = (s2, b, heavy)"
    "motion_cycle rst upd cfg cy (s2, b) = (s3, b2)"
    "ctl_update rst upd cfg cy s = (ack_follow cfg (cy_now cy) b2
       (ack_consumed heavy (emit_cycle rst cfg (cy_now cy) s3)), True)"
    "inputs s1 = inputs ?r" "inputs s2 = inputs s1" "inputs s3 = inputs s1"
    using ctl_update_stages [OF assms(2,3)] by blast
  have r: "ctl_inv cfg ?r" "isfinite (lc_position ?r)"
    using read_inv [OF assms(1)] assms(2) by (simp_all add: readable_def)
  have "cycle_ok cfg s1" "buffers_ok (lc_sh s1)"
    using admit_ok [OF inv_cycle_ok [OF r]] r(1) buffers_inputs [OF st(5)] by (simp_all add: st(1) ctl_inv_def)
  then have s2: "cycle_ok cfg s2"
    using handle_ok [of cfg s1 rst "cy_now cy"] by (simp add: st(2))
  have "isfinite (lcc_goal_tolerance_m cfg)"
    using assms(1) by (simp add: ctl_inv_def)
  from motion_cycle_ok [OF s2 this st(3)] show ?thesis
    using st s2 by (intro that [of s2 b heavy s3 b2]) simp_all
qed

lemma ack_views:
  "lc_out (ack_follow cfg now b (ack_consumed h s)) = lc_out s"
  "lc_mode (ack_follow cfg now b (ack_consumed h s)) = lc_mode s"
  "lc_gated_valid (ack_follow cfg now b (ack_consumed h s)) = lc_gated_valid s"
  "lc_active_trajectory (ack_follow cfg now b (ack_consumed h s)) = lc_active_trajectory s"
  "lc_applied_zero_generation (ack_follow cfg now b (ack_consumed h s)) = lc_applied_zero_generation s"
  "sh_completed_hold_generation (lc_sh (ack_follow cfg now b (ack_consumed h s))) =
     sh_completed_hold_generation (lc_sh s)"
  "lc_dr (ack_follow cfg now b (ack_consumed h s)) = lc_dr s"
  by (simp_all add: ack_consumed_def ack_follow_def upd_sh_def publish_ack_def split: option.split)

lemma tail_views:
  "lc_gated_valid (confirm_pending_hold cfg s) = lc_gated_valid s"
  "lc_active_trajectory (confirm_pending_hold cfg s) = lc_active_trajectory s"
  "lc_applied_zero_generation (confirm_pending_hold cfg s) = lc_applied_zero_generation s"
  "lc_gated_valid (write_command_interfaces cfg m s) = lc_gated_valid s"
  "lc_active_trajectory (write_command_interfaces cfg m s) = lc_active_trajectory s"
  "lc_applied_zero_generation (write_command_interfaces cfg m s) = lc_applied_zero_generation s"
  "lc_gated_valid (fst (log_gate_diagnostics cfg now s)) = lc_gated_valid s"
  "lc_active_trajectory (fst (log_gate_diagnostics cfg now s)) = lc_active_trajectory s"
  "lc_applied_zero_generation (fst (log_gate_diagnostics cfg now s)) = lc_applied_zero_generation s"
  by (simp_all add: confirm_pending_hold_def fail_pending_hold_def write_command_interfaces_def
      log_gate_diagnostics_def upd_sh_def Let_def)

lemma emit_views:
  "lc_gated_valid (emit_cycle rst cfg now s) = lc_gated_valid (apply_zero_frame_resync rst cfg s)"
  "lc_active_trajectory (emit_cycle rst cfg now s) = lc_active_trajectory (apply_zero_frame_resync rst cfg s)"
  "lc_mode (emit_cycle rst cfg now s) = lc_mode (apply_zero_frame_resync rst cfg s)"
  "lc_applied_zero_generation (emit_cycle rst cfg now s) =
     lc_applied_zero_generation (apply_zero_frame_resync rst cfg s)"
  by (simp_all add: emit_cycle_def Let_def tail_views mode_simps)



text \<open>A status text that only reports the zero generation.\<close>

lemma demo_zero_status:
  "json_integer (quoted_key ''zero_generation'' @ ''1'') ''zero_generation'' 0 = 1"
  "json_integer (quoted_key ''zero_generation'' @ ''2'') ''zero_generation'' 0 = 2"
  "\<not> json_bool (quoted_key ''zero_generation'' @ ''1'') ''estop_latched''"
  "\<not> json_bool (quoted_key ''zero_generation'' @ ''2'') ''estop_latched''"
  by (simp_all add: json_integer_def json_bool_def quoted_key_def stol_def split_sign_def c_space_def
      stol_magnitude_def number_prefix_def digit_value_def)

lemma zero_status_seen: "contains (quoted_key k) (quoted_key k @ d)"
  unfolding contains_iff by (metis append_Nil)


section \<open>Holds are confirmed at rest\<close>


text \<open>A HOLD asked for at rest, with the drive unpowered, is confirmed by the next cycle.\<close>

lemma le_not_less: "(a :: double) \<le> b \<Longrightarrow> \<not> b < a"
  by (cases a; cases b) (auto simp: less_eq_double_def)

lemma hold_at_rest:
  assumes "ctl_inv cfg t" "readable cy" "lc_mode t = M_hold" "stationary cfg (cy_velocity cy)"
    and "stationary cfg (ms_velocity_mps (lc_sample t))" "0 \<le> lcc_stationary_velocity_mps cfg"
    and "\<not> sh_heavy_lease_active (lc_sh t)" "sh_pending_trajectory (lc_sh t) = None"
    and "sh_safety_command_generation (lc_sh t) \<noteq> lc_consumed_safety_generation t"
    and "sh_safety_command (lc_sh t) = c" "mo_generation c \<noteq> 0" "mo_type c = CT_hold"
    and "\<not> ds_estop_latched (lc_dr t)" "\<not> ds_motion_blocked (lc_dr t)" "\<not> ds_quick_stop (lc_dr t)"
      "ds_error_code (lc_dr t) = 0" "cy_power_enable cy = 0" "ds_zero_generation (lc_dr t) = lc_applied_zero_generation t"
  shows "sh_completed_hold_generation (lc_sh (fst (ctl_update rst upd cfg cy t))) = mo_generation c"
proof -
  let ?r = "read_state_interfaces cy t"
  define r1 where "r1 = follow_lease ?r"
  have r1: "lc_profile r1 = lc_profile t" "lc_position r1 = cy_position cy" "lc_velocity r1 = cy_velocity cy"
    "lc_mode r1 = M_hold" "lc_sample r1 = lc_sample t" "lc_dr r1 = lc_dr t"
    "lc_applied_zero_generation r1 = lc_applied_zero_generation t" "\<not> sh_power_enabled_state (lc_sh r1)"
    using assms(3,17) by (simp_all add: r1_def follow_lease_def read_state_interfaces_def upd_sh_def Let_def)
  have admit: "admit_cycle rst cfg cy ?r = r1"
    using assms(3,7,8) by (simp add: r1_def admit_cycle_def leave_estop_def pick_up_trajectory_def
        take_trajectory_def follow_lease_def read_state_interfaces_def upd_sh_def Let_def)
  obtain s2 b heavy where h: "handle_command rst cfg (cy_now cy) r1 = (s2, b, heavy)"
    using prod_cases3 by blast
  have "select_command r1 = (r1\<lparr>lc_consumed_safety_generation := sh_safety_command_generation (lc_sh r1)\<rparr>,
      Some (From_safety, c))"
    using assms(9,10) by (simp add: select_command_def r1_def follow_lease_def read_state_interfaces_def
        upd_sh_def Let_def)
  then have "s2 = stop_or_hold rst cfg True c
      (r1\<lparr>lc_consumed_safety_generation := sh_safety_command_generation (lc_sh r1)\<rparr>)"
    using h assms(11,12) by (auto simp: handle_command_def is_new_def dispatch_command_def Let_def)
  note s2 = this
  have hold: "stationary cfg (lc_velocity r1)" "stationary cfg (ms_velocity_mps (lc_sample r1))"
    using assms(4,5) r1 by simp_all
  have p: "prof_ok cfg (lc_profile t)" "isfinite (cy_position cy)"
    using assms(1,2) by (simp_all add: ctl_inv_def readable_def)
  note prof = profile_hold_ok [OF p(1) limits_clamps(1) [OF p], of rst]
  have s2': "lc_mode s2 = M_hold" "lc_pending_hold_generation s2 = mo_generation c"
    "lc_profile s2 = profile_hold rst (clamp_travel cfg (cy_position cy)) (lc_profile t)"
    "lc_dr s2 = lc_dr t" "lc_velocity s2 = cy_velocity cy" "\<not> sh_power_enabled_state (lc_sh s2)"
    "lc_applied_zero_generation s2 = lc_applied_zero_generation t"
    using r1 hold assms(12)
    by (simp_all add: s2 stop_or_hold_def enter_hold_def take_profile_state_def hold_profile_def upd_sh_def
        cancel_pending_trajectory_def drop_pending_def Let_def)
  let ?s3 = "(take_profile_state s2)\<lparr>lc_goal_stable_active := False\<rparr>"
  have m: "motion_cycle rst upd cfg cy (s2, b) = (?s3, b)"
    using s2' prof by (simp add: motion_cycle_def check_gate_def run_mode_def check_sample_def finish_soft_stop_def
        check_target_def target_stable_def take_profile_state_def Let_def)
  have "fst (ctl_update rst upd cfg cy t) =
      ack_follow cfg (cy_now cy) b (ack_consumed heavy (emit_cycle rst cfg (cy_now cy) ?s3))"
    using assms(2,13) by (simp add: ctl_update_def readable_def admit h m Let_def)
  moreover have "emit_cycle rst cfg (cy_now cy) ?s3 = confirm_pending_hold cfg (write_command_interfaces cfg
      (lc_sample (fst (log_gate_diagnostics cfg (cy_now cy) ?s3))) (fst (log_gate_diagnostics cfg (cy_now cy) ?s3)))"
    using s2' assms(18) by (intro emit_same_frame) (simp add: take_profile_state_def)
  moreover have "lc_pending_hold_generation (write_command_interfaces cfg k z) = lc_pending_hold_generation z"
    "lc_pending_hold_generation (fst (log_gate_diagnostics cfg (cy_now cy) z)) = lc_pending_hold_generation z"
    "lc_sample (write_command_interfaces cfg k z) = lc_sample z" 
    "lc_velocity (write_command_interfaces cfg k z) = lc_velocity z" "lc_dr (write_command_interfaces cfg k z) = lc_dr z"
    "lc_sample (fst (log_gate_diagnostics cfg (cy_now cy) z)) = lc_sample z"
    "lc_velocity (fst (log_gate_diagnostics cfg (cy_now cy) z)) = lc_velocity z"
    "lc_dr (fst (log_gate_diagnostics cfg (cy_now cy) z)) = lc_dr z"
    "sh_power_enabled_state (lc_sh (write_command_interfaces cfg k z)) = sh_power_enabled_state (lc_sh z)"
    "sh_power_enabled_state (lc_sh (fst (log_gate_diagnostics cfg (cy_now cy) z))) = sh_power_enabled_state (lc_sh z)"
    for z :: "'a lift_ctl" and k
    by (simp_all add: write_command_interfaces_def log_gate_diagnostics_def upd_sh_def Let_def)
  moreover have "\<not> \<bar>cy_velocity cy\<bar> > lcc_stationary_velocity_mps cfg" "\<not> \<bar>Fin 0\<bar> > lcc_stationary_velocity_mps cfg"
    using le_not_less [of "\<bar>cy_velocity cy\<bar>"] le_not_less [of 0] assms(4,6) by (simp_all add: stationary_def)
  ultimately show ?thesis
    using s2' prof assms(11,13-16)
    by (simp add: ack_views mode_simps take_profile_state_def) (simp add: confirm_pending_hold_def upd_sh_def
        mode_simps Let_def)
qed

lemma hold_queued_views:
  "lc_profile (nd_ctl (hold_queued cfg now g n)) = lc_profile (nd_ctl n)"
  "lc_mode (nd_ctl (hold_queued cfg now g n)) = lc_mode (nd_ctl n)"
  "lc_dr (nd_ctl (hold_queued cfg now g n)) = lc_dr (nd_ctl n)"
  "lc_sample (nd_ctl (hold_queued cfg now g n)) = lc_sample (nd_ctl n)"
  "lc_applied_zero_generation (nd_ctl (hold_queued cfg now g n)) = lc_applied_zero_generation (nd_ctl n)"
  "lc_consumed_safety_generation (nd_ctl (hold_queued cfg now g n)) = lc_consumed_safety_generation (nd_ctl n)"
  "sh_safety_command (lc_sh (nd_ctl (hold_queued cfg now g n))) = sh_safety_command (lc_sh (nd_ctl n))"
  "sh_safety_command_generation (lc_sh (nd_ctl (hold_queued cfg now g n))) = sh_safety_command_generation (lc_sh (nd_ctl n))"
  "sh_heavy_lease_active (lc_sh (nd_ctl (hold_queued cfg now g n))) = sh_heavy_lease_active (lc_sh (nd_ctl n))"
  "sh_pending_trajectory (lc_sh (nd_ctl (hold_queued cfg now g n))) = sh_pending_trajectory (lc_sh (nd_ctl n))"
  "sh_completed_hold_generation (lc_sh (nd_ctl (hold_queued cfg now g n))) = sh_completed_hold_generation (lc_sh (nd_ctl n))"
  by (simp_all add: hold_queued_def set_applied_def set_shared_def shared_def reply_def Let_def)


end
