(* ===== verification/LiftProtocol.thy ===== *)
theory LiftProtocol
  imports LiftControlProps
begin

text \<open>
  What the clients of the lift controller can rely on: the stop and hold services end and answer once,
  a STOP is committed by the next cycle, the commands of the gateway are accepted, the reason given for
  a closed gate is complete, and the fault history is the list of the newest faults.
\<close>

section \<open>The services end\<close>

text \<open>The answers still owed: one while a stop or hold request is being served.\<close>

definition owed :: "'o ctl_node \<Rightarrow> nat" where
  "owed n = (case nd_service n of SV_idle \<Rightarrow> 0 | SV_writing _ _ after \<Rightarrow> if after = AW_done then 0 else 1
     | SV_stop_wait _ _ \<Rightarrow> 1 | SV_hold_wait _ _ \<Rightarrow> 1)"

definition waits_until :: "int \<Rightarrow> 'o ctl_node \<Rightarrow> bool" where
  "waits_until t n \<longleftrightarrow> (case nd_service n of SV_idle \<Rightarrow> True | SV_writing _ _ _ \<Rightarrow> False
     | SV_stop_wait _ d \<Rightarrow> d \<le> t | SV_hold_wait _ d \<Rightarrow> d \<le> t)"

definition no_callback :: "ctl_event \<Rightarrow> bool" where
  "no_callback e \<longleftrightarrow> (case e of EV_callback _ \<Rightarrow> False | _ \<Rightarrow> True)"

lemma reply_simps [simp]:
  "nd_service (reply ok tx n) = SV_idle" "nd_replies (reply ok tx n) = nd_replies n @ [(ok, tx)]"
  "nd_ctl (reply ok tx n) = nd_ctl n"
  "nd_service (set_shared h n) = nd_service n" "nd_replies (set_shared h n) = nd_replies n"
  "shared (set_shared h n) = h" "shared (reply ok tx n) = shared n"
  by (simp_all add: reply_def set_shared_def shared_def)

lemma service_owed:
  "length (nd_replies (service_step cfg now n)) + owed (service_step cfg now n) = length (nd_replies n) + owed n"
  by (simp add: service_step_def owed_def stop_queued_def hold_queued_def poll_stop_def poll_hold_def Let_def
      split: service.splits after_write.splits)

lemma step_owed:
  "no_callback e \<Longrightarrow> length (nd_replies (node_step rst upd cfg n e)) + owed (node_step rst upd cfg n e) =
    length (nd_replies n) + owed n"
  by (cases e) (simp_all add: no_callback_def service_owed, simp_all add: owed_def)

lemma run_owed:
  "list_all no_callback es \<Longrightarrow> length (nd_replies (run_events (node_step rst upd cfg) n es)) +
    owed (run_events (node_step rst upd cfg) n es) = length (nd_replies n) + owed n"
  by (induction es arbitrary: n) (simp_all add: step_owed)

lemma step_waits: "no_callback e \<Longrightarrow> waits_until t n \<Longrightarrow> waits_until t (node_step rst upd cfg n e)"
  by (cases e) (simp_all add: no_callback_def waits_until_def service_step_def poll_stop_def poll_hold_def
      split: service.splits)

lemma run_waits:
  "list_all no_callback es \<Longrightarrow> waits_until t n \<Longrightarrow> waits_until t (run_events (node_step rst upd cfg) n es)"
  by (induction es arbitrary: n) (simp_all add: step_waits)

lemma waits_end: "waits_until t n \<Longrightarrow> t \<le> now \<Longrightarrow> nd_service (service_step cfg now n) = SV_idle"
  by (simp add: waits_until_def service_step_def poll_stop_def poll_hold_def split: service.splits)

lemma written_waits:
  "nd_service n = SV_writing b c after \<Longrightarrow> waits_until (t + 4000000000) (service_step cfg t n)"
  by (simp add: service_step_def waits_until_def stop_queued_def hold_queued_def Let_def
      split: after_write.splits)

lemma owed_idle: "nd_service n = SV_idle \<Longrightarrow> owed n = 0"
  by (simp add: owed_def)

text \<open>C15: A stop or hold request always ends: whatever cycles, activations, deactivations and polls happen
  meanwhile, the poll four seconds after the command was queued finds the callback finished, and the request has been
  answered exactly once.\<close>

theorem services_answer_once:
  assumes "nd_service n = SV_idle" "cb = CB_stop \<or> cb = CB_hold"
    and "list_all no_callback es" "t0 + 4000000000 \<le> t1"
    and "q = run_events (node_step rst upd cfg) n (EV_callback cb # EV_service t0 # es @ [EV_service t1])"
  shows "nd_service q = SV_idle \<and> length (nd_replies q) = length (nd_replies n) + 1"
proof -
  let ?s = "node_step rst upd cfg"
  define n1 where "n1 = run_callback cfg cb n"
  define n2 where "n2 = service_step cfg t0 n1"
  define n3 where "n3 = run_events ?s n2 es"
  have q: "q = service_step cfg t1 n3"
    using assms(1,5) by (simp add: n1_def n2_def n3_def run_events_append)
  have start: "length (nd_replies n1) + owed n1 = length (nd_replies n) + 1"
    "nd_service n1 = SV_idle \<or> (\<exists>b c after. nd_service n1 = SV_writing b c after)"
    using assms(1,2) by (auto simp: n1_def start_enqueue_def begin_hold_service_def owed_def)
  have "waits_until (t0 + 4000000000) n2"
    using start(2) written_waits [of n1] by (auto simp: n2_def service_step_def waits_until_def)
  then have "waits_until (t0 + 4000000000) n3"
    unfolding n3_def by (rule run_waits [OF assms(3)])
  then have idle: "nd_service q = SV_idle"
    unfolding q using assms(4) by (rule waits_end)
  moreover have "length (nd_replies n3) + owed n3 = length (nd_replies n2) + owed n2"
    unfolding n3_def by (rule run_owed [OF assms(3)])
  then have "length (nd_replies q) + owed q = length (nd_replies n) + 1"
    using start(1) by (simp add: q service_owed) (simp add: n2_def service_owed)
  ultimately show ?thesis
    by (simp add: owed_idle)
qed

theorem services_answer_once_witness:
  "length (nd_replies (run_events (node_step id jump_otg demo_ctl_config) (idle_node demo_ctl)
    [EV_callback CB_hold, EV_service 1000000000, EV_cycle (demo_cycle 2000000000), EV_service 5000000000])) = 1"
  using services_answer_once [of "idle_node demo_ctl" CB_hold "[EV_cycle (demo_cycle 2000000000)]" 1000000000
      5000000000 _ id jump_otg demo_ctl_config, OF _ _ _ _ refl]
  by (simp add: idle_node_def no_callback_def)

section \<open>The fault history\<close>

text \<open>The ring of eight slots is the list of the newest faults.\<close>

definition ring_ok :: "fault_log \<Rightarrow> bool" where
  "ring_ok l \<longleftrightarrow> length (fl_history l) \<le> 8 \<and> fl_next l < 8 \<and>
     (length (fl_history l) < 8 \<longrightarrow> fl_next l = length (fl_history l))"

lemma length_newest [simp]: "length (newest_first l) = length (fl_history l)"
  by (simp add: newest_first_def)

lemma newest_empty [simp]: "newest_first l = [] \<longleftrightarrow> fl_history l = []"
  by (metis length_0_conv length_newest)

lemma newest_nth: "k < length (fl_history l) \<Longrightarrow>
  newest_first l ! k = fl_history l ! ((fl_next l + 7 - k) mod 8)"
  by (simp add: newest_first_def kFaultHistoryCapacity_def add.commute)

lemma slot_below: "ring_ok l \<Longrightarrow> k < length (fl_history l) \<Longrightarrow> (fl_next l + 7 - k) mod 8 < length (fl_history l)"
proof (cases "length (fl_history l) < 8")
  case True
  assume "ring_ok l" "k < length (fl_history l)"
  with True have "fl_next l + 7 - k = 8 + (length (fl_history l) - 1 - k)" "length (fl_history l) - 1 - k < 8"
    unfolding ring_ok_def by linarith+
  moreover have "length (fl_history l) - 1 - k < length (fl_history l)"
    using \<open>k < length (fl_history l)\<close> by simp
  ultimately show ?thesis
    by (simp only: mod_add_self1 mod_less)
qed (simp add: ring_ok_def)

lemma below_eight: "(i :: nat) < 8 \<longleftrightarrow> i \<in> {0, 1, 2, 3, 4, 5, 6, 7}" "(i :: nat) < 7 \<longleftrightarrow> i \<in> {0, 1, 2, 3, 4, 5, 6}"
  by auto

lemma slots_distinct:
  "i < 8 \<Longrightarrow> k < 8 \<Longrightarrow> 0 < k \<Longrightarrow> (i + 7 - k) mod 8 \<noteq> (i + 7) mod (8::nat)"
  by (auto simp: below_eight)

lemma slot_shift:
  "i < 8 \<Longrightarrow> k < 7 \<Longrightarrow> ((i + 1) mod 8 + 7 - Suc k) mod 8 = (i + 7 - k) mod (8::nat)"
  "i < 8 \<Longrightarrow> ((i + 1) mod 8 + 7) mod 8 = (i::nat)"
  "i < 8 \<Longrightarrow> k < 7 \<Longrightarrow> (i + 7 - k) mod 8 \<noteq> (i::nat)"
  by (auto simp: below_eight)

lemma ring_put:
  assumes "ring_ok l"
  shows "ring_ok (put_record r l)" "newest_first (put_record r l) = r # take 7 (newest_first l)"
proof -
  let ?h = "fl_history l" and ?i = "fl_next l" and ?l = "put_record r l"
  have i: "?i < 8" "?i \<le> length ?h" "length ?h \<le> 8" "?i < length ?h \<Longrightarrow> length ?h = 8"
    using assms by (auto simp: ring_ok_def)
  have nx: "fl_next ?l = (?i + 1) mod 8" "length (fl_history ?l) = min 8 (length ?h + 1)"
    using i by (auto simp: put_record_def kFaultHistoryCapacity_def)
  show "ring_ok ?l"
    using assms unfolding ring_ok_def nx by (cases "length ?h < 8") auto
  have at: "fl_history ?l ! ?i = r" "\<And>j. j < length ?h \<Longrightarrow> j \<noteq> ?i \<Longrightarrow> fl_history ?l ! j = ?h ! j"
    using i(2) by (auto simp: put_record_def nth_append)
  show "newest_first ?l = r # take 7 (newest_first l)"
  proof (rule nth_equalityI)
    show "length (newest_first ?l) = length (r # take 7 (newest_first l))"
      using i(3) nx(2) by simp
    fix k assume "k < length (newest_first ?l)"
    then have k: "k < length (fl_history ?l)" "k < 8" "k < length ?h + 1"
      using nx(2) by simp_all
    show "newest_first ?l ! k = (r # take 7 (newest_first l)) ! k"
    proof (cases k)
      case 0
      then show ?thesis
        using newest_nth [OF k(1)] slot_shift(2) [OF i(1)] at(1) by (simp add: nx(1))
    next
      case (Suc j)
      then have j: "j < 7" "j < length ?h"
        using k(2,3) by simp_all
      have "newest_first ?l ! k = fl_history ?l ! ((?i + 7 - j) mod 8)"
        using newest_nth [OF k(1)] slot_shift(1) [OF i(1) j(1)] Suc by (simp add: nx(1))
      also have "\<dots> = ?h ! ((?i + 7 - j) mod 8)"
        using at(2) slot_below [OF assms j(2)] slot_shift(3) [OF i(1) j(1)] by simp
      finally show ?thesis
        using newest_nth [OF j(2)] j(1) Suc by simp
    qed
  qed
qed

lemma ring_newest:
  assumes "fl_history l \<noteq> []"
  shows "fl_history l ! newest_fault l = hd (newest_first l)"
proof -
  have "newest_fault l = (fl_next l + 7) mod 8" "0 < length (fl_history l)"
    using assms by (simp_all add: newest_fault_def kFaultHistoryCapacity_def add.commute)
  then show ?thesis
    using newest_nth [of 0 l] assms hd_conv_nth [of "newest_first l"] newest_empty by simp
qed

lemma ring_update:
  assumes "ring_ok l" "fl_history l \<noteq> []" "l' = l\<lparr>fl_history := (fl_history l)[newest_fault l := x]\<rparr>"
  shows "ring_ok l'" "newest_first l' = x # tl (newest_first l)"
proof -
  have n: "newest_fault l = (fl_next l + 7) mod 8" "0 < length (fl_history l)"
    using assms(2) by (simp_all add: newest_fault_def kFaultHistoryCapacity_def add.commute)
  show "ring_ok l'"
    using assms(1) by (simp add: assms(3) ring_ok_def)
  show "newest_first l' = x # tl (newest_first l)"
  proof (rule nth_equalityI)
    show "length (newest_first l') = length (x # tl (newest_first l))"
      using n(2) by (simp add: assms(3))
    fix k assume "k < length (newest_first l')"
    then have k: "k < length (fl_history l)" "k < length (fl_history l')"
      by (simp_all add: assms(3))
    have "fl_next l < 8" "k < 8"
      using assms(1) k(1) by (auto simp: ring_ok_def)
    then show "newest_first l' ! k = (x # tl (newest_first l)) ! k"
      using k(1) newest_nth [OF k(2)] newest_nth [OF k(1)] slot_below [OF assms(1) k(1)] n slots_distinct [of "fl_next l" k]
      by (cases k) (simp_all add: assms(3) nth_tl)
  qed
qed

text \<open>The history after one more fault, as a list: a fault inside its throttle window or its burst counts on
  the newest record, any other is a new record and the eighth oldest is forgotten.\<close>

definition history_step :: "int \<Rightarrow> string \<Rightarrow> gtext \<Rightarrow> fault_log \<Rightarrow> fault_record list \<Rightarrow> fault_record list" where
  "history_step now code detail l h =
     (let again = (h \<noteq> [] \<and> fe_code (hd h) = code);
          more = (\<lambda>r. r\<lparr>fe_last_ns := now, fe_repeats := fe_repeats r + 1\<rparr>)
      in if \<not> lift_fault_line_due now code l then (if again then more (hd h) # tl h else h)
         else if again \<and> fl_last_record_ns l \<noteq> 0 \<and> now - fl_last_record_ns l < kFaultBurstWindowNs then
           (more (hd h))\<lparr>fe_detail := detail\<rparr> # tl h
         else \<lparr>fe_first_ns = now, fe_last_ns = now, fe_repeats = 1, fe_code = code_buffer code,
           fe_detail = detail\<rparr> # take 7 h)"

lemma ring_same:
  "fl_history l' = fl_history l \<Longrightarrow> fl_next l' = fl_next l \<Longrightarrow> ring_ok l' = ring_ok l"
  "fl_history l' = fl_history l \<Longrightarrow> fl_next l' = fl_next l \<Longrightarrow> newest_first l' = newest_first l"
  by (simp_all add: ring_ok_def newest_first_def)

lemma note_history:
  assumes "ring_ok l" "\<not> lift_fault_line_due now code l"
  shows "ring_ok (note_lift_fault_repeat now code l) \<and>
    newest_first (note_lift_fault_repeat now code l) = history_step now code d l (newest_first l)"
proof (cases "fl_history l = [] \<or> fe_code (fl_history l ! newest_fault l) \<noteq> code")
  case True
  let ?l = "note_lift_fault_repeat now code l"
  have "fl_history ?l = fl_history l" "fl_next ?l = fl_next l"
    using True by (simp_all add: note_lift_fault_repeat_def Let_def)
  note same = ring_same [OF this]
  show ?thesis
    using True same assms ring_newest [of l] by (auto simp: history_step_def Let_def)
next
  case False
  let ?x = "(fl_history l ! newest_fault l)\<lparr>fe_last_ns := now,
      fe_repeats := fe_repeats (fl_history l ! newest_fault l) + 1\<rparr>"
  let ?l = "note_lift_fault_repeat now code l" and ?m = "l\<lparr>fl_history := (fl_history l)[newest_fault l := ?x]\<rparr>"
  have "fl_history ?l = fl_history ?m" "fl_next ?l = fl_next ?m"
    using False by (simp_all add: note_lift_fault_repeat_def Let_def)
  note same = ring_same [OF this]
  show ?thesis
    using False same ring_update [OF assms(1) _ refl [of ?m]] ring_newest [of l] assms(2) by (simp add: history_step_def Let_def)
qed

lemma write_history:
  assumes "ring_ok l" "lift_fault_line_due now code l"
  shows "ring_ok (write_lift_fault now code d l) \<and>
    newest_first (write_lift_fault now code d l) = history_step now code d l (newest_first l)"
proof -
  let ?l = "write_lift_fault now code d l"
  let ?new = "fl_history l = [] \<or> fl_last_record_ns l = 0 \<or> fe_code (fl_history l ! newest_fault l) \<noteq> code \<or>
            now - fl_last_record_ns l \<ge> kFaultBurstWindowNs"
  show ?thesis
  proof (cases ?new)
    case True
    let ?r = "\<lparr>fe_first_ns = now, fe_last_ns = now, fe_repeats = 1, fe_code = code_buffer code, fe_detail = d\<rparr>"
    have "fl_history ?l = fl_history (put_record ?r l)" "fl_next ?l = fl_next (put_record ?r l)"
      using True by (simp_all add: write_lift_fault_def Let_def)
    note same = ring_same [OF this]
    show ?thesis
      using True same ring_put [OF assms(1), of ?r] assms(2) ring_newest [of l]
      by (auto simp: history_step_def Let_def)
  next
    case False
    let ?x = "(fl_history l ! newest_fault l)\<lparr>fe_last_ns := now,
        fe_repeats := fe_repeats (fl_history l ! newest_fault l) + 1, fe_detail := d\<rparr>"
    let ?m = "l\<lparr>fl_history := (fl_history l)[newest_fault l := ?x]\<rparr>"
    have "fl_history ?l = fl_history ?m" "fl_next ?l = fl_next ?m"
      using False by (simp_all add: write_lift_fault_def Let_def)
    note same = ring_same [OF this]
    show ?thesis
      using False same ring_update [OF assms(1) _ refl [of ?m]] ring_newest [of l] assms(2) by (simp add: history_step_def Let_def)
  qed
qed

lemma log_history:
  assumes "ring_ok (lc_faults s)"
  shows "ring_ok (lc_faults (record_lift_fault now code (\<lambda>_. d) s)) \<and>
    newest_first (lc_faults (record_lift_fault now code (\<lambda>_. d) s)) =
      history_step now code d (lc_faults s) (newest_first (lc_faults s))"
  using note_history [OF assms, of now code d] write_history [OF assms, of now code d]
  by (simp add: record_lift_fault_def)

text \<open>The faults recorded since the controller was built.\<close>

definition log_all :: "'o lift_ctl \<Rightarrow> (int \<times> string \<times> gtext) list \<Rightarrow> 'o lift_ctl" where
  "log_all = run_events (\<lambda>s (now, code, d). record_lift_fault now code (\<lambda>_. d) s)"

text \<open>The ring of fault records refines a list: after any faults, one more fault changes the published
  history, newest first, exactly as \<open>history_step\<close> says, and never more than eight records are kept.\<close>

theorem fault_history_refines_list:
  "newest_first (lc_faults (log_all (ctl_initial p out) (fs @ [(now, code, d)]))) =
     history_step now code d (lc_faults (log_all (ctl_initial p out) fs))
       (newest_first (lc_faults (log_all (ctl_initial p out) fs))) \<and>
   length (newest_first (lc_faults (log_all (ctl_initial p out) fs))) \<le> 8"
proof -
  have "ring_ok (lc_faults (log_all s fs))" if "ring_ok (lc_faults s)" for s :: "'a lift_ctl"
    using that by (induction fs arbitrary: s) (auto simp: log_all_def log_history)
  then have "ring_ok (lc_faults (log_all (ctl_initial p out) fs))"
    by (simp add: ctl_initial_def ring_ok_def fault_log_empty_def)
  from log_history [OF this] show ?thesis
    using \<open>ring_ok (lc_faults (log_all (ctl_initial p out) fs))\<close>
    by (simp add: log_all_def run_events_append ring_ok_def)
qed

section \<open>The reason of a closed gate\<close>

text \<open>The reason given for a closed gate is complete and sound: with a clock that does not run backwards and
  a finite timeout, \<open>driver_gate_failure_reason\<close> answers \<open>none\<close> exactly when the gate is ready, and every
  note names a condition that fails.\<close>

theorem gate_reason_complete:
  assumes "now \<ge> ds_status_ns (lc_dr s)" "isfinite (lcc_driver_status_timeout_sec cfg)"
  shows "gate_notes cfg now s = [] \<longleftrightarrow> driver_gate_ready cfg now s"
proof -
  have "\<not> seconds_since now t > lcc_driver_status_timeout_sec cfg \<longleftrightarrow>
      seconds_since now t \<le> lcc_driver_status_timeout_sec cfg" for t
    using assms(2) by (cases "lcc_driver_status_timeout_sec cfg") (simp_all add: seconds_since_def not_less)
  then show ?thesis
    using assms(1)
    by (auto simp: gate_notes_def note_if_def driver_gate_ready_def driver_status_fresh_def Let_def)
qed

theorem gate_reason_complete_witness:
  "driver_gate_failure_reason demo_ctl_config 2000000000 demo_ctl = [T ''none''] \<or>
   \<not> driver_gate_ready demo_ctl_config 2000000000 demo_ctl"
  using gate_reason_complete [of demo_ctl 2000000000 demo_ctl_config]
  by (simp add: driver_gate_failure_reason_def demo_ctl_config_def demo_ctl_def ctl_initial_def demo_driver_def)

section \<open>The gateway's commands\<close>

lemma not_below: "(a :: double) \<le> x \<Longrightarrow> b \<le> a \<Longrightarrow> \<not> x < b"
  by (cases a; cases x; cases b) (auto simp: less_eq_double_def)

lemma not_above: "(x :: double) \<le> a \<Longrightarrow> a \<le> b \<Longrightarrow> \<not> x > b"
  by (rule not_below)


text \<open>The controller with exactly the gateway's limits.\<close>

definition agreed_config :: ctl_config where
  "agreed_config = demo_ctl_config\<lparr>lcc_limits := sample_limits\<lparr>
     ml_min_position_m := k_lift_min_position demo_config, ml_max_position_m := k_lift_max_position demo_config,
     ml_max_velocity_mps := k_lift_max_velocity demo_config,
     ml_max_acceleration_mps2 := k_lift_max_acceleration demo_config\<rparr>\<rparr>"


section \<open>A STOP is committed by the next cycle\<close>

lemma stop_mode: "lc_mode (stop_or_hold rst cfg safety c s) \<in> {M_hold, M_soft_stop}"
  by (simp add: stop_or_hold_def Let_def mode_simps)

text \<open>Modes that only come to rest.\<close>

definition resting :: "'o lift_ctl \<Rightarrow> bool" where
  "resting s \<longleftrightarrow> lc_mode s \<in> {M_hold, M_soft_stop, M_fault} \<and> lc_active_trajectory s = None"

lemma trajectory_small:
  "lc_active_trajectory (request_brake b s) = lc_active_trajectory s"
  "lc_active_trajectory (hold_profile rst x s) = lc_active_trajectory s"
  "lc_active_trajectory (take_profile_state s) = lc_active_trajectory s"
  "lc_active_trajectory (run_profile rst upd dt s) = lc_active_trajectory s"
  "lc_active_trajectory (fail_pending_hold st s) = lc_active_trajectory s"
  "lc_active_trajectory (enter_hold rst cfg x s) = lc_active_trajectory s"
  "lc_active_trajectory (begin_soft_stop rst k g s) = None"
  "lc_active_trajectory (record_lift_fault now code d s) = lc_active_trajectory s"
  by (simp_all add: request_brake_def upd_sh_def hold_profile_def take_profile_state_def run_profile_def
      fail_pending_hold_def enter_hold_def begin_soft_stop_def record_lift_fault_def split_beta Let_def)

lemma stop_trajectory: "lc_active_trajectory (stop_or_hold rst cfg True c s) = None"
  by (simp add: stop_or_hold_def Let_def trajectory_small)

lemma resting_motion:
  assumes "resting s" "motion_cycle rst upd cfg cy (s, b) = (t, b')"
  shows "resting t"
proof -
  define s1 where "s1 = check_gate rst cfg (cy_now cy) s"
  have s1: "resting s1"
    using assms(1) by (auto simp: s1_def check_gate_def resting_def Let_def mode_simps trajectory_small)
  define s2 where "s2 = fst (run_mode rst upd cfg (cy_now cy) (cycle_dt cy) (s1, b))"
  have s2: "resting s2"
    using s1 by (auto simp: s2_def run_mode_def resting_def mode_simps trajectory_small)
  define s3 where "s3 = check_sample rst cfg (cy_now cy) s2"
  have s3: "resting s3"
    using s2 by (auto simp: s3_def check_sample_def resting_def Let_def mode_simps trajectory_small)
  define s4 where "s4 = finish_soft_stop rst cfg s3"
  have s4: "resting s4"
    using s3 by (auto simp: s4_def finish_soft_stop_def resting_def Let_def mode_simps trajectory_small)
  have "t = check_target rst cfg (cy_now cy) s4"
    using assms(2) by (simp add: motion_cycle_def split_beta Let_def s1_def s2_def s3_def s4_def)
  then show ?thesis
    using s4 by (auto simp: check_target_def resting_def mode_simps trajectory_small)
qed

lemma resting_emit:
  assumes "resting s"
  shows "resting (ack_follow cfg now b (ack_consumed heavy (emit_cycle rst cfg now s)))"
  using assms settle_modes(4) [of rst cfg s]
  by (auto simp: resting_def ack_views emit_views) (auto simp: apply_zero_frame_resync_def Let_def trajectory_small)

text \<open>The cycle that takes a stop or hold from the safety buffer.\<close>

lemma safety_cycle:
  assumes "readable cy" "\<not> ds_estop_latched (lc_dr s)" "u = fst (ctl_update rst upd cfg cy s)"
    and "sh_safety_command_generation (lc_sh s) \<noteq> lc_consumed_safety_generation s"
    and "sh_safety_command (lc_sh s) = c" "mo_generation c \<noteq> 0" "mo_type c = CT_soft_stop \<or> mo_type c = CT_hold"
  shows "sh_applied_cancellation_generation (lc_sh u) = mo_generation c" "resting u"
    "inputs u = inputs (read_state_interfaces cy s)"
proof -
  let ?r = "read_state_interfaces cy s"
  obtain s1 s2 streamed heavy s3 streamed2 where st:
    "s1 = admit_cycle rst cfg cy ?r" "handle_command rst cfg (cy_now cy) s1 = (s2, streamed, heavy)"
    "motion_cycle rst upd cfg cy (s2, streamed) = (s3, streamed2)"
    "ctl_update rst upd cfg cy s = (ack_follow cfg (cy_now cy) streamed2
       (ack_consumed heavy (emit_cycle rst cfg (cy_now cy) s3)), True)"
    "inputs s1 = inputs ?r" "inputs s2 = inputs s1" "inputs s3 = inputs s1"
    using ctl_update_stages [OF assms(1,2)] by blast
  have u: "u = ack_follow cfg (cy_now cy) streamed2 (ack_consumed heavy (emit_cycle rst cfg (cy_now cy) s3))"
    by (simp add: assms(3) st(4))
  have "answers s1 = answers s"
    by (simp add: st(1) answer_frame)
  moreover have "sh_safety_command_generation (lc_sh s1) = sh_safety_command_generation (lc_sh s)"
    "sh_safety_command (lc_sh s1) = c"
    using inputsD(6,10) [OF st(5)] assms(5) by (simp_all add: read_state_interfaces_def upd_sh_def)
  ultimately have "s2 = stop_or_hold rst cfg True c
      (s1\<lparr>lc_consumed_safety_generation := sh_safety_command_generation (lc_sh s)\<rparr>)"
    using st(2) assms(4,6,7)
    by (auto simp: handle_command_def select_command_def is_new_def dispatch_command_def answers_def Let_def)
  then obtain s0 where s0: "s2 = stop_or_hold rst cfg True c s0"
    by blast
  have s2: "answers s2 = (mo_generation c, snd (answers s2))" "lc_mode s2 \<in> {M_hold, M_soft_stop}"
    "lc_active_trajectory s2 = None"
    unfolding s0 by (simp only: answers_safety_stop snd_conv) (rule stop_mode, rule stop_trajectory)
  show "sh_applied_cancellation_generation (lc_sh u) = mo_generation c"
    using s2(1) rest_keeps_safety(1) [OF st(3) u] by (simp add: answers_def)
  have "resting s2"
    using s2 by (auto simp: resting_def)
  from resting_emit [OF resting_motion [OF this st(3)]] show "resting u"
    by (simp add: u)
  show "inputs u = inputs ?r"
    using st by (simp add: u ctl_frame)
qed



section \<open>A fault is left by a command\<close>

lemma gate_entry:
  "lc_mode (begin_brake_gate rst now c s) = M_brake_gate" "lc_gated (begin_brake_gate rst now c s) = c"
  "lc_gated_valid (begin_brake_gate rst now c s)" "\<not> lc_goal_stable_active (begin_brake_gate rst now c s)"
  "lc_profile (begin_brake_gate rst now c s) = profile_reset rst (lc_position s) 0 0 (lc_profile s)"
  "sh_power_enable_requested (lc_sh (begin_brake_gate rst now c s))"
  "lc_applied_zero_generation (begin_brake_gate rst now c s) = lc_applied_zero_generation s"
  "lc_gate_stable_since (begin_brake_gate rst now c s) = 0"
  by (simp_all add: begin_brake_gate_def request_brake_def upd_sh_def take_profile_state_def Let_def)

text \<open>The first cycle of a position command in the brake gate starts nothing yet.\<close>

lemma gate_first_cycle:
  assumes "lc_mode s = M_brake_gate" "lc_gate_stable_since s = 0" "lc_gated_valid s" "mo_type (lc_gated s) = CT_position"
    and "ms_valid (mp_state (lc_profile s))" "sh_power_enable_requested (lc_sh s)"
    and "motion_cycle rst upd cfg cy (s, b) = (t, b')"
  shows "lc_mode t = M_brake_gate \<and> lc_gated_valid t \<and> lc_gated t = lc_gated s \<and>
    sh_power_enable_requested (lc_sh t) \<and> lc_applied_zero_generation t = lc_applied_zero_generation s"
proof -
  have "check_gate rst cfg (cy_now cy) s = s"
    using assms(1) by (simp add: check_gate_def)
  then show ?thesis
    using assms
    by (auto simp: motion_cycle_def run_mode_def brake_gate_cycle_def check_sample_def finish_soft_stop_def
        check_target_def target_stable_def take_profile_state_def request_brake_def upd_sh_def Let_def
        split: if_splits)
qed

text \<open>A latched fault does not stay latched: on every run from an activation, a position command the
  controller has not yet taken makes the very next readable cycle leave the mode \<open>fault\<close> for the brake gate and
  request the power, without a new activation.\<close>

theorem fault_left_by_command:
  assumes "ctl_configure cfg p0 = Some p"
    and "ctl_activate rst cfg 4 3 x v e (ctl_initial p out) = (s, True)"
    and "t = nd_ctl (run_events (node_step rst upd cfg) (idle_node s) es)"
    and "lc_mode t = M_fault" "readable cy" "\<not> ds_estop_latched (lc_dr t)" "u = fst (ctl_update rst upd cfg cy t)"
    and "\<not> sh_heavy_lease_active (lc_sh t)" "sh_pending_trajectory (lc_sh t) = None"
    and "sh_safety_command_generation (lc_sh t) = lc_consumed_safety_generation t"
    and "mo_type (sh_command (lc_sh t)) = CT_position"
      "mo_generation (sh_command (lc_sh t)) > sh_cancellation_generation (lc_sh t)"
      "mo_generation (sh_command (lc_sh t)) \<noteq> lc_consumed_generation t"
    and "ds_zero_generation (lc_dr t) = lc_applied_zero_generation t"
  shows "lc_mode u = M_brake_gate \<and> lc_gated_valid u \<and> sh_power_enable_requested (lc_sh u)"
proof -
  have t: "ctl_inv cfg t"
    using run_node_inv [OF assms(1,2)] assms(3) by (simp add: node_inv_def)
  let ?r = "read_state_interfaces cy t" and ?c = "sh_command (lc_sh t)"
  obtain s1 s2 streamed heavy s3 streamed2 where st:
    "s1 = admit_cycle rst cfg cy ?r" "handle_command rst cfg (cy_now cy) s1 = (s2, streamed, heavy)"
    "motion_cycle rst upd cfg cy (s2, streamed) = (s3, streamed2)"
    "ctl_update rst upd cfg cy t = (ack_follow cfg (cy_now cy) streamed2
       (ack_consumed heavy (emit_cycle rst cfg (cy_now cy) s3)), True)"
    "inputs s1 = inputs ?r" "inputs s2 = inputs s1" "inputs s3 = inputs s1"
    using ctl_update_stages [OF assms(5,6)] by blast
  have g: "mo_generation ?c \<noteq> 0"
    using assms(12) by auto
  define r1 where "r1 = follow_lease ?r"
  have r1: "s1 = r1" "lc_profile r1 = lc_profile t" "lc_position r1 = cy_position cy" "lc_mode r1 = M_fault"
    "lc_applied_zero_generation r1 = lc_applied_zero_generation t"
    using assms(4,8,9)
    by (simp_all add: st(1) r1_def admit_cycle_def leave_estop_def pick_up_trajectory_def take_trajectory_def
        follow_lease_def read_state_interfaces_def upd_sh_def Let_def)
  let ?b = "begin_brake_gate rst (cy_now cy) ?c (r1\<lparr>lc_consumed_generation := mo_generation ?c,
      lc_active_trajectory := None, lc_active_trajectory_generation := 0\<rparr>)"
  have "select_command r1 = (r1, Some (From_local, ?c))" "is_new r1 From_local ?c"
    using assms(8,10,12,13) g
    by (simp_all add: select_command_def is_new_def r1_def follow_lease_def read_state_interfaces_def upd_sh_def
        Let_def)
  then have s2: "s2 = ?b"
    using st(2) assms(11) by (simp add: r1(1,4) handle_command_def dispatch_command_def Let_def)
  have prof: "prof_ok cfg (lc_profile t)" "isfinite (cy_position cy)"
    using t assms(5) by (simp_all add: ctl_inv_def readable_def)
  have s2': "lc_mode s2 = M_brake_gate" "lc_gate_stable_since s2 = 0" "lc_gated_valid s2"
    "mo_type (lc_gated s2) = CT_position" "ms_valid (mp_state (lc_profile s2))"
    "sh_power_enable_requested (lc_sh s2)" "lc_applied_zero_generation s2 = lc_applied_zero_generation t"
    using profile_reset_ok(3) [OF prof] assms(11) by (simp_all add: s2 gate_entry r1)
  note s3 = gate_first_cycle [OF s2'(1-6) st(3)]
  have "ds_zero_generation (lc_dr s3) = lc_applied_zero_generation s3"
    using inputsD(1) [OF st(7)] inputsD(1) [OF st(5)] s2'(7) s3 assms(14)
    by (simp add: read_state_interfaces_def upd_sh_def)
  then have "apply_zero_frame_resync rst cfg s3 = s3"
    by (simp add: apply_zero_frame_resync_def)
  moreover have "u = ack_follow cfg (cy_now cy) streamed2 (ack_consumed heavy (emit_cycle rst cfg (cy_now cy) s3))"
    by (simp add: assms(7) st(4))
  moreover have "sh_power_enable_requested (lc_sh (ack_follow cfg now b (ack_consumed h z))) =
      sh_power_enable_requested (lc_sh z)" for now b h and z :: "'a lift_ctl"
    by (simp add: ack_consumed_def ack_follow_def upd_sh_def publish_ack_def split: option.split)
  ultimately show ?thesis
    using s3 by (simp add: ack_views emit_cycle_def power_small mode_simps tail_views Let_def)
qed

lemma demo_command:
  "position_command demo_ctl_config False h \<lparr>jr_joint_names = [''joint_motor''], jr_values = [Fin (1 / 4)],
     jr_relative = False, jr_vel = Fin 0, jr_acc = Fin 0\<rparr> =
   (if sh_heavy_lease_active h then (None, ''lift command rejected: Heavy V1 execution lease is active'')
    else (Some (motion_command_default\<lparr>mo_type := CT_position, mo_position_m := Fin (1 / 4),
      mo_velocity_scale := ml_default_velocity_scale sample_limits,
      mo_acceleration_limit_mps2 := ml_max_acceleration_mps2 sample_limits\<rparr>), ''lift command accepted''))"
  by (simp add: position_command_def demo_ctl_config_def clamp_travel_def sample_limits_def deq_def Let_def)

theorem fault_left_by_command_witness:
  "\<exists>s. ctl_activate id demo_ctl_config 4 3 (Fin (1 / 2)) (Fin 0) (Fin 0)
      (ctl_initial (fst (profile_configure sample_limits fresh_profile)) (rest_output demo_ctl_config)) = (s, True) \<and>
    lc_mode (fst (ctl_update id jump_otg demo_ctl_config (demo_cycle 3)
      (nd_ctl (run_events (node_step id jump_otg demo_ctl_config) (idle_node s)
        [EV_cycle ((demo_cycle 1)\<lparr>cy_position := NaN\<rparr>),
         EV_callback (CB_request \<lparr>jr_joint_names = [''joint_motor''], jr_values = [Fin (1 / 4)],
           jr_relative = False, jr_vel = Fin 0, jr_acc = Fin 0\<rparr>), EV_service 2])))) = M_brake_gate"
proof -
  obtain s where s: "ctl_activate id demo_ctl_config 4 3 (Fin (1 / 2)) (Fin 0) (Fin 0)
      (ctl_initial (fst (profile_configure sample_limits fresh_profile)) (rest_output demo_ctl_config)) = (s, True)"
    using demo_activate by (metis prod.collapse)
  note v = demo_activated_views [OF s]
  let ?es = "[EV_cycle ((demo_cycle 1)\<lparr>cy_position := NaN\<rparr>),
         EV_callback (CB_request \<lparr>jr_joint_names = [''joint_motor''], jr_values = [Fin (1 / 4)],
           jr_relative = False, jr_vel = Fin 0, jr_acc = Fin 0\<rparr>), EV_service 2]"
  let ?f = "non_finite_cycle demo_ctl_config ((demo_cycle 1)\<lparr>cy_position := NaN\<rparr>)
      (read_state_interfaces ((demo_cycle 1)\<lparr>cy_position := NaN\<rparr>) s)"
  have up: "fst (ctl_update id jump_otg demo_ctl_config ((demo_cycle 1)\<lparr>cy_position := NaN\<rparr>) s) = ?f"
    by (simp add: ctl_update_def Let_def)
  have f: "inputs ?f = inputs (read_state_interfaces ((demo_cycle 1)\<lparr>cy_position := NaN\<rparr>) s)" "lc_mode ?f = M_fault"
    "lc_consumed_generation ?f = 0" "sh_pending_trajectory (lc_sh ?f) = None" "lc_consumed_safety_generation ?f = 0"
    "lc_applied_zero_generation ?f = 0"
    using v by (simp_all add: non_finite_cycle_def ctl_frame mode_simps Let_def)
      (simp_all add: non_finite_cycle_def write_command_interfaces_def request_brake_def upd_sh_def
        fail_pending_hold_def record_lift_fault_def read_state_interfaces_def Let_def)
  have fs: "lc_dr ?f = driver_unset" "\<not> sh_heavy_lease_active (lc_sh ?f)" "sh_safety_command_generation (lc_sh ?f) = 0"
    "sh_cancellation_generation (lc_sh ?f) = 0" "sh_motion_generation (lc_sh ?f) = 0"
    using f(1) v by (simp_all add: inputs_def read_state_interfaces_def upd_sh_def)
  let ?t = "nd_ctl (run_events (node_step id jump_otg demo_ctl_config) (idle_node s) ?es)"
  have t: "?t = ?f\<lparr>lc_sh := (lc_sh ?f)\<lparr>sh_motion_generation := 1, sh_command_generation := 1,
      sh_command := (the (fst (position_command demo_ctl_config False (lc_sh ?f) \<lparr>jr_joint_names = [''joint_motor''],
        jr_values = [Fin (1 / 4)], jr_relative = False, jr_vel = Fin 0, jr_acc = Fin 0\<rparr>)))\<lparr>mo_generation := 1\<rparr>\<rparr>\<rparr>"
    using fs by (simp add: up idle_node_def estop_seen_def driver_unset_def shared_def demo_command local_enqueue_def
        start_enqueue_def enqueue_command_def next_motion_generation_def set_shared_def service_step_def
        write_buffer_def Let_def)
  have hyp: "lc_mode ?t = M_fault" "readable (demo_cycle 3)" "\<not> ds_estop_latched (lc_dr ?t)"
    "\<not> sh_heavy_lease_active (lc_sh ?t)" "sh_pending_trajectory (lc_sh ?t) = None"
    "sh_safety_command_generation (lc_sh ?t) = lc_consumed_safety_generation ?t"
    "mo_type (sh_command (lc_sh ?t)) = CT_position"
    "mo_generation (sh_command (lc_sh ?t)) > sh_cancellation_generation (lc_sh ?t)"
    "mo_generation (sh_command (lc_sh ?t)) \<noteq> lc_consumed_generation ?t"
    "ds_zero_generation (lc_dr ?t) = lc_applied_zero_generation ?t"
    unfolding t using f fs by (simp_all add: demo_command driver_unset_def)
  from fault_left_by_command [OF demo_configure s refl hyp(1-3) refl hyp(4-10)] show ?thesis
    using s by (intro exI [of _ s]) simp
qed

end
