(* ===== verification/WaistConfigure.thy ===== *)
theory WaistConfigure
  imports LiftParameters WaistCan UsbBridge
begin

text \<open>
  Configuration of the waist interface (\<open>waist/waist_init.cpp\<close>, \<open>on_init\<close> and its helpers): the
  hardware parameters, the flat configuration file, the clamping of every value and the joint limits
  of the robot description. The file system, the package directory, the robot description and the
  result of the base class are arguments. Like the code the steps leave a member alone when its text
  is missing or malformed.
\<close>

section \<open>Texts\<close>

text \<open>The texts of \<open>strtod\<close> for the non-finite values, after white space and a sign, in any case.\<close>

definition nan_tail :: "string \<Rightarrow> bool" where
  "nan_tail s \<longleftrightarrow> s = [] \<or>
     (hd s = CHR ''('' \<and> last s = CHR '')'' \<and> 2 \<le> length s \<and>
      list_all (\<lambda>c. c = CHR ''_'' \<or> (let n = of_char c :: nat in
        (48 \<le> n \<and> n \<le> 57) \<or> (65 \<le> n \<and> n \<le> 90) \<or> (97 \<le> n \<and> n \<le> 122))) (butlast (tl s)))"

definition parse_double_text :: "string \<Rightarrow> double option" where
  "parse_double_text s =
     (let (neg, body) = split_sign (dropWhile c_space s); low = map to_lower body
      in if low = ''inf'' \<or> low = ''infinity'' then Some (if neg then NInf else PInf)
         else if take 3 low = ''nan'' \<and> nan_tail (drop 3 body) then Some NaN
         else parse_double s)"

definition load_line :: "string \<Rightarrow> fields \<Rightarrow> fields" where
  "load_line raw values =
     (let line = takeWhile (\<lambda>c. c \<noteq> CHR ''#'') raw in
      if CHR '':'' \<notin> set line then values
      else
        let key = trim (takeWhile (\<lambda>c. c \<noteq> CHR '':'') line);
            v = trim (tl (dropWhile (\<lambda>c. c \<noteq> CHR '':'') line))
        in if key \<noteq> [] \<and> v \<noteq> [] then values(key \<mapsto> v) else values)"

definition load_flat_yaml :: "(string \<Rightarrow> string option) \<Rightarrow> string \<Rightarrow> fields option" where
  "load_flat_yaml files path =
     (case files path of None \<Rightarrow> None
      | Some content \<Rightarrow> Some (fold load_line (split_lines content) Map.empty))"

definition text_value :: "(string \<Rightarrow> 'a option) \<Rightarrow> fields \<Rightarrow> string \<Rightarrow> 'a option" where
  "text_value parse values key = Option.bind (values key) parse"

section \<open>The members\<close>

record bridge_route =
  br_right_tool_channel :: u8
  br_left_tool_channel :: u8
  br_waist_channel :: u8
  br_right_tool_bitrate :: u32
  br_left_tool_bitrate :: u32
  br_waist_bitrate :: u32

record waist_config =
  wc_port :: string
  wc_serial_baudrate :: int
  wc_bridge_channel :: int
  wc_bridge_bitrate :: int
  wc_can_nom_baud :: u32
  wc_can_dat_baud :: u32
  wc_route :: bridge_route
  wc_node_id :: int
  wc_timeout_ms :: int
  wc_init_timeout_ms :: int
  wc_init_retry_count :: int
  wc_profile_vel :: int
  wc_profile_acc :: int
  wc_min_rad :: double
  wc_max_rad :: double
  wc_resend_hz :: double
  wc_sync_hz :: double
  wc_epsilon :: double
  wc_sign :: double
  wc_defer_release :: bool

definition waist_config_default :: waist_config where
  "waist_config_default = \<lparr>wc_port = [], wc_serial_baudrate = 2000000, wc_bridge_channel = 2,
     wc_bridge_bitrate = 5000000, wc_can_nom_baud = 1000000, wc_can_dat_baud = 5000000,
     wc_route = \<lparr>br_right_tool_channel = 0, br_left_tool_channel = 1, br_waist_channel = 2,
       br_right_tool_bitrate = 2000000, br_left_tool_bitrate = 2000000, br_waist_bitrate = 5000000\<rparr>,
     wc_node_id = 0x0F, wc_timeout_ms = 600, wc_init_timeout_ms = 300, wc_init_retry_count = 3,
     wc_profile_vel = 10, wc_profile_acc = 2000, wc_min_rad = Fin 0, wc_max_rad = Fin 1.57,
     wc_resend_hz = Fin 100, wc_sync_hz = Fin 100, wc_epsilon = Fin (1 / 10000), wc_sign = Fin 1,
     wc_defer_release = True\<rparr>"

record joint_info =
  ji_name :: string
  ji_command_interfaces :: "string list"
  ji_state_interfaces :: "string list"

record hardware_info =
  hi_joints :: "joint_info list"
  hi_parameters :: fields

record waist_files =
  ef_files :: "string \<Rightarrow> string option"
  ef_share_directory :: "string option" \<comment> \<open>\<open>None\<close>: the lookup throws\<close>
  ef_urdf_limits :: "string \<Rightarrow> string \<Rightarrow> (double \<times> double) option"
    \<comment> \<open>the limits of a joint of the description in a file, if all of that exists\<close>

section \<open>on_init\<close>

text \<open>A value that was found and parsed is stored.\<close>

definition store_if :: "'a option \<Rightarrow> ('a \<Rightarrow> waist_config \<Rightarrow> waist_config) \<Rightarrow> waist_config \<Rightarrow> waist_config" where
  "store_if v f c = (case v of None \<Rightarrow> c | Some x \<Rightarrow> f x c)"

definition iclamp :: "int \<Rightarrow> int \<Rightarrow> int \<Rightarrow> int" where
  "iclamp v lo hi = (if v < lo then lo else if hi < v then hi else v)"

definition upd_route :: "(bridge_route \<Rightarrow> bridge_route) \<Rightarrow> waist_config \<Rightarrow> waist_config" where
  "upd_route f c = c\<lparr>wc_route := f (wc_route c)\<rparr>"

definition positive_text :: "int option \<Rightarrow> int option" where
  "positive_text v = (case v of Some n \<Rightarrow> if n > 0 then Some n else None | None \<Rightarrow> None)"

definition read_parameters :: "fields \<Rightarrow> waist_config \<Rightarrow> waist_config" where
  "read_parameters ps =
     (let int_of = text_value parse_int ps; positive = (\<lambda>k. positive_text (int_of k)) in
      store_if (positive ''waist_bitrate'')
        (\<lambda>n c. upd_route (\<lambda>r. r\<lparr>br_waist_bitrate := of_int n\<rparr>) c\<lparr>wc_bridge_bitrate := n\<rparr>) \<circ>
      store_if (positive ''left_tool_bitrate'') (\<lambda>n. upd_route (\<lambda>r. r\<lparr>br_left_tool_bitrate := of_int n\<rparr>)) \<circ>
      store_if (positive ''right_tool_bitrate'') (\<lambda>n. upd_route (\<lambda>r. r\<lparr>br_right_tool_bitrate := of_int n\<rparr>)) \<circ>
      store_if (int_of ''waist_channel'')
        (\<lambda>n c. upd_route (\<lambda>r. r\<lparr>br_waist_channel := of_int (iclamp n 0 2)\<rparr>) c\<lparr>wc_bridge_channel := n\<rparr>) \<circ>
      store_if (int_of ''left_tool_channel'')
        (\<lambda>n. upd_route (\<lambda>r. r\<lparr>br_left_tool_channel := of_int (iclamp n 0 2)\<rparr>)) \<circ>
      store_if (int_of ''right_tool_channel'')
        (\<lambda>n. upd_route (\<lambda>r. r\<lparr>br_right_tool_channel := of_int (iclamp n 0 2)\<rparr>)) \<circ>
      store_if (positive ''can_dat_baud'') (\<lambda>n c. c\<lparr>wc_can_dat_baud := of_int n\<rparr>) \<circ>
      store_if (positive ''can_nom_baud'') (\<lambda>n c. c\<lparr>wc_can_nom_baud := of_int n\<rparr>) \<circ>
      store_if (int_of ''bridge_bitrate'') (\<lambda>n c. c\<lparr>wc_bridge_bitrate := n\<rparr>) \<circ>
      store_if (int_of ''bridge_channel'') (\<lambda>n c. c\<lparr>wc_bridge_channel := n\<rparr>) \<circ>
      store_if (int_of ''serial_baudrate'') (\<lambda>n c. c\<lparr>wc_serial_baudrate := n\<rparr>) \<circ>
      store_if (int_of ''waist_node_id'') (\<lambda>n c. c\<lparr>wc_node_id := n\<rparr>) \<circ>
      store_if (ps ''waist_port'') (\<lambda>s c. c\<lparr>wc_port := s\<rparr>))"

definition read_config_file :: "fields \<Rightarrow> waist_config \<Rightarrow> waist_config" where
  "read_config_file vs =
     (let int_of = text_value parse_int vs; double_of = text_value parse_double_text vs in
      store_if (text_value parse_bool vs ''waist_defer_bridge_release_on_deactivate'')
        (\<lambda>b c. c\<lparr>wc_defer_release := b\<rparr>) \<circ>
      store_if (double_of ''joint_qugan_max_rad'') (\<lambda>x c. c\<lparr>wc_max_rad := x\<rparr>) \<circ>
      store_if (double_of ''joint_qugan_min_rad'') (\<lambda>x c. c\<lparr>wc_min_rad := x\<rparr>) \<circ>
      store_if (double_of ''qugan_sign'') (\<lambda>x c. c\<lparr>wc_sign := x\<rparr>) \<circ>
      store_if (double_of ''command_epsilon_qugan'') (\<lambda>x c. c\<lparr>wc_epsilon := x\<rparr>) \<circ>
      store_if (double_of ''waist_feedback_sync_hz'') (\<lambda>x c. c\<lparr>wc_sync_hz := x\<rparr>) \<circ>
      store_if (double_of ''waist_command_resend_hz'') (\<lambda>x c. c\<lparr>wc_resend_hz := x\<rparr>) \<circ>
      store_if (int_of ''waist_profile_acc'') (\<lambda>n c. c\<lparr>wc_profile_acc := n\<rparr>) \<circ>
      store_if (int_of ''waist_profile_vel'') (\<lambda>n c. c\<lparr>wc_profile_vel := n\<rparr>) \<circ>
      store_if (int_of ''waist_init_retry_count'') (\<lambda>n c. c\<lparr>wc_init_retry_count := n\<rparr>) \<circ>
      store_if (int_of ''waist_init_timeout_ms'') (\<lambda>n c. c\<lparr>wc_init_timeout_ms := n\<rparr>) \<circ>
      store_if (int_of ''waist_timeout_ms'') (\<lambda>n c. c\<lparr>wc_timeout_ms := n\<rparr>))"

definition clamp_config :: "waist_config \<Rightarrow> waist_config" where
  "clamp_config c = c\<lparr>wc_node_id := iclamp (wc_node_id c) 1 127,
     wc_bridge_channel := iclamp (wc_bridge_channel c) 0 2,
     wc_timeout_ms := iclamp (wc_timeout_ms c) 50 3000,
     wc_init_timeout_ms := iclamp (wc_init_timeout_ms c) 100 3000,
     wc_init_retry_count := iclamp (wc_init_retry_count c) 1 10,
     wc_profile_vel := iclamp (wc_profile_vel c) 1 40,
     wc_profile_acc := iclamp (wc_profile_acc c) 1 10000,
     wc_resend_hz := dmax (Fin 1) (wc_resend_hz c),
     wc_sync_hz := dclamp (wc_sync_hz c) (Fin 1) (Fin 500),
     wc_epsilon := dmax (Fin (1 / 100000)) (wc_epsilon c),
     wc_sign := (if wc_sign c < Fin 0 then Fin (- 1) else Fin 1)\<rparr>"

definition load_joint_limits :: "waist_files \<Rightarrow> string \<Rightarrow> string \<Rightarrow> (double \<times> double) option" where
  "load_joint_limits env path joint =
     (case ef_urdf_limits env path joint of None \<Rightarrow> None
      | Some (lo, hi) \<Rightarrow>
          if \<not> isfinite lo \<or> \<not> isfinite hi then None else Some (dmin lo hi, dmax lo hi))"

definition urdf_override :: "waist_files \<Rightarrow> fields \<Rightarrow> waist_config \<Rightarrow> waist_config" where
  "urdf_override env vs c =
     (case vs ''urdf_path'' of None \<Rightarrow> c
      | Some path \<Rightarrow>
          if path = [] then c
          else (case load_joint_limits env path ''joint_qugan'' of None \<Rightarrow> c
            | Some (lower, upper) \<Rightarrow> c\<lparr>wc_min_rad := lower, wc_max_rad := upper\<rparr>))"

definition interfaces_ok :: "joint_info \<Rightarrow> bool" where
  "interfaces_ok j \<longleftrightarrow>
     {''position'', ''velocity'', ''acceleration''} \<subseteq> set (ji_command_interfaces j) \<and>
     {''position'', ''velocity''} \<subseteq> set (ji_state_interfaces j)"

definition config_path :: "waist_files \<Rightarrow> fields \<Rightarrow> string option" where
  "config_path env ps =
     (case ps ''waist_hardware_config'' of Some path \<Rightarrow> Some path
      | None \<Rightarrow> map_option (\<lambda>d. d @ ''/config/waist_hardware.yaml'') (ef_share_directory env))"

definition waist_on_init :: "waist_files \<Rightarrow> bool \<Rightarrow> hardware_info \<Rightarrow> waist_config \<Rightarrow> waist_config option" where
  "waist_on_init env base_ok info c0 =
     (if \<not> base_ok then None
      else case hi_joints info of
        [j] \<Rightarrow>
          if ji_name j \<noteq> ''joint_qugan'' then None
          else (case Option.bind (config_path env (hi_parameters info)) (load_flat_yaml (ef_files env)) of
            None \<Rightarrow> None
          | Some vs \<Rightarrow>
              let c = clamp_config (read_config_file vs (read_parameters (hi_parameters info) c0)) in
              if \<not> isfinite (wc_min_rad c) \<or> \<not> isfinite (wc_max_rad c) \<or> wc_max_rad c \<le> wc_min_rad c
              then None
              else if wc_port c = [] then None
              else
                let c1 = urdf_override env vs c in
                if interfaces_ok j then Some c1 else None)
      | _ \<Rightarrow> None)"

section \<open>Properties\<close>

lemma iclamp_between: "lo \<le> hi \<Longrightarrow> lo \<le> iclamp v lo hi \<and> iclamp v lo hi \<le> hi"
  by (simp add: iclamp_def)

text \<open>What the driver relies on: every integer in its range, an ordered pair of finite limits, a sign,
  and rates that are at least 1 Hz.\<close>

definition config_ok :: "waist_config \<Rightarrow> bool" where
  "config_ok c \<longleftrightarrow>
     1 \<le> wc_node_id c \<and> wc_node_id c \<le> 127 \<and> 0 \<le> wc_bridge_channel c \<and> wc_bridge_channel c \<le> 2 \<and>
     50 \<le> wc_timeout_ms c \<and> wc_timeout_ms c \<le> 3000 \<and>
     100 \<le> wc_init_timeout_ms c \<and> wc_init_timeout_ms c \<le> 3000 \<and>
     1 \<le> wc_init_retry_count c \<and> wc_init_retry_count c \<le> 10 \<and>
     1 \<le> wc_profile_vel c \<and> wc_profile_vel c \<le> 40 \<and>
     1 \<le> wc_profile_acc c \<and> wc_profile_acc c \<le> 10000 \<and>
     isfinite (wc_min_rad c) \<and> isfinite (wc_max_rad c) \<and> wc_min_rad c \<le> wc_max_rad c \<and>
     wc_sign c \<in> {Fin 1, Fin (- 1)} \<and> Fin 0 < wc_epsilon c \<and> Fin 1 \<le> wc_resend_hz c \<and>
     (wc_sync_hz c = NaN \<or> (Fin 1 \<le> wc_sync_hz c \<and> wc_sync_hz c \<le> Fin 500)) \<and> wc_port c \<noteq> []"

lemma dmax_lower: "a \<noteq> NaN \<Longrightarrow> a \<le> dmax a b"
  by (cases a; cases b) (simp_all add: dmax_def less_eq_double_def)

lemma Fin_less_trans: "Fin a \<le> x \<Longrightarrow> b < a \<Longrightarrow> Fin b < x"
  by (cases x) (auto simp: less_eq_double_def)

lemma clamp_config_ranges:
  assumes "c = clamp_config c0" "isfinite (wc_min_rad c)" "isfinite (wc_max_rad c)"
    "\<not> wc_max_rad c \<le> wc_min_rad c" "wc_port c \<noteq> []"
  shows "config_ok c"
proof -
  have "wc_min_rad c \<le> wc_max_rad c"
    using assms(2-4) by (cases "wc_min_rad c"; cases "wc_max_rad c"; simp)
  moreover have "Fin 0 < wc_epsilon c" "Fin 1 \<le> wc_resend_hz c"
    using Fin_less_trans [of "1 / 100000" "wc_epsilon c" 0]
      dmax_lower [of "Fin (1 / 100000)" "wc_epsilon c0"] dmax_lower [of "Fin 1" "wc_resend_hz c0"]
    by (simp_all add: assms(1) clamp_config_def)
  moreover have "wc_sync_hz c = NaN \<or> (Fin 1 \<le> wc_sync_hz c \<and> wc_sync_hz c \<le> Fin 500)"
    using dclamp_between [of "Fin 1" "Fin 500" "wc_sync_hz c0"]
    by (cases "wc_sync_hz c0 = NaN") (simp_all add: assms(1) clamp_config_def)
  ultimately show ?thesis
    using assms(2,3,5) unfolding config_ok_def
    by (simp add: assms(1) clamp_config_def iclamp_between)
qed

lemma load_joint_limits_ordered:
  assumes "load_joint_limits env path joint = Some (lo, hi)"
  shows "isfinite lo \<and> isfinite hi \<and> lo \<le> hi"
  using assms by (auto simp: load_joint_limits_def elim!: isfiniteE split: option.splits if_splits)

lemma urdf_override_ok: "config_ok c \<Longrightarrow> config_ok (urdf_override env vs c)"
  using load_joint_limits_ordered
  by (fastforce simp: urdf_override_def config_ok_def split: option.split)


definition demo_waist_files :: waist_files where
  "demo_waist_files = \<lparr>ef_files = [''/w.yaml'' \<mapsto> ''waist_profile_vel: 90 # fast'' @ [NL] @
       ''waist_feedback_sync_hz: nan''],
     ef_share_directory = None, ef_urdf_limits = (\<lambda>_ _. None)\<rparr>"

definition demo_waist_info :: hardware_info where
  "demo_waist_info = \<lparr>hi_joints = [\<lparr>ji_name = ''joint_qugan'',
       ji_command_interfaces = [''position'', ''velocity'', ''acceleration''],
       ji_state_interfaces = [''position'', ''velocity'']\<rparr>],
     hi_parameters = [''waist_port'' \<mapsto> ''/dev/ttyACM0'', ''waist_hardware_config'' \<mapsto> ''/w.yaml'',
       ''waist_node_id'' \<mapsto> ''0x01'', ''waist_channel'' \<mapsto> ''7'']\<rparr>"

lemma demo_file: "load_flat_yaml (ef_files demo_waist_files) ''/w.yaml'' =
    Some [''waist_profile_vel'' \<mapsto> ''90'', ''waist_feedback_sync_hz'' \<mapsto> ''nan'']"
  by (simp add: load_flat_yaml_def demo_waist_files_def NL_def load_line_def trim_def trim_char_def)

lemma demo_numbers: "parse_int ''0x01'' = Some 1" "parse_int ''90'' = Some 90" "parse_int ''7'' = Some 7"
  "parse_double_text ''nan'' = Some NaN"
  by (simp_all add: parse_int_def parse_signed_def split_sign_def c_space_def magnitude_def digits_value_def
      digit_value_def parse_double_text_def nan_tail_def to_lower_def)

definition demo_waist :: waist_config where
  "demo_waist = waist_config_default\<lparr>wc_port := ''/dev/ttyACM0'', wc_node_id := 1,
     wc_profile_vel := 40, wc_sync_hz := NaN\<rparr>"

lemma demo_waist_configured:
  "waist_on_init demo_waist_files True demo_waist_info waist_config_default = Some demo_waist"
proof -
  have p: "config_path demo_waist_files (hi_parameters demo_waist_info) = Some ''/w.yaml''"
    by (simp add: config_path_def demo_waist_info_def)
  have i: "interfaces_ok (hd (hi_joints demo_waist_info))"
    by (simp add: interfaces_ok_def demo_waist_info_def)
  let ?vs = "[''waist_profile_vel'' \<mapsto> ''90'', ''waist_feedback_sync_hz'' \<mapsto> ''nan''] :: fields"
  have r: "read_parameters (hi_parameters demo_waist_info) waist_config_default =
      waist_config_default\<lparr>wc_port := ''/dev/ttyACM0'', wc_node_id := 1, wc_bridge_channel := 7\<rparr>"
    by (simp add: read_parameters_def Let_def store_if_def text_value_def positive_text_def upd_route_def
        iclamp_def demo_waist_info_def demo_numbers waist_config_default_def)
  have f: "clamp_config (read_config_file ?vs
      (waist_config_default\<lparr>wc_port := ''/dev/ttyACM0'', wc_node_id := 1, wc_bridge_channel := 7\<rparr>)) = demo_waist"
    by (simp add: read_config_file_def Let_def store_if_def text_value_def demo_numbers demo_waist_def
        waist_config_default_def clamp_config_def iclamp_def)
  obtain j where j: "hi_joints demo_waist_info = [j]" "ji_name j = ''joint_qugan''" "interfaces_ok j"
    using i by (simp add: demo_waist_info_def)
  have u: "urdf_override demo_waist_files ?vs demo_waist = demo_waist"
    by (simp add: urdf_override_def)
  have b: "Option.bind (config_path demo_waist_files (hi_parameters demo_waist_info))
      (load_flat_yaml (ef_files demo_waist_files)) = Some ?vs"
    using p demo_file by simp
  have "isfinite (wc_min_rad demo_waist)" "isfinite (wc_max_rad demo_waist)"
    "\<not> wc_max_rad demo_waist \<le> wc_min_rad demo_waist" "wc_port demo_waist \<noteq> []"
    by (simp_all add: demo_waist_def waist_config_default_def)
  then show ?thesis
    using j unfolding waist_on_init_def b by (simp only: r f u Let_def option.case list.case if_True if_False de_Morgan_disj simp_thms)
qed


end
