(* ===== verification/HardwareStateBus.thy ===== *)
theory HardwareStateBus
  imports Doubles
begin

text \<open>
  The state bus of the process (\<open>hardware_state_bus.hpp\<close>, \<open>hardware_state_bus.cpp\<close>): the latest command
  and state of twenty axes and the status of the waist. Every call holds the mutex of the one instance,
  so an operation is a function on the whole bus; \<open>array::at\<close> throws outside the twenty axes (\<open>None\<close>).
  What a reader may rely on is the interface \<open>axis_store\<close>.
\<close>

section \<open>Interface: a bank of cells\<close>

text \<open>A series of writes, ending at the first that throws.\<close>

fun put_all :: "(nat \<Rightarrow> 'a \<Rightarrow> 'b \<Rightarrow> 'b option) \<Rightarrow> (nat \<times> 'a) list \<Rightarrow> 'b \<Rightarrow> 'b option" where
  "put_all put [] b = Some b"
| "put_all put ((i, x) # ws) b = Option.bind (put i x b) (put_all put ws)"

locale axis_store =
  fixes get :: "nat \<Rightarrow> 'b \<Rightarrow> 'a option"
    and put :: "nat \<Rightarrow> 'a \<Rightarrow> 'b \<Rightarrow> 'b option"
    and wf :: "'b \<Rightarrow> bool"
    and size_of :: nat
  assumes get_some: "wf b \<Longrightarrow> get i b \<noteq> None \<longleftrightarrow> i < size_of"
    and put_some: "wf b \<Longrightarrow> put i x b \<noteq> None \<longleftrightarrow> i < size_of"
    and get_put: "wf b \<Longrightarrow> put i x b = Some b' \<Longrightarrow> get j b' = (if j = i then Some x else get j b)"
    and put_wf: "wf b \<Longrightarrow> put i x b = Some b' \<Longrightarrow> wf b'"
begin

lemma put_all_total:
  "wf b \<Longrightarrow> \<forall>(i, x) \<in> set ws. i < size_of \<Longrightarrow> \<exists>b'. put_all put ws b = Some b' \<and> wf b'"
proof (induction ws arbitrary: b)
  case (Cons w ws)
  obtain i x where w: "w = (i, x)"
    by fastforce
  obtain b' where "put i x b = Some b'"
    using put_some [OF Cons.prems(1), of i x] Cons.prems(2) w by auto
  then show ?case
    using Cons put_wf [OF Cons.prems(1)] w by simp
qed simp

lemma last_write_wins:
  "wf b \<Longrightarrow> put_all put ws b = Some b' \<Longrightarrow> get j b' = (case map_of (rev ws) j of Some x \<Rightarrow> Some x | None \<Rightarrow> get j b)"
proof (induction ws arbitrary: b)
  case (Cons w ws)
  obtain i x where w: "w = (i, x)"
    by fastforce
  obtain c where c: "put i x b = Some c" "put_all put ws c = Some b'"
    using Cons.prems(2) w by (auto simp: Option.bind_eq_Some_conv)
  show ?case
    using Cons.IH [OF put_wf [OF Cons.prems(1) c(1)] c(2)] get_put [OF Cons.prems(1) c(1), of j]
    by (auto simp: w map_add_def split: option.splits)
qed simp

end

section \<open>The bus\<close>

definition kNumAxes :: nat where "kNumAxes = 20"

definition kWaistSharedIndex :: nat where "kWaistSharedIndex = 5"

record joint_command =
  jc_position :: double
  jc_velocity :: double
  jc_effort :: double
  jc_seq :: u64

record joint_state =
  js_position :: double
  js_velocity :: double
  js_effort :: double
  js_seq :: u64

record waist_status =
  ws_initialized :: bool
  ws_feedback_valid :: bool
  ws_feedback_fresh :: bool
  ws_fault_active :: bool
  ws_feedback_error_code :: u16
  ws_seq :: u64

record bus =
  sb_commands :: "joint_command list"
  sb_states :: "joint_state list"
  sb_waist_status :: waist_status

definition bus_init :: bus where
  "bus_init = \<lparr>
     sb_commands = replicate kNumAxes \<lparr>jc_position = NaN, jc_velocity = NaN, jc_effort = NaN, jc_seq = 0\<rparr>,
     sb_states = replicate kNumAxes \<lparr>js_position = Fin 0, js_velocity = Fin 0, js_effort = Fin 0, js_seq = 0\<rparr>,
     sb_waist_status = \<lparr>ws_initialized = False, ws_feedback_valid = False, ws_feedback_fresh = False,
       ws_fault_active = False, ws_feedback_error_code = 0, ws_seq = 0\<rparr>\<rparr>"

definition cell_at :: "'a list \<Rightarrow> nat \<Rightarrow> 'a option" where
  "cell_at xs i = (if i < length xs then Some (xs ! i) else None)"

definition snapshot :: "bus \<Rightarrow> joint_command list \<times> joint_state list" where
  "snapshot b = (sb_commands b, sb_states b)"

definition read_command :: "nat \<Rightarrow> bus \<Rightarrow> joint_command option" where
  "read_command i b = cell_at (sb_commands b) i"

definition read_state :: "nat \<Rightarrow> bus \<Rightarrow> joint_state option" where
  "read_state i b = cell_at (sb_states b) i"

definition read_waist_status :: "bus \<Rightarrow> waist_status" where
  "read_waist_status b = sb_waist_status b"

definition write_command :: "nat \<Rightarrow> joint_command \<Rightarrow> bus \<Rightarrow> bus option" where
  "write_command i c b =
     (if i < length (sb_commands b) then Some (b\<lparr>sb_commands := (sb_commands b)[i := c]\<rparr>) else None)"

definition write_state :: "nat \<Rightarrow> joint_state \<Rightarrow> bus \<Rightarrow> bus option" where
  "write_state i s b =
     (if i < length (sb_states b) then Some (b\<lparr>sb_states := (sb_states b)[i := s]\<rparr>) else None)"

definition write_waist_status :: "waist_status \<Rightarrow> bus \<Rightarrow> bus" where
  "write_waist_status s b = b\<lparr>sb_waist_status := s\<rparr>"

definition bus_ok :: "bus \<Rightarrow> bool" where
  "bus_ok b \<longleftrightarrow> length (sb_commands b) = kNumAxes \<and> length (sb_states b) = kNumAxes"

interpretation commands: axis_store read_command write_command bus_ok kNumAxes
  by unfold_locales
    (auto simp: read_command_def write_command_def cell_at_def bus_ok_def nth_list_update split: if_splits)

interpretation states: axis_store read_state write_state bus_ok kNumAxes
  by unfold_locales
    (auto simp: read_state_def write_state_def cell_at_def bus_ok_def nth_list_update split: if_splits)

lemma bus_init_ok: "bus_ok bus_init"
  by (simp add: bus_ok_def bus_init_def)

lemma write_bus_ok:
  "bus_ok b \<Longrightarrow> write_state i s b = Some b' \<Longrightarrow> bus_ok b'"
  "bus_ok b \<Longrightarrow> bus_ok (write_waist_status w b)"
  by (auto simp: write_state_def write_waist_status_def bus_ok_def split: if_splits)

end
