(* ===== verification/WaistHardware.thy ===== *)
theory WaistHardware
  imports WaistConfigure HardwareStateBus
begin

text \<open>
  The hardware interface of the waist (\<open>waist_hardware.hpp\<close>, \<open>waist/waist_hardware.cpp\<close>,
  \<open>waist_feedback.cpp\<close>, \<open>waist_read.cpp\<close>, \<open>waist_write.cpp\<close>, \<open>waist_transport.cpp\<close>,
  \<open>waist_canopen_io.cpp\<close>, \<open>waist_init.cpp\<close>). The class is used by four threads: the control loop
  (\<open>read\<close>, \<open>write\<close>, the transitions), the worker that sends, the receive thread of the bridge and the
  executor of the two services. What the other threads do while one of them waits is the list
  \<open>wh_future\<close> of events, each after a delay; a wait takes events until its condition holds or its
  deadline has passed, and when the list ends the rest of the wait passes without any. Times are
  nanoseconds of the steady clock, 0 the default of a time point. The vectors have one element, the
  joint \<open>joint_qugan\<close>. The outcomes of the writes on the serial port are \<open>wh_port\<close> (an empty list:
  all succeed); \<open>wh_sent\<close> is what was written: identifier, data, whether CAN-FD.
\<close>

type_synonym sent_frame = "u32 \<times> bytes \<times> bool"

datatype waist_event =
    V_frame can_value
  | V_link_lost
  | V_read double \<comment> \<open>a cycle of the control loop with its period in seconds\<close>
  | V_write
  | V_io
  | V_command double double double

datatype worker = W_started | W_running u64

record driver_status =
  ds_feedback_age_ms :: int
  ds_feedback_fresh :: bool
  ds_initialized :: bool
  ds_fault_active :: bool
  ds_error_known :: bool
  ds_error_code :: u16
  ds_state :: u8
  ds_position :: double
  ds_velocity_rpm :: i16
  ds_current_ma :: i16
  ds_temperature_tenth_c :: i16

record waist =
  wh_now :: nat
  wh_future :: "(nat \<times> waist_event) list"
  wh_port :: "bool list"
  wh_sent :: "sent_frame list"
  wh_bridge :: "hub option"
  wh_listener :: u64
  wh_rx_queue :: "can_frame list"
  wh_services_up :: bool
  wh_position :: double
  wh_velocity :: double
  wh_command :: double
  wh_velocity_command :: double
  wh_acceleration_command :: double
  wh_prev_position :: double
  wh_initialized :: bool
  wh_position_valid :: bool
  wh_feedback_valid :: bool
  wh_feedback :: waist_feedback
  wh_feedback_stamp :: nat
  wh_position_stamp :: nat
  wh_last_command_time :: nat
  wh_last_enqueue_time :: nat
  wh_last_sync_time :: nat
  wh_last_publish_time :: nat
  wh_published :: "driver_status list"
  wh_worker :: "worker option" \<comment> \<open>\<open>runtime_io_running_\<close> with the local of the worker\<close>
  wh_sync_requested :: bool
  wh_target_rad :: double
  wh_target_seq :: u64
  wh_state_seq :: u64
  wh_status_seq :: u64
  wh_bus :: bus

definition no_feedback :: waist_feedback where
  "no_feedback = \<lparr>wf_position_raw = 0, wf_velocity_rpm = 0, wf_current_ma = 0, wf_error_code = 0,
     wf_temperature_tenth_c = 0, wf_mode = 0, wf_state = 0\<rparr>"

definition msec :: "nat \<Rightarrow> nat" where "msec n = n * 1000000"

section \<open>Feedback\<close>

definition kFeedbackStateEnabled :: u8 where "kFeedbackStateEnabled = 0x80"
definition kFeedbackStateBrakeReleased :: u8 where "kFeedbackStateBrakeReleased = 0x40"
definition kFeedbackStateError :: u8 where "kFeedbackStateError = 0x20"

definition manufacturer_error_known :: "waist \<Rightarrow> bool" where
  "manufacturer_error_known s \<longleftrightarrow> wh_feedback_valid s"

definition manufacturer_error_active :: "waist \<Rightarrow> bool" where
  "manufacturer_error_active s \<longleftrightarrow>
     wh_feedback_valid s \<and> wf_state (wh_feedback s) AND kFeedbackStateError \<noteq> 0"

definition effective_error_code :: "waist \<Rightarrow> u16" where
  "effective_error_code s = (if wh_feedback_valid s then wf_error_code (wh_feedback s) else 0)"

definition try_update_waist_feedback :: "waist_config \<Rightarrow> u32 \<Rightarrow> bytes \<Rightarrow> u8 \<Rightarrow> waist \<Rightarrow> waist option" where
  "try_update_waist_feedback c can_id data dlc s =
     (case parse_feedback can_id (Some data) dlc (of_int (wc_node_id c)) of
        None \<Rightarrow> None
      | Some f \<Rightarrow> Some (s\<lparr>wh_feedback := f, wh_feedback_valid := True, wh_feedback_stamp := wh_now s\<rparr>))"

text \<open>The second half of \<open>poll_waist_position\<close>, after the wait.\<close>

definition measured_position :: "waist_config \<Rightarrow> waist \<Rightarrow> double" where
  "measured_position c s =
     dclamp (wc_sign c * raw_to_rad (wf_position_raw (wh_feedback s))) (wc_min_rad c) (wc_max_rad c)"

definition feedback_recent :: "waist \<Rightarrow> bool" where
  "feedback_recent s \<longleftrightarrow> wh_feedback_stamp s \<noteq> 0 \<and> wh_now s - wh_feedback_stamp s \<le> msec 500"

definition take_position :: "waist_config \<Rightarrow> waist \<Rightarrow> waist \<times> bool" where
  "take_position c s =
     (if \<not> wh_feedback_valid s \<or> \<not> feedback_recent s then (s, False)
      else
        let recovering = \<not> wh_position_valid s;
            s1 = s\<lparr>wh_position := measured_position c s, wh_position_valid := True,
              wh_position_stamp := wh_feedback_stamp s\<rparr>
        in (if recovering then s1\<lparr>wh_command := wh_position s1, wh_velocity_command := Fin 0,
              wh_prev_position := wh_position s1\<rparr> else s1, True))"

section \<open>Sending and receiving\<close>

definition can_transport_ready :: "waist \<Rightarrow> bool" where
  "can_transport_ready s \<longleftrightarrow> (case wh_bridge s of None \<Rightarrow> False | Some h \<Rightarrow> hb_link_online h)"

definition waist_send_frame :: "waist_config \<Rightarrow> u32 \<Rightarrow> bytes \<Rightarrow> u8 \<Rightarrow> waist \<Rightarrow> waist \<times> bool" where
  "waist_send_frame c can_id data dlc s =
     (case wh_bridge s of
        None \<Rightarrow> (s, False)
      | Some h \<Rightarrow>
          let std_id = can_id AND CAN_SFF_MASK;
              is_sdo = (kSdoTxBaseId \<le> std_id \<and> std_id < kSdoTxBaseId + 0x80);
              payload = take (unat (min dlc 8)) data
          in case send_frame h (of_int (wc_bridge_channel c)) payload std_id (\<not> is_sdo) (\<not> is_sdo) of
               Inl _ \<Rightarrow> (s, False)
             | Inr _ \<Rightarrow>
                 let s1 = s\<lparr>wh_port := tl (wh_port s)\<rparr>
                 in if wh_port s \<noteq> [] \<and> \<not> hd (wh_port s) then (s1, False)
                    else (s1\<lparr>wh_sent := wh_sent s @ [(std_id, payload, \<not> is_sdo)]\<rparr>, True))"

definition kSyncId :: u32 where "kSyncId = 0x080"

definition send_sync :: "waist_config \<Rightarrow> waist \<Rightarrow> waist \<times> bool" where
  "send_sync c s = waist_send_frame c kSyncId (replicate 8 0) 0 s"

definition send_command :: "waist_config \<Rightarrow> frame_command \<Rightarrow> waist \<Rightarrow> waist \<times> bool" where
  "send_command c f s = waist_send_frame c (fc_can_id f) (fc_data f) (fc_dlc f) s"

text \<open>A received frame: feedback of the motor, or an SDO answer for the queue of at most 32.\<close>

definition handle_bridge_frame :: "waist_config \<Rightarrow> can_value \<Rightarrow> waist \<Rightarrow> waist" where
  "handle_bridge_frame c v s =
     (let can_id = cv_id v AND CAN_SFF_MASK in
      case try_update_waist_feedback c can_id (cv_data v) (cv_data_length v) s of
        Some s1 \<Rightarrow> s1
      | None \<Rightarrow>
          if can_id \<noteq> sdo_rx_id (of_int (wc_node_id c)) then s
          else
            let n = min (cv_data_length v) 8; data = take (unat n) (cv_data v);
                queue = wh_rx_queue s @ [\<lparr>cf_can_id = can_id, cf_can_dlc = n,
                  cf_data = data @ replicate (8 - unat n) 0\<rparr>]
            in s\<lparr>wh_rx_queue := drop (length queue - 32) queue\<rparr>)"

section \<open>The control loop and the worker\<close>

definition publish_feedback_status :: "waist \<Rightarrow> waist" where
  "publish_feedback_status s =
     (if wh_last_publish_time s \<noteq> 0 \<and> wh_now s - wh_last_publish_time s < msec 50 then s
      else
        let age = (if wh_position_stamp s = 0 then - 1
                   else int ((wh_now s - wh_position_stamp s) div msec 1))
        in s\<lparr>wh_last_publish_time := wh_now s, wh_published := wh_published s @
             [\<lparr>ds_feedback_age_ms = age,
               ds_feedback_fresh = (wh_position_valid s \<and> age \<ge> 0 \<and> age \<le> 500),
               ds_initialized = wh_initialized s, ds_fault_active = manufacturer_error_active s,
               ds_error_known = manufacturer_error_known s, ds_error_code = effective_error_code s,
               ds_state = wf_state (wh_feedback s), ds_position = wh_position s,
               ds_velocity_rpm = wf_velocity_rpm (wh_feedback s),
               ds_current_ma = wf_current_ma (wh_feedback s),
               ds_temperature_tenth_c = wf_temperature_tenth_c (wh_feedback s)\<rparr>]\<rparr>)"

text \<open>\<open>duration_cast\<close> of a number of seconds. The cast of a value that is not a number has no
  specified result: the period is then \<open>None\<close>, and whether a frame is due is left to \<open>unspecified\<close>.\<close>

definition period_ns :: "double \<Rightarrow> int option" where
  "period_ns hz = (case Fin 1 / hz of Fin seconds \<Rightarrow> Some \<lfloor>seconds * 1000000000\<rfloor> | _ \<Rightarrow> None)"

definition due :: "bool \<Rightarrow> nat \<Rightarrow> nat \<Rightarrow> int option \<Rightarrow> bool" where
  "due unspecified now previous period =
     (previous = 0 \<or> (case period of None \<Rightarrow> unspecified | Some p \<Rightarrow> p \<le> int now - int previous))"

definition request_sync :: "bool \<Rightarrow> waist_config \<Rightarrow> waist \<Rightarrow> waist" where
  "request_sync unspecified c s =
     (if due unspecified (wh_now s) (wh_last_sync_time s) (period_ns (wc_sync_hz c))
      then s\<lparr>wh_sync_requested := True, wh_last_sync_time := wh_now s\<rparr> else s)"

definition settle_validity :: "waist_config \<Rightarrow> waist \<Rightarrow> waist" where
  "settle_validity c s =
     (let (s1, position_ok) = take_position c s in
      if \<not> position_ok then s1\<lparr>wh_position_valid := False, wh_initialized := False\<rparr>
      else if manufacturer_error_active s1 then s1\<lparr>wh_initialized := False\<rparr>
      else if wf_state (wh_feedback s1) AND kFeedbackStateEnabled \<noteq> 0 then s1\<lparr>wh_initialized := True\<rparr>
      else s1)"

definition update_velocity :: "double \<Rightarrow> waist \<Rightarrow> waist" where
  "update_velocity period s =
     (let dt = (if Fin (1 / 1000000) < period then period else Fin (1 / 100)) in
      s\<lparr>wh_velocity := (wh_position s - wh_prev_position s) / dt, wh_prev_position := wh_position s\<rparr>)"

definition write_state_bus :: "waist \<Rightarrow> waist" where
  "write_state_bus s =
     (let state = \<lparr>js_position = wh_position s, js_velocity = wh_velocity s, js_effort = Fin 0,
            js_seq = wh_state_seq s + 1\<rparr>;
          fresh = (wh_position_valid s \<and> wh_position_stamp s \<noteq> 0 \<and>
            wh_now s - wh_position_stamp s \<le> msec 500);
          status = \<lparr>ws_initialized = wh_initialized s, ws_feedback_valid = wh_position_valid s,
            ws_feedback_fresh = fresh, ws_fault_active = manufacturer_error_active s,
            ws_feedback_error_code = effective_error_code s, ws_seq = wh_status_seq s + 1\<rparr>
      in case write_state kWaistSharedIndex state (wh_bus s) of
           None \<Rightarrow> s
         | Some b \<Rightarrow> s\<lparr>wh_state_seq := wh_state_seq s + 1, wh_status_seq := wh_status_seq s + 1,
             wh_bus := write_waist_status status b\<rparr>)"

definition waist_read :: "bool \<Rightarrow> waist_config \<Rightarrow> double \<Rightarrow> waist \<Rightarrow> waist" where
  "waist_read unspecified c period s =
     (if \<not> can_transport_ready s then publish_feedback_status s
      else write_state_bus (publish_feedback_status (update_velocity period
        (settle_validity c (request_sync unspecified c s)))))"

definition target_wanted :: "waist_config \<Rightarrow> waist \<Rightarrow> bool" where
  "target_wanted c s \<longleftrightarrow>
     isfinite (wh_command s) \<and> isfinite (wh_velocity_command s) \<and> isfinite (wh_acceleration_command s) \<and>
     \<not> \<bar>dclamp (wh_command s) (wc_min_rad c) (wc_max_rad c) - wh_position s\<bar> \<le> wc_epsilon c"

definition waist_write :: "waist_config \<Rightarrow> waist \<Rightarrow> waist" where
  "waist_write c s =
     (if \<not> can_transport_ready s \<or> \<not> wh_initialized s \<or> \<not> wh_position_valid s then s
      else if \<not> manufacturer_error_known s \<or> manufacturer_error_active s then s\<lparr>wh_initialized := False\<rparr>
      else if \<not> target_wanted c s then s
      else if \<not> due False (wh_now s) (wh_last_enqueue_time s) (period_ns (wc_resend_hz c)) then s
      else s\<lparr>wh_target_rad := dclamp (wh_command s) (wc_min_rad c) (wc_max_rad c),
        wh_target_seq := wh_target_seq s + 1, wh_last_enqueue_time := wh_now s\<rparr>)"

definition kPi :: double where "kPi = Fin 3.14159265358979323846"

text \<open>The raw target is \<open>None\<close> only for a target that is not a number (an unspecified conversion).\<close>

definition target_raw :: "waist_config \<Rightarrow> double \<Rightarrow> i32 option" where
  "target_raw c target_rad =
     deg_to_raw (wc_sign c * dclamp target_rad (wc_min_rad c) (wc_max_rad c) * Fin 180 / kPi)"

definition position_command_frame :: "waist_config \<Rightarrow> i32 \<Rightarrow> frame_command" where
  "position_command_frame c raw = build_position_frame_command (of_int (wc_node_id c)) raw
     (of_int (wc_profile_acc c)) (of_int (wc_profile_vel c))"

definition move_waist_abs_rad_frame :: "waist_config \<Rightarrow> double \<Rightarrow> waist \<Rightarrow> waist \<times> bool" where
  "move_waist_abs_rad_frame c target_rad s =
     (if \<not> wh_initialized s \<or> \<not> wh_position_valid s \<or> manufacturer_error_active s then (s, False)
      else case target_raw c target_rad of
        None \<Rightarrow> (s, False)
      | Some raw \<Rightarrow> send_command c (position_command_frame c raw) s)"

text \<open>One turn of the worker; the first one after its start reads the sequence number.\<close>

definition io_target :: "waist_config \<Rightarrow> u64 \<Rightarrow> waist \<Rightarrow> waist" where
  "io_target c consumed s =
     (if wh_target_seq s = consumed then s
      else
        let (s1, sent) = move_waist_abs_rad_frame c (wh_target_rad s) s;
            s2 = (if sent then s1\<lparr>wh_last_command_time := wh_now s1\<rparr> else s1)
        in s2\<lparr>wh_worker := Some (W_running (wh_target_seq s))\<rparr>)"

definition io_sync :: "waist_config \<Rightarrow> waist \<Rightarrow> waist" where
  "io_sync c s =
     (if wh_sync_requested s then fst (send_sync c (s\<lparr>wh_sync_requested := False\<rparr>)) else s)"

definition io_step :: "waist_config \<Rightarrow> waist \<Rightarrow> waist" where
  "io_step c s =
     (case wh_worker s of
        None \<Rightarrow> s
      | Some W_started \<Rightarrow> s\<lparr>wh_worker := Some (W_running (wh_target_seq s))\<rparr>
      | Some (W_running consumed) \<Rightarrow> io_target c consumed (io_sync c s))"

section \<open>Waiting\<close>

definition link_down :: "waist \<Rightarrow> waist" where
  "link_down s = s\<lparr>wh_bridge := map_option (link_lost False ''USB-FDCAN serial link lost'') (wh_bridge s)\<rparr>"

definition happen :: "bool \<Rightarrow> waist_config \<Rightarrow> waist_event \<Rightarrow> waist \<Rightarrow> waist" where
  "happen unspecified c e s =
     (case e of
        V_frame v \<Rightarrow> if wh_bridge s = None then s else handle_bridge_frame c v s
      | V_link_lost \<Rightarrow> link_down s
      | V_read period \<Rightarrow> waist_read unspecified c period s
      | V_write \<Rightarrow> waist_write c s
      | V_io \<Rightarrow> io_step c s
      | V_command p v a \<Rightarrow> s\<lparr>wh_command := p, wh_velocity_command := v, wh_acceleration_command := a\<rparr>)"

fun await_events ::
  "bool \<Rightarrow> waist_config \<Rightarrow> (waist \<Rightarrow> bool) \<Rightarrow> nat \<Rightarrow> (nat \<times> waist_event) list \<Rightarrow> waist \<Rightarrow> waist" where
  "await_events u c ready deadline [] s =
     (if ready s then s\<lparr>wh_future := []\<rparr> else s\<lparr>wh_future := [], wh_now := max (wh_now s) deadline\<rparr>)"
| "await_events u c ready deadline ((gap, e) # es) s =
     (if ready s then s\<lparr>wh_future := (gap, e) # es\<rparr>
      else if deadline \<le> wh_now s then s\<lparr>wh_future := (gap, e) # es\<rparr>
      else if deadline < wh_now s + gap then
        s\<lparr>wh_future := (wh_now s + gap - deadline, e) # es, wh_now := deadline\<rparr>
      else await_events u c ready deadline es (happen u c e (s\<lparr>wh_now := wh_now s + gap\<rparr>)))"

definition await :: "bool \<Rightarrow> waist_config \<Rightarrow> (waist \<Rightarrow> bool) \<Rightarrow> nat \<Rightarrow> waist \<Rightarrow> waist" where
  "await u c ready deadline s = await_events u c ready deadline (wh_future s) s"

definition sleep_ms :: "bool \<Rightarrow> waist_config \<Rightarrow> nat \<Rightarrow> waist \<Rightarrow> waist" where
  "sleep_ms u c n s = await u c (\<lambda>_. False) (wh_now s + msec n) s"

end
