(* ===== verification/WaistLifecycle.thy ===== *)
theory WaistLifecycle
  imports WaistHardware
begin

text \<open>
  The blocking operations of the waist interface: the SDO exchanges (\<open>waist_canopen_io.cpp\<close>), the
  initialization and the two services (\<open>waist_init.cpp\<close>), the activation and the deactivation
  (\<open>waist_hardware.cpp\<close>). The loops of the code wait for an answer until a deadline of the clock; that
  each of them ends is the termination proof of its definition.
\<close>

section \<open>Waits always get on\<close>

lemma handle_bridge_frame_queue:
  "length (wh_rx_queue (handle_bridge_frame c v s)) \<le> Suc (length (wh_rx_queue s))"
  "wh_future (handle_bridge_frame c v s) = wh_future s" "wh_now (handle_bridge_frame c v s) = wh_now s"
  "wh_bridge (handle_bridge_frame c v s) = wh_bridge s"
  by (auto simp: handle_bridge_frame_def Let_def try_update_waist_feedback_def split: option.split)

lemma waist_send_frame_frame [frame_simps]:
  "wh_rx_queue (fst (waist_send_frame c i d n s)) = wh_rx_queue s"
  "wh_future (fst (waist_send_frame c i d n s)) = wh_future s"
  "wh_now (fst (waist_send_frame c i d n s)) = wh_now s"
  "wh_bridge (fst (waist_send_frame c i d n s)) = wh_bridge s"
  by (auto simp: waist_send_frame_def Let_def split: option.split sum.split)

lemma take_position_frame [frame_simps]:
  "wh_rx_queue (fst (take_position c s)) = wh_rx_queue s"
  "wh_future (fst (take_position c s)) = wh_future s" "wh_now (fst (take_position c s)) = wh_now s"
  "wh_bridge (fst (take_position c s)) = wh_bridge s"
  by (simp_all add: take_position_def Let_def)

lemma settle_validity_frame [frame_simps]:
  "wh_rx_queue (settle_validity c s) = wh_rx_queue s" "wh_future (settle_validity c s) = wh_future s"
  "wh_now (settle_validity c s) = wh_now s" "wh_bridge (settle_validity c s) = wh_bridge s"
  by (auto simp: settle_validity_def Let_def frame_simps split: prod.split dest: arg_cong [where f = fst])
    (metis fst_conv take_position_frame)+

lemma publish_frame [frame_simps]:
  "wh_rx_queue (publish_feedback_status s) = wh_rx_queue s"
  "wh_future (publish_feedback_status s) = wh_future s" "wh_now (publish_feedback_status s) = wh_now s"
  "wh_bridge (publish_feedback_status s) = wh_bridge s"
  by (simp_all add: publish_feedback_status_def Let_def)

lemma read_frame [frame_simps]:
  "wh_rx_queue (waist_read u c p s) = wh_rx_queue s" "wh_future (waist_read u c p s) = wh_future s"
  "wh_now (waist_read u c p s) = wh_now s" "wh_bridge (waist_read u c p s) = wh_bridge s"
  by (simp_all add: waist_read_def frame_simps write_state_bus_def update_velocity_def request_sync_def Let_def
      split: option.split)

lemma waist_write_frame [frame_simps]:
  "wh_rx_queue (waist_write c s) = wh_rx_queue s" "wh_future (waist_write c s) = wh_future s"
  "wh_now (waist_write c s) = wh_now s" "wh_bridge (waist_write c s) = wh_bridge s"
  by (simp_all add: waist_write_def)

lemma io_target_frame [frame_simps]:
  "wh_rx_queue (io_target c n s) = wh_rx_queue s" "wh_future (io_target c n s) = wh_future s"
  "wh_now (io_target c n s) = wh_now s" "wh_bridge (io_target c n s) = wh_bridge s"
  using waist_send_frame_frame
  by (auto simp: io_target_def move_waist_abs_rad_frame_def send_command_def Let_def split_beta
      split: option.split)

lemma io_step_frame [frame_simps]:
  "wh_rx_queue (io_step c s) = wh_rx_queue s" "wh_future (io_step c s) = wh_future s"
  "wh_now (io_step c s) = wh_now s" "wh_bridge (io_step c s) = wh_bridge s"
  by (simp_all add: io_step_def io_sync_def send_sync_def frame_simps split: option.split worker.split)

lemma happen_queue: "length (wh_rx_queue (happen u c e s)) \<le> Suc (length (wh_rx_queue s))"
  by (cases e) (simp_all add: happen_def frame_simps handle_bridge_frame_queue link_down_def)

lemma happen_frame [frame_simps]:
  "wh_future (happen u c e s) = wh_future s" "wh_now (happen u c e s) = wh_now s"
  "wh_bridge (happen u c e s) = None \<longleftrightarrow> wh_bridge s = None"
  by (cases e; simp add: happen_def frame_simps handle_bridge_frame_queue link_down_def)+

text \<open>The condition of a wait does not look at the clock and the events to come.\<close>

definition timeless :: "(waist \<Rightarrow> bool) \<Rightarrow> bool" where
  "timeless ready \<longleftrightarrow>
     (\<forall>s future now. ready (s\<lparr>wh_future := future\<rparr>) = ready s \<and> ready (s\<lparr>wh_now := now\<rparr>) = ready s)"

lemma timelessD [simp]: "timeless ready \<Longrightarrow> ready (s\<lparr>wh_future := future\<rparr>) = ready s"
  "timeless ready \<Longrightarrow> ready (s\<lparr>wh_now := now\<rparr>) = ready s"
  unfolding timeless_def by blast+

definition work :: "waist \<Rightarrow> nat" where
  "work s = 2 * length (wh_future s) + length (wh_rx_queue s)"

lemma await_events_ends:
  assumes r: "timeless ready" and es: "wh_future s = es"
  shows "wh_now s \<le> wh_now (await_events u c ready d es s)"
    "wh_now (await_events u c ready d es s) \<le> max d (wh_now s)"
    "ready (await_events u c ready d es s) \<or> d \<le> wh_now (await_events u c ready d es s)"
    "work (await_events u c ready d es s) \<le> work s"
    "\<not> ready s \<Longrightarrow> ready (await_events u c ready d es s) \<Longrightarrow> work (await_events u c ready d es s) < work s"
    "wh_bridge (await_events u c ready d es s) = None \<longleftrightarrow> wh_bridge s = None"
proof -
  have "wh_now s \<le> wh_now (await_events u c ready d es s) \<and>
    wh_now (await_events u c ready d es s) \<le> max d (wh_now s) \<and>
    (ready (await_events u c ready d es s) \<or> d \<le> wh_now (await_events u c ready d es s)) \<and>
    work (await_events u c ready d es s) \<le> 2 * length es + length (wh_rx_queue s) \<and>
    (\<not> ready s \<longrightarrow> ready (await_events u c ready d es s) \<longrightarrow>
      work (await_events u c ready d es s) < 2 * length es + length (wh_rx_queue s)) \<and>
    (wh_bridge (await_events u c ready d es s) = None \<longleftrightarrow> wh_bridge s = None)"
    using r
  proof (induction u c ready d es s rule: await_events.induct)
    case (1 u c ready d s)
    then show ?case
      by (simp add: work_def)
  next
    case (2 u c ready d gap e es s)
    show ?case
    proof (cases "ready s \<or> d \<le> wh_now s \<or> d < wh_now s + gap")
      case True
      then show ?thesis
        using "2.prems" by (auto simp: work_def)
    next
      case False
      let ?t = "happen u c e (s\<lparr>wh_now := wh_now s + gap\<rparr>)"
      have q: "length (wh_rx_queue ?t) \<le> Suc (length (wh_rx_queue s))"
        using happen_queue [of u c e "s\<lparr>wh_now := wh_now s + gap\<rparr>"] by simp
      have IH: "wh_now ?t \<le> wh_now (await_events u c ready d es ?t) \<and>
          wh_now (await_events u c ready d es ?t) \<le> max d (wh_now ?t) \<and>
          (ready (await_events u c ready d es ?t) \<or> d \<le> wh_now (await_events u c ready d es ?t)) \<and>
          work (await_events u c ready d es ?t) \<le> 2 * length es + length (wh_rx_queue ?t) \<and>
          (wh_bridge (await_events u c ready d es ?t) = None \<longleftrightarrow> wh_bridge ?t = None)"
        using "2.IH" False "2.prems" by simp
      have t: "await_events u c ready d ((gap, e) # es) s = await_events u c ready d es ?t"
        "wh_now ?t = wh_now s + gap" "wh_bridge ?t = None \<longleftrightarrow> wh_bridge s = None"
        using False by (simp_all add: frame_simps)
      show ?thesis
        unfolding t(1) using IH q False unfolding t(2,3) by auto
    qed
  qed
  then show "wh_now s \<le> wh_now (await_events u c ready d es s)"
    "wh_now (await_events u c ready d es s) \<le> max d (wh_now s)"
    "ready (await_events u c ready d es s) \<or> d \<le> wh_now (await_events u c ready d es s)"
    "work (await_events u c ready d es s) \<le> work s"
    "\<not> ready s \<Longrightarrow> ready (await_events u c ready d es s) \<Longrightarrow> work (await_events u c ready d es s) < work s"
    "wh_bridge (await_events u c ready d es s) = None \<longleftrightarrow> wh_bridge s = None"
    using es by (simp_all add: work_def)
qed

lemma await_ends:
  assumes "timeless ready"
  shows "wh_now s \<le> wh_now (await u c ready d s)" "wh_now (await u c ready d s) \<le> max d (wh_now s)"
    "ready (await u c ready d s) \<or> d \<le> wh_now (await u c ready d s)" "work (await u c ready d s) \<le> work s"
    "\<not> ready s \<Longrightarrow> ready (await u c ready d s) \<Longrightarrow> work (await u c ready d s) < work s"
    "wh_bridge (await u c ready d s) = None \<longleftrightarrow> wh_bridge s = None"
  unfolding await_def by (intro await_events_ends [OF assms refl]; assumption)+

section \<open>Polls\<close>

definition stamp_changed :: "nat \<Rightarrow> waist \<Rightarrow> bool" where
  "stamp_changed before s \<longleftrightarrow> wh_feedback_stamp s \<noteq> before \<or> wh_bridge s = None"

definition poll_waist_feedback :: "bool \<Rightarrow> waist_config \<Rightarrow> int \<Rightarrow> waist \<Rightarrow> waist \<times> bool" where
  "poll_waist_feedback u c timeout s =
     (if wh_bridge s = None then (s, False)
      else if timeout \<le> 0 then (s, wh_feedback_valid s)
      else
        let before = wh_feedback_stamp s;
            s1 = await u c (stamp_changed before) (wh_now s + msec (nat timeout)) s
        in (s1, stamp_changed before s1))"

definition poll_waist_position :: "bool \<Rightarrow> waist_config \<Rightarrow> int \<Rightarrow> waist \<Rightarrow> waist \<times> bool" where
  "poll_waist_position u c timeout s =
     take_position c (if timeout > 0 \<and> \<not> wh_feedback_valid s then fst (poll_waist_feedback u c timeout s) else s)"

definition frame_ready :: "waist \<Rightarrow> bool" where
  "frame_ready s \<longleftrightarrow> wh_rx_queue s \<noteq> [] \<or> wh_bridge s = None"

definition recv_frame :: "bool \<Rightarrow> waist_config \<Rightarrow> nat \<Rightarrow> waist \<Rightarrow> waist \<times> can_frame option" where
  "recv_frame u c timeout s =
     (if wh_bridge s = None then (s, None)
      else
        let s1 = (if wh_rx_queue s = [] then await u c frame_ready (wh_now s + msec timeout) s else s)
        in case wh_rx_queue s1 of [] \<Rightarrow> (s1, None) | f # fs \<Rightarrow> (s1\<lparr>wh_rx_queue := fs\<rparr>, Some f))"

text \<open>A loop that finds no bridge has nothing to wait for and turns until its deadline has passed.\<close>

definition spin_until :: "bool \<Rightarrow> waist_config \<Rightarrow> nat \<Rightarrow> waist \<Rightarrow> waist" where
  "spin_until u c deadline s = await u c (\<lambda>_. False) deadline s"

lemma timeless_conditions [simp]:
  "timeless (stamp_changed n)" "timeless frame_ready" "timeless (\<lambda>_. b)"
  by (simp_all add: timeless_def stamp_changed_def frame_ready_def)

lemma spin_until_ends [simp]: "deadline \<le> wh_now (spin_until u c deadline s)"
  using await_ends(3) [of "\<lambda>_. False" u c deadline s] by (simp add: spin_until_def)

lemma poll_feedback_progress:
  assumes "wh_bridge s \<noteq> None" "0 < timeout" "poll_waist_feedback u c timeout s = (s1, b)"
  shows "wh_now s \<le> wh_now s1" "work s1 \<le> work s" "wh_now s < wh_now s1 \<or> work s1 < work s"
    "wh_now s1 \<le> wh_now s + msec (nat timeout)" "wh_bridge s1 \<noteq> None"
proof -
  let ?r = "stamp_changed (wh_feedback_stamp s)" and ?d = "wh_now s + msec (nat timeout)"
  have s1: "s1 = await u c ?r ?d s"
    using assms unfolding poll_waist_feedback_def Let_def by (simp split: if_splits)
  have "\<not> ?r s" "wh_now s < ?d"
    using assms(1,2) by (simp_all add: stamp_changed_def msec_def)
  then show "wh_now s \<le> wh_now s1" "work s1 \<le> work s" "wh_now s < wh_now s1 \<or> work s1 < work s"
    "wh_now s1 \<le> ?d" "wh_bridge s1 \<noteq> None"
    using await_ends [where ready = ?r and s = s and u = u and c = c and d = ?d] assms(1) unfolding s1 by auto
qed

lemma recv_frame_progress:
  assumes "wh_bridge s \<noteq> None" "0 < timeout" "recv_frame u c timeout s = (s1, f)"
  shows "wh_now s \<le> wh_now s1" "work s1 \<le> work s" "wh_now s < wh_now s1 \<or> work s1 < work s"
    "wh_now s1 \<le> wh_now s + msec timeout" "wh_bridge s1 \<noteq> None"
proof -
  let ?d = "wh_now s + msec timeout"
  define t where "t = (if wh_rx_queue s = [] then await u c frame_ready ?d s else s)"
  have a: "wh_now s \<le> wh_now t" "work t \<le> work s" "wh_now t \<le> ?d" "wh_bridge t \<noteq> None"
    using await_ends [where ready = frame_ready and s = s and u = u and c = c and d = ?d] assms(1)
    by (auto simp: t_def)
  have e: "wh_now s < wh_now t" if "wh_rx_queue t = []"
    using that await_ends(3) [of frame_ready u c ?d s] a(4) assms(2)
    by (auto simp: frame_ready_def msec_def t_def split: if_splits)
  have "recv_frame u c timeout s =
      (case wh_rx_queue t of [] \<Rightarrow> (t, None) | f # fs \<Rightarrow> (t\<lparr>wh_rx_queue := fs\<rparr>, Some f))"
    unfolding recv_frame_def Let_def t_def using assms(1) by (simp only: if_False)
  then show "wh_now s \<le> wh_now s1" "work s1 \<le> work s" "wh_now s < wh_now s1 \<or> work s1 < work s"
    "wh_now s1 \<le> ?d" "wh_bridge s1 \<noteq> None"
    using a e assms(3) by (cases "wh_rx_queue t"; auto simp: work_def)+
qed

section \<open>SDO exchanges\<close>

definition node_of :: "waist_config \<Rightarrow> i32" where
  "node_of c = of_int (wc_node_id c)"

definition kSdoWriteAck :: int where "kSdoWriteAck = 0x60"
definition kSdoReadI32Response :: int where "kSdoReadI32Response = 0x43"

function wait_sdo_response ::
  "bool \<Rightarrow> waist_config \<Rightarrow> u16 \<Rightarrow> u8 \<Rightarrow> int \<Rightarrow> nat \<Rightarrow> waist \<Rightarrow> waist \<times> bytes option" where
  "wait_sdo_response u c idx sub cmd deadline s =
     (if deadline \<le> wh_now s then (s, None)
      else if wh_bridge s = None then (spin_until u c deadline s, None)
      else
        let slice = max 1 (min ((deadline - wh_now s) div msec 1) 2) in
        case recv_frame u c slice s of
          (s1, None) \<Rightarrow> wait_sdo_response u c idx sub cmd deadline s1
        | (s1, Some f) \<Rightarrow>
            if is_sdo_response f (node_of c) idx sub cmd
            then (case try_update_waist_feedback c (cf_can_id f) (cf_data f) (cf_can_dlc f) s1 of
                    None \<Rightarrow> s1 | Some s2 \<Rightarrow> s2, Some (cf_data f))
            else wait_sdo_response u c idx sub cmd deadline
              (case try_update_waist_feedback c (cf_can_id f) (cf_data f) (cf_can_dlc f) s1 of
                 None \<Rightarrow> s1 | Some s2 \<Rightarrow> s2))"
  by pat_completeness auto

lemma try_update_frame [frame_simps]:
  "work (case try_update_waist_feedback c i d n s of None \<Rightarrow> s | Some t \<Rightarrow> t) = work s"
  "wh_now (case try_update_waist_feedback c i d n s of None \<Rightarrow> s | Some t \<Rightarrow> t) = wh_now s"
  "wh_bridge (case try_update_waist_feedback c i d n s of None \<Rightarrow> s | Some t \<Rightarrow> t) = wh_bridge s"
  by (simp_all add: try_update_waist_feedback_def work_def split: option.split)

text \<open>What a loop has left to do before its deadline.\<close>

definition left_until :: "nat \<Rightarrow> waist \<Rightarrow> nat" where
  "left_until deadline s = (deadline - wh_now s) + work s"

lemma left_until_less:
  assumes "wh_now s < deadline" "wh_now s \<le> wh_now t" "work t \<le> work s" "wh_now s < wh_now t \<or> work t < work s"
  shows "left_until deadline t < left_until deadline s"
  using assms by (auto simp: left_until_def)

lemma recv_frame_left:
  assumes "recv_frame u c n s = (s1, f)" "wh_now s < deadline" "wh_bridge s \<noteq> None" "0 < n"
  shows "left_until deadline s1 < left_until deadline s"
  using recv_frame_progress [OF assms(3,4,1)] by (intro left_until_less [OF assms(2)])

lemma try_update_left [simp]:
  "left_until d (case try_update_waist_feedback c i b n s of None \<Rightarrow> s | Some t \<Rightarrow> t) = left_until d s"
  unfolding left_until_def frame_simps ..

termination wait_sdo_response
  by (relation "measure (\<lambda>(u, c, idx, sub, cmd, deadline, s). left_until deadline s)")
    (simp_all add: recv_frame_left [OF sym] not_le)

declare wait_sdo_response.simps [simp del]

definition sdo_timeout :: "waist_config \<Rightarrow> int \<Rightarrow> nat" where
  "sdo_timeout c timeout = nat (if timeout > 0 then timeout else wc_timeout_ms c)"

definition sdo_write ::
  "bool \<Rightarrow> waist_config \<Rightarrow> bytes \<Rightarrow> u16 \<Rightarrow> u8 \<Rightarrow> int \<Rightarrow> waist \<Rightarrow> waist \<times> bool" where
  "sdo_write u c request idx sub timeout s =
     (let (s1, sent) = waist_send_frame c (sdo_tx_id (node_of c)) request 8 s in
      if \<not> sent then (s1, False)
      else case wait_sdo_response u c idx sub kSdoWriteAck (wh_now s1 + msec (sdo_timeout c timeout)) s1 of
             (s2, None) \<Rightarrow> (s2, False)
           | (s2, Some response) \<Rightarrow> (s2, response ! 0 = 0x60))"

definition sdo_write_i8 :: "bool \<Rightarrow> waist_config \<Rightarrow> u16 \<Rightarrow> u8 \<Rightarrow> i8 \<Rightarrow> int \<Rightarrow> waist \<Rightarrow> waist \<times> bool" where
  "sdo_write_i8 u c idx sub v = sdo_write u c (build_sdo_write_i8 idx sub v) idx sub"

definition sdo_write_u16 :: "bool \<Rightarrow> waist_config \<Rightarrow> u16 \<Rightarrow> u8 \<Rightarrow> u16 \<Rightarrow> int \<Rightarrow> waist \<Rightarrow> waist \<times> bool" where
  "sdo_write_u16 u c idx sub v = sdo_write u c (build_sdo_write_u16 idx sub v) idx sub"

definition sdo_write_i32 :: "bool \<Rightarrow> waist_config \<Rightarrow> u16 \<Rightarrow> u8 \<Rightarrow> i32 \<Rightarrow> int \<Rightarrow> waist \<Rightarrow> waist \<times> bool" where
  "sdo_write_i32 u c idx sub v = sdo_write u c (build_sdo_write_i32 idx sub v) idx sub"

definition sdo_write_u32 :: "bool \<Rightarrow> waist_config \<Rightarrow> u16 \<Rightarrow> u8 \<Rightarrow> u32 \<Rightarrow> int \<Rightarrow> waist \<Rightarrow> waist \<times> bool" where
  "sdo_write_u32 u c idx sub v = sdo_write u c (build_sdo_write_u32 idx sub v) idx sub"

definition sdo_read_i32 :: "bool \<Rightarrow> waist_config \<Rightarrow> u16 \<Rightarrow> u8 \<Rightarrow> int \<Rightarrow> waist \<Rightarrow> waist \<times> i32 option" where
  "sdo_read_i32 u c idx sub timeout s =
     (let (s1, sent) = waist_send_frame c (sdo_tx_id (node_of c)) (build_sdo_read idx sub) 8 s in
      if \<not> sent then (s1, None)
      else case wait_sdo_response u c idx sub kSdoReadI32Response (wh_now s1 + msec (sdo_timeout c timeout)) s1 of
             (s2, response) \<Rightarrow> (s2, map_option sdo_i32_value response))"

section \<open>Initialization\<close>

text \<open>One turn of the two loops that poll the feedback every 50 ms until a deadline.\<close>

definition poll_turn :: "bool \<Rightarrow> waist_config \<Rightarrow> nat \<Rightarrow> waist \<Rightarrow> waist" where
  "poll_turn u c deadline s =
     (if wh_bridge s = None then spin_until u c deadline s else fst (poll_waist_feedback u c 50 s))"

lemma poll_turn_left:
  assumes "wh_now s < deadline"
  shows "left_until deadline (poll_turn u c deadline s) < left_until deadline s"
proof (cases "wh_bridge s = None")
  case True
  have "wh_now s < wh_now (spin_until u c deadline s)"
    using assms spin_until_ends [of deadline u c s] by (simp del: spin_until_ends)
  moreover have "work (spin_until u c deadline s) \<le> work s"
    unfolding spin_until_def by (rule await_ends(4)) simp
  ultimately show ?thesis
    using True assms by (auto simp: poll_turn_def intro!: left_until_less)
next
  case False
  obtain s1 b where p: "poll_waist_feedback u c 50 s = (s1, b)"
    by fastforce
  show ?thesis
    using poll_feedback_progress [OF False _ p] False
    by (auto simp: poll_turn_def p intro!: left_until_less [OF assms])
qed

function wait_error_cleared :: "bool \<Rightarrow> waist_config \<Rightarrow> nat \<Rightarrow> waist \<Rightarrow> waist \<times> bool" where
  "wait_error_cleared u c deadline s =
     (if deadline \<le> wh_now s then (s, False)
      else
        let s1 = poll_turn u c deadline s in
        if wh_feedback_valid s1 \<and> \<not> manufacturer_error_active s1 then (s1, True)
        else wait_error_cleared u c deadline s1)"
  by pat_completeness auto

termination wait_error_cleared
  by (relation "measure (\<lambda>(u, c, deadline, s). left_until deadline s)") (simp_all add: poll_turn_left not_le)

declare wait_error_cleared.simps [simp del]

definition drive_enabled :: "waist \<Rightarrow> bool" where
  "drive_enabled s \<longleftrightarrow>
     wh_feedback_valid s \<and> wf_state (wh_feedback s) AND kFeedbackStateEnabled \<noteq> 0 \<and>
     wf_state (wh_feedback s) AND kFeedbackStateBrakeReleased \<noteq> 0"

function wait_enabled :: "bool \<Rightarrow> waist_config \<Rightarrow> nat \<Rightarrow> waist \<Rightarrow> waist \<times> bool" where
  "wait_enabled u c deadline s =
     (if deadline \<le> wh_now s then (s, False)
      else
        let s1 = poll_turn u c deadline s in
        if manufacturer_error_active s1 then (s1, False)
        else if drive_enabled s1 then
          let s2 = fst (poll_waist_position u c 0 s1) in (s2, wh_position_valid s2)
        else wait_enabled u c deadline s1)"
  by pat_completeness auto

termination wait_enabled
  by (relation "measure (\<lambda>(u, c, deadline, s). left_until deadline s)") (simp_all add: poll_turn_left not_le)

declare wait_enabled.simps [simp del]

type_synonym init_step = "waist \<Rightarrow> waist \<times> bool"

fun all_steps :: "init_step list \<Rightarrow> init_step" where
  "all_steps [] s = (s, True)"
| "all_steps (f # fs) s = (let (s1, ok) = f s in if ok then all_steps fs s1 else (s1, False))"

definition pause :: "bool \<Rightarrow> waist_config \<Rightarrow> nat \<Rightarrow> init_step" where
  "pause u c n s = (sleep_ms u c n s, True)"

definition clear_pulse :: "bool \<Rightarrow> waist_config \<Rightarrow> init_step list" where
  "clear_pulse u c =
     [send_command c (build_clear_error_frame_command (node_of c) True), pause u c 50,
      send_command c (build_clear_error_frame_command (node_of c) False)]"

definition first_feedback :: "bool \<Rightarrow> waist_config \<Rightarrow> int \<Rightarrow> init_step" where
  "first_feedback u c timeout s =
     (let (s1, fed) = poll_waist_feedback u c timeout s
      in if fed then poll_waist_position u c 0 s1 else (s1, False))"

definition error_cleared :: "bool \<Rightarrow> waist_config \<Rightarrow> int \<Rightarrow> init_step" where
  "error_cleared u c timeout s =
     (let s1 = fst (wait_error_cleared u c (wh_now s + msec (nat timeout)) s)
      in (s1, \<not> manufacturer_error_active s1))"

definition clear_latched_error :: "bool \<Rightarrow> waist_config \<Rightarrow> int \<Rightarrow> init_step" where
  "clear_latched_error u c timeout s =
     (if manufacturer_error_active s then all_steps (clear_pulse u c @ [error_cleared u c timeout]) s
      else (s, True))"

definition kIndexControlword :: u16 where "kIndexControlword = 0x6040"
definition kIndexMode :: u16 where "kIndexMode = 0x6060"
definition kIndexTargetVelocity :: u16 where "kIndexTargetVelocity = 0x60FF"
definition kIndexActualPosition :: u16 where "kIndexActualPosition = 0x6064"
definition kIndexSetZeroPosition :: u16 where "kIndexSetZeroPosition = 0x2531"

definition kEnableSequence :: "u16 list" where
  "kEnableSequence = [0x0006, 0x0007, 0x000F]"

definition safe_enable_frame :: "waist_config \<Rightarrow> init_step" where
  "safe_enable_frame c s = send_command c (position_command_frame c (wf_position_raw (wh_feedback s))) s"

definition confirm_enabled :: "bool \<Rightarrow> waist_config \<Rightarrow> int \<Rightarrow> init_step" where
  "confirm_enabled u c timeout s = wait_enabled u c (wh_now s + msec (nat timeout)) s"

definition enable_steps :: "bool \<Rightarrow> waist_config \<Rightarrow> int \<Rightarrow> init_step list" where
  "enable_steps u c sdo_timeout_ms =
     concat (map (\<lambda>controlword.
       [sdo_write_u16 u c kIndexControlword 0 controlword sdo_timeout_ms, pause u c 120]) kEnableSequence)"

definition init_steps :: "bool \<Rightarrow> waist_config \<Rightarrow> int \<Rightarrow> init_step list" where
  "init_steps u c timeout =
     [send_sync c, first_feedback u c timeout, clear_latched_error u c timeout,
      sdo_write_i32 u c kIndexTargetVelocity 0 0 (max 50 timeout),
      sdo_write_i8 u c kIndexMode 0 3 (max 50 timeout), pause u c 50] @
     enable_steps u c (max 50 timeout) @ [safe_enable_frame c, confirm_enabled u c timeout]"

definition init_waist_once :: "bool \<Rightarrow> waist_config \<Rightarrow> int \<Rightarrow> init_step" where
  "init_waist_once u c timeout = all_steps (init_steps u c timeout)"

fun init_attempts :: "bool \<Rightarrow> waist_config \<Rightarrow> nat \<Rightarrow> init_step" where
  "init_attempts u c 0 s = (s, False)"
| "init_attempts u c (Suc tries) s =
     (let (s1, ok) = init_waist_once u c (wc_init_timeout_ms c) s in
      if ok then (s1, True)
      else if tries = 0 then (s1, False)
      else init_attempts u c tries (sleep_ms u c 200 s1))"

definition init_waist :: "bool \<Rightarrow> waist_config \<Rightarrow> init_step" where
  "init_waist u c = init_attempts u c (nat (wc_init_retry_count c))"

section \<open>Services\<close>

definition hex2 :: "u8 \<Rightarrow> string" where
  "hex2 v = map (\<lambda>shift. ''0123456789ABCDEF'' ! unat (drop_bit shift v AND 0xF)) [4, 0]"

definition clear_waist_error :: "bool \<Rightarrow> waist_config \<Rightarrow> waist \<Rightarrow> waist \<times> bool \<times> string" where
  "clear_waist_error u c s =
     (if \<not> can_transport_ready s then (s, False, ''waist transport not ready'')
      else
        let (s1, high) = send_command c (build_clear_error_frame_command (node_of c) True) s in
        if \<not> high then (s1, False, ''clear-error high pulse send failed'')
        else
          let (s2, low) = send_command c (build_clear_error_frame_command (node_of c) False) (sleep_ms u c 50 s1) in
          if \<not> low then (s2, False, ''clear-error low pulse send failed'')
          else
            let (s3, cleared) = wait_error_cleared u c (wh_now s2 + msec (nat (wc_timeout_ms c))) s2 in
            if cleared then
              let (s4, ok) = init_waist_once u c (wc_init_timeout_ms c) s3
              in (s4\<lparr>wh_initialized := ok\<rparr>, ok,
                  if ok then ''waist error cleared and drive enabled''
                  else ''waist error cleared but enable confirmation failed'')
            else (s3, False, ''clear-error timeout: state=0x'' @ hex2 (wf_state (wh_feedback s3)) @
              '' error=0x'' @ hex4 (wf_error_code (wh_feedback s3))))"

definition raw_text :: "i32 option \<Rightarrow> string" where
  "raw_text r = (case r of None \<Rightarrow> ''unavailable/0'' | Some v \<Rightarrow> show_int (sint v))"

definition set_waist_zero_position :: "bool \<Rightarrow> waist_config \<Rightarrow> waist \<Rightarrow> waist \<times> bool \<times> string" where
  "set_waist_zero_position u c s =
     (if \<not> can_transport_ready s then (s, False, ''waist transport not ready'')
      else
        let t = wc_timeout_ms c; (s1, before) = sdo_read_i32 u c kIndexActualPosition 0 t s;
            (s2, disabled) = sdo_write_u16 u c kIndexControlword 0 0 t s1
        in if \<not> disabled then (s2, False, ''waist zero failed: disable command was not acknowledged'')
           else
             let (s3, zeroed) = sdo_write_u32 u c kIndexSetZeroPosition 0 1 t (sleep_ms u c 50 s2) in
             if \<not> zeroed then (s3, False, ''waist zero failed: 0x2531:00 was not acknowledged'')
             else
               let (s4, after) = sdo_read_i32 u c kIndexActualPosition 0 t (sleep_ms u c 100 s3)
               in (s4\<lparr>wh_initialized := False, wh_feedback_valid := False, wh_position_valid := False,
                     wh_command := Fin 0, wh_velocity_command := Fin 0\<rparr>, True,
                   ''waist zero set; before_raw='' @ raw_text before @ '' after_raw='' @ raw_text after @
                   ''; drive remains disabled''))"

section \<open>Transitions\<close>

definition close_can :: "waist \<Rightarrow> waist" where
  "close_can s = s\<lparr>wh_listener := (if wh_bridge s \<noteq> None then 0 else wh_listener s),
     wh_bridge := None, wh_rx_queue := []\<rparr>"

text \<open>\<open>acquired\<close> is the result of \<open>UsbBridgeHub::acquire\<close>, a new hub or its exception.\<close>

definition open_can :: "string + hub \<Rightarrow> waist \<Rightarrow> waist \<times> bool" where
  "open_can acquired s =
     (let s0 = close_can s in
      case acquired of
        Inl _ \<Rightarrow> (s0, False)
      | Inr h \<Rightarrow>
          let (h1, handle) = add_frame_listener h
          in (s0\<lparr>wh_bridge := Some h1, wh_listener := handle\<rparr>, True))"

definition forget_feedback :: "waist \<Rightarrow> waist" where
  "forget_feedback s = s\<lparr>wh_feedback_valid := False, wh_position_valid := False,
     wh_feedback := no_feedback, wh_feedback_stamp := 0, wh_position_stamp := 0, wh_last_publish_time := 0\<rparr>"

definition start_runtime_io_worker :: "waist \<Rightarrow> waist" where
  "start_runtime_io_worker s =
     (case wh_worker s of None \<Rightarrow> s\<lparr>wh_worker := Some W_started\<rparr> | Some _ \<Rightarrow> s)"

definition stop_runtime_io_worker :: "waist \<Rightarrow> waist" where
  "stop_runtime_io_worker s = s\<lparr>wh_worker := None\<rparr>"

definition hold_measured :: "waist \<Rightarrow> waist" where
  "hold_measured s = s\<lparr>wh_command := wh_position s, wh_velocity_command := Fin 0,
     wh_acceleration_command := Fin 0, wh_prev_position := wh_position s, wh_last_command_time := 0,
     wh_last_enqueue_time := 0, wh_last_sync_time := wh_now s, wh_target_rad := wh_position s,
     wh_target_seq := 0, wh_sync_requested := False\<rparr>"

definition waist_activate :: "bool \<Rightarrow> waist_config \<Rightarrow> string + hub \<Rightarrow> waist \<Rightarrow> waist \<times> bool" where
  "waist_activate u c acquired s =
     (let (s1, opened) = open_can acquired s in
      if \<not> opened then (s1, False)
      else
        let (s2, ok) = init_waist u c (forget_feedback s1); s3 = s2\<lparr>wh_initialized := ok\<rparr> in
        if \<not> ok then (close_can s3, False)
        else ((start_runtime_io_worker (hold_measured s3))\<lparr>wh_services_up := True\<rparr>, True))"

datatype waist_service = Clear_error | Set_zero

definition serve :: "bool \<Rightarrow> waist_config \<Rightarrow> waist_service \<Rightarrow> waist \<Rightarrow> waist" where
  "serve u c r s = fst (case r of Clear_error \<Rightarrow> clear_waist_error u c s
     | Set_zero \<Rightarrow> set_waist_zero_position u c s)"

definition disable_drive :: "bool \<Rightarrow> waist_config \<Rightarrow> waist \<Rightarrow> waist" where
  "disable_drive u c s =
     (if can_transport_ready s then
        fst (sdo_write_u16 u c kIndexControlword 0 0 (wc_timeout_ms c)
          (fst (send_command c (build_clear_error_frame_command (node_of c) False) s)))
      else s)"

text \<open>\<open>calls\<close> are the service calls the executor takes after the drive was disabled and before the
  join of its thread.\<close>

definition waist_deactivate :: "bool \<Rightarrow> waist_config \<Rightarrow> waist_service list \<Rightarrow> waist \<Rightarrow> waist" where
  "waist_deactivate u c calls s =
     (let s1 = fold (serve u c) calls (disable_drive u c (stop_runtime_io_worker s))
      in (close_can s1)\<lparr>wh_services_up := False, wh_initialized := False, wh_feedback_valid := False,
        wh_position_valid := False, wh_feedback_stamp := 0, wh_position_stamp := 0\<rparr>)"

end
