(* ===== verification/WaistFrames.thy ===== *)
theory WaistFrames
  imports WaistLifecycle
begin

text \<open>
  What the operations of the waist interface send: \<open>adds A s t\<close> holds if the frames sent between the
  states \<open>s\<close> and \<open>t\<close> are in the set \<open>A\<close>, and \<open>sends\<close> allows in addition the frames of a running
  worker. The lemmas follow the operations from one frame up to the initialization.
\<close>

section \<open>Frames added\<close>

definition adds :: "sent_frame set \<Rightarrow> waist \<Rightarrow> waist \<Rightarrow> bool" where
  "adds A s t \<longleftrightarrow> (\<exists>fs. wh_sent t = wh_sent s @ fs \<and> set fs \<subseteq> A)"

lemma adds_refl [intro, simp]: "wh_sent t = wh_sent s \<Longrightarrow> adds A s t"
  unfolding adds_def by simp

lemma adds_trans [trans]: "adds A s t \<Longrightarrow> adds A t v \<Longrightarrow> adds A s v"
  unfolding adds_def by fastforce

lemma adds_mono: "adds A s t \<Longrightarrow> A \<subseteq> B \<Longrightarrow> adds B s t"
  unfolding adds_def by blast

lemma adds_sent_cong: "wh_sent s = wh_sent s' \<Longrightarrow> wh_sent t = wh_sent t' \<Longrightarrow> adds A s t \<longleftrightarrow> adds A s' t'"
  unfolding adds_def by simp

definition wire_frame :: "frame_command \<Rightarrow> sent_frame" where
  "wire_frame f = (fc_can_id f AND CAN_SFF_MASK, take (unat (min (fc_dlc f) 8)) (fc_data f),
     \<not> (kSdoTxBaseId \<le> fc_can_id f AND CAN_SFF_MASK \<and>
        fc_can_id f AND CAN_SFF_MASK < kSdoTxBaseId + 0x80))"

definition sync_frame :: sent_frame where
  "sync_frame = wire_frame \<lparr>fc_can_id = kSyncId, fc_data = replicate 8 0, fc_dlc = 0\<rparr>"

lemma send_adds:
  "adds {wire_frame \<lparr>fc_can_id = i, fc_data = d, fc_dlc = n\<rparr>} s (fst (waist_send_frame c i d n s))"
  by (auto simp: waist_send_frame_def Let_def adds_def wire_frame_def split: option.split sum.split)

lemma send_command_adds: "adds {wire_frame f} s (fst (send_command c f s))"
  using send_adds [of "fc_can_id f" "fc_data f" "fc_dlc f" s c] by (cases f) (simp add: send_command_def)

lemma send_sync_adds: "adds {sync_frame} s (fst (send_sync c s))"
  using send_adds by (simp add: send_sync_def sync_frame_def)

lemma send_needs_link: "snd (waist_send_frame c i d n s) \<Longrightarrow> can_transport_ready s"
  by (auto simp: waist_send_frame_def can_transport_ready_def Let_def send_frame_def send_packet_def
      split: option.splits sum.splits if_splits)

lemma send_unless_link: "\<not> can_transport_ready s \<Longrightarrow> fst (waist_send_frame c i d n s) = s"
  by (auto simp: waist_send_frame_def can_transport_ready_def Let_def send_frame_def send_packet_def
      split: option.splits sum.splits if_splits)

text \<open>What the worker may add: the sync frame, and a target while every gate is open.\<close>

definition gates_open :: "waist \<Rightarrow> bool" where
  "gates_open s \<longleftrightarrow> wh_initialized s \<and> wh_position_valid s \<and> \<not> manufacturer_error_active s \<and> can_transport_ready s"

definition target_frames :: "waist_config \<Rightarrow> sent_frame set" where
  "target_frames c = {f. \<exists>r raw. target_raw c r = Some raw \<and> f = wire_frame (position_command_frame c raw)}"

lemma send_sync_gates [frame_simps]: "gates_open (fst (send_sync c s)) = gates_open s"
  "wh_target_rad (fst (send_sync c s)) = wh_target_rad s" "wh_target_seq (fst (send_sync c s)) = wh_target_seq s"
  by (auto simp: send_sync_def waist_send_frame_def Let_def gates_open_def manufacturer_error_active_def
      can_transport_ready_def split: option.split sum.split)

lemma io_target_adds: "adds (if gates_open s then target_frames c else {}) s (io_target c n s)"
proof (cases "gates_open s \<and> wh_target_seq s \<noteq> n \<and> target_raw c (wh_target_rad s) \<noteq> None")
  case True
  then obtain raw where raw: "target_raw c (wh_target_rad s) = Some raw"
    by blast
  obtain t b where t: "send_command c (position_command_frame c raw) s = (t, b)"
    by fastforce
  have "adds (target_frames c) s t"
    using send_command_adds [of "position_command_frame c raw" s c] raw
    by (auto simp: t target_frames_def intro: adds_mono)
  moreover have "io_target c n s = (if b then t\<lparr>wh_last_command_time := wh_now t\<rparr> else t)\<lparr>wh_worker := Some (W_running (wh_target_seq s))\<rparr>"
    using True raw t by (simp add: io_target_def move_waist_abs_rad_frame_def gates_open_def)
  ultimately show ?thesis
    using True by (simp add: adds_def)
next
  case False
  have "fst (send_command c f s) = s" if "\<not> can_transport_ready s" for f
    using send_unless_link [OF that] by (simp add: send_command_def)
  then show ?thesis
    using False
    by (auto simp: io_target_def move_waist_abs_rad_frame_def gates_open_def Let_def split_beta split: option.split)
qed

definition worker_frames :: "waist_config \<Rightarrow> waist \<Rightarrow> sent_frame set" where
  "worker_frames c s = (if wh_worker s = None then {} else
     {sync_frame} \<union> (if gates_open s then target_frames c else {}))"

lemma io_sync_facts: "adds {sync_frame} s (io_sync c s)" "gates_open (io_sync c s) = gates_open s"
proof -
  have g: "gates_open (s\<lparr>wh_sync_requested := False\<rparr>) = gates_open s"
    by (simp add: gates_open_def manufacturer_error_active_def can_transport_ready_def)
  show "adds {sync_frame} s (io_sync c s)" "gates_open (io_sync c s) = gates_open s"
    using send_sync_adds [of "s\<lparr>wh_sync_requested := False\<rparr>" c]
    by (simp_all add: io_sync_def frame_simps g adds_def)
qed

lemma io_step_adds: "adds (worker_frames c s) s (io_step c s)"
proof (cases "wh_worker s")
  case (Some w)
  show ?thesis
  proof (cases w)
    case (W_running n)
    have "adds (worker_frames c s) s (io_sync c s)"
      using io_sync_facts(1) Some by (auto simp: worker_frames_def intro: adds_mono)
    also have "adds (worker_frames c s) (io_sync c s) (io_target c n (io_sync c s))"
      using io_target_adds [of "io_sync c s" c n] io_sync_facts(2) [of c s] Some
      by (auto simp: worker_frames_def intro: adds_mono)
    finally show ?thesis
      using Some W_running by (simp add: io_step_def)
  qed (use Some in \<open>simp add: io_step_def\<close>)
qed (simp add: io_step_def)

lemma take_position_sent [frame_simps]: "wh_sent (fst (take_position c s)) = wh_sent s"
  "wh_worker (fst (take_position c s)) = wh_worker s"
  by (simp_all add: take_position_def Let_def)

lemma settle_validity_sent [frame_simps]: "wh_sent (settle_validity c s) = wh_sent s"
  "wh_worker (settle_validity c s) = wh_worker s"
  using take_position_sent [of c s] by (cases "take_position c s"; simp add: settle_validity_def Let_def)+

lemma publish_sent [frame_simps]: "wh_sent (publish_feedback_status s) = wh_sent s"
  "wh_worker (publish_feedback_status s) = wh_worker s"
  by (simp_all add: publish_feedback_status_def Let_def)

lemma write_state_bus_sent [frame_simps]: "wh_sent (write_state_bus s) = wh_sent s"
  "wh_worker (write_state_bus s) = wh_worker s"
  by (simp_all add: write_state_bus_def Let_def split: option.split)

lemma read_sent [frame_simps]: "wh_sent (waist_read u c p s) = wh_sent s" "wh_worker (waist_read u c p s) = wh_worker s"
  by (simp_all add: waist_read_def frame_simps update_velocity_def request_sync_def Let_def)

lemma bridge_frame_sent [frame_simps]: "wh_sent (handle_bridge_frame c v s) = wh_sent s"
  "wh_worker (handle_bridge_frame c v s) = wh_worker s"
  by (auto simp: handle_bridge_frame_def Let_def try_update_waist_feedback_def split: option.split)

lemma happen_adds: "adds (worker_frames c s) s (happen u c e s)"
proof (cases e)
  case V_io
  then show ?thesis
    using io_step_adds by (simp add: happen_def)
qed (simp_all add: happen_def frame_simps link_down_def waist_write_def)

section \<open>Frames of the blocking operations\<close>

definition runtime_frames :: "waist_config \<Rightarrow> bool \<Rightarrow> sent_frame set" where
  "runtime_frames c running = (if running then {sync_frame} \<union> target_frames c else {})"

definition running :: "waist \<Rightarrow> bool" where
  "running s \<longleftrightarrow> wh_worker s \<noteq> None"

lemma running_update [simp]: "running (s\<lparr>wh_future := f\<rparr>) = running s" "running (s\<lparr>wh_now := n\<rparr>) = running s"
  "running (s\<lparr>wh_rx_queue := q\<rparr>) = running s" "running (s\<lparr>wh_initialized := b\<rparr>) = running s"
  by (simp_all add: running_def)

text \<open>An operation that leaves the worker running or stopped and adds only frames of the set \<open>A\<close>
  or of the worker.\<close>

definition sends :: "waist_config \<Rightarrow> sent_frame set \<Rightarrow> waist \<Rightarrow> waist \<Rightarrow> bool" where
  "sends c A s t \<longleftrightarrow> running t = running s \<and> adds (A \<union> runtime_frames c (running s)) s t"

lemma sends_trans [trans]: "sends c A s t \<Longrightarrow> sends c A t v \<Longrightarrow> sends c A s v"
  unfolding sends_def by (auto intro: adds_trans)

lemma sends_refl [intro]: "running t = running s \<Longrightarrow> wh_sent t = wh_sent s \<Longrightarrow> sends c A s t"
  unfolding sends_def by simp

lemma sends_mono: "sends c A s t \<Longrightarrow> A \<subseteq> B \<Longrightarrow> sends c B s t"
  unfolding sends_def by (blast intro: adds_mono)

lemma send_frame_worker [frame_simps]: "wh_worker (fst (waist_send_frame c i d n s)) = wh_worker s"
  by (simp add: waist_send_frame_def Let_def split: option.split sum.split)

lemma io_step_worker: "wh_worker (io_step c s) = None \<longleftrightarrow> wh_worker s = None"
proof (cases "wh_worker s")
  case (Some w)
  have "wh_worker (io_sync c s) = wh_worker s"
    by (simp add: io_sync_def send_sync_def frame_simps)
  moreover have "wh_worker (io_target c n t) \<noteq> None" if "wh_worker t \<noteq> None" for n t
    using that by (simp add: io_target_def Let_def split: prod.split)
  ultimately have "wh_worker (io_target c n (io_sync c s)) \<noteq> None" for n
    using Some by simp
  then show ?thesis
    using Some by (cases w) (simp_all add: io_step_def)
qed (simp add: io_step_def)

lemma happen_worker: "wh_worker (happen u c e s) = None \<longleftrightarrow> wh_worker s = None"
  by (cases e) (simp_all add: happen_def io_step_worker frame_simps link_down_def waist_write_def)

lemma happen_sends: "sends c A s (happen u c e s)"
proof -
  have "worker_frames c s \<subseteq> A \<union> runtime_frames c (running s)"
    by (auto simp: worker_frames_def runtime_frames_def running_def)
  from adds_mono [OF happen_adds this] show ?thesis
    by (simp add: sends_def running_def happen_worker)
qed

lemma await_events_sends: "sends c A s (await_events u c ready d es s)"
proof (induction u c ready d es s rule: await_events.induct)
  case (2 u c ready d gap e es s)
  have "sends c A s (happen u c e (s\<lparr>wh_now := wh_now s + gap\<rparr>))"
    using happen_sends [of c A "s\<lparr>wh_now := wh_now s + gap\<rparr>" u e] by (simp add: sends_def adds_def)
  then show ?case
    using 2 sends_trans by (auto intro!: sends_refl)
qed (auto intro: sends_refl)

lemma await_sends: "sends c A s (await u c ready d s)"
  unfolding await_def by (rule await_events_sends)

lemma sleep_sends: "sends c A s (sleep_ms u c n s)"
  unfolding sleep_ms_def by (rule await_sends)

lemma send_frame_running [frame_simps]: "running (fst (waist_send_frame c i d n s)) = running s"
  by (simp add: running_def frame_simps)

lemma send_sends: "wire_frame \<lparr>fc_can_id = i, fc_data = d, fc_dlc = n\<rparr> \<in> A \<Longrightarrow>
    sends c A s (fst (waist_send_frame c i d n s))"
  using adds_mono [OF send_adds] by (auto simp: sends_def frame_simps)

lemma send_command_sends: "wire_frame f \<in> A \<Longrightarrow> sends c A s (fst (send_command c f s))"
  using send_sends [of "fc_can_id f" "fc_data f" "fc_dlc f"] by (cases f) (simp add: send_command_def)

lemma poll_feedback_sends: "sends c A s (fst (poll_waist_feedback u c n s))"
  using await_sends by (auto simp: poll_waist_feedback_def Let_def intro: sends_refl)

lemma take_position_sends: "sends c A s (fst (take_position c s))"
  by (rule sends_refl) (simp_all add: running_def frame_simps)

lemma poll_position_sends: "sends c A s (fst (poll_waist_position u c n s))"
  using sends_trans [OF poll_feedback_sends take_position_sends] take_position_sends
  by (simp add: poll_waist_position_def)

lemma recv_frame_sends: "sends c A s (fst (recv_frame u c n s))"
proof (cases "wh_bridge s = None")
  case False
  define t where "t = (if wh_rx_queue s = [] then await u c frame_ready (wh_now s + msec n) s else s)"
  have "sends c A s t"
    using await_sends by (auto simp: t_def intro: sends_refl)
  moreover have "recv_frame u c n s =
      (case wh_rx_queue t of [] \<Rightarrow> (t, None) | f # fs \<Rightarrow> (t\<lparr>wh_rx_queue := fs\<rparr>, Some f))"
    unfolding recv_frame_def Let_def t_def using False by (simp only: if_False)
  ultimately show ?thesis
    by (cases "wh_rx_queue t") (simp_all add: sends_def adds_def)
qed (auto simp: recv_frame_def intro: sends_refl)

lemma try_update_sends: "sends c A s (case try_update_waist_feedback c i d n s of None \<Rightarrow> s | Some t \<Rightarrow> t)"
  by (auto simp: try_update_waist_feedback_def running_def split: option.split intro: sends_refl)

lemma wait_sdo_sends: "sends c A s (fst (wait_sdo_response u c idx sub cmd d s))"
proof (induction u c idx sub cmd d s rule: wait_sdo_response.induct)
  case (1 u c idx sub cmd d s)
  show ?case
  proof (cases "d \<le> wh_now s \<or> wh_bridge s = None")
    case True
    then show ?thesis
      using await_sends [of c A s u "\<lambda>_. False" d]
      by (subst wait_sdo_response.simps) (auto simp: spin_until_def intro: sends_refl)
  next
    case False
    define slice where "slice = max 1 (min ((d - wh_now s) div msec 1) 2)"
    obtain s1 f where r: "recv_frame u c slice s = (s1, f)"
      by fastforce
    have s1: "sends c A s s1"
      using recv_frame_sends [of c A s u slice] r by simp
    note step = wait_sdo_response.simps [of u c idx sub cmd d s]
    show ?thesis
    proof (cases f)
      case None
      then show ?thesis
        using "1.IH"(1) False s1 r unfolding step slice_def [symmetric] Let_def
        by (auto simp: slice_def intro: sends_trans)
    next
      case (Some g)
      define t where "t = (case try_update_waist_feedback c (cf_can_id g) (cf_data g) (cf_can_dlc g) s1 of
        None \<Rightarrow> s1 | Some t \<Rightarrow> t)"
      have t: "sends c A s t"
        using sends_trans [OF s1 try_update_sends] unfolding t_def .
      then show ?thesis
        using "1.IH"(2) False r Some unfolding step slice_def [symmetric] Let_def
        by (auto simp: slice_def t_def intro: sends_trans)
    qed
  qed
qed

definition sdo_frame :: "waist_config \<Rightarrow> bytes \<Rightarrow> sent_frame" where
  "sdo_frame c payload = wire_frame \<lparr>fc_can_id = sdo_tx_id (node_of c), fc_data = payload, fc_dlc = 8\<rparr>"

lemma sdo_write_sends: "sdo_frame c request \<in> A \<Longrightarrow> sends c A s (fst (sdo_write u c request idx sub n s))"
proof -
  assume "sdo_frame c request \<in> A"
  then have "sends c A s (fst (waist_send_frame c (sdo_tx_id (node_of c)) request 8 s))"
    by (intro send_sends) (simp add: sdo_frame_def)
  then show ?thesis
    using sends_trans [OF _ wait_sdo_sends]
    by (auto simp: sdo_write_def Let_def split: prod.split option.split) (metis fst_conv)+
qed

lemma sdo_read_sends: "sdo_frame c (build_sdo_read idx sub) \<in> A \<Longrightarrow> sends c A s (fst (sdo_read_i32 u c idx sub n s))"
proof -
  assume "sdo_frame c (build_sdo_read idx sub) \<in> A"
  then have "sends c A s (fst (waist_send_frame c (sdo_tx_id (node_of c)) (build_sdo_read idx sub) 8 s))"
    by (intro send_sends) (simp add: sdo_frame_def)
  then show ?thesis
    using sends_trans [OF _ wait_sdo_sends]
    by (auto simp: sdo_read_i32_def Let_def split: prod.split) (metis fst_conv)+
qed

lemma poll_turn_sends: "sends c A s (poll_turn u c d s)"
  unfolding poll_turn_def spin_until_def using await_sends poll_feedback_sends by simp

lemma wait_error_cleared_sends: "sends c A s (fst (wait_error_cleared u c d s))"
proof (induction u c d s rule: wait_error_cleared.induct)
  case (1 u c d s)
  show ?case
    using sends_trans [OF poll_turn_sends [of c A s u d]] 1 poll_turn_sends [of c A s u d]
    by (subst wait_error_cleared.simps) (auto simp: Let_def intro: sends_refl)
qed

lemma wait_enabled_sends: "sends c A s (fst (wait_enabled u c d s))"
proof (induction u c d s rule: wait_enabled.induct)
  case (1 u c d s)
  show ?case
    using sends_trans [OF poll_turn_sends [of c A s u d]] 1 poll_turn_sends [of c A s u d]
    by (subst wait_enabled.simps) (auto simp: Let_def poll_position_sends intro: sends_refl)
qed

definition sending :: "waist_config \<Rightarrow> sent_frame set \<Rightarrow> init_step \<Rightarrow> bool" where
  "sending c A f \<longleftrightarrow> (\<forall>s. sends c A s (fst (f s)))"

lemma sendingD: "sending c A f \<Longrightarrow> sends c A s (fst (f s))"
  unfolding sending_def by blast

lemma all_steps_sending:
  assumes "list_all (sending c A) fs"
  shows "sending c A (all_steps fs)"
  unfolding sending_def
proof
  fix s
  show "sends c A s (fst (all_steps fs s))"
    using assms
  proof (induction fs arbitrary: s)
    case (Cons f fs)
    then show ?case
      using sendingD [of c A f s] sends_trans by (auto simp: Let_def split: prod.split)
  qed (auto intro: sends_refl)
qed

definition clear_frame :: "waist_config \<Rightarrow> bool \<Rightarrow> sent_frame" where
  "clear_frame c b = wire_frame (build_clear_error_frame_command (node_of c) b)"

definition start_frames :: "waist_config \<Rightarrow> sent_frame set" where
  "start_frames c = {sync_frame, clear_frame c True, clear_frame c False,
     sdo_frame c (build_sdo_write_i32 kIndexTargetVelocity 0 0)}"

definition enable_frames :: "waist_config \<Rightarrow> sent_frame set" where
  "enable_frames c =
     {sdo_frame c (build_sdo_write_i8 kIndexMode 0 3)} \<union>
     (\<lambda>w. sdo_frame c (build_sdo_write_u16 kIndexControlword 0 w)) ` set kEnableSequence \<union>
     {wire_frame (position_command_frame c raw) | raw. True}"

definition init_frames :: "waist_config \<Rightarrow> sent_frame set" where
  "init_frames c = start_frames c \<union> enable_frames c"

lemma sending_steps:
  "sending c A (pause u c n)" "sending c A (first_feedback u c t)" "sending c A (error_cleared u c t)"
  "sending c A (confirm_enabled u c t)"
  "sync_frame \<in> A \<Longrightarrow> sending c A (send_sync c)"
  "wire_frame f \<in> A \<Longrightarrow> sending c A (send_command c f)"
  "sdo_frame c p \<in> A \<Longrightarrow> sending c A (sdo_write u c p idx sub t)"
proof -
  have "sends c A s (fst (first_feedback u c t s))" for s
    using sends_trans [OF poll_feedback_sends poll_position_sends] poll_feedback_sends [of c A s u t]
    by (auto simp: first_feedback_def Let_def split: prod.split) (metis fst_conv)
  moreover have "sends c A s (fst (send_sync c s))" if "sync_frame \<in> A" for s
    using that send_sends [of kSyncId "replicate 8 0" 0 A c s] by (simp add: send_sync_def sync_frame_def)
  ultimately show "sending c A (pause u c n)" "sending c A (first_feedback u c t)"
    "sending c A (error_cleared u c t)" "sending c A (confirm_enabled u c t)"
    "sync_frame \<in> A \<Longrightarrow> sending c A (send_sync c)"
    "wire_frame f \<in> A \<Longrightarrow> sending c A (send_command c f)"
    "sdo_frame c p \<in> A \<Longrightarrow> sending c A (sdo_write u c p idx sub t)"
    using sleep_sends wait_error_cleared_sends wait_enabled_sends send_command_sends sdo_write_sends
    by (simp_all add: sending_def pause_def error_cleared_def confirm_enabled_def Let_def)
qed

lemma clear_latched_sending: "{clear_frame c True, clear_frame c False} \<subseteq> A \<Longrightarrow> sending c A (clear_latched_error u c t)"
proof -
  assume "{clear_frame c True, clear_frame c False} \<subseteq> A"
  then have "sending c A (all_steps (clear_pulse u c @ [error_cleared u c t]))"
    by (intro all_steps_sending) (simp add: clear_pulse_def sending_steps clear_frame_def)
  then show ?thesis
    by (auto simp: sending_def clear_latched_error_def intro: sends_refl)
qed

lemmas sdo_write_defs = sdo_write_i8_def sdo_write_u16_def sdo_write_i32_def sdo_write_u32_def

lemma init_waist_once_sending: "sending c (init_frames c) (init_waist_once u c t)"
proof -
  have "sending c (init_frames c) (safe_enable_frame c)"
    unfolding sending_def safe_enable_frame_def
    by (auto intro!: send_command_sends simp: init_frames_def enable_frames_def)
  then show ?thesis
    unfolding init_waist_once_def
    by (intro all_steps_sending) (simp add: init_steps_def enable_steps_def kEnableSequence_def sending_steps
        clear_latched_sending sdo_write_defs init_frames_def start_frames_def enable_frames_def)
qed

lemma init_attempts_sending: "sending c (init_frames c) (init_attempts u c n)"
  unfolding sending_def
proof
  fix s
  show "sends c (init_frames c) s (fst (init_attempts u c n s))"
  proof (induction n arbitrary: s)
    case (Suc n)
    obtain s1 ok where o: "init_waist_once u c (wc_init_timeout_ms c) s = (s1, ok)"
      by fastforce
    have "sends c (init_frames c) s s1"
      using sendingD [OF init_waist_once_sending, of c s u "wc_init_timeout_ms c"] o by simp
    then show ?case
      using Suc [of "sleep_ms u c 200 s1"] sleep_sends [of c "init_frames c" s1 u 200]
      by (auto simp: o intro: sends_trans)
  qed (auto intro: sends_refl)
qed

end
