(* ===== verification/WaistProps.thy ===== *)
theory WaistProps
  imports WaistFrames "HOL-Library.Sublist"
begin

text \<open>
  Properties of the waist interface: how long its blocking operations take, what an activation needs
  and leaves behind, which targets the worker sends, and what the loss and the return of the feedback do.
\<close>

section \<open>Durations\<close>

definition takes :: "nat \<Rightarrow> init_step \<Rightarrow> bool" where
  "takes n f \<longleftrightarrow> (\<forall>s. wh_now s \<le> wh_now (fst (f s)) \<and> wh_now (fst (f s)) \<le> wh_now s + msec n)"

lemma takesD: "takes n f \<Longrightarrow> f s = (t, b) \<Longrightarrow> wh_now s \<le> wh_now t \<and> wh_now t \<le> wh_now s + msec n"
  unfolding takes_def by (metis fst_conv)

lemma takesI: "(\<And>s t b. f s = (t, b) \<Longrightarrow> wh_now s \<le> wh_now t \<and> wh_now t \<le> wh_now s + msec n) \<Longrightarrow> takes n f"
  unfolding takes_def by (metis prod.collapse)

lemma msec_simps: "msec (a + b) = msec a + msec b" "msec a \<le> msec b \<longleftrightarrow> a \<le> b" "msec 0 = 0"
  by (simp_all add: msec_def)

lemma takes_mono: "takes n f \<Longrightarrow> n \<le> m \<Longrightarrow> takes m f"
  unfolding takes_def by (meson add_left_mono le_trans msec_simps(2))

lemma takes_all_steps: "list_all2 takes ns fs \<Longrightarrow> takes (sum_list ns) (all_steps fs)"
proof (induction ns fs rule: list_all2_induct)
  case (Cons n ns f fs)
  show ?case
  proof (rule takesI)
    fix s t b
    assume e: "all_steps (f # fs) s = (t, b)"
    obtain s1 ok where f: "f s = (s1, ok)"
      by fastforce
    obtain s2 r where r: "all_steps fs s1 = (s2, r)"
      by fastforce
    show "wh_now s \<le> wh_now t \<and> wh_now t \<le> wh_now s + msec (sum_list (n # ns))"
      using takesD [OF Cons.hyps(1) f] takesD [OF Cons.IH r] e
      by (auto simp: f r msec_simps split: if_splits)
  qed
qed (simp add: takes_def)

lemma await_takes: "timeless ready \<Longrightarrow>
    wh_now s \<le> wh_now (await u c ready (wh_now s + msec n) s) \<and>
    wh_now (await u c ready (wh_now s + msec n) s) \<le> wh_now s + msec n"
  using await_ends(1,2) [where ready = ready and s = s and u = u and c = c and d = "wh_now s + msec n"] by simp

lemma sleep_takes: "wh_now s \<le> wh_now (sleep_ms u c n s) \<and> wh_now (sleep_ms u c n s) \<le> wh_now s + msec n"
  unfolding sleep_ms_def by (rule await_takes) simp

lemma poll_feedback_takes: "takes (nat n) (poll_waist_feedback u c n)"
  unfolding takes_def poll_waist_feedback_def Let_def
  using await_takes [OF timeless_conditions(1), of _ u c _ "nat n"] by (auto simp: msec_def)

lemma poll_position_now: "wh_now (fst (poll_waist_position u c 0 s)) = wh_now s"
  by (simp add: poll_waist_position_def frame_simps)

lemma wait_sdo_takes:
  "wh_now s \<le> wh_now (fst (wait_sdo_response u c idx sub cmd d s)) \<and>
   wh_now (fst (wait_sdo_response u c idx sub cmd d s)) \<le> max (wh_now s) (d + msec 1)"
proof (induction u c idx sub cmd d s rule: wait_sdo_response.induct)
  case (1 u c idx sub cmd d s)
  note step = wait_sdo_response.simps [of u c idx sub cmd d s]
  show ?case
  proof (cases "d \<le> wh_now s \<or> wh_bridge s = None")
    case True
    then show ?thesis
      using await_ends(1) [of "\<lambda>_. False" s u c d]
        await_ends(2) [of "\<lambda>_. False" u c d s]
      unfolding step by (auto simp: spin_until_def)
  next
    case False
    define slice where "slice = max 1 (min ((d - wh_now s) div msec 1) 2)"
    obtain s1 f where r: "recv_frame u c slice s = (s1, f)"
      by fastforce
    have "msec slice \<le> max (msec 1) (d - wh_now s)"
      using div_times_less_eq_dividend [of "d - wh_now s" "msec 1"] by (auto simp: slice_def msec_def)
    moreover have "wh_now s1 \<le> wh_now s + msec slice" "wh_now s \<le> wh_now s1"
      using recv_frame_progress [OF _ _ r] False by (auto simp: slice_def)
    ultimately have s1: "wh_now s \<le> wh_now s1" "wh_now s1 \<le> d + msec 1"
      using False by auto
    show ?thesis
    proof (cases f)
      case None
      then show ?thesis
        using "1.IH"(1) False s1 r unfolding step slice_def [symmetric] Let_def
        by (fastforce simp: slice_def)
    next
      case (Some g)
      then show ?thesis
        using "1.IH"(2) False s1 r unfolding step slice_def [symmetric] Let_def
        by (fastforce simp: slice_def frame_simps)
    qed
  qed
qed

lemma sdo_timeout_positive: "0 < n \<Longrightarrow> sdo_timeout c n = nat n"
  by (simp add: sdo_timeout_def)

lemma sdo_write_takes: "takes (sdo_timeout c n + 1) (sdo_write u c p idx sub n)"
proof (rule takesI)
  fix s t b
  assume e: "sdo_write u c p idx sub n s = (t, b)"
  obtain s1 sent where w: "waist_send_frame c (sdo_tx_id (node_of c)) p 8 s = (s1, sent)"
    by fastforce
  have n: "wh_now s1 = wh_now s"
    using waist_send_frame_frame(3) [of c "sdo_tx_id (node_of c)" p 8 s] w by simp
  show "wh_now s \<le> wh_now t \<and> wh_now t \<le> wh_now s + msec (sdo_timeout c n + 1)"
    using e n wait_sdo_takes [of s1 u c idx sub kSdoWriteAck "wh_now s1 + msec (sdo_timeout c n)"]
    by (auto simp: sdo_write_def w msec_def split: if_splits prod.splits option.splits)
qed

lemma sdo_read_takes: "wh_now s \<le> wh_now (fst (sdo_read_i32 u c idx sub n s)) \<and>
    wh_now (fst (sdo_read_i32 u c idx sub n s)) \<le> wh_now s + msec (sdo_timeout c n + 1)"
proof -
  obtain s1 sent where w: "waist_send_frame c (sdo_tx_id (node_of c)) (build_sdo_read idx sub) 8 s = (s1, sent)"
    by fastforce
  have n: "wh_now s1 = wh_now s"
    using waist_send_frame_frame(3) [of c "sdo_tx_id (node_of c)" "build_sdo_read idx sub" 8 s] w by simp
  show ?thesis
    using n wait_sdo_takes [of s1 u c idx sub kSdoReadI32Response "wh_now s1 + msec (sdo_timeout c n)"]
    by (auto simp: sdo_read_i32_def w msec_def split: prod.splits)
qed

lemma poll_turn_takes:
  assumes "wh_now s < d"
  shows "wh_now s \<le> wh_now (poll_turn u c d s) \<and> wh_now (poll_turn u c d s) \<le> d + msec 50"
proof -
  have "wh_now s \<le> wh_now (fst (poll_waist_feedback u c 50 s)) \<and>
      wh_now (fst (poll_waist_feedback u c 50 s)) \<le> wh_now s + msec 50"
    using poll_feedback_takes [of 50 u c] by (simp add: takes_def)
  then show ?thesis
    using assms await_ends(1) [of "\<lambda>_. False" s u c d]
      await_ends(2) [of "\<lambda>_. False" u c d s]
    by (auto simp: poll_turn_def spin_until_def)
qed

lemma wait_error_cleared_takes:
  "wh_now s \<le> wh_now (fst (wait_error_cleared u c d s)) \<and>
   wh_now (fst (wait_error_cleared u c d s)) \<le> max (wh_now s) (d + msec 50)"
proof (induction u c d s rule: wait_error_cleared.induct)
  case (1 u c d s)
  then show ?case
    using poll_turn_takes [of s d u c]
    by (subst (1 2) wait_error_cleared.simps) (auto simp: Let_def not_le)
qed

lemma wait_enabled_takes:
  "wh_now s \<le> wh_now (fst (wait_enabled u c d s)) \<and>
   wh_now (fst (wait_enabled u c d s)) \<le> max (wh_now s) (d + msec 50)"
proof (induction u c d s rule: wait_enabled.induct)
  case (1 u c d s)
  then show ?case
    using poll_turn_takes [of s d u c]
    by (subst (1 2) wait_enabled.simps) (auto simp: Let_def not_le poll_position_now)
qed

lemma send_takes: "takes 0 (send_sync c)" "takes 0 (send_command c f)"
  by (simp_all add: takes_def send_sync_def send_command_def frame_simps)

lemma pause_takes: "takes n (pause u c n)"
  using sleep_takes by (simp add: takes_def pause_def)

lemma first_feedback_takes: "takes (nat n) (first_feedback u c n)"
proof (rule takesI)
  fix s t b
  assume e: "first_feedback u c n s = (t, b)"
  obtain s1 fed where p: "poll_waist_feedback u c n s = (s1, fed)"
    by fastforce
  have "wh_now t = wh_now s1"
    using e poll_position_now [of u c s1] by (auto simp: first_feedback_def p split: if_splits)
  then show "wh_now s \<le> wh_now t \<and> wh_now t \<le> wh_now s + msec (nat n)"
    using takesD [OF poll_feedback_takes p] by simp
qed

lemma loops_take: "takes (nat n + 50) (error_cleared u c n)" "takes (nat n + 50) (confirm_enabled u c n)"
proof -
  have "wh_now s \<le> wh_now (fst (error_cleared u c n s)) \<and>
      wh_now (fst (error_cleared u c n s)) \<le> wh_now s + msec (nat n + 50)" for s
    using wait_error_cleared_takes [of s u c "wh_now s + msec (nat n)"]
    by (simp add: error_cleared_def Let_def msec_simps)
  moreover have "wh_now s \<le> wh_now (fst (confirm_enabled u c n s)) \<and>
      wh_now (fst (confirm_enabled u c n s)) \<le> wh_now s + msec (nat n + 50)" for s
    using wait_enabled_takes [of s u c "wh_now s + msec (nat n)"]
    by (simp add: confirm_enabled_def msec_simps)
  ultimately show "takes (nat n + 50) (error_cleared u c n)" "takes (nat n + 50) (confirm_enabled u c n)"
    unfolding takes_def by blast+
qed

lemma clear_latched_takes: "takes (100 + nat n) (clear_latched_error u c n)"
proof -
  have "takes (sum_list [0, 50, 0, nat n + 50]) (all_steps (clear_pulse u c @ [error_cleared u c n]))"
    by (rule takes_all_steps) (simp add: clear_pulse_def send_takes pause_takes loops_take)
  then show ?thesis
    by (auto simp: takes_def clear_latched_error_def add.commute)
qed

lemma init_once_takes:
  assumes "50 \<le> n"
  shows "takes (8 * nat n + 565) (init_waist_once u c n)"
proof -
  have t: "takes (Suc (nat n)) (sdo_write u c p idx sub (max 50 n))" for p idx sub
    using sdo_write_takes [of c "max 50 n" u p idx sub] assms by (simp add: sdo_timeout_def)
  have e: "takes 0 (safe_enable_frame c)"
    using send_takes(2) by (simp add: takes_def safe_enable_frame_def)
  have "takes (sum_list ([0, nat n, 100 + nat n, nat n + 1, nat n + 1, 50] @
      [nat n + 1, 120, nat n + 1, 120, nat n + 1, 120] @ [0, nat n + 50])) (init_waist_once u c n)"
    unfolding init_waist_once_def
    by (rule takes_all_steps)
      (simp add: init_steps_def enable_steps_def kEnableSequence_def send_takes pause_takes loops_take
        first_feedback_takes clear_latched_takes sdo_write_defs t e)
  then show ?thesis
    by (rule takes_mono) simp
qed

lemma init_attempts_takes:
  assumes "50 \<le> wc_init_timeout_ms c"
  shows "takes (n * (8 * nat (wc_init_timeout_ms c) + 765)) (init_attempts u c n)"
proof (induction n)
  case (Suc n)
  let ?m = "8 * nat (wc_init_timeout_ms c) + 765"
  show ?case
  proof (rule takesI)
    fix s t b
    assume e: "init_attempts u c (Suc n) s = (t, b)"
    obtain s1 ok where o: "init_waist_once u c (wc_init_timeout_ms c) s = (s1, ok)"
      by fastforce
    have one: "wh_now s \<le> wh_now s1" "wh_now s1 + msec 200 \<le> wh_now s + msec ?m"
      using takesD [OF init_once_takes [OF assms] o] by (simp_all add: msec_def)
    obtain s2 r where r: "init_attempts u c n (sleep_ms u c 200 s1) = (s2, r)"
      by fastforce
    have "t = s1 \<or> t = s2"
      using e o r by (auto split: if_splits)
    moreover have "wh_now s1 \<le> wh_now s2" "wh_now s2 \<le> wh_now s + msec ?m + msec (n * ?m)"
      using takesD [OF Suc r] sleep_takes [of s1 u c 200] one(2) by auto
    moreover have "msec (Suc n * ?m) = msec ?m + msec (n * ?m)"
      by (simp add: msec_def)
    ultimately show "wh_now s \<le> wh_now t \<and> wh_now t \<le> wh_now s + msec (Suc n * ?m)"
      using one by auto
  qed
qed (simp add: takes_def)

lemma activate_clock: "wh_now (fst (waist_activate u c acq s)) \<le>
    wh_now s + msec (nat (wc_init_retry_count c) * (8 * nat (wc_init_timeout_ms c) + 765))"
  if "50 \<le> wc_init_timeout_ms c"
proof -
  obtain s1 ok where o: "open_can acq s = (s1, ok)"
    by fastforce
  obtain s2 b where i: "init_waist u c (forget_feedback s1) = (s2, b)"
    by fastforce
  have "wh_now (forget_feedback s1) = wh_now s" "wh_now s1 = wh_now s"
    using o by (auto simp: open_can_def close_can_def forget_feedback_def Let_def split: sum.splits prod.splits)
  then show ?thesis
    using takesD [OF init_attempts_takes [OF that] i [unfolded init_waist_def]] o
    by (auto simp: waist_activate_def i close_can_def start_runtime_io_worker_def hold_measured_def
        Let_def split: option.split)
qed

lemma clear_error_clock:
  assumes "50 \<le> wc_init_timeout_ms c"
  shows "wh_now (fst (clear_waist_error u c s)) \<le>
    wh_now s + msec (nat (wc_timeout_ms c) + 8 * nat (wc_init_timeout_ms c) + 665)"
proof -
  obtain s1 high where a: "send_command c (build_clear_error_frame_command (node_of c) True) s = (s1, high)"
    by fastforce
  obtain s2 low where b: "send_command c (build_clear_error_frame_command (node_of c) False) (sleep_ms u c 50 s1) = (s2, low)"
    by fastforce
  obtain s3 cl where d: "wait_error_cleared u c (wh_now s2 + msec (nat (wc_timeout_ms c))) s2 = (s3, cl)"
    by fastforce
  obtain s4 ok where e: "init_waist_once u c (wc_init_timeout_ms c) s3 = (s4, ok)"
    by fastforce
  have t: "wh_now s1 = wh_now s" "wh_now s2 \<le> wh_now s + msec 50"
    "wh_now s3 \<le> wh_now s2 + msec (nat (wc_timeout_ms c)) + msec 50"
    "wh_now s4 \<le> wh_now s3 + msec (8 * nat (wc_init_timeout_ms c) + 565)"
    using takesD [OF send_takes(2) a] takesD [OF send_takes(2) b] sleep_takes [of s1 u c 50]
      wait_error_cleared_takes [of s2 u c "wh_now s2 + msec (nat (wc_timeout_ms c))"]
      takesD [OF init_once_takes [OF assms] e] d
    by (simp_all add: msec_simps)
  have "wh_now (fst (clear_waist_error u c s)) \<in> wh_now ` {s, s1, s2, s3, s4}"
    by (auto simp: clear_waist_error_def a b d e)
  then show ?thesis
    using t by (auto simp: msec_def)
qed

lemma set_zero_clock:
  assumes "0 < wc_timeout_ms c"
  shows "wh_now (fst (set_waist_zero_position u c s)) \<le> wh_now s + msec (4 * nat (wc_timeout_ms c) + 154)"
proof -
  let ?t = "wc_timeout_ms c"
  obtain s1 before where a: "sdo_read_i32 u c kIndexActualPosition 0 ?t s = (s1, before)"
    by fastforce
  obtain s2 di where b: "sdo_write_u16 u c kIndexControlword 0 0 ?t s1 = (s2, di)"
    by fastforce
  obtain s3 z where d: "sdo_write_u32 u c kIndexSetZeroPosition 0 1 ?t (sleep_ms u c 50 s2) = (s3, z)"
    by fastforce
  obtain s4 after where e: "sdo_read_i32 u c kIndexActualPosition 0 ?t (sleep_ms u c 100 s3) = (s4, after)"
    by fastforce
  have w: "takes (nat ?t + 1) (sdo_write u c p i b ?t)" for p i b
    using sdo_write_takes [of c ?t u p i b] assms by (simp add: sdo_timeout_def)
  have "wh_now s1 \<le> wh_now s + msec (nat ?t + 1)" "wh_now s2 \<le> wh_now s1 + msec (nat ?t + 1)"
    "wh_now s3 \<le> wh_now (sleep_ms u c 50 s2) + msec (nat ?t + 1)"
    "wh_now s4 \<le> wh_now (sleep_ms u c 100 s3) + msec (nat ?t + 1)"
    using sdo_read_takes [of s u c kIndexActualPosition 0 ?t] takesD [OF w b [unfolded sdo_write_defs]]
      takesD [OF w d [unfolded sdo_write_defs]] sdo_read_takes [of "sleep_ms u c 100 s3" u c kIndexActualPosition 0 ?t]
      assms
    by (simp_all add: a e sdo_timeout_def)
  moreover have "wh_now (fst (set_waist_zero_position u c s)) \<in> wh_now ` {s, s2, s3, s4}"
    by (auto simp: set_waist_zero_position_def Let_def a b d e)
  moreover have "wh_now s2 \<le> wh_now (sleep_ms u c 50 s2)" "wh_now s3 \<le> wh_now (sleep_ms u c 100 s3)"
    "wh_now (sleep_ms u c 50 s2) \<le> wh_now s2 + msec 50" "wh_now (sleep_ms u c 100 s3) \<le> wh_now s3 + msec 100"
    using sleep_takes by blast+
  ultimately show ?thesis
    by (auto simp: msec_def)
qed

section \<open>Properties\<close>

lemma demo_waist_ok: "config_ok demo_waist"
  by (simp add: config_ok_def demo_waist_def waist_config_default_def)


definition waist_fresh :: waist where
  "waist_fresh = \<lparr>wh_now = 1000000000, wh_future = [], wh_port = [], wh_sent = [], wh_bridge = None,
     wh_listener = 0, wh_rx_queue = [], wh_services_up = False, wh_position = Fin 0, wh_velocity = Fin 0,
     wh_command = Fin 0, wh_velocity_command = Fin 0, wh_acceleration_command = Fin 0,
     wh_prev_position = Fin 0, wh_initialized = False, wh_position_valid = False,
     wh_feedback_valid = False, wh_feedback = no_feedback, wh_feedback_stamp = 0, wh_position_stamp = 0,
     wh_last_command_time = 0, wh_last_enqueue_time = 0, wh_last_sync_time = 0, wh_last_publish_time = 0,
     wh_published = [], wh_worker = None, wh_sync_requested = False, wh_target_rad = Fin 0,
     wh_target_seq = 0, wh_state_seq = 0, wh_status_seq = 0, wh_bus = bus_init\<rparr>"


lemma config_finite:
  assumes "config_ok c"
  obtains lo hi sg where "wc_min_rad c = Fin lo" "wc_max_rad c = Fin hi" "lo \<le> hi" "wc_sign c = Fin sg" "sg = 1 \<or> sg = - 1"
    "Fin 0 < wc_epsilon c"
proof -
  have "isfinite (wc_min_rad c)" "isfinite (wc_max_rad c)" "wc_min_rad c \<le> wc_max_rad c"
    "wc_sign c = Fin 1 \<or> wc_sign c = Fin (- 1)" "Fin 0 < wc_epsilon c"
    using assms by (simp_all add: config_ok_def)
  then show thesis
    using that by (elim isfiniteE disjE) simp_all
qed

definition encodes :: "waist_config \<Rightarrow> real \<Rightarrow> i32 \<Rightarrow> bool" where
  "encodes c x raw \<longleftrightarrow>
     (\<exists>y. dclamp (wc_sign c * Fin x * Fin 180 / kPi) (Fin (- 180)) (Fin 180) = Fin y \<and>
       \<bar>of_int (sint raw) - y / 180 * 32768\<bar> \<le> 1 / 2)"

lemma target_raw_encodes:
  assumes "config_ok c" "target_raw c r = Some raw"
  shows "\<exists>x. wc_min_rad c \<le> Fin x \<and> Fin x \<le> wc_max_rad c \<and> encodes c x raw"
proof -
  obtain lo hi sg where c: "wc_min_rad c = Fin lo" "wc_max_rad c = Fin hi" "lo \<le> hi" "wc_sign c = Fin sg"
    using config_finite [OF assms(1)] by blast
  have "r \<noteq> NaN"
    using assms(2) by (auto simp: target_raw_def c deg_to_raw_def kPi_def times_double_def divide_double_def
        llround_def inf_of_sign_def)
  then obtain x where x: "dclamp r (wc_min_rad c) (wc_max_rad c) = Fin x" "lo \<le> x" "x \<le> hi"
    using dclamp_between [of "Fin lo" "Fin hi" r] c by (auto elim!: isfiniteE)
  let ?deg = "wc_sign c * Fin x * Fin 180 / kPi"
  have "?deg \<noteq> NaN"
    by (simp add: c kPi_def)
  then obtain n y where n: "deg_to_raw ?deg = Some (of_int n)" "dclamp ?deg (Fin (- 180)) (Fin 180) = Fin y"
    "n = round_half_away (y / 180 * 32768)" "- 32768 \<le> n" "n \<le> 32768"
    by (rule deg_to_raw_value)
  have "raw = of_int n"
    using assms(2) n(1) by (simp add: target_raw_def x)
  moreover have "sint (of_int n :: i32) = n"
    using n(4,5) by (simp add: signed_of_int signed_take_bit_int_eq_self)
  ultimately have "encodes c x raw"
    using n(2,3) round_half_away_error [of "y / 180 * 32768"] by (auto simp: encodes_def)
  then show ?thesis
    using x c by auto
qed


text \<open>Measuring and commanding are inverse: with the joint inside its limits the target at the measured
  position is the raw count that was measured, for both signs and every 16-bit count.\<close>

theorem waist_count_round_trip:
  assumes "config_ok c" "\<bar>sint (wf_position_raw (wh_feedback s))\<bar> \<le> 32768"
    and "wc_min_rad c \<le> wc_sign c * raw_to_rad (wf_position_raw (wh_feedback s))"
    and "wc_sign c * raw_to_rad (wf_position_raw (wh_feedback s)) \<le> wc_max_rad c"
  shows "target_raw c (measured_position c s) = Some (wf_position_raw (wh_feedback s))"
proof -
  let ?raw = "wf_position_raw (wh_feedback s)"
  define n :: real where "n = of_int (sint ?raw)"
  obtain lo hi sg where c: "wc_min_rad c = Fin lo" "wc_max_rad c = Fin hi" "wc_sign c = Fin sg" "sg = 1 \<or> sg = - 1"
    using config_finite [OF assms(1)] by blast
  let ?x = "sg * (n / 32768 * 3.14159265358979323846)"
  have p: "wc_sign c * raw_to_rad ?raw = Fin ?x"
    by (simp add: c raw_to_rad_def n_def)
  have d: "dclamp (Fin ?x) (Fin lo) (Fin hi) = Fin ?x"
    using assms(3,4) [unfolded p] unfolding c(1,2) by (rule dclamp_id)
  have m: "measured_position c s = Fin ?x"
    unfolding measured_position_def p c(1,2) by (rule d)
  have deg: "wc_sign c * Fin ?x * Fin 180 / kPi = Fin (n / 32768 * 180)"
    using c(4) by (auto simp: c(3) kPi_def)
  have b: "\<bar>n\<bar> \<le> 32768"
    using assms(2) unfolding n_def by linarith
  have "dclamp (Fin (n / 32768 * 180)) (Fin (- 180)) (Fin 180) = Fin (n / 32768 * 180)"
    using b by (intro dclamp_id) auto
  moreover have "round_half_away n = sint ?raw"
    unfolding n_def by (rule round_half_away_int)
  moreover have "Fin (n / 32768 * 180) / Fin 180 * Fin 32768 = Fin n"
    by simp
  moreover have "target_raw c (measured_position c s) = deg_to_raw (Fin (n / 32768 * 180))"
    unfolding target_raw_def m c(1,2) d by (simp only: deg)
  ultimately have "target_raw c (measured_position c s) = map_option of_int (llround (Fin n))"
    unfolding deg_to_raw_def Let_def by (simp only:)
  moreover have "llround (Fin n) = Some (sint ?raw)"
    using assms(2) by (simp add: llround_def Let_def abs_le_iff \<open>round_half_away n = sint ?raw\<close>)
  ultimately show ?thesis
    by simp
qed

section \<open>Loss and return of the feedback\<close>

definition waist_run :: "bool \<Rightarrow> waist_config \<Rightarrow> (nat \<times> waist_event) list \<Rightarrow> waist \<Rightarrow> waist" where
  "waist_run u c es s = fold (\<lambda>(gap, e) s. happen u c e (s\<lparr>wh_now := wh_now s + gap\<rparr>)) es s"

text \<open>Events that bring no feedback of the motor.\<close>

definition silent :: "waist_config \<Rightarrow> waist_event \<Rightarrow> bool" where
  "silent c e \<longleftrightarrow> (\<forall>v. e = V_frame v \<longrightarrow> cv_id v AND CAN_SFF_MASK \<noteq> feedback_id (node_of c))"

definition fed_out :: "waist \<Rightarrow> bool" where
  "fed_out s \<longleftrightarrow> \<not> wh_position_valid s \<and> \<not> wh_initialized s \<and> \<not> feedback_recent s"

lemma fed_out_later: "fed_out s \<Longrightarrow> fed_out (s\<lparr>wh_now := wh_now s + gap\<rparr>)"
  by (auto simp: fed_out_def feedback_recent_def)

lemma fed_out_send: "fed_out (fst (waist_send_frame c i d n s)) \<longleftrightarrow> fed_out s"
  by (simp add: waist_send_frame_def Let_def fed_out_def feedback_recent_def split: option.split sum.split)

lemma fed_out_cong:
  assumes "wh_position_valid t = wh_position_valid s" "wh_initialized t = wh_initialized s"
    "wh_feedback_stamp t = wh_feedback_stamp s" "wh_now t = wh_now s"
  shows "fed_out t = fed_out s" "feedback_recent t = feedback_recent s"
  using assms by (simp_all add: fed_out_def feedback_recent_def)

lemma fed_out_cycle:
  "fed_out (publish_feedback_status s) = fed_out s" "fed_out (update_velocity p s) = fed_out s"
  "feedback_recent (request_sync u c s) = feedback_recent s"
  by (rule fed_out_cong; simp add: publish_feedback_status_def update_velocity_def request_sync_def Let_def)+

lemma fed_out_bus: "fed_out (write_state_bus s) = fed_out s"
  by (rule fed_out_cong) (simp_all add: write_state_bus_def Let_def split: option.split)

lemma settle_stale:
  assumes "\<not> feedback_recent s"
  shows "settle_validity c s = s\<lparr>wh_position_valid := False, wh_initialized := False\<rparr>"
  using assms by (simp add: settle_validity_def take_position_def)

lemma read_stale:
  assumes "\<not> feedback_recent s" "can_transport_ready s"
  shows "fed_out (waist_read u c p s)"
proof -
  have r: "\<not> feedback_recent (request_sync u c s)"
    using assms(1) by (simp add: fed_out_cycle)
  then have "fed_out (settle_validity c (request_sync u c s))"
    by (simp add: settle_stale fed_out_def feedback_recent_def)
  then show ?thesis
    using assms(2) by (simp add: waist_read_def fed_out_bus fed_out_cycle)
qed

lemma fed_out_read: "fed_out s \<Longrightarrow> fed_out (waist_read u c p s)"
  using read_stale [of s u c p]
  by (cases "can_transport_ready s")
    (simp_all add: waist_read_def fed_out_cycle, simp add: fed_out_def)

lemma fed_out_io: "fed_out s \<Longrightarrow> fed_out (io_step c s)"
proof -
  have sync: "fed_out t \<Longrightarrow> fed_out (io_sync c t)" for t
    using fed_out_send [of c kSyncId "replicate 8 0" 0 "t\<lparr>wh_sync_requested := False\<rparr>"]
    by (simp add: io_sync_def send_sync_def) (simp add: fed_out_def feedback_recent_def)
  moreover have "fed_out t \<Longrightarrow> fed_out (io_target c n t)" for n t
    by (simp add: io_target_def move_waist_abs_rad_frame_def fed_out_def feedback_recent_def Let_def)
  moreover have "fed_out s \<Longrightarrow> fed_out (s\<lparr>wh_worker := w\<rparr>)" for w
    by (simp add: fed_out_def feedback_recent_def)
  ultimately show "fed_out s \<Longrightarrow> fed_out (io_step c s)"
    by (simp add: io_step_def split: option.split worker.split)
qed

lemma silent_frame:
  assumes "cv_id v AND CAN_SFF_MASK \<noteq> feedback_id (node_of c)"
  shows "fed_out (handle_bridge_frame c v s) \<longleftrightarrow> fed_out s"
proof -
  have "try_update_waist_feedback c (cv_id v AND CAN_SFF_MASK) d n s = None" for d n
    using assms by (simp add: try_update_waist_feedback_def parse_feedback_def node_of_def and.assoc)
  then show ?thesis
    by (simp add: handle_bridge_frame_def Let_def fed_out_def feedback_recent_def)
qed

lemma fed_out_happen: "silent c e \<Longrightarrow> fed_out s \<Longrightarrow> fed_out (happen u c e s)"
  by (cases e) (simp_all add: happen_def silent_def silent_frame fed_out_read fed_out_io,
    simp_all add: link_down_def waist_write_def fed_out_def feedback_recent_def)

lemma fed_out_adds: "fed_out s \<Longrightarrow> adds {sync_frame} s (happen u c e s)"
  by (rule adds_mono [OF happen_adds]) (simp add: worker_frames_def gates_open_def fed_out_def)

lemma fed_out_run:
  assumes "fed_out s" "\<forall>(gap, e) \<in> set es. silent c e"
  shows "fed_out (waist_run u c es s) \<and> adds {sync_frame} s (waist_run u c es s)"
  using assms
proof (induction es arbitrary: s)
  case (Cons ge es)
  obtain gap e where ge: "ge = (gap, e)"
    by fastforce
  let ?s = "s\<lparr>wh_now := wh_now s + gap\<rparr>"
  have "fed_out ?s" "silent c e"
    using Cons.prems fed_out_later ge by auto
  then have t: "fed_out (happen u c e ?s)" "adds {sync_frame} ?s (happen u c e ?s)"
    using fed_out_happen fed_out_adds by blast+
  then have "adds {sync_frame} s (happen u c e ?s)"
    by (simp add: adds_def)
  then show ?case
    using Cons.IH [OF t(1)] Cons.prems(2) adds_trans
    by (simp add: waist_run_def ge)
qed (simp add: waist_run_def)

lemma write_state_bus_status:
  assumes "bus_ok (wh_bus s)"
  shows "ws_initialized (read_waist_status (wh_bus (write_state_bus s))) = wh_initialized s"
    "ws_feedback_valid (read_waist_status (wh_bus (write_state_bus s))) = wh_position_valid s"
    "ws_feedback_fresh (read_waist_status (wh_bus (write_state_bus s))) \<Longrightarrow> wh_position_valid s"
  using assms by (simp_all add: write_state_bus_def Let_def write_state_def bus_ok_def kWaistSharedIndex_def
      kNumAxes_def read_waist_status_def write_waist_status_def)

lemma cycle_keeps_bus [frame_simps]: "wh_bus (publish_feedback_status s) = wh_bus s"
  "wh_bus (update_velocity p s) = wh_bus s" "wh_bus (request_sync u c s) = wh_bus s"
  "wh_initialized (publish_feedback_status s) = wh_initialized s"
  "wh_position_valid (publish_feedback_status s) = wh_position_valid s"
  "wh_initialized (update_velocity p s) = wh_initialized s"
  "wh_position_valid (update_velocity p s) = wh_position_valid s"
  by (simp_all add: publish_feedback_status_def update_velocity_def request_sync_def Let_def)


text \<open>A motor at rest with its drive enabled, on an open bridge, after an activation.\<close>

definition demo_feedback :: waist_feedback where
  "demo_feedback = no_feedback\<lparr>wf_position_raw := 8192, wf_state := 0xC0\<rparr>"

definition demo_ready :: waist where
  "demo_ready = waist_fresh\<lparr>wh_bridge := Some hub_init, wh_feedback := demo_feedback,
     wh_feedback_valid := True, wh_feedback_stamp := 900000000, wh_worker := Some (W_running 0),
     wh_initialized := True, wh_position_valid := True, wh_target_seq := 1, wh_target_rad := Fin 1\<rparr>"

lemma demo_ready_facts: "can_transport_ready demo_ready" "bus_ok (wh_bus demo_ready)" "gates_open demo_ready"
  "feedback_recent demo_ready"
  by (simp_all add: demo_ready_def waist_fresh_def can_transport_ready_def hub_init_def bus_init_ok gates_open_def
      manufacturer_error_active_def demo_feedback_def kFeedbackStateError_def feedback_recent_def msec_def)


theorem waist_count_round_trip_witness:
  "target_raw demo_waist (measured_position demo_waist demo_ready) = Some 8192"
  using waist_count_round_trip [OF demo_waist_ok, of demo_ready]
  by (simp add: demo_ready_def demo_feedback_def demo_waist_def waist_config_default_def raw_to_rad_def no_feedback_def)


text \<open>What a recovery sets, without the rest of the cycle.\<close>

definition axis :: "waist \<Rightarrow> double \<times> double \<times> double \<times> bool \<times> u64 \<times> double" where
  "axis s = (wh_position s, wh_command s, wh_velocity_command s, wh_position_valid s, wh_target_seq s, wh_target_rad s)"

lemma axis_cycle: "axis (publish_feedback_status s) = axis s" "axis (update_velocity p s) = axis s"
  "axis (request_sync u c s) = axis s"
  by (simp_all add: axis_def publish_feedback_status_def update_velocity_def request_sync_def Let_def)

lemma axis_bus: "axis (write_state_bus s) = axis s"
  by (simp add: axis_def write_state_bus_def Let_def split: option.split)

lemma request_sync_feedback: "wh_feedback (request_sync u c s) = wh_feedback s"
  "wh_feedback_valid (request_sync u c s) = wh_feedback_valid s"
  "wh_position_valid (request_sync u c s) = wh_position_valid s"
  "wh_target_seq (request_sync u c s) = wh_target_seq s" "wh_target_rad (request_sync u c s) = wh_target_rad s"
  "measured_position c (request_sync u c s) = measured_position c s"
  by (simp_all add: request_sync_def measured_position_def)

lemma settle_recovers:
  assumes "\<not> wh_position_valid s" "wh_feedback_valid s" "feedback_recent s"
  shows "axis (settle_validity c s) =
    (measured_position c s, measured_position c s, Fin 0, True, wh_target_seq s, wh_target_rad s)"
  using assms by (simp add: settle_validity_def take_position_def Let_def axis_def)

lemma measured_in_limits:
  assumes "config_ok c"
  obtains x where "measured_position c s = Fin x" "wc_min_rad c \<le> Fin x" "Fin x \<le> wc_max_rad c"
proof -
  obtain lo hi sg where c: "wc_min_rad c = Fin lo" "wc_max_rad c = Fin hi" "lo \<le> hi" "wc_sign c = Fin sg"
    using config_finite [OF assms] by blast
  have "isfinite (wc_sign c * raw_to_rad (wf_position_raw (wh_feedback s)))"
    by (simp add: raw_to_rad_def c)
  then obtain r where r: "wc_sign c * raw_to_rad (wf_position_raw (wh_feedback s)) = Fin r"
    by (rule isfiniteE)
  have "measured_position c s = Fin (max lo (min hi r))"
    unfolding measured_position_def r c(1,2) using c(3) by simp
  then show thesis
    using that c(1-3) by simp
qed

lemma hold_not_wanted:
  assumes "config_ok c" "wh_command s = measured_position c t" "wh_position s = measured_position c t"
  shows "\<not> target_wanted c s"
proof -
  obtain x where x: "measured_position c t = Fin x" "wc_min_rad c \<le> Fin x" "Fin x \<le> wc_max_rad c"
    using measured_in_limits [OF assms(1)] by blast
  have "Fin 0 \<le> wc_epsilon c"
    using assms(1) by (simp add: config_ok_def less_eq_double_def)
  then show ?thesis
    using assms(2,3) dclamp_id [OF x(2,3)] by (simp add: target_wanted_def x(1))
qed

lemma write_not_wanted:
  "\<not> target_wanted c s \<Longrightarrow> wh_target_seq (waist_write c s) = wh_target_seq s \<and>
     wh_target_rad (waist_write c s) = wh_target_rad s"
  by (simp add: waist_write_def)



section \<open>Activation\<close>

text \<open>No SDO answer of the motor is queued or will arrive.\<close>

definition answers :: "waist_config \<Rightarrow> waist_event \<Rightarrow> bool" where
  "answers c e \<longleftrightarrow> (\<exists>v. e = V_frame v \<and> cv_id v AND CAN_SFF_MASK = sdo_rx_id (node_of c))"

definition unanswered :: "waist_config \<Rightarrow> waist \<Rightarrow> bool" where
  "unanswered c s \<longleftrightarrow> wh_rx_queue s = [] \<and> (\<forall>(gap, e) \<in> set (wh_future s). \<not> answers c e)"

lemma unanswered_cong: "wh_rx_queue t = wh_rx_queue s \<Longrightarrow> wh_future t = wh_future s \<Longrightarrow> unanswered c t = unanswered c s"
  by (simp add: unanswered_def)

lemma happen_queue_silent: "\<not> answers c e \<Longrightarrow> wh_rx_queue (happen u c e s) = wh_rx_queue s"
  by (cases e) (simp_all add: happen_def frame_simps link_down_def answers_def handle_bridge_frame_def
      try_update_waist_feedback_def node_of_def Let_def split: option.split)

lemma await_events_unanswered:
  "wh_rx_queue s = [] \<Longrightarrow> \<forall>(gap, e) \<in> set es. \<not> answers c e \<Longrightarrow> unanswered c (await_events u c ready d es s)"
proof (induction u c ready d es s rule: await_events.induct)
  case (2 u c ready d gap e es s)
  then show ?case
    by (auto simp: unanswered_def happen_queue_silent)
qed (auto simp: unanswered_def)

lemma await_unanswered: "unanswered c s \<Longrightarrow> unanswered c (await u c ready d s)"
  unfolding await_def by (rule await_events_unanswered) (simp_all add: unanswered_def)

lemma send_unanswered: "unanswered c (fst (waist_send_frame c i d n s)) = unanswered c s"
  by (rule unanswered_cong) (simp_all add: frame_simps)

lemma recv_unanswered:
  assumes "unanswered c s" "wh_bridge s \<noteq> None"
  shows "recv_frame u c n s = (await u c frame_ready (wh_now s + msec n) s, None)"
proof -
  have "wh_rx_queue s = []" "wh_rx_queue (await u c frame_ready (wh_now s + msec n) s) = []"
    using assms(1) await_unanswered [OF assms(1), of u frame_ready "wh_now s + msec n"] by (simp_all only: unanswered_def)
  then show ?thesis
    using assms(2) unfolding recv_frame_def Let_def by (simp only: if_False if_True list.case refl)
qed

lemma wait_sdo_unanswered:
  "unanswered c s \<Longrightarrow> snd (wait_sdo_response u c idx sub cmd d s) = None \<and>
     unanswered c (fst (wait_sdo_response u c idx sub cmd d s))"
proof (induction u c idx sub cmd d s rule: wait_sdo_response.induct)
  case (1 u c idx sub cmd d s)
  note step = wait_sdo_response.simps [of u c idx sub cmd d s]
  show ?case
  proof (cases "d \<le> wh_now s \<or> wh_bridge s = None")
    case True
    then show ?thesis
      using "1.prems" await_unanswered [OF "1.prems"] unfolding step spin_until_def by auto
  next
    case False
    then have open_wait: "\<not> d \<le> wh_now s" "wh_bridge s \<noteq> None"
      by blast+
    let ?slice = "max 1 (min ((d - wh_now s) div msec 1) 2)"
    let ?t = "await u c frame_ready (wh_now s + msec ?slice) s"
    have r: "recv_frame u c ?slice s = (?t, None)"
      by (rule recv_unanswered [OF "1.prems" open_wait(2)])
    then have "wait_sdo_response u c idx sub cmd d s = wait_sdo_response u c idx sub cmd d ?t"
      using open_wait unfolding step Let_def by (simp only: prod.case option.case if_False)
    then show ?thesis
      using "1.IH"(1) [OF open_wait refl r [symmetric] refl await_unanswered [OF "1.prems"]] by simp
  qed
qed

text \<open>A step that keeps the silence, and one that fails in it.\<close>

definition keeps_silence :: "waist_config \<Rightarrow> init_step \<Rightarrow> bool" where
  "keeps_silence c f \<longleftrightarrow> (\<forall>s. unanswered c s \<longrightarrow> unanswered c (fst (f s)))"

lemma sdo_write_unanswered:
  assumes "unanswered c s"
  shows "snd (sdo_write u c p idx sub n s) = False" "unanswered c (fst (sdo_write u c p idx sub n s))"
proof -
  obtain s1 sent where w: "waist_send_frame c (sdo_tx_id (node_of c)) p 8 s = (s1, sent)"
    by fastforce
  have "unanswered c s1"
    using send_unanswered [of c "sdo_tx_id (node_of c)" p 8 s] w assms by simp
  note silent = this wait_sdo_unanswered [OF this, of u idx sub kSdoWriteAck "wh_now s1 + msec (sdo_timeout c n)"]
  obtain s2 r where r: "wait_sdo_response u c idx sub kSdoWriteAck (wh_now s1 + msec (sdo_timeout c n)) s1 = (s2, r)"
    by fastforce
  show "snd (sdo_write u c p idx sub n s) = False" "unanswered c (fst (sdo_write u c p idx sub n s))"
    using silent by (simp_all add: sdo_write_def w r)
qed

lemma take_position_unanswered: "unanswered c (fst (take_position c s)) = unanswered c s"
  by (rule unanswered_cong) (simp_all add: frame_simps)

lemma poll_feedback_unanswered: "unanswered c s \<Longrightarrow> unanswered c (fst (poll_waist_feedback u c n s))"
  by (simp add: poll_waist_feedback_def await_unanswered Let_def)

lemma first_feedback_unanswered: "keeps_silence c (first_feedback u c n)"
  unfolding keeps_silence_def
proof (intro allI impI)
  fix s
  assume "unanswered c s"
  moreover obtain s1 fed where p: "poll_waist_feedback u c n s = (s1, fed)"
    by fastforce
  ultimately have "unanswered c s1"
    using poll_feedback_unanswered [of c s u n] by simp
  then show "unanswered c (fst (first_feedback u c n s))"
    by (simp add: first_feedback_def p poll_waist_position_def take_position_unanswered)
qed

lemma wait_error_cleared_unanswered:
  "unanswered c s \<Longrightarrow> unanswered c (fst (wait_error_cleared u c d s))"
proof (induction u c d s rule: wait_error_cleared.induct)
  case (1 u c d s)
  have "unanswered c (poll_turn u c d s)"
    using 1 by (simp add: poll_turn_def spin_until_def await_unanswered poll_feedback_unanswered)
  then show ?case
    using 1 by (subst wait_error_cleared.simps) (simp add: Let_def)
qed

lemma all_steps_unanswered: "list_all (keeps_silence c) fs \<Longrightarrow> keeps_silence c (all_steps fs)"
proof (induction fs)
  case (Cons f fs)
  then show ?case
    by (auto simp: keeps_silence_def Let_def split: prod.split)
qed (simp add: keeps_silence_def)

lemma clear_latched_unanswered: "keeps_silence c (clear_latched_error u c n)"
proof -
  have "keeps_silence c (all_steps (clear_pulse u c @ [error_cleared u c n]))"
    by (rule all_steps_unanswered)
      (simp add: clear_pulse_def keeps_silence_def send_command_def send_unanswered pause_def sleep_ms_def
        await_unanswered error_cleared_def wait_error_cleared_unanswered Let_def)
  then show ?thesis
    by (simp add: keeps_silence_def clear_latched_error_def)
qed

lemma init_all_steps_append:
  "all_steps (fs @ gs) s = (let (s1, ok) = all_steps fs s in if ok then all_steps gs s1 else (s1, False))"
  by (induction fs arbitrary: s) (simp_all add: Let_def split: prod.split)

definition opening_steps :: "bool \<Rightarrow> waist_config \<Rightarrow> int \<Rightarrow> init_step list" where
  "opening_steps u c n = [send_sync c, first_feedback u c n, clear_latched_error u c n]"

lemma init_steps_split: "init_steps u c n =
    opening_steps u c n @ sdo_write_i32 u c kIndexTargetVelocity 0 0 (max 50 n) # drop 4 (init_steps u c n)"
  by (simp add: init_steps_def opening_steps_def)

lemma start_sending:
  "sending c (start_frames c) (all_steps (opening_steps u c n))"
  "sending c (start_frames c) (sdo_write_i32 u c kIndexTargetVelocity 0 0 m)"
  by (rule all_steps_sending) (simp_all add: opening_steps_def sending_steps clear_latched_sending start_frames_def
      sdo_write_defs)

lemma init_once_unanswered:
  assumes "unanswered c s"
  shows "snd (init_waist_once u c n s) = False" "unanswered c (fst (init_waist_once u c n s))"
    "sends c (start_frames c) s (fst (init_waist_once u c n s))"
proof -
  obtain s1 ok where o: "all_steps (opening_steps u c n) s = (s1, ok)"
    by fastforce
  obtain s2 r where w: "sdo_write_i32 u c kIndexTargetVelocity 0 0 (max 50 n) s1 = (s2, r)"
    by fastforce
  have "keeps_silence c (send_sync c)"
    by (simp add: keeps_silence_def send_sync_def send_unanswered)
  then have "keeps_silence c (all_steps (opening_steps u c n))"
    by (intro all_steps_unanswered)
      (simp add: opening_steps_def first_feedback_unanswered clear_latched_unanswered)
  then have s1: "unanswered c s1"
    using assms o unfolding keeps_silence_def by (metis fst_conv)
  have s2: "r = False" "unanswered c s2"
    using sdo_write_unanswered [OF s1] w unfolding sdo_write_defs by (metis fst_conv snd_conv)+
  have send: "sends c (start_frames c) s s1" "sends c (start_frames c) s1 s2"
    using sendingD [OF start_sending(1), of c s u n] sendingD [OF start_sending(2), of c s1 u "max 50 n"] o w by simp_all
  have "init_waist_once u c n s = (if ok then (s2, False) else (s1, False))"
    unfolding init_waist_once_def by (subst init_steps_split) (simp add: init_all_steps_append o w s2(1))
  then show "snd (init_waist_once u c n s) = False" "unanswered c (fst (init_waist_once u c n s))"
    "sends c (start_frames c) s (fst (init_waist_once u c n s))"
    using s1 s2(2) send sends_trans [OF send] by simp_all
qed

lemma init_attempts_unanswered:
  "unanswered c s \<Longrightarrow> snd (init_attempts u c n s) = False \<and> sends c (start_frames c) s (fst (init_attempts u c n s))"
proof (induction n arbitrary: s)
  case (Suc n)
  obtain s1 ok where o: "init_waist_once u c (wc_init_timeout_ms c) s = (s1, ok)"
    by fastforce
  note one = init_once_unanswered [OF Suc.prems, of u "wc_init_timeout_ms c", unfolded o fst_conv snd_conv]
  have "unanswered c (sleep_ms u c 200 s1)"
    using one(2) by (simp add: sleep_ms_def await_unanswered)
  then show ?case
    using Suc.IH [of "sleep_ms u c 200 s1"] one(1,3) sends_trans [OF one(3) sends_trans [OF sleep_sends]]
    by (auto simp: o)
qed (auto intro: sends_refl)

text \<open>C28: An activation in which the motor never answers an SDO request fails, leaves the bridge closed, and
  never enables the drive: all it sends are sync frames, the two clear-error frames and the request for
  a zero target velocity.\<close>

theorem waist_activation_needs_answers:
  assumes "\<forall>(gap, e) \<in> set (wh_future s). \<not> answers c e" "wh_worker s = None"
  shows "snd (waist_activate u c acquired s) = False \<and> wh_bridge (fst (waist_activate u c acquired s)) = None \<and>
    adds (start_frames c) s (fst (waist_activate u c acquired s))"
proof (cases acquired)
  case (Inl e)
  then show ?thesis
    by (simp add: waist_activate_def open_can_def close_can_def)
next
  case (Inr h)
  define s1 where "s1 = forget_feedback (fst (open_can acquired s))"
  have s1: "wh_sent s1 = wh_sent s" "wh_worker s1 = None" "unanswered c s1"
    using assms by (simp_all add: s1_def Inr open_can_def close_can_def forget_feedback_def unanswered_def Let_def
        add_frame_listener_def)
  have o: "open_can acquired s = (fst (open_can acquired s), True)"
    by (simp add: Inr open_can_def add_frame_listener_def Let_def)
  obtain s2 ok where i: "init_waist u c s1 = (s2, ok)"
    by fastforce
  have "ok = False" "sends c (start_frames c) s1 s2"
    using init_attempts_unanswered [OF s1(3), of u "nat (wc_init_retry_count c)"] i by (simp_all add: init_waist_def)
  then have "ok = False" "adds (start_frames c) s s2"
    using s1 by (simp_all add: sends_def runtime_frames_def running_def adds_def)
  then show ?thesis
    by (subst (1 2 3) waist_activate_def, subst (1 2 3) o)
      (simp add: s1_def [symmetric] i close_can_def adds_def Let_def)
qed

theorem waist_activation_needs_answers_witness:
  "snd (waist_activate False demo_waist (Inr hub_init)
     (waist_fresh\<lparr>wh_future := [(1000000, V_frame \<lparr>cv_id = 0x301, cv_data_length = 12, cv_is_fd = True,
        cv_bitrate_switch = True, cv_data = [0x20, 0, 0, 0, 0, 0, 0, 0, 0, 0, 0, 0x20]\<rparr>)]\<rparr>)) = False"
  using waist_activation_needs_answers [of "waist_fresh\<lparr>wh_future := [(1000000, V_frame \<lparr>cv_id = 0x301,
      cv_data_length = 12, cv_is_fd = True, cv_bitrate_switch = True,
      cv_data = [0x20, 0, 0, 0, 0, 0, 0, 0, 0, 0, 0, 0x20]\<rparr>)]\<rparr>" demo_waist False "Inr hub_init"]
  by (simp add: waist_fresh_def answers_def CAN_SFF_MASK_def sdo_rx_id_def kSdoRxBaseId_def node_of_def node_bits_def
      demo_waist_def)

section \<open>A successful activation\<close>

definition emits :: "sent_frame list \<Rightarrow> init_step \<Rightarrow> bool" where
  "emits xs f \<longleftrightarrow> (\<forall>s t. f s = (t, True) \<longrightarrow> (\<exists>fs. wh_sent t = wh_sent s @ fs \<and> subseq xs fs))"

lemma emits_nothing: "sending c A f \<Longrightarrow> emits [] f"
  unfolding emits_def sending_def sends_def adds_def by (metis fst_conv list_emb_Nil)

lemma emits_all_steps: "list_all2 emits xss fs \<Longrightarrow> emits (concat xss) (all_steps fs)"
proof (induction xss fs rule: list_all2_induct)
  case (Cons xs xss f fs)
  show ?case
    unfolding emits_def
  proof (intro allI impI)
    fix s t
    assume e: "all_steps (f # fs) s = (t, True)"
    then obtain s1 where s1: "f s = (s1, True)" "all_steps fs s1 = (t, True)"
      by (auto simp: Let_def split: prod.splits if_splits)
    obtain fs1 where "wh_sent s1 = wh_sent s @ fs1" "subseq xs fs1"
      using Cons.hyps(1) s1(1) unfolding emits_def by blast
    moreover obtain fs2 where "wh_sent t = wh_sent s1 @ fs2" "subseq (concat xss) fs2"
      using Cons.IH s1(2) unfolding emits_def by blast
    ultimately show "\<exists>fs. wh_sent t = wh_sent s @ fs \<and> subseq (concat (xs # xss)) fs"
      by (intro exI [of _ "fs1 @ fs2"]) (simp add: list_emb_append_mono)
  qed
qed (simp add: emits_def)

lemma send_success:
  assumes "waist_send_frame c i d n s = (t, True)"
  shows "wh_sent t = wh_sent s @ [wire_frame \<lparr>fc_can_id = i, fc_data = d, fc_dlc = n\<rparr>]"
  using assms by (auto simp: waist_send_frame_def Let_def wire_frame_def split: option.splits sum.splits if_splits)

lemma send_sync_emits: "emits [sync_frame] (send_sync c)"
  unfolding emits_def send_sync_def sync_frame_def by (auto dest!: send_success)

lemma sdo_write_emits: "emits [sdo_frame c p] (sdo_write u c p idx sub n)"
  unfolding emits_def
proof (intro allI impI)
  fix s t
  assume e: "sdo_write u c p idx sub n s = (t, True)"
  obtain s1 where w: "waist_send_frame c (sdo_tx_id (node_of c)) p 8 s = (s1, True)"
    using e by (auto simp: sdo_write_def Let_def split: prod.splits if_splits)
  obtain r where "wait_sdo_response u c idx sub kSdoWriteAck (wh_now s1 + msec (sdo_timeout c n)) s1 = (t, Some r)"
    using e by (auto simp: sdo_write_def w split: prod.splits option.splits)
  then obtain fs where "wh_sent t = wh_sent s1 @ fs"
    using wait_sdo_sends [of c "{}" s1 u idx sub kSdoWriteAck "wh_now s1 + msec (sdo_timeout c n)"]
    by (auto simp: sends_def adds_def)
  then show "\<exists>fs. wh_sent t = wh_sent s @ fs \<and> subseq [sdo_frame c p] fs"
    using send_success [OF w] by (intro exI [of _ "sdo_frame c p # fs"]) (simp add: sdo_frame_def)
qed

definition enable_order :: "waist_config \<Rightarrow> sent_frame list" where
  "enable_order c = [sync_frame, sdo_frame c (build_sdo_write_i32 kIndexTargetVelocity 0 0),
     sdo_frame c (build_sdo_write_i8 kIndexMode 0 3)] @
     map (\<lambda>w. sdo_frame c (build_sdo_write_u16 kIndexControlword 0 w)) kEnableSequence"

lemma init_once_emits: "emits (enable_order c) (init_waist_once u c n)"
proof -
  note quiet = emits_nothing [OF sending_steps(1)] emits_nothing [OF sending_steps(2)]
    emits_nothing [OF sending_steps(4)] emits_nothing [OF clear_latched_sending [OF subset_refl]]
  have "emits [] (safe_enable_frame c)"
    by (rule emits_nothing [of c "{wire_frame (position_command_frame c raw) | raw. True}"])
      (auto simp: sending_def safe_enable_frame_def intro!: send_command_sends)
  then have "emits (concat [[sync_frame], [], [], [sdo_frame c (build_sdo_write_i32 kIndexTargetVelocity 0 0)],
      [sdo_frame c (build_sdo_write_i8 kIndexMode 0 3)], [],
      [sdo_frame c (build_sdo_write_u16 kIndexControlword 0 0x0006)], [],
      [sdo_frame c (build_sdo_write_u16 kIndexControlword 0 0x0007)], [],
      [sdo_frame c (build_sdo_write_u16 kIndexControlword 0 0x000F)], [], [], []]) (init_waist_once u c n)"
    unfolding init_waist_once_def
    by (intro emits_all_steps) (simp add: init_steps_def enable_steps_def kEnableSequence_def quiet send_sync_emits
        sdo_write_emits sdo_write_defs)
  then show ?thesis
    by (simp add: enable_order_def kEnableSequence_def)
qed

lemma wait_enabled_ok:
  "wait_enabled u c d s = (t, True) \<Longrightarrow> drive_enabled t \<and> \<not> manufacturer_error_active t \<and> wh_position_valid t"
proof (induction u c d s rule: wait_enabled.induct)
  case (1 u c d s)
  let ?s1 = "poll_turn u c d s"
  have keep: "wh_feedback (fst (take_position c x)) = wh_feedback x"
    "wh_feedback_valid (fst (take_position c x)) = wh_feedback_valid x" for x
    by (simp_all add: take_position_def Let_def)
  have pos: "d \<le> wh_now s \<Longrightarrow> False" "\<not> manufacturer_error_active ?s1"
    using "1.prems" by (subst (asm) wait_enabled.simps, auto simp: Let_def split: if_splits)+
  show ?case
  proof (cases "drive_enabled ?s1")
    case True
    then have "t = fst (take_position c ?s1)" "wh_position_valid t"
      using "1.prems" pos
      by (subst (asm) wait_enabled.simps, auto simp: Let_def poll_waist_position_def split: if_splits)+
    then show ?thesis
      using True pos(2) by (simp add: drive_enabled_def manufacturer_error_active_def keep)
  next
    case False
    then have "wait_enabled u c d ?s1 = (t, True)"
      using "1.prems" pos by (subst (asm) wait_enabled.simps) (auto simp: Let_def split: if_splits)
    then show ?thesis
      using "1.IH" False pos by blast
  qed
qed

lemma init_once_ok:
  assumes "init_waist_once u c n s = (t, True)"
  shows "drive_enabled t \<and> \<not> manufacturer_error_active t \<and> wh_position_valid t"
proof -
  have "init_steps u c n = butlast (init_steps u c n) @ [confirm_enabled u c n]"
    by (simp add: init_steps_def enable_steps_def kEnableSequence_def)
  then have e: "all_steps (butlast (init_steps u c n) @ [confirm_enabled u c n]) s = (t, True)"
    using assms unfolding init_waist_once_def by metis
  obtain s1 ok where "all_steps (butlast (init_steps u c n)) s = (s1, ok)"
    by fastforce
  then have "confirm_enabled u c n s1 = (t, True)"
    using e by (auto simp: init_all_steps_append Let_def split: prod.splits if_splits)
  then show ?thesis
    using wait_enabled_ok unfolding confirm_enabled_def by blast
qed

lemma init_attempts_ok:
  "init_attempts u c n s = (t, True) \<Longrightarrow>
     drive_enabled t \<and> \<not> manufacturer_error_active t \<and> wh_position_valid t \<and>
     (\<exists>fs. wh_sent t = wh_sent s @ fs \<and> subseq (enable_order c) fs)"
proof (induction n arbitrary: s)
  case (Suc n)
  obtain s1 ok where o: "init_waist_once u c (wc_init_timeout_ms c) s = (s1, ok)"
    by fastforce
  show ?case
  proof (cases ok)
    case True
    then show ?thesis
      using Suc.prems o init_once_ok [of u c "wc_init_timeout_ms c" s s1]
        init_once_emits [of c u "wc_init_timeout_ms c"] by (auto simp: emits_def)
  next
    case False
    let ?s2 = "sleep_ms u c 200 s1"
    have "init_attempts u c n ?s2 = (t, True)"
      using Suc.prems o False by (auto split: if_splits)
    then obtain fs where ih: "drive_enabled t \<and> \<not> manufacturer_error_active t \<and> wh_position_valid t"
      "wh_sent t = wh_sent ?s2 @ fs" "subseq (enable_order c) fs"
      using Suc.IH by blast
    have "sends c (init_frames c) s ?s2"
      using sendingD [OF init_waist_once_sending, of c s u "wc_init_timeout_ms c"] o sends_trans [OF _ sleep_sends]
      by simp
    then obtain gs where "wh_sent ?s2 = wh_sent s @ gs"
      by (auto simp: sends_def adds_def)
    then show ?thesis
      using ih list_emb_prefix by (auto intro!: exI [of _ "gs @ fs"])
  qed
qed simp

text \<open>C27: An activation that succeeds has sent, in this order, the sync frame, the requests for zero velocity
  and velocity mode and the three control words, and nothing outside the frames of the initialization; the
  motor reports itself enabled, with its brake released and without error, the command is the measured
  position, nothing is enqueued, and the worker runs.\<close>

theorem waist_activation_enabled:
  assumes "waist_activate u c acquired s = (t, True)" "wh_worker s = None"
  shows "drive_enabled t \<and> \<not> manufacturer_error_active t \<and> wh_position_valid t \<and> wh_initialized t \<and>
    wh_command t = wh_position t \<and> wh_velocity_command t = Fin 0 \<and> wh_target_seq t = 0 \<and>
    wh_worker t = Some W_started \<and>
    (\<exists>fs. wh_sent t = wh_sent s @ fs \<and> subseq (enable_order c) fs \<and> set fs \<subseteq> init_frames c)"
proof -
  define s1 where "s1 = forget_feedback (fst (open_can acquired s))"
  have s1: "wh_sent s1 = wh_sent s" "wh_worker s1 = None"
    using assms(2) by (simp_all add: s1_def open_can_def close_can_def forget_feedback_def Let_def add_frame_listener_def
        split: sum.split)
  obtain s2 where i: "init_waist u c s1 = (s2, True)"
    and t: "t = (start_runtime_io_worker (hold_measured (s2\<lparr>wh_initialized := True\<rparr>)))\<lparr>wh_services_up := True\<rparr>"
    using assms(1) by (auto simp: waist_activate_def s1_def Let_def split: prod.splits if_splits)
  have "sends c (init_frames c) s1 s2"
    using sendingD [OF init_attempts_sending, of c s1 u "nat (wc_init_retry_count c)"] i by (simp add: init_waist_def)
  then have w: "wh_worker s2 = None" "adds (init_frames c) s s2"
    using s1 by (simp_all add: sends_def runtime_frames_def running_def adds_def)
  have ok: "drive_enabled s2 \<and> \<not> manufacturer_error_active s2 \<and> wh_position_valid s2"
    "\<exists>fs. wh_sent s2 = wh_sent s @ fs \<and> subseq (enable_order c) fs"
    using init_attempts_ok [of u c "nat (wc_init_retry_count c)" s1 s2] i s1(1) by (auto simp: init_waist_def)
  have "drive_enabled t = drive_enabled s2" "manufacturer_error_active t = manufacturer_error_active s2"
    "wh_position_valid t = wh_position_valid s2" "wh_sent t = wh_sent s2" "wh_worker t = Some W_started"
    by (simp_all add: t start_runtime_io_worker_def hold_measured_def w(1) drive_enabled_def
        manufacturer_error_active_def)
  moreover have "wh_initialized t" "wh_command t = wh_position t" "wh_velocity_command t = Fin 0" "wh_target_seq t = 0"
    by (simp_all add: t start_runtime_io_worker_def hold_measured_def w(1))
  ultimately show ?thesis
    using ok w(2) by (auto simp: adds_def)
qed

text \<open>A run of the initialization in which all answers and the feedback arrive within the first wait.\<close>

definition calm :: "can_frame list \<Rightarrow> waist \<Rightarrow> bool" where
  "calm q s \<longleftrightarrow> can_transport_ready s \<and> wh_port s = [] \<and> wh_future s = [] \<and> wh_rx_queue s = q \<and>
     drive_enabled s \<and> \<not> manufacturer_error_active s \<and> wh_position_valid s"

lemma calm_cong:
  assumes "wh_bridge t = wh_bridge s" "wh_port t = wh_port s" "wh_future t = wh_future s" "wh_rx_queue t = q'"
    "wh_feedback t = wh_feedback s" "wh_feedback_valid t = wh_feedback_valid s" "wh_position_valid t = wh_position_valid s"
    "calm q s"
  shows "calm q' t"
  using assms by (simp add: calm_def can_transport_ready_def drive_enabled_def manufacturer_error_active_def)

lemma send_succeeds:
  assumes "can_transport_ready s" "wh_port s = []" "length d \<le> 8"
  shows "\<exists>f. waist_send_frame c i d n s = (s\<lparr>wh_port := [], wh_sent := f\<rparr>, True)"
proof -
  obtain h where h: "wh_bridge s = Some h" "hb_link_online h"
    using assms(1) by (auto simp: can_transport_ready_def split: option.splits)
  have "length (take (unat (min n 8)) d) \<le> 8"
    using assms(3) by simp
  then show ?thesis
    using assms(2) h by (simp add: waist_send_frame_def Let_def send_frame_def send_packet_def) auto
qed

lemma calm_send:
  assumes "calm q s" "length d \<le> 8"
  shows "\<exists>t. waist_send_frame c i d n s = (t, True) \<and> calm q t \<and> wh_now t = wh_now s"
proof -
  have "can_transport_ready s" "wh_port s = []"
    using assms(1) by (simp_all add: calm_def)
  then obtain f where f: "waist_send_frame c i d n s = (s\<lparr>wh_port := [], wh_sent := f\<rparr>, True)"
    using send_succeeds assms(2) by blast
  moreover have "calm q (s\<lparr>wh_port := [], wh_sent := f\<rparr>)"
    by (rule calm_cong [OF _ _ _ _ _ _ _ assms(1)]) (use assms(1) in \<open>simp_all add: calm_def\<close>)
  ultimately show ?thesis
    by simp
qed

definition ack :: "u16 \<Rightarrow> can_frame" where
  "ack idx = \<lparr>cf_can_id = 0x581, cf_can_dlc = 8,
     cf_data = [0x60, ucast idx, ucast (drop_bit 8 idx), 0, 0, 0, 0, 0]\<rparr>"

lemma demo_node: "node_of demo_waist = 1"
  by (simp add: node_of_def demo_waist_def)

lemma ack_accepted:
  assumes "idx \<in> {kIndexTargetVelocity, kIndexMode, kIndexControlword}"
  shows "is_sdo_response (ack idx) 1 idx 0 kSdoWriteAck" "cf_data (ack idx) ! 0 = 0x60"
    "try_update_waist_feedback demo_waist (cf_can_id (ack idx)) (cf_data (ack idx)) (cf_can_dlc (ack idx)) s = None"
  using assms by (auto simp: is_sdo_response_def ack_def CAN_EFF_FLAG_def CAN_SFF_MASK_def sdo_rx_id_def kSdoRxBaseId_def
      node_bits_def kIndexTargetVelocity_def kIndexMode_def kIndexControlword_def kSdoWriteAck_def
      try_update_waist_feedback_def parse_feedback_def feedback_id_def kFeedbackBaseId_def demo_waist_def)

lemma calm_sdo:
  assumes "calm (ack idx # q) s" "length p = 8" "0 < n" "idx \<in> {kIndexTargetVelocity, kIndexMode, kIndexControlword}"
  shows "\<exists>t. sdo_write u demo_waist p idx 0 n s = (t, True) \<and> calm q t \<and> wh_now t = wh_now s"
proof -
  obtain s1 where w: "waist_send_frame demo_waist (sdo_tx_id (node_of demo_waist)) p 8 s = (s1, True)"
    "calm (ack idx # q) s1" "wh_now s1 = wh_now s"
    using calm_send [OF assms(1), of p demo_waist "sdo_tx_id (node_of demo_waist)" 8] assms(2) by auto
  let ?t = "s1\<lparr>wh_rx_queue := q\<rparr>"
  let ?d = "wh_now s1 + msec (sdo_timeout demo_waist n)"
  have o: "wh_bridge s1 \<noteq> None" "wh_rx_queue s1 = ack idx # q" "\<not> ?d \<le> wh_now s1"
    using w(2) assms(3) by (auto simp: calm_def can_transport_ready_def sdo_timeout_def msec_def split: option.splits)
  then have "recv_frame u demo_waist k s1 = (?t, Some (ack idx))" for k
    unfolding recv_frame_def Let_def by simp
  then have "wait_sdo_response u demo_waist idx 0 kSdoWriteAck ?d s1 = (?t, Some (cf_data (ack idx)))"
    using o ack_accepted [OF assms(4)]
    by (subst wait_sdo_response.simps) (simp only: Let_def prod.case option.case if_False if_True demo_node)
  then have "sdo_write u demo_waist p idx 0 n s = (?t, True)"
    using ack_accepted(2) [OF assms(4)] by (simp add: sdo_write_def w(1))
  moreover have "calm q ?t"
    by (rule calm_cong [OF _ _ _ _ _ _ _ w(2)]) simp_all
  ultimately show ?thesis
    using w(3) by simp
qed

lemma calm_pause:
  assumes "calm q s"
  shows "\<exists>t. pause u c n s = (t, True) \<and> calm q t \<and> wh_now t = wh_now s + msec n"
proof -
  have "sleep_ms u c n s = s\<lparr>wh_future := [], wh_now := wh_now s + msec n\<rparr>"
    using assms by (simp add: sleep_ms_def await_def calm_def)
  moreover have "calm q (s\<lparr>wh_future := [], wh_now := wh_now s + msec n\<rparr>)"
    by (rule calm_cong [OF _ _ _ _ _ _ _ assms]) (use assms in \<open>simp_all add: calm_def\<close>)
  ultimately show ?thesis
    by (simp add: pause_def)
qed

lemma calm_safe:
  assumes "calm q s"
  shows "\<exists>t. safe_enable_frame c s = (t, True) \<and> calm q t \<and> wh_now t = wh_now s"
  unfolding safe_enable_frame_def send_command_def
  by (rule calm_send [OF assms]) (simp add: position_command_frame_def build_position_frame_command_def Let_def)

lemma calm_confirm:
  assumes "calm q s" "0 < n"
  shows "\<exists>t. confirm_enabled u c n s = (t, True)"
proof -
  let ?t = "s\<lparr>wh_future := [], wh_now := wh_now s + msec 50\<rparr>"
  have "poll_turn u c (wh_now s + msec (nat n)) s = ?t"
    using assms(1) by (auto simp: poll_turn_def calm_def can_transport_ready_def poll_waist_feedback_def await_def
        stamp_changed_def Let_def split: option.splits)
  moreover have "calm q ?t"
    by (rule calm_cong [OF _ _ _ _ _ _ _ assms(1)]) (use assms(1) in \<open>simp_all add: calm_def\<close>)
  then have t: "drive_enabled ?t" "\<not> manufacturer_error_active ?t" "wh_position_valid ?t"
    by (simp_all add: calm_def)
  moreover have "wh_position_valid (fst (poll_waist_position u c 0 ?t))"
    using t(3) by (simp add: poll_waist_position_def take_position_def Let_def)
  moreover have "\<not> wh_now s + msec (nat n) \<le> wh_now s"
    using assms(2) by (simp add: msec_def)
  ultimately show ?thesis
    unfolding confirm_enabled_def by (subst wait_enabled.simps) (simp only: Let_def if_False if_True, blast)
qed

definition calm_step :: "can_frame list \<Rightarrow> init_step \<Rightarrow> bool" where
  "calm_step gone f \<longleftrightarrow> (\<forall>q s. calm (gone @ q) s \<longrightarrow> (\<exists>t. f s = (t, True) \<and> calm q t))"

lemma calm_steps: "list_all2 calm_step gs fs \<Longrightarrow> calm_step (concat gs) (all_steps fs)"
proof (induction gs fs rule: list_all2_induct)
  case (Cons g gs f fs)
  show ?case
    unfolding calm_step_def
  proof (intro allI impI)
    fix q s
    assume "calm (concat (g # gs) @ q) s"
    then obtain s1 where s1: "f s = (s1, True)" "calm (concat gs @ q) s1"
      using Cons.hyps(1) unfolding calm_step_def by (metis append_assoc concat.simps(2))
    then obtain t where "all_steps fs s1 = (t, True)" "calm q t"
      using Cons.IH unfolding calm_step_def by blast
    then show "\<exists>t. all_steps (f # fs) s = (t, True) \<and> calm q t"
      using s1(1) by simp
  qed
qed (simp add: calm_step_def)


lemma calm_step_simps:
  "calm_step [] (pause u c n)" "calm_step [] (safe_enable_frame c)" "calm_step [] (clear_latched_error u c m)"
  "length p = 8 \<Longrightarrow> 0 < m \<Longrightarrow> idx \<in> {kIndexTargetVelocity, kIndexMode, kIndexControlword} \<Longrightarrow>
     calm_step [ack idx] (sdo_write u demo_waist p idx 0 m)"
  using calm_pause [of _ _ u c n] calm_safe [of _ _ c] calm_sdo [of idx _ _ p m u]
  by (simp_all add: calm_step_def) (blast, blast, simp add: clear_latched_error_def calm_def, blast)

definition demo_value :: "u32 \<Rightarrow> bytes \<Rightarrow> can_value" where
  "demo_value i d = \<lparr>cv_id = i, cv_data_length = of_nat (length d), cv_is_fd = True, cv_bitrate_switch = True, cv_data = d\<rparr>"

definition demo_answers :: "u16 list" where
  "demo_answers = [kIndexTargetVelocity, kIndexMode, kIndexControlword, kIndexControlword, kIndexControlword]"

text \<open>All answers in the first wait, then the feedback of an enabled drive.\<close>

definition demo_script :: "(nat \<times> waist_event) list" where
  "demo_script = map (\<lambda>idx. (1, V_frame (demo_value 0x581 (cf_data (ack idx))))) demo_answers @
     [(1, V_frame (demo_value 0x301 [0x20, 0, 0, 0, 0, 0, 0, 0, 0, 0, 0, 0xC0]))]"

definition demo_enabled :: waist_feedback where
  "demo_enabled = \<lparr>wf_position_raw = scast (be_to_i16 0x20 0), wf_velocity_rpm = be_to_i16 0 0,
     wf_current_ma = be_to_i16 0 0, wf_error_code = 0, wf_temperature_tenth_c = be_to_i16 0 0, wf_mode = 0,
     wf_state = 0xC0\<rparr>"

lemma demo_ack_frame:
  assumes "length (wh_rx_queue s) < 32"
  shows "handle_bridge_frame demo_waist (demo_value 0x581 (cf_data (ack idx))) s = s\<lparr>wh_rx_queue := wh_rx_queue s @ [ack idx]\<rparr>"
  using assms
  by (simp add: handle_bridge_frame_def try_update_waist_feedback_def parse_feedback_def demo_waist_def demo_value_def
      ack_def CAN_SFF_MASK_def CAN_EFF_FLAG_def feedback_id_def kFeedbackBaseId_def node_bits_def sdo_rx_id_def
      kSdoRxBaseId_def Let_def)

lemma demo_feedback_frame:
  "handle_bridge_frame demo_waist (demo_value 0x301 [0x20, 0, 0, 0, 0, 0, 0, 0, 0, 0, 0, 0xC0]) s =
     s\<lparr>wh_feedback := demo_enabled, wh_feedback_valid := True, wh_feedback_stamp := wh_now s\<rparr>"
  by (simp add: handle_bridge_frame_def try_update_waist_feedback_def parse_feedback_def demo_waist_def demo_value_def
      demo_enabled_def CAN_SFF_MASK_def CAN_EFF_FLAG_def feedback_id_def kFeedbackBaseId_def node_bits_def Let_def)

definition demo_opened :: waist where
  "demo_opened = forget_feedback (fst (open_can (Inr hub_init) (waist_fresh\<lparr>wh_future := demo_script\<rparr>)))"

lemma demo_opened_facts: "can_transport_ready demo_opened" "wh_port demo_opened = []" "wh_future demo_opened = demo_script"
  "wh_rx_queue demo_opened = []" "wh_now demo_opened = 1000000000" "wh_feedback_stamp demo_opened = 0"
  "wh_bridge demo_opened \<noteq> None"
  by (simp_all add: demo_opened_def open_can_def close_can_def forget_feedback_def waist_fresh_def add_frame_listener_def
      can_transport_ready_def hub_init_def Let_def)

lemma demo_first_feedback:
  assumes "s = demo_opened\<lparr>wh_port := [], wh_sent := f\<rparr>"
  shows "\<exists>t. first_feedback u demo_waist 300 s = (t, True) \<and> calm (map ack demo_answers) t"
proof -
  let ?t = "s\<lparr>wh_future := [], wh_now := 1000000006, wh_rx_queue := map ack demo_answers,
    wh_feedback := demo_enabled, wh_feedback_valid := True, wh_feedback_stamp := 1000000006\<rparr>"
  note s = demo_opened_facts
  have "poll_waist_feedback u demo_waist 300 s = (?t, True)"
    using s(7) by (simp add: poll_waist_feedback_def await_def assms s demo_script_def demo_answers_def stamp_changed_def
        happen_def demo_ack_frame demo_feedback_frame msec_def Let_def)
  moreover have "snd (take_position demo_waist ?t)"
    by (simp add: take_position_def feedback_recent_def msec_def Let_def)
  moreover have "calm (map ack demo_answers) (fst (take_position demo_waist ?t))"
    using s(1) by (simp add: take_position_def feedback_recent_def msec_def Let_def calm_def can_transport_ready_def assms
        drive_enabled_def manufacturer_error_active_def demo_enabled_def kFeedbackStateEnabled_def
        kFeedbackStateBrakeReleased_def kFeedbackStateError_def)
  moreover have "first_feedback u demo_waist 300 s = take_position demo_waist ?t"
    using calculation(1) by (simp only: first_feedback_def poll_waist_position_def prod.case Let_def if_True) simp
  ultimately show ?thesis
    by (cases "take_position demo_waist ?t") (simp only: fst_conv snd_conv, blast)
qed

lemma demo_init: "\<exists>t. init_waist_once u demo_waist 300 demo_opened = (t, True)"
proof -
  have sync: "\<exists>f. send_sync demo_waist demo_opened = (demo_opened\<lparr>wh_port := [], wh_sent := f\<rparr>, True)"
    unfolding send_sync_def using demo_opened_facts by (intro send_succeeds) simp_all
  then obtain f where f: "send_sync demo_waist demo_opened = (demo_opened\<lparr>wh_port := [], wh_sent := f\<rparr>, True)"
    by blast
  obtain s2 where s2: "first_feedback u demo_waist 300 (demo_opened\<lparr>wh_port := [], wh_sent := f\<rparr>) = (s2, True)"
    "calm (map ack demo_answers) s2"
    using demo_first_feedback [OF refl] by blast
  define rest where "rest = drop 2 (butlast (init_steps u demo_waist 300))"
  have steps: "init_steps u demo_waist 300 =
      [send_sync demo_waist, first_feedback u demo_waist 300] @ rest @ [confirm_enabled u demo_waist 300]"
    by (simp add: rest_def init_steps_def enable_steps_def kEnableSequence_def)
  have "list_all2 calm_step [[], [ack kIndexTargetVelocity], [ack kIndexMode], [], [ack kIndexControlword], [],
      [ack kIndexControlword], [], [ack kIndexControlword], [], []] rest"
    by (simp add: rest_def init_steps_def enable_steps_def kEnableSequence_def calm_step_simps sdo_write_defs
        build_sdo_write_i32_def build_sdo_write_u32_def build_sdo_write_i8_def build_sdo_write_u16_def sdo_head_def
        u16_to_le_def u32_to_le_def)
  then have "calm_step (map ack demo_answers) (all_steps rest)"
    using calm_steps by (fastforce simp: demo_answers_def)
  then obtain s3 where s3: "all_steps rest s2 = (s3, True)" "calm [] s3"
    using s2(2) unfolding calm_step_def by (metis append_Nil2)
  obtain t where "confirm_enabled u demo_waist 300 s3 = (t, True)"
    using calm_confirm [OF s3(2), of 300] by auto
  then show ?thesis
    unfolding init_waist_once_def steps by (simp add: f s2(1) init_all_steps_append s3(1))
qed

theorem waist_activation_enabled_witness:
  "\<exists>t. waist_activate False demo_waist (Inr hub_init) (waist_fresh\<lparr>wh_future := demo_script\<rparr>) = (t, True) \<and>
     drive_enabled t \<and> wh_worker t = Some W_started"
proof -
  let ?s = "waist_fresh\<lparr>wh_future := demo_script\<rparr>"
  obtain s2 where i: "init_waist_once False demo_waist 300 demo_opened = (s2, True)"
    using demo_init by blast
  have "init_waist False demo_waist demo_opened = (s2, True)"
    using i by (simp add: init_waist_def demo_waist_def waist_config_default_def numeral_3_eq_3)
  moreover have "snd (open_can (Inr hub_init) ?s)"
    by (simp add: open_can_def add_frame_listener_def Let_def)
  ultimately obtain t where t: "waist_activate False demo_waist (Inr hub_init) ?s = (t, True)"
    by (auto simp: waist_activate_def demo_opened_def Let_def split_beta)
  have "wh_worker ?s = None"
    by (simp add: waist_fresh_def)
  then show ?thesis
    using waist_activation_enabled [OF t] t by blast
qed

section \<open>Deactivation and whole runs\<close>

definition service_frames :: "waist_config \<Rightarrow> sent_frame set" where
  "service_frames c =
     {clear_frame c False, clear_frame c True, sdo_frame c (build_sdo_read kIndexActualPosition 0),
      sdo_frame c (build_sdo_write_u16 kIndexControlword 0 0),
      sdo_frame c (build_sdo_write_u32 kIndexSetZeroPosition 0 1)}"

definition known_frames :: "waist_config \<Rightarrow> sent_frame set" where
  "known_frames c = init_frames c \<union> service_frames c \<union> target_frames c"

lemma runtime_known: "A \<subseteq> known_frames c \<Longrightarrow> A \<union> runtime_frames c b \<subseteq> known_frames c"
  by (auto simp: runtime_frames_def known_frames_def init_frames_def start_frames_def)

lemma sends_known: "sends c A s t \<Longrightarrow> A \<subseteq> known_frames c \<Longrightarrow> adds (known_frames c) s t"
  unfolding sends_def by (rule adds_mono [OF conjunct2 runtime_known])

lemma disable_sends:
  "sends c {clear_frame c False, sdo_frame c (build_sdo_write_u16 kIndexControlword 0 0)} s (disable_drive u c s)"
    (is "sends c ?A s _")
proof (cases "can_transport_ready s")
  case True
  let ?t = "fst (send_command c (build_clear_error_frame_command (node_of c) False) s)"
  have "sends c ?A s ?t"
    by (rule send_command_sends) (simp add: clear_frame_def)
  also have "sends c ?A ?t (fst (sdo_write_u16 u c kIndexControlword 0 0 (wc_timeout_ms c) ?t))"
    unfolding sdo_write_u16_def by (rule sdo_write_sends) simp
  finally show ?thesis
    using True by (simp add: disable_drive_def)
next
  case False
  then show ?thesis
    by (simp add: disable_drive_def sends_refl)
qed

lemma clear_error_sends: "sends c (init_frames c) s (fst (clear_waist_error u c s))"
proof -
  obtain s1 high where a: "send_command c (build_clear_error_frame_command (node_of c) True) s = (s1, high)"
    by fastforce
  obtain s2 low where b: "send_command c (build_clear_error_frame_command (node_of c) False) (sleep_ms u c 50 s1) = (s2, low)"
    by fastforce
  obtain s3 cl where d: "wait_error_cleared u c (wh_now s2 + msec (nat (wc_timeout_ms c))) s2 = (s3, cl)"
    by fastforce
  obtain s4 ok where e: "init_waist_once u c (wc_init_timeout_ms c) s3 = (s4, ok)"
    by fastforce
  have m: "clear_frame c x \<in> init_frames c" for x
    by (cases x) (simp_all add: init_frames_def start_frames_def)
  have 1: "sends c (init_frames c) s s1"
    using send_command_sends [OF m [of True, unfolded clear_frame_def]] a by (metis fst_conv)
  also have "sends c (init_frames c) s1 (sleep_ms u c 50 s1)"
    by (rule sleep_sends)
  also have "sends c (init_frames c) (sleep_ms u c 50 s1) s2"
    using send_command_sends [OF m [of False, unfolded clear_frame_def]] b by (metis fst_conv)
  finally have 2: "sends c (init_frames c) s s2" .
  also have "sends c (init_frames c) s2 s3"
    using wait_error_cleared_sends d by (metis fst_conv)
  finally have 3: "sends c (init_frames c) s s3" .
  also have "sends c (init_frames c) s3 s4"
    using sendingD [OF init_waist_once_sending] e by (metis fst_conv)
  finally have 4: "sends c (init_frames c) s (s4\<lparr>wh_initialized := ok\<rparr>)"
    by (simp add: sends_def adds_def)
  show ?thesis
    using 1 2 3 4 by (auto simp: clear_waist_error_def a b d e intro: sends_refl)
qed

lemma set_zero_sends: "sends c (service_frames c) s (fst (set_waist_zero_position u c s))"
proof -
  let ?t = "wc_timeout_ms c" and ?A = "service_frames c"
  have f: "sdo_frame c (build_sdo_read kIndexActualPosition 0) \<in> ?A"
    "sdo_frame c (build_sdo_write_u16 kIndexControlword 0 0) \<in> ?A"
    "sdo_frame c (build_sdo_write_u32 kIndexSetZeroPosition 0 1) \<in> ?A"
    by (simp_all add: service_frames_def)
  obtain s1 before where a: "sdo_read_i32 u c kIndexActualPosition 0 ?t s = (s1, before)"
    by fastforce
  obtain s2 di where b: "sdo_write_u16 u c kIndexControlword 0 0 ?t s1 = (s2, di)"
    by fastforce
  obtain s3 z where d: "sdo_write_u32 u c kIndexSetZeroPosition 0 1 ?t (sleep_ms u c 50 s2) = (s3, z)"
    by fastforce
  obtain s4 after where e: "sdo_read_i32 u c kIndexActualPosition 0 ?t (sleep_ms u c 100 s3) = (s4, after)"
    by fastforce
  have "sends c ?A s s1"
    using sdo_read_sends [OF f(1)] a by (metis fst_conv)
  also have "sends c ?A s1 s2"
    using sdo_write_sends [OF f(2)] b unfolding sdo_write_defs by (metis fst_conv)
  finally have 2: "sends c ?A s s2" .
  also have "sends c ?A s2 (sleep_ms u c 50 s2)"
    by (rule sleep_sends)
  also have "sends c ?A (sleep_ms u c 50 s2) s3"
    using sdo_write_sends [OF f(3)] d unfolding sdo_write_defs by (metis fst_conv)
  finally have 3: "sends c ?A s s3" .
  also have "sends c ?A s3 (sleep_ms u c 100 s3)"
    by (rule sleep_sends)
  also have "sends c ?A (sleep_ms u c 100 s3) s4"
    using sdo_read_sends [OF f(1)] e by (metis fst_conv)
  finally have 4: "sends c ?A s s4" .
  then have "sends c ?A s (s4\<lparr>wh_initialized := False, wh_feedback_valid := False, wh_position_valid := False,
      wh_command := Fin 0, wh_velocity_command := Fin 0\<rparr>)"
    by (simp add: sends_def adds_def running_def)
  then show ?thesis
    using 2 3 by (auto simp: set_waist_zero_position_def Let_def a b d e intro: sends_refl)
qed

lemma serve_adds: "adds (known_frames c) s (serve u c r s)"
proof (cases r)
  case Clear_error
  then show ?thesis
    using sends_known [OF clear_error_sends, of c s u] by (simp add: serve_def known_frames_def Un_assoc)
next
  case Set_zero
  have "service_frames c \<subseteq> known_frames c"
    by (auto simp: known_frames_def)
  then show ?thesis
    using sends_known [OF set_zero_sends, of c s u] Set_zero by (simp add: serve_def)
qed

lemma serves_add: "adds (known_frames c) s (fold (serve u c) calls s)"
proof (induction calls arbitrary: s)
  case (Cons r calls)
  have "adds (known_frames c) s (serve u c r s)"
    by (rule serve_adds)
  also have "adds (known_frames c) (serve u c r s) (fold (serve u c) calls (serve u c r s))"
    by (rule Cons.IH)
  finally show ?case
    by simp
qed simp

lemma activate_adds: "adds (known_frames c) s (fst (waist_activate u c acquired s))"
proof -
  obtain s1 ok where o: "open_can acquired s = (s1, ok)"
    by fastforce
  obtain s2 b where i: "init_waist u c (forget_feedback s1) = (s2, b)"
    by fastforce
  have "wh_sent s1 = wh_sent s"
    using o by (auto simp: open_can_def close_can_def Let_def split: sum.splits prod.splits)
  then have s1: "wh_sent (forget_feedback s1) = wh_sent s" "wh_sent s1 = wh_sent s"
    by (simp_all add: forget_feedback_def)
  have "init_frames c \<subseteq> known_frames c"
    by (auto simp: known_frames_def)
  then have "adds (known_frames c) (forget_feedback s1) s2"
    using sends_known [OF sendingD [OF init_attempts_sending]] i unfolding init_waist_def by (metis fst_conv)
  then have "adds (known_frames c) s s2"
    using s1(1) by (simp add: adds_def)
  then show ?thesis
    using s1(2) by (auto simp: waist_activate_def o i close_can_def start_runtime_io_worker_def hold_measured_def adds_def
        Let_def split: option.split)
qed

lemma deactivate_adds: "adds (known_frames c) s (waist_deactivate u c calls s)"
proof -
  let ?s0 = "stop_runtime_io_worker s"
  have "{clear_frame c False, sdo_frame c (build_sdo_write_u16 kIndexControlword 0 0)} \<subseteq> known_frames c"
    by (auto simp: known_frames_def service_frames_def)
  then have "adds (known_frames c) ?s0 (disable_drive u c ?s0)"
    by (rule sends_known [OF disable_sends])
  also have "adds (known_frames c) (disable_drive u c ?s0) (fold (serve u c) calls (disable_drive u c ?s0))"
    by (rule serves_add)
  finally show ?thesis
    by (simp add: waist_deactivate_def close_can_def stop_runtime_io_worker_def adds_def Let_def)
qed

text \<open>Everything that can be done to the driver, and what the environment holds ready for its waits.\<close>

datatype waist_input =
    Do_event nat waist_event
  | Do_service waist_service
  | Do_activate "string + hub"
  | Do_deactivate "waist_service list"
  | Do_prepare "(nat \<times> waist_event) list" "bool list"

definition waist_step :: "bool \<Rightarrow> waist_config \<Rightarrow> waist \<Rightarrow> waist_input \<Rightarrow> waist" where
  "waist_step u c s x =
     (case x of
        Do_event gap e \<Rightarrow> happen u c e (s\<lparr>wh_now := wh_now s + gap\<rparr>)
      | Do_service r \<Rightarrow> serve u c r s
      | Do_activate acquired \<Rightarrow> fst (waist_activate u c acquired s)
      | Do_deactivate calls \<Rightarrow> waist_deactivate u c calls s
      | Do_prepare events port \<Rightarrow> s\<lparr>wh_future := events, wh_port := port\<rparr>)"

lemma waist_step_adds: "adds (known_frames c) s (waist_step u c s x)"
proof (cases x)
  case (Do_event gap e)
  have "adds (known_frames c) (s\<lparr>wh_now := wh_now s + gap\<rparr>) (waist_step u c s x)"
    using sends_known [OF happen_sends [of c "{}"]] by (simp add: Do_event waist_step_def)
  then show ?thesis
    by (simp add: adds_def)
qed (simp_all add: waist_step_def serve_adds activate_adds deactivate_adds)

interpretation waist_machine: guarded_machine "waist_step u c" "\<lambda>s. set (wh_sent s) \<subseteq> known_frames c" for u c
proof
  fix s :: waist and x
  assume "set (wh_sent s) \<subseteq> known_frames c"
  then show "set (wh_sent (waist_step u c s x)) \<subseteq> known_frames c"
    using waist_step_adds [of c s u x] by (auto simp: adds_def)
qed

text \<open>C30: Over every run of activations, deactivations, services, cycles, worker turns and received frames the
  driver sends nothing but the sync frame, the two clear-error frames, position commands, and eight SDO
  requests: the three control words of the enable sequence and the one that disables, profile velocity
  mode with target velocity zero, the zero position and the read of the actual position.\<close>

theorem waist_frames_known:
  "set (wh_sent (run_events (waist_step u c) waist_fresh xs)) \<subseteq> known_frames c"
  by (rule waist_machine.run_inv) (simp add: waist_fresh_def)

text \<open>A deactivation without a service call in progress stops the worker, asks the drive to disable and sends
  nothing else, leaves the bridge closed and the feedback invalid, and from then on no event makes the
  driver send anything.\<close>

theorem waist_deactivated_silent:
  "let r = waist_deactivate u c [] s
   in wh_bridge r = None \<and> wh_worker r = None \<and> \<not> wh_initialized r \<and> \<not> wh_position_valid r \<and>
      \<not> wh_feedback_valid r \<and>
      adds {clear_frame c False, sdo_frame c (build_sdo_write_u16 kIndexControlword 0 0)} s r \<and>
      wh_sent (waist_run u c es r) = wh_sent r"
proof -
  let ?s0 = "stop_runtime_io_worker s" and ?r = "waist_deactivate u c [] s"
  let ?A = "{clear_frame c False, sdo_frame c (build_sdo_write_u16 kIndexControlword 0 0)}"
  have "sends c ?A ?s0 (disable_drive u c ?s0)"
    by (rule disable_sends)
  moreover have "\<not> running ?s0"
    by (simp add: running_def stop_runtime_io_worker_def)
  ultimately have d: "wh_worker (disable_drive u c ?s0) = None" "adds ?A ?s0 (disable_drive u c ?s0)"
    by (simp_all add: sends_def runtime_frames_def running_def)
  then have r: "wh_worker ?r = None" "adds ?A s ?r"
    by (simp_all add: waist_deactivate_def close_can_def Let_def) (simp add: adds_def stop_runtime_io_worker_def)
  have quiet: "wh_worker t = None \<Longrightarrow> wh_sent (waist_run u c es t) = wh_sent t" for t
  proof (induction es arbitrary: t)
    case (Cons ge es)
    obtain gap e where ge: "ge = (gap, e)"
      by fastforce
    let ?t = "happen u c e (t\<lparr>wh_now := wh_now t + gap\<rparr>)"
    have "wh_worker ?t = None" "wh_sent ?t = wh_sent t"
      using Cons.prems happen_adds [of c "t\<lparr>wh_now := wh_now t + gap\<rparr>" u e]
      by (simp_all add: happen_worker worker_frames_def adds_def)
    then show ?case
      using Cons.IH [of ?t] by (simp add: waist_run_def ge)
  qed (simp add: waist_run_def)
  show ?thesis
    using r quiet [OF r(1)] by (simp add: Let_def) (simp add: waist_deactivate_def close_can_def Let_def)
qed

end
