(* ===== verification/Spec2Isabelle.thy ===== *)
theory Spec2Isabelle
  imports Cia402 EthercatBackend PdoMapping EthercatFrame EthercatCoe LiftUnits FeedbackContinuity
    MotionProfile ZeroOffset WaistCan UsbBridge LiftHardware LiftSafety LiftMotion LiftMaintenance
    LiftLifecycle LiftConfigure LiftParameters LiftProtocol WaistProps
begin

text \<open>
  This development verifies the lower-level motion stack of the joint controller: the C++ code under
  \<open>src/src/joint_hardware\<close> that drives the lift (an EtherCAT servo on a vertical axis) and the waist
  (a CAN motor behind a USB bridge), and the Heavy gateway under \<open>src/src/robot_lower_gateway\<close>
  through which the upper computer commands the lift and both arms.

  \<^bold>\<open>The program.\<close> The control loop calls \<open>LiftHardware::read\<close> and \<open>write\<close> every 10 ms. \<open>read\<close> takes the
  process data of the drive from a backend, converts units, watches for jumps, limits and excess
  speed. \<open>write\<close> classifies faults, lets the CiA 402 controller choose the control word, computes a
  velocity from the commanded position and velocity, and sends both. A second thread serves
  requests (brake, homing, zero, emergency stop, safety reset) and sets flags that the next
  cycle reads. Above it the lift controller turns requests, trajectories, streams and the gateway's
  commands into one position, velocity and power command per cycle, with a trajectory profile; below it lie the process data
  images, the mapping of the drive's objects, the EtherCAT frames and the CoE mailbox. The gateway
  grants one owner at a time a lease, validates its commands, keeps at most one of them in flight to
  the lower controllers until both have acknowledged it, watches feedback and time in a
  watchdog, and locks the lift brake when it revokes.

  \<^bold>\<open>Theories.\<close>
  \<^item> \<open>Prelude\<close>: machine types, little-endian accessors (repeated in \<open>ethercat_backend.cpp\<close>,
    \<open>ethercat_frame.cpp\<close>, \<open>ethercat_coe.cpp\<close>), errors as sums, and the interfaces \<open>byte_codec\<close>,
    \<open>guarded_machine\<close> and \<open>latched_machine\<close>, each interpreted on the components below.
  \<^item> \<open>Doubles\<close>: \<open>double\<close> with NaN and infinities; finite arithmetic is exact.
  \<^item> \<open>Cia402\<close> (\<open>lift/cia402.cpp\<close>): status parsing and the controller; when motion is allowed, the schedule
    of fault resets, bounds of its counters.
  \<^item> \<open>EthercatBackend\<close> (\<open>lift/ethercat_backend.cpp\<close>): process data images, the simulated drive and its object
    dictionary; lossless images, read-back of parameters.
  \<^item> \<open>PdoMapping\<close> (\<open>lift/pdo_mapping.cpp\<close>): the mapping plan; refinement to an abstract object dictionary with
    the ordering rules of the drive manual; the interface \<open>pdo_backend\<close>.
  \<^item> \<open>EthercatFrame\<close>, \<open>EthercatCoe\<close> (\<open>lift/ethercat_frame.cpp\<close>, \<open>lift/ethercat_coe.cpp\<close>): encoders and
    decoders; round trips and exact acceptance.
  \<^item> \<open>LiftUnits\<close>, \<open>FeedbackContinuity\<close>, \<open>MotionProfile\<close>, \<open>ZeroOffset\<close> (\<open>lift/lift_units.cpp\<close>,
    \<open>feedback_continuity.cpp\<close>, \<open>lift_motion_profile.cpp\<close>, \<open>zero_offset_store.cpp\<close>): conversions, jump guard,
    trajectory profile over an arbitrary generator, persistent zero.
  \<^item> \<open>LiftHardware\<close> (\<open>lift/lift_hardware.cpp\<close>): the state of the driver as records, \<open>hw_read\<close>,
    \<open>hw_write\<close>, the command law and the services, one definition per stage of the code.
    \<open>LiftFrames\<close> holds what each stage leaves unchanged, \<open>LiftSafety\<close> the gates of the transmitted
    velocity, the emergency stop, the latches over runs and the recovery of the transport,
    \<open>LiftMotion\<close> the bounds of the command law, \<open>LiftMaintenance\<close> the service thread with homing and
    the maintenance zero interleaved with the cycles. \<open>LiftLifecycle\<close> has configuration, activation and
    deactivation, and the bootstrap loop that waits for the first trustworthy feedback. \<open>LiftConfigure\<close>
    has the bring-up of the drive over any backend with an object dictionary (the interface
    \<open>sdo_drive\<close>), equal to declarative checks of the objects, and the object diagnostics.
    \<open>LiftParameters\<close> has \<open>parse_parameters\<close> as a list of steps, what accepted parameters guarantee, and the
    speed bound from parameters and drive to the command law.
  \<^item> \<open>LiftController\<close> (\<open>lift/lift_controller.cpp\<close>): the controller above the driver: driver status, brake
    gate, profile commands, trajectories, streams, jog, soft stop, confirmed holds, re-zero, fault history,
    status text, callbacks and the two services, as one machine \<open>node_step\<close> whose events interleave
    the control thread with the callbacks; a callback that queues a command sets the generation and writes
    the buffer in two steps, as the code does. \<open>LiftControl\<close> has what a cycle never writes, the modes it can
    enter, the invariant of the whole node (an interpretation of \<open>guarded_machine\<close>) and that motion starts
    only behind the gate; \<open>LiftControlProps\<close> the safety of everything commanded, emergency stop, lost
    STOP, re-zero and confirmed holds; \<open>LiftProtocol\<close> what its clients rely on: services that end, the
    committed STOP, the agreement with the gateway's commands, the fault history as a list.
  \<^item> \<open>WaistCan\<close>, \<open>UsbBridge\<close> (\<open>protocol/waist_can.cpp\<close>, \<open>transport/usb_bridge_hub.cpp\<close>): waist protocol,
    framing and resynchronisation of the serial bridge, bit-rate handshake.
  \<^item> \<open>HardwareStateBus\<close> (\<open>hardware_state_bus.cpp\<close>): the shared states of the axes; the interface \<open>axis_store\<close>,
    interpreted for the commands and the states. \<open>WaistConfigure\<close>, \<open>WaistHardware\<close>, \<open>WaistLifecycle\<close>
    (\<open>waist_hardware.hpp\<close>, \<open>waist/*.cpp\<close>): the parameters and the configuration file; the control cycle, the
    worker that sends and the reception; the SDO exchanges, initialization, services and transitions. A
    wait takes the events of the other threads from a list until its condition or its deadline, and its
    loops have termination proofs. \<open>WaistFrames\<close> has what each operation can send, \<open>WaistProps\<close> the gates and limits
    of the targets, the loss and return of feedback, what an activation needs and leaves, the
    durations, and the frames of whole runs (an interpretation of \<open>guarded_machine\<close>).
  \<^item> \<open>HeavyGateway\<close>, \<open>HeavyLease\<close> (\<open>heavy_gateway_v1.cpp\<close>): messages, state, readiness and validation; then
    one definition per handler section between two acquisitions of the mutex, and the machine whose
    events are these sections in any order. \<open>HeavyProps\<close> has the invariant of the command in flight, the
    safety of everything published, the order of accepted sequence numbers and the lease gate;
    \<open>HeavySafety\<close> bounded and unbounded revocation, the admission of \<open>FOLLOW_POSITION\<close>, the brake and
    the feedback masks.
  This theory adds what spans components: the enable sequence of the controller against the
  simulated drive.

  \<^bold>\<open>Modelling.\<close> Members of a class are fields of a record, a call is a function on the record, a
  sequence of calls is \<open>run_events\<close>. Integers have their C++ width as words; times are integers in
  nanoseconds; strings are character lists. A result that C++ leaves unspecified (\<open>std::llround\<close> of a
  NaN) is an option or an argument. Everything that comes from outside is an argument: the
  trajectory generator (Ruckig), the clock, file system operations, what the bus returns, replies
  of native services, lease identifiers. No
  model uses fuel: every loop is structural or has a termination proof, and a wait is one
  poll per step, with its end proved separately, or the function of the events it takes.

  \<^bold>\<open>Not modelled.\<close> ROS wiring and log lines; the driver's status message; the export of the interfaces; the
  EtherLab and vendor backends, which only call libraries outside the repository; serial and terminal I/O; vendored code. In the
  gateway the diagnostics (latencies, header delays, rejection counts per reason, log lines) are left
  out. In the waist interface the text of the published status is left out, a turn of the worker is one
  step, writes on the port take no time, and a service call that overlaps a deactivation is one
  that starts after the drive was disabled. The gateway's policies and node and the arm stack (its driver,
  controllers, planners and control services) are not modelled.
\<close>

section \<open>The enable sequence in closed loop\<close>

text \<open>The CiA 402 controller against the simulated drive: in every cycle the controller sees the
  drive's process data, asks for enable, and its control word goes back to the drive.\<close>

definition loop_inputs :: "mock_backend \<Rightarrow> cia402_inputs" where
  "loop_inputs m =
     \<lparr>ci_status_word = tx_status_word (mb_input m), ci_error_code = tx_error_code (mb_input m),
      ci_mode_display = tx_mode_display (mb_input m), ci_expected_mode = 9,
      ci_link_operational = (mb_link_state m = L_operational), ci_pdo_fresh = mb_pdo_fresh m,
      ci_working_counter_ok = (mb_working_counter m \<ge> 1), ci_request_enable = True,
      ci_request_quick_stop = False, ci_request_fault_reset = True\<rparr>"

definition loop_step :: "cia402_controller \<times> mock_backend \<Rightarrow> cia402_controller \<times> mock_backend" where
  "loop_step s =
     (let (d, c) = cia402_step (fst s) (loop_inputs (snd s));
          (_, m) = mock_write_pdo \<lparr>rx_control_word = cd_control_word d,
            rx_target_velocity_units_per_s = 0, rx_torque_feedforward = 0\<rparr> (snd s)
      in (c, m))"

definition loop_healthy :: "mock_backend \<Rightarrow> bool" where
  "loop_healthy m \<longleftrightarrow> mb_link_state m = L_operational \<and> mb_pdo_fresh m \<and> mb_working_counter m \<ge> 1 \<and>
     mb_mode m = 9 \<and> tx_mode_display (mb_input m) = 9 \<and> tx_error_code (mb_input m) = 0"

text \<open>The status word the drive answers to the controller's word in each state.\<close>

fun answered :: "cia402_state \<Rightarrow> u16" where
  "answered S_ready_to_switch_on = 0x0023"
| "answered S_switched_on = 0x0027"
| "answered S_operation_enabled = 0x0027"
| "answered S_quick_stop_active = 0x0027"
| "answered _ = 0x0021"

lemma loop_answer:
  assumes "loop_healthy m" "parse_cia402_status (tx_status_word (mb_input m)) \<noteq> S_fault"
  shows "tx_status_word (mb_input (snd (loop_step (c, m)))) =
      answered (parse_cia402_status (tx_status_word (mb_input m)))"
    and "loop_healthy (snd (loop_step (c, m)))"
proof -
  let ?i = "loop_inputs m"
  have ok: "cia402_healthy ?i" "\<not> cia402_faulty ?i" "ci_request_enable ?i" "\<not> ci_request_quick_stop ?i"
    using assms by (auto simp: loop_inputs_def loop_healthy_def cia402_healthy_def cia402_faulty_def)
  then have word: "cd_control_word (fst (cia402_step c ?i)) =
      enable_word (parse_cia402_status (tx_status_word (mb_input m)))"
    by (simp add: cia402_step_def cia402_observe_def Let_def) (simp add: loop_inputs_def)
  note defs = loop_step_def mock_write_pdo_def mock_drive_answer_def mock_integrate_def Let_def
    case_prod_beta word
  show "tx_status_word (mb_input (snd (loop_step (c, m)))) =
      answered (parse_cia402_status (tx_status_word (mb_input m)))"
    using assms by (cases "parse_cia402_status (tx_status_word (mb_input m))")
      (simp_all add: defs loop_healthy_def)
  show "loop_healthy (snd (loop_step (c, m)))"
    using assms by (cases "parse_cia402_status (tx_status_word (mb_input m))")
      (simp_all add: defs loop_healthy_def)
qed

lemma parse_answered:
  "parse_cia402_status (answered st) =
     (case st of S_ready_to_switch_on \<Rightarrow> S_switched_on
      | S_switched_on \<Rightarrow> S_operation_enabled | S_operation_enabled \<Rightarrow> S_operation_enabled
      | S_quick_stop_active \<Rightarrow> S_operation_enabled | _ \<Rightarrow> S_ready_to_switch_on)"
  by (cases st) (simp_all add: parse_cia402_status_def)

lemma loop_iterate:
  assumes "loop_healthy (snd s)" "parse_cia402_status (tx_status_word (mb_input (snd s))) \<noteq> S_fault"
  shows "parse_cia402_status (tx_status_word (mb_input (snd ((loop_step ^^ n) s)))) =
      ((\<lambda>st. parse_cia402_status (answered st)) ^^ n)
        (parse_cia402_status (tx_status_word (mb_input (snd s)))) \<and>
    loop_healthy (snd ((loop_step ^^ n) s)) \<and>
    parse_cia402_status (tx_status_word (mb_input (snd ((loop_step ^^ n) s)))) \<noteq> S_fault"
proof (induction n)
  case 0
  with assms show ?case by simp
next
  case (Suc n)
  obtain c m where cm: "(loop_step ^^ n) s = (c, m)" by fastforce
  have "parse_cia402_status (answered st) \<noteq> S_fault" for st
    unfolding parse_answered by (cases st) simp_all
  moreover have "loop_healthy m" "parse_cia402_status (tx_status_word (mb_input m)) \<noteq> S_fault"
    "parse_cia402_status (tx_status_word (mb_input m)) = ((\<lambda>st. parse_cia402_status (answered st)) ^^ n)
      (parse_cia402_status (tx_status_word (mb_input (snd s))))"
    using Suc [unfolded cm snd_conv] by blast+
  ultimately show ?case
    using loop_answer [of m c] by (simp add: cm)
qed

text \<open>C34: The enable sequence succeeds: with a running drive in CSV mode that reports no error and is not in
  the fault state, the controller brings it to operation enabled within three cycles from whatever
  status it starts, and keeps it there in every later cycle.\<close>

theorem enable_reached_and_kept:
  assumes "loop_healthy m" "parse_cia402_status (tx_status_word (mb_input m)) \<noteq> S_fault" "3 \<le> n"
  shows "parse_cia402_status (tx_status_word (mb_input (snd ((loop_step ^^ n) (c, m))))) =
    S_operation_enabled"
proof -
  let ?f = "\<lambda>st. parse_cia402_status (answered st)"
  have kept: "(?f ^^ k) S_operation_enabled = S_operation_enabled" for k
    by (induction k) (simp_all add: parse_answered)
  have three: "(?f ^^ 3) st = S_operation_enabled" for st
    by (cases st) (simp_all add: parse_answered eval_nat_numeral)
  obtain k where "n = k + 3"
    using assms(3) by (metis le_add_diff_inverse2)
  then have "(?f ^^ n) st = S_operation_enabled" for st
    by (simp only: funpow_add comp_apply three kept)
  with loop_iterate [of "(c, m)" n] assms(1,2) show ?thesis
    by simp
qed

definition started_mock :: mock_backend where
  "started_mock = snd (mock_start (snd (mock_configure_slave slave_config_default
     (snd (mock_initialize master_config_default mock_new)))))"

theorem enable_reached_and_kept_witness:
  "parse_cia402_status (tx_status_word (mb_input (snd ((loop_step ^^ 3) (cia402_init 3 10, started_mock))))) =
    S_operation_enabled"
proof (rule enable_reached_and_kept)
  show "loop_healthy started_mock"
    "parse_cia402_status (tx_status_word (mb_input started_mock)) \<noteq> S_fault"
    by (simp_all add: loop_healthy_def started_mock_def mock_start_def mock_configure_slave_def
        mock_initialize_def master_config_default_def mock_new_def lift_tx_pdo_default_def
        mock_idle_word_def parse_cia402_status_def Let_def)
qed simp

end
